(* ===== verification/Prelude.thy ===== *)
theory Prelude
  imports Complex_Main "HOL-Library.Multiset" "HOL-Library.AList" "HOL-Library.Sublist"
    "HOL-Library.List_Lexorder" "HOL-Library.Char_ord" "HOL-Library.Product_Lexorder"
begin

text \<open>
  Shared ground of the development: the values, errors and strings of the Python that the
  component theories model, and the generic lemmas they use.

  Conventions. A Python \<open>str\<close> is a \<open>string\<close> (the bytes of its UTF-8 form; the classifications
  \<open>isalnum\<close>, \<open>isdigit\<close>, \<open>lower\<close> and \<open>upper\<close> are those of the ASCII range). A Python \<open>int\<close> is an
  \<open>int\<close>, a \<open>float\<close> a \<open>rat\<close>: every finite float is a rational and comparison, \<open>min\<close> and \<open>max\<close> are exact;
  the rounding of float arithmetic is not modelled. A \<open>dict\<close> is an association list in insertion order,
  written by \<open>AList.update\<close> (which overwrites in place and appends a new key, as Python does) and read
  by \<open>map_of\<close>. An exception is the \<open>Inl\<close> of a result.
\<close>

section \<open>Errors and results\<close>

datatype py_error =
    ValueError string
  | KeyError string
  | TypeError string
  | RuntimeError string
  | FileNotFoundError string
  | InferenceInputError string
  | InferenceJobError string
  | BackendNotAvailableError string
  | SqlExecutionError string
  | SQLAlchemyError string
  | OSError string
  | OverflowError string
  | AttributeError string

text \<open>\<open>str(err)\<close>.\<close>

primrec err_text :: "py_error \<Rightarrow> string" where
  "err_text (ValueError s) = s"
| "err_text (KeyError s) = s"
| "err_text (TypeError s) = s"
| "err_text (RuntimeError s) = s"
| "err_text (FileNotFoundError s) = s"
| "err_text (InferenceInputError s) = s"
| "err_text (InferenceJobError s) = s"
| "err_text (BackendNotAvailableError s) = s"
| "err_text (SqlExecutionError s) = s"
| "err_text (SQLAlchemyError s) = s"
| "err_text (OSError s) = s"
| "err_text (OverflowError s) = s"
| "err_text (AttributeError s) = s"

type_synonym 'a result = "py_error + 'a"

definition rbind :: "'a result \<Rightarrow> ('a \<Rightarrow> 'b result) \<Rightarrow> 'b result" where
  "rbind r f = (case r of Inl e \<Rightarrow> Inl e | Inr a \<Rightarrow> f a)"

lemma rbind_simps [simp]: "rbind (Inl e) f = Inl e" "rbind (Inr a) f = f a"
  by (simp_all add: rbind_def)

lemma rbind_Inr_iff: "rbind r f = Inr b \<longleftrightarrow> (\<exists>a. r = Inr a \<and> f a = Inr b)"
  by (cases r) auto

text \<open>Evaluation of a list comprehension whose body may raise: the first error wins.\<close>

fun rmap :: "('a \<Rightarrow> 'b result) \<Rightarrow> 'a list \<Rightarrow> 'b list result" where
  "rmap f [] = Inr []"
| "rmap f (x # xs) = rbind (f x) (\<lambda>y. rbind (rmap f xs) (\<lambda>ys. Inr (y # ys)))"

lemma rmap_Inr_iff: "rmap f xs = Inr ys \<longleftrightarrow> list_all2 (\<lambda>x y. f x = Inr y) xs ys"
proof (induction xs arbitrary: ys)
  case Nil
  then show ?case by auto
next
  case (Cons x xs)
  then show ?case by (cases ys) (auto simp: rbind_Inr_iff)
qed

lemma rmap_length: "rmap f xs = Inr ys \<Longrightarrow> length ys = length xs"
  by (auto simp: rmap_Inr_iff dest: list_all2_lengthD)

section \<open>Actions on a state\<close>

text \<open>
  Code that changes a state and may raise half way: the state at the time of the exception is the
  second component of the outcome.
\<close>

type_synonym ('s, 'a) act = "'s \<Rightarrow> 'a result \<times> 's"

definition act_bind :: "('s, 'a) act \<Rightarrow> ('a \<Rightarrow> ('s, 'b) act) \<Rightarrow> ('s, 'b) act" where
  "act_bind m f s = (case m s of (Inl e, s') \<Rightarrow> (Inl e, s') | (Inr a, s') \<Rightarrow> f a s')"

definition act_return :: "'a \<Rightarrow> ('s, 'a) act" where
  "act_return a s = (Inr a, s)"

definition act_lift :: "'a result \<Rightarrow> ('s, 'a) act" where
  "act_lift r s = (r, s)"

definition act_read :: "('s \<Rightarrow> 'a result) \<Rightarrow> ('s, 'a) act" where
  "act_read f s = (f s, s)"

definition act_modify :: "('s \<Rightarrow> 's) \<Rightarrow> ('s, unit) act" where
  "act_modify f s = (Inr (), f s)"

text \<open>An operation that returns a value and the next state, or raises without changing it.\<close>

definition act_update :: "('s \<Rightarrow> ('a \<times> 's) result) \<Rightarrow> ('s, 'a) act" where
  "act_update f s = (case f s of Inl e \<Rightarrow> (Inl e, s) | Inr (a, s') \<Rightarrow> (Inr a, s'))"

named_theorems act_simps "evaluation of actions"

lemma act_apply [act_simps]:
  "act_return a s = (Inr a, s)" "act_lift r s = (r, s)" "act_read f s = (f s, s)"
  "act_modify g s = (Inr (), g s)"
  by (simp_all add: act_return_def act_lift_def act_read_def act_modify_def)

lemma act_bind_Inr: "m s = (Inr a, s') \<Longrightarrow> act_bind m f s = f a s'"
  by (simp add: act_bind_def)

lemma act_bind_Inl: "m s = (Inl e, s') \<Longrightarrow> act_bind m f s = (Inl e, s')"
  by (simp add: act_bind_def)

lemma act_bind_step [act_simps]:
  "act_bind (act_modify h) f1 s = f1 () (h s)"
  "act_bind (act_return a) f2 s = f2 a s"
  "act_bind (act_lift r) f3 s = (case r of Inl e \<Rightarrow> (Inl e, s) | Inr x \<Rightarrow> f3 x s)"
  "act_bind (act_read g) f4 s = (case g s of Inl e \<Rightarrow> (Inl e, s) | Inr y \<Rightarrow> f4 y s)"
  by (simp_all add: act_bind_def act_apply)

lemma act_bind_InrE:
  assumes "act_bind m f s = (Inr b, t)"
  obtains a s' where "m s = (Inr a, s')" "f a s' = (Inr b, t)"
  using assms by (auto simp: act_bind_def split: prod.splits sum.splits)

lemma act_bind_InlE:
  assumes "act_bind m f s = (Inl e, t)"
  obtains (first) "m s = (Inl e, t)" | (second) a s' where "m s = (Inr a, s')" "f a s' = (Inl e, t)"
  using assms by (auto simp: act_bind_def split: prod.splits sum.splits)

lemma act_update_Inr_iff: "act_update f s = (Inr a, t) \<longleftrightarrow> f s = Inr (a, t)"
  by (auto simp: act_update_def split: sum.splits)

lemma act_update_Inl_iff: "act_update f s = (Inl e, t) \<longleftrightarrow> f s = Inl e \<and> t = s"
  by (auto simp: act_update_def split: sum.splits)

lemma act_step_Inr_iff:
  "act_return a s = (Inr b, t) \<longleftrightarrow> b = a \<and> t = s"
  "act_lift r s = (Inr b, t) \<longleftrightarrow> r = Inr b \<and> t = s"
  "act_read g s = (Inr b, t) \<longleftrightarrow> g s = Inr b \<and> t = s"
  "act_modify h s = (Inr u, t) \<longleftrightarrow> t = h s"
  by (auto simp: act_simps)

lemma act_step_Inl_iff:
  "act_return a s = (Inl e, t) \<longleftrightarrow> False"
  "act_lift r s = (Inl e, t) \<longleftrightarrow> r = Inl e \<and> t = s"
  "act_read g s = (Inl e, t) \<longleftrightarrow> g s = Inl e \<and> t = s"
  "act_modify h s = (Inl e, t) \<longleftrightarrow> False"
  by (auto simp: act_simps)

section \<open>Python dictionaries\<close>

abbreviation dict_set :: "'k \<Rightarrow> 'v \<Rightarrow> ('k \<times> 'v) list \<Rightarrow> ('k \<times> 'v) list" where
  "dict_set \<equiv> AList.update"

abbreviation dict_keys :: "('k \<times> 'v) list \<Rightarrow> 'k list" where
  "dict_keys d \<equiv> map fst d"

abbreviation dict_ok :: "('k \<times> 'v) list \<Rightarrow> bool" where
  "dict_ok d \<equiv> distinct (map fst d)"

named_theorems dict_simps "reading a dictionary after writing it"

lemma map_of_dict_set [dict_simps, simp]: "map_of (dict_set k v d) = (map_of d)(k \<mapsto> v)"
  by (rule update_conv')

lemma dict_ok_set [dict_simps]: "dict_ok d \<Longrightarrow> dict_ok (dict_set k v d)"
  by (rule distinct_update)

lemma set_dict_keys [dict_simps]: "set (dict_keys (dict_set k v d)) = insert k (set (dict_keys d))"
  by (induction d) auto

text \<open>\<open>d.get(k, default)\<close> and \<open>d[k] = d.get(k, 0) + 1\<close>, the counter idiom of the code.\<close>

definition dict_get :: "('k \<times> 'v) list \<Rightarrow> 'k \<Rightarrow> 'v \<Rightarrow> 'v" where
  "dict_get d k v = (case map_of d k of None \<Rightarrow> v | Some w \<Rightarrow> w)"

definition dict_bump :: "'k \<Rightarrow> ('k \<times> nat) list \<Rightarrow> ('k \<times> nat) list" where
  "dict_bump k d = dict_set k (dict_get d k 0 + 1) d"

definition tally :: "'k list \<Rightarrow> ('k \<times> nat) list" where
  "tally ks = fold dict_bump ks []"

lemma dict_get_set [dict_simps]:
  "dict_get (dict_set k v d) j w = (if j = k then v else dict_get d j w)"
  by (simp add: dict_get_def)

lemma dict_get_bump: "dict_get (dict_bump k d) j 0 = dict_get d j 0 + (if j = k then 1 else 0)"
  by (simp add: dict_bump_def dict_get_set)

lemma dict_get_fold_bump: "dict_get (fold dict_bump ks d) j 0 = dict_get d j 0 + count_list ks j"
  by (induction ks arbitrary: d) (auto simp: dict_get_bump)

lemma dict_get_tally: "dict_get (tally ks) j 0 = count_list ks j"
  by (simp add: tally_def dict_get_fold_bump) (simp add: dict_get_def)

lemma keys_fold_bump: "set (dict_keys (fold dict_bump ks d)) = set ks \<union> set (dict_keys d)"
  by (induction ks arbitrary: d) (auto simp: dict_bump_def set_dict_keys simp del: set_map)

lemma keys_tally: "set (dict_keys (tally ks)) = set ks"
  by (simp add: tally_def keys_fold_bump del: set_map)

lemma dict_ok_fold_bump: "dict_ok d \<Longrightarrow> dict_ok (fold dict_bump ks d)"
  by (induction ks arbitrary: d) (auto simp: dict_bump_def intro: distinct_update)

lemma dict_ok_tally: "dict_ok (tally ks)"
  by (simp add: tally_def dict_ok_fold_bump)

lemma sum_list_dict_bump: "sum_list (map snd (dict_bump k d)) = sum_list (map snd d) + 1"
proof (induction d)
  case Nil
  then show ?case by (simp add: dict_bump_def dict_get_def)
next
  case (Cons p d)
  then show ?case by (cases p) (auto simp: dict_bump_def dict_get_def split: option.splits)
qed

lemma sum_list_tally: "sum_list (map snd (tally ks)) = length ks"
proof -
  have "sum_list (map snd (fold dict_bump ks d)) = sum_list (map snd d) + length ks" for d
    by (induction ks arbitrary: d) (auto simp: sum_list_dict_bump)
  then show ?thesis by (simp add: tally_def)
qed

section \<open>Columns\<close>

text \<open>The update of one nullable column when its argument is not \<open>None\<close>.\<close>

definition keep :: "'a option \<Rightarrow> 'a option \<Rightarrow> 'a option" where
  "keep old new = (case new of None \<Rightarrow> old | Some _ \<Rightarrow> new)"

lemma keep_simps [simp]: "keep old None = old" "keep old (Some v) = Some v" "keep None new = new" "keep new new = new"
  "keep (keep old new) new = keep old new"
  by (simp_all add: keep_def split: option.splits)

section \<open>Keyed tables\<close>

text \<open>
  The contract of everything the code reads by key and upserts by key: a Python \<open>dict\<close>, the JSON
  registry file, and the SQL tables reached by \<open>session.get\<close> and \<open>session.add\<close>.
\<close>

locale keyed_table =
  fixes lookup :: "'t \<Rightarrow> 'k \<Rightarrow> 'v option"
    and put :: "'k \<Rightarrow> 'v \<Rightarrow> 't \<Rightarrow> 't"
    and keys :: "'t \<Rightarrow> 'k list"
    and wf :: "'t \<Rightarrow> bool"
  assumes lookup_put: "lookup (put k v t) = (lookup t)(k \<mapsto> v)"
    and keys_lookup: "set (keys t) = dom (lookup t)"
    and wf_put: "wf t \<Longrightarrow> wf (put k v t)"
    and wf_keys: "wf t \<Longrightarrow> distinct (keys t)"
begin

definition upsert :: "('v option \<Rightarrow> 'v) \<Rightarrow> 'k \<Rightarrow> 't \<Rightarrow> 't" where
  "upsert f k t = put k (f (lookup t k)) t"

definition put_all :: "('k \<times> 'v) list \<Rightarrow> 't \<Rightarrow> 't" where
  "put_all kvs t = fold (\<lambda>(k, v). put k v) kvs t"

lemma upsert_same: "lookup (upsert f k t) k = Some (f (lookup t k))"
  by (simp add: upsert_def lookup_put)

lemma upsert_other: "j \<noteq> k \<Longrightarrow> lookup (upsert f k t) j = lookup t j"
  by (simp add: upsert_def lookup_put)

lemma upsert_wf: "wf t \<Longrightarrow> wf (upsert f k t)"
  by (simp add: upsert_def wf_put)

lemma put_put: "lookup (put k w (put k v t)) = lookup (put k w t)"
  by (simp add: lookup_put)

lemma lookup_put_all: "lookup (put_all kvs t) = lookup t ++ map_of (rev kvs)"
proof (induction kvs arbitrary: t)
  case Nil
  then show ?case by (simp add: put_all_def)
next
  case (Cons p kvs)
  obtain k v where p: "p = (k, v)" by (cases p)
  have "lookup (put_all (p # kvs) t) = lookup (put_all kvs (put k v t))"
    by (simp add: put_all_def p)
  also have "\<dots> = lookup t ++ map_of (rev (p # kvs))"
    by (auto simp: Cons.IH lookup_put p fun_eq_iff map_add_def split: option.splits)
  finally show ?case .
qed

lemma put_all_idem: "lookup (put_all kvs (put_all kvs t)) = lookup (put_all kvs t)"
  by (auto simp: lookup_put_all map_add_def fun_eq_iff split: option.splits)

lemma put_all_wf: "wf t \<Longrightarrow> wf (put_all kvs t)"
  by (induction kvs arbitrary: t) (auto simp: put_all_def wf_put)

lemma put_all_keys: "set (keys (put_all kvs t)) = fst ` set kvs \<union> set (keys t)"
  by (auto simp: keys_lookup lookup_put_all dom_map_of_conv_image_fst)

lemma put_all_grows: "wf t \<Longrightarrow> length (keys (put_all kvs t)) \<le> length (keys t) + length kvs"
proof -
  assume wf: "wf t"
  have "length (keys (put_all kvs t)) = card (set (keys (put_all kvs t)))"
    using wf by (simp add: distinct_card wf_keys put_all_wf)
  also have "\<dots> \<le> card (fst ` set kvs) + card (set (keys t))"
    by (simp add: put_all_keys card_Un_le)
  also have "\<dots> \<le> length kvs + length (keys t)"
    by (intro add_mono) (meson card_image_le card_length finite_set le_trans, rule card_length)
  finally show ?thesis by simp
qed

end

interpretation dict: keyed_table map_of dict_set dict_keys dict_ok
  by unfold_locales (auto simp: dom_map_of_conv_image_fst distinct_update)

text \<open>\<open>upsert\<close> of a dictionary, in a form that evaluates.\<close>

definition dict_upsert :: "('v option \<Rightarrow> 'v) \<Rightarrow> 'k \<Rightarrow> ('k \<times> 'v) list \<Rightarrow> ('k \<times> 'v) list" where
  "dict_upsert f k d = dict_set k (f (map_of d k)) d"

lemma dict_upsert_eq: "dict_upsert = dict.upsert"
  by (simp add: fun_eq_iff dict_upsert_def dict.upsert_def)

lemmas dict_upsert_lookup = dict.upsert_same[folded dict_upsert_eq] dict.upsert_other[folded dict_upsert_eq]

section \<open>Strings\<close>

text \<open>Text outside ASCII, by its UTF-8 bytes.\<close>

definition utf8 :: "nat list \<Rightarrow> string" where
  "utf8 bs = map char_of bs"

named_theorems str_simps "facts on the string operations"

fun split_on :: "char \<Rightarrow> string \<Rightarrow> string list" where
  "split_on c [] = [[]]"
| "split_on c (x # xs) =
     (if x = c then [] # split_on c xs
      else (case split_on c xs of [] \<Rightarrow> [[x]] | p # ps \<Rightarrow> (x # p) # ps))"

fun join :: "string \<Rightarrow> string list \<Rightarrow> string" where
  "join sep [] = []"
| "join sep [p] = p"
| "join sep (p # q # ps) = p @ sep @ join sep (q # ps)"

definition strip_chars :: "(char \<Rightarrow> bool) \<Rightarrow> string \<Rightarrow> string" where
  "strip_chars P s = rev (dropWhile P (rev (dropWhile P s)))"

definition rstrip_chars :: "(char \<Rightarrow> bool) \<Rightarrow> string \<Rightarrow> string" where
  "rstrip_chars P s = rev (dropWhile P (rev s))"

definition is_space :: "char \<Rightarrow> bool" where
  "is_space c = (c = CHR '' '' \<or> (9 \<le> (of_char c :: nat) \<and> (of_char c :: nat) \<le> 13)
     \<or> (28 \<le> (of_char c :: nat) \<and> (of_char c :: nat) \<le> 31))"

abbreviation strip_ws :: "string \<Rightarrow> string" where
  "strip_ws \<equiv> strip_chars is_space"

abbreviation starts_with :: "string \<Rightarrow> string \<Rightarrow> bool" where
  "starts_with s p \<equiv> prefix p s"

abbreviation ends_with :: "string \<Rightarrow> string \<Rightarrow> bool" where
  "ends_with s p \<equiv> suffix p s"

fun contains :: "string \<Rightarrow> string \<Rightarrow> bool" where
  "contains p [] = (p = [])"
| "contains p (x # xs) = (prefix p (x # xs) \<or> contains p xs)"

text \<open>\<open>s.split(c, 1)\<close>: the parts before and after the first \<open>c\<close>, if there is one.\<close>

fun split_first :: "char \<Rightarrow> string \<Rightarrow> (string \<times> string) option" where
  "split_first c [] = None"
| "split_first c (x # xs) =
     (if x = c then Some ([], xs) else map_option (\<lambda>(a, b). (x # a, b)) (split_first c xs))"

definition is_digit :: "char \<Rightarrow> bool" where
  "is_digit c = (48 \<le> (of_char c :: nat) \<and> (of_char c :: nat) \<le> 57)"

definition is_upper :: "char \<Rightarrow> bool" where
  "is_upper c = (65 \<le> (of_char c :: nat) \<and> (of_char c :: nat) \<le> 90)"

definition is_lower :: "char \<Rightarrow> bool" where
  "is_lower c = (97 \<le> (of_char c :: nat) \<and> (of_char c :: nat) \<le> 122)"

definition is_alnum :: "char \<Rightarrow> bool" where
  "is_alnum c = (is_digit c \<or> is_upper c \<or> is_lower c)"

definition lower :: "string \<Rightarrow> string" where
  "lower s = map (\<lambda>c. if is_upper c then char_of ((of_char c :: nat) + 32) else c) s"

definition upper :: "string \<Rightarrow> string" where
  "upper s = map (\<lambda>c. if is_lower c then char_of ((of_char c :: nat) - 32) else c) s"

definition str_isdigit :: "string \<Rightarrow> bool" where
  "str_isdigit s = (s \<noteq> [] \<and> list_all is_digit s)"

definition str_isalnum :: "string \<Rightarrow> bool" where
  "str_isalnum s = (s \<noteq> [] \<and> list_all is_alnum s)"

definition nat_of_digits :: "string \<Rightarrow> nat" where
  "nat_of_digits s = foldl (\<lambda>n c. 10 * n + ((of_char c :: nat) - 48)) 0 s"

fun str_of_nat :: "nat \<Rightarrow> string" where
  "str_of_nat n = (if n < 10 then [char_of (48 + n)] else str_of_nat (n div 10) @ [char_of (48 + n mod 10)])"

declare str_of_nat.simps [simp del]

definition str_of_int :: "int \<Rightarrow> string" where
  "str_of_int i = (if i < 0 then CHR ''-'' # str_of_nat (nat (- i)) else str_of_nat (nat i))"

text \<open>\<open>f"{n:03d}"\<close>: at least three digits, padded with zeros on the left.\<close>

definition pad3 :: "nat \<Rightarrow> string" where
  "pad3 n = (let s = str_of_nat n in replicate (3 - length s) (CHR ''0'') @ s)"

lemma split_on_nonempty [simp]: "split_on c s \<noteq> []"
  by (cases s) (auto split: list.splits)

lemma split_on_Cons_neq: "x \<noteq> c \<Longrightarrow>
    split_on c (x # xs) = (x # hd (split_on c xs)) # tl (split_on c xs)"
  by (cases "split_on c xs") auto

lemma split_on_append [str_simps]: "split_on c (a @ c # b) = split_on c a @ split_on c b"
proof (induction a)
  case Nil
  then show ?case by simp
next
  case (Cons x a)
  then show ?case by (cases "split_on c a") auto
qed

lemma join_Cons: "ps \<noteq> [] \<Longrightarrow> join sep (p # ps) = p @ sep @ join sep ps"
  by (cases ps) auto

lemma join_append: "ps \<noteq> [] \<Longrightarrow> qs \<noteq> [] \<Longrightarrow> join sep (ps @ qs) = join sep ps @ sep @ join sep qs"
proof (induction ps)
  case Nil
  then show ?case by simp
next
  case (Cons p ps)
  then show ?case by (cases "ps = []") (auto simp: join_Cons)
qed

lemma join_split_on: "join [c] (split_on c s) = s"
proof (induction s)
  case Nil
  then show ?case by simp
next
  case (Cons x xs)
  then show ?case
    by (cases "x = c"; cases "split_on c xs"; cases "tl (split_on c xs)") (auto simp: join_Cons)
qed

lemma split_on_no_sep: "c \<notin> set p \<Longrightarrow> split_on c p = [p]"
  by (induction p) auto

lemma split_on_sep_free: "p \<in> set (split_on c s) \<Longrightarrow> c \<notin> set p"
proof (induction s arbitrary: p)
  case Nil
  then show ?case by simp
next
  case (Cons x xs)
  then show ?case by (cases "split_on c xs") (auto split: if_splits)
qed

lemma split_on_join:
  "ps \<noteq> [] \<Longrightarrow> \<forall>p\<in>set ps. c \<notin> set p \<Longrightarrow> split_on c (join [c] ps) = ps"
proof (induction ps)
  case Nil
  then show ?case by simp
next
  case (Cons p ps)
  then show ?case
    by (cases "ps = []") (auto simp: join_Cons split_on_append split_on_no_sep)
qed

lemma split_first_None: "split_first c s = None \<longleftrightarrow> c \<notin> set s"
  by (induction s) auto

lemma split_first_Some: "split_first c s = Some (a, b) \<longleftrightarrow> s = a @ c # b \<and> c \<notin> set a"
proof (induction s arbitrary: a)
  case Nil
  then show ?case by simp
next
  case (Cons x xs)
  then show ?case by (cases a) auto
qed

lemma strip_chars_idem: "strip_chars P (strip_chars P s) = strip_chars P s"
proof -
  define t where "t = strip_chars P s"
  have last: "t \<noteq> [] \<Longrightarrow> \<not> P (last t)"
    unfolding t_def strip_chars_def
    by (metis hd_dropWhile last_rev rev_is_Nil_conv)
  have first: "t \<noteq> [] \<Longrightarrow> \<not> P (hd t)"
  proof -
    assume ne: "t \<noteq> []"
    define u where "u = dropWhile P s"
    have u: "prefix t u"
      by (metis prefixI rev_append rev_rev_ident strip_chars_def t_def takeWhile_dropWhile_id u_def)
    then have "hd t = hd u" using ne by (auto simp: prefix_def)
    moreover have "u \<noteq> []" using u ne by auto
    ultimately show ?thesis using hd_dropWhile u_def by metis
  qed
  have "dropWhile P t = t" using first by (cases t) auto
  moreover have "dropWhile P (rev t) = rev t" using last by (cases t rule: rev_cases) auto
  ultimately have "strip_chars P t = t" by (simp add: strip_chars_def[of P t])
  then show ?thesis by (simp add: t_def)
qed

lemma strip_chars_nil [simp]: "strip_chars P [] = []"
  by (simp add: strip_chars_def)

lemma strip_chars_none: "\<forall>c\<in>set s. \<not> P c \<Longrightarrow> strip_chars P s = s"
proof -
  assume no: "\<forall>c\<in>set s. \<not> P c"
  have "dropWhile P xs = xs" if "set xs \<subseteq> set s" for xs using no that by (cases xs) auto
  then show ?thesis by (simp add: strip_chars_def)
qed

lemma strip_chars_parts:
  obtains a b where "s = a @ strip_chars P s @ b" "\<forall>x\<in>set a. P x" "\<forall>x\<in>set b. P x"
proof -
  let ?u = "dropWhile P s"
  have "s = takeWhile P s @ ?u" by simp
  moreover have "?u = strip_chars P s @ rev (takeWhile P (rev ?u))"
    by (metis rev_append rev_rev_ident strip_chars_def takeWhile_dropWhile_id)
  ultimately show thesis
    by (intro that[of "takeWhile P s" "rev (takeWhile P (rev ?u))"])
       (metis, auto dest: set_takeWhileD)
qed

lemma set_strip_chars: "set (strip_chars P s) \<subseteq> set s"
  by (rule strip_chars_parts[of s P]) (metis Un_subset_iff order_refl set_append)

lemma contains_iff_sublist: "contains p s \<longleftrightarrow> sublist p s"
  by (induction s) (auto simp: sublist_Cons_right)

end
