(* ===== verification/Packing.thy ===== *)
theory Packing
  imports Prelude
begin

text \<open>
  The interface of the two packing routines of the code, the shard packing of
  \<^verbatim>\<open>sharding/planner.py\<close> and the partition packing of \<^verbatim>\<open>partition/planner.py\<close>: items with a
  weight are placed one by one into bins, and a bin is a list of items with its recorded load.
  \<open>bin_packing\<close> asks of a placement that it adds the item to one bin or opens a bin for it;
  \<open>first_fit\<close> asks that the bin is the first with room. The locales prove that packing loses and
  duplicates nothing, that the recorded loads are right, and, for first fit, the capacity and the
  factor-two bound on the number of bins.
\<close>

section \<open>Folding an operation that may raise\<close>

fun rfold :: "('a \<Rightarrow> 's \<Rightarrow> 's result) \<Rightarrow> 'a list \<Rightarrow> 's \<Rightarrow> 's result" where
  "rfold f [] s = Inr s"
| "rfold f (x # xs) s = rbind (f x s) (rfold f xs)"

lemma rfold_invariant:
  assumes "rfold f xs s = Inr t" "P s"
    and "\<And>x s s'. x \<in> set xs \<Longrightarrow> P s \<Longrightarrow> f x s = Inr s' \<Longrightarrow> P s'"
  shows "P t"
  using assms by (induction xs arbitrary: s) (auto simp: rbind_Inr_iff)

lemma sum_list_mset_eq: "mset xs = mset ys \<Longrightarrow> sum_list (map f xs) = (sum_list (map f ys) :: int)"
  by (metis mset_map sum_mset_sum_list)

lemma sum_list_sort_key: "sum_list (map f (sort_key k xs)) = (sum_list (map f xs) :: int)"
proof -
  have "sum_mset (mset (map f (sort_key k xs))) = sum_mset (mset (map f xs))" by simp
  then show ?thesis by (simp only: sum_mset_sum_list)
qed

section \<open>Bins\<close>

type_synonym 'i bin = "'i list \<times> int"

definition add_at :: "('i \<Rightarrow> int) \<Rightarrow> 'i \<Rightarrow> nat \<Rightarrow> 'i bin list \<Rightarrow> 'i bin list" where
  "add_at w x i bs = bs[i := (fst (bs ! i) @ [x], snd (bs ! i) + w x)]"

definition open_bin :: "('i \<Rightarrow> int) \<Rightarrow> 'i \<Rightarrow> 'i bin list \<Rightarrow> 'i bin list" where
  "open_bin w x bs = bs @ [([x], w x)]"

definition placed :: "('i \<Rightarrow> int) \<Rightarrow> 'i \<Rightarrow> 'i bin list \<Rightarrow> 'i bin list \<Rightarrow> bool" where
  "placed w x bs bs' \<longleftrightarrow> bs' = open_bin w x bs \<or> (\<exists>i < length bs. bs' = add_at w x i bs)"

definition all_items :: "'i bin list \<Rightarrow> 'i multiset" where
  "all_items bs = mset (concat (map fst bs))"

definition loads_right :: "('i \<Rightarrow> int) \<Rightarrow> 'i bin list \<Rightarrow> bool" where
  "loads_right w bs = (\<forall>(xs, l)\<in>set bs. xs \<noteq> [] \<and> l = sum_list (map w xs))"

lemma all_items_add_at: "i < length bs \<Longrightarrow> all_items (add_at w x i bs) = add_mset x (all_items bs)"
proof (induction bs arbitrary: i)
  case Nil
  then show ?case by simp
next
  case (Cons b bs)
  then show ?case by (cases i) (auto simp: all_items_def add_at_def)
qed

lemma all_items_set: "b \<in> set bs \<Longrightarrow> set (fst b) \<subseteq> set_mset (all_items bs)"
  by (auto simp: all_items_def)

lemma placed_items: "placed w x bs bs' \<Longrightarrow> all_items bs' = add_mset x (all_items bs)"
  by (auto simp: placed_def all_items_add_at) (simp add: open_bin_def all_items_def)

lemma placed_loads: "placed w x bs bs' \<Longrightarrow> loads_right w bs \<Longrightarrow> loads_right w bs'"
  unfolding placed_def
proof (elim disjE exE conjE)
  fix i assume i: "i < length bs" and bs': "bs' = add_at w x i bs" and r: "loads_right w bs"
  have "bs ! i \<in> set bs" using i by simp
  with r have "snd (bs ! i) = sum_list (map w (fst (bs ! i)))"
    by (auto simp: loads_right_def case_prod_beta)
  with r show "loads_right w bs'"
    by (auto simp: bs' add_at_def loads_right_def case_prod_beta dest!: set_update_subset_insert[THEN subsetD])
qed (auto simp: open_bin_def loads_right_def)

lemma placed_length: "placed w x bs bs' \<Longrightarrow> length bs \<le> length bs' \<and> length bs' \<le> Suc (length bs)"
  by (auto simp: placed_def open_bin_def add_at_def)

lemma loads_total:
  "loads_right w bs \<Longrightarrow> sum_list (map snd bs) = sum_mset (image_mset w (all_items bs))"
  by (induction bs) (auto simp: loads_right_def all_items_def sum_mset_sum_list simp flip: mset_map)

locale bin_packing =
  fixes weight :: "'i \<Rightarrow> int"
    and place :: "'i \<Rightarrow> 's \<Rightarrow> 's result"
    and bins :: "'s \<Rightarrow> 'i bin list"
    and inv :: "'s \<Rightarrow> bool"
    and start :: 's
  assumes start_inv: "inv start"
    and start_bins: "bins start = []"
    and place_inv: "inv s \<Longrightarrow> place x s = Inr s' \<Longrightarrow> inv s'"
    and place_placed: "inv s \<Longrightarrow> place x s = Inr s' \<Longrightarrow> placed weight x (bins s) (bins s')"
begin

definition pack :: "'i list \<Rightarrow> 's result" where
  "pack xs = rfold place xs start"

lemma fold_items:
  "rfold place xs s = Inr t \<Longrightarrow> inv s \<Longrightarrow> inv t \<and> all_items (bins t) = mset xs + all_items (bins s)"
proof (induction xs arbitrary: s)
  case Nil
  then show ?case by simp
next
  case (Cons x xs)
  then obtain s' where s': "place x s = Inr s'" "rfold place xs s' = Inr t"
    by (auto simp: rbind_Inr_iff)
  with Cons show ?case
    using placed_items[OF place_placed[OF Cons.prems(2) s'(1)]] place_inv by auto
qed

lemma pack_inv: "pack xs = Inr t \<Longrightarrow> inv t"
  using fold_items start_inv by (auto simp: pack_def)

lemma pack_items: "pack xs = Inr t \<Longrightarrow> all_items (bins t) = mset xs"
  using fold_items[of xs start t] start_inv by (simp add: pack_def start_bins all_items_def)

lemma pack_loads: "pack xs = Inr t \<Longrightarrow> loads_right weight (bins t)"
proof -
  assume "pack xs = Inr t"
  then have "inv t \<and> loads_right weight (bins t)"
    unfolding pack_def
    by (rule rfold_invariant)
       (auto simp: start_inv start_bins loads_right_def[of _ "[]"] intro: place_inv
         dest: place_placed placed_loads)
  then show ?thesis by simp
qed

lemma pack_total: "pack xs = Inr t \<Longrightarrow> sum_list (map snd (bins t)) = sum_list (map weight xs)"
  using loads_total[OF pack_loads] pack_items
  by (simp add: sum_mset_sum_list flip: mset_map)

lemma pack_length: "pack xs = Inr t \<Longrightarrow> length (bins t) \<le> length xs"
proof -
  have "rfold place xs s = Inr t \<Longrightarrow> inv s \<Longrightarrow> length (bins t) \<le> length xs + length (bins s)" for s
  proof (induction xs arbitrary: s)
    case Nil
    then show ?case by simp
  next
    case (Cons x xs)
    then obtain s' where "place x s = Inr s'" "rfold place xs s' = Inr t"
      by (auto simp: rbind_Inr_iff)
    moreover from this Cons.prems have "inv s'" "length (bins s') \<le> Suc (length (bins s))"
      using placed_length[OF place_placed] place_inv by blast+
    ultimately show ?case using Cons.IH[of s'] by simp
  qed
  then show "pack xs = Inr t \<Longrightarrow> length (bins t) \<le> length xs"
    using start_inv start_bins unfolding pack_def by (metis add.right_neutral list.size(3))
qed

lemmas pack_facts = pack_items pack_loads pack_total pack_length

end

section \<open>First fit\<close>

fun first_room :: "int \<Rightarrow> int \<Rightarrow> int list \<Rightarrow> nat option" where
  "first_room cap w [] = None"
| "first_room cap w (l # ls) = (if l + w \<le> cap then Some 0 else map_option Suc (first_room cap w ls))"

lemma first_room_None: "first_room cap w ls = None \<longleftrightarrow> (\<forall>l\<in>set ls. cap < l + w)"
  by (induction ls) auto

lemma first_room_Some:
  "first_room cap w ls = Some i \<Longrightarrow>
   i < length ls \<and> ls ! i + w \<le> cap \<and> (\<forall>j<i. cap < ls ! j + w)"
proof (induction ls arbitrary: i)
  case Nil
  then show ?case by simp
next
  case (Cons l ls)
  then show ?case by (auto simp: less_Suc_eq_0_disj split: if_splits)
qed

definition ff_place :: "int \<Rightarrow> ('i \<Rightarrow> int) \<Rightarrow> 'i \<Rightarrow> 'i bin list \<Rightarrow> 'i bin list" where
  "ff_place cap w x bs =
     (case first_room cap (w x) (map snd bs) of None \<Rightarrow> open_bin w x bs | Some i \<Rightarrow> add_at w x i bs)"

text \<open>No item of a later bin would have fitted in an earlier one.\<close>

definition ff_sorted :: "int \<Rightarrow> ('i \<Rightarrow> int) \<Rightarrow> 'i bin list \<Rightarrow> bool" where
  "ff_sorted cap w bs = (\<forall>j < length bs. \<forall>i < j. \<forall>x \<in> set (fst (bs ! j)). cap < snd (bs ! i) + w x)"

definition within_cap :: "int \<Rightarrow> 'i bin list \<Rightarrow> bool" where
  "within_cap cap bs = (\<forall>b\<in>set bs. snd b \<le> cap \<or> length (fst b) = 1)"

lemma ff_place_placed: "placed w x bs (ff_place cap w x bs)"
  by (auto simp: ff_place_def placed_def dest!: first_room_Some split: option.splits)

lemma ff_place_cap: "within_cap cap bs \<Longrightarrow> within_cap cap (ff_place cap w x bs)"
proof (cases "first_room cap (w x) (map snd bs)")
  case None
  then show "within_cap cap bs \<Longrightarrow> ?thesis"
    by (simp add: ff_place_def open_bin_def within_cap_def)
next
  case (Some i)
  then have "snd (bs ! i) + w x \<le> cap" using first_room_Some[OF Some] by auto
  with Some show "within_cap cap bs \<Longrightarrow> ?thesis"
    by (auto simp: ff_place_def add_at_def within_cap_def dest!: set_update_subset_insert[THEN subsetD])
qed

lemma ff_place_sorted:
  assumes "0 \<le> w x" "ff_sorted cap w bs"
  shows "ff_sorted cap w (ff_place cap w x bs)"
proof (cases "first_room cap (w x) (map snd bs)")
  case None
  then have e: "ff_place cap w x bs = open_bin w x bs" by (simp add: ff_place_def)
  have "\<forall>i < length bs. cap < snd (bs ! i) + w x" using None by (simp add: first_room_None)
  with assms show ?thesis
    by (auto simp: e open_bin_def ff_sorted_def nth_append less_Suc_eq)
next
  case (Some i)
  then have e: "ff_place cap w x bs = add_at w x i bs" by (simp add: ff_place_def)
  have i: "i < length bs" "\<forall>j<i. cap < snd (bs ! j) + w x"
    using first_room_Some[OF Some] by auto
  show ?thesis
    unfolding ff_sorted_def
  proof (intro allI impI ballI)
    fix j k y
    assume j: "j < length (ff_place cap w x bs)" "k < j" "y \<in> set (fst (ff_place cap w x bs ! j))"
    then have len: "j < length bs" by (simp add: e add_at_def)
    have k: "snd (bs ! k) \<le> snd (ff_place cap w x bs ! k)"
      using assms(1) j(2) len by (cases "k = i") (simp_all add: e add_at_def)
    have "cap < snd (bs ! k) + w y"
    proof (cases "y = x \<and> j = i")
      case True
      then show ?thesis using i j(2) by auto
    next
      case False
      with j(3) len have "y \<in> set (fst (bs ! j))"
        by (cases "j = i") (auto simp: e add_at_def)
      with assms(2) len j(2) show ?thesis by (auto simp: ff_sorted_def)
    qed
    with k show "cap < snd (ff_place cap w x bs ! k) + w y" by simp
  qed
qed

lemma pairs_bound:
  fixes ls :: "int list"
  shows "sorted_wrt (\<lambda>a b. cap < a + b) ls \<Longrightarrow> 2 \<le> length ls \<Longrightarrow> int (length ls) * cap < 2 * sum_list ls"
proof (induction ls rule: induct_list012)
  case (3 a b ls)
  consider "ls = []" | c where "ls = [c]" | "2 \<le> length ls"
    by (metis One_nat_def Suc_1 Suc_leI length_0_conv length_Suc_conv linorder_neqE_nat less_one
        nat_neq_iff not_less_eq)
  then show ?case
  proof cases
    case 3
    with "3.IH"(1) "3.prems"(1) have "int (length ls) * cap < 2 * sum_list ls" by simp
    with "3.prems"(1) show ?thesis by (simp add: algebra_simps)
  qed (use "3.prems"(1) in \<open>auto simp: algebra_simps\<close>)
qed auto

locale first_fit = bin_packing weight place bins inv start
  for weight :: "'i \<Rightarrow> int" and place :: "'i \<Rightarrow> 's \<Rightarrow> 's result" and bins :: "'s \<Rightarrow> 'i bin list"
    and inv :: "'s \<Rightarrow> bool" and start :: 's +
  fixes cap :: int
  assumes place_ff: "inv s \<Longrightarrow> \<exists>s'. place x s = Inr s' \<and> bins s' = ff_place cap weight x (bins s)"
begin

lemma place_ok: "inv s \<Longrightarrow> place x s = Inr s' \<Longrightarrow> bins s' = ff_place cap weight x (bins s)"
  using place_ff[of s x] by auto

lemma pack_returns: "\<exists>t. pack xs = Inr t"
proof -
  have "inv s \<Longrightarrow> \<exists>t. rfold place xs s = Inr t" for s
  proof (induction xs arbitrary: s)
    case Nil
    then show ?case by simp
  next
    case (Cons x xs)
    then obtain s' where "place x s = Inr s'" using place_ff by blast
    with Cons show ?case using place_inv by auto
  qed
  then show ?thesis using start_inv by (simp add: pack_def)
qed

lemma pack_cap: "pack xs = Inr t \<Longrightarrow> within_cap cap (bins t)"
proof -
  assume "pack xs = Inr t"
  then have "inv t \<and> within_cap cap (bins t)"
    unfolding pack_def
    by (rule rfold_invariant)
       (auto simp: start_inv start_bins within_cap_def[of _ "[]"] ff_place_cap place_ok intro: place_inv)
  then show ?thesis by simp
qed

lemma pack_sorted: "pack xs = Inr t \<Longrightarrow> \<forall>x\<in>set xs. 0 \<le> weight x \<Longrightarrow> ff_sorted cap weight (bins t)"
proof -
  assume p: "pack xs = Inr t" and w: "\<forall>x\<in>set xs. 0 \<le> weight x"
  from p have "inv t \<and> ff_sorted cap weight (bins t)"
    unfolding pack_def
    by (rule rfold_invariant)
       (use w in \<open>auto simp: start_inv start_bins ff_sorted_def[of _ _ "[]"] place_ok
         intro!: ff_place_sorted intro: place_inv\<close>)
  then show ?thesis by simp
qed

lemma pack_bin_bound:
  assumes p: "pack xs = Inr t" and w: "\<forall>x\<in>set xs. 0 \<le> weight x" and n: "2 \<le> length (bins t)"
  shows "int (length (bins t)) * cap < 2 * sum_list (map weight xs)"
proof -
  have items: "set (fst b) \<subseteq> set xs" if "b \<in> set (bins t)" for b
    using all_items_set[OF that] by (simp add: pack_items[OF p])
  have "cap < snd (bins t ! i) + snd (bins t ! j)" if ij: "i < j" "j < length (bins t)" for i j
  proof -
    have b: "bins t ! j \<in> set (bins t)" using ij by simp
    then obtain x xs' where x: "fst (bins t ! j) = x # xs'"
      using pack_loads[OF p] by (fastforce simp: loads_right_def neq_Nil_conv)
    have "snd (bins t ! j) = weight x + sum_list (map weight xs')"
      using pack_loads[OF p] b x by (auto simp: loads_right_def case_prod_beta)
    moreover have "0 \<le> sum_list (map weight xs')"
      using items[OF b] w x by (intro sum_list_nonneg) auto
    moreover have "cap < snd (bins t ! i) + weight x"
      using pack_sorted[OF p w] ij x by (auto simp: ff_sorted_def)
    ultimately show ?thesis by simp
  qed
  then have "sorted_wrt (\<lambda>a b. cap < a + b) (map snd (bins t))"
    by (auto simp: sorted_wrt_iff_nth_less)
  from pairs_bound[OF this] n pack_total[OF p] show ?thesis by simp
qed

end

end
