(* ===== verification/Lake_Uri.thy ===== *)
theory Lake_Uri
  imports Prelude
begin

text \<open>
  The URI layer, \<^verbatim>\<open>src/robot_dh/lake/uri.py\<close>: parsing of \<open>s3://\<close>, \<open>file://\<close> and bare
  paths into a \<open>lake_uri\<close>, and the join of path parts. The reference view of a key is its list of
  non-empty segments, \<open>segs\<close>; the lemmas show that the code's repeated \<open>replace\<close> and \<open>strip\<close>
  compute exactly the join of the segments, and that joining is concatenation of segments.
\<close>

section \<open>Model\<close>

datatype scheme = S3 | Local

record lake_uri =
  u_scheme :: scheme
  u_bucket :: string
  u_key :: string
  u_local_path :: string
  u_uri :: string

definition is_s3 :: "lake_uri \<Rightarrow> bool" where
  "is_s3 u = (u_scheme u = S3)"

definition is_local :: "lake_uri \<Rightarrow> bool" where
  "is_local u = (u_scheme u = Local)"

definition is_s3_uri :: "string \<Rightarrow> bool" where
  "is_s3_uri uri = starts_with uri ''s3://''"

definition is_file_uri :: "string \<Rightarrow> bool" where
  "is_file_uri uri = starts_with uri ''file://''"

definition is_local_uri :: "string \<Rightarrow> bool" where
  "is_local_uri uri = (\<not> is_s3_uri uri)"

abbreviation is_slash :: "char \<Rightarrow> bool" where
  "is_slash \<equiv> (\<lambda>c. c = CHR ''/'')"

text \<open>\<open>key.replace("//", "/")\<close>: every non-overlapping pair, from the left.\<close>

fun replace_pairs :: "string \<Rightarrow> string" where
  "replace_pairs (x # y # s) =
     (if x = CHR ''/'' \<and> y = CHR ''/'' then CHR ''/'' # replace_pairs s
      else x # replace_pairs (y # s))"
| "replace_pairs s = s"

lemma replace_pairs_le: "length (replace_pairs s) \<le> length s"
  by (induction s rule: replace_pairs.induct) auto

lemma replace_pairs_less: "contains ''//'' s \<Longrightarrow> length (replace_pairs s) < length s"
proof (induction s rule: replace_pairs.induct)
  case (1 x y s)
  then show ?case
    using replace_pairs_le[of s] by (auto simp: less_Suc_eq_le)
qed auto

function collapse_slashes :: "string \<Rightarrow> string" where
  "collapse_slashes key =
     (if contains ''//'' key then collapse_slashes (replace_pairs key) else key)"
  by pat_completeness auto
termination
  by (relation "measure length") (auto intro: replace_pairs_less)

declare collapse_slashes.simps [simp del]

definition strip_double_slashes :: "string \<Rightarrow> string" where
  "strip_double_slashes key = strip_chars is_slash (collapse_slashes key)"

text \<open>The two constructor calls of \<open>parse_uri\<close>: the S3 value with its canonical \<open>uri\<close>, and the
  local one.\<close>

definition s3_lake_uri :: "string \<Rightarrow> string \<Rightarrow> lake_uri" where
  "s3_lake_uri bucket key =
     \<lparr>u_scheme = S3, u_bucket = bucket, u_key = key, u_local_path = [],
      u_uri = (if key \<noteq> [] then ''s3://'' @ bucket @ ''/'' @ key else ''s3://'' @ bucket @ ''/'')\<rparr>"

definition local_lake_uri :: "string \<Rightarrow> lake_uri" where
  "local_lake_uri l = \<lparr>u_scheme = Local, u_bucket = [], u_key = l, u_local_path = l, u_uri = l\<rparr>"

definition parse_uri :: "string \<Rightarrow> lake_uri result" where
  "parse_uri uri =
     (if uri = [] then Inl (ValueError ''uri must be a non-empty string'')
      else if starts_with uri ''s3://'' then
        (let rest = drop 5 uri;
             (bucket, key) = (case split_first (CHR ''/'') rest of
                                Some (b, k) \<Rightarrow> (b, k) | None \<Rightarrow> (rest, []))
         in if bucket = [] then Inl (ValueError (''Invalid s3 URI (empty bucket): '' @ uri))
            else Inr (s3_lake_uri bucket (strip_double_slashes key)))
      else if starts_with uri ''file://'' \<and> drop 7 uri = [] then
        Inl (ValueError (''Invalid file URI (empty path): '' @ uri))
      else Inr (local_lake_uri (if starts_with uri ''file://'' then drop 7 uri else uri)))"

text \<open>The loop of \<open>join_uri\<close> over its parts: \<open>None\<close> and blank parts are dropped.\<close>

definition clean_part :: "string option \<Rightarrow> string option" where
  "clean_part part =
     (case part of None \<Rightarrow> None
      | Some p \<Rightarrow> (let t = strip_ws p
                   in if t = [] then None else Some (strip_chars is_slash t)))"

definition join_uri :: "string \<Rightarrow> string option list \<Rightarrow> string result" where
  "join_uri base parts =
     rbind (parse_uri base) (\<lambda>parsed.
       let cleaned = List.map_filter clean_part parts;
           suf = join ''/'' cleaned
       in if is_s3 parsed then
            (let key = u_key parsed;
                 combined = (if key \<noteq> [] \<and> suf \<noteq> [] then key @ ''/'' @ suf
                             else if suf \<noteq> [] then suf else key);
                 combined = strip_double_slashes combined
             in Inr (if combined \<noteq> [] then ''s3://'' @ u_bucket parsed @ ''/'' @ combined
                     else ''s3://'' @ u_bucket parsed @ ''/''))
          else
            (let base_local = rstrip_chars is_slash (u_local_path parsed)
             in Inr (if base_local \<noteq> [] \<and> suf \<noteq> [] then base_local @ ''/'' @ suf
                     else if suf \<noteq> [] then suf else base_local)))"

section \<open>Segments\<close>

definition segs :: "string \<Rightarrow> string list" where
  "segs s = filter (\<lambda>p. p \<noteq> []) (split_on (CHR ''/'') s)"

definition seg_join :: "string list \<Rightarrow> string" where
  "seg_join ps = join ''/'' ps"

lemma segs_Nil [simp]: "segs [] = []"
  by (simp add: segs_def)

lemma segs_slash: "segs (a @ CHR ''/'' # b) = segs a @ segs b"
  by (simp add: segs_def split_on_append)

lemma segs_Cons_slash [simp]: "segs (CHR ''/'' # b) = segs b"
  using segs_slash[of "[]" b] by simp

lemma segs_snoc_slash: "segs (a @ [CHR ''/'']) = segs a"
  using segs_slash[of a "[]"] by simp

lemma segs_Cons_cong:
  "segs s = segs t \<Longrightarrow> hd (split_on (CHR ''/'') s) = hd (split_on (CHR ''/'') t) \<Longrightarrow>
   segs (x # s) = segs (x # t)"
  by (cases "x = CHR ''/''"; cases "split_on (CHR ''/'') s"; cases "split_on (CHR ''/'') t")
     (auto simp: segs_def split: if_splits)

lemma segs_replace_pairs:
  "segs (replace_pairs s) = segs s \<and>
   hd (split_on (CHR ''/'') (replace_pairs s)) = hd (split_on (CHR ''/'') s)"
proof (induction s rule: replace_pairs.induct)
  case (1 x y s)
  show ?case
  proof (cases "x = CHR ''/'' \<and> y = CHR ''/''")
    case True
    with 1 show ?thesis by simp
  next
    case False
    have "hd (split_on (CHR ''/'') (x # t)) =
        (if x = CHR ''/'' then [] else x # hd (split_on (CHR ''/'') t))" for t
      by (cases "split_on (CHR ''/'') t") auto
    with False 1 show ?thesis by (auto intro!: segs_Cons_cong simp del: split_on.simps)
  qed
qed auto

lemma segs_collapse: "segs (collapse_slashes s) = segs s"
proof (induction s rule: collapse_slashes.induct)
  case (1 key)
  then show ?case by (cases "contains ''//'' key")
     (simp_all add: collapse_slashes.simps[of key] segs_replace_pairs)
qed

lemma segs_slashes_left: "\<forall>x\<in>set a. is_slash x \<Longrightarrow> segs (a @ s) = segs s"
  by (induction a) auto

lemma segs_slashes_right: "\<forall>x\<in>set b. is_slash x \<Longrightarrow> segs (s @ b) = segs s"
proof (induction b rule: rev_induct)
  case Nil
  then show ?case by simp
next
  case (snoc x b)
  then show ?case using segs_snoc_slash[of "s @ b"] by simp
qed

lemma segs_strip: "segs (strip_chars is_slash s) = segs s"
proof (rule strip_chars_parts[of s is_slash])
  fix a b
  assume s: "s = a @ strip_chars is_slash s @ b"
    and ab: "\<forall>x\<in>set a. is_slash x" "\<forall>x\<in>set b. is_slash x"
  have "segs s = segs (a @ strip_chars is_slash s @ b)" by (rule arg_cong[OF s])
  also have "\<dots> = segs (strip_chars is_slash s)"
    using ab by (simp only: segs_slashes_left segs_slashes_right)
  finally show ?thesis by simp
qed

lemma segs_strip_double_slashes: "segs (strip_double_slashes s) = segs s"
  by (simp add: strip_double_slashes_def segs_strip segs_collapse)

text \<open>A key is canonical when it has no empty segment: then it is the join of its segments.\<close>

definition canonical_key :: "string \<Rightarrow> bool" where
  "canonical_key s =
     (\<not> contains ''//'' s \<and> (s \<noteq> [] \<longrightarrow> hd s \<noteq> CHR ''/'' \<and> last s \<noteq> CHR ''/''))"

lemma collapse_no_pair: "\<not> contains ''//'' (collapse_slashes s)"
proof (induction s rule: collapse_slashes.induct)
  case (1 key)
  then show ?case by (cases "contains ''//'' key") (simp_all add: collapse_slashes.simps[of key])
qed

lemma strip_chars_ends:
  assumes "strip_chars P s \<noteq> []"
  shows "\<not> P (hd (strip_chars P s))" "\<not> P (last (strip_chars P s))"
proof -
  let ?t = "strip_chars P s"
  have t: "strip_chars P ?t = ?t" by (rule strip_chars_idem)
  show "\<not> P (hd ?t)"
  proof
    assume "P (hd ?t)"
    then have "length (dropWhile P ?t) < length ?t"
      using assms by (cases ?t) (auto simp: less_Suc_eq_le length_dropWhile_le)
    moreover have "length (strip_chars P ?t) \<le> length (dropWhile P ?t)"
      by (simp add: strip_chars_def[of P ?t]) (metis length_dropWhile_le length_rev)
    ultimately show False using t by simp
  qed
  show "\<not> P (last ?t)"
    using assms unfolding strip_chars_def by (metis hd_dropWhile last_rev rev_is_Nil_conv)
qed

lemma canonical_strip_double_slashes: "canonical_key (strip_double_slashes s)"
proof -
  let ?c = "collapse_slashes s"
  have "sublist (strip_chars is_slash ?c) ?c"
    by (rule strip_chars_parts[of ?c is_slash]) (metis sublist_appendI)
  then have "\<not> contains ''//'' (strip_chars is_slash ?c)"
    using collapse_no_pair[of s] by (meson contains_iff_sublist sublist_order.order.trans)
  then show ?thesis
    using strip_chars_ends[of is_slash ?c] by (auto simp: canonical_key_def strip_double_slashes_def)
qed

lemma split_tl_nonempty:
  "\<not> contains ''//'' s \<Longrightarrow> s \<noteq> [] \<Longrightarrow> last s \<noteq> CHR ''/'' \<Longrightarrow>
   [] \<notin> set (tl (split_on (CHR ''/'') s)) \<and>
   (hd (split_on (CHR ''/'') s) = [] \<longleftrightarrow> hd s = CHR ''/'')"
proof (induction s)
  case Nil
  then show ?case by simp
next
  case (Cons x xs)
  show ?case
  proof (cases xs)
    case Nil
    with Cons.prems show ?thesis by auto
  next
    case (Cons y ys)
    have IH: "[] \<notin> set (tl (split_on (CHR ''/'') xs))"
      "hd (split_on (CHR ''/'') xs) = [] \<longleftrightarrow> hd xs = CHR ''/''"
      using Cons.IH Cons.prems Cons by auto
    show ?thesis
    proof (cases "x = CHR ''/''")
      case True
      then have "hd xs \<noteq> CHR ''/''" using Cons.prems Cons by auto
      then have "[] \<notin> set (split_on (CHR ''/'') xs)"
        using IH by (cases "split_on (CHR ''/'') xs") auto
      with True show ?thesis by simp
    next
      case False
      with IH show ?thesis by (cases "split_on (CHR ''/'') xs") auto
    qed
  qed
qed

lemma seg_join_segs: "canonical_key s \<Longrightarrow> seg_join (segs s) = s"
proof (cases "s = []")
  case True
  then show ?thesis by (simp add: seg_join_def)
next
  case False
  assume c: "canonical_key s"
  have "[] \<notin> set (tl (split_on (CHR ''/'') s))" "hd (split_on (CHR ''/'') s) \<noteq> []"
    using split_tl_nonempty[of s] c False by (auto simp: canonical_key_def)
  then have "[] \<notin> set (split_on (CHR ''/'') s)" by (cases "split_on (CHR ''/'') s") auto
  then have "segs s = split_on (CHR ''/'') s" by (auto simp: segs_def filter_id_conv)
  then show ?thesis by (simp add: seg_join_def join_split_on)
qed

lemma strip_double_slashes_canonical: "canonical_key s \<Longrightarrow> strip_double_slashes s = s"
  by (metis canonical_strip_double_slashes seg_join_segs segs_strip_double_slashes)

section \<open>Parsing and joining\<close>

definition part_segs :: "string option \<Rightarrow> string list" where
  "part_segs part = (case part of None \<Rightarrow> [] | Some p \<Rightarrow> segs (strip_ws p))"

lemma segs_join: "segs (join ''/'' ps) = concat (map segs ps)"
proof (induction ps)
  case Nil
  then show ?case by simp
next
  case (Cons p ps)
  then show ?case by (cases "ps = []") (simp_all add: join_Cons segs_slash)
qed

lemma segs_cleaned: "concat (map segs (List.map_filter clean_part ps)) = concat (map part_segs ps)"
proof (induction ps)
  case Nil
  then show ?case by simp
next
  case (Cons p ps)
  have "concat (map segs (List.map_filter clean_part [p])) = part_segs p"
    by (cases p) (simp_all add: clean_part_def part_segs_def segs_strip Let_def map_filter_simps)
  with Cons show ?case
    by (cases "clean_part p") (simp_all add: map_filter_simps)
qed

lemma s3_lake_uri_sel [simp]:
  "u_scheme (s3_lake_uri b k) = S3" "u_bucket (s3_lake_uri b k) = b" "u_key (s3_lake_uri b k) = k"
  "u_local_path (s3_lake_uri b k) = []" "u_uri (s3_lake_uri b k) = ''s3://'' @ b @ ''/'' @ k"
  by (simp_all add: s3_lake_uri_def)

lemma local_lake_uri_sel [simp]:
  "u_scheme (local_lake_uri l) = Local" "u_bucket (local_lake_uri l) = []"
  "u_key (local_lake_uri l) = l" "u_local_path (local_lake_uri l) = l" "u_uri (local_lake_uri l) = l"
  by (simp_all add: local_lake_uri_def)

lemma split_bucket:
  obtains b k where "(case split_first (CHR ''/'') rest of Some (b, k) \<Rightarrow> (b, k) | None \<Rightarrow> (rest, [])) = (b, k)"
    "CHR ''/'' \<notin> set b"
proof (cases "split_first (CHR ''/'') rest")
  case None
  then have "CHR ''/'' \<notin> set rest" by (simp add: split_first_None)
  with None show thesis by (intro that) simp_all
next
  case (Some p)
  then have "split_first (CHR ''/'') rest = Some (fst p, snd p)" by simp
  then have "CHR ''/'' \<notin> set (fst p)" by (rule split_first_Some[THEN iffD1, THEN conjunct2])
  with Some show thesis by (intro that[of "fst p" "snd p"]) (simp_all add: case_prod_beta)
qed

lemma parse_uri_s3_cases:
  assumes "parse_uri uri = Inr u" "is_s3_uri uri"
  obtains b k where "b \<noteq> []" "CHR ''/'' \<notin> set b" "u = s3_lake_uri b (strip_double_slashes k)"
proof -
  obtain b k where bk: "(case split_first (CHR ''/'') (drop 5 uri) of
      Some (b, k) \<Rightarrow> (b, k) | None \<Rightarrow> (drop 5 uri, [])) = (b, k)" "CHR ''/'' \<notin> set b"
    by (rule split_bucket)
  moreover have "uri \<noteq> []" using assms(2) by (auto simp: is_s3_uri_def)
  ultimately have "parse_uri uri = (if b = [] then Inl (ValueError (''Invalid s3 URI (empty bucket): '' @ uri))
      else Inr (s3_lake_uri b (strip_double_slashes k)))"
    using assms(2) by (simp only: parse_uri_def is_s3_uri_def Let_def if_True if_False prod.case)
  with assms(1) bk(2) show thesis by (intro that) (auto split: if_splits)
qed

lemma parse_uri_local_cases:
  assumes "parse_uri uri = Inr u" "\<not> is_s3_uri uri"
  shows "uri \<noteq> []" "u = local_lake_uri (if is_file_uri uri then drop 7 uri else uri)"
    "u_local_path u \<noteq> []"
proof -
  show ne: "uri \<noteq> []" using assms(1) by (auto simp: parse_uri_def)
  have e: "parse_uri uri = (if is_file_uri uri \<and> drop 7 uri = []
      then Inl (ValueError (''Invalid file URI (empty path): '' @ uri))
      else Inr (local_lake_uri (if is_file_uri uri then drop 7 uri else uri)))"
    using assms(2) ne by (simp only: parse_uri_def is_s3_uri_def is_file_uri_def if_False)
  then show u: "u = local_lake_uri (if is_file_uri uri then drop 7 uri else uri)"
    using assms(1) by (metis Inl_Inr_False Inr_inject)
  from e assms(1) have "\<not> (is_file_uri uri \<and> drop 7 uri = [])" by (metis Inl_Inr_False)
  with ne u show "u_local_path u \<noteq> []" by (cases "is_file_uri uri") simp_all
qed

lemma parse_uri_scheme:
  "parse_uri uri = Inr u \<Longrightarrow> u_scheme u = S3 \<longleftrightarrow> is_s3_uri uri"
  by (cases "is_s3_uri uri") (auto elim: parse_uri_s3_cases dest: parse_uri_local_cases(2))

lemma parse_uri_s3:
  "b \<noteq> [] \<Longrightarrow> CHR ''/'' \<notin> set b \<Longrightarrow>
   parse_uri (''s3://'' @ b @ ''/'' @ k) =
     Inr (s3_lake_uri b (strip_double_slashes k))"
proof -
  assume b: "b \<noteq> []" "CHR ''/'' \<notin> set b"
  then have "split_first (CHR ''/'') (b @ CHR ''/'' # k) = Some (b, k)"
    by (simp add: split_first_Some)
  with b show ?thesis by (simp add: parse_uri_def Let_def)
qed

lemma parse_uri_s3_inv:
  assumes "parse_uri uri = Inr u" "u_scheme u = S3"
  shows "u_bucket u \<noteq> []" "CHR ''/'' \<notin> set (u_bucket u)" "canonical_key (u_key u)"
    "u = s3_lake_uri (u_bucket u) (u_key u)"
proof -
  obtain b k where "b \<noteq> []" "CHR ''/'' \<notin> set b" "u = s3_lake_uri b (strip_double_slashes k)"
    using assms parse_uri_scheme parse_uri_s3_cases by metis
  then show "u_bucket u \<noteq> []" "CHR ''/'' \<notin> set (u_bucket u)" "canonical_key (u_key u)"
    "u = s3_lake_uri (u_bucket u) (u_key u)"
    by (simp_all add: canonical_strip_double_slashes)
qed

lemma join_uri_s3:
  assumes "parse_uri base = Inr u" "u_scheme u = S3"
  shows "join_uri base ps =
    Inr (''s3://'' @ u_bucket u @ ''/'' @ seg_join (segs (u_key u) @ concat (map part_segs ps)))"
proof -
  let ?suf = "join ''/'' (List.map_filter clean_part ps)"
  let ?c = "if u_key u \<noteq> [] \<and> ?suf \<noteq> [] then u_key u @ ''/'' @ ?suf
            else if ?suf \<noteq> [] then ?suf else u_key u"
  have suf: "segs ?suf = concat (map part_segs ps)"
    by (simp only: segs_join segs_cleaned)
  then have "segs ?c = segs (u_key u) @ concat (map part_segs ps)"
    by (cases "u_key u = []"; cases "?suf = []") (auto simp: segs_slash)
  then have "strip_double_slashes ?c = seg_join (segs (u_key u) @ concat (map part_segs ps))"
    by (metis canonical_strip_double_slashes seg_join_segs segs_strip_double_slashes)
  with assms show ?thesis by (simp add: join_uri_def is_s3_def Let_def cong: if_cong)
qed

lemma segs_seg_join:
  "\<forall>p\<in>set ps. p \<noteq> [] \<and> CHR ''/'' \<notin> set p \<Longrightarrow> segs (seg_join ps) = ps"
  by (cases "ps = []") (auto simp: segs_def seg_join_def split_on_join filter_id_conv)

lemma segs_parts_ok: "\<forall>p\<in>set (segs s). p \<noteq> [] \<and> CHR ''/'' \<notin> set p"
  by (auto simp: segs_def dest: split_on_sep_free)

lemma join_segs_ok:
  "segs (seg_join (segs s @ concat (map part_segs ps))) = segs s @ concat (map part_segs ps)"
proof (rule segs_seg_join)
  show "\<forall>p\<in>set (segs s @ concat (map part_segs ps)). p \<noteq> [] \<and> CHR ''/'' \<notin> set p"
    using segs_parts_ok by (fastforce simp: part_segs_def split: option.splits)
qed

lemma parse_join_s3:
  assumes "parse_uri base = Inr u" "u_scheme u = S3" "join_uri base ps = Inr w"
  shows "parse_uri w = Inr (s3_lake_uri (u_bucket u) (seg_join (segs (u_key u) @ concat (map part_segs ps))))"
proof -
  let ?k = "seg_join (segs (u_key u) @ concat (map part_segs ps))"
  have "strip_double_slashes ?k = ?k"
    by (metis canonical_strip_double_slashes join_segs_ok seg_join_segs segs_strip_double_slashes)
  moreover have "w = ''s3://'' @ u_bucket u @ ''/'' @ ?k"
    using assms join_uri_s3 by simp
  ultimately show ?thesis
    using parse_uri_s3_inv(1,2)[OF assms(1,2)] parse_uri_s3[of "u_bucket u" ?k] by simp
qed

section \<open>Properties\<close>

text \<open>The slash normalisation of S3 keys (repeated \<open>replace\<close> until no double slash is left,
  then \<open>strip\<close>) computes the join of the key's non-empty path segments, for every key.\<close>

theorem strip_double_slashes_segments: "strip_double_slashes key = seg_join (segs key)"
  by (metis canonical_strip_double_slashes seg_join_segs segs_strip_double_slashes)

text \<open>The rebuilt \<open>uri\<close> of a parsed S3 URI parses back to exactly the same value.\<close>

theorem parse_uri_s3_roundtrip:
  assumes "parse_uri uri = Inr u" "is_s3 u"
  shows "parse_uri (u_uri u) = Inr u"
proof -
  have s3: "u_scheme u = S3" using assms(2) by (simp add: is_s3_def)
  note inv = parse_uri_s3_inv[OF assms(1) s3]
  have uri: "u_uri u = ''s3://'' @ u_bucket u @ ''/'' @ u_key u"
    by (rule s3_lake_uri_sel(5)[of "u_bucket u" "u_key u", folded inv(4)])
  have "parse_uri (u_uri u) = Inr (s3_lake_uri (u_bucket u) (strip_double_slashes (u_key u)))"
    unfolding uri by (rule parse_uri_s3[OF inv(1,2)])
  also have "\<dots> = Inr u"
    using inv(4) by (simp only: strip_double_slashes_canonical[OF inv(3)])
  finally show ?thesis .
qed

theorem parse_uri_s3_roundtrip_witness:
  "parse_uri (''s3://lake/ods/'') = parse_uri ''s3://lake//ods//''"
proof -
  have "parse_uri ''s3://lake//ods//'' = Inr (s3_lake_uri ''lake'' ''ods'')"
    by code_simp
  moreover have "parse_uri ''s3://lake/ods/'' = parse_uri ''s3://lake/ods''"
    by code_simp
  ultimately show ?thesis
    using parse_uri_s3_roundtrip[of "''s3://lake//ods//''"] by (simp add: is_s3_def)
qed

text \<open>On an S3 base, \<open>join_uri\<close> stays in the bucket of the base and appends to the segments of
  its key exactly the segments of the given parts, in order; blank parts and extra slashes add none.\<close>

theorem join_uri_s3_segments:
  assumes "parse_uri base = Inr u" "is_s3 u"
  shows "\<exists>w v. join_uri base ps = Inr w \<and> parse_uri w = Inr v \<and> is_s3 v \<and>
    u_bucket v = u_bucket u \<and> segs (u_key v) = segs (u_key u) @ concat (map part_segs ps)"
proof -
  obtain w where w: "join_uri base ps = Inr w"
    using assms join_uri_s3 by (simp add: is_s3_def)
  have "parse_uri w = Inr (s3_lake_uri (u_bucket u) (seg_join (segs (u_key u) @ concat (map part_segs ps))))"
    using parse_join_s3 assms w by (simp add: is_s3_def)
  with w assms(2) show ?thesis by (auto simp: is_s3_def join_segs_ok)
qed

theorem join_uri_s3_segments_witness:
  "\<exists>w v. join_uri ''s3://b/a/'' [Some ''/x//y'', None, Some '' ''] = Inr w \<and> parse_uri w = Inr v \<and> is_s3 v \<and>
    u_bucket v = ''b'' \<and> segs (u_key v) = [''a'', ''x'', ''y'']"
proof -
  have p: "parse_uri ''s3://b/a/'' = Inr (s3_lake_uri ''b'' ''a'')"
    by code_simp
  have "segs ''a'' @ concat (map part_segs [Some ''/x//y'', None, Some '' '']) = [''a'', ''x'', ''y'']"
    by code_simp
  then show ?thesis
    using join_uri_s3_segments[OF p, of "[Some ''/x//y'', None, Some '' '']"] by (simp add: is_s3_def)
qed

text \<open>Joining on an S3 base is associative: two joins in a row are one join of all the parts.\<close>

theorem join_uri_s3_assoc:
  assumes "parse_uri base = Inr u" "is_s3 u"
  shows "rbind (join_uri base ps) (\<lambda>w. join_uri w qs) = join_uri base (ps @ qs)"
proof -
  let ?k = "seg_join (segs (u_key u) @ concat (map part_segs ps))"
  obtain w where w: "join_uri base ps = Inr w"
    using assms join_uri_s3 by (simp add: is_s3_def)
  have "parse_uri w = Inr (s3_lake_uri (u_bucket u) ?k)"
    using parse_join_s3 assms w by (simp add: is_s3_def)
  then have "join_uri w qs = join_uri base (ps @ qs)"
    using assms join_uri_s3[of base u "ps @ qs"]
      join_uri_s3[of w "s3_lake_uri (u_bucket u) ?k" qs]
    by (simp add: is_s3_def join_segs_ok)
  with w show ?thesis by simp
qed

theorem join_uri_s3_assoc_witness:
  "rbind (join_uri ''s3://b/a'' [Some ''x'']) (\<lambda>w. join_uri w [Some ''y'']) =
   join_uri ''s3://b/a'' [Some ''x'', Some ''y'']"
proof -
  have "parse_uri ''s3://b/a'' = Inr (s3_lake_uri ''b'' ''a'')"
    by code_simp
  then show ?thesis
    using join_uri_s3_assoc[of "''s3://b/a''" _ "[Some ''x'']" "[Some ''y'']"] by (simp add: is_s3_def)
qed

text \<open>On a local base whose path is only slashes the \<open>rstrip\<close> erases the root: the join of an
  absolute root with a relative part is a relative path.\<close>

lemma join_uri_loses_root: "join_uri ''/'' [Some ''a''] = Inr ''a''" "join_uri ''file:///'' [Some ''a''] = Inr ''a''"
  by code_simp+

end
