(* ===== verification/Py_Values.thy ===== *)
theory Py_Values
  imports Prelude
begin

text \<open>
  The dynamic values of the Python: what a JSON or YAML document, a parquet row or an event payload
  holds, with truthiness, \<open>str\<close>, \<open>int\<close>, \<open>==\<close> and the orderings as Python defines them on these
  types, and the glob patterns of \<open>fnmatch\<close>. A comparison that Python refuses with a \<open>TypeError\<close> is
  \<open>None\<close>. \<open>str\<close> of a float or of a container is not the text Python prints (a float prints as its
  fraction); no property of the development depends on it.
\<close>

section \<open>Values\<close>

datatype pyval =
    VNone
  | VBool bool
  | VInt int
  | VFloat rat
  | VStr string
  | VList "pyval list"
  | VDict "(string \<times> pyval) list"

type_synonym pydict = "(string \<times> pyval) list"

definition of_opt_str :: "string option \<Rightarrow> pyval" where
  "of_opt_str o' = (case o' of None \<Rightarrow> VNone | Some s \<Rightarrow> VStr s)"

text \<open>\<open>a or b\<close> on texts, and truth of an optional text.\<close>

definition opt_or :: "string option \<Rightarrow> string \<Rightarrow> string" where
  "opt_or o' d = (case o' of Some s \<Rightarrow> if s = [] then d else s | None \<Rightarrow> d)"

definition opt_truthy :: "string option \<Rightarrow> bool" where
  "opt_truthy o' = (case o' of None \<Rightarrow> False | Some s \<Rightarrow> s \<noteq> [])"

definition of_opt_int :: "int option \<Rightarrow> pyval" where
  "of_opt_int o' = (case o' of None \<Rightarrow> VNone | Some i \<Rightarrow> VInt i)"

definition of_opt_float :: "rat option \<Rightarrow> pyval" where
  "of_opt_float o' = (case o' of None \<Rightarrow> VNone | Some q \<Rightarrow> VFloat q)"

fun truthy :: "pyval \<Rightarrow> bool" where
  "truthy VNone = False"
| "truthy (VBool b) = b"
| "truthy (VInt i) = (i \<noteq> 0)"
| "truthy (VFloat q) = (q \<noteq> 0)"
| "truthy (VStr s) = (s \<noteq> [])"
| "truthy (VList xs) = (xs \<noteq> [])"
| "truthy (VDict d) = (d \<noteq> [])"

definition py_or :: "pyval \<Rightarrow> pyval \<Rightarrow> pyval" where
  "py_or a b = (if truthy a then a else b)"

text \<open>\<open>d.get(k)\<close> and \<open>d.get(k, default)\<close>.\<close>

definition get :: "pydict \<Rightarrow> string \<Rightarrow> pyval" where
  "get d k = dict_get d k VNone"

definition get_or :: "pydict \<Rightarrow> string \<Rightarrow> pyval \<Rightarrow> pyval" where
  "get_or d k v = dict_get d k v"

text \<open>\<open>d[k]\<close>, which raises.\<close>

definition item :: "pydict \<Rightarrow> string \<Rightarrow> pyval result" where
  "item d k = (case map_of d k of None \<Rightarrow> Inl (KeyError k) | Some v \<Rightarrow> Inr v)"

definition trunc_rat :: "rat \<Rightarrow> int" where
  "trunc_rat q = (if q < 0 then - \<lfloor>- q\<rfloor> else \<lfloor>q\<rfloor>)"

definition parse_int :: "string \<Rightarrow> int option" where
  "parse_int s =
     (let t = strip_ws s;
          neg = starts_with t ''-'';
          body = (if neg \<or> starts_with t ''+'' then tl t else t)
      in if str_isdigit body then Some (if neg then - int (nat_of_digits body) else int (nat_of_digits body))
         else None)"

fun py_int :: "pyval \<Rightarrow> int result" where
  "py_int (VInt i) = Inr i"
| "py_int (VBool b) = Inr (if b then 1 else 0)"
| "py_int (VFloat q) = Inr (trunc_rat q)"
| "py_int (VStr s) = (case parse_int s of None \<Rightarrow> Inl (ValueError s) | Some i \<Rightarrow> Inr i)"
| "py_int _ = Inl (TypeError ''int() argument'')"

fun py_str :: "pyval \<Rightarrow> string" where
  "py_str VNone = ''None''"
| "py_str (VBool b) = (if b then ''True'' else ''False'')"
| "py_str (VInt i) = str_of_int i"
| "py_str (VFloat q) = (case quotient_of q of (a, b) \<Rightarrow> str_of_int a @ ''/'' @ str_of_int b)"
| "py_str (VStr s) = s"
| "py_str (VList xs) = ''['' @ join '', '' (map py_str xs) @ '']''"
| "py_str (VDict d) = ''{'' @ join '', '' (map (\<lambda>(k, v). k @ '': '' @ py_str v) d) @ ''}''"

fun num_val :: "pyval \<Rightarrow> rat option" where
  "num_val (VInt i) = Some (of_int i)"
| "num_val (VBool b) = Some (if b then 1 else 0)"
| "num_val (VFloat q) = Some q"
| "num_val _ = None"

text \<open>\<open>float(x)\<close> on a number or on decimal text with an optional fraction and exponent (\<open>inf\<close> and
  \<open>nan\<close> are refused: they have no rational value).\<close>

definition sign_split :: "string \<Rightarrow> bool \<times> string" where
  "sign_split t = (case t of [] \<Rightarrow> (False, [])
     | c # r \<Rightarrow> if c = CHR ''-'' then (True, r) else if c = CHR ''+'' then (False, r) else (False, t))"

definition parse_exponent :: "string \<Rightarrow> rat option" where
  "parse_exponent e = (case sign_split e of (neg, d) \<Rightarrow>
     if str_isdigit d then Some (if neg then 1 / 10 ^ nat_of_digits d else 10 ^ nat_of_digits d) else None)"

definition parse_mantissa :: "string \<Rightarrow> rat option" where
  "parse_mantissa m =
     (let (ip, fp) = (case split_first (CHR ''.'') m of None \<Rightarrow> (m, []) | Some (a, b) \<Rightarrow> (a, b))
      in if ip @ fp \<noteq> [] \<and> list_all is_digit (ip @ fp) then
           Some (of_nat (nat_of_digits (ip @ fp)) / 10 ^ length fp) else None)"

definition parse_float :: "string \<Rightarrow> rat option" where
  "parse_float s = (case sign_split (strip_ws s) of (neg, body) \<Rightarrow>
     let (m, e) = (case split_first (CHR ''e'') (lower body) of
                     None \<Rightarrow> (body, Some 1) | Some (a, b) \<Rightarrow> (a, parse_exponent b))
     in case (parse_mantissa m, e) of
          (Some x, Some y) \<Rightarrow> Some (if neg then - (x * y) else x * y) | _ \<Rightarrow> None)"

definition py_float :: "pyval \<Rightarrow> rat result" where
  "py_float v = (case num_val v of Some q \<Rightarrow> Inr q
     | None \<Rightarrow> (case v of VStr s \<Rightarrow> (case parse_float s of Some q \<Rightarrow> Inr q | None \<Rightarrow> Inl (ValueError s))
                | _ \<Rightarrow> Inl (TypeError ''float() argument'')))"

text \<open>\<open>round(x, n)\<close>: to \<open>n\<close> decimals, halves to even.\<close>

definition round_even :: "rat \<Rightarrow> int" where
  "round_even q = (let f = \<lfloor>q\<rfloor>; r = q - of_int f
     in if r < 1/2 then f else if r > 1/2 then f + 1 else if even f then f else f + 1)"

definition py_round :: "nat \<Rightarrow> rat \<Rightarrow> rat" where
  "py_round n q = of_int (round_even (q * 10 ^ n)) / 10 ^ n"

text \<open>\<open>s.split()\<close>.\<close>

definition py_words :: "string \<Rightarrow> string list" where
  "py_words s = filter (\<lambda>p. p \<noteq> []) (split_on (CHR '' '') (map (\<lambda>c. if is_space c then CHR '' '' else c) s))"

fun py_eq :: "pyval \<Rightarrow> pyval \<Rightarrow> bool"
  and py_eqs :: "pyval list \<Rightarrow> pyval list \<Rightarrow> bool" where
  "py_eq (VStr s) (VStr t) = (s = t)"
| "py_eq VNone VNone = True"
| "py_eq (VList xs) (VList ys) = py_eqs xs ys"
| "py_eq (VDict xs) (VDict ys) =
     (length xs = length ys \<and>
      list_all (\<lambda>(k, v). case map_of ys k of None \<Rightarrow> False | Some w \<Rightarrow> py_eq v w) xs)"
| "py_eq a b = (case (num_val a, num_val b) of (Some x, Some y) \<Rightarrow> x = y | _ \<Rightarrow> False)"
| "py_eqs [] [] = True"
| "py_eqs (x # xs) (y # ys) = (py_eq x y \<and> py_eqs xs ys)"
| "py_eqs _ _ = False"

text \<open>\<open>a < b\<close> and \<open>a <= b\<close>; \<open>strict\<close> tells which. Lists compare at the first unequal position.\<close>

fun py_ord :: "bool \<Rightarrow> pyval \<Rightarrow> pyval \<Rightarrow> bool option"
  and py_ords :: "bool \<Rightarrow> pyval list \<Rightarrow> pyval list \<Rightarrow> bool option" where
  "py_ord strict (VStr s) (VStr t) = Some (if strict then s < t else s \<le> t)"
| "py_ord strict (VList xs) (VList ys) = py_ords strict xs ys"
| "py_ord strict a b =
     (case (num_val a, num_val b) of
        (Some x, Some y) \<Rightarrow> Some (if strict then x < y else x \<le> y) | _ \<Rightarrow> None)"
| "py_ords strict [] ys = Some (if strict then ys \<noteq> [] else True)"
| "py_ords strict (x # xs) [] = Some False"
| "py_ords strict (x # xs) (y # ys) = (if py_eq x y then py_ords strict xs ys else py_ord strict x y)"

definition py_lt :: "pyval \<Rightarrow> pyval \<Rightarrow> bool option" where
  "py_lt a b = py_ord True a b"

definition py_le :: "pyval \<Rightarrow> pyval \<Rightarrow> bool option" where
  "py_le a b = py_ord False a b"

text \<open>A value used as a mapping or as a list; anything else raises.\<close>

fun as_mapping :: "pyval \<Rightarrow> pydict result" where
  "as_mapping (VDict d) = Inr d"
| "as_mapping _ = Inl (TypeError ''not a mapping'')"

fun as_list :: "pyval \<Rightarrow> pyval list result" where
  "as_list (VList xs) = Inr xs"
| "as_list _ = Inl (TypeError ''not a list'')"

text \<open>\<open>a in b\<close> for a list, a dictionary or a string on the right.\<close>

fun py_in :: "pyval \<Rightarrow> pyval \<Rightarrow> bool option" where
  "py_in a (VList xs) = Some (list_ex (py_eq a) xs)"
| "py_in a (VDict d) = (case a of VList _ \<Rightarrow> None | VDict _ \<Rightarrow> None
     | _ \<Rightarrow> Some (list_ex (\<lambda>(k, _). py_eq a (VStr k)) d))"
| "py_in (VStr p) (VStr s) = Some (contains p s)"
| "py_in _ _ = None"

lemma get_set: "get (dict_set k v d) j = (if j = k then v else get d j)"
  by (simp add: get_def dict_get_set)

lemma get_Cons [simp]: "get ((k, v) # d) j = (if j = k then v else get d j)"
  by (simp add: get_def dict_get_def)

lemma get_or_Cons [simp]: "get_or ((k, v) # d) j w = (if j = k then v else get_or d j w)"
  by (simp add: get_or_def dict_get_def)

lemma item_Cons [simp]: "item ((k, v) # d) j = (if j = k then Inr v else item d j)"
  by (simp add: item_def)

lemma get_Nil [simp]: "get [] j = VNone" "get_or [] j w = w" "item [] j = Inl (KeyError j)"
  by (simp_all add: get_def get_or_def dict_get_def item_def)

lemma trunc_rat_of_int [simp]: "trunc_rat (of_int i) = i"
  by (simp add: trunc_rat_def)

lemma trunc_rat_bounds: "0 \<le> q \<Longrightarrow> 0 \<le> trunc_rat q \<and> of_int (trunc_rat q) \<le> q"
  by (simp add: trunc_rat_def)

section \<open>Glob patterns\<close>

text \<open>
  \<open>fnmatch.fnmatch\<close> on POSIX: \<open>*\<close> any run, \<open>?\<close> one character, \<open>[...]\<close> a set with ranges and a
  leading \<open>!\<close> for the complement; an unclosed bracket is a literal.
\<close>

fun in_class :: "string \<Rightarrow> char \<Rightarrow> bool" where
  "in_class (a # b # d # s) c =
     (if b = CHR ''-'' then (a \<le> c \<and> c \<le> d) \<or> in_class s c else a = c \<or> in_class (b # d # s) c)"
| "in_class (a # s) c = (a = c \<or> in_class s c)"
| "in_class [] c = False"

text \<open>The body and the rest of a bracket: the closing bracket is sought after the \<open>!\<close> and after a
  bracket in first position.\<close>

definition bracket :: "string \<Rightarrow> (bool \<times> string \<times> string) option" where
  "bracket p =
     (let neg = starts_with p ''!'';
          q = (if neg then tl p else p)
      in case q of [] \<Rightarrow> None
         | x # q' \<Rightarrow> map_option (\<lambda>(a, b). (neg, x # a, b)) (split_first (CHR '']'') q'))"

lemma split_first_length: "split_first c s = Some (a, b) \<Longrightarrow> length b < length s"
  by (auto simp: split_first_Some)

lemma bracket_length: "bracket p = Some (neg, body, rest) \<Longrightarrow> length rest < length p"
  by (cases p) (auto simp: bracket_def Let_def split: list.splits if_splits
      dest!: split_first_length)

function glob :: "string \<Rightarrow> string \<Rightarrow> bool" where
  "glob [] s = (s = [])"
| "glob (p # ps) s =
     (if p = CHR ''*'' then glob ps s \<or> (case s of [] \<Rightarrow> False | _ # s' \<Rightarrow> glob (p # ps) s')
      else case s of [] \<Rightarrow> False
        | c # s' \<Rightarrow>
            (if p = CHR ''?'' then glob ps s'
             else if p = CHR ''['' then
               (case bracket ps of
                  None \<Rightarrow> c = p \<and> glob ps s'
                | Some (neg, body, rest) \<Rightarrow> in_class body c \<noteq> neg \<and> glob rest s')
             else c = p \<and> glob ps s'))"
  by pat_completeness auto
termination
  by (relation "measures [\<lambda>(p, s). length p + length s]") (auto dest: bracket_length)

declare glob.simps(2) [simp del]

lemma glob_star: "glob ''*'' s"
proof (induction s)
  case Nil
  then show ?case by (simp add: glob.simps(2))
next
  case (Cons c s)
  then show ?case by (subst glob.simps(2)) simp
qed

definition literal_pattern :: "string \<Rightarrow> bool" where
  "literal_pattern p = list_all (\<lambda>c. c \<notin> {CHR ''*'', CHR ''?'', CHR ''[''}) p"

lemma glob_literal: "literal_pattern p \<Longrightarrow> glob p s \<longleftrightarrow> s = p"
proof (induction p arbitrary: s)
  case Nil
  then show ?case by simp
next
  case (Cons c p)
  then show ?case by (cases s) (auto simp: glob.simps(2) literal_pattern_def)
qed

definition matches_any :: "string \<Rightarrow> string list \<Rightarrow> bool" where
  "matches_any name patterns = list_ex (\<lambda>p. glob p name) patterns"

section \<open>Decimal digits\<close>

lemma nat_of_digits_snoc:
  "nat_of_digits (s @ [c]) = 10 * nat_of_digits s + ((of_char c :: nat) - 48)"
  by (simp add: nat_of_digits_def)

lemma of_char_digit: "d < 10 \<Longrightarrow> (of_char (char_of (48 + d :: nat) :: char) :: nat) = 48 + d"
  by (simp add: of_char_of)

lemma nat_of_digits_str: "nat_of_digits (str_of_nat n) = n"
proof (induction n rule: str_of_nat.induct)
  case (1 n)
  show ?case
  proof (cases "n < 10")
    case True
    then show ?thesis
      by (subst str_of_nat.simps) (simp add: nat_of_digits_def of_char_digit)
  next
    case False
    with 1 show ?thesis
      by (subst str_of_nat.simps) (simp add: nat_of_digits_snoc of_char_digit)
  qed
qed

lemma nat_of_digits_zeros: "nat_of_digits (replicate k (CHR ''0'') @ s) = nat_of_digits s"
proof -
  have "foldl (\<lambda>n c. 10 * n + ((of_char c :: nat) - 48)) 0 (replicate k (CHR ''0'')) = 0"
    by (induction k) auto
  then show ?thesis by (simp add: nat_of_digits_def)
qed

lemma nat_of_digits_pad3: "nat_of_digits (pad3 n) = n"
  by (simp add: pad3_def Let_def nat_of_digits_zeros nat_of_digits_str)

lemma pad3_inject [simp]: "pad3 m = pad3 n \<longleftrightarrow> m = n"
  by (metis nat_of_digits_pad3)

lemma is_digit_of_nat: "d < 10 \<Longrightarrow> is_digit (char_of (48 + d :: nat))"
  by (simp add: is_digit_def of_char_digit)

lemma str_of_nat_nonempty: "str_of_nat n \<noteq> []"
  by (subst str_of_nat.simps) simp

lemma digits_str_of_nat: "list_all is_digit (str_of_nat n)"
proof (induction n rule: str_of_nat.induct)
  case (1 n)
  show ?case
  proof (cases "n < 10")
    case True
    then show ?thesis by (subst str_of_nat.simps) (simp add: is_digit_of_nat)
  next
    case False
    with 1 show ?thesis by (subst str_of_nat.simps) (simp add: is_digit_of_nat)
  qed
qed

end
