(* ===== verification/Lake_Env.thy ===== *)
theory Lake_Env
  imports Lake_Uri Py_Values
begin

text \<open>
  What the planners and stores see of the outside: an S3 client reached through its list API (a
  parameter), and the local file tree as \<^verbatim>\<open>pathlib\<close> presents it. \<open>create_lake_store\<close> is the
  dispatch of \<^verbatim>\<open>src/robot_dh/lake/store.py\<close>; the byte counts are those of
  \<^verbatim>\<open>src/robot_dh/sharding/planner.py\<close> and \<^verbatim>\<open>src/robot_dh/perf/io_stats.py\<close>.
\<close>

section \<open>The file tree\<close>

datatype fnode = FFile int | FDir "(string \<times> fnode) list"

text \<open>
  \<open>e_list_objects bucket prefix\<close> is the concatenation of the pages of \<open>list_objects_v2\<close>, each
  object with its key and size; \<open>e_s3_ready\<close> tells whether the environment variables of
  \<open>S3LakeStore.from_env\<close> are set; \<open>e_node\<close> is the file or directory at a normalised local path, if any;
  \<open>e_parquet_rows\<close> the row count in a parquet footer, \<open>None\<close> when reading it raises.
\<close>

record lake_env =
  e_s3_ready :: bool
  e_list_objects :: "string \<Rightarrow> string \<Rightarrow> (string \<times> int) list"
  e_node :: "string \<Rightarrow> fnode option"
  e_parquet_rows :: "string \<Rightarrow> int option"

datatype store_kind = S3LakeStore | LocalLakeStore

definition create_lake_store :: "lake_env \<Rightarrow> string \<Rightarrow> store_kind result" where
  "create_lake_store env uri =
     rbind (parse_uri uri) (\<lambda>parsed.
       if is_s3 parsed then
         (if e_s3_ready env then Inr S3LakeStore
          else Inl (ValueError ''S3LakeStore.from_env(): missing environment variables''))
       else Inr LocalLakeStore)"

text \<open>\<open>sorted(root.rglob("*"))\<close> restricted to files: relative paths with their sizes. A directory
  is listed in the order of its entries' names, as sorting paths by their parts does.\<close>

fun walk_files :: "string list \<Rightarrow> fnode \<Rightarrow> (string list \<times> int) list" where
  "walk_files p (FFile n) = [(p, n)]"
| "walk_files p (FDir es) = concat (map (\<lambda>(name, node). walk_files (p @ [name]) node) es)"

definition sorted_walk :: "fnode \<Rightarrow> (string list \<times> int) list" where
  "sorted_walk node = sort_key fst (walk_files [] node)"

text \<open>\<open>Path(s)\<close> as a string: empty and \<open>.\<close> components vanish, a leading slash (or exactly two)
  stays, and the empty path is \<open>.\<close>; and a path below a directory.\<close>

definition path_root :: "string \<Rightarrow> string" where
  "path_root s = (if starts_with s ''//'' \<and> \<not> starts_with s ''///'' then ''//''
     else if starts_with s ''/'' then ''/'' else [])"

definition path_parts :: "string \<Rightarrow> string list" where
  "path_parts s = filter (\<lambda>p. p \<noteq> [] \<and> p \<noteq> ''.'') (split_on (CHR ''/'') s)"

definition path_str :: "string \<Rightarrow> string" where
  "path_str s = (let t = path_root s @ join ''/'' (path_parts s) in if t = [] then ''.'' else t)"

definition posix :: "string \<Rightarrow> string list \<Rightarrow> string" where
  "posix base ps = path_str (join ''/'' (base # ps))"

text \<open>\<open>_estimate_local_dataset_bytes\<close> / \<open>measure_local_dir_bytes\<close>: a file's own size, otherwise
  the sum over the tree; a missing path has no files.\<close>

definition local_bytes :: "fnode option \<Rightarrow> int" where
  "local_bytes n = (case n of None \<Rightarrow> 0 | Some (FFile k) \<Rightarrow> k
     | Some (FDir es) \<Rightarrow> sum_list (map snd (walk_files [] (FDir es))))"

definition dir_prefix :: "string \<Rightarrow> string" where
  "dir_prefix key = (if key \<noteq> [] \<and> \<not> ends_with key ''/'' then key @ ''/'' else key)"

definition s3_bytes :: "lake_env \<Rightarrow> string \<Rightarrow> int result" where
  "s3_bytes env uri = rbind (parse_uri uri) (\<lambda>parsed.
     Inr (sum_list (map snd (e_list_objects env (u_bucket parsed) (dir_prefix (u_key parsed))))))"

definition local_uri_bytes :: "lake_env \<Rightarrow> string \<Rightarrow> int result" where
  "local_uri_bytes env uri = rbind (parse_uri uri) (\<lambda>parsed.
     Inr (local_bytes (e_node env (path_str (u_local_path parsed)))))"

text \<open>The documented behaviour of \<open>list_objects_v2\<close> that the planners rely on: only keys with the
  prefix are listed, each key once, and sizes are not negative.\<close>

definition s3_listing_ok :: "lake_env \<Rightarrow> bool" where
  "s3_listing_ok env = (\<forall>b p. distinct (map fst (e_list_objects env b p)) \<and>
     (\<forall>(k, n)\<in>set (e_list_objects env b p). prefix p k \<and> 0 \<le> n))"

text \<open>File sizes of a tree are not negative.\<close>

fun sizes_ok :: "fnode \<Rightarrow> bool" where
  "sizes_ok (FFile n) = (0 \<le> n)"
| "sizes_ok (FDir es) = list_all (\<lambda>(_, node). sizes_ok node) es"

lemma walk_sizes: "sizes_ok node \<Longrightarrow> (q, n) \<in> set (walk_files p node) \<Longrightarrow> 0 \<le> n"
proof (induction p node rule: walk_files.induct)
  case (1 p n)
  then show ?case by simp
next
  case (2 p es)
  then show ?case by (fastforce simp: list_all_iff)
qed

lemma local_bytes_nonneg: "\<forall>m. n = Some m \<longrightarrow> sizes_ok m \<Longrightarrow> 0 \<le> local_bytes n"
proof (cases n)
  case (Some m)
  assume ok: "\<forall>m. n = Some m \<longrightarrow> sizes_ok m"
  show ?thesis
  proof (cases m)
    case (FDir es)
    have "\<forall>x\<in>set (map snd (walk_files [] m)). 0 \<le> x"
      using walk_sizes[of m] ok Some by fastforce
    then show ?thesis using Some FDir by (auto simp: local_bytes_def simp del: walk_files.simps intro!: sum_list_nonneg)
  qed (use Some ok in \<open>simp add: local_bytes_def\<close>)
qed (simp add: local_bytes_def)

definition env_ok :: "lake_env \<Rightarrow> bool" where
  "env_ok env = (s3_listing_ok env \<and> (\<forall>p n. e_node env p = Some n \<longrightarrow> sizes_ok n))"

end
