(* ===== verification/Partition_Planner.thy ===== *)
theory Partition_Planner
  imports Packing Lake_Env
begin

text \<open>
  \<^verbatim>\<open>src/robot_dh/partition/planner.py\<close> and \<^verbatim>\<open>partition/models.py\<close>: listing of a data set's
  files, detection of its family, selection of the input files, first-fit-decreasing packing into
  partitions, the row estimate and the assembled plan.
\<close>

section \<open>Data\<close>

type_synonym dfile = "string \<times> int"

record partition =
  pt_id :: string
  pt_index :: nat
  pt_dataset_uri :: string
  pt_uri :: string
  pt_input_files :: "string list"
  pt_input_bytes :: int
  pt_estimated_rows :: int
  pt_metrics :: pydict

record partition_plan =
  pp_id :: string
  pp_dataset_id :: string
  pp_version :: string
  pp_dataset_uri :: string
  pp_family :: string
  pp_type :: string
  pp_target_bytes :: int
  pp_total_bytes :: int
  pp_partitions :: "partition list"
  pp_created_at :: string

definition lower_ends :: "string \<Rightarrow> string \<Rightarrow> bool" where
  "lower_ends s e = ends_with (lower s) e"

section \<open>Listing and detection\<close>

definition local_listing :: "lake_env \<Rightarrow> string \<Rightarrow> dfile list" where
  "local_listing env base =
     (case e_node env (path_str base) of
        None \<Rightarrow> []
      | Some (FFile n) \<Rightarrow> [(path_str base, n)]
      | Some (FDir es) \<Rightarrow> map (\<lambda>(p, n). (posix base p, n)) (sorted_walk (FDir es)))"

definition list_files :: "lake_env \<Rightarrow> store_kind \<Rightarrow> string \<Rightarrow> dfile list result" where
  "list_files env store dataset_uri =
     (if is_s3_uri dataset_uri then
        (if store \<noteq> S3LakeStore then Inl (RuntimeError ''expected S3LakeStore for s3 uri'')
         else rbind (parse_uri dataset_uri) (\<lambda>parsed.
           Inr (map (\<lambda>(key, n). (''s3://'' @ u_bucket parsed @ ''/'' @ key, n))
             (e_list_objects env (u_bucket parsed) (dir_prefix (u_key parsed))))))
      else rbind (parse_uri dataset_uri) (\<lambda>parsed. Inr (local_listing env (u_local_path parsed))))"

definition detect_dataset_family :: "string \<Rightarrow> string option \<Rightarrow> dfile list \<Rightarrow> string" where
  "detect_dataset_family dataset_uri family_hint files =
     (case family_hint of
        Some (c # cs) \<Rightarrow> lower (c # cs)
      | _ \<Rightarrow>
        (let lname = lower dataset_uri;
             has_parquet = list_ex (\<lambda>p. lower_ends (fst p) ''.parquet'') files;
             has_hdf5 = list_ex (\<lambda>p. lower_ends (fst p) ''.hdf5'' \<or> lower_ends (fst p) ''.h5'') files;
             has_endpose = list_ex (\<lambda>p. lower_ends (fst p) ''/endpose.pt'') files;
             has_video = list_ex (\<lambda>p. lower_ends (fst p) ''.mp4'') files
         in if contains ''robomimic'' lname then ''robomimic''
            else if contains ''droid'' lname then ''droid''
            else if contains ''lerobot'' lname then ''lerobot''
            else if contains ''bridge'' lname then ''bridge''
            else if has_endpose then ''demo''
            else if has_hdf5 \<and> \<not> has_video then ''robomimic''
            else if has_parquet \<and> has_video then ''lerobot''
            else if has_parquet then ''bridge''
            else ''universal''))"

definition partition_type_for_family :: "string \<Rightarrow> string" where
  "partition_type_for_family family =
     (if family \<in> {''droid'', ''lerobot''} then ''parquet_file''
      else if family = ''robomimic'' then ''hdf5_file''
      else if family = ''bridge'' then ''parquet_file''
      else ''single'')"

definition select_input_files :: "string \<Rightarrow> dfile list \<Rightarrow> dfile list" where
  "select_input_files family files =
     (if family \<in> {''droid'', ''lerobot'', ''bridge''} then
        filter (\<lambda>f. lower_ends (fst f) ''.parquet'') files
      else if family = ''robomimic'' then
        filter (\<lambda>f. lower_ends (fst f) ''.hdf5'' \<or> lower_ends (fst f) ''.h5'') files
      else files)"

section \<open>Packing\<close>

text \<open>The two parallel lists of \<open>_pack\<close>: the groups and their sizes. The inner loop over the
  indices stops at the first grp with room.\<close>

type_synonym groups = "dfile list list \<times> int list"

definition place_file :: "int \<Rightarrow> dfile \<Rightarrow> groups \<Rightarrow> groups" where
  "place_file target_bytes f gs =
     (case gs of (groups, sizes) \<Rightarrow>
        (case first_room target_bytes (snd f) sizes of
           Some i \<Rightarrow> (groups[i := groups ! i @ [f]], sizes[i := sizes ! i + snd f])
         | None \<Rightarrow> (groups @ [[f]], sizes @ [snd f])))"

definition pack_loop :: "int \<Rightarrow> dfile list \<Rightarrow> groups" where
  "pack_loop target_bytes fs = fold (place_file target_bytes) fs ([], [])"

text \<open>\<open>sorted(..., reverse=True)\<close> keeps the order of equal sizes, as sorting by the negated size
  does.\<close>

definition pack_files :: "dfile list \<Rightarrow> int \<Rightarrow> dfile list list" where
  "pack_files partition_files target_bytes =
     map (sort_key fst) (fst (pack_loop target_bytes (sort_key (\<lambda>p. - snd p) partition_files)))"

section \<open>Row estimate\<close>

fun precise_parquet_rows :: "lake_env \<Rightarrow> dfile list \<Rightarrow> int option" where
  "precise_parquet_rows env [] = Some 0"
| "precise_parquet_rows env ((uri, sz) # grp) =
     (if \<not> lower_ends uri ''.parquet'' then None
      else case e_parquet_rows env uri of None \<Rightarrow> None
        | Some n \<Rightarrow> map_option (\<lambda>m. n + m) (precise_parquet_rows env grp))"

definition estimate_rows :: "lake_env \<Rightarrow> dfile list \<Rightarrow> string \<Rightarrow> int" where
  "estimate_rows env grp family =
     (let bytes_total = sum_list (map snd grp)
      in if family \<in> {''droid'', ''lerobot'', ''bridge''} then
           (case precise_parquet_rows env grp of
              Some n \<Rightarrow> n | None \<Rightarrow> trunc_rat (of_int bytes_total / 256))
         else if family = ''robomimic'' then trunc_rat (of_int bytes_total / 1024)
         else 0)"

section \<open>The plan\<close>

definition partition_id :: "string \<Rightarrow> nat \<Rightarrow> string" where
  "partition_id plan_id idx = plan_id @ ''-p'' @ pad3 idx"

definition mk_partition :: "lake_env \<Rightarrow> string \<Rightarrow> string \<Rightarrow> string \<Rightarrow> nat \<Rightarrow> dfile list \<Rightarrow> partition" where
  "mk_partition env plan_id dataset_uri family idx grp =
     \<lparr>pt_id = partition_id plan_id idx, pt_index = idx, pt_dataset_uri = dataset_uri,
      pt_uri = (if length grp = 1 then fst (grp ! 0) else dataset_uri),
      pt_input_files = map fst grp, pt_input_bytes = sum_list (map snd grp),
      pt_estimated_rows = estimate_rows env grp family,
      pt_metrics = [(''family'', VStr family), (''file_count'', VInt (int (length grp)))]\<rparr>"

definition fallback_partition :: "string \<Rightarrow> string \<Rightarrow> string \<Rightarrow> dfile list \<Rightarrow> partition" where
  "fallback_partition plan_id dataset_uri family files =
     \<lparr>pt_id = plan_id @ ''-p000'', pt_index = 0, pt_dataset_uri = dataset_uri, pt_uri = dataset_uri,
      pt_input_files = map fst files, pt_input_bytes = sum_list (map snd files),
      pt_estimated_rows = 0, pt_metrics = [(''family'', VStr family)]\<rparr>"

definition mk_partitions :: "lake_env \<Rightarrow> string \<Rightarrow> string \<Rightarrow> string \<Rightarrow> nat \<Rightarrow> dfile list list \<Rightarrow> partition list" where
  "mk_partitions env plan_id dataset_uri family n groups =
     map (\<lambda>(idx, grp). mk_partition env plan_id dataset_uri family idx grp) (enumerate n groups)"

text \<open>The plan id and the time stamp are drawn by the code when the caller gives no id; here they
  are arguments.\<close>

definition plan_dataset_partitions ::
  "lake_env \<Rightarrow> string \<Rightarrow> string \<Rightarrow> string \<Rightarrow> rat \<Rightarrow> string option \<Rightarrow> string \<Rightarrow> string \<Rightarrow> partition_plan result" where
  "plan_dataset_partitions env dataset_uri dataset_id version target_gb family_hint plan_id now =
     (let target_bytes = max 1 (trunc_rat (target_gb * (1024 ^ 3)))
      in rbind (create_lake_store env dataset_uri) (\<lambda>store.
         rbind (list_files env store dataset_uri) (\<lambda>files.
           let total_bytes = sum_list (map snd files);
               family = detect_dataset_family dataset_uri family_hint files;
               selected = select_input_files family files;
               parts = (if selected = [] then [fallback_partition plan_id dataset_uri family files]
                 else mk_partitions env plan_id dataset_uri family 0 (pack_files selected target_bytes))
           in Inr \<lparr>pp_id = plan_id, pp_dataset_id = dataset_id, pp_version = version,
                   pp_dataset_uri = dataset_uri, pp_family = family,
                   pp_type = (if selected = [] then ''single'' else partition_type_for_family family),
                   pp_target_bytes = target_bytes, pp_total_bytes = total_bytes,
                   pp_partitions = parts, pp_created_at = now\<rparr>)))"

section \<open>The packing meets its contract\<close>

definition group_bins :: "groups \<Rightarrow> dfile bin list" where
  "group_bins gs = zip (fst gs) (snd gs)"

definition groups_inv :: "groups \<Rightarrow> bool" where
  "groups_inv gs = (length (fst gs) = length (snd gs))"

lemma place_file_bins:
  "groups_inv gs \<Longrightarrow> groups_inv (place_file cap f gs) \<and>
   group_bins (place_file cap f gs) = ff_place cap snd f (group_bins gs)"
proof -
  assume inv: "groups_inv gs"
  obtain groups sizes where gs: "gs = (groups, sizes)" by (cases gs)
  have sizes: "map snd (group_bins gs) = sizes"
    using inv by (simp add: group_bins_def groups_inv_def gs)
  show ?thesis
  proof (cases "first_room cap (snd f) sizes")
    case None
    with inv sizes show ?thesis
      by (simp add: gs place_file_def groups_inv_def group_bins_def ff_place_def open_bin_def)
  next
    case (Some i)
    then have "i < length sizes" using first_room_Some by blast
    with inv sizes Some show ?thesis
      by (simp add: gs place_file_def groups_inv_def group_bins_def ff_place_def add_at_def
          zip_update[symmetric])
  qed
qed

interpretation files: first_fit snd "\<lambda>f gs. Inr (place_file cap f gs)" group_bins groups_inv
  "([], [])" cap for cap
proof unfold_locales
  fix x s s'
  assume "groups_inv s" "Inr (place_file cap x s) = (Inr s' :: groups result)"
  then show "groups_inv s'" "placed snd x (group_bins s) (group_bins s')"
    using place_file_bins[of s cap x] ff_place_placed[of snd x "group_bins s" cap] by auto
next
  fix x s
  assume "groups_inv s"
  then show "\<exists>s'. Inr (place_file cap x s) = (Inr s' :: groups result) \<and>
      group_bins s' = ff_place cap snd x (group_bins s)"
    using place_file_bins by blast
qed (simp_all add: groups_inv_def group_bins_def)

lemma pack_loop_pack: "files.pack cap fs = Inr (pack_loop cap fs)"
proof -
  have "rfold (\<lambda>f gs. Inr (place_file cap f gs)) fs s = Inr (fold (place_file cap) fs s)" for s
    by (induction fs arbitrary: s) auto
  then show ?thesis by (simp add: files.pack_def pack_loop_def)
qed

lemma pack_loop_groups:
  "fst (pack_loop cap fs) = map fst (group_bins (pack_loop cap fs))"
  "snd (pack_loop cap fs) = map snd (group_bins (pack_loop cap fs))"
  using files.pack_inv[OF pack_loop_pack, of cap fs] by (simp_all add: group_bins_def groups_inv_def)

lemma concat_sort_groups: "mset (concat (map (sort_key fst) gs)) = mset (concat gs)"
  by (induction gs) auto

lemma pack_files_mset: "mset (concat (pack_files fs cap)) = mset fs"
  using files.pack_items[OF pack_loop_pack, of cap "sort_key (\<lambda>p. - snd p) fs"]
  by (simp only: pack_files_def pack_loop_groups(1) concat_sort_groups all_items_def mset_sort)

lemma pack_files_elem:
  assumes "g \<in> set (pack_files fs cap)"
  obtains b where "b \<in> set (group_bins (pack_loop cap (sort_key (\<lambda>p. - snd p) fs)))"
    "g = sort_key fst (fst b)" "fst b \<noteq> []" "snd b = sum_list (map snd g)"
proof -
  obtain b where b: "b \<in> set (group_bins (pack_loop cap (sort_key (\<lambda>p. - snd p) fs)))"
      "g = sort_key fst (fst b)"
    using assms by (auto simp: pack_files_def pack_loop_groups)
  moreover have "fst b \<noteq> [] \<and> snd b = sum_list (map snd (fst b))"
    using files.pack_loads[OF pack_loop_pack] b(1) by (fastforce simp: loads_right_def)
  ultimately show thesis using that[of b] by (auto simp: sum_list_sort_key)
qed

lemma pack_files_nonempty: "g \<in> set (pack_files fs cap) \<Longrightarrow> g \<noteq> []"
  by (erule pack_files_elem) (metis length_0_conv length_sort)

lemma pack_files_cap:
  assumes "g \<in> set (pack_files fs cap)"
  shows "sum_list (map snd g) \<le> cap \<or> length g = 1"
proof -
  obtain b where b: "b \<in> set (group_bins (pack_loop cap (sort_key (\<lambda>p. - snd p) fs)))"
      "g = sort_key fst (fst b)" "snd b = sum_list (map snd g)"
    using assms by (rule pack_files_elem)
  then have "snd b \<le> cap \<or> length (fst b) = 1"
    using files.pack_cap[OF pack_loop_pack] unfolding within_cap_def by blast
  with b show ?thesis by simp
qed

lemma pack_files_bound:
  assumes "\<forall>f\<in>set fs. 0 \<le> snd f" "2 \<le> length (pack_files fs cap)"
  shows "int (length (pack_files fs cap)) * cap < 2 * sum_list (map snd fs)"
proof -
  let ?fs = "sort_key (\<lambda>p. - snd p) fs"
  have len: "length (pack_files fs cap) = length (group_bins (pack_loop cap ?fs))"
    by (simp add: pack_files_def pack_loop_groups)
  have "int (length (group_bins (pack_loop cap ?fs))) * cap < 2 * sum_list (map snd ?fs)"
    by (rule files.pack_bin_bound[OF pack_loop_pack]) (use assms len in auto)
  then show ?thesis by (simp add: len sum_list_sort_key)
qed

section \<open>The assembled plan\<close>

text \<open>What a returned plan is made of, with the listed files and the selection named.\<close>

lemma plan_dataset_partitions_cases:
  assumes "plan_dataset_partitions env uri did ver gb hint pid now = Inr p"
  obtains st files where "create_lake_store env uri = Inr st" "list_files env st uri = Inr files"
    "pp_family p = detect_dataset_family uri hint files"
    "pp_target_bytes p = max 1 (trunc_rat (gb * 1024 ^ 3))"
    "pp_total_bytes p = sum_list (map snd files)"
    "pp_partitions p =
      (let sel = select_input_files (pp_family p) files
       in if sel = [] then [fallback_partition pid uri (pp_family p) files]
          else mk_partitions env pid uri (pp_family p) 0 (pack_files sel (pp_target_bytes p)))"
  using assms by (auto simp: plan_dataset_partitions_def Let_def rbind_Inr_iff)

definition planned_files :: "string \<Rightarrow> dfile list \<Rightarrow> dfile list" where
  "planned_files family files =
     (let sel = select_input_files family files in if sel = [] then files else sel)"

lemma partition_id_inject [simp]: "partition_id pid i = partition_id pid j \<longleftrightarrow> i = j"
  by (simp add: partition_id_def)

lemma mk_partitions_simps [simp]:
  "mk_partitions env pid uri fam n [] = []"
  "mk_partitions env pid uri fam n (g # gs) =
     mk_partition env pid uri fam n g # mk_partitions env pid uri fam (Suc n) gs"
  by (simp_all add: mk_partitions_def)

lemma mk_partitions_facts:
  "concat (map pt_input_files (mk_partitions env pid uri fam n gs)) = map fst (concat gs)"
  "sum_list (map pt_input_bytes (mk_partitions env pid uri fam n gs)) = sum_list (map snd (concat gs))"
  "map pt_index (mk_partitions env pid uri fam n gs) = [n..<n + length gs]"
  "map pt_id (mk_partitions env pid uri fam n gs) = map (partition_id pid) [n..<n + length gs]"
  "length (mk_partitions env pid uri fam n gs) = length gs"
  by (induction gs arbitrary: n) (simp_all add: mk_partition_def upt_rec)

lemma mk_partitions_elem:
  "q \<in> set (mk_partitions env pid uri fam n gs) \<Longrightarrow>
   \<exists>idx g. g \<in> set gs \<and> q = mk_partition env pid uri fam idx g"
  by (induction gs arbitrary: n) fastforce+

lemma list_files_sizes:
  assumes "env_ok env" "list_files env st uri = Inr files"
  shows "\<forall>f\<in>set files. 0 \<le> snd f"
proof (cases "is_s3_uri uri")
  case True
  with assms show ?thesis
    by (fastforce simp: list_files_def rbind_Inr_iff env_ok_def s3_listing_ok_def split: if_splits)
next
  case False
  with assms(2) have "\<exists>u::lake_uri. files = local_listing env (u_local_path u)"
    by (auto simp: list_files_def rbind_Inr_iff)
  then obtain u :: lake_uri where u: "files = local_listing env (u_local_path u)" ..
  show ?thesis
  proof (cases "e_node env (path_str (u_local_path u))")
    case (Some n)
    then have ok: "sizes_ok n" using assms(1) by (simp add: env_ok_def)
    have "\<forall>f\<in>set (sorted_walk n). 0 \<le> snd f"
      using walk_sizes[OF ok] by (auto simp: sorted_walk_def)
    with u Some ok show ?thesis by (cases n) (auto simp: local_listing_def case_prod_beta)
  qed (use u in \<open>simp add: local_listing_def\<close>)
qed

section \<open>Properties\<close>

text \<open>C11. A partition plan covers its files exactly once: the input files of the partitions together
  are the files selected for the family (all listed files when none is selected), their bytes add up
  to the selected bytes, the partition indices count from zero and the partition ids are distinct.\<close>

theorem partition_plan_covers:
  assumes "plan_dataset_partitions env uri did ver gb hint pid now = Inr p"
  shows "\<exists>st files. list_files env st uri = Inr files \<and>
    mset (concat (map pt_input_files (pp_partitions p))) = mset (map fst (planned_files (pp_family p) files)) \<and>
    sum_list (map pt_input_bytes (pp_partitions p)) = sum_list (map snd (planned_files (pp_family p) files)) \<and>
    map pt_index (pp_partitions p) = [0..<length (pp_partitions p)] \<and>
    distinct (map pt_id (pp_partitions p))"
proof (rule plan_dataset_partitions_cases[OF assms])
  fix st files
  assume lf: "list_files env st uri = Inr files"
    and ps: "pp_partitions p =
      (let sel = select_input_files (pp_family p) files
       in if sel = [] then [fallback_partition pid uri (pp_family p) files]
          else mk_partitions env pid uri (pp_family p) 0 (pack_files sel (pp_target_bytes p)))"
  let ?sel = "select_input_files (pp_family p) files"
  show ?thesis
  proof (cases "?sel = []")
    case True
    with lf ps show ?thesis
      by (intro exI[of _ st] exI[of _ files]) (simp add: fallback_partition_def planned_files_def)
  next
    case False
    let ?gs = "pack_files ?sel (pp_target_bytes p)"
    note e = mk_partitions_facts[of env pid uri "pp_family p" 0 ?gs]
    have ps': "pp_partitions p = mk_partitions env pid uri (pp_family p) 0 ?gs"
      using ps False by simp
    have "mset (map fst (concat ?gs)) = mset (map fst ?sel)"
      using pack_files_mset[of ?sel] by (simp only: mset_map)
    moreover have "sum_list (map snd (concat ?gs)) = sum_list (map snd ?sel)"
      by (rule sum_list_mset_eq) (rule pack_files_mset)
    moreover have "distinct (map (partition_id pid) [0..<length ?gs])"
      by (simp add: distinct_map inj_on_def)
    ultimately show ?thesis
      using lf False e
      by (intro exI[of _ st] exI[of _ files]) (simp add: ps' planned_files_def Let_def)
  qed
qed


text \<open>A data set of three parquet files, with a target of one byte (the least the code allows).\<close>

definition demo_env :: lake_env where
  "demo_env = \<lparr>e_s3_ready = False, e_list_objects = (\<lambda>_ _. []),
     e_node = (\<lambda>p. if p = ''ds'' then Some (FDir [(''b.parquet'', FFile 1), (''a.parquet'', FFile 3),
       (''x'', FDir [(''c.parquet'', FFile 1), (''n.txt'', FFile 9)])]) else None),
     e_parquet_rows = (\<lambda>_. None)\<rparr>"

lemma demo_plan:
  "\<exists>p. plan_dataset_partitions demo_env ''./ds/'' ''ds'' ''v1'' 0 None ''P'' ''now'' = Inr p \<and>
    map pt_input_files (pp_partitions p) =
      [[''ds/a.parquet''], [''ds/b.parquet''], [''ds/x/c.parquet'']] \<and>
    map pt_input_bytes (pp_partitions p) = [3, 1, 1] \<and> pp_target_bytes p = 1"
proof -
  let ?r = "plan_dataset_partitions demo_env ''./ds/'' ''ds'' ''v1'' 0 None ''P'' ''now''"
  have "(case ?r of Inl _ \<Rightarrow> False | Inr p \<Rightarrow>
    map pt_input_files (pp_partitions p) =
      [[''ds/a.parquet''], [''ds/b.parquet''], [''ds/x/c.parquet'']] \<and>
    map pt_input_bytes (pp_partitions p) = [3, 1, 1] \<and> pp_target_bytes p = 1)"
    by code_simp
  then show ?thesis by (cases ?r) auto
qed

lemma demo_env_ok: "env_ok demo_env"
  by (simp add: env_ok_def demo_env_def s3_listing_ok_def)

theorem partition_plan_covers_witness:
  "\<exists>p. plan_dataset_partitions demo_env ''./ds/'' ''ds'' ''v1'' 0 None ''P'' ''now'' = Inr p \<and>
    distinct (map pt_id (pp_partitions p)) \<and> length (pp_partitions p) = 3"
  using demo_plan partition_plan_covers by (metis length_map length_Cons list.size(3) numeral_3_eq_3)


end
