(* ===== verification/Shard_Planner.thy ===== *)
theory Shard_Planner
  imports Packing Lake_Env
begin

text \<open>
  \<^verbatim>\<open>src/robot_dh/sharding/models.py\<close> (the plan and its JSON form, shard lookup) and
  \<^verbatim>\<open>src/robot_dh/sharding/planner.py\<close> (discovery of data sets under an S3 or local root,
  first-fit-decreasing packing with a hard limit on the number of shards, \<open>plan_etl\<close>).
\<close>

section \<open>Data\<close>

record plan_dataset =
  pd_dataset_id :: string
  pd_version :: string
  pd_uri :: string
  pd_bytes :: int

record plan_shard =
  sh_id :: string
  sh_index :: int
  sh_datasets :: "plan_dataset list"
  sh_bytes :: int
  sh_status :: string

record etl_plan =
  ep_plan_id :: string
  ep_created_at :: string
  ep_root_uri :: string
  ep_lake_root :: string
  ep_target :: int
  ep_total_datasets :: int
  ep_total_bytes :: int
  ep_shards :: "plan_shard list"
  ep_include :: "string list"
  ep_exclude :: "string list"

section \<open>The JSON form\<close>

definition plan_dataset_to_dict :: "plan_dataset \<Rightarrow> pydict" where
  "plan_dataset_to_dict d =
     [(''dataset_id'', VStr (pd_dataset_id d)), (''version'', VStr (pd_version d)),
      (''dataset_uri'', VStr (pd_uri d)), (''input_bytes'', VInt (pd_bytes d))]"

definition plan_shard_to_dict :: "plan_shard \<Rightarrow> pydict" where
  "plan_shard_to_dict s =
     [(''shard_id'', VStr (sh_id s)), (''shard_index'', VInt (sh_index s)),
      (''total_bytes'', VInt (sh_bytes s)), (''status'', VStr (sh_status s)),
      (''datasets'', VList (map (\<lambda>d. VDict (plan_dataset_to_dict d)) (sh_datasets s)))]"

definition etl_plan_to_dict :: "etl_plan \<Rightarrow> pydict" where
  "etl_plan_to_dict p =
     [(''plan_id'', VStr (ep_plan_id p)), (''created_at'', VStr (ep_created_at p)),
      (''root_uri'', VStr (ep_root_uri p)), (''lake_root'', VStr (ep_lake_root p)),
      (''target_shard_size_bytes'', VInt (ep_target p)),
      (''total_datasets'', VInt (ep_total_datasets p)), (''total_bytes'', VInt (ep_total_bytes p)),
      (''include_patterns'', VList (map VStr (ep_include p))),
      (''exclude_patterns'', VList (map VStr (ep_exclude p))),
      (''shards'', VList (map (\<lambda>s. VDict (plan_shard_to_dict s)) (ep_shards p)))]"

text \<open>
  Reading a plan back. \<open>v or []\<close> is iterated: a falsy value is the empty list, a string gives its
  characters and a mapping its keys; the fields that the dataclasses take without conversion must
  have the annotated type.
\<close>

definition list_or_empty :: "pyval \<Rightarrow> pyval list result" where
  "list_or_empty v = (if \<not> truthy v then Inr []
     else case v of VList xs \<Rightarrow> Inr xs
       | VStr s \<Rightarrow> Inr (map (\<lambda>c. VStr [c]) s)
       | VDict d \<Rightarrow> Inr (map (\<lambda>(k, _). VStr k) d)
       | _ \<Rightarrow> Inl (TypeError ''not iterable''))"

fun as_dict :: "pyval \<Rightarrow> pydict result" where
  "as_dict (VDict d) = Inr d"
| "as_dict _ = Inl (TypeError ''not a mapping'')"

fun as_str :: "pyval \<Rightarrow> string result" where
  "as_str (VStr s) = Inr s"
| "as_str _ = Inl (TypeError ''not a string'')"

fun as_int :: "pyval \<Rightarrow> int result" where
  "as_int (VInt i) = Inr i"
| "as_int _ = Inl (TypeError ''not an int'')"

text \<open>A keyword argument of \<open>PlanDataset(**d)\<close>: the call raises when it is missing.\<close>

definition kwarg :: "pydict \<Rightarrow> string \<Rightarrow> pyval result" where
  "kwarg d k = (case map_of d k of None \<Rightarrow> Inl (TypeError ''missing required argument'') | Some v \<Rightarrow> Inr v)"

lemma kwarg_Cons [simp]: "kwarg ((k, v) # d) j = (if j = k then Inr v else kwarg d j)"
  by (simp add: kwarg_def)

definition plan_dataset_from_kwargs :: "pydict \<Rightarrow> plan_dataset result" where
  "plan_dataset_from_kwargs d =
     (if list_all (\<lambda>k. k \<in> {''dataset_id'', ''version'', ''dataset_uri'', ''input_bytes''}) (dict_keys d) then
        rbind (rbind (kwarg d ''dataset_id'') as_str) (\<lambda>i.
        rbind (rbind (kwarg d ''version'') as_str) (\<lambda>v.
        rbind (rbind (kwarg d ''dataset_uri'') as_str) (\<lambda>u.
        rbind (rbind (kwarg d ''input_bytes'') as_int) (\<lambda>b.
          Inr \<lparr>pd_dataset_id = i, pd_version = v, pd_uri = u, pd_bytes = b\<rparr>))))
      else Inl (TypeError ''unexpected keyword argument''))"

definition plan_shard_from_dict :: "pydict \<Rightarrow> plan_shard result" where
  "plan_shard_from_dict s =
     rbind (list_or_empty (get_or s ''datasets'' (VList []))) (\<lambda>ds.
     rbind (rmap (\<lambda>d. rbind (as_dict d) plan_dataset_from_kwargs) ds) (\<lambda>datasets.
     rbind (rbind (item s ''shard_id'') as_str) (\<lambda>sid.
     rbind (py_int (get_or s ''shard_index'' (VInt 0))) (\<lambda>idx.
     rbind (py_int (get_or s ''total_bytes'' (VInt 0))) (\<lambda>tb.
       Inr \<lparr>sh_id = sid, sh_index = idx, sh_datasets = datasets, sh_bytes = tb,
            sh_status = py_str (get_or s ''status'' (VStr ''PENDING''))\<rparr>)))))"

definition etl_plan_from_dict :: "pydict \<Rightarrow> etl_plan result" where
  "etl_plan_from_dict raw =
     rbind (list_or_empty (get_or raw ''shards'' (VList []))) (\<lambda>ss.
     rbind (rmap (\<lambda>s. rbind (as_dict s) plan_shard_from_dict) ss) (\<lambda>shards.
     rbind (py_int (get_or raw ''target_shard_size_bytes'' (VInt 0))) (\<lambda>tgt.
     rbind (py_int (get_or raw ''total_datasets'' (VInt 0))) (\<lambda>td.
     rbind (py_int (get_or raw ''total_bytes'' (VInt 0))) (\<lambda>tb.
     rbind (rbind (list_or_empty (get_or raw ''include_patterns'' (VList []))) (rmap as_str)) (\<lambda>inc.
     rbind (rbind (list_or_empty (get_or raw ''exclude_patterns'' (VList []))) (rmap as_str)) (\<lambda>exc.
       Inr \<lparr>ep_plan_id = py_str (get raw ''plan_id''), ep_created_at = py_str (get raw ''created_at''),
            ep_root_uri = py_str (get_or raw ''root_uri'' (VStr [])),
            ep_lake_root = py_str (get_or raw ''lake_root'' (VStr [])),
            ep_target = tgt, ep_total_datasets = td, ep_total_bytes = tb, ep_shards = shards,
            ep_include = inc, ep_exclude = exc\<rparr>)))))))"

section \<open>Shard lookup\<close>

datatype shard_ref = ByIndex int | ById string

fun get_shard :: "etl_plan \<Rightarrow> shard_ref \<Rightarrow> plan_shard option" where
  "get_shard plan (ByIndex i) = find (\<lambda>s. sh_index s = i) (ep_shards plan)"
| "get_shard plan (ById i) = find (\<lambda>s. sh_id s = i) (ep_shards plan)"

section \<open>Discovery\<close>

definition data_file_exts :: "string list" where
  "data_file_exts = [''.pt'', ''.parquet'', ''.hdf5'', ''.h5'', ''.mp4'', ''.yaml'', ''.yml'', ''.json'', ''.tar'']"

definition looks_like_dataset :: "string list \<Rightarrow> bool" where
  "looks_like_dataset uris = list_ex (\<lambda>uri. list_ex (\<lambda>ext. ends_with (lower uri) ext) data_file_exts) uris"

definition raw_prefix_from_root_key :: "string \<Rightarrow> string" where
  "raw_prefix_from_root_key root_key =
     (let base_key = strip_chars is_slash root_key
      in if base_key = [] then ''raw/''
         else if base_key = ''raw'' \<or> ends_with base_key ''/raw'' then base_key @ ''/''
         else base_key @ ''/raw/'')"

definition s3_key_dataset :: "string \<Rightarrow> string \<Rightarrow> (string \<times> string) option" where
  "s3_key_dataset p key =
     (let rel = (if starts_with key p then drop (length p) key else key);
          parts = split_on (CHR ''/'') rel
      in if length parts < 3 then None
         else let ds = parts ! 0; ver = parts ! 1
              in if ds = [] \<or> ver = [] then None else Some (ds, ver))"

definition discover_s3_dataset_prefixes :: "lake_env \<Rightarrow> string \<Rightarrow> (string \<times> string \<times> string) list result" where
  "discover_s3_dataset_prefixes env root_uri =
     rbind (parse_uri root_uri) (\<lambda>parsed.
       let p = raw_prefix_from_root_key (u_key parsed);
           seen = List.map_filter (s3_key_dataset p) (map fst (e_list_objects env (u_bucket parsed) p))
       in Inr (map (\<lambda>(ds, ver). (ds, ver, ''s3://'' @ u_bucket parsed @ ''/'' @ p @ ds @ ''/'' @ ver @ ''/''))
                 (sort (remdups seen))))"

text \<open>The sorted sub-directories of a directory, and the version directories that hold data.\<close>

fun subdirs :: "fnode \<Rightarrow> (string \<times> fnode) list" where
  "subdirs (FFile n) = []"
| "subdirs (FDir es) = sort_key fst (filter (\<lambda>(_, node). case node of FDir _ \<Rightarrow> True | FFile _ \<Rightarrow> False) es)"

definition version_dirs :: "string \<Rightarrow> fnode \<Rightarrow> (string \<times> string \<times> string) list" where
  "version_dirs base node =
     concat (map (\<lambda>(ds, dnode).
       List.map_filter (\<lambda>(ver, vnode).
         (let files = map (\<lambda>(p, _). posix base (ds # ver # p)) (walk_files [] vnode)
          in if looks_like_dataset files then Some (ds, ver, posix base [ds, ver]) else None))
         (subdirs dnode)) (subdirs node))"

definition raw_dir :: "fnode \<Rightarrow> fnode option" where
  "raw_dir node = (case node of FFile _ \<Rightarrow> None
     | FDir es \<Rightarrow> (case map_of es ''raw'' of Some (FDir rs) \<Rightarrow> Some (FDir rs) | _ \<Rightarrow> None))"

definition discover_local_dataset_prefixes :: "lake_env \<Rightarrow> string \<Rightarrow> (string \<times> string \<times> string) list result" where
  "discover_local_dataset_prefixes env root_uri =
     rbind (parse_uri root_uri) (\<lambda>parsed.
       (case e_node env (path_str (u_local_path parsed)) of
          None \<Rightarrow> Inr []
        | Some node \<Rightarrow>
            (case raw_dir node of
               Some r \<Rightarrow> Inr (version_dirs (posix (u_local_path parsed) [''raw'']) r)
             | None \<Rightarrow>
                 (case node of FFile _ \<Rightarrow> Inl (OSError ''Not a directory'')
                  | FDir _ \<Rightarrow> Inr (version_dirs (u_local_path parsed) node)))))"

definition with_bytes :: "(string \<Rightarrow> int result) \<Rightarrow> string \<times> string \<times> string \<Rightarrow> plan_dataset result" where
  "with_bytes measure_bytes i = (case i of (ds, ver, uri) \<Rightarrow>
     rbind (measure_bytes uri) (\<lambda>n.
       Inr \<lparr>pd_dataset_id = ds, pd_version = ver, pd_uri = uri, pd_bytes = n\<rparr>))"

definition discover_datasets :: "lake_env \<Rightarrow> string \<Rightarrow> plan_dataset list result" where
  "discover_datasets env root_uri =
     (if is_s3_uri root_uri then
        rbind (create_lake_store env root_uri) (\<lambda>store.
          if store \<noteq> S3LakeStore then Inl (RuntimeError ''expected S3LakeStore for s3 root_uri'')
          else rbind (discover_s3_dataset_prefixes env root_uri) (rmap (with_bytes (s3_bytes env))))
      else rbind (discover_local_dataset_prefixes env root_uri) (rmap (with_bytes (local_uri_bytes env))))"

section \<open>Packing\<close>

definition new_shard_id :: "string \<Rightarrow> nat \<Rightarrow> string" where
  "new_shard_id plan_id idx = plan_id @ ''::shard-'' @ pad3 idx"

definition new_shard :: "string \<Rightarrow> nat \<Rightarrow> plan_dataset list \<Rightarrow> int \<Rightarrow> plan_shard" where
  "new_shard plan_id idx ds nbytes =
     \<lparr>sh_id = new_shard_id plan_id idx, sh_index = int idx, sh_datasets = ds, sh_bytes = nbytes,
      sh_status = ''PENDING''\<rparr>"

definition add_dataset :: "plan_dataset \<Rightarrow> plan_shard \<Rightarrow> plan_shard" where
  "add_dataset ds s = s\<lparr>sh_datasets := sh_datasets s @ [ds], sh_bytes := sh_bytes s + pd_bytes ds\<rparr>"

text \<open>\<open>min(shards, key=...)\<close>: the index of the first smallest; it raises on an empty list.\<close>

fun min_index :: "int list \<Rightarrow> nat option" where
  "min_index [] = None"
| "min_index (x # xs) =
     (case min_index xs of None \<Rightarrow> Some 0 | Some j \<Rightarrow> if x \<le> xs ! j then Some 0 else Some (Suc j))"

definition place_dataset :: "int \<Rightarrow> int \<Rightarrow> string \<Rightarrow> plan_dataset \<Rightarrow> plan_shard list \<Rightarrow> plan_shard list result" where
  "place_dataset target_bytes max_shards plan_id ds shards =
     (case first_room target_bytes (pd_bytes ds) (map sh_bytes shards) of
        Some i \<Rightarrow> Inr (shards[i := add_dataset ds (shards ! i)])
      | None \<Rightarrow>
          (if int (length shards) \<ge> max_shards then
             (case min_index (map sh_bytes shards) of
                None \<Rightarrow> Inl (ValueError ''min() arg is an empty sequence'')
              | Some i \<Rightarrow> Inr (shards[i := add_dataset ds (shards ! i)]))
           else Inr (shards @ [new_shard plan_id (length shards) [ds] (pd_bytes ds)])))"

definition pack_into_shards :: "plan_dataset list \<Rightarrow> int \<Rightarrow> int \<Rightarrow> string \<Rightarrow> plan_shard list result" where
  "pack_into_shards datasets target_bytes max_shards plan_id =
     rbind (rfold (place_dataset target_bytes max_shards plan_id)
              (sort_key (\<lambda>d. - pd_bytes d) datasets) [])
       (\<lambda>shards. Inr (if shards = [] then [new_shard plan_id 0 [] 0] else shards))"

section \<open>The plan\<close>

definition included :: "string list \<Rightarrow> plan_dataset \<Rightarrow> bool" where
  "included pats d = (matches_any (pd_dataset_id d) pats \<or> matches_any (pd_uri d) pats)"

definition filter_datasets :: "string list \<Rightarrow> string list \<Rightarrow> plan_dataset list \<Rightarrow> plan_dataset list" where
  "filter_datasets incl excl datasets =
     (let ds = (if incl \<noteq> [] then filter (included incl) datasets else datasets)
      in if excl \<noteq> [] then filter (\<lambda>d. \<not> included excl d) ds else ds)"

definition plan_etl ::
  "lake_env \<Rightarrow> string \<Rightarrow> string \<Rightarrow> rat \<Rightarrow> int \<Rightarrow> string list \<Rightarrow> string list \<Rightarrow> string \<Rightarrow> string \<Rightarrow> etl_plan result" where
  "plan_etl env root_uri lake_root target_gb max_shards incl excl plan_id now =
     (let target_bytes = trunc_rat (target_gb * (1024 ^ 3))
      in rbind (discover_datasets env root_uri) (\<lambda>found.
         let datasets = filter_datasets incl excl found
         in rbind (pack_into_shards datasets target_bytes max_shards plan_id) (\<lambda>shards.
           Inr \<lparr>ep_plan_id = plan_id, ep_created_at = now, ep_root_uri = root_uri,
                ep_lake_root = lake_root, ep_target = target_bytes,
                ep_total_datasets = int (length datasets),
                ep_total_bytes = sum_list (map pd_bytes datasets), ep_shards = shards,
                ep_include = incl, ep_exclude = excl\<rparr>)))"

section \<open>The packing meets its contract\<close>

definition shard_bins :: "plan_shard list \<Rightarrow> plan_dataset bin list" where
  "shard_bins shards = map (\<lambda>s. (sh_datasets s, sh_bytes s)) shards"

text \<open>Shards are numbered from zero in order, with the ids of their numbers, within the limit.\<close>

definition shards_numbered :: "string \<Rightarrow> plan_shard list \<Rightarrow> bool" where
  "shards_numbered plan_id shards =
     (map sh_index shards = map int [0..<length shards] \<and>
      map sh_id shards = map (new_shard_id plan_id) [0..<length shards] \<and>
      map sh_status shards = replicate (length shards) ''PENDING'')"

definition shards_inv :: "int \<Rightarrow> string \<Rightarrow> plan_shard list \<Rightarrow> bool" where
  "shards_inv max_shards plan_id shards =
     (shards_numbered plan_id shards \<and> int (length shards) \<le> max 0 max_shards)"

lemma min_index_bound: "min_index ls = Some i \<Longrightarrow> i < length ls"
  by (induction ls arbitrary: i) (auto split: option.splits if_splits)

lemma min_index_None: "min_index ls = None \<longleftrightarrow> ls = []"
  by (cases ls) (auto split: option.splits)

lemma min_index_least: "min_index ls = Some i \<Longrightarrow> \<forall>x\<in>set ls. ls ! i \<le> x"
proof (induction ls arbitrary: i)
  case Nil
  then show ?case by simp
next
  case (Cons l ls)
  then show ?case by (cases "min_index ls") (force simp: min_index_None split: if_splits)+
qed

lemma add_dataset_sel [simp]:
  "sh_id (add_dataset ds s) = sh_id s" "sh_index (add_dataset ds s) = sh_index s"
  "sh_status (add_dataset ds s) = sh_status s"
  by (simp_all add: add_dataset_def)

lemma map_add_dataset:
  "i < length shards \<Longrightarrow> f (add_dataset ds (shards ! i)) = f (shards ! i) \<Longrightarrow>
   map f (shards[i := add_dataset ds (shards ! i)]) = map f shards"
  by (simp add: map_update list_update_same_conv)

lemma add_dataset_at:
  assumes "i < length shards"
  shows "shard_bins (shards[i := add_dataset ds (shards ! i)]) = add_at pd_bytes ds i (shard_bins shards)"
    and "shards_numbered pid shards \<Longrightarrow> shards_numbered pid (shards[i := add_dataset ds (shards ! i)])"
proof -
  show "shard_bins (shards[i := add_dataset ds (shards ! i)]) = add_at pd_bytes ds i (shard_bins shards)"
    using assms by (simp add: shard_bins_def add_at_def add_dataset_def map_update)
  show "shards_numbered pid shards \<Longrightarrow> shards_numbered pid (shards[i := add_dataset ds (shards ! i)])"
    using assms by (simp add: shards_numbered_def map_add_dataset)
qed

lemma place_dataset_cases:
  assumes "place_dataset target max_shards pid ds shards = Inr shards'"
  obtains (add) i where "i < length shards" "shards' = shards[i := add_dataset ds (shards ! i)]"
    | (new) "int (length shards) < max_shards" "shards' = shards @ [new_shard pid (length shards) [ds] (pd_bytes ds)]"
proof (cases "first_room target (pd_bytes ds) (map sh_bytes shards)")
  case None
  show thesis
  proof (cases "int (length shards) \<ge> max_shards")
    case True
    show thesis
    proof (cases "min_index (map sh_bytes shards)")
      case (Some i)
      then show thesis
        using assms None True min_index_bound[OF Some] by (intro add[of i]) (simp_all add: place_dataset_def)
    qed (use assms None True in \<open>simp add: place_dataset_def\<close>)
  qed (use assms None new in \<open>simp add: place_dataset_def\<close>)
next
  case (Some i)
  then show thesis
    using assms first_room_Some[OF Some] by (intro add[of i]) (simp_all add: place_dataset_def)
qed

interpretation shards: bin_packing pd_bytes "place_dataset target max_shards pid" shard_bins
  "shards_inv max_shards pid" "[]" for target max_shards pid
proof unfold_locales
  fix x s s'
  assume inv: "shards_inv max_shards pid s" and p: "place_dataset target max_shards pid x s = Inr s'"
  from p show "shards_inv max_shards pid s'"
  proof (cases rule: place_dataset_cases)
    case (add i)
    with inv show ?thesis using add_dataset_at(2)[of i s pid x] by (simp add: shards_inv_def)
  next
    case new
    with inv show ?thesis
      by (simp add: shards_inv_def shards_numbered_def new_shard_def replicate_append_same)
  qed
  from p show "placed pd_bytes x (shard_bins s) (shard_bins s')"
  proof (cases rule: place_dataset_cases)
    case (add i)
    then show ?thesis
      using add_dataset_at(1)[of i s x] by (auto simp: placed_def shard_bins_def)
  next
    case new
    then show ?thesis by (simp add: placed_def open_bin_def shard_bins_def new_shard_def)
  qed
qed (simp_all add: shards_inv_def shards_numbered_def shard_bins_def)

lemma pack_into_shards_Inr:
  assumes "pack_into_shards datasets target max_shards pid = Inr shards"
  obtains t where "shards.pack target max_shards pid (sort_key (\<lambda>d. - pd_bytes d) datasets) = Inr t"
    "shards = (if t = [] then [new_shard pid 0 [] 0] else t)"
  using assms that by (auto simp: pack_into_shards_def shards.pack_def rbind_Inr_iff)

lemma place_dataset_returns:
  "shards \<noteq> [] \<or> 0 < max_shards \<Longrightarrow> \<exists>s'. place_dataset target max_shards pid ds shards = Inr s' \<and> s' \<noteq> []"
proof (cases "first_room target (pd_bytes ds) (map sh_bytes shards)")
  case None
  assume a: "shards \<noteq> [] \<or> 0 < max_shards"
  show ?thesis
  proof (cases "shards = []")
    case True
    with a None show ?thesis by (simp add: place_dataset_def)
  next
    case False
    then obtain i where "min_index (map sh_bytes shards) = Some i"
      using min_index_None[of "map sh_bytes shards"] by auto
    with None False show ?thesis by (simp add: place_dataset_def)
  qed
next
  case (Some i)
  then show ?thesis using first_room_Some[OF Some] by (auto simp: place_dataset_def)
qed

lemma fold_dataset_returns:
  "shards \<noteq> [] \<or> 0 < max_shards \<Longrightarrow> \<exists>s'. rfold (place_dataset target max_shards pid) ds shards = Inr s'"
proof (induction ds arbitrary: shards)
  case Nil
  then show ?case by simp
next
  case (Cons d ds)
  obtain s' where "place_dataset target max_shards pid d shards = Inr s'" "s' \<noteq> []"
    using place_dataset_returns[OF Cons.prems] by blast
  with Cons.IH[of s'] show ?case by simp
qed

lemma shards_nth:
  "shards_numbered pid shards \<Longrightarrow> i < length shards \<Longrightarrow>
   sh_index (shards ! i) = int i \<and> sh_id (shards ! i) = new_shard_id pid i"
  unfolding shards_numbered_def
  using nth_map[of i shards sh_index] nth_map[of i shards sh_id]
  by (metis add_0 diff_zero length_upt nth_map nth_upt)

lemma new_shard_id_inject [simp]: "new_shard_id pid i = new_shard_id pid j \<longleftrightarrow> i = j"
  by (simp add: new_shard_id_def)

lemma find_unique:
  "i < length xs \<Longrightarrow> P (xs ! i) \<Longrightarrow> (\<And>j. j < i \<Longrightarrow> \<not> P (xs ! j)) \<Longrightarrow> find P xs = Some (xs ! i)"
  unfolding find_Some_iff by blast

lemma get_shard_index:
  "shards_numbered pid (ep_shards plan) \<Longrightarrow> i < length (ep_shards plan) \<Longrightarrow>
   get_shard plan (ByIndex (int i)) = Some (ep_shards plan ! i)"
  by (simp, rule find_unique) (simp_all add: shards_nth)

lemma get_shard_id:
  "shards_numbered pid (ep_shards plan) \<Longrightarrow> i < length (ep_shards plan) \<Longrightarrow>
   get_shard plan (ById (new_shard_id pid i)) = Some (ep_shards plan ! i)"
  by (simp, rule find_unique) (simp_all add: shards_nth)

lemma plan_etl_shards:
  assumes "plan_etl env root_uri lake_root gb max_shards incl excl pid now = Inr p"
  obtains found where "discover_datasets env root_uri = Inr found"
    "pack_into_shards (filter_datasets incl excl found) (ep_target p) max_shards pid = Inr (ep_shards p)"
    "ep_total_bytes p = sum_list (map pd_bytes (filter_datasets incl excl found))"
    "ep_total_datasets p = int (length (filter_datasets incl excl found))"
  using assms by (auto simp: plan_etl_def Let_def rbind_Inr_iff)

lemma pack_into_shards_facts:
  assumes "pack_into_shards datasets target max_shards pid = Inr shards"
  shows "mset (concat (map sh_datasets shards)) = mset datasets"
    "\<forall>s\<in>set shards. sh_bytes s = sum_list (map pd_bytes (sh_datasets s))"
    "shards_numbered pid shards" "shards \<noteq> []" "int (length shards) \<le> max 1 max_shards"
proof -
  obtain t where t: "shards.pack target max_shards pid (sort_key (\<lambda>d. - pd_bytes d) datasets) = Inr t"
      "shards = (if t = [] then [new_shard pid 0 [] 0] else t)"
    using assms by (rule pack_into_shards_Inr)
  have items: "mset (concat (map sh_datasets t)) = mset datasets"
    using shards.pack_items[OF t(1)] by (simp add: all_items_def shard_bins_def comp_def)
  have loads: "\<forall>s\<in>set t. sh_bytes s = sum_list (map pd_bytes (sh_datasets s))"
    using shards.pack_loads[OF t(1)] by (auto simp: loads_right_def shard_bins_def)
  have inv: "shards_numbered pid t" "int (length t) \<le> max 0 max_shards"
    using shards.pack_inv[OF t(1)] by (simp_all add: shards_inv_def)
  show "mset (concat (map sh_datasets shards)) = mset datasets"
    "\<forall>s\<in>set shards. sh_bytes s = sum_list (map pd_bytes (sh_datasets s))"
    "shards_numbered pid shards" "shards \<noteq> []" "int (length shards) \<le> max 1 max_shards"
    using t(2) items loads inv by (auto simp: new_shard_def shards_numbered_def)
qed

lemma sum_list_concat_map:
  "sum_list (map f (concat (map g xs))) = (\<Sum>x\<leftarrow>xs. sum_list (map f (g x)) :: int)"
  by (induction xs) simp_all

lemma rmap_map_id: "(\<And>x. x \<in> set xs \<Longrightarrow> f (g x) = Inr x) \<Longrightarrow> rmap f (map g xs) = Inr xs"
  by (induction xs) auto

lemma list_or_empty_VList [simp]: "list_or_empty (VList xs) = Inr xs"
  by (simp add: list_or_empty_def)

lemma plan_dataset_roundtrip: "plan_dataset_from_kwargs (plan_dataset_to_dict d) = Inr d"
  by (cases d) (simp add: plan_dataset_from_kwargs_def plan_dataset_to_dict_def)

lemma plan_shard_roundtrip: "plan_shard_from_dict (plan_shard_to_dict s) = Inr s"
  by (cases s) (simp add: plan_shard_from_dict_def plan_shard_to_dict_def rmap_map_id plan_dataset_roundtrip)

section \<open>Properties\<close>

text \<open>C2. A plan returned by \<open>plan_etl\<close> puts every discovered data set that passes the include and
  exclude patterns into exactly one shard; each shard records the sum of its data sets' bytes, the
  shard bytes add up to the plan's total, there is at least one shard and at most the limit (or one),
  and shard number and shard id find the shard they name.\<close>

theorem plan_etl_covers:
  assumes "plan_etl env root_uri lake_root gb max_shards incl excl pid now = Inr p"
  shows "\<exists>found. discover_datasets env root_uri = Inr found \<and>
    mset (concat (map sh_datasets (ep_shards p))) = mset (filter_datasets incl excl found) \<and>
    (\<forall>s\<in>set (ep_shards p). sh_bytes s = sum_list (map pd_bytes (sh_datasets s))) \<and>
    sum_list (map sh_bytes (ep_shards p)) = ep_total_bytes p \<and>
    1 \<le> length (ep_shards p) \<and> int (length (ep_shards p)) \<le> max 1 max_shards \<and>
    (\<forall>i < length (ep_shards p). get_shard p (ByIndex (int i)) = Some (ep_shards p ! i) \<and>
      get_shard p (ById (new_shard_id pid i)) = Some (ep_shards p ! i))"
proof (rule plan_etl_shards[OF assms])
  fix found
  assume f: "discover_datasets env root_uri = Inr found"
    "pack_into_shards (filter_datasets incl excl found) (ep_target p) max_shards pid = Inr (ep_shards p)"
    "ep_total_bytes p = sum_list (map pd_bytes (filter_datasets incl excl found))"
  note facts = pack_into_shards_facts[OF f(2)]
  have "map sh_bytes (ep_shards p) = map (\<lambda>s. sum_list (map pd_bytes (sh_datasets s))) (ep_shards p)"
    using facts(2) by simp
  then have "sum_list (map sh_bytes (ep_shards p)) =
      sum_list (map pd_bytes (concat (map sh_datasets (ep_shards p))))"
    by (simp only: sum_list_concat_map)
  also have "\<dots> = ep_total_bytes p"
    unfolding f(3) by (rule sum_list_mset_eq) (rule facts(1))
  finally show ?thesis
    using f(1) facts get_shard_index get_shard_id by (fastforce simp: Suc_le_eq)
qed

text \<open>Packing raises exactly when there are data sets to place and the limit on the number of
  shards is not positive (the minimum over no shards); otherwise it returns a packing.\<close>

theorem pack_into_shards_raises:
  "(\<exists>e. pack_into_shards datasets target max_shards pid = Inl e) \<longleftrightarrow> datasets \<noteq> [] \<and> max_shards \<le> 0"
proof (cases "datasets = [] \<or> 0 < max_shards")
  case True
  then show ?thesis
    using fold_dataset_returns[of "[]" max_shards target pid "sort_key (\<lambda>d. - pd_bytes d) datasets"]
    by (auto simp: pack_into_shards_def)
next
  case False
  then obtain d ds where "sort_key (\<lambda>d. - pd_bytes d) datasets = d # ds"
    by (metis length_0_conv length_sort neq_Nil_conv)
  with False show ?thesis by (simp add: pack_into_shards_def place_dataset_def)
qed

text \<open>A plan written as JSON by \<open>to_dict\<close> is read back by \<open>from_dict\<close> as the same plan.\<close>

theorem etl_plan_json_roundtrip: "etl_plan_from_dict (etl_plan_to_dict p) = Inr p"
  by (cases p) (simp add: etl_plan_from_dict_def etl_plan_to_dict_def rmap_map_id plan_shard_roundtrip)

text \<open>A bucket with two data sets, packed into two shards.\<close>

definition demo_lake :: lake_env where
  "demo_lake = \<lparr>e_s3_ready = True,
     e_list_objects = (\<lambda>b p. [(''raw/a/v1/x.pt'', 7), (''raw/b/v1/y.pt'', 9), (''raw/README'', 1)]),
     e_node = (\<lambda>_. None), e_parquet_rows = (\<lambda>_. None)\<rparr>"

lemma demo_plan_etl:
  "case plan_etl demo_lake ''s3://b'' ''s3://l'' 0 2 [] [] ''P'' ''now'' of Inl _ \<Rightarrow> False
   | Inr p \<Rightarrow> length (ep_shards p) = 2 \<and> map pd_dataset_id (sh_datasets (ep_shards p ! 1)) = [''b'']"
  by code_simp

theorem plan_etl_covers_witness:
  "\<exists>p. plan_etl demo_lake ''s3://b'' ''s3://l'' 0 2 [] [] ''P'' ''now'' = Inr p \<and>
     length (ep_shards p) = 2 \<and> sum_list (map sh_bytes (ep_shards p)) = ep_total_bytes p \<and>
     get_shard p (ByIndex 1) = Some (ep_shards p ! 1)"
proof (cases "plan_etl demo_lake ''s3://b'' ''s3://l'' 0 2 [] [] ''P'' ''now''")
  case (Inl e)
  then show ?thesis using demo_plan_etl by simp
next
  case (Inr p)
  then have len: "length (ep_shards p) = 2" using demo_plan_etl by simp
  have "sum_list (map sh_bytes (ep_shards p)) = ep_total_bytes p \<and>
      (\<forall>i < length (ep_shards p). get_shard p (ByIndex (int i)) = Some (ep_shards p ! i))"
    using plan_etl_covers[OF Inr] by blast
  then have "sum_list (map sh_bytes (ep_shards p)) = ep_total_bytes p"
    and "get_shard p (ByIndex (int 1)) = Some (ep_shards p ! 1)"
    using len by (blast, metis one_less_numeral_iff semiring_norm(76))
  with Inr len show ?thesis by simp
qed

end
