(* ===== verification/Json_Docs.thy ===== *)
theory Json_Docs
  imports Lake_Env
begin

text \<open>
  \<^verbatim>\<open>src/robot_dh/sharding/io.py\<close>: JSON documents written, read and listed by URI, on S3 or on the
  local disk. The store is an association list from the address of a document to its content; the
  address of an S3 URI is its canonical form, the address of anything else is the path that
  \<open>Path(uri)\<close> denotes. A document is the JSON object itself: \<open>json.loads\<close> after \<open>json.dumps\<close> is taken
  to be the identity on the objects written here (text keys, no NaN).
\<close>

type_synonym json_docs = "(string \<times> pydict) list"

definition doc_key :: "lake_env \<Rightarrow> string \<Rightarrow> string result" where
  "doc_key env uri =
     (if is_s3_uri uri then
        rbind (create_lake_store env uri) (\<lambda>_.
        rbind (parse_uri uri) (\<lambda>u. Inr (''s3://'' @ u_bucket u @ ''/'' @ u_key u)))
      else Inr (path_str uri))"

definition write_json_uri :: "lake_env \<Rightarrow> string \<Rightarrow> pydict \<Rightarrow> json_docs \<Rightarrow> json_docs result" where
  "write_json_uri env uri payload docs = rbind (doc_key env uri) (\<lambda>k. Inr (dict_set k payload docs))"

definition read_json_uri :: "lake_env \<Rightarrow> json_docs \<Rightarrow> string \<Rightarrow> pydict result" where
  "read_json_uri env docs uri = rbind (doc_key env uri) (\<lambda>k.
     case map_of docs k of None \<Rightarrow> Inl (FileNotFoundError k) | Some p \<Rightarrow> Inr p)"

text \<open>\<open>store.list\<close> on S3 (a sole object, or every key below the prefix, in key order), and the sorted
  files below a local directory.\<close>

definition below :: "string \<Rightarrow> string \<Rightarrow> bool" where
  "below k d =
     (if k = ''.'' then \<not> starts_with d ''/'' \<and> \<not> is_s3_uri d
      else starts_with d (if ends_with k ''/'' then k else k @ ''/''))"

definition list_local_or_s3 :: "lake_env \<Rightarrow> json_docs \<Rightarrow> string \<Rightarrow> string list result" where
  "list_local_or_s3 env docs uri =
     rbind (doc_key env uri) (\<lambda>k.
       if is_s3_uri uri \<and> \<not> ends_with k ''/'' \<and> k \<in> set (dict_keys docs) then Inr [k]
       else let found = filter (below k) (dict_keys docs)
            in Inr (if is_s3_uri uri then sort found else sort_key path_parts found))"

section \<open>The contract\<close>

text \<open>What the readers of documents rely on: a document is read as it was last written to its
  address, and a write touches one address.\<close>

locale json_store =
  fixes addr :: "string \<Rightarrow> string result"
    and wr :: "string \<Rightarrow> pydict \<Rightarrow> 't \<Rightarrow> 't result"
    and rd :: "'t \<Rightarrow> string \<Rightarrow> pydict result"
  assumes wr_addr: "wr u d t = Inr t' \<Longrightarrow> \<exists>k. addr u = Inr k"
    and addr_wr: "addr u = Inr k \<Longrightarrow> \<exists>t'. wr u d t = Inr t'"
    and rd_same: "wr u d t = Inr t' \<Longrightarrow> addr v = addr u \<Longrightarrow> rd t' v = Inr d"
    and rd_other: "wr u d t = Inr t' \<Longrightarrow> addr v \<noteq> addr u \<Longrightarrow> rd t' v = rd t v"
begin

fun wr_all :: "(string \<times> pydict) list \<Rightarrow> 't \<Rightarrow> 't result" where
  "wr_all [] t = Inr t"
| "wr_all ((u, d) # uds) t = rbind (wr u d t) (wr_all uds)"

lemma wr_all_other:
  "wr_all uds t = Inr t' \<Longrightarrow> \<forall>(u, d)\<in>set uds. addr v \<noteq> addr u \<Longrightarrow> rd t' v = rd t v"
proof (induction uds t rule: wr_all.induct)
  case (1 t)
  then show ?case by simp
next
  case (2 u d uds t)
  then obtain s where s: "wr u d t = Inr s" "wr_all uds s = Inr t'" by (auto simp: rbind_Inr_iff)
  from 2 s have "rd t' v = rd s v" by auto
  also have "\<dots> = rd t v" using 2(3) rd_other[OF s(1)] by simp
  finally show ?case .
qed

lemma wr_all_rd:
  assumes "wr_all uds t = Inr t'" "distinct (map (\<lambda>(u, d). addr u) uds)" "(u, d) \<in> set uds"
  shows "rd t' u = Inr d"
  using assms
proof (induction uds t rule: wr_all.induct)
  case (1 t)
  then show ?case by simp
next
  case (2 v e uds t)
  then obtain s where s: "wr v e t = Inr s" "wr_all uds s = Inr t'" by (auto simp: rbind_Inr_iff)
  show ?case
  proof (cases "(u, d) \<in> set uds")
    case True
    with 2 s show ?thesis by auto
  next
    case False
    then have ud: "u = v" "d = e" using 2(4) by auto
    have "\<forall>(w, f)\<in>set uds. addr v \<noteq> addr w" using 2(3) by force
    then have "rd t' v = rd s v" by (rule wr_all_other[OF s(2)])
    also have "\<dots> = Inr e" by (rule rd_same[OF s(1)]) simp
    finally show ?thesis by (simp add: ud)
  qed
qed

lemma wr_twice:
  assumes "wr u d t = Inr s" "wr u e s = Inr t'"
  shows "rd t' u = Inr e"
  using rd_same[OF assms(2)] by simp

end

interpretation docs: json_store "doc_key env" "write_json_uri env" "read_json_uri env" for env
proof unfold_locales
  fix u v d t t'
  assume w: "write_json_uri env u d t = Inr t'"
  then show "\<exists>k. doc_key env u = Inr k"
    by (auto simp: write_json_uri_def rbind_Inr_iff)
  show "doc_key env v = doc_key env u \<Longrightarrow> read_json_uri env t' v = Inr d"
    using w by (auto simp: write_json_uri_def read_json_uri_def rbind_Inr_iff)
  show "doc_key env v \<noteq> doc_key env u \<Longrightarrow> read_json_uri env t' v = read_json_uri env t v"
    using w by (cases "doc_key env v") (auto simp: write_json_uri_def read_json_uri_def rbind_Inr_iff)
qed (simp add: write_json_uri_def)

text \<open>Documents of other addresses are kept by every write.\<close>

lemma write_json_uri_keys:
  "write_json_uri env u d t = Inr t' \<Longrightarrow> set (dict_keys t) \<subseteq> set (dict_keys t')"
  by (auto simp: write_json_uri_def rbind_Inr_iff set_dict_keys simp del: set_map)

lemma listed_below:
  "list_local_or_s3 env docs uri = Inr us \<Longrightarrow> set us \<subseteq> set (dict_keys docs)"
  by (auto simp: list_local_or_s3_def rbind_Inr_iff Let_def simp del: set_map split: if_splits)

end
