(* ===== verification/Shard_Runner.thy ===== *)
theory Shard_Runner
  imports Shard_Planner Json_Docs
begin

text \<open>
  The execution of one shard, \<^verbatim>\<open>src/robot_dh/sharding/shard_runner.py\<close>, with what it writes:
  runtime events (\<^verbatim>\<open>runtime/events.py\<close>), perf records (\<^verbatim>\<open>perf/profiler.py\<close>), rows of
  \<open>etl_shards\<close> (\<^verbatim>\<open>warehouse/service.py\<close>) and the summary document; and the merge of the summaries,
  \<^verbatim>\<open>sharding/merge.py\<close>.

  The ETL of one data set (\<^verbatim>\<open>etl/runner.py\<close>) is a parameter. The sequential loop is a function. The
  thread pool is a machine whose steps start, finish and collect a job; a schedule is a list of
  steps, and every run of the pool is a schedule. The sequential loop is shown to be one of them.
\<close>

section \<open>Summaries\<close>

record shard_summary =
  ss_plan_id :: string
  ss_shard_id :: string
  ss_index :: int
  ss_status :: string
  ss_total :: int
  ss_succeeded :: int
  ss_failed :: int
  ss_skipped :: int
  ss_duration :: rat
  ss_started_at :: string
  ss_finished_at :: string
  ss_runs :: "pyval list"
  ss_uri :: pyval

definition shard_summary_to_dict :: "shard_summary \<Rightarrow> pydict" where
  "shard_summary_to_dict s =
     [(''plan_id'', VStr (ss_plan_id s)), (''shard_id'', VStr (ss_shard_id s)),
      (''shard_index'', VInt (ss_index s)), (''status'', VStr (ss_status s)),
      (''total'', VInt (ss_total s)), (''succeeded'', VInt (ss_succeeded s)),
      (''failed'', VInt (ss_failed s)), (''skipped'', VInt (ss_skipped s)),
      (''duration_sec'', VFloat (ss_duration s)), (''started_at'', VStr (ss_started_at s)),
      (''finished_at'', VStr (ss_finished_at s)), (''runs'', VList (ss_runs s)),
      (''summary_uri'', ss_uri s)]"

definition shard_summary_from_dict :: "pydict \<Rightarrow> shard_summary result" where
  "shard_summary_from_dict raw =
     rbind (py_int (get_or raw ''shard_index'' (VInt 0))) (\<lambda>idx.
     rbind (py_int (get_or raw ''total'' (VInt 0))) (\<lambda>tot.
     rbind (py_int (get_or raw ''succeeded'' (VInt 0))) (\<lambda>suc.
     rbind (py_int (get_or raw ''failed'' (VInt 0))) (\<lambda>fai.
     rbind (py_int (get_or raw ''skipped'' (VInt 0))) (\<lambda>ski.
     rbind (py_float (get_or raw ''duration_sec'' (VFloat 0))) (\<lambda>dur.
     rbind (list_or_empty (get_or raw ''runs'' (VList []))) (\<lambda>runs.
       Inr \<lparr>ss_plan_id = py_str (get_or raw ''plan_id'' (VStr [])),
            ss_shard_id = py_str (get_or raw ''shard_id'' (VStr [])), ss_index = idx,
            ss_status = py_str (get_or raw ''status'' (VStr [])), ss_total = tot,
            ss_succeeded = suc, ss_failed = fai, ss_skipped = ski, ss_duration = dur,
            ss_started_at = py_str (get_or raw ''started_at'' (VStr [])),
            ss_finished_at = py_str (get_or raw ''finished_at'' (VStr [])),
            ss_runs = runs, ss_uri = get raw ''summary_uri''\<rparr>)))))))"

section \<open>The result of the ETL of a data set\<close>

record normalize_result =
  nr_job_id :: string
  nr_output_uri :: string
  nr_num_samples :: int
  nr_duration :: rat
  nr_files :: "pydict list"

record feature_result =
  fr_job_id :: string
  fr_output_uri :: string
  fr_num_press :: int
  fr_duration :: rat
  fr_job_status :: string
  fr_files :: "pydict list"

record ads_result =
  ar_job_id :: string
  ar_output_uri :: string
  ar_duration :: rat
  ar_files :: "pydict list"

text \<open>\<open>er_dict\<close> is what \<open>EtlRunResult.to_dict\<close> returns.\<close>

record etl_run_result =
  er_status :: string
  er_error :: "string option"
  er_normalize :: "normalize_result option"
  er_features :: "feature_result option"
  er_ads :: "ads_result option"
  er_dict :: pydict

section \<open>Perf records\<close>

record perf_record =
  pr_job_id :: string
  pr_run_id :: string
  pr_dataset_id :: string
  pr_version :: string
  pr_phase :: string
  pr_input_uri :: "string option"
  pr_output_uri :: "string option"
  pr_input_bytes :: int
  pr_output_bytes :: int
  pr_input_rows :: int
  pr_output_rows :: int
  pr_duration :: rat
  pr_download :: rat
  pr_upload :: rat
  pr_compute :: rat
  pr_peak_memory :: rat
  pr_worker_id :: string
  pr_status :: string
  pr_error :: "string option"
  pr_started_at :: string
  pr_finished_at :: string
  pr_metrics :: pydict

definition new_perf :: "string \<Rightarrow> string \<Rightarrow> string \<Rightarrow> string \<Rightarrow> string \<Rightarrow> perf_record" where
  "new_perf job_id run_id dataset_id version phase =
     \<lparr>pr_job_id = job_id, pr_run_id = run_id, pr_dataset_id = dataset_id, pr_version = version,
      pr_phase = phase, pr_input_uri = None, pr_output_uri = None, pr_input_bytes = 0,
      pr_output_bytes = 0, pr_input_rows = 0, pr_output_rows = 0, pr_duration = 0, pr_download = 0,
      pr_upload = 0, pr_compute = 0, pr_peak_memory = 0, pr_worker_id = [], pr_status = ''RUNNING'',
      pr_error = None, pr_started_at = [], pr_finished_at = [], pr_metrics = []\<rparr>"

definition perf_to_dict :: "perf_record \<Rightarrow> pydict" where
  "perf_to_dict r =
     [(''job_id'', VStr (pr_job_id r)), (''run_id'', VStr (pr_run_id r)),
      (''dataset_id'', VStr (pr_dataset_id r)), (''version'', VStr (pr_version r)),
      (''phase'', VStr (pr_phase r)), (''input_uri'', of_opt_str (pr_input_uri r)),
      (''output_uri'', of_opt_str (pr_output_uri r)), (''input_bytes'', VInt (pr_input_bytes r)),
      (''output_bytes'', VInt (pr_output_bytes r)), (''input_rows'', VInt (pr_input_rows r)),
      (''output_rows'', VInt (pr_output_rows r)), (''duration_sec'', VFloat (pr_duration r)),
      (''download_duration_sec'', VFloat (pr_download r)),
      (''upload_duration_sec'', VFloat (pr_upload r)),
      (''compute_duration_sec'', VFloat (pr_compute r)),
      (''peak_memory_mb'', VFloat (pr_peak_memory r)), (''worker_id'', VStr (pr_worker_id r)),
      (''status'', VStr (pr_status r)), (''error_message'', of_opt_str (pr_error r)),
      (''started_at'', VStr (pr_started_at r)), (''finished_at'', VStr (pr_finished_at r)),
      (''metrics'', VDict (pr_metrics r))]"

definition perf_filename :: "perf_record \<Rightarrow> string" where
  "perf_filename r =
     map (\<lambda>c. if c = CHR ''/'' then CHR ''_'' else c) (pr_phase r) @ ''_perf.json''"

text \<open>\<open>sum_file_sizes\<close> and \<open>sum_file_rows\<close>: an entry whose value is not an int is skipped.\<close>

definition int_or_skip :: "pyval \<Rightarrow> int" where
  "int_or_skip v = (case py_int v of Inl _ \<Rightarrow> 0 | Inr i \<Rightarrow> i)"

definition sum_file_sizes :: "pydict list \<Rightarrow> int" where
  "sum_file_sizes files = sum_list (map (\<lambda>info. int_or_skip (py_or (get info ''size_bytes'') (VInt 0))) files)"

definition sum_file_rows :: "pydict list \<Rightarrow> int" where
  "sum_file_rows files = sum_list (map (\<lambda>info.
     (let rc = get info ''row_count'' in if rc = VNone then 0 else int_or_skip rc)) files)"

definition dataset_phase_perf ::
  "string \<Rightarrow> plan_shard \<Rightarrow> plan_dataset \<Rightarrow> etl_run_result option \<Rightarrow> string option \<Rightarrow> rat \<Rightarrow> perf_record list" where
  "dataset_phase_perf plan_id shard ds res err dur =
     (let run_id = plan_id @ ''::'' @ sh_id shard;
          rec = (\<lambda>job phase. new_perf job run_id (pd_dataset_id ds) (pd_version ds) phase)
      in case res of
        None \<Rightarrow> [(rec (sh_id shard @ ''::'' @ pd_dataset_id ds) ''etl_run'')
                   \<lparr>pr_input_uri := Some (pd_uri ds), pr_input_bytes := pd_bytes ds,
                    pr_duration := dur, pr_status := ''FAIL'', pr_error := err\<rparr>]
      | Some r \<Rightarrow>
          (case er_normalize r of None \<Rightarrow> []
           | Some n \<Rightarrow> [(rec (nr_job_id n) ''normalize'')
               \<lparr>pr_input_uri := Some (pd_uri ds), pr_output_uri := Some (nr_output_uri n),
                pr_input_bytes := pd_bytes ds, pr_output_bytes := sum_file_sizes (nr_files n),
                pr_input_rows := nr_num_samples n, pr_output_rows := sum_file_rows (nr_files n),
                pr_duration := nr_duration n, pr_status := ''OK''\<rparr>]) @
          (case er_features r of None \<Rightarrow> []
           | Some f \<Rightarrow> [(rec (fr_job_id f) ''build_features'')
               \<lparr>pr_input_uri := map_option nr_output_uri (er_normalize r),
                pr_output_uri := Some (fr_output_uri f),
                pr_input_bytes := (case er_normalize r of None \<Rightarrow> 0 | Some n \<Rightarrow> sum_file_sizes (nr_files n)),
                pr_output_bytes := sum_file_sizes (fr_files f),
                pr_input_rows := (case er_normalize r of None \<Rightarrow> 0 | Some n \<Rightarrow> nr_num_samples n),
                pr_output_rows := sum_file_rows (fr_files f),
                pr_duration := fr_duration f, pr_status := fr_job_status f\<rparr>]) @
          (case er_ads r of None \<Rightarrow> []
           | Some a \<Rightarrow> [(rec (ar_job_id a) ''build_ads'')
               \<lparr>pr_input_uri := map_option fr_output_uri (er_features r),
                pr_output_uri := Some (ar_output_uri a),
                pr_input_bytes := (case er_features r of None \<Rightarrow> 0 | Some f \<Rightarrow> sum_file_sizes (fr_files f)),
                pr_output_bytes := sum_file_sizes (ar_files a),
                pr_input_rows := (case er_features r of None \<Rightarrow> 0 | Some f \<Rightarrow> fr_num_press f),
                pr_output_rows := sum_file_rows (ar_files a),
                pr_duration := ar_duration a, pr_status := ''OK''\<rparr>]))"

section \<open>The world a shard writes to\<close>

record runtime_event =
  ev_type :: string
  ev_payload :: pydict
  ev_job_id :: "string option"
  ev_run_id :: "string option"
  ev_dataset_id :: "string option"
  ev_version :: "string option"

record shard_row =
  sr_index :: int
  sr_status :: string
  sr_dataset_count :: "int option"
  sr_input_bytes :: "int option"
  sr_started_at :: "string option"
  sr_finished_at :: "string option"
  sr_duration :: "rat option"
  sr_succeeded :: "int option"
  sr_failed :: "int option"
  sr_skipped :: "int option"
  sr_summary_uri :: "string option"
  sr_error :: "string option"
  sr_metrics :: "pydict option"

text \<open>\<open>w_db\<close> tells whether the warehouse tables exist; without them the soft service writes nothing.\<close>

record shard_world =
  w_db :: bool
  w_events :: "runtime_event list"
  w_perf :: "perf_record list"
  w_shards :: "((string \<times> string) \<times> shard_row) list"
  w_docs :: json_docs

definition emit :: "string \<Rightarrow> pydict \<Rightarrow> string option \<Rightarrow> string option \<Rightarrow> string option \<Rightarrow> string option
    \<Rightarrow> shard_world \<Rightarrow> shard_world" where
  "emit t payload job run ds ver w =
     w\<lparr>w_events := w_events w @ [\<lparr>ev_type = t, ev_payload = payload, ev_job_id = job, ev_run_id = run,
        ev_dataset_id = ds, ev_version = ver\<rparr>]\<rparr>"

text \<open>The keyword arguments of \<open>record_etl_shard\<close> are a row.\<close>

definition update_shard_row :: "shard_row \<Rightarrow> shard_row \<Rightarrow> shard_row" where
  "update_shard_row a row =
     \<lparr>sr_index = sr_index row, sr_status = sr_status a,
      sr_dataset_count = keep (sr_dataset_count row) (sr_dataset_count a),
      sr_input_bytes = keep (sr_input_bytes row) (sr_input_bytes a),
      sr_started_at = keep (sr_started_at row) (sr_started_at a),
      sr_finished_at = keep (sr_finished_at row) (sr_finished_at a),
      sr_duration = keep (sr_duration row) (sr_duration a),
      sr_succeeded = keep (sr_succeeded row) (sr_succeeded a),
      sr_failed = keep (sr_failed row) (sr_failed a),
      sr_skipped = keep (sr_skipped row) (sr_skipped a),
      sr_summary_uri = keep (sr_summary_uri row) (sr_summary_uri a),
      sr_error = keep (sr_error row) (sr_error a),
      sr_metrics = (case sr_metrics a of None \<Rightarrow> sr_metrics row
        | Some m \<Rightarrow> Some (fold (\<lambda>(k, v). dict_set k v) m
            (case sr_metrics row of None \<Rightarrow> [] | Some d \<Rightarrow> d)))\<rparr>"

definition new_shard_row :: "shard_row \<Rightarrow> shard_row" where
  "new_shard_row a = a\<lparr>sr_metrics := (case sr_metrics a of Some (p # ps) \<Rightarrow> Some (p # ps) | _ \<Rightarrow> None)\<rparr>"

definition record_etl_shard :: "string \<Rightarrow> string \<Rightarrow> shard_row \<Rightarrow> shard_world \<Rightarrow> shard_world" where
  "record_etl_shard plan_id shard_id a w =
     (if \<not> w_db w then w
      else w\<lparr>w_shards := dict_upsert (\<lambda>row. case row of None \<Rightarrow> new_shard_row a
                | Some r \<Rightarrow> update_shard_row a r) (plan_id, shard_id) (w_shards w)\<rparr>)"

definition record_etl_perf_run :: "perf_record \<Rightarrow> shard_world \<Rightarrow> shard_world" where
  "record_etl_perf_run r w = (if w_db w then w\<lparr>w_perf := w_perf w @ [r]\<rparr> else w)"

definition write_perf_json :: "perf_record \<Rightarrow> string \<Rightarrow> shard_world \<Rightarrow> shard_world" where
  "write_perf_json r dir w = w\<lparr>w_docs := dict_set (posix dir [perf_filename r]) (perf_to_dict r) (w_docs w)\<rparr>"

section \<open>One data set\<close>

text \<open>
  \<open>rv_etl ds lake_root job_id\<close> is the result of \<open>etl_run\<close>; the clock readings are the other fields.
\<close>

record run_env =
  rv_etl :: "plan_dataset \<Rightarrow> string \<Rightarrow> string \<Rightarrow> etl_run_result result"
  rv_duration :: "plan_dataset \<Rightarrow> rat"
  rv_started_at :: string
  rv_finished_at :: string
  rv_elapsed :: rat

definition dataset_job_id :: "plan_shard \<Rightarrow> plan_dataset \<Rightarrow> string" where
  "dataset_job_id sh ds = sh_id sh @ ''::'' @ pd_dataset_id ds @ ''-'' @ pd_version ds"

definition job_start :: "etl_plan \<Rightarrow> plan_shard \<Rightarrow> plan_dataset \<Rightarrow> shard_world \<Rightarrow> shard_world" where
  "job_start plan sh ds =
     emit ''dataset_etl_started''
       [(''plan_id'', VStr (ep_plan_id plan)), (''shard_id'', VStr (sh_id sh)), (''dataset_uri'', VStr (pd_uri ds))]
       (Some (dataset_job_id sh ds)) (Some (ep_plan_id plan)) (Some (pd_dataset_id ds)) (Some (pd_version ds))"

text \<open>The outcome of the guarded call: an exception is a FAIL with its text and no result.\<close>

definition etl_outcome :: "run_env \<Rightarrow> etl_plan \<Rightarrow> plan_shard \<Rightarrow> plan_dataset
    \<Rightarrow> string \<times> string option \<times> etl_run_result option" where
  "etl_outcome rv plan sh ds =
     (case rv_etl rv ds (ep_lake_root plan) (dataset_job_id sh ds) of
        Inr r \<Rightarrow> (er_status r, er_error r, Some r)
      | Inl e \<Rightarrow> (''FAIL'', Some (err_text e), None))"

definition dataset_run :: "run_env \<Rightarrow> etl_plan \<Rightarrow> plan_shard \<Rightarrow> plan_dataset \<Rightarrow> pydict" where
  "dataset_run rv plan sh ds =
     (case etl_outcome rv plan sh ds of (status, err, res) \<Rightarrow>
        [(''dataset_id'', VStr (pd_dataset_id ds)), (''version'', VStr (pd_version ds)),
         (''dataset_uri'', VStr (pd_uri ds)), (''status'', VStr status),
         (''duration_sec'', VFloat (rv_duration rv ds)), (''error_message'', of_opt_str err),
         (''etl_result'', (case res of None \<Rightarrow> VNone | Some r \<Rightarrow> VDict (er_dict r)))])"

definition job_finish :: "run_env \<Rightarrow> string \<Rightarrow> etl_plan \<Rightarrow> plan_shard \<Rightarrow> plan_dataset \<Rightarrow> shard_world \<Rightarrow> shard_world" where
  "job_finish rv work_dir plan sh ds w =
     (case etl_outcome rv plan sh ds of (status, err, res) \<Rightarrow>
        let recs = dataset_phase_perf (ep_plan_id plan) sh ds res err (rv_duration rv ds);
            dir = posix work_dir [''perf'', pd_dataset_id ds, pd_version ds]
        in emit ''dataset_etl_finished''
             [(''plan_id'', VStr (ep_plan_id plan)), (''shard_id'', VStr (sh_id sh)), (''status'', VStr status),
              (''duration_sec'', VFloat (rv_duration rv ds)), (''error_message'', of_opt_str err)]
             (Some (dataset_job_id sh ds)) (Some (ep_plan_id plan)) (Some (pd_dataset_id ds)) (Some (pd_version ds))
             (fold (\<lambda>r w. record_etl_perf_run r (write_perf_json r dir w)) recs w))"

definition run_one_dataset :: "run_env \<Rightarrow> string \<Rightarrow> etl_plan \<Rightarrow> plan_shard \<Rightarrow> plan_dataset \<Rightarrow> shard_world
    \<Rightarrow> pydict \<times> shard_world" where
  "run_one_dataset rv work_dir plan sh ds w =
     (dataset_run rv plan sh ds, job_finish rv work_dir plan sh ds (job_start plan sh ds w))"

section \<open>Collecting the runs\<close>

record progress =
  pg_runs :: "pydict list"
  pg_succeeded :: nat
  pg_failed :: nat
  pg_skipped :: nat

definition progress0 :: progress where
  "progress0 = \<lparr>pg_runs = [], pg_succeeded = 0, pg_failed = 0, pg_skipped = 0\<rparr>"

definition run_ok :: "pydict \<Rightarrow> bool" where
  "run_ok run = (get run ''status'' \<in> {VStr ''OK'', VStr ''WARN''})"

definition run_skipped :: "pydict \<Rightarrow> bool" where
  "run_skipped run = (get run ''status'' = VStr ''SKIPPED'')"

definition run_failed :: "pydict \<Rightarrow> bool" where
  "run_failed run = (\<not> run_ok run \<and> \<not> run_skipped run)"

definition collect_run :: "pydict \<Rightarrow> progress \<Rightarrow> progress" where
  "collect_run run pg =
     (let pg = pg\<lparr>pg_runs := pg_runs pg @ [run]\<rparr>
      in if run_ok run then pg\<lparr>pg_succeeded := pg_succeeded pg + 1\<rparr>
         else if run_skipped run then pg\<lparr>pg_skipped := pg_skipped pg + 1\<rparr>
         else pg\<lparr>pg_failed := pg_failed pg + 1\<rparr>)"

section \<open>The sequential loop\<close>

fun seq_loop :: "run_env \<Rightarrow> string \<Rightarrow> etl_plan \<Rightarrow> plan_shard \<Rightarrow> bool \<Rightarrow> plan_dataset list
    \<Rightarrow> progress \<times> shard_world \<Rightarrow> progress \<times> shard_world" where
  "seq_loop rv wd plan sh fail_fast [] (pg, w) = (pg, w)"
| "seq_loop rv wd plan sh fail_fast (ds # dss) (pg, w) =
     (case run_one_dataset rv wd plan sh ds w of (run, w') \<Rightarrow>
        let pg' = collect_run run pg
        in if run_failed run \<and> fail_fast then (pg', w')
           else seq_loop rv wd plan sh fail_fast dss (pg', w'))"

section \<open>The thread pool\<close>

text \<open>
  The futures by their state: queued, running, finished and not yet yielded by \<open>as_completed\<close>. A
  worker takes the first queued job; any running job may finish next; any finished job may be
  yielded next. After a failure under \<open>fail_fast\<close> the queued jobs are cancelled, nothing more is
  collected, and leaving the \<open>with\<close> block waits for the running ones.
\<close>

record pool =
  po_queued :: "plan_dataset list"
  po_running :: "plan_dataset list"
  po_finished :: "plan_dataset list"
  po_stopped :: bool
  po_progress :: progress
  po_world :: shard_world

datatype pool_action = Start | Finish nat | Collect nat

definition remove_nth :: "nat \<Rightarrow> 'a list \<Rightarrow> 'a list" where
  "remove_nth i xs = take i xs @ drop (Suc i) xs"

fun pool_step :: "run_env \<Rightarrow> string \<Rightarrow> etl_plan \<Rightarrow> plan_shard \<Rightarrow> nat \<Rightarrow> bool \<Rightarrow> pool_action \<Rightarrow> pool \<Rightarrow> pool option" where
  "pool_step rv wd plan sh workers fail_fast Start p =
     (case po_queued p of [] \<Rightarrow> None
      | ds # dss \<Rightarrow>
          if length (po_running p) < workers then
            Some (p\<lparr>po_queued := dss, po_running := po_running p @ [ds],
                    po_world := job_start plan sh ds (po_world p)\<rparr>)
          else None)"
| "pool_step rv wd plan sh workers fail_fast (Finish i) p =
     (if i < length (po_running p) then
        Some (p\<lparr>po_running := remove_nth i (po_running p),
                po_finished := po_finished p @ [po_running p ! i],
                po_world := job_finish rv wd plan sh (po_running p ! i) (po_world p)\<rparr>)
      else None)"
| "pool_step rv wd plan sh workers fail_fast (Collect i) p =
     (if i < length (po_finished p) \<and> \<not> po_stopped p then
        (let run = dataset_run rv plan sh (po_finished p ! i);
             p' = p\<lparr>po_finished := remove_nth i (po_finished p), po_progress := collect_run run (po_progress p)\<rparr>
         in if run_failed run \<and> fail_fast then Some (p'\<lparr>po_queued := [], po_stopped := True\<rparr>) else Some p')
      else None)"

fun pool_run :: "run_env \<Rightarrow> string \<Rightarrow> etl_plan \<Rightarrow> plan_shard \<Rightarrow> nat \<Rightarrow> bool \<Rightarrow> pool_action list \<Rightarrow> pool \<Rightarrow> pool option" where
  "pool_run rv wd plan sh workers fail_fast [] p = Some p"
| "pool_run rv wd plan sh workers fail_fast (a # as) p =
     (case pool_step rv wd plan sh workers fail_fast a p of None \<Rightarrow> None
      | Some p' \<Rightarrow> pool_run rv wd plan sh workers fail_fast as p')"

definition pool_start :: "plan_dataset list \<Rightarrow> progress \<Rightarrow> shard_world \<Rightarrow> pool" where
  "pool_start dss pg w =
     \<lparr>po_queued = dss, po_running = [], po_finished = [], po_stopped = False, po_progress = pg, po_world = w\<rparr>"

definition pool_done :: "pool \<Rightarrow> bool" where
  "pool_done p = (po_queued p = [] \<and> po_running p = [] \<and> (po_stopped p \<or> po_finished p = []))"

text \<open>The loop over the data sets: sequential, or the pool driven by a schedule (\<open>None\<close> when the
  schedule is not a complete run of the pool).\<close>

definition run_datasets :: "run_env \<Rightarrow> string \<Rightarrow> etl_plan \<Rightarrow> plan_shard \<Rightarrow> int \<Rightarrow> bool \<Rightarrow> pool_action list
    \<Rightarrow> shard_world \<Rightarrow> (progress \<times> shard_world) option" where
  "run_datasets rv wd plan sh max_workers fail_fast sched w =
     (if max_workers \<le> 1 \<or> length (sh_datasets sh) \<le> 1 then
        Some (seq_loop rv wd plan sh fail_fast (sh_datasets sh) (progress0, w))
      else case pool_run rv wd plan sh (nat (max 1 max_workers)) fail_fast sched
                  (pool_start (sh_datasets sh) progress0 w) of
             None \<Rightarrow> None
           | Some p \<Rightarrow> if pool_done p then Some (po_progress p, po_world p) else None)"

section \<open>Running a shard\<close>

definition resolve_shard :: "etl_plan \<Rightarrow> shard_ref \<Rightarrow> plan_shard option" where
  "resolve_shard plan ref =
     (case ref of
        ById s \<Rightarrow> get_shard plan (if str_isdigit s then ByIndex (int (nat_of_digits s)) else ById s)
      | ByIndex i \<Rightarrow> get_shard plan (ByIndex i))"

definition ref_str :: "shard_ref \<Rightarrow> string" where
  "ref_str ref = (case ref of ByIndex i \<Rightarrow> str_of_int i | ById s \<Rightarrow> s)"

definition ref_index :: "shard_ref \<Rightarrow> int" where
  "ref_index ref = (case ref of ByIndex i \<Rightarrow> i
     | ById s \<Rightarrow> if str_isdigit s then int (nat_of_digits s) else -1)"

definition set_lake_root :: "string option \<Rightarrow> etl_plan \<Rightarrow> etl_plan" where
  "set_lake_root lake_root plan = (case lake_root of
     Some r \<Rightarrow> if r \<noteq> [] then plan\<lparr>ep_lake_root := r\<rparr> else plan | None \<Rightarrow> plan)"

text \<open>The summary is written to the work directory and, when asked for, to the output URI; only then
  does it learn its own URI.\<close>

definition write_summary :: "lake_env \<Rightarrow> string \<Rightarrow> string option \<Rightarrow> pyval \<Rightarrow> shard_summary \<Rightarrow> shard_world
    \<Rightarrow> (shard_summary \<times> shard_world) result" where
  "write_summary env work_dir output_uri fallback summary w =
     (let payload = shard_summary_to_dict summary;
          docs = dict_set (posix work_dir [''shard_summary.json'']) payload (w_docs w)
      in case output_uri of
           Some u \<Rightarrow>
             if u \<noteq> [] then rbind (write_json_uri env u payload docs) (\<lambda>docs'.
               Inr (summary\<lparr>ss_uri := VStr u\<rparr>, w\<lparr>w_docs := docs'\<rparr>))
             else Inr (summary\<lparr>ss_uri := fallback\<rparr>, w\<lparr>w_docs := docs\<rparr>)
         | None \<Rightarrow> Inr (summary\<lparr>ss_uri := fallback\<rparr>, w\<lparr>w_docs := docs\<rparr>))"

definition skipped_summary :: "run_env \<Rightarrow> etl_plan \<Rightarrow> shard_ref \<Rightarrow> shard_summary" where
  "skipped_summary rv plan ref =
     \<lparr>ss_plan_id = ep_plan_id plan, ss_shard_id = ref_str ref, ss_index = ref_index ref,
      ss_status = ''SKIPPED'', ss_total = 0, ss_succeeded = 0, ss_failed = 0, ss_skipped = 0,
      ss_duration = 0, ss_started_at = rv_started_at rv, ss_finished_at = rv_finished_at rv,
      ss_runs = [], ss_uri = VNone\<rparr>"

definition no_row :: "plan_shard \<Rightarrow> string \<Rightarrow> shard_row" where
  "no_row sh status =
     \<lparr>sr_index = sh_index sh, sr_status = status, sr_dataset_count = None, sr_input_bytes = None,
      sr_started_at = None, sr_finished_at = None, sr_duration = None, sr_succeeded = None,
      sr_failed = None, sr_skipped = None, sr_summary_uri = None, sr_error = None, sr_metrics = None\<rparr>"

definition shard_begin :: "run_env \<Rightarrow> etl_plan \<Rightarrow> plan_shard \<Rightarrow> shard_world \<Rightarrow> shard_world" where
  "shard_begin rv plan sh w =
     record_etl_shard (ep_plan_id plan) (sh_id sh)
       ((no_row sh ''RUNNING'')
          \<lparr>sr_dataset_count := Some (int (length (sh_datasets sh))),
           sr_input_bytes := Some (sh_bytes sh), sr_started_at := Some (rv_started_at rv)\<rparr>)
       (emit ''etl_shard_started''
          [(''plan_id'', VStr (ep_plan_id plan)), (''shard_id'', VStr (sh_id sh)),
           (''dataset_count'', VInt (int (length (sh_datasets sh))))]
          (Some (sh_id sh)) (Some (ep_plan_id plan)) None None w)"

definition final_status :: "plan_shard \<Rightarrow> progress \<Rightarrow> string" where
  "final_status sh pg =
     (if pg_failed pg > 0 \<and> pg_succeeded pg = 0 \<and> length (sh_datasets sh) > 0 then ''FAIL''
      else if pg_failed pg > 0 then ''WARN'' else ''OK'')"

definition shard_summary_of :: "run_env \<Rightarrow> etl_plan \<Rightarrow> plan_shard \<Rightarrow> progress \<Rightarrow> shard_summary" where
  "shard_summary_of rv plan sh pg =
     \<lparr>ss_plan_id = ep_plan_id plan, ss_shard_id = sh_id sh, ss_index = sh_index sh,
      ss_status = final_status sh pg, ss_total = int (length (sh_datasets sh)),
      ss_succeeded = int (pg_succeeded pg), ss_failed = int (pg_failed pg),
      ss_skipped = int (pg_skipped pg), ss_duration = rv_elapsed rv,
      ss_started_at = rv_started_at rv, ss_finished_at = rv_finished_at rv,
      ss_runs = map VDict (pg_runs pg), ss_uri = VNone\<rparr>"

definition shard_end :: "run_env \<Rightarrow> etl_plan \<Rightarrow> plan_shard \<Rightarrow> shard_summary \<Rightarrow> shard_world \<Rightarrow> shard_world" where
  "shard_end rv plan sh s w =
     emit ''etl_shard_finished''
       [(''plan_id'', VStr (ep_plan_id plan)), (''shard_id'', VStr (sh_id sh)),
        (''status'', VStr (ss_status s)), (''total'', VInt (int (length (sh_datasets sh)))),
        (''succeeded'', VInt (ss_succeeded s)), (''failed'', VInt (ss_failed s)),
        (''skipped'', VInt (ss_skipped s)), (''duration_sec'', VFloat (rv_elapsed rv))]
       (Some (sh_id sh)) (Some (ep_plan_id plan)) None None
       (record_etl_shard (ep_plan_id plan) (sh_id sh)
          ((no_row sh (ss_status s))
             \<lparr>sr_finished_at := Some (rv_finished_at rv), sr_duration := Some (rv_elapsed rv),
              sr_succeeded := Some (ss_succeeded s), sr_failed := Some (ss_failed s),
              sr_skipped := Some (ss_skipped s), sr_summary_uri := Some (py_str (ss_uri s)),
              sr_metrics := Some [(''total'', VInt (int (length (sh_datasets sh))))]\<rparr>) w)"

definition run_shard :: "lake_env \<Rightarrow> run_env \<Rightarrow> etl_plan \<Rightarrow> shard_ref \<Rightarrow> string option \<Rightarrow> string \<Rightarrow> string option
    \<Rightarrow> int \<Rightarrow> bool \<Rightarrow> pool_action list \<Rightarrow> shard_world \<Rightarrow> (shard_summary \<times> shard_world) result option" where
  "run_shard env rv plan0 ref lake_root work_dir output_uri max_workers fail_fast sched w =
     (let plan = set_lake_root lake_root plan0
      in case resolve_shard plan ref of
           None \<Rightarrow> Some (write_summary env work_dir output_uri VNone (skipped_summary rv plan ref) w)
         | Some sh \<Rightarrow>
             (case run_datasets rv work_dir plan sh max_workers fail_fast sched (shard_begin rv plan sh w) of
                None \<Rightarrow> None
              | Some (pg, w1) \<Rightarrow>
                  Some (rbind (write_summary env work_dir output_uri
                           (VStr (posix work_dir [''shard_summary.json''])) (shard_summary_of rv plan sh pg) w1)
                    (\<lambda>(summary, w2). Inr (summary, shard_end rv plan sh summary w2)))))"

section \<open>Merging the summaries\<close>

definition find_shard_summaries :: "lake_env \<Rightarrow> json_docs \<Rightarrow> string \<Rightarrow> string list result" where
  "find_shard_summaries env docs uri =
     rbind (list_local_or_s3 env docs uri) (\<lambda>items.
       Inr (filter (\<lambda>u. ends_with u ''shard_summary.json'') items))"

text \<open>Unreadable or malformed documents are skipped with a warning.\<close>

definition read_summaries :: "lake_env \<Rightarrow> json_docs \<Rightarrow> string list \<Rightarrow> shard_summary list" where
  "read_summaries env docs uris =
     List.map_filter (\<lambda>u. case rbind (read_json_uri env docs u) shard_summary_from_dict of
        Inl _ \<Rightarrow> None | Inr s \<Rightarrow> Some s) (sort uris)"

definition shard_stats :: "shard_summary \<Rightarrow> pydict" where
  "shard_stats s =
     [(''shard_id'', VStr (ss_shard_id s)), (''shard_index'', VInt (ss_index s)),
      (''status'', VStr (ss_status s)), (''total'', VInt (ss_total s)),
      (''succeeded'', VInt (ss_succeeded s)), (''failed'', VInt (ss_failed s)),
      (''skipped'', VInt (ss_skipped s)), (''duration_sec'', VFloat (ss_duration s)),
      (''summary_uri'', ss_uri s)]"

definition failed_entry :: "shard_summary \<Rightarrow> pyval \<Rightarrow> pydict list result" where
  "failed_entry s v = rbind (as_dict v) (\<lambda>run.
     Inr (if get run ''status'' = VStr ''FAIL'' then
        [[(''shard_id'', VStr (ss_shard_id s)), (''dataset_id'', get run ''dataset_id''),
          (''version'', get run ''version''), (''error_message'', get run ''error_message'')]]
      else []))"

definition failed_of :: "shard_summary \<Rightarrow> pydict list result" where
  "failed_of s = rbind (rmap (failed_entry s) (ss_runs s)) (\<lambda>xs. Inr (concat xs))"

record merge_totals =
  mt_total :: int
  mt_succeeded :: int
  mt_failed :: int
  mt_skipped :: int
  mt_duration :: rat
  mt_failed_datasets :: "pydict list"
  mt_stats :: "pydict list"

definition merge_one :: "shard_summary \<Rightarrow> merge_totals \<Rightarrow> merge_totals result" where
  "merge_one s m = rbind (failed_of s) (\<lambda>fs.
     Inr \<lparr>mt_total = mt_total m + ss_total s, mt_succeeded = mt_succeeded m + ss_succeeded s,
          mt_failed = mt_failed m + ss_failed s, mt_skipped = mt_skipped m + ss_skipped s,
          mt_duration = max (mt_duration m) (ss_duration s),
          mt_failed_datasets = mt_failed_datasets m @ fs, mt_stats = mt_stats m @ [shard_stats s]\<rparr>)"

definition merge_start :: merge_totals where
  "merge_start = \<lparr>mt_total = 0, mt_succeeded = 0, mt_failed = 0, mt_skipped = 0, mt_duration = 0,
     mt_failed_datasets = [], mt_stats = []\<rparr>"

definition merge_payload :: "etl_plan \<Rightarrow> string \<Rightarrow> nat \<Rightarrow> merge_totals \<Rightarrow> pydict" where
  "merge_payload plan now found m =
     [(''plan_id'', VStr (ep_plan_id plan)), (''lake_root'', VStr (ep_lake_root plan)),
      (''root_uri'', VStr (ep_root_uri plan)), (''created_at'', VStr now),
      (''total'', VInt (mt_total m)), (''succeeded'', VInt (mt_succeeded m)),
      (''failed'', VInt (mt_failed m)), (''skipped'', VInt (mt_skipped m)),
      (''duration'', VFloat (mt_duration m)),
      (''failed_datasets'', VList (map VDict (mt_failed_datasets m))),
      (''per_shard_stats'', VList (map VDict (mt_stats m))),
      (''expected_shards'', VInt (int (length (ep_shards plan)))),
      (''found_shards'', VInt (int found))]"

definition merge_shard_summaries :: "lake_env \<Rightarrow> etl_plan \<Rightarrow> string \<Rightarrow> string \<Rightarrow> string \<Rightarrow> shard_world
    \<Rightarrow> (pydict \<times> shard_world) result" where
  "merge_shard_summaries env plan results_uri output_uri now w =
     rbind (find_shard_summaries env (w_docs w) results_uri) (\<lambda>uris.
       let summaries = read_summaries env (w_docs w) uris
       in rbind (rfold merge_one summaries merge_start) (\<lambda>m.
          let payload = merge_payload plan now (length summaries) m
          in rbind (write_json_uri env output_uri payload (w_docs w)) (\<lambda>docs.
             Inr (payload, emit ''merge_summary_written''
               [(''output_uri'', VStr output_uri), (''expected'', VInt (int (length (ep_shards plan)))),
                (''found'', VInt (int (length summaries)))]
               None (Some (ep_plan_id plan)) None None (w\<lparr>w_docs := docs\<rparr>)))))"

section \<open>The counters\<close>

definition progress_ok :: "progress \<Rightarrow> bool" where
  "progress_ok pg =
     (pg_succeeded pg = length (filter run_ok (pg_runs pg)) \<and>
      pg_skipped pg = length (filter run_skipped (pg_runs pg)) \<and>
      pg_failed pg = length (filter run_failed (pg_runs pg)))"

lemma run_kinds:
  "run_ok r \<Longrightarrow> \<not> run_skipped r" "run_ok r \<Longrightarrow> \<not> run_failed r" "run_skipped r \<Longrightarrow> \<not> run_failed r"
  by (auto simp: run_ok_def run_skipped_def run_failed_def)

lemma collect_run_runs [simp]: "pg_runs (collect_run run pg) = pg_runs pg @ [run]"
  by (simp add: collect_run_def Let_def)

lemma collect_run_ok: "progress_ok pg \<Longrightarrow> progress_ok (collect_run run pg)"
  using run_kinds[of run]
  by (auto simp: progress_ok_def collect_run_def Let_def run_failed_def)

lemma progress0_ok [simp]: "progress_ok progress0" "pg_runs progress0 = []"
  by (simp_all add: progress0_def progress_ok_def)

lemma progress_sum:
  assumes "progress_ok pg"
  shows "pg_succeeded pg + pg_failed pg + pg_skipped pg = length (pg_runs pg)"
proof -
  have "length (filter run_ok rs) + length (filter run_failed rs) + length (filter run_skipped rs) = length rs" for rs
    by (induction rs) (auto simp: run_failed_def run_ok_def run_skipped_def)
  with assms show ?thesis by (simp add: progress_ok_def)
qed

lemma seq_loop_progress:
  "seq_loop rv wd plan sh ff dss (pg, w) = (pg', w') \<Longrightarrow> progress_ok pg \<Longrightarrow>
   progress_ok pg' \<and> (\<exists>ran rest. dss = ran @ rest \<and> pg_runs pg' = pg_runs pg @ map (dataset_run rv plan sh) ran \<and>
     (rest \<noteq> [] \<longrightarrow> ff \<and> (\<exists>d\<in>set ran. run_failed (dataset_run rv plan sh d))))"
proof (induction dss arbitrary: pg w)
  case Nil
  then show ?case by simp
next
  case (Cons d dss)
  let ?r = "dataset_run rv plan sh d"
  show ?case
  proof (cases "run_failed ?r \<and> ff")
    case True
    with Cons.prems have "pg' = collect_run ?r pg"
      by (simp add: run_one_dataset_def Let_def)
    moreover have "d # dss = [d] @ dss" by simp
    ultimately show ?thesis
      using True collect_run_ok[OF Cons.prems(2)]
      by (intro conjI exI[of _ "[d]"] exI[of _ dss]) (simp_all del: append_Cons)
  next
    case False
    with Cons.prems have "seq_loop rv wd plan sh ff dss
        (collect_run ?r pg, snd (run_one_dataset rv wd plan sh d w)) = (pg', w')"
      by (simp add: run_one_dataset_def Let_def)
    from Cons.IH[OF this collect_run_ok[OF Cons.prems(2)]] obtain ran rest where
      "progress_ok pg'" "dss = ran @ rest"
      "pg_runs pg' = pg_runs (collect_run ?r pg) @ map (dataset_run rv plan sh) ran"
      "rest \<noteq> [] \<longrightarrow> ff \<and> (\<exists>d\<in>set ran. run_failed (dataset_run rv plan sh d))" by blast
    then show ?thesis by (intro conjI exI[of _ "d # ran"] exI[of _ rest]) auto
  qed
qed

section \<open>The pool\<close>

definition pool_inv :: "run_env \<Rightarrow> etl_plan \<Rightarrow> plan_shard \<Rightarrow> nat \<Rightarrow> bool \<Rightarrow> plan_dataset list \<Rightarrow> pool \<Rightarrow> bool" where
  "pool_inv rv plan sh workers ff dss p =
     (progress_ok (po_progress p) \<and> length (po_running p) \<le> workers \<and>
      (\<exists>coll cancelled. pg_runs (po_progress p) = map (dataset_run rv plan sh) coll \<and>
        mset dss = mset coll + mset (po_finished p) + mset (po_running p) + mset (po_queued p) + mset cancelled \<and>
        (if po_stopped p then ff \<and> (\<exists>d\<in>set coll. run_failed (dataset_run rv plan sh d)) else cancelled = [])))"

lemma mset_remove_nth: "i < length xs \<Longrightarrow> mset xs = add_mset (xs ! i) (mset (remove_nth i xs))"
  by (metis id_take_nth_drop mset_append mset.simps(2) remove_nth_def union_mset_add_mset_right)

lemma length_remove_nth: "i < length xs \<Longrightarrow> length (remove_nth i xs) = length xs - 1"
  by (simp add: remove_nth_def)

lemma pool_invI:
  assumes "progress_ok (po_progress p)" "length (po_running p) \<le> workers"
    "pg_runs (po_progress p) = map (dataset_run rv plan sh) coll"
    "mset dss = mset coll + mset (po_finished p) + mset (po_running p) + mset (po_queued p) + mset cancelled"
    "if po_stopped p then ff \<and> (\<exists>d\<in>set coll. run_failed (dataset_run rv plan sh d)) else cancelled = []"
  shows "pool_inv rv plan sh workers ff dss p"
  unfolding pool_inv_def using assms by blast

lemma pool_inv_start: "pool_inv rv plan sh workers ff dss (pool_start dss progress0 w)"
  by (simp add: pool_inv_def pool_start_def)

lemma pool_inv_step:
  assumes "pool_inv rv plan sh workers ff dss p" "pool_step rv wd plan sh workers ff a p = Some p'"
  shows "pool_inv rv plan sh workers ff dss p'"
proof -
  from assms(1) obtain coll cancelled where inv: "progress_ok (po_progress p)" "length (po_running p) \<le> workers"
      "pg_runs (po_progress p) = map (dataset_run rv plan sh) coll"
      "mset dss = mset coll + mset (po_finished p) + mset (po_running p) + mset (po_queued p) + mset cancelled"
      "if po_stopped p then ff \<and> (\<exists>d\<in>set coll. run_failed (dataset_run rv plan sh d)) else cancelled = []"
    unfolding pool_inv_def by blast
  show ?thesis
  proof (cases a)
    case Start
    with assms(2) inv show ?thesis
      by (intro pool_invI[of _ _ _ _ _ coll _ cancelled]) (auto split: list.splits if_splits)
  next
    case (Finish i)
    with assms(2) have i: "i < length (po_running p)" by (simp split: if_splits)
    have p': "p' = p\<lparr>po_running := remove_nth i (po_running p),
                po_finished := po_finished p @ [po_running p ! i],
                po_world := job_finish rv wd plan sh (po_running p ! i) (po_world p)\<rparr>"
      using assms(2) Finish i by simp
    show ?thesis
      using inv i by (intro pool_invI[of _ _ _ _ _ coll _ cancelled])
        (simp_all add: p' mset_remove_nth[OF i] length_remove_nth split: if_splits)
  next
    case (Collect i)
    with assms(2) have i: "i < length (po_finished p)" and ns: "\<not> po_stopped p" by (simp_all split: if_splits)
    let ?d = "po_finished p ! i"
    let ?run = "dataset_run rv plan sh ?d"
    show ?thesis
    proof (cases "run_failed ?run \<and> ff")
      case True
      then have p': "p' = p\<lparr>po_finished := remove_nth i (po_finished p),
          po_progress := collect_run ?run (po_progress p), po_queued := [], po_stopped := True\<rparr>"
        using assms(2) Collect i ns by (simp add: Let_def)
      show ?thesis
        using inv ns True by (intro pool_invI[of _ _ _ _ _ "coll @ [?d]" _ "po_queued p"])
          (simp_all add: p' mset_remove_nth[OF i] collect_run_ok)
    next
      case False
      then have p': "p' = p\<lparr>po_finished := remove_nth i (po_finished p),
          po_progress := collect_run ?run (po_progress p)\<rparr>"
        using assms(2) Collect i ns by (auto simp: Let_def split: if_splits)
      show ?thesis
        using inv ns by (intro pool_invI[of _ _ _ _ _ "coll @ [?d]" _ cancelled])
          (simp_all add: p' mset_remove_nth[OF i] collect_run_ok)
    qed
  qed
qed

lemma pool_inv_run:
  "pool_run rv wd plan sh workers ff as p = Some p' \<Longrightarrow> pool_inv rv plan sh workers ff dss p \<Longrightarrow>
   pool_inv rv plan sh workers ff dss p'"
proof (induction as arbitrary: p)
  case (Cons a as)
  then show ?case by (auto split: option.splits dest: pool_inv_step)
qed simp

text \<open>What either loop returns.\<close>

lemma run_datasets_progress:
  assumes "run_datasets rv wd plan sh mw ff sched w = Some (pg, w')"
  shows "progress_ok pg \<and> (\<exists>ran. mset ran \<subseteq># mset (sh_datasets sh) \<and>
    pg_runs pg = map (dataset_run rv plan sh) ran \<and>
    (mset ran \<noteq> mset (sh_datasets sh) \<longrightarrow> ff \<and> (\<exists>d\<in>set ran. run_failed (dataset_run rv plan sh d))))"
proof (cases "mw \<le> 1 \<or> length (sh_datasets sh) \<le> 1")
  case True
  with assms have "seq_loop rv wd plan sh ff (sh_datasets sh) (progress0, w) = (pg, w')"
    by (simp add: run_datasets_def)
  from seq_loop_progress[OF this] obtain ran rest where "progress_ok pg" "sh_datasets sh = ran @ rest"
      "pg_runs pg = map (dataset_run rv plan sh) ran"
      "rest \<noteq> [] \<longrightarrow> ff \<and> (\<exists>d\<in>set ran. run_failed (dataset_run rv plan sh d))" by auto
  then show ?thesis by (intro conjI exI[of _ ran]) auto
next
  case False
  with assms obtain p where p: "pool_run rv wd plan sh (nat (max 1 mw)) ff sched
      (pool_start (sh_datasets sh) progress0 w) = Some p" "pool_done p" "pg = po_progress p"
    by (auto simp: run_datasets_def split: option.splits if_splits)
  have "pool_inv rv plan sh (nat (max 1 mw)) ff (sh_datasets sh) p"
    by (rule pool_inv_run[OF p(1) pool_inv_start])
  then obtain coll cancelled where c: "progress_ok pg" "pg_runs pg = map (dataset_run rv plan sh) coll"
      "mset (sh_datasets sh) = mset coll + mset (po_finished p) + mset cancelled"
      "if po_stopped p then ff \<and> (\<exists>d\<in>set coll. run_failed (dataset_run rv plan sh d)) else cancelled = []"
    using p(2,3) by (auto simp: pool_inv_def pool_done_def)
  then show ?thesis
    using p(2) by (intro conjI exI[of _ coll]) (auto simp: pool_done_def split: if_splits)
qed

section \<open>The sequential loop is a run of the pool\<close>

lemma pool_run_append:
  "pool_run rv wd plan sh k ff (as @ bs) p =
     (case pool_run rv wd plan sh k ff as p of None \<Rightarrow> None | Some q \<Rightarrow> pool_run rv wd plan sh k ff bs q)"
  by (induction as arbitrary: p) (auto split: option.splits)

lemma pool_one:
  assumes "0 < k"
  shows "pool_run rv wd plan sh k ff [Start, Finish 0, Collect 0] (pool_start (d # dss) pg w) =
    (case run_one_dataset rv wd plan sh d w of (run, w') \<Rightarrow>
       if run_failed run \<and> ff then Some ((pool_start [] (collect_run run pg) w')\<lparr>po_stopped := True\<rparr>)
       else Some (pool_start dss (collect_run run pg) w'))"
  using assms by (simp add: pool_start_def run_one_dataset_def remove_nth_def Let_def)

lemma seq_loop_is_pool_run:
  assumes "0 < k"
  shows "\<exists>sched p. pool_run rv wd plan sh k ff sched (pool_start dss pg w) = Some p \<and> pool_done p \<and>
    (po_progress p, po_world p) = seq_loop rv wd plan sh ff dss (pg, w)"
proof (induction dss arbitrary: pg w)
  case Nil
  show ?case by (intro exI[of _ "[]"]) (simp add: pool_start_def pool_done_def)
next
  case (Cons d dss)
  obtain run w' where r: "run_one_dataset rv wd plan sh d w = (run, w')"
    by (cases "run_one_dataset rv wd plan sh d w")
  note one = pool_one[OF assms, of rv wd plan sh ff d dss pg w, unfolded r prod.case]
  show ?case
  proof (cases "run_failed run \<and> ff")
    case True
    with one r show ?thesis
      by (intro exI[of _ "[Start, Finish 0, Collect 0]"]) (simp add: pool_start_def pool_done_def Let_def)
  next
    case False
    obtain sched p where "pool_run rv wd plan sh k ff sched (pool_start dss (collect_run run pg) w') = Some p"
        "pool_done p" "(po_progress p, po_world p) = seq_loop rv wd plan sh ff dss (collect_run run pg, w')"
      using Cons.IH by blast
    with one r False show ?thesis
      by (intro exI[of _ "[Start, Finish 0, Collect 0] @ sched"] exI[of _ p])
         (auto simp: pool_run_append Let_def simp del: pool_run.simps append.simps)
  qed
qed

section \<open>What the jobs leave alone\<close>

lemma emit_sel [simp]:
  "w_shards (emit t pl j r d v w) = w_shards w" "w_docs (emit t pl j r d v w) = w_docs w"
  "w_db (emit t pl j r d v w) = w_db w"
  by (simp_all add: emit_def)

lemma fold_keeps: "(\<And>x s. f (g x s) = f s) \<Longrightarrow> f (fold g xs s) = f s"
  by (induction xs arbitrary: s) auto

lemma job_keeps [simp]:
  "w_shards (job_start plan sh ds w) = w_shards w" "w_db (job_start plan sh ds w) = w_db w"
  "w_shards (job_finish rv wd plan sh ds w) = w_shards w" "w_db (job_finish rv wd plan sh ds w) = w_db w"
  by (simp_all add: job_start_def job_finish_def Let_def case_prod_beta fold_keeps[of w_shards]
      fold_keeps[of w_db] record_etl_perf_run_def write_perf_json_def)

lemma seq_loop_keeps:
  "seq_loop rv wd plan sh ff dss (pg, w) = (pg', w') \<Longrightarrow> w_shards w' = w_shards w \<and> w_db w' = w_db w"
proof (induction dss arbitrary: pg w)
  case (Cons d dss)
  then show ?case
    by (simp add: run_one_dataset_def Let_def split: if_splits) (fastforce dest: Cons.IH)
qed simp

lemma pool_step_keeps:
  "pool_step rv wd plan sh k ff a p = Some p' \<Longrightarrow>
   w_shards (po_world p') = w_shards (po_world p) \<and> w_db (po_world p') = w_db (po_world p)"
  by (cases a) (auto simp: Let_def split: list.splits if_splits)

lemma pool_run_keeps:
  "pool_run rv wd plan sh k ff as p = Some p' \<Longrightarrow>
   w_shards (po_world p') = w_shards (po_world p) \<and> w_db (po_world p') = w_db (po_world p)"
proof (induction as arbitrary: p)
  case (Cons a as)
  then show ?case by (auto split: option.splits dest: pool_step_keeps)
qed simp

lemma run_datasets_keeps:
  "run_datasets rv wd plan sh mw ff sched w = Some (pg, w') \<Longrightarrow> w_shards w' = w_shards w \<and> w_db w' = w_db w"
  by (auto simp: run_datasets_def pool_start_def split: if_splits option.splits
      dest!: seq_loop_keeps pool_run_keeps)

text \<open>The stages of a run of a shard that the plan has.\<close>

lemma run_shard_Some:
  assumes "run_shard env rv plan0 ref lr wd out mw ff sched w = Some (Inr (s, w'))"
    "resolve_shard (set_lake_root lr plan0) ref = Some sh"
  obtains pg w1 w2 where
    "run_datasets rv wd (set_lake_root lr plan0) sh mw ff sched (shard_begin rv (set_lake_root lr plan0) sh w) = Some (pg, w1)"
    "write_summary env wd out (VStr (posix wd [''shard_summary.json'']))
       (shard_summary_of rv (set_lake_root lr plan0) sh pg) w1 = Inr (s, w2)"
    "w' = shard_end rv (set_lake_root lr plan0) sh s w2"
  using assms by (auto simp: run_shard_def Let_def rbind_Inr_iff split: option.splits prod.splits)

lemma write_summary_keeps:
  assumes "write_summary env wd out fb summary w = Inr (s, w')"
  shows "w_shards w' = w_shards w" "w_db w' = w_db w" "\<exists>u. s = summary\<lparr>ss_uri := u\<rparr>"
  using assms by (auto simp: write_summary_def Let_def rbind_Inr_iff split: option.splits if_splits)

lemma shard_summary_of_sel [simp]:
  "ss_runs (shard_summary_of rv plan sh pg) = map VDict (pg_runs pg)"
  "ss_total (shard_summary_of rv plan sh pg) = int (length (sh_datasets sh))"
  "ss_succeeded (shard_summary_of rv plan sh pg) = int (pg_succeeded pg)"
  "ss_failed (shard_summary_of rv plan sh pg) = int (pg_failed pg)"
  "ss_skipped (shard_summary_of rv plan sh pg) = int (pg_skipped pg)"
  "ss_status (shard_summary_of rv plan sh pg) = final_status sh pg"
  by (simp_all add: shard_summary_of_def)

lemma summary_roundtrip:
  "shard_summary_from_dict (shard_summary_to_dict s) = Inr s"
  by (cases s) (simp add: shard_summary_from_dict_def shard_summary_to_dict_def py_float_def)

text \<open>What a run of a shard returns, whichever loop it took.\<close>

lemma run_shard_summary:
  assumes "run_shard env rv plan0 ref lr wd out mw ff sched w = Some (Inr (s, w'))"
    "resolve_shard (set_lake_root lr plan0) ref = Some sh"
  obtains pg ran where "progress_ok pg" "mset ran \<subseteq># mset (sh_datasets sh)"
    "pg_runs pg = map (dataset_run rv (set_lake_root lr plan0) sh) ran"
    "mset ran \<noteq> mset (sh_datasets sh) \<longrightarrow>
       ff \<and> (\<exists>d\<in>set ran. run_failed (dataset_run rv (set_lake_root lr plan0) sh d))"
    "\<exists>u. s = (shard_summary_of rv (set_lake_root lr plan0) sh pg)\<lparr>ss_uri := u\<rparr>"
proof -
  obtain pg w1 w2 where st:
    "run_datasets rv wd (set_lake_root lr plan0) sh mw ff sched (shard_begin rv (set_lake_root lr plan0) sh w) = Some (pg, w1)"
    "write_summary env wd out (VStr (posix wd [''shard_summary.json'']))
       (shard_summary_of rv (set_lake_root lr plan0) sh pg) w1 = Inr (s, w2)"
    by (rule run_shard_Some[OF assms])
  show thesis
    using run_datasets_progress[OF st(1)] write_summary_keeps(3)[OF st(2)] that by blast
qed

lemma merge_fold:
  assumes "\<forall>s\<in>set ss. \<exists>rs. ss_runs s = map VDict rs"
  shows "\<exists>m. rfold merge_one ss m0 = Inr m \<and>
    mt_total m = mt_total m0 + sum_list (map ss_total ss) \<and>
    mt_succeeded m = mt_succeeded m0 + sum_list (map ss_succeeded ss) \<and>
    mt_failed m = mt_failed m0 + sum_list (map ss_failed ss) \<and>
    mt_skipped m = mt_skipped m0 + sum_list (map ss_skipped ss) \<and>
    mt_stats m = mt_stats m0 @ map shard_stats ss"
  using assms
proof (induction ss arbitrary: m0)
  case Nil
  then show ?case by simp
next
  case (Cons s ss)
  then obtain rs where rs: "ss_runs s = map VDict rs" by auto
  have "\<exists>fs. failed_of s = Inr fs"
  proof -
    have "\<exists>xs. rmap (failed_entry s) (map VDict rs) = Inr xs"
      by (induction rs) (auto simp: failed_entry_def)
    then show ?thesis by (auto simp: failed_of_def rs)
  qed
  then obtain fs where fs: "failed_of s = Inr fs" by blast
  from Cons.IH Cons.prems show ?case by (force simp: merge_one_def fs)
qed

lemma read_summaries_runs:
  "s \<in> set (read_summaries env docs uris) \<Longrightarrow>
   \<exists>d. shard_summary_from_dict d = Inr s"
  by (auto simp: read_summaries_def map_filter_def rbind_Inr_iff split: sum.splits option.splits)

text \<open>Every run of a numbered plan's shard: the counters add up to the shard's data sets.\<close>

lemma complete_run_sums:
  assumes "run_shard env rv plan ref lr wd out mw False sched w = Some (Inr (s, w'))"
    "resolve_shard (set_lake_root lr plan) ref = Some sh"
  shows "ss_total s = int (length (sh_datasets sh))"
    "ss_succeeded s + ss_failed s + ss_skipped s = ss_total s"
    "\<exists>rs. ss_runs s = map VDict rs"
proof -
  obtain pg ran where r: "progress_ok pg" "pg_runs pg = map (dataset_run rv (set_lake_root lr plan) sh) ran"
      "mset ran = mset (sh_datasets sh)"
      "\<exists>u. s = (shard_summary_of rv (set_lake_root lr plan) sh pg)\<lparr>ss_uri := u\<rparr>"
    by (rule run_shard_summary[OF assms]) blast
  have "length ran = length (sh_datasets sh)" using r(3) by (metis size_mset)
  with progress_sum[OF r(1)] r(2) have "pg_succeeded pg + pg_failed pg + pg_skipped pg = length (sh_datasets sh)"
    by simp
  with r(4) show "ss_total s = int (length (sh_datasets sh))"
      "ss_succeeded s + ss_failed s + ss_skipped s = ss_total s"
      "\<exists>rs. ss_runs s = map VDict rs"
    by (auto simp flip: of_nat_add)
qed

lemma plan_resolve:
  assumes "plan_etl env root_uri lake gb ms incl excl pid now = Inr plan" "i < length (ep_shards plan)"
  shows "resolve_shard (set_lake_root lr plan) (ByIndex (int i)) = Some (ep_shards plan ! i)"
proof (rule plan_etl_shards[OF assms(1)])
  fix found
  assume "pack_into_shards (filter_datasets incl excl found) (ep_target plan) ms pid = Inr (ep_shards plan)"
  from pack_into_shards_facts(3)[OF this] have num: "shards_numbered pid (ep_shards plan)" .
  have sh: "ep_shards (set_lake_root lr plan) = ep_shards plan"
    by (simp add: set_lake_root_def split: option.splits)
  have "get_shard (set_lake_root lr plan) (ByIndex (int i)) = Some (ep_shards (set_lake_root lr plan) ! i)"
    using num assms(2) by (intro get_shard_index[of pid]) (simp_all only: sh)
  then show ?thesis by (simp only: resolve_shard_def shard_ref.case sh)
qed

lemma int_length_concat: "int (length (concat xss)) = (\<Sum>xs\<leftarrow>xss. int (length xs))"
  by (induction xss) simp_all

lemma plan_total_datasets:
  assumes "plan_etl env root_uri lake gb ms incl excl pid now = Inr plan"
  shows "ep_total_datasets plan = (\<Sum>sh\<leftarrow>ep_shards plan. int (length (sh_datasets sh)))"
proof (rule plan_etl_shards[OF assms])
  fix found
  let ?ds = "filter_datasets incl excl found"
  assume p: "pack_into_shards ?ds (ep_target plan) ms pid = Inr (ep_shards plan)"
    and t: "ep_total_datasets plan = int (length ?ds)"
  have "length ?ds = length (concat (map sh_datasets (ep_shards plan)))"
    using pack_into_shards_facts(1)[OF p] by (metis size_mset)
  then show ?thesis by (simp only: t int_length_concat map_map comp_def)
qed

section \<open>Properties\<close>


text \<open>C21. The sequential loop is one of the runs of the thread pool: some schedule of a pool with any
  number of workers ends with the same runs and counters and with the same events, perf rows and
  documents in the same order.\<close>

theorem sequential_is_pool_run:
  assumes "0 < workers"
  shows "\<exists>sched p. pool_run rv wd plan sh workers ff sched (pool_start (sh_datasets sh) progress0 w) = Some p \<and>
    pool_done p \<and> run_datasets rv wd plan sh 1 ff [] w = Some (po_progress p, po_world p)"
proof -
  obtain sched p where "pool_run rv wd plan sh workers ff sched (pool_start (sh_datasets sh) progress0 w) = Some p"
      "pool_done p" "(po_progress p, po_world p) = seq_loop rv wd plan sh ff (sh_datasets sh) (progress0, w)"
    using seq_loop_is_pool_run[OF assms, of rv wd plan sh ff "sh_datasets sh" progress0 w] by blast
  then show ?thesis
    by (intro exI[of _ sched] exI[of _ p]) (simp add: run_datasets_def)
qed

text \<open>After a run with the warehouse available, the row of the shard in \<open>etl_shards\<close> carries the
  summary's status and counters, and keeps the data set count, bytes and start time that the RUNNING
  row was given; the rows of other shards are untouched.\<close>

theorem run_shard_row:
  assumes "run_shard env rv plan0 ref lr wd out mw ff sched w = Some (Inr (s, w'))"
    "resolve_shard (set_lake_root lr plan0) ref = Some sh" "w_db w"
  shows "\<exists>row. map_of (w_shards w') (ep_plan_id (set_lake_root lr plan0), sh_id sh) = Some row \<and>
    sr_status row = ss_status s \<and> sr_succeeded row = Some (ss_succeeded s) \<and>
    sr_failed row = Some (ss_failed s) \<and> sr_skipped row = Some (ss_skipped s) \<and>
    sr_dataset_count row = Some (ss_total s) \<and> sr_input_bytes row = Some (sh_bytes sh) \<and>
    sr_started_at row = Some (rv_started_at rv) \<and> sr_summary_uri row = Some (py_str (ss_uri s)) \<and>
    (\<forall>k. k \<noteq> (ep_plan_id (set_lake_root lr plan0), sh_id sh) \<longrightarrow> map_of (w_shards w') k = map_of (w_shards w) k)"
proof -
  obtain pg w1 w2 where st:
    "run_datasets rv wd (set_lake_root lr plan0) sh mw ff sched (shard_begin rv (set_lake_root lr plan0) sh w) = Some (pg, w1)"
    "write_summary env wd out (VStr (posix wd [''shard_summary.json'']))
       (shard_summary_of rv (set_lake_root lr plan0) sh pg) w1 = Inr (s, w2)"
    "w' = shard_end rv (set_lake_root lr plan0) sh s w2"
    by (rule run_shard_Some[OF assms(1,2)])
  note k = run_datasets_keeps[OF st(1)] write_summary_keeps[OF st(2)]
  have total_s: "ss_total s = int (length (sh_datasets sh))" using k(4) by auto
  show ?thesis
    using k(1-3) assms(3) total_s
    by (auto simp: st(3) shard_end_def record_etl_shard_def shard_begin_def dict_upsert_def
        update_shard_row_def new_shard_row_def no_row_def keep_def split: option.splits)
qed

text \<open>The document written to the output URI is read back there and parses to the returned
  summary, except that its \<open>summary_uri\<close> is null: it is written before the summary learns it.\<close>

theorem run_shard_document:
  assumes "run_shard env rv plan0 ref lr wd (Some u) mw ff sched w = Some (Inr (s, w'))" "u \<noteq> []"
  shows "\<exists>d. read_json_uri env (w_docs w') u = Inr d \<and>
    shard_summary_from_dict d = Inr (s\<lparr>ss_uri := VNone\<rparr>) \<and> ss_uri s = VStr u"
proof -
  have ws: "\<exists>d. read_json_uri env (w_docs w2) u = Inr d \<and>
      shard_summary_from_dict d = Inr (s\<lparr>ss_uri := VNone\<rparr>) \<and> ss_uri s = VStr u"
    if "write_summary env wd (Some u) fb summary w1 = Inr (s, w2)" "ss_uri summary = VNone" for fb summary w1 w2
    using that assms(2) docs.rd_same
    by (auto simp: write_summary_def Let_def rbind_Inr_iff summary_roundtrip)
  show ?thesis
  proof (cases "resolve_shard (set_lake_root lr plan0) ref")
    case None
    with assms(1) show ?thesis by (auto simp: run_shard_def Let_def skipped_summary_def intro!: ws)
  next
    case (Some sh)
    show ?thesis
      by (rule run_shard_Some[OF assms(1) Some])
         (auto simp: shard_end_def record_etl_shard_def shard_summary_of_def dest!: ws)
  qed
qed

text \<open>C10. Merging the summaries of complete runs (no \<open>fail_fast\<close>) of all shards of a plan accounts for
  every data set of the plan: the total is the number of planned data sets and is the sum of
  succeeded, failed and skipped ones, and as many shards are found as expected.\<close>

theorem merge_accounts_for_plan:
  assumes "plan_etl penv root_uri lake gb ms incl excl pid pnow = Inr plan"
    "length ss = length (ep_shards plan)"
    "\<forall>i < length ss. \<exists>e rv wd out mw sched w0 w1.
       run_shard e rv plan (ByIndex (int i)) lr wd out mw False sched w0 = Some (Inr (ss ! i, w1))"
    "find_shard_summaries env (w_docs w) results = Inr uris"
    "mset (read_summaries env (w_docs w) uris) = mset (map (\<lambda>s. s\<lparr>ss_uri := VNone\<rparr>) ss)"
    "merge_shard_summaries env plan results out now w = Inr (payload, w')"
  shows "get payload ''total'' = VInt (ep_total_datasets plan) \<and>
    get payload ''found_shards'' = get payload ''expected_shards'' \<and>
    (\<exists>a b c. get payload ''succeeded'' = VInt a \<and> get payload ''failed'' = VInt b \<and>
       get payload ''skipped'' = VInt c \<and> a + b + c = ep_total_datasets plan)"
proof -
  let ?rs = "read_summaries env (w_docs w) uris"
  have each: "ss_total (ss ! i) = int (length (sh_datasets (ep_shards plan ! i))) \<and>
      ss_succeeded (ss ! i) + ss_failed (ss ! i) + ss_skipped (ss ! i) = ss_total (ss ! i) \<and>
      (\<exists>rs. ss_runs (ss ! i) = map VDict rs)" if i: "i < length ss" for i
    using assms(3) i complete_run_sums[OF _ plan_resolve[OF assms(1), of i lr]] assms(2) by metis
  have runs: "\<forall>s\<in>set ?rs. \<exists>rs. ss_runs s = map VDict rs"
    using each mset_eq_setD[OF assms(5)] by (fastforce simp: in_set_conv_nth)
  have sums: "sum_list (map f ?rs) = sum_list (map f ss)"
    if "\<And>s u. f (s\<lparr>ss_uri := u\<rparr>) = f s" for f :: "shard_summary \<Rightarrow> int"
    using sum_list_mset_eq[OF assms(5), of f] that by (simp add: comp_def)
  have tot: "sum_list (map ss_total ss) = ep_total_datasets plan"
    unfolding plan_total_datasets[OF assms(1)]
    by (rule arg_cong[of _ _ sum_list]) (simp add: list_eq_iff_nth_eq assms(2) each)
  have parts: "sum_list (map ss_succeeded ss) + sum_list (map ss_failed ss) + sum_list (map ss_skipped ss) =
      sum_list (map ss_total ss)"
  proof -
    have "sum_list (map ss_succeeded ss) + sum_list (map ss_failed ss) + sum_list (map ss_skipped ss) =
        sum_list (map (\<lambda>s. ss_succeeded s + ss_failed s + ss_skipped s) ss)"
      by (simp add: sum_list_addf)
    also have "\<dots> = sum_list (map ss_total ss)"
      by (rule arg_cong[of _ _ sum_list]) (simp add: list_eq_iff_nth_eq each)
    finally show ?thesis .
  qed
  have "length ?rs = length (ep_shards plan)" using assms(2,5) by (metis length_map size_mset)
  with merge_fold[OF runs, of merge_start] assms(4,6) sums parts tot show ?thesis
    by (auto simp: merge_shard_summaries_def Let_def rbind_Inr_iff merge_payload_def merge_start_def)
qed

section \<open>Concrete runs\<close>

definition demo_rv :: run_env where
  "demo_rv = \<lparr>rv_etl = (\<lambda>ds root job. if pd_dataset_id ds = ''a''
       then Inr \<lparr>er_status = ''OK'', er_error = None, er_normalize = None, er_features = None, er_ads = None,
                 er_dict = []\<rparr>
       else Inl (RuntimeError ''boom'')),
     rv_duration = (\<lambda>_. 1), rv_started_at = ''t0'', rv_finished_at = ''t1'', rv_elapsed = 2\<rparr>"

definition demo_world :: shard_world where
  "demo_world = \<lparr>w_db = True, w_events = [], w_perf = [], w_shards = [], w_docs = []\<rparr>"

definition demo_shard :: plan_shard where
  "demo_shard = \<lparr>sh_id = ''P::shard-000'', sh_index = 0,
     sh_datasets = [\<lparr>pd_dataset_id = ''a'', pd_version = ''v'', pd_uri = ''/a'', pd_bytes = 3\<rparr>,
                    \<lparr>pd_dataset_id = ''b'', pd_version = ''v'', pd_uri = ''/b'', pd_bytes = 2\<rparr>],
     sh_bytes = 5, sh_status = ''PENDING''\<rparr>"

definition demo_etl_plan :: etl_plan where
  "demo_etl_plan = \<lparr>ep_plan_id = ''P'', ep_created_at = ''t'', ep_root_uri = ''/raw'', ep_lake_root = ''/lake'',
     ep_target = 9, ep_total_datasets = 2, ep_total_bytes = 5, ep_shards = [demo_shard],
     ep_include = [], ep_exclude = []\<rparr>"

definition demo_run :: "(shard_summary \<times> shard_world) result option" where
  "demo_run = run_shard demo_lake demo_rv demo_etl_plan (ById ''0'') None ''/w'' (Some ''/out/s.json'') 2 False
     [Start, Start, Finish 1, Finish 0, Collect 0, Collect 0] demo_world"

lemma demo_run_eval:
  "case demo_run of Some (Inr (s, w)) \<Rightarrow> ss_status s = ''WARN'' \<and> ss_succeeded s = 1 \<and> ss_total s = 2 | _ \<Rightarrow> False"
  by code_simp

lemma demo_run_Some:
  obtains s w where "demo_run = Some (Inr (s, w))" "ss_status s = ''WARN''" "ss_succeeded s = 1" "ss_total s = 2"
  using demo_run_eval by (auto split: option.splits sum.splits prod.splits)

lemma demo_resolve: "resolve_shard (set_lake_root None demo_etl_plan) (ById ''0'') = Some demo_shard"
  by code_simp


theorem sequential_is_pool_run_witness:
  "\<exists>sched p. pool_run demo_rv ''/w'' demo_etl_plan demo_shard 3 True sched
     (pool_start (sh_datasets demo_shard) progress0 demo_world) = Some p \<and> pool_done p"
  using sequential_is_pool_run[of 3 demo_rv "''/w''" demo_etl_plan demo_shard True demo_world] by auto

theorem run_shard_row_witness:
  "\<exists>s w row. demo_run = Some (Inr (s, w)) \<and>
     map_of (w_shards w) (ep_plan_id (set_lake_root None demo_etl_plan), sh_id demo_shard) = Some row \<and>
     sr_status row = ''WARN'' \<and> sr_dataset_count row = Some 2"
proof (rule demo_run_Some)
  fix s w
  assume d: "demo_run = Some (Inr (s, w))" "ss_status s = ''WARN''" "ss_total s = 2"
  have "w_db demo_world" by (simp add: demo_world_def)
  from run_shard_row[OF d(1)[unfolded demo_run_def] demo_resolve this] d show ?thesis by auto
qed

theorem run_shard_document_witness:
  "\<exists>s w d. demo_run = Some (Inr (s, w)) \<and> read_json_uri demo_lake (w_docs w) ''/out/s.json'' = Inr d \<and>
     shard_summary_from_dict d = Inr (s\<lparr>ss_uri := VNone\<rparr>) \<and> ss_uri s = VStr ''/out/s.json''"
proof (rule demo_run_Some)
  fix s w
  assume d: "demo_run = Some (Inr (s, w))"
  have "''/out/s.json'' \<noteq> ([] :: string)" by simp
  from run_shard_document[OF d[unfolded demo_run_def] this] d show ?thesis by blast
qed

text \<open>A plan of one shard, run and merged.\<close>

definition tiny_lake :: lake_env where
  "tiny_lake = demo_lake\<lparr>e_list_objects := (\<lambda>b p. [(''raw/a/v/x.pt'', 7)])\<rparr>"

definition demo_planned :: "etl_plan result" where
  "demo_planned = plan_etl tiny_lake ''s3://b'' ''/l'' 0 2 [] [] ''P'' ''t''"

definition demo_run0 :: "etl_plan \<Rightarrow> (shard_summary \<times> shard_world) result option" where
  "demo_run0 plan = run_shard tiny_lake demo_rv plan (ByIndex (int 0)) None ''/w'' (Some ''/r/shard_summary.json'')
     1 False [] demo_world"

definition demo_chain :: "(etl_plan \<times> shard_summary \<times> shard_world) option" where
  "demo_chain = (case demo_planned of Inl _ \<Rightarrow> None | Inr plan \<Rightarrow>
     (case demo_run0 plan of Some (Inr (s0, w1)) \<Rightarrow> Some (plan, s0, w1) | _ \<Rightarrow> None))"

lemma demo_chain_eval:
  "case demo_chain of None \<Rightarrow> False | Some (plan, s0, w1) \<Rightarrow>
     length (ep_shards plan) = 1 \<and> ep_total_datasets plan = 1 \<and>
     (case find_shard_summaries tiny_lake (w_docs w1) ''/r'' of Inl _ \<Rightarrow> False | Inr uris \<Rightarrow>
        read_summaries tiny_lake (w_docs w1) uris = [s0\<lparr>ss_uri := VNone\<rparr>]) \<and>
     (case merge_shard_summaries tiny_lake plan ''/r'' ''/m'' ''n'' w1 of Inl _ \<Rightarrow> False | Inr _ \<Rightarrow> True)"
  by code_simp

lemma demo_chain_Some:
  obtains plan s0 w1 uris payload w3 where "demo_planned = Inr plan" "length (ep_shards plan) = 1"
    "ep_total_datasets plan = 1" "demo_run0 plan = Some (Inr (s0, w1))"
    "find_shard_summaries tiny_lake (w_docs w1) ''/r'' = Inr uris"
    "read_summaries tiny_lake (w_docs w1) uris = [s0\<lparr>ss_uri := VNone\<rparr>]"
    "merge_shard_summaries tiny_lake plan ''/r'' ''/m'' ''n'' w1 = Inr (payload, w3)"
proof (cases demo_chain)
  case None
  then show ?thesis using demo_chain_eval by simp
next
  case (Some c)
  obtain plan s0 w1 where c: "c = (plan, s0, w1)" by (cases c)
  with Some have p: "demo_planned = Inr plan" "demo_run0 plan = Some (Inr (s0, w1))"
    by (auto simp: demo_chain_def split: sum.splits option.splits prod.splits)
  from demo_chain_eval[unfolded Some c option.case prod.case]
  have e: "length (ep_shards plan) = 1" "ep_total_datasets plan = 1"
      "case find_shard_summaries tiny_lake (w_docs w1) ''/r'' of Inl _ \<Rightarrow> False | Inr uris \<Rightarrow>
        read_summaries tiny_lake (w_docs w1) uris = [s0\<lparr>ss_uri := VNone\<rparr>]"
      "case merge_shard_summaries tiny_lake plan ''/r'' ''/m'' ''n'' w1 of Inl _ \<Rightarrow> False | Inr _ \<Rightarrow> True"
    by blast+
  from e(3) obtain uris where "find_shard_summaries tiny_lake (w_docs w1) ''/r'' = Inr uris"
      "read_summaries tiny_lake (w_docs w1) uris = [s0\<lparr>ss_uri := VNone\<rparr>]"
    by (auto split: sum.splits)
  moreover from e(4) obtain r where "merge_shard_summaries tiny_lake plan ''/r'' ''/m'' ''n'' w1 = Inr r"
    by (auto split: sum.splits)
  moreover obtain payload w3 where "r = (payload, w3)" by (cases r)
  ultimately show ?thesis using that p e by blast
qed

theorem merge_accounts_for_plan_witness:
  "\<exists>plan w1 payload w3. demo_planned = Inr plan \<and>
     merge_shard_summaries tiny_lake plan ''/r'' ''/m'' ''n'' w1 = Inr (payload, w3) \<and>
     get payload ''total'' = VInt 1"
proof (rule demo_chain_Some)
  fix plan s0 w1 uris payload w3
  assume d: "demo_planned = Inr plan" "length (ep_shards plan) = 1" "ep_total_datasets plan = 1"
    "demo_run0 plan = Some (Inr (s0, w1))"
    "find_shard_summaries tiny_lake (w_docs w1) ''/r'' = Inr uris"
    "read_summaries tiny_lake (w_docs w1) uris = [s0\<lparr>ss_uri := VNone\<rparr>]"
    "merge_shard_summaries tiny_lake plan ''/r'' ''/m'' ''n'' w1 = Inr (payload, w3)"
  have runs: "\<exists>e rv wd out mw sched v0 v1.
      run_shard e rv plan (ByIndex (int i)) None wd out mw False sched v0 = Some (Inr ([s0] ! i, v1))"
    if "i < length [s0]" for i
  proof -
    have i: "i = 0" using that by simp
    show ?thesis unfolding i nth_Cons_0 by ((rule exI)+, rule d(4)[unfolded demo_run0_def])
  qed
  have "get payload ''total'' = VInt (ep_total_datasets plan)"
    by (rule merge_accounts_for_plan[THEN conjunct1, OF d(1)[unfolded demo_planned_def] _ _ d(5) _ d(7),
          of "[s0]" None]) (use d(2,6) runs in auto)
  with d show ?thesis by auto
qed

end
