(* ===== verification/Model_Registry.thy ===== *)
theory Model_Registry
  imports Py_Values
begin

text \<open>
  \<^verbatim>\<open>src/robot_dh/models/schemas.py\<close> (model specifications with their checks and JSON form),
  \<^verbatim>\<open>src/robot_dh/models/registry.py\<close> (the registry: a database table, with a local JSON file as
  fallback) and the back-end dispatch of \<^verbatim>\<open>src/robot_dh/models/backends/base.py\<close>.
\<close>

section \<open>Model specifications\<close>

definition model_types :: "string list" where
  "model_types = [''caption'', ''embedding'', ''anomaly_scorer'', ''vlm'', ''llm'', ''mock'']"

definition backends :: "string list" where
  "backends = [''mock'', ''local_cpu'', ''openai_compatible'', ''autodl_worker'', ''http_json'']"

definition model_statuses :: "string list" where
  "model_statuses = [''ACTIVE'', ''DISABLED'', ''INACTIVE'', ''DEPRECATED'']"

definition task_type_for_model :: "string \<Rightarrow> string" where
  "task_type_for_model model_type =
     (let mt = lower model_type
      in if mt = ''embedding'' then ''embedding''
         else if mt \<in> {''anomaly_scorer'', ''anomaly''} then ''anomaly_score''
         else ''caption'')"

definition prediction_type_for_task :: "string \<Rightarrow> string" where
  "prediction_type_for_task task_type =
     (let tt = lower task_type
      in if tt = ''embedding'' then ''embedding''
         else if tt \<in> {''anomaly_score'', ''anomaly''} then ''anomaly_score''
         else ''caption'')"

text \<open>The optional texts are kept as the values they are read from.\<close>

record model_spec =
  ms_id :: string
  ms_name :: string
  ms_type :: string
  ms_backend :: string
  ms_endpoint :: pyval
  ms_input_schema :: pydict
  ms_output_schema :: pydict
  ms_max_batch :: int
  ms_timeout :: int
  ms_status :: string
  ms_tags :: pydict
  ms_created_at :: pyval
  ms_updated_at :: pyval

definition post_init :: "model_spec \<Rightarrow> model_spec result" where
  "post_init s =
     (if ms_type s \<notin> set model_types then Inl (ValueError ''unknown model_type'')
      else if ms_backend s \<notin> set backends then Inl (ValueError ''unknown backend'')
      else if ms_status s \<notin> set model_statuses then Inl (ValueError ''unknown status'')
      else Inr s)"

definition is_active :: "model_spec \<Rightarrow> bool" where
  "is_active s = (ms_status s = ''ACTIVE'')"

definition spec_to_dict :: "model_spec \<Rightarrow> pydict" where
  "spec_to_dict s =
     [(''model_id'', VStr (ms_id s)), (''model_name'', VStr (ms_name s)),
      (''model_type'', VStr (ms_type s)), (''backend'', VStr (ms_backend s)),
      (''endpoint_url'', ms_endpoint s), (''input_schema'', VDict (ms_input_schema s)),
      (''output_schema'', VDict (ms_output_schema s)), (''max_batch_size'', VInt (ms_max_batch s)),
      (''timeout_sec'', VInt (ms_timeout s)), (''status'', VStr (ms_status s)),
      (''tags'', VDict (ms_tags s)), (''created_at'', ms_created_at s), (''updated_at'', ms_updated_at s)]"

definition dict_or_empty :: "pyval \<Rightarrow> pydict result" where
  "dict_or_empty v = (if \<not> truthy v then Inr []
     else case v of VDict d \<Rightarrow> Inr d | _ \<Rightarrow> Inl (TypeError ''not a mapping''))"

definition spec_from_dict :: "pydict \<Rightarrow> model_spec result" where
  "spec_from_dict data =
     rbind (item data ''model_id'') (\<lambda>mid.
     rbind (dict_or_empty (get data ''input_schema'')) (\<lambda>ins.
     rbind (dict_or_empty (get data ''output_schema'')) (\<lambda>outs.
     rbind (py_int (py_or (get data ''max_batch_size'') (VInt 32))) (\<lambda>mb.
     rbind (py_int (py_or (get data ''timeout_sec'') (VInt 60))) (\<lambda>ts.
     rbind (dict_or_empty (get data ''tags'')) (\<lambda>tags.
       post_init \<lparr>ms_id = py_str mid, ms_name = py_str (py_or (get data ''model_name'') mid),
         ms_type = py_str (py_or (get data ''model_type'') (VStr ''mock'')),
         ms_backend = py_str (py_or (get data ''backend'') (VStr ''mock'')),
         ms_endpoint = get data ''endpoint_url'', ms_input_schema = ins, ms_output_schema = outs,
         ms_max_batch = mb, ms_timeout = ts,
         ms_status = py_str (py_or (get data ''status'') (VStr ''ACTIVE'')), ms_tags = tags,
         ms_created_at = get data ''created_at'', ms_updated_at = get data ''updated_at''\<rparr>))))))"

text \<open>A row of the table \<open>model_registry\<close>.\<close>

record model_row =
  mr_id :: string
  mr_name :: string
  mr_type :: string
  mr_backend :: string
  mr_endpoint :: pyval
  mr_input_schema :: pydict
  mr_output_schema :: pydict
  mr_max_batch :: int
  mr_timeout :: int
  mr_status :: string
  mr_tags :: pydict
  mr_created_at :: string
  mr_updated_at :: string

definition spec_row :: "model_spec \<Rightarrow> string \<Rightarrow> string \<Rightarrow> model_row" where
  "spec_row s created updated =
     \<lparr>mr_id = ms_id s, mr_name = ms_name s, mr_type = ms_type s, mr_backend = ms_backend s,
      mr_endpoint = ms_endpoint s, mr_input_schema = ms_input_schema s,
      mr_output_schema = ms_output_schema s, mr_max_batch = ms_max_batch s,
      mr_timeout = ms_timeout s, mr_status = ms_status s, mr_tags = ms_tags s,
      mr_created_at = created, mr_updated_at = updated\<rparr>"

definition spec_from_row :: "model_row \<Rightarrow> model_spec result" where
  "spec_from_row r = post_init
     \<lparr>ms_id = mr_id r, ms_name = mr_name r, ms_type = mr_type r, ms_backend = mr_backend r,
      ms_endpoint = mr_endpoint r, ms_input_schema = mr_input_schema r,
      ms_output_schema = mr_output_schema r,
      ms_max_batch = (if mr_max_batch r = 0 then 32 else mr_max_batch r),
      ms_timeout = (if mr_timeout r = 0 then 60 else mr_timeout r),
      ms_status = mr_status r, ms_tags = mr_tags r,
      ms_created_at = VStr (mr_created_at r), ms_updated_at = VStr (mr_updated_at r)\<rparr>"

section \<open>The registry\<close>

text \<open>
  What a call finds outside: whether only the local file is to be used, whether the database answers
  the probe, and whether the write and the read that follow it succeed.
\<close>

record registry_env =
  re_local_only :: bool
  re_db :: bool
  re_write_ok :: bool
  re_read_ok :: bool
  re_now :: string

text \<open>The table, and the content of the local JSON file when it exists and parses.\<close>

record registry =
  rg_table :: "(string \<times> model_row) list"
  rg_file :: "pyval option"

definition use_db :: "registry_env \<Rightarrow> bool" where
  "use_db e = (\<not> re_local_only e \<and> re_db e)"

definition backend_kind :: "registry_env \<Rightarrow> string" where
  "backend_kind e = (if use_db e then ''db'' else ''local_json'')"

definition read_local :: "registry \<Rightarrow> pydict" where
  "read_local g = (case rg_file g of
     Some (VDict d) \<Rightarrow> (case get d ''models'' of VDict m \<Rightarrow> m | _ \<Rightarrow> [])
   | _ \<Rightarrow> [])"

definition write_local :: "string \<Rightarrow> pydict \<Rightarrow> registry \<Rightarrow> registry" where
  "write_local now models g =
     g\<lparr>rg_file := Some (VDict [(''models'', VDict models), (''updated_at'', VStr now)])\<rparr>"

definition register_local :: "registry_env \<Rightarrow> model_spec \<Rightarrow> registry \<Rightarrow> (model_spec \<times> registry) result" where
  "register_local e spec g =
     (let models = read_local g; now = re_now e
      in rbind (as_mapping (py_or (get models (ms_id spec)) (VDict []))) (\<lambda>existing.
         let spec' = spec\<lparr>ms_created_at := py_or (get existing ''created_at'') (VStr now),
                          ms_updated_at := VStr now\<rparr>
         in Inr (spec', write_local now (dict_set (ms_id spec') (VDict (spec_to_dict spec')) models) g)))"

definition register_db :: "registry_env \<Rightarrow> model_spec \<Rightarrow> registry \<Rightarrow> registry" where
  "register_db e spec g =
     g\<lparr>rg_table := dict_upsert (\<lambda>row. case row of None \<Rightarrow> spec_row spec (re_now e) (re_now e)
         | Some r \<Rightarrow> spec_row spec (mr_created_at r) (re_now e)) (ms_id spec) (rg_table g)\<rparr>"

definition register :: "registry_env \<Rightarrow> model_spec \<Rightarrow> registry \<Rightarrow> (model_spec \<times> registry) result" where
  "register e spec g =
     (if use_db e \<and> re_write_ok e then Inr (spec, register_db e spec g) else register_local e spec g)"

definition local_get :: "registry \<Rightarrow> string \<Rightarrow> model_spec option result" where
  "local_get g model_id =
     (let entry = get (read_local g) model_id
      in if truthy entry then rbind (as_mapping entry) (\<lambda>d. rbind (spec_from_dict d) (\<lambda>s. Inr (Some s)))
         else Inr None)"

definition get_spec :: "registry_env \<Rightarrow> registry \<Rightarrow> string \<Rightarrow> model_spec option result" where
  "get_spec e g model_id =
     (if use_db e \<and> re_read_ok e then
        (case map_of (rg_table g) model_id of
           None \<Rightarrow> Inr None | Some r \<Rightarrow> rbind (spec_from_row r) (\<lambda>s. Inr (Some s)))
      else local_get g model_id)"

definition list_specs :: "registry_env \<Rightarrow> registry \<Rightarrow> model_spec list result" where
  "list_specs e g =
     (if use_db e \<and> re_read_ok e then rmap (\<lambda>(_, r). spec_from_row r) (sort_key fst (rg_table g))
      else rmap (\<lambda>(_, v). rbind (as_mapping v) spec_from_dict) (read_local g))"

text \<open>Registration of the entries of a parsed YAML file; \<open>base_url\<close> is the environment variable of
  the OpenAI-compatible end point.\<close>

definition inject_endpoint :: "string option \<Rightarrow> model_spec \<Rightarrow> model_spec" where
  "inject_endpoint base_url s =
     (if \<not> truthy (ms_endpoint s) \<and> ms_backend s = ''openai_compatible''
      then s\<lparr>ms_endpoint := (case base_url of Some u \<Rightarrow> if u = [] then VNone else VStr u | None \<Rightarrow> VNone)\<rparr> else s)"

fun register_entries :: "registry_env \<Rightarrow> string option \<Rightarrow> pyval list \<Rightarrow> registry \<Rightarrow> (model_spec list \<times> registry) result" where
  "register_entries e base_url [] g = Inr ([], g)"
| "register_entries e base_url (VDict entry # es) g =
     rbind (spec_from_dict entry) (\<lambda>s.
     rbind (register e (inject_endpoint base_url s) g) (\<lambda>(s', g').
     rbind (register_entries e base_url es g') (\<lambda>(ss, g''). Inr (s' # ss, g''))))"
| "register_entries e base_url (_ # es) g = register_entries e base_url es g"

definition register_from_config :: "registry_env \<Rightarrow> string option \<Rightarrow> pydict \<Rightarrow> registry \<Rightarrow> (model_spec list \<times> registry) result" where
  "register_from_config e base_url data g =
     (case get data ''models'' of
        VList entries \<Rightarrow> register_entries e base_url entries g
      | _ \<Rightarrow> Inl (ValueError ''model registry config lacks a models list''))"

section \<open>Back ends\<close>

datatype backend_impl = MockBackend | LocalCPUBackend | OpenAICompatibleBackend

definition get_backend :: "model_spec \<Rightarrow> backend_impl result" where
  "get_backend s =
     (let b = lower (ms_backend s)
      in if b = ''mock'' then Inr MockBackend
         else if b = ''local_cpu'' then Inr LocalCPUBackend
         else if b = ''openai_compatible'' then Inr OpenAICompatibleBackend
         else Inl (BackendNotAvailableError b))"

record backend_health =
  bh_status :: string
  bh_backend :: string
  bh_model_id :: string
  bh_detail :: string
  bh_latency :: "rat option"
  bh_error :: "string option"

text \<open>\<open>ModelRegistry.health\<close>; \<open>probe\<close> is the health of the back end that the model names.\<close>

definition registry_health ::
  "(backend_impl \<Rightarrow> model_spec \<Rightarrow> backend_health) \<Rightarrow> registry_env \<Rightarrow> registry \<Rightarrow> string \<Rightarrow> backend_health result" where
  "registry_health probe e g model_id =
     rbind (get_spec e g model_id) (\<lambda>o'.
       case o' of
         None \<Rightarrow> Inr \<lparr>bh_status = ''FAIL'', bh_backend = ''unknown'', bh_model_id = model_id,
                 bh_detail = ''not registered'', bh_latency = None, bh_error = Some ''not in the registry''\<rparr>
       | Some s \<Rightarrow> rbind (get_backend s) (\<lambda>b. Inr (probe b s)))"

section \<open>Facts\<close>

text \<open>The specification as a reader gets it back: zero bounds are read as the defaults.\<close>

definition normal_spec :: "model_spec \<Rightarrow> model_spec" where
  "normal_spec s = s\<lparr>ms_max_batch := (if ms_max_batch s = 0 then 32 else ms_max_batch s),
     ms_timeout := (if ms_timeout s = 0 then 60 else ms_timeout s)\<rparr>"

lemma post_init_valid:
  "post_init s = Inr t \<longleftrightarrow>
     t = s \<and> ms_type s \<in> set model_types \<and> ms_backend s \<in> set backends \<and> ms_status s \<in> set model_statuses"
  by (auto simp: post_init_def)

lemma valid_nonempty:
  "post_init s = Inr s \<Longrightarrow> ms_type s \<noteq> [] \<and> ms_backend s \<noteq> [] \<and> ms_status s \<noteq> []"
  by (auto simp: post_init_valid model_types_def backends_def model_statuses_def)

lemma dict_or_empty_VDict [simp]: "dict_or_empty (VDict d) = Inr d"
  by (simp add: dict_or_empty_def)

lemma spec_dict_roundtrip:
  assumes "post_init s = Inr s" "ms_name s \<noteq> []"
  shows "spec_from_dict (spec_to_dict s) = Inr (normal_spec s)"
  using assms valid_nonempty[OF assms(1)]
  by (cases s) (simp add: spec_from_dict_def spec_to_dict_def normal_spec_def py_or_def post_init_valid)

lemma spec_row_roundtrip:
  assumes "post_init s = Inr s"
  shows "spec_from_row (spec_row s c u) = Inr ((normal_spec s)\<lparr>ms_created_at := VStr c, ms_updated_at := VStr u\<rparr>)"
  using assms by (cases s) (simp add: spec_from_row_def spec_row_def normal_spec_def post_init_valid)

lemma spec_from_row_created: "spec_from_row r = Inr s \<Longrightarrow> ms_created_at s = VStr (mr_created_at r)"
  by (auto simp: spec_from_row_def post_init_valid)

lemma read_write_local [simp]: "read_local (write_local now models g) = models"
  by (simp add: read_local_def write_local_def)

lemma write_local_table [simp]: "rg_table (write_local now models g) = rg_table g"
  by (simp add: write_local_def)

lemma register_local_Inr:
  assumes "register_local e spec g = Inr (spec', g')"
  obtains existing where
    "as_mapping (py_or (get (read_local g) (ms_id spec)) (VDict [])) = Inr existing"
    "spec' = spec\<lparr>ms_created_at := py_or (get existing ''created_at'') (VStr (re_now e)),
                  ms_updated_at := VStr (re_now e)\<rparr>"
    "read_local g' = dict_set (ms_id spec) (VDict (spec_to_dict spec')) (read_local g)"
    "rg_table g' = rg_table g"
  using assms by (auto simp: register_local_def Let_def rbind_Inr_iff)

lemma spec_to_dict_truthy: "spec_to_dict s \<noteq> []"
  by (simp add: spec_to_dict_def)

lemma spec_from_dict_created: "spec_from_dict d = Inr s \<Longrightarrow> ms_created_at s = get d ''created_at''"
  by (auto simp: spec_from_dict_def rbind_Inr_iff post_init_valid)

lemma normal_spec_sel [simp]:
  "normal_spec (s\<lparr>ms_created_at := c, ms_updated_at := u\<rparr>) = (normal_spec s)\<lparr>ms_created_at := c, ms_updated_at := u\<rparr>"
  by (cases s) (simp add: normal_spec_def)

lemma post_init_times:
  "post_init s = Inr s \<Longrightarrow> post_init (s\<lparr>ms_created_at := c, ms_updated_at := u\<rparr>) = Inr (s\<lparr>ms_created_at := c, ms_updated_at := u\<rparr>)"
  by (simp add: post_init_valid)

section \<open>Properties\<close>

text \<open>A registered model is found by later calls that reach the same store, with the values it was
  registered with (zero bounds read as their defaults), the time of the registration as update time
  and the creation time of the entry it replaces, if that had one; all other models are unchanged.\<close>

theorem register_then_get:
  assumes "register e spec g = Inr (spec', g')" "post_init spec = Inr spec" "ms_name spec \<noteq> []"
    "(use_db e \<and> re_write_ok e) = (use_db e' \<and> re_read_ok e')"
  shows "\<exists>c. get_spec e' g' (ms_id spec) =
      Inr (Some ((normal_spec spec)\<lparr>ms_created_at := c, ms_updated_at := VStr (re_now e)\<rparr>)) \<and>
    (\<forall>old. get_spec e' g (ms_id spec) = Inr (Some old) \<and> truthy (ms_created_at old) \<longrightarrow> c = ms_created_at old) \<and>
    (\<forall>other. other \<noteq> ms_id spec \<longrightarrow> get_spec e' g' other = get_spec e' g other)"
proof (cases "use_db e \<and> re_write_ok e")
  case True
  then have g': "g' = register_db e spec g" and db: "use_db e' \<and> re_read_ok e'"
    using assms(1,4) by (auto simp: register_def)
  define c where "c = (case map_of (rg_table g) (ms_id spec) of None \<Rightarrow> re_now e | Some r \<Rightarrow> mr_created_at r)"
  have "map_of (rg_table g') (ms_id spec) = Some (spec_row spec c (re_now e))"
    by (simp add: g' register_db_def dict_upsert_lookup c_def split: option.splits)
  then have "get_spec e' g' (ms_id spec) =
      Inr (Some ((normal_spec spec)\<lparr>ms_created_at := VStr c, ms_updated_at := VStr (re_now e)\<rparr>))"
    using db by (simp add: get_spec_def spec_row_roundtrip[OF assms(2)])
  moreover have "VStr c = ms_created_at old" if "get_spec e' g (ms_id spec) = Inr (Some old)" for old
    using that db by (auto simp: get_spec_def c_def rbind_Inr_iff spec_from_row_created split: option.splits)
  moreover have "get_spec e' g' other = get_spec e' g other" if "other \<noteq> ms_id spec" for other
    using that db by (simp add: get_spec_def g' register_db_def dict_upsert_lookup)
  ultimately show ?thesis by blast
next
  case False
  then have loc: "register_local e spec g = Inr (spec', g')" and db: "\<not> (use_db e' \<and> re_read_ok e')"
    using assms(1,4) by (auto simp: register_def)
  have gs: "get_spec e' h m = local_get h m" for h m
    unfolding get_spec_def if_not_P[OF db] ..
  show ?thesis
  proof (rule register_local_Inr[OF loc])
    fix existing
    assume ex: "as_mapping (py_or (get (read_local g) (ms_id spec)) (VDict [])) = Inr existing"
      and sp: "spec' = spec\<lparr>ms_created_at := py_or (get existing ''created_at'') (VStr (re_now e)),
                            ms_updated_at := VStr (re_now e)\<rparr>"
      and rd: "read_local g' = dict_set (ms_id spec) (VDict (spec_to_dict spec')) (read_local g)"
    have rt: "spec_from_dict (spec_to_dict spec') = Inr (normal_spec spec')"
      unfolding sp by (rule spec_dict_roundtrip) (use assms(2,3) in \<open>simp_all add: post_init_times\<close>)
    have found: "get_spec e' g' (ms_id spec) = Inr (Some (normal_spec spec'))"
      using rt by (simp add: gs local_get_def Let_def rd get_set spec_to_dict_truthy)
    have "get_spec e' g' other = get_spec e' g other" if "other \<noteq> ms_id spec" for other
      using that by (simp add: gs local_get_def Let_def rd get_set)
    moreover have "ms_created_at spec' = ms_created_at old"
      if "get_spec e' g (ms_id spec) = Inr (Some old)" "truthy (ms_created_at old)" for old
      using that ex sp
      by (auto simp: gs local_get_def Let_def rbind_Inr_iff py_or_def spec_from_dict_created
          split: if_splits)
    ultimately show ?thesis using found sp by auto
  qed
qed

text \<open>When the database answers but the write fails, the model goes to the local file, and later
  calls that can read the database do not see it: for them the registry has not changed.\<close>

theorem register_fallback_invisible:
  assumes "register e spec g = Inr (spec', g')" "use_db e" "\<not> re_write_ok e" "use_db e'" "re_read_ok e'"
  shows "get_spec e' g' model_id = get_spec e' g model_id \<and> list_specs e' g' = list_specs e' g"
proof -
  have "register_local e spec g = Inr (spec', g')" using assms(1,3) by (simp add: register_def)
  then have "rg_table g' = rg_table g" by (rule register_local_Inr)
  with assms(4,5) show ?thesis by (simp add: get_spec_def list_specs_def)
qed

definition demo_spec :: model_spec where
  "demo_spec = \<lparr>ms_id = ''m'', ms_name = ''mock'', ms_type = ''mock'', ms_backend = ''mock'',
     ms_endpoint = VNone, ms_input_schema = [], ms_output_schema = [], ms_max_batch = 0, ms_timeout = 5,
     ms_status = ''ACTIVE'', ms_tags = [], ms_created_at = VNone, ms_updated_at = VNone\<rparr>"

definition demo_renv :: "bool \<Rightarrow> registry_env" where
  "demo_renv wr = \<lparr>re_local_only = False, re_db = True, re_write_ok = wr, re_read_ok = True, re_now = ''t''\<rparr>"

definition empty_registry :: registry where
  "empty_registry = \<lparr>rg_table = [], rg_file = None\<rparr>"

lemma demo_spec_ok: "post_init demo_spec = Inr demo_spec" "ms_name demo_spec \<noteq> []"
  by (simp_all add: post_init_valid demo_spec_def model_types_def backends_def model_statuses_def)

theorem register_then_get_witness:
  "\<exists>g' s. register (demo_renv True) demo_spec empty_registry = Inr (demo_spec, g') \<and>
     get_spec (demo_renv True) g' ''m'' = Inr (Some s) \<and> ms_max_batch s = 32"
proof -
  let ?g = "register_db (demo_renv True) demo_spec empty_registry"
  have r: "register (demo_renv True) demo_spec empty_registry = Inr (demo_spec, ?g)"
    by (simp add: register_def demo_renv_def use_db_def)
  have "(use_db (demo_renv True) \<and> re_write_ok (demo_renv True)) = (use_db (demo_renv True) \<and> re_read_ok (demo_renv True))"
    by (simp add: demo_renv_def)
  from register_then_get[OF r demo_spec_ok this] obtain c where
    "get_spec (demo_renv True) ?g (ms_id demo_spec) =
      Inr (Some ((normal_spec demo_spec)\<lparr>ms_created_at := c, ms_updated_at := VStr (re_now (demo_renv True))\<rparr>))"
    by blast
  with r show ?thesis by (auto simp: demo_spec_def normal_spec_def)
qed

theorem register_fallback_invisible_witness:
  "\<exists>s g'. register (demo_renv False) demo_spec empty_registry = Inr (s, g') \<and> g' \<noteq> empty_registry \<and>
     get_spec (demo_renv True) g' ''m'' = Inr None"
proof -
  obtain s g' where r: "register (demo_renv False) demo_spec empty_registry = Inr (s, g')"
      and ne: "g' \<noteq> empty_registry"
    by (auto simp: register_def demo_renv_def use_db_def register_local_def Let_def read_local_def
        empty_registry_def py_or_def write_local_def)
  have "get_spec (demo_renv True) g' ''m'' = get_spec (demo_renv True) empty_registry ''m''"
    using register_fallback_invisible[OF r, of "demo_renv True" "''m''"] by (simp add: demo_renv_def use_db_def)
  with r ne show ?thesis by (auto simp: get_spec_def empty_registry_def demo_renv_def use_db_def)
qed

end
