(* ===== verification/Model_Backends.thy ===== *)
theory Model_Backends
  imports Model_Registry
begin

text \<open>
  The inference back ends of \<^verbatim>\<open>src/robot_dh/models/backends/\<close>: \<^verbatim>\<open>mock.py\<close>,
  \<^verbatim>\<open>local_cpu.py\<close> and \<^verbatim>\<open>openai_compatible.py\<close>, behind the interface of
  \<^verbatim>\<open>base.py\<close>, the locale \<open>model_backend\<close>: a prediction per sample, in the order of the samples.
  The first two never raise (\<open>total_backend\<close>). SHA-256, the square root, the clock and the HTTP
  service are parameters, as are the environment variables.
\<close>

section \<open>Samples and predictions\<close>

record inference_sample =
  is_sample_id :: string
  is_dataset_id :: pyval
  is_version :: pyval
  is_episode_id :: "string option"
  is_frame_id :: "string option"
  is_input_uri :: "string option"
  is_input_text :: "string option"
  is_input_refs :: "string list"
  is_metadata :: pydict

datatype pred_status = POK | PFAILED

record inference_prediction =
  ip_sample_id :: string
  ip_type :: string
  ip_json :: pydict
  ip_confidence :: "rat option"
  ip_latency :: "rat option"
  ip_tokens :: "int option"
  ip_status :: pred_status
  ip_error :: "string option"

definition prediction_ok :: "inference_prediction \<Rightarrow> bool" where
  "prediction_ok p = (ip_status p = POK)"

section \<open>The interface\<close>

text \<open>The first argument of a back end numbers the calls made for one batch: an HTTP service may
  answer a repeated call differently.\<close>

type_synonym backend_fn = "nat \<Rightarrow> inference_sample list \<Rightarrow> inference_prediction list result"

definition same_ids :: "inference_sample list \<Rightarrow> inference_prediction list \<Rightarrow> bool" where
  "same_ids xs ps = (map ip_sample_id ps = map is_sample_id xs)"

locale model_backend =
  fixes predict :: backend_fn
  assumes predict_ids: "predict k xs = Inr ps \<Longrightarrow> same_ids xs ps"
begin

lemma predict_length: "predict k xs = Inr ps \<Longrightarrow> length ps = length xs"
  using predict_ids by (metis length_map same_ids_def)

end

locale total_backend = model_backend +
  assumes predict_total: "\<exists>ps. predict k xs = Inr ps"

section \<open>What the back ends find outside\<close>

datatype openai_failure = OPENAI_ENDPOINT_UNAVAILABLE | OPENAI_TIMEOUT | OPENAI_BAD_RESPONSE

primrec failure_str :: "openai_failure \<Rightarrow> string" where
  "failure_str OPENAI_ENDPOINT_UNAVAILABLE = ''OPENAI_ENDPOINT_UNAVAILABLE''"
| "failure_str OPENAI_TIMEOUT = ''OPENAI_TIMEOUT''"
| "failure_str OPENAI_BAD_RESPONSE = ''OPENAI_BAD_RESPONSE''"

text \<open>\<open>be_post k j url payload timeout\<close> is \<open>_http_post_json\<close> at attempt \<open>j\<close> of call \<open>k\<close>: a JSON
  object, or the classified failure with its message; \<open>be_get\<close> is \<open>_http_get_json\<close>. \<open>be_digest\<close> gives
  the bytes of SHA-256.\<close>

record backend_env =
  be_digest :: "string \<Rightarrow> nat list"
  be_sqrt :: "rat \<Rightarrow> rat"
  be_latency :: "string \<Rightarrow> rat"
  be_base_url :: "string option"
  be_remote_model :: "string option"
  be_post :: "nat \<Rightarrow> nat \<Rightarrow> string \<Rightarrow> pydict \<Rightarrow> rat \<Rightarrow> (openai_failure \<times> string) + pydict"
  be_get :: "string \<Rightarrow> (openai_failure \<times> string) + unit"

section \<open>The mock back end\<close>

definition stable_unit_float :: "backend_env \<Rightarrow> string \<Rightarrow> rat" where
  "stable_unit_float be seed =
     of_int (foldl (\<lambda>n b. 256 * n + int b) 0 (take 8 (be_digest be seed)) mod 1000000) / 1000000"

definition mock_embedding :: "backend_env \<Rightarrow> string \<Rightarrow> nat \<Rightarrow> rat list" where
  "mock_embedding be sample_id d =
     map (\<lambda>i. py_round 6 (stable_unit_float be (sample_id @ '':'' @ str_of_nat i) * 2 - 1)) [0..<d]"

definition clamp01 :: "rat \<Rightarrow> rat" where
  "clamp01 q = max 0 (min 1 q)"

definition mock_anomaly_score :: "backend_env \<Rightarrow> inference_sample \<Rightarrow> rat" where
  "mock_anomaly_score be s =
     (let meta = is_metadata s;
          q = get meta ''quality_score'';
          v = get meta ''max_velocity_mps''
      in case (if q = VNone then Inl (TypeError []) else py_float q) of
           Inr x \<Rightarrow> py_round 6 (clamp01 (1 - x))
         | Inl _ \<Rightarrow>
             (case (if v = VNone then Inl (TypeError []) else py_float v) of
                Inr x \<Rightarrow> py_round 6 (clamp01 (x / 2))
              | Inl _ \<Rightarrow> py_round 6 (stable_unit_float be (is_sample_id s))))"

definition base_prediction :: "inference_sample \<Rightarrow> string \<Rightarrow> pydict \<Rightarrow> rat option \<Rightarrow> inference_prediction" where
  "base_prediction s ptype js latency =
     \<lparr>ip_sample_id = is_sample_id s, ip_type = ptype, ip_json = js, ip_confidence = None,
      ip_latency = latency, ip_tokens = None, ip_status = POK, ip_error = None\<rparr>"

definition anomaly_label :: "rat \<Rightarrow> pyval" where
  "anomaly_label score = VStr (if score \<ge> 1/2 then ''anomaly'' else ''normal'')"

definition mock_predict_one :: "backend_env \<Rightarrow> model_spec \<Rightarrow> inference_sample \<Rightarrow> inference_prediction" where
  "mock_predict_one be model s =
     (let mt = lower (if ms_type model = [] then ''mock'' else ms_type model);
          latency = Some (be_latency be (is_sample_id s))
      in if mt = ''embedding'' then
           (let vec = mock_embedding be (is_sample_id s) 16
            in base_prediction s ''embedding''
                 [(''embedding'', VList (map VFloat vec)), (''dim'', VInt (int (length vec)))] latency)
         else if mt = ''anomaly_scorer'' then
           (let score = mock_anomaly_score be s
            in (base_prediction s ''anomaly_score''
                  [(''anomaly_score'', VFloat score), (''label'', anomaly_label score)] latency)
                  \<lparr>ip_confidence := Some score\<rparr>)
         else
           (let ds = py_str (py_or (is_dataset_id s) (VStr ''unknown''));
                txt = ''A robot manipulation episode from dataset '' @ ds @ ''.''
            in (base_prediction s ''caption'' [(''text'', VStr txt)] latency)
                 \<lparr>ip_confidence := Some (py_round 6 (1/2 + 1/2 * stable_unit_float be (is_sample_id s))),
                  ip_tokens := Some (int (length (py_words txt)))\<rparr>))"

definition mock_predict_batch :: "backend_env \<Rightarrow> model_spec \<Rightarrow> backend_fn" where
  "mock_predict_batch be model k samples = Inr (map (mock_predict_one be model) samples)"

section \<open>The local CPU back end\<close>

definition hash_tokens :: "string \<Rightarrow> string list" where
  "hash_tokens txt =
     (let ts = py_words (map (\<lambda>c. if c = CHR ''/'' \<or> c = CHR '':'' then CHR '' '' else c) txt)
      in if ts = [] then [if txt = [] then ''empty'' else txt] else ts)"

definition add_token :: "backend_env \<Rightarrow> nat \<Rightarrow> string \<Rightarrow> rat list \<Rightarrow> rat list" where
  "add_token be d tok vec =
     (let h = be_digest be tok; idx = h ! 0 mod d; sgn = (if even (h ! 1) then 1 else -1)
      in vec[idx := vec ! idx + sgn])"

definition hashing_embedding :: "backend_env \<Rightarrow> string \<Rightarrow> nat \<Rightarrow> rat list" where
  "hashing_embedding be txt d =
     (let vec = fold (add_token be d) (hash_tokens txt) (replicate d 0);
          norm = be_sqrt be (sum_list (map (\<lambda>v. v * v) vec))
      in if norm > 0 then map (\<lambda>v. py_round 6 (v / norm)) vec else vec)"

text \<open>One guarded factor of the rule score: its weight, its value in the score and the value shown.\<close>

definition factor :: "pydict \<Rightarrow> string \<Rightarrow> (rat \<Rightarrow> rat \<times> rat) \<Rightarrow> rat \<Rightarrow> rat \<times> rat \<times> pydict \<Rightarrow> rat \<times> rat \<times> pydict" where
  "factor meta name f w acc =
     (case acc of (score, weight, factors) \<Rightarrow>
        let v = get meta name
        in if v = VNone then acc
           else case py_float v of
             Inl _ \<Rightarrow> acc
           | Inr x \<Rightarrow> (case f x of (part, shown) \<Rightarrow>
               (score + part * w, weight + w, dict_set name (VFloat shown) factors)))"

definition rule_anomaly_score :: "backend_env \<Rightarrow> inference_sample \<Rightarrow> rat \<times> pydict" where
  "rule_anomaly_score be s =
     (let meta = is_metadata s;
          acc = factor meta ''quality_score'' (\<lambda>q. (1 - clamp01 q, clamp01 q)) (1/2) (0, 0, []);
          acc = factor meta ''max_velocity_mps'' (\<lambda>v. (clamp01 (v / 2), v)) (3/10) acc;
          (score, weight, factors) = factor meta ''null_rate'' (\<lambda>n. (clamp01 n, clamp01 n)) (2/10) acc
      in if weight \<le> 0 then
           (py_round 6 (of_int (int (be_digest be (is_sample_id s) ! 0) mod 1000) / 1000),
            [(''source'', VStr ''hash_fallback'')])
         else (py_round 6 (clamp01 (score / weight)), factors))"

definition local_predict_one :: "backend_env \<Rightarrow> model_spec \<Rightarrow> inference_sample \<Rightarrow> inference_prediction" where
  "local_predict_one be model s =
     (let mt = lower (ms_type model); latency = Some (be_latency be (is_sample_id s))
      in if mt = ''embedding'' then
           (let vec = hashing_embedding be (opt_or (is_input_text s) (opt_or (is_input_uri s) (is_sample_id s))) 32
            in base_prediction s ''embedding''
                 [(''embedding'', VList (map VFloat vec)), (''dim'', VInt (int (length vec))),
                  (''method'', VStr ''feature_hashing'')] latency)
         else if mt = ''anomaly_scorer'' then
           (case rule_anomaly_score be s of (score, factors) \<Rightarrow>
              (base_prediction s ''anomaly_score''
                 [(''anomaly_score'', VFloat score), (''label'', anomaly_label score),
                  (''factors'', VDict factors)] latency)\<lparr>ip_confidence := Some score\<rparr>)
         else
           (let ds = py_str (py_or (is_dataset_id s) (VStr ''unknown''));
                txt = ''Episode '' @ opt_or (is_episode_id s) ''?'' @ '' of dataset '' @ ds
                      @ '' processed by local_cpu rule captioner.''
            in (base_prediction s ''caption'' [(''text'', VStr txt)] latency)
                 \<lparr>ip_confidence := Some (1/2), ip_tokens := Some (int (length (py_words txt)))\<rparr>))"

definition local_predict_batch :: "backend_env \<Rightarrow> model_spec \<Rightarrow> backend_fn" where
  "local_predict_batch be model k samples = Inr (map (local_predict_one be model) samples)"

section \<open>The OpenAI-compatible back end\<close>

definition truthy_opt :: "string option \<Rightarrow> string option" where
  "truthy_opt o' = (case o' of Some s \<Rightarrow> if s = [] then None else Some s | None \<Rightarrow> None)"

definition resolve_base_url :: "backend_env \<Rightarrow> model_spec \<Rightarrow> string option" where
  "resolve_base_url be model =
     (if truthy (ms_endpoint model) then Some (py_str (ms_endpoint model)) else truthy_opt (be_base_url be))"

definition resolve_remote_model :: "backend_env \<Rightarrow> model_spec \<Rightarrow> string" where
  "resolve_remote_model be model =
     opt_or (be_remote_model be)
       (opt_or (Some (py_str (py_or (get (ms_tags model) ''remote_model'') (VStr []))))
          (opt_or (Some (ms_name model)) (ms_id model)))"

definition endpoint :: "string \<Rightarrow> string \<Rightarrow> string" where
  "endpoint base_url path = rstrip_chars (\<lambda>c. c = CHR ''/'') base_url @ path"

definition build_prompt :: "inference_sample \<Rightarrow> string" where
  "build_prompt s =
     (case truthy_opt (is_input_text s) of
        Some t \<Rightarrow> t
      | None \<Rightarrow> join '' '' ([''Describe robot episode '' @ opt_or (is_episode_id s) ''?''] @
          (if truthy (is_dataset_id s) then [''from dataset '' @ py_str (is_dataset_id s)] else [])) @ ''.'')"

type_synonym openai_outcome = "(openai_failure \<times> string) + inference_prediction"

text \<open>\<open>resp["choices"][0]["message"]["content"]\<close> and \<open>resp["data"][0]["embedding"]\<close>; \<open>None\<close> when a
  subscript raises.\<close>

definition first_item :: "pydict \<Rightarrow> string \<Rightarrow> pydict option" where
  "first_item resp k = (case map_of resp k of Some (VList (VDict d # _)) \<Rightarrow> Some d | _ \<Rightarrow> None)"

definition chat_content :: "pydict \<Rightarrow> pyval option" where
  "chat_content resp =
     (case first_item resp ''choices'' of None \<Rightarrow> None
      | Some choice \<Rightarrow> (case map_of choice ''message'' of Some (VDict m) \<Rightarrow> map_of m ''content'' | _ \<Rightarrow> None))"

text \<open>\<open>usage = resp.get("usage") or {}\<close> must be a mapping: anything else that is truthy raises, and no
  handler catches it.\<close>

definition token_count :: "pydict \<Rightarrow> int option result" where
  "token_count resp =
     rbind (as_mapping (py_or (get resp ''usage'') (VDict []))) (\<lambda>usage.
       Inr (case get usage ''total_tokens'' of
              VInt i \<Rightarrow> Some i | VBool b \<Rightarrow> Some (if b then 1 else 0)
            | VFloat q \<Rightarrow> Some (trunc_rat q) | _ \<Rightarrow> None))"

definition call_chat :: "backend_env \<Rightarrow> nat \<Rightarrow> model_spec \<Rightarrow> string \<Rightarrow> rat \<Rightarrow> inference_sample \<Rightarrow> nat \<Rightarrow> openai_outcome result" where
  "call_chat be k model base_url timeout s j =
     (case be_post be k j (endpoint base_url ''/chat/completions'')
        [(''model'', VStr (resolve_remote_model be model)),
         (''messages'', VList
            [VDict [(''role'', VStr ''system''),
                    (''content'', VStr ''You describe robot manipulation episodes concisely.'')],
             VDict [(''role'', VStr ''user''), (''content'', VStr (build_prompt s))]]),
         (''temperature'', VFloat 0)] timeout of
        Inl f \<Rightarrow> Inr (Inl f)
      | Inr resp \<Rightarrow>
          (case chat_content resp of
             None \<Rightarrow> Inr (Inl (OPENAI_BAD_RESPONSE, ''missing choices[0].message.content''))
           | Some content \<Rightarrow>
               rbind (token_count resp) (\<lambda>tokens.
                 Inr (Inr ((base_prediction s ''caption'' [(''text'', content)] None)\<lparr>ip_tokens := tokens\<rparr>)))))"

definition call_embedding :: "backend_env \<Rightarrow> nat \<Rightarrow> model_spec \<Rightarrow> string \<Rightarrow> rat \<Rightarrow> inference_sample \<Rightarrow> nat \<Rightarrow> openai_outcome result" where
  "call_embedding be k model base_url timeout s j =
     Inr (case be_post be k j (endpoint base_url ''/embeddings'')
        [(''model'', VStr (resolve_remote_model be model)),
         (''input'', VStr (opt_or (is_input_text s) (opt_or (is_input_uri s) (is_sample_id s))))] timeout of
        Inl f \<Rightarrow> Inl f
      | Inr resp \<Rightarrow>
          (case first_item resp ''data'' of
             None \<Rightarrow> Inl (OPENAI_BAD_RESPONSE, ''missing data[0].embedding'')
           | Some d \<Rightarrow>
               (case map_of d ''embedding'' of
                  None \<Rightarrow> Inl (OPENAI_BAD_RESPONSE, ''missing data[0].embedding'')
                | Some (VList vec) \<Rightarrow>
                    Inr (base_prediction s ''embedding''
                      [(''embedding'', VList vec), (''dim'', VInt (int (length vec)))] None)
                | Some _ \<Rightarrow> Inl (OPENAI_BAD_RESPONSE, ''embedding is not an array''))))"

text \<open>The attempts: \<open>n\<close> are left, the next is number \<open>j\<close>; the result comes with the number of calls
  made so far. Only a bad response stops the attempts early.\<close>

fun attempt_loop :: "(nat \<Rightarrow> openai_outcome result) \<Rightarrow> nat \<Rightarrow> nat \<Rightarrow> openai_failure \<times> string \<Rightarrow> (openai_outcome \<times> nat) result" where
  "attempt_loop call j 0 recent = Inr (Inl recent, j)"
| "attempt_loop call j (Suc n) recent =
     rbind (call j) (\<lambda>o'. case o' of
        Inr p \<Rightarrow> Inr (Inr p, Suc j)
      | Inl f \<Rightarrow> if fst f = OPENAI_BAD_RESPONSE then Inr (Inl f, Suc j)
                 else attempt_loop call (Suc j) n f)"

definition failed_prediction :: "inference_sample \<Rightarrow> string \<Rightarrow> openai_failure \<Rightarrow> string \<Rightarrow> inference_prediction" where
  "failed_prediction s ptype err msg =
     (base_prediction s ptype [] None)
       \<lparr>ip_status := PFAILED, ip_error := Some (failure_str err @ '': '' @ msg)\<rparr>"

definition openai_attempts :: "int \<Rightarrow> nat" where
  "openai_attempts retry = nat (max 1 (retry + 1))"

definition openai_calls :: "backend_env \<Rightarrow> nat \<Rightarrow> model_spec \<Rightarrow> string \<Rightarrow> string \<Rightarrow> rat \<Rightarrow> int
    \<Rightarrow> inference_sample \<Rightarrow> (openai_outcome \<times> nat) result" where
  "openai_calls be k model base_url ptype timeout retry s =
     attempt_loop (if ptype = ''embedding'' then call_embedding be k model base_url timeout s
                   else call_chat be k model base_url timeout s)
       0 (openai_attempts retry) (OPENAI_TIMEOUT, [])"

definition openai_predict_one :: "backend_env \<Rightarrow> nat \<Rightarrow> model_spec \<Rightarrow> string \<Rightarrow> string \<Rightarrow> rat \<Rightarrow> int
    \<Rightarrow> inference_sample \<Rightarrow> inference_prediction result" where
  "openai_predict_one be k model base_url ptype timeout retry s =
     rbind (openai_calls be k model base_url ptype timeout retry s) (\<lambda>(o', _).
       Inr ((case o' of Inr p \<Rightarrow> p | Inl (err, msg) \<Rightarrow> failed_prediction s ptype err msg)
              \<lparr>ip_latency := Some (be_latency be (is_sample_id s))\<rparr>))"

definition openai_predict_batch :: "backend_env \<Rightarrow> model_spec \<Rightarrow> pydict \<Rightarrow> backend_fn" where
  "openai_predict_batch be model config k samples =
     rbind (py_float (py_or (py_or (get config ''timeout_sec'') (VInt (ms_timeout model))) (VInt 60))) (\<lambda>timeout.
     rbind (py_int (py_or (get config ''retry'') (VInt 0))) (\<lambda>retry.
       let ptype = (if ms_type model = ''embedding'' then ''embedding'' else ''caption'')
       in rmap (\<lambda>s. case resolve_base_url be model of
              None \<Rightarrow> Inr (failed_prediction s ptype OPENAI_ENDPOINT_UNAVAILABLE ''base_url not configured'')
            | Some base_url \<Rightarrow> openai_predict_one be k model base_url ptype timeout retry s) samples))"

section \<open>Dispatch and health\<close>

definition predict_batch :: "backend_env \<Rightarrow> backend_impl \<Rightarrow> model_spec \<Rightarrow> pydict \<Rightarrow> backend_fn" where
  "predict_batch be impl model config =
     (case impl of
        MockBackend \<Rightarrow> mock_predict_batch be model
      | LocalCPUBackend \<Rightarrow> local_predict_batch be model
      | OpenAICompatibleBackend \<Rightarrow> openai_predict_batch be model config)"

definition impl_health :: "backend_env \<Rightarrow> backend_impl \<Rightarrow> model_spec \<Rightarrow> backend_health" where
  "impl_health be impl model =
     (case impl of
        MockBackend \<Rightarrow> \<lparr>bh_status = ''PASS'', bh_backend = ''mock'', bh_model_id = ms_id model,
          bh_detail = ''mock backend always available'', bh_latency = Some 0, bh_error = None\<rparr>
      | LocalCPUBackend \<Rightarrow> \<lparr>bh_status = ''PASS'', bh_backend = ''local_cpu'', bh_model_id = ms_id model,
          bh_detail = ''local_cpu backend available'', bh_latency = Some 0, bh_error = None\<rparr>
      | OpenAICompatibleBackend \<Rightarrow>
          (case resolve_base_url be model of
             None \<Rightarrow> \<lparr>bh_status = ''FAIL'', bh_backend = ''openai_compatible'', bh_model_id = ms_id model,
               bh_detail = ''no endpoint'', bh_latency = None,
               bh_error = Some ''OPENAI_ENDPOINT_UNAVAILABLE: no endpoint configured''\<rparr>
           | Some base_url \<Rightarrow>
               (case be_get be (endpoint base_url ''/models'') of
                  Inl (err, msg) \<Rightarrow> \<lparr>bh_status = ''FAIL'', bh_backend = ''openai_compatible'',
                    bh_model_id = ms_id model, bh_detail = ''probe failed'',
                    bh_latency = Some (be_latency be (ms_id model)),
                    bh_error = Some (failure_str err @ '': '' @ msg)\<rparr>
                | Inr _ \<Rightarrow> \<lparr>bh_status = ''PASS'', bh_backend = ''openai_compatible'',
                    bh_model_id = ms_id model, bh_detail = ''endpoint reachable'',
                    bh_latency = Some (be_latency be (ms_id model)), bh_error = None\<rparr>)))"

section \<open>The back ends meet the interface\<close>

lemma mock_predict_one_id [simp]: "ip_sample_id (mock_predict_one be model s) = is_sample_id s"
  by (simp add: mock_predict_one_def base_prediction_def Let_def)

lemma local_predict_one_id [simp]: "ip_sample_id (local_predict_one be model s) = is_sample_id s"
  by (simp add: local_predict_one_def base_prediction_def Let_def case_prod_beta)

interpretation mock: total_backend "mock_predict_batch be model" for be model
  by unfold_locales (auto simp: mock_predict_batch_def same_ids_def)

interpretation local_cpu: total_backend "local_predict_batch be model" for be model
  by unfold_locales (auto simp: local_predict_batch_def same_ids_def)

lemma call_id:
  "call_chat be k model u t s j = Inr (Inr p) \<Longrightarrow> ip_sample_id p = is_sample_id s"
  "call_embedding be k model u t s j = Inr (Inr p) \<Longrightarrow> ip_sample_id p = is_sample_id s"
  by (auto simp: call_chat_def call_embedding_def rbind_Inr_iff base_prediction_def
      split: sum.splits option.splits pyval.splits)

lemma attempt_loop_result:
  "attempt_loop call j n recent = Inr (Inr p, m) \<Longrightarrow> \<exists>i. j \<le> i \<and> i < j + n \<and> call i = Inr (Inr p) \<and> m = Suc i"
proof (induction n arbitrary: j recent)
  case 0
  then show ?case by simp
next
  case (Suc n)
  then obtain o' where c: "call j = Inr o'" by (auto simp: rbind_Inr_iff)
  show ?case
  proof (cases o')
    case (Inr q)
    with Suc.prems c show ?thesis by (intro exI[of _ j]) simp
  next
    case (Inl f)
    with Suc.prems c have "attempt_loop call (Suc j) n f = Inr (Inr p, m)" by (simp split: if_splits)
    then obtain i where "Suc j \<le> i" "i < Suc j + n" "call i = Inr (Inr p)" "m = Suc i"
      using Suc.IH by blast
    then show ?thesis by (intro exI[of _ i]) simp
  qed
qed

lemma openai_predict_one_id:
  assumes "openai_predict_one be k model u ptype t retry s = Inr p"
  shows "ip_sample_id p = is_sample_id s"
proof -
  obtain o' m where c: "openai_calls be k model u ptype t retry s = Inr (o', m)"
      and p: "p = (case o' of Inr p \<Rightarrow> p | Inl (err, msg) \<Rightarrow> failed_prediction s ptype err msg)
              \<lparr>ip_latency := Some (be_latency be (is_sample_id s))\<rparr>"
    using assms by (auto simp: openai_predict_one_def rbind_Inr_iff)
  show ?thesis
  proof (cases o')
    case (Inl f)
    then show ?thesis by (cases f) (simp add: p failed_prediction_def base_prediction_def)
  next
    case (Inr q)
    from attempt_loop_result[OF c[unfolded openai_calls_def Inr]] have "ip_sample_id q = is_sample_id s"
      by (auto split: if_splits dest: call_id)
    then show ?thesis by (simp add: p Inr)
  qed
qed

lemma failed_prediction_id [simp]: "ip_sample_id (failed_prediction s ptype err msg) = is_sample_id s"
  by (simp add: failed_prediction_def base_prediction_def)

lemma rmap_same_ids:
  assumes "rmap f xs = Inr ps" "\<And>s p. f s = Inr p \<Longrightarrow> ip_sample_id p = is_sample_id s"
  shows "same_ids xs ps"
proof -
  have "list_all2 (\<lambda>s p. ip_sample_id p = is_sample_id s) xs ps"
    using assms(1) unfolding rmap_Inr_iff by (rule list_all2_mono) (rule assms(2))
  then show ?thesis
    unfolding same_ids_def by (induction rule: list_all2_induct) simp_all
qed

interpretation openai: model_backend "openai_predict_batch be model config" for be model config
proof unfold_locales
  fix k xs ps
  assume a: "openai_predict_batch be model config k xs = Inr ps"
  show "same_ids xs ps"
  proof (cases "resolve_base_url be model")
    case None
    with a show ?thesis
      by (auto simp: openai_predict_batch_def Let_def rbind_Inr_iff dest!: rmap_same_ids)
  next
    case (Some u)
    with a obtain ptype t retry where "rmap (openai_predict_one be k model u ptype t retry) xs = Inr ps"
      by (auto simp: openai_predict_batch_def Let_def rbind_Inr_iff)
    then show ?thesis by (rule rmap_same_ids) (rule openai_predict_one_id)
  qed
qed

interpretation backend: model_backend "predict_batch be impl model config" for be impl model config
  by unfold_locales
     (auto simp: predict_batch_def split: backend_impl.splits
       dest: mock.predict_ids local_cpu.predict_ids openai.predict_ids)

section \<open>Bounds\<close>

lemma round_even_bounds: "0 \<le> q \<Longrightarrow> 0 \<le> round_even q" "q \<le> of_int n \<Longrightarrow> round_even q \<le> n"
proof -
  show "0 \<le> q \<Longrightarrow> 0 \<le> round_even q" by (simp add: round_even_def Let_def)
  assume q: "q \<le> of_int n"
  show "round_even q \<le> n"
  proof (cases "q = of_int n")
    case True
    then show ?thesis by (simp add: round_even_def)
  next
    case False
    with q have "\<lfloor>q\<rfloor> < n" by (simp add: floor_less_iff)
    then show ?thesis by (simp add: round_even_def Let_def)
  qed
qed

lemma py_round_01: "0 \<le> q \<Longrightarrow> q \<le> 1 \<Longrightarrow> 0 \<le> py_round n q \<and> py_round n q \<le> 1"
proof -
  assume q: "0 \<le> q" "q \<le> 1"
  have "0 \<le> round_even (q * 10 ^ n)" by (rule round_even_bounds(1)) (simp add: q)
  moreover have "round_even (q * 10 ^ n) \<le> 10 ^ n"
    by (rule round_even_bounds(2)) (simp add: q)
  then have "of_int (round_even (q * 10 ^ n)) \<le> (10 ^ n :: rat)"
    by (metis of_int_le_iff of_int_numeral of_int_power)
  ultimately show ?thesis by (simp add: py_round_def divide_le_eq_1)
qed

lemma clamp01_bounds: "0 \<le> clamp01 q \<and> clamp01 q \<le> 1"
  by (simp add: clamp01_def)

lemma stable_unit_float_bounds: "0 \<le> stable_unit_float be seed \<and> stable_unit_float be seed < 1"
proof -
  have "(of_int (m mod 1000000) :: rat) < 1000000" for m
    using of_int_less_iff[of "m mod 1000000" 1000000, where 'a = rat] by simp
  then show ?thesis by (simp add: stable_unit_float_def divide_less_eq)
qed

lemma mock_score_bounds: "0 \<le> mock_anomaly_score be s \<and> mock_anomaly_score be s \<le> 1"
  using clamp01_bounds stable_unit_float_bounds[of be "is_sample_id s"]
  by (auto simp: mock_anomaly_score_def Let_def less_imp_le intro!: py_round_01[THEN conjunct1] py_round_01[THEN conjunct2]
      split: sum.splits)

lemma rule_score_bounds: "0 \<le> fst (rule_anomaly_score be s) \<and> fst (rule_anomaly_score be s) \<le> 1"
proof -
  have "(of_int (m mod 1000) :: rat) \<le> 1000" for m
    using of_int_less_iff[of "m mod 1000" 1000, where 'a = rat] by simp
  then have "(0 :: rat) \<le> of_int (m mod 1000) / 1000 \<and> (of_int (m mod 1000) / 1000 :: rat) \<le> 1" for m
    by (simp add: divide_le_eq)
  then show ?thesis
    using clamp01_bounds
    by (auto simp: rule_anomaly_score_def Let_def intro!: py_round_01[THEN conjunct1] py_round_01[THEN conjunct2]
        split: prod.splits)
qed

lemma attempt_loop_calls:
  "attempt_loop call j n recent = Inr (o', m) \<Longrightarrow> n \<noteq> 0 \<Longrightarrow>
   j < m \<and> m \<le> j + n \<and> call (m - 1) = Inr o' \<and>
   (\<forall>i. j \<le> i \<and> i < m - 1 \<longrightarrow> (\<exists>f. call i = Inr (Inl f) \<and> fst f \<noteq> OPENAI_BAD_RESPONSE)) \<and>
   (m < j + n \<longrightarrow> (\<forall>f. o' = Inl f \<longrightarrow> fst f = OPENAI_BAD_RESPONSE))"
proof (induction n arbitrary: j recent)
  case 0
  then show ?case by simp
next
  case (Suc n)
  then obtain p where c: "call j = Inr p" by (auto simp: rbind_Inr_iff)
  show ?case
  proof (cases "\<exists>f. p = Inl f \<and> fst f \<noteq> OPENAI_BAD_RESPONSE \<and> n \<noteq> 0")
    case True
    then obtain f where f: "p = Inl f" "fst f \<noteq> OPENAI_BAD_RESPONSE" and n: "n \<noteq> 0" by blast
    from Suc.prems(1) c f have "attempt_loop call (Suc j) n f = Inr (o', m)" by simp
    from Suc.IH[OF this n] have ih: "Suc j < m" "m \<le> Suc j + n" "call (m - 1) = Inr o'"
      "\<forall>i. Suc j \<le> i \<and> i < m - 1 \<longrightarrow> (\<exists>f. call i = Inr (Inl f) \<and> fst f \<noteq> OPENAI_BAD_RESPONSE)"
      "m < Suc j + n \<longrightarrow> (\<forall>f. o' = Inl f \<longrightarrow> fst f = OPENAI_BAD_RESPONSE)" by blast+
    have "\<exists>f. call i = Inr (Inl f) \<and> fst f \<noteq> OPENAI_BAD_RESPONSE" if "j \<le> i" "i < m - 1" for i
      using ih(4) c f that by (cases "i = j") auto
    with ih show ?thesis by simp
  next
    case False
    with Suc.prems(1) c have "m = Suc j \<and> o' = p \<and> (n \<noteq> 0 \<longrightarrow> (\<forall>f. p = Inl f \<longrightarrow> fst f = OPENAI_BAD_RESPONSE))"
      by (cases p; cases n) (auto split: if_splits)
    then show ?thesis using c by auto
  qed
qed

section \<open>Properties\<close>

text \<open>The anomaly scores that the mock and the local back end predict lie between 0 and 1 whatever
  the metadata holds, and the label is "anomaly" exactly from one half on.\<close>

theorem anomaly_predictions_bounded:
  assumes "lower (ms_type model) = ''anomaly_scorer''"
    "p = mock_predict_one be model s \<or> p = local_predict_one be model s"
  shows "ip_type p = ''anomaly_score'' \<and> prediction_ok p \<and>
    (\<exists>score. get (ip_json p) ''anomaly_score'' = VFloat score \<and> ip_confidence p = Some score \<and>
       0 \<le> score \<and> score \<le> 1 \<and>
       get (ip_json p) ''label'' = VStr (if score \<ge> 1/2 then ''anomaly'' else ''normal''))"
proof -
  have "ms_type model \<noteq> []" using assms(1) by (auto simp: lower_def)
  with assms mock_score_bounds[of be s] rule_score_bounds[of be s] show ?thesis
    by (auto simp: mock_predict_one_def local_predict_one_def base_prediction_def Let_def
        prediction_ok_def anomaly_label_def split: prod.splits)
qed

text \<open>The calls that the OpenAI-compatible back end makes for one sample: at least one and at most
  \<open>retry + 1\<close>; the outcome is that of the last call; every earlier call failed with a timeout or an
  unreachable end point; and it stops early only on success or on a bad response.\<close>

theorem openai_calls_bounded:
  assumes "openai_calls be k model u ptype timeout retry s = Inr (o', m)"
  shows "1 \<le> m \<and> int m \<le> max 1 (retry + 1) \<and>
    (\<exists>call. (call = call_embedding be k model u timeout s \<or> call = call_chat be k model u timeout s) \<and>
      call (m - 1) = Inr o' \<and>
      (\<forall>i < m - 1. \<exists>f. call i = Inr (Inl f) \<and> fst f \<noteq> OPENAI_BAD_RESPONSE)) \<and>
    (int m < max 1 (retry + 1) \<longrightarrow> (\<forall>f. o' = Inl f \<longrightarrow> fst f = OPENAI_BAD_RESPONSE))"
proof -
  have n: "openai_attempts retry \<noteq> 0" by (simp add: openai_attempts_def)
  let ?call = "if ptype = ''embedding'' then call_embedding be k model u timeout s else call_chat be k model u timeout s"
  have c: "0 < m" "m \<le> openai_attempts retry" "?call (m - 1) = Inr o'"
      "\<forall>i. i < m - 1 \<longrightarrow> (\<exists>f. ?call i = Inr (Inl f) \<and> fst f \<noteq> OPENAI_BAD_RESPONSE)"
      "m < openai_attempts retry \<longrightarrow> (\<forall>f. o' = Inl f \<longrightarrow> fst f = OPENAI_BAD_RESPONSE)"
    using attempt_loop_calls[OF assms[unfolded openai_calls_def] n] by simp_all
  then show ?thesis
    by (intro conjI exI[of _ ?call]) (auto simp: openai_attempts_def)
qed

definition demo_model :: "string \<Rightarrow> model_spec" where
  "demo_model t = demo_spec\<lparr>ms_type := t, ms_backend := ''openai_compatible''\<rparr>"

definition demo_be :: backend_env where
  "demo_be = \<lparr>be_digest = (\<lambda>_. [1, 2, 3, 4, 5, 6, 7, 8]), be_sqrt = (\<lambda>q. q), be_latency = (\<lambda>_. 1),
     be_base_url = Some ''http://h'', be_remote_model = None,
     be_post = (\<lambda>k j _ _ _. if j < 1 then Inl (OPENAI_TIMEOUT, ''slow'')
        else Inr [(''choices'', VList [VDict [(''message'', VDict [(''content'', VStr ''hi'')])]])]),
     be_get = (\<lambda>_. Inr ())\<rparr>"

definition demo_sample :: "string \<Rightarrow> inference_sample" where
  "demo_sample i = \<lparr>is_sample_id = i, is_dataset_id = VNone, is_version = VNone, is_episode_id = None,
     is_frame_id = None, is_input_uri = None, is_input_text = Some ''t'', is_input_refs = [],
     is_metadata = [(''quality_score'', VFloat (3/4))]\<rparr>"

theorem anomaly_predictions_bounded_witness:
  "\<exists>score. get (ip_json (local_predict_one demo_be (demo_model ''anomaly_scorer'') (demo_sample ''s''))) ''anomaly_score''
     = VFloat score \<and> 0 \<le> score \<and> score \<le> 1"
proof -
  have "lower (ms_type (demo_model ''anomaly_scorer'')) = ''anomaly_scorer''"
    by (simp add: demo_model_def) code_simp
  from anomaly_predictions_bounded[OF this disjI2[OF refl]] show ?thesis by blast
qed

theorem openai_calls_bounded_witness:
  "\<exists>p. openai_calls demo_be 0 (demo_model ''llm'') ''http://h'' ''caption'' 5 3 (demo_sample ''s'') = Inr (Inr p, 2) \<and>
     (\<exists>f. call_chat demo_be 0 (demo_model ''llm'') ''http://h'' 5 (demo_sample ''s'') 0 = Inr (Inl f))"
proof -
  obtain p where p: "openai_calls demo_be 0 (demo_model ''llm'') ''http://h'' ''caption'' 5 3 (demo_sample ''s'') = Inr (Inr p, 2)"
    by (simp add: openai_calls_def openai_attempts_def numeral_2_eq_2 eval_nat_numeral call_chat_def demo_be_def
        chat_content_def first_item_def token_count_def py_or_def)
  have "call_embedding demo_be 0 (demo_model ''llm'') ''http://h'' 5 (demo_sample ''s'') 1 \<noteq> Inr (Inr p)"
    by (simp add: call_embedding_def demo_be_def first_item_def)
  with openai_calls_bounded[OF p] p show ?thesis by auto
qed

end
