(* ===== verification/Job_State.thy ===== *)
theory Job_State
  imports Py_Values
begin

text \<open>
  \<^verbatim>\<open>src/robot_dh/ai_tasks/\<close>: the job state machine and the outcome of a job (\<^verbatim>\<open>state.py\<close>),
  task events (\<^verbatim>\<open>events.py\<close>) and their persistence with the dead letters (\<^verbatim>\<open>store.py\<close>). The allowed
  transitions are also given as a step relation, whose reachable states the properties describe.
\<close>

section \<open>The state machine\<close>

datatype job_status =
  CREATED | QUEUED | RUNNING | SUCCEEDED | FAILED | RETRYING | CANCELLED | DEAD_LETTER

primrec status_str :: "job_status \<Rightarrow> string" where
  "status_str CREATED = ''CREATED''"
| "status_str QUEUED = ''QUEUED''"
| "status_str RUNNING = ''RUNNING''"
| "status_str SUCCEEDED = ''SUCCEEDED''"
| "status_str FAILED = ''FAILED''"
| "status_str RETRYING = ''RETRYING''"
| "status_str CANCELLED = ''CANCELLED''"
| "status_str DEAD_LETTER = ''DEAD_LETTER''"

definition terminal_statuses :: "job_status list" where
  "terminal_statuses = [SUCCEEDED, FAILED, CANCELLED, DEAD_LETTER]"

primrec valid_transitions :: "job_status \<Rightarrow> job_status list" where
  "valid_transitions CREATED = [QUEUED, RUNNING, CANCELLED]"
| "valid_transitions QUEUED = [RUNNING, CANCELLED]"
| "valid_transitions RUNNING = [SUCCEEDED, FAILED, RETRYING, CANCELLED]"
| "valid_transitions RETRYING = [RUNNING, FAILED, DEAD_LETTER, CANCELLED]"
| "valid_transitions FAILED = [RETRYING, DEAD_LETTER]"
| "valid_transitions SUCCEEDED = []"
| "valid_transitions CANCELLED = []"
| "valid_transitions DEAD_LETTER = []"

definition can_transition :: "job_status \<Rightarrow> job_status \<Rightarrow> bool" where
  "can_transition src dst = (dst \<in> set (valid_transitions src))"

definition is_terminal :: "job_status \<Rightarrow> bool" where
  "is_terminal s = (s \<in> set terminal_statuses)"

inductive job_step :: "job_status \<Rightarrow> job_status \<Rightarrow> bool" where
  "can_transition s t \<Longrightarrow> job_step s t"

inductive job_reach :: "job_status \<Rightarrow> job_status \<Rightarrow> bool" where
  start: "job_reach s s"
| more: "job_reach s t \<Longrightarrow> job_step t u \<Longrightarrow> job_reach s u"

code_pred job_step .

inductive_simps job_step_iff: "job_step s t"
inductive_cases job_step_from_final: "job_step SUCCEEDED t" "job_step CANCELLED t" "job_step DEAD_LETTER t"

section \<open>The outcome of a job\<close>

record job_outcome =
  jo_status :: job_status
  jo_warn :: bool
  jo_exit_code :: int
  jo_error_rate :: rat

definition evaluate_job_outcome :: "int \<Rightarrow> int \<Rightarrow> rat \<Rightarrow> bool \<Rightarrow> job_outcome" where
  "evaluate_job_outcome total_n failed max_error_rate fail_fast_triggered =
     (let error_rate = (if total_n > 0 then of_int failed / of_int total_n
                        else if failed > 0 then 1 else 0)
      in if fail_fast_triggered \<or> error_rate > max_error_rate then
           \<lparr>jo_status = FAILED, jo_warn = False, jo_exit_code = 1, jo_error_rate = error_rate\<rparr>
         else
           \<lparr>jo_status = SUCCEEDED, jo_warn = failed > 0, jo_exit_code = 0, jo_error_rate = error_rate\<rparr>)"

section \<open>Events and dead letters\<close>

record ai_event =
  ae_type :: string
  ae_task_id :: "string option"
  ae_job_id :: "string option"
  ae_model_id :: "string option"
  ae_dataset_id :: "string option"
  ae_version :: "string option"
  ae_payload :: pydict

record dead_letter =
  dl_task_type :: string
  dl_task_id :: "string option"
  dl_job_id :: "string option"
  dl_reason :: string
  dl_payload :: pydict
  dl_retry_count :: int

text \<open>The store: \<open>ats_db\<close> tells whether a database engine was found; the JSONL log is always
  written, the table and the dead letters only with an engine.\<close>

record task_store =
  ats_db :: bool
  ats_jsonl :: "ai_event list"
  ats_table :: "ai_event list"
  ats_dead :: "dead_letter list"

definition emit_event :: "ai_event \<Rightarrow> task_store \<Rightarrow> task_store" where
  "emit_event e s = s\<lparr>ats_jsonl := ats_jsonl s @ [e],
     ats_table := (if ats_db s then ats_table s @ [e] else ats_table s)\<rparr>"

definition record_dead_letter :: "dead_letter \<Rightarrow> task_store \<Rightarrow> task_store" where
  "record_dead_letter d s = (if ats_db s then s\<lparr>ats_dead := ats_dead s @ [d]\<rparr> else s)"

lemma emit_event_sel [simp]:
  "ats_db (emit_event e s) = ats_db s" "ats_jsonl (emit_event e s) = ats_jsonl s @ [e]"
  "ats_dead (emit_event e s) = ats_dead s"
  by (simp_all add: emit_event_def)

lemma record_dead_letter_sel [simp]:
  "ats_db (record_dead_letter d s) = ats_db s" "ats_jsonl (record_dead_letter d s) = ats_jsonl s"
  by (simp_all add: record_dead_letter_def)

text \<open>The JSONL log is a superset of the event table, in the same order.\<close>

definition store_ok :: "task_store \<Rightarrow> bool" where
  "store_ok s = subseq (ats_table s) (ats_jsonl s)"

lemma store_ok_emit: "store_ok s \<Longrightarrow> store_ok (emit_event e s)"
  by (simp add: store_ok_def emit_event_def list_emb_append_mono subseq_rev_drop_many)

lemma store_ok_dead: "store_ok s \<Longrightarrow> store_ok (record_dead_letter d s)"
  by (simp add: store_ok_def record_dead_letter_def)

section \<open>Facts\<close>

lemma final_absorbing: "job_reach s t \<Longrightarrow> s \<in> {SUCCEEDED, CANCELLED, DEAD_LETTER} \<Longrightarrow> t = s"
  by (induction rule: job_reach.induct) (auto simp: job_step_iff can_transition_def)

lemma job_reach_trans: "job_reach t u \<Longrightarrow> job_reach s t \<Longrightarrow> job_reach s u"
  by (induction rule: job_reach.induct) (auto intro: job_reach.more)

lemma never_back_to_start: "job_reach s t \<Longrightarrow> t \<in> {CREATED, QUEUED} \<Longrightarrow> s \<in> {CREATED, QUEUED}"
proof (induction rule: job_reach.induct)
  case (more s t u)
  then have "t = CREATED" by (cases t) (auto simp: job_step_iff can_transition_def)
  with more show ?case by simp
qed simp

text \<open>Every status that is not finally settled can still reach CANCELLED or DEAD_LETTER.\<close>

lemma step_reach: "can_transition s t \<Longrightarrow> job_reach s t"
  by (rule job_reach.more[OF job_reach.start]) (simp add: job_step_iff)

section \<open>Properties\<close>

text \<open>C30. Of the four terminal statuses exactly SUCCEEDED, CANCELLED and DEAD_LETTER are final in the
  transition table: whatever is reachable from one of them is itself, while FAILED can be retried and
  reach SUCCEEDED; every other status can still be settled; and CREATED is never reached again.\<close>

theorem terminal_reachability:
  "(is_terminal s \<and> (\<forall>t. job_reach s t \<longrightarrow> t = s)) = (s \<in> {SUCCEEDED, CANCELLED, DEAD_LETTER}) \<and>
   is_terminal FAILED \<and> job_reach FAILED SUCCEEDED \<and>
   (\<exists>t \<in> {SUCCEEDED, CANCELLED, DEAD_LETTER}. job_reach s t) \<and>
   (job_reach s CREATED \<longleftrightarrow> s = CREATED)"
proof (intro conjI)
  have fr: "job_reach FAILED RETRYING" "job_reach RETRYING RUNNING" "job_reach RUNNING SUCCEEDED"
    by (rule step_reach, simp add: can_transition_def)+
  have f: "is_terminal FAILED \<and> job_reach FAILED SUCCEEDED"
    using job_reach_trans[OF fr(3) job_reach_trans[OF fr(2,1)]] by (simp add: is_terminal_def terminal_statuses_def)
  from f show "is_terminal FAILED" "job_reach FAILED SUCCEEDED" by simp_all
  show "(is_terminal s \<and> (\<forall>t. job_reach s t \<longrightarrow> t = s)) = (s \<in> {SUCCEEDED, CANCELLED, DEAD_LETTER})"
  proof
    assume a: "is_terminal s \<and> (\<forall>t. job_reach s t \<longrightarrow> t = s)"
    show "s \<in> {SUCCEEDED, CANCELLED, DEAD_LETTER}"
    proof (cases "s = FAILED")
      case True
      with a f show ?thesis by blast
    next
      case False
      with a show ?thesis by (cases s) (auto simp: is_terminal_def terminal_statuses_def)
    qed
  next
    assume "s \<in> {SUCCEEDED, CANCELLED, DEAD_LETTER}"
    then show "is_terminal s \<and> (\<forall>t. job_reach s t \<longrightarrow> t = s)"
      using final_absorbing by (auto simp: is_terminal_def terminal_statuses_def)
  qed
  show "\<exists>t \<in> {SUCCEEDED, CANCELLED, DEAD_LETTER}. job_reach s t"
  proof (cases s)
    case FAILED
    then show ?thesis using f by blast
  qed (auto intro: job_reach.start step_reach simp: can_transition_def)
  have "job_reach s t \<Longrightarrow> t = CREATED \<Longrightarrow> s = CREATED" for t
  proof (induction rule: job_reach.induct)
    case (more s t u)
    then show ?case by (cases t) (auto simp: job_step_iff can_transition_def)
  qed simp
  then show "job_reach s CREATED \<longleftrightarrow> s = CREATED" using job_reach.start by blast
qed

theorem terminal_reachability_witness:
  "is_terminal SUCCEEDED \<and> \<not> job_reach SUCCEEDED RUNNING \<and> job_reach FAILED SUCCEEDED"
  using terminal_reachability[of SUCCEEDED] by auto



end
