(* ===== verification/Inference_Data.thy ===== *)
theory Inference_Data
  imports Model_Backends Json_Docs Job_State
begin

text \<open>
  The data of batch inference, \<^verbatim>\<open>src/robot_dh/inference/\<close>: building samples from the tables below a
  URI and cutting them into batches (\<^verbatim>\<open>batch.py\<close>), output and failure records (\<^verbatim>\<open>outputs.py\<close>,
  \<^verbatim>\<open>failures.py\<close>), metrics with their percentiles (\<^verbatim>\<open>metrics.py\<close>), the report
  (\<^verbatim>\<open>report.py\<close>) and the job row (\<^verbatim>\<open>job.py\<close>).
\<close>

section \<open>Tables\<close>

text \<open>A parquet table is its list of rows; the lake maps the address of a file to its table.\<close>

type_synonym tables = "(string \<times> pydict list) list"

definition table_key :: "string \<Rightarrow> string result" where
  "table_key uri = rbind (parse_uri uri) (\<lambda>u.
     Inr (if is_s3 u then ''s3://'' @ u_bucket u @ ''/'' @ u_key u else path_str (u_local_path u)))"

definition write_table :: "string \<Rightarrow> pydict list \<Rightarrow> tables \<Rightarrow> (string \<times> tables) result" where
  "write_table uri rows ts = rbind (parse_uri uri) (\<lambda>u. rbind (table_key uri) (\<lambda>k.
     Inr (if is_s3 u then k else u_uri u, dict_set k rows ts)))"

definition read_table :: "tables \<Rightarrow> string \<Rightarrow> pydict list result" where
  "read_table ts uri = rbind (table_key uri) (\<lambda>k.
     case map_of ts k of None \<Rightarrow> Inl (FileNotFoundError k) | Some rows \<Rightarrow> Inr rows)"

text \<open>\<open>store.list\<close>: the file itself, or the files below in order.\<close>

definition list_tables :: "tables \<Rightarrow> string \<Rightarrow> string list result" where
  "list_tables ts uri = rbind (parse_uri uri) (\<lambda>u. rbind (table_key uri) (\<lambda>k.
     if k \<in> set (dict_keys ts) \<and> \<not> (is_s3 u \<and> ends_with k ''/'') then Inr [if is_s3 u then k else u_uri u]
     else let found = filter (below k) (dict_keys ts)
          in Inr (if is_s3 u then sort found else sort_key path_parts found)))"

section \<open>Building samples\<close>

definition split_files :: "string \<Rightarrow> string list" where
  "split_files split =
     (if split = ''train'' then [''train.parquet''] else if split = ''val'' then [''val.parquet'']
      else if split = ''test'' then [''test.parquet'']
      else [''train.parquet'', ''val.parquet'', ''test.parquet''])"

definition fallback_files :: "string list" where
  "fallback_files = [''episode_feature.parquet'', ''episode_features.parquet'', ''features.parquet'']"

definition base_name :: "string \<Rightarrow> string" where
  "base_name uri = last (split_on (CHR ''/'') (rstrip_chars is_slash uri))"

definition by_name :: "string list \<Rightarrow> (string \<times> string) list" where
  "by_name uris = fold (\<lambda>uri d.
     let name = base_name uri
     in if ends_with name ''.parquet'' \<and> map_of d name = None then dict_set name uri d else d) uris []"

record input_builder =
  ib_input_uri :: string
  ib_split :: string
  ib_limit :: "int option"
  ib_dataset_id :: "string option"
  ib_version :: "string option"

definition resolve_files :: "lake_env \<Rightarrow> tables \<Rightarrow> input_builder \<Rightarrow> string list result" where
  "resolve_files env ts b =
     rbind (create_lake_store env (ib_input_uri b)) (\<lambda>_.
     case list_tables ts (ib_input_uri b) of
       Inl _ \<Rightarrow> Inl (InferenceInputError ''cannot list input_uri'')
     | Inr uris \<Rightarrow>
         let names = by_name uris;
             chosen = List.map_filter (map_of names) (split_files (ib_split b))
         in if chosen \<noteq> [] then Inr chosen
            else case List.map_filter (map_of names) fallback_files of
              u # _ \<Rightarrow> Inr [u]
            | [] \<Rightarrow>
                if ends_with (ib_input_uri b) ''.parquet'' then
                  rbind (parse_uri (ib_input_uri b)) (\<lambda>u. Inr [u_uri u])
                else Inr (sort (map snd names)))"

definition resolve_dataset_version :: "input_builder \<Rightarrow> (string option \<times> string option) result" where
  "resolve_dataset_version b =
     (if truthy_opt (ib_dataset_id b) \<noteq> None \<and> truthy_opt (ib_version b) \<noteq> None then
        Inr (ib_dataset_id b, ib_version b)
      else rbind (parse_uri (ib_input_uri b)) (\<lambda>parsed.
        let path = (if is_s3 parsed then u_key parsed else u_local_path parsed);
            segments = filter (\<lambda>s. s \<noteq> []) (split_on (CHR ''/'') (rstrip_chars is_slash path));
            n = length segments
        in Inr (if n \<ge> 2 then
             ((case ib_dataset_id b of None \<Rightarrow> Some (segments ! (n - 2)) | Some d \<Rightarrow> Some d),
              (case ib_version b of None \<Rightarrow> Some (segments ! (n - 1)) | Some v \<Rightarrow> Some v))
           else (ib_dataset_id b, ib_version b))))"

fun first_present :: "pydict \<Rightarrow> string list \<Rightarrow> pyval" where
  "first_present row [] = VNone"
| "first_present row (k # ks) = (if get row k \<noteq> VNone then get row k else first_present row ks)"

definition opt_str_of :: "pyval \<Rightarrow> string option" where
  "opt_str_of v = (if v = VNone then None else Some (py_str v))"

definition collect_refs :: "pydict \<Rightarrow> string list" where
  "collect_refs row = concat (map (\<lambda>k.
     case get row k of VNone \<Rightarrow> [] | VList xs \<Rightarrow> map py_str (filter (\<lambda>x. x \<noteq> VNone) xs) | v \<Rightarrow> [py_str v])
     [''video_path'', ''video_uri'', ''image_uri'', ''image_path'', ''input_refs''])"

definition metadata_columns :: "string list" where
  "metadata_columns = [''quality_score'', ''max_velocity_mps'', ''null_rate'', ''label'', ''task'']"

definition row_to_sample :: "pydict \<Rightarrow> nat \<Rightarrow> string option \<Rightarrow> string option \<Rightarrow> string \<Rightarrow> inference_sample" where
  "row_to_sample row row_index dataset_id version file_uri =
     (let ds = py_or (first_present row [''dataset_id'']) (of_opt_str dataset_id);
          ver = py_or (first_present row [''version'']) (of_opt_str version);
          ep = first_present row [''episode_id'', ''episode_index'', ''episode''];
          episode = (if ep = VNone then str_of_nat row_index else py_str ep);
          frame = opt_str_of (first_present row [''frame_id'', ''frame_index'', ''frame'']);
          sid = first_present row [''sample_id''];
          sample_id = (if sid = VNone then
              py_str (py_or ds (VStr ''unknown'')) @ '':'' @ py_str (py_or ver (VStr ''v1'')) @ '':'' @
              episode @ '':'' @ str_of_nat row_index
            else py_str sid);
          txt = first_present row [''input_text'', ''text'', ''caption'', ''language_instruction'', ''task'']
      in \<lparr>is_sample_id = sample_id, is_dataset_id = ds, is_version = ver, is_episode_id = Some episode,
          is_frame_id = frame, is_input_uri = Some file_uri, is_input_text = opt_str_of txt,
          is_input_refs = collect_refs row,
          is_metadata = map (\<lambda>k. (k, get row k)) (filter (\<lambda>k. get row k \<noteq> VNone) metadata_columns)\<rparr>)"

text \<open>The two nested loops with the early return at the limit: the flag tells that it was taken.\<close>

fun take_rows :: "int option \<Rightarrow> (nat \<Rightarrow> pydict \<Rightarrow> inference_sample) \<Rightarrow> pydict list \<Rightarrow> inference_sample list
    \<Rightarrow> inference_sample list \<times> bool" where
  "take_rows limit mk [] acc = (acc, False)"
| "take_rows limit mk (row # rows) acc =
     (let acc' = acc @ [mk (length acc) row]
      in case limit of
           Some l \<Rightarrow> if int (length acc') \<ge> l then (acc', True) else take_rows limit mk rows acc'
         | None \<Rightarrow> take_rows limit mk rows acc')"

fun take_files :: "tables \<Rightarrow> int option \<Rightarrow> (string \<Rightarrow> nat \<Rightarrow> pydict \<Rightarrow> inference_sample) \<Rightarrow> string list
    \<Rightarrow> inference_sample list \<Rightarrow> inference_sample list result" where
  "take_files ts limit mk [] acc = Inr acc"
| "take_files ts limit mk (f # fs) acc =
     (case read_table ts f of
        Inl (FileNotFoundError _) \<Rightarrow> take_files ts limit mk fs acc
      | Inl e \<Rightarrow> Inl e
      | Inr rows \<Rightarrow> (case take_rows limit (mk f) rows acc of
          (acc', stop) \<Rightarrow> if stop then Inr acc' else take_files ts limit mk fs acc'))"

definition build_samples :: "lake_env \<Rightarrow> tables \<Rightarrow> input_builder \<Rightarrow> inference_sample list result" where
  "build_samples env ts b =
     rbind (resolve_files env ts b) (\<lambda>files.
       if files = [] then Inl (InferenceInputError ''no parquet below input_uri'')
       else rbind (resolve_dataset_version b) (\<lambda>(ds, ver).
         rbind (take_files ts (ib_limit b) (\<lambda>f i row. row_to_sample row i ds ver f) files []) (\<lambda>samples.
           if samples = [] then Inl (InferenceInputError ''empty parquet below input_uri'')
           else Inr samples)))"

section \<open>Batches\<close>

function chunks :: "nat \<Rightarrow> 'a list \<Rightarrow> 'a list list" where
  "chunks n xs = (if xs = [] \<or> n = 0 then [] else take n xs # chunks n (drop n xs))"
  by pat_completeness auto
termination
  by (relation "measure (length \<circ> snd)") auto

declare chunks.simps [simp del]

definition iter_batches :: "'a list \<Rightarrow> int \<Rightarrow> 'a list list" where
  "iter_batches samples batch_size = chunks (nat (max 1 batch_size)) samples"

text \<open>The pool runs the batches in any order but its results are taken by index, so that both
  branches return the results in the order of the batches and raise the first error in that order.\<close>

definition run_batches_concurrent :: "'a list list \<Rightarrow> ('a list \<Rightarrow> 'b list result) \<Rightarrow> int \<Rightarrow> 'b list list result" where
  "run_batches_concurrent batches fn max_workers = rmap fn batches"

lemma concat_chunks: "n \<noteq> 0 \<Longrightarrow> concat (chunks n xs) = xs"
  by (induction n xs rule: chunks.induct) (subst chunks.simps, simp)

lemma chunks_sizes: "c \<in> set (chunks n xs) \<Longrightarrow> c \<noteq> [] \<and> length c \<le> n"
proof (induction n xs rule: chunks.induct)
  case (1 n xs)
  show ?case
  proof (cases "xs = [] \<or> n = 0")
    case True
    with 1(2) show ?thesis by (simp add: chunks.simps)
  next
    case False
    with 1(2) have "c = take n xs \<or> c \<in> set (chunks n (drop n xs))"
      by (subst (asm) chunks.simps) simp
    with 1(1) False show ?thesis by auto
  qed
qed

lemma concat_iter_batches [simp]: "concat (iter_batches xs b) = xs"
  by (simp add: iter_batches_def concat_chunks)

lemma iter_batches_sizes: "c \<in> set (iter_batches xs b) \<Longrightarrow> c \<noteq> [] \<and> length c \<le> nat (max 1 b)"
  by (simp add: iter_batches_def chunks_sizes)

section \<open>Output records\<close>

record output_record =
  or_job_id :: string
  or_model_id :: string
  or_sample_id :: string
  or_type :: string
  or_prediction :: pydict
  or_dataset_id :: pyval
  or_version :: pyval
  or_episode_id :: "string option"
  or_frame_id :: "string option"
  or_input_uri :: "string option"
  or_output_uri :: "string option"
  or_confidence :: "rat option"
  or_latency :: "rat option"
  or_tokens :: "int option"
  or_status :: pred_status
  or_error :: "string option"
  or_output_id :: string
  or_created_at :: string

definition pred_status_str :: "pred_status \<Rightarrow> string" where
  "pred_status_str s = (case s of POK \<Rightarrow> ''OK'' | PFAILED \<Rightarrow> ''FAILED'')"

text \<open>The column \<open>prediction_json\<close> holds the text of the object; the object itself stands for it.\<close>

definition output_parquet_row :: "output_record \<Rightarrow> pydict" where
  "output_parquet_row r =
     [(''output_id'', VStr (or_output_id r)), (''job_id'', VStr (or_job_id r)),
      (''model_id'', VStr (or_model_id r)), (''sample_id'', VStr (or_sample_id r)),
      (''dataset_id'', or_dataset_id r), (''version'', or_version r),
      (''episode_id'', of_opt_str (or_episode_id r)), (''frame_id'', of_opt_str (or_frame_id r)),
      (''input_uri'', of_opt_str (or_input_uri r)), (''prediction_type'', VStr (or_type r)),
      (''prediction_json'', VDict (or_prediction r)), (''confidence'', of_opt_float (or_confidence r)),
      (''latency_ms'', of_opt_float (or_latency r)), (''token_count'', of_opt_int (or_tokens r)),
      (''status'', VStr (pred_status_str (or_status r))), (''error_message'', of_opt_str (or_error r)),
      (''created_at'', VStr (or_created_at r))]"

text \<open>Ids and time stamps drawn by the code come from the numbering \<open>stamp\<close> of the records.\<close>

definition record_from_prediction ::
  "string \<Rightarrow> string \<Rightarrow> string option \<Rightarrow> string \<times> string \<Rightarrow> inference_sample \<Rightarrow> inference_prediction \<Rightarrow> output_record" where
  "record_from_prediction job_id model_id output_uri stamp s p =
     \<lparr>or_job_id = job_id, or_model_id = model_id, or_sample_id = is_sample_id s, or_type = ip_type p,
      or_prediction = ip_json p, or_dataset_id = is_dataset_id s, or_version = is_version s,
      or_episode_id = is_episode_id s, or_frame_id = is_frame_id s, or_input_uri = is_input_uri s,
      or_output_uri = output_uri, or_confidence = ip_confidence p, or_latency = ip_latency p,
      or_tokens = ip_tokens p, or_status = ip_status p, or_error = ip_error p,
      or_output_id = fst stamp, or_created_at = snd stamp\<rparr>"

definition write_predictions :: "string \<Rightarrow> output_record list \<Rightarrow> tables \<Rightarrow> (string \<times> tables) result" where
  "write_predictions output_uri records ts =
     rbind (join_uri output_uri [Some ''predictions.parquet'']) (\<lambda>target.
       write_table target (map output_parquet_row records) ts)"

definition read_predictions :: "tables \<Rightarrow> string \<Rightarrow> pydict list result" where
  "read_predictions ts uri =
     (if ends_with uri ''.parquet'' then read_table ts uri
      else rbind (join_uri uri [Some ''predictions.parquet'']) (read_table ts))"

section \<open>Failure records\<close>

definition known_error_prefixes :: "string list" where
  "known_error_prefixes = map failure_str [OPENAI_ENDPOINT_UNAVAILABLE, OPENAI_TIMEOUT, OPENAI_BAD_RESPONSE]"

definition classify_error :: "string option \<Rightarrow> string" where
  "classify_error error_message =
     (case truthy_opt error_message of
        None \<Rightarrow> ''UNKNOWN''
      | Some m \<Rightarrow>
          (let head = strip_ws (case split_first (CHR '':'') m of None \<Rightarrow> m | Some (a, _) \<Rightarrow> a)
           in if head \<in> set known_error_prefixes then head
              else if head \<noteq> [] \<and> str_isalnum (filter (\<lambda>c. c \<noteq> CHR ''_'') head) then head
              else ''PREDICTION_ERROR''))"

definition is_retryable :: "string \<Rightarrow> bool" where
  "is_retryable error_type = (error_type \<in> {''OPENAI_TIMEOUT'', ''OPENAI_ENDPOINT_UNAVAILABLE'', ''UNKNOWN''})"

record failed_record =
  fa_job_id :: string
  fa_sample_id :: string
  fa_model_id :: "string option"
  fa_dataset_id :: pyval
  fa_version :: pyval
  fa_episode_id :: "string option"
  fa_frame_id :: "string option"
  fa_input_uri :: "string option"
  fa_error_type :: string
  fa_error :: "string option"
  fa_attempt :: int
  fa_retryable :: bool
  fa_failure_id :: string
  fa_created_at :: string

definition failure_parquet_row :: "failed_record \<Rightarrow> pydict" where
  "failure_parquet_row r =
     [(''failure_id'', VStr (fa_failure_id r)), (''job_id'', VStr (fa_job_id r)),
      (''model_id'', of_opt_str (fa_model_id r)), (''sample_id'', VStr (fa_sample_id r)),
      (''dataset_id'', fa_dataset_id r), (''version'', fa_version r),
      (''episode_id'', of_opt_str (fa_episode_id r)), (''frame_id'', of_opt_str (fa_frame_id r)),
      (''input_uri'', of_opt_str (fa_input_uri r)), (''error_type'', VStr (fa_error_type r)),
      (''error_message'', of_opt_str (fa_error r)), (''attempt'', VInt (fa_attempt r)),
      (''created_at'', VStr (fa_created_at r))]"

definition failure_from ::
  "string \<Rightarrow> string \<Rightarrow> int \<Rightarrow> string \<times> string \<Rightarrow> inference_sample \<Rightarrow> inference_prediction \<Rightarrow> failed_record" where
  "failure_from job_id model_id attempt stamp s p =
     (let error_type = classify_error (ip_error p)
      in \<lparr>fa_job_id = job_id, fa_sample_id = is_sample_id s, fa_model_id = Some model_id,
          fa_dataset_id = is_dataset_id s, fa_version = is_version s, fa_episode_id = is_episode_id s,
          fa_frame_id = is_frame_id s, fa_input_uri = is_input_uri s, fa_error_type = error_type,
          fa_error = ip_error p, fa_attempt = attempt, fa_retryable = is_retryable error_type,
          fa_failure_id = fst stamp, fa_created_at = snd stamp\<rparr>)"

definition write_failed_samples :: "string \<Rightarrow> failed_record list \<Rightarrow> tables \<Rightarrow> (string \<times> tables) result" where
  "write_failed_samples output_uri records ts =
     rbind (join_uri output_uri [Some ''failed_samples.parquet'']) (\<lambda>target.
       write_table target (map failure_parquet_row records) ts)"

definition read_failed_samples :: "tables \<Rightarrow> string \<Rightarrow> pydict list result" where
  "read_failed_samples ts uri =
     (if ends_with uri ''.parquet'' then read_table ts uri
      else rbind (join_uri uri [Some ''failed_samples.parquet'']) (read_table ts))"

section \<open>Metrics\<close>

definition percentile :: "rat list \<Rightarrow> rat \<Rightarrow> rat option" where
  "percentile values q =
     (let clean = sort values
      in if clean = [] then None
         else if length clean = 1 then Some (clean ! 0)
         else (let idx = q * (of_nat (length clean) - 1);
                   lo = nat (trunc_rat idx);
                   hi = min (lo + 1) (length clean - 1);
                   frac = idx - of_nat lo
               in Some (clean ! lo + (clean ! hi - clean ! lo) * frac)))"

record metrics =
  me_total :: int
  me_succeeded :: int
  me_failed :: int
  me_duration :: rat
  me_per_sec :: "rat option"
  me_avg :: "rat option"
  me_p50 :: "rat option"
  me_p95 :: "rat option"
  me_p99 :: "rat option"
  me_error_rate :: rat

definition opt_round :: "rat option \<Rightarrow> pyval" where
  "opt_round o' = of_opt_float (map_option (py_round 4) o')"

definition metrics_to_dict :: "metrics \<Rightarrow> pydict" where
  "metrics_to_dict m =
     [(''total_samples'', VInt (me_total m)), (''succeeded_samples'', VInt (me_succeeded m)),
      (''failed_samples'', VInt (me_failed m)), (''duration_sec'', VFloat (py_round 6 (me_duration m))),
      (''samples_per_sec'', opt_round (me_per_sec m)), (''avg_latency_ms'', opt_round (me_avg m)),
      (''p50_latency_ms'', opt_round (me_p50 m)), (''p95_latency_ms'', opt_round (me_p95 m)),
      (''p99_latency_ms'', opt_round (me_p99 m)), (''error_rate'', VFloat (py_round 6 (me_error_rate m)))]"

definition compute_metrics :: "inference_prediction list \<Rightarrow> rat \<Rightarrow> metrics" where
  "compute_metrics preds duration_sec =
     (let n = length preds;
          succeeded = length (filter prediction_ok preds);
          failed = int n - int succeeded;
          latencies = List.map_filter ip_latency preds
      in \<lparr>me_total = int n, me_succeeded = int succeeded, me_failed = failed,
          me_duration = duration_sec,
          me_per_sec = (if duration_sec > 0 then Some (of_nat n / duration_sec) else None),
          me_avg = (if latencies \<noteq> [] then Some (sum_list latencies / of_nat (length latencies)) else None),
          me_p50 = percentile latencies (1/2), me_p95 = percentile latencies (95/100),
          me_p99 = percentile latencies (99/100),
          me_error_rate = (if n > 0 then of_int failed / of_nat n else 0)\<rparr>)"

section \<open>Report and job row\<close>

definition build_report ::
  "string \<Rightarrow> string \<Rightarrow> string \<Rightarrow> string \<Rightarrow> string \<Rightarrow> string \<Rightarrow> metrics \<Rightarrow> string \<Rightarrow> (string \<times> nat) list \<Rightarrow> pydict" where
  "build_report job_id model_id input_uri output_uri task_type backend m status error_summary =
     [(''job_id'', VStr job_id), (''model_id'', VStr model_id), (''input_uri'', VStr input_uri),
      (''output_uri'', VStr output_uri), (''task_type'', VStr task_type), (''backend'', VStr backend),
      (''total_samples'', VInt (me_total m)), (''succeeded_samples'', VInt (me_succeeded m)),
      (''failed_samples'', VInt (me_failed m)), (''duration_sec'', VFloat (py_round 6 (me_duration m))),
      (''samples_per_sec'', opt_round (me_per_sec m)), (''p50_latency_ms'', opt_round (me_p50 m)),
      (''p95_latency_ms'', opt_round (me_p95 m)), (''p99_latency_ms'', opt_round (me_p99 m)),
      (''error_rate'', VFloat (py_round 6 (me_error_rate m))), (''status'', VStr status),
      (''error_summary'', VDict (map (\<lambda>(k, n). (k, VInt (int n))) error_summary))]"

record inference_job =
  ij_job_id :: string
  ij_model_id :: string
  ij_input_uri :: string
  ij_output_uri :: string
  ij_task_type :: string
  ij_status :: job_status
  ij_job_name :: "string option"
  ij_input_format :: "string option"
  ij_output_format :: "string option"
  ij_dataset_id :: "string option"
  ij_version :: "string option"
  ij_dataset_family :: "string option"
  ij_priority :: int
  ij_batch_size :: "int option"
  ij_max_workers :: "int option"
  ij_total :: int
  ij_processed :: int
  ij_failed :: int
  ij_started_at :: "string option"
  ij_finished_at :: "string option"
  ij_duration :: "rat option"
  ij_error :: "string option"
  ij_config :: pydict
  ij_metrics :: pydict

text \<open>The table \<open>inference_jobs\<close>: the row of a job with its creation and update times.\<close>

type_synonym jobs_table = "(string \<times> (inference_job \<times> string \<times> string)) list"

definition write_job :: "string \<Rightarrow> inference_job \<Rightarrow> jobs_table \<Rightarrow> jobs_table" where
  "write_job now job t = dict_upsert (\<lambda>row. case row of None \<Rightarrow> (job, now, now)
     | Some (_, created, _) \<Rightarrow> (job, created, now)) (ij_job_id job) t"

definition get_job :: "jobs_table \<Rightarrow> string \<Rightarrow> inference_job option" where
  "get_job t job_id = map_option fst (map_of t job_id)"

lemma get_write_job: "get_job (write_job now job t) j = (if j = ij_job_id job then Some job else get_job t j)"
  by (auto simp: get_job_def write_job_def dict_upsert_def split: option.splits)

lemma created_kept:
  "map_of t (ij_job_id job) = Some (old, created, updated) \<Longrightarrow>
   map_of (write_job now job t) (ij_job_id job) = Some (job, created, now)"
  by (simp add: write_job_def dict_upsert_def)

section \<open>Percentiles\<close>

definition interp :: "rat list \<Rightarrow> rat \<Rightarrow> rat" where
  "interp xs idx = xs ! nat (trunc_rat idx) +
     (xs ! min (nat (trunc_rat idx) + 1) (length xs - 1) - xs ! nat (trunc_rat idx)) * (idx - of_nat (nat (trunc_rat idx)))"

lemma percentile_interp:
  "percentile xs q = (if xs = [] then None else if length xs = 1 then Some (sort xs ! 0)
     else Some (interp (sort xs) (q * (of_nat (length xs) - 1))))"
  by (simp add: percentile_def interp_def Let_def) (metis length_0_conv length_sort)

lemma trunc_index:
  assumes "0 \<le> idx" "idx \<le> of_nat n - 1" "0 < n"
  shows "nat (trunc_rat idx) < n" "of_nat (nat (trunc_rat idx)) \<le> idx" "idx < of_nat (nat (trunc_rat idx)) + 1"
proof -
  have t: "trunc_rat idx = \<lfloor>idx\<rfloor>" "0 \<le> \<lfloor>idx\<rfloor>" using assms(1) by (simp_all add: trunc_rat_def)
  show "of_nat (nat (trunc_rat idx)) \<le> idx" using t by (simp add: of_nat_nat)
  show "idx < of_nat (nat (trunc_rat idx)) + 1" using t floor_correct[of idx] by (simp add: of_nat_nat)
  have "\<lfloor>idx\<rfloor> < int n" using assms(2,3) by (simp add: floor_less_iff)
  then show "nat (trunc_rat idx) < n" using t by (simp add: nat_less_iff)
qed

lemma interp_between:
  assumes "sorted xs" "0 \<le> idx" "idx \<le> of_nat (length xs) - 1" "xs \<noteq> []"
  shows "xs ! nat (trunc_rat idx) \<le> interp xs idx"
    "interp xs idx \<le> xs ! min (nat (trunc_rat idx) + 1) (length xs - 1)"
proof -
  let ?lo = "nat (trunc_rat idx)"
  let ?hi = "min (?lo + 1) (length xs - 1)"
  have n: "0 < length xs" using assms(4) by simp
  note t = trunc_index[OF assms(2,3) n]
  have le: "xs ! ?lo \<le> xs ! ?hi"
    using t(1) assms(1) by (intro sorted_nth_mono) auto
  have fr: "0 \<le> idx - of_nat ?lo" "idx - of_nat ?lo \<le> 1" using t by simp_all
  show "xs ! ?lo \<le> interp xs idx" using le fr by (simp add: interp_def)
  have "(xs ! ?hi - xs ! ?lo) * (idx - of_nat ?lo) \<le> (xs ! ?hi - xs ! ?lo) * 1"
    using le fr by (intro mult_left_mono) auto
  then show "interp xs idx \<le> xs ! ?hi" by (simp add: interp_def)
qed

lemma interp_mono:
  assumes "sorted xs" "0 \<le> a" "a \<le> b" "b \<le> of_nat (length xs) - 1" "xs \<noteq> []"
  shows "interp xs a \<le> interp xs b"
proof -
  have n: "0 < length xs" using assms(5) by simp
  have a': "a \<le> of_nat (length xs) - 1" and b': "0 \<le> b" using assms by simp_all
  let ?la = "nat (trunc_rat a)" and ?lb = "nat (trunc_rat b)"
  note ta = trunc_index[OF assms(2) a' n] and tb = trunc_index[OF b' assms(4) n]
  have lab: "?la \<le> ?lb"
    using assms(2,3) by (simp add: trunc_rat_def nat_mono floor_mono)
  show ?thesis
  proof (cases "?la = ?lb")
    case True
    have "xs ! ?lb \<le> xs ! min (?lb + 1) (length xs - 1)"
      using tb(1) assms(1) by (intro sorted_nth_mono) auto
    then show ?thesis
      unfolding interp_def True using assms(3) by (intro add_left_mono mult_left_mono) auto
  next
    case False
    have "interp xs a \<le> xs ! min (?la + 1) (length xs - 1)" by (rule interp_between(2)[OF assms(1,2) a' assms(5)])
    also have "\<dots> \<le> xs ! ?lb" using False lab tb(1) assms(1) by (intro sorted_nth_mono) auto
    also have "\<dots> \<le> interp xs b" by (rule interp_between(1)[OF assms(1) b' assms(4,5)])
    finally show ?thesis .
  qed
qed

section \<open>The rows that become samples\<close>

definition table_rows :: "tables \<Rightarrow> string \<Rightarrow> pydict list" where
  "table_rows ts f = (case read_table ts f of Inl _ \<Rightarrow> [] | Inr rows \<Rightarrow> rows)"

definition all_rows :: "tables \<Rightarrow> string list \<Rightarrow> (string \<times> pydict) list" where
  "all_rows ts files = concat (map (\<lambda>f. map (Pair f) (table_rows ts f)) files)"

definition row_limit :: "int option \<Rightarrow> nat \<Rightarrow> nat" where
  "row_limit limit n = (case limit of None \<Rightarrow> n | Some l \<Rightarrow> min n (nat (max 1 l)))"

definition samples_of :: "(string \<Rightarrow> nat \<Rightarrow> pydict \<Rightarrow> inference_sample) \<Rightarrow> nat \<Rightarrow> (string \<times> pydict) list \<Rightarrow> inference_sample list" where
  "samples_of mk n rows = map (\<lambda>(i, f, row). mk f i row) (enumerate n rows)"

lemma samples_of_append: "samples_of mk n (xs @ ys) = samples_of mk n xs @ samples_of mk (n + length xs) ys"
  by (simp add: samples_of_def enumerate_append_eq)

lemma samples_of_length [simp]: "length (samples_of mk n rows) = length rows"
  by (simp add: samples_of_def)

text \<open>How many more rows fit: while the loop runs, the limit has not been reached.\<close>

definition room_left :: "int option \<Rightarrow> nat \<Rightarrow> nat \<Rightarrow> nat" where
  "room_left limit used n = (case limit of None \<Rightarrow> n | Some l \<Rightarrow> min n (nat (max 1 l) - used))"

definition not_full :: "int option \<Rightarrow> nat \<Rightarrow> bool" where
  "not_full limit used = (case limit of None \<Rightarrow> True | Some l \<Rightarrow> used < nat (max 1 l))"

lemma room_left_add:
  "not_full limit (u + n) \<Longrightarrow> room_left limit u (n + m) = n + room_left limit (u + n) m"
  by (auto simp: room_left_def not_full_def min_def split: option.splits)

lemma room_left_full: "not_full limit (u + n) \<Longrightarrow> room_left limit u n = n"
  using room_left_add[of limit u n 0] by (simp add: room_left_def split: option.splits)

lemma take_rows_spec:
  "not_full limit (length acc) \<Longrightarrow>
   take_rows limit (mk f) rows acc =
     (acc @ samples_of mk (length acc) (take (room_left limit (length acc) (length rows)) (map (Pair f) rows)),
      \<not> not_full limit (length acc + length rows))"
proof (induction rows arbitrary: acc)
  case Nil
  then show ?case by (simp add: room_left_def samples_of_def split: option.splits)
next
  case (Cons row rows)
  let ?acc = "acc @ [mk f (length acc) row]"
  show ?case
  proof (cases "not_full limit (length ?acc)")
    case True
    then have "take_rows limit (mk f) (row # rows) acc = take_rows limit (mk f) rows ?acc"
      by (auto simp: not_full_def Let_def split: option.splits)
    also have "\<dots> = (?acc @ samples_of mk (length ?acc) (take (room_left limit (length ?acc) (length rows)) (map (Pair f) rows)),
        \<not> not_full limit (length ?acc + length rows))"
      by (rule Cons.IH[OF True])
    finally show ?thesis
      using room_left_add[of limit "length acc" 1 "length rows"] True by (simp add: samples_of_def)
  next
    case False
    then obtain l where l: "limit = Some l" "length ?acc \<ge> nat (max 1 l)" by (auto simp: not_full_def split: option.splits)
    with Cons.prems have "nat (max 1 l) = Suc (length acc)" by (simp add: not_full_def)
    with l show ?thesis by (auto simp: not_full_def room_left_def samples_of_def Let_def)
  qed
qed

lemma take_files_spec:
  assumes "take_files ts limit mk files acc = Inr xs" "not_full limit (length acc)"
  shows "xs = acc @ samples_of mk (length acc) (take (room_left limit (length acc) (length (all_rows ts files))) (all_rows ts files))"
  using assms
proof (induction files arbitrary: acc)
  case Nil
  then show ?case by (simp add: all_rows_def samples_of_def)
next
  case (Cons f files)
  show ?case
  proof (cases "read_table ts f")
    case (Inl e)
    with Cons show ?thesis by (cases e) (simp_all add: all_rows_def table_rows_def)
  next
    case (Inr rows)
    let ?rows = "map (Pair f) rows"
    let ?acc = "acc @ samples_of mk (length acc) (take (room_left limit (length acc) (length rows)) ?rows)"
    have split: "all_rows ts (f # files) = ?rows @ all_rows ts files" by (simp add: all_rows_def table_rows_def Inr)
    note tr = take_rows_spec[OF Cons.prems(2), of mk f rows]
    show ?thesis
    proof (cases "not_full limit (length acc + length rows)")
      case True
      then have all: "room_left limit (length acc) (length rows) = length rows"
        by (rule room_left_full)
      from Cons.prems(1) Inr tr True have "take_files ts limit mk files ?acc = Inr xs" by simp
      from Cons.IH[OF this] True all have
        "xs = ?acc @ samples_of mk (length ?acc) (take (room_left limit (length ?acc) (length (all_rows ts files))) (all_rows ts files))"
        by simp
      then show ?thesis
        using room_left_add[OF True, of "length (all_rows ts files)"]
        by (simp add: split all samples_of_append)
    next
      case False
      with Cons.prems(1) Inr tr have "xs = ?acc" by simp
      moreover from False obtain l where "limit = Some l" "nat (max 1 l) - length acc \<le> length rows"
        by (auto simp: not_full_def split: option.splits)
      ultimately show ?thesis by (auto simp: split room_left_def)
    qed
  qed
qed

lemma not_full_0: "not_full limit 0"
  by (auto simp: not_full_def max_def split: option.splits)

lemma room_left_0: "room_left limit 0 n = row_limit limit n"
  by (simp add: room_left_def row_limit_def split: option.splits)

lemma build_samples_Inr:
  assumes "build_samples env ts b = Inr xs"
  obtains files ds ver where "resolve_files env ts b = Inr files" "files \<noteq> []"
    "resolve_dataset_version b = Inr (ds, ver)"
    "xs = samples_of (\<lambda>f i row. row_to_sample row i ds ver f) 0 (take (row_limit (ib_limit b) (length (all_rows ts files))) (all_rows ts files))"
    "xs \<noteq> []"
proof -
  from assms obtain files ds ver where f: "resolve_files env ts b = Inr files" "files \<noteq> []"
      "resolve_dataset_version b = Inr (ds, ver)"
      "take_files ts (ib_limit b) (\<lambda>f i row. row_to_sample row i ds ver f) files [] = Inr xs" "xs \<noteq> []"
    by (auto simp: build_samples_def rbind_Inr_iff split: if_splits)
  from take_files_spec[OF f(4)] not_full_0 room_left_0 that[OF f(1-3) _ f(5)] show ?thesis by simp
qed

lemma digits_no_colon: "CHR '':'' \<notin> set (str_of_nat n)"
  using digits_str_of_nat[of n] by (auto simp: list_all_iff is_digit_def)

lemma str_of_nat_inject: "str_of_nat m = str_of_nat n \<longleftrightarrow> m = n"
  by (metis nat_of_digits_str)

lemma last_field_eq:
  assumes "a @ c # b = a' @ c # b'" "c \<notin> set b" "c \<notin> set b'"
  shows "b = b'"
proof -
  have tw: "takeWhile (\<lambda>x. x \<noteq> c) (rev (u @ c # v)) = rev v" if "c \<notin> set v" for u v
  proof -
    have "takeWhile (\<lambda>x. x \<noteq> c) (rev v @ c # rev u) = rev v @ takeWhile (\<lambda>x. x \<noteq> c) (c # rev u)"
      by (rule takeWhile_append2) (use that in auto)
    then show ?thesis by simp
  qed
  have "rev b = rev b'" using tw[OF assms(2), of a] tw[OF assms(3), of a'] assms(1) by metis
  then show ?thesis by simp
qed

lemma row_sample_id:
  assumes "get row ''sample_id'' = VNone"
  shows "\<exists>pre. is_sample_id (row_to_sample row i ds ver f) = pre @ CHR '':'' # str_of_nat i"
proof -
  have "first_present row [''sample_id''] = VNone" using assms by simp
  then show ?thesis
    by (simp add: row_to_sample_def Let_def del: first_present.simps)
qed

section \<open>Properties\<close>

text \<open>The samples that are built are, in order, the rows of the chosen tables, numbered from zero, up
  to the limit; a limit below one still yields one sample, and no sample is an error.\<close>

theorem build_samples_rows:
  assumes "build_samples env ts b = Inr xs"
  shows "\<exists>files ds ver. resolve_files env ts b = Inr files \<and>
    xs = map (\<lambda>(i, f, row). row_to_sample row i ds ver f)
           (enumerate 0 (take (case ib_limit b of None \<Rightarrow> length (all_rows ts files) | Some l \<Rightarrow> nat (max 1 l)) (all_rows ts files))) \<and>
    xs \<noteq> []"
proof (rule build_samples_Inr[OF assms])
  fix files ds ver
  assume a: "resolve_files env ts b = Inr files"
    "xs = samples_of (\<lambda>f i row. row_to_sample row i ds ver f) 0 (take (row_limit (ib_limit b) (length (all_rows ts files))) (all_rows ts files))"
    "xs \<noteq> []"
  have "take (row_limit (ib_limit b) (length (all_rows ts files))) (all_rows ts files) =
      take (case ib_limit b of None \<Rightarrow> length (all_rows ts files) | Some l \<Rightarrow> nat (max 1 l)) (all_rows ts files)"
    by (simp add: row_limit_def min_def split: option.splits)
  with a show ?thesis
    by (intro exI[of _ files] exI[of _ ds] exI[of _ ver]) (simp add: samples_of_def)
qed

text \<open>When no row brings a sample id of its own, the samples get distinct ids.\<close>

theorem sample_ids_distinct:
  assumes "build_samples env ts b = Inr xs" "resolve_files env ts b = Inr files"
    "\<forall>(f, row)\<in>set (all_rows ts files). get row ''sample_id'' = VNone"
  shows "distinct (map is_sample_id xs)"
proof (rule build_samples_Inr[OF assms(1)])
  fix files' ds ver
  let ?rows = "take (row_limit (ib_limit b) (length (all_rows ts files))) (all_rows ts files)"
  assume "resolve_files env ts b = Inr files'"
    and xs: "xs = samples_of (\<lambda>f i row. row_to_sample row i ds ver f) 0
      (take (row_limit (ib_limit b) (length (all_rows ts files'))) (all_rows ts files'))"
  then have xs: "xs = samples_of (\<lambda>f i row. row_to_sample row i ds ver f) 0 ?rows" using assms(2) by simp
  have "\<exists>pre. is_sample_id (xs ! i) = pre @ CHR '':'' # str_of_nat i" if i: "i < length xs" for i
  proof -
    have i': "i < length ?rows" using i xs by simp
    obtain f row where fr: "?rows ! i = (f, row)" by (cases "?rows ! i")
    have "(f, row) \<in> set (all_rows ts files)" using i' fr by (metis in_set_takeD nth_mem)
    then have "get row ''sample_id'' = VNone" using assms(3) by auto
    moreover have "xs ! i = row_to_sample row i ds ver f"
      using i' fr by (simp add: xs samples_of_def nth_enumerate_eq)
    ultimately show ?thesis by (simp add: row_sample_id)
  qed
  then have "is_sample_id (xs ! i) \<noteq> is_sample_id (xs ! j)" if "i < length xs" "j < length xs" "i \<noteq> j" for i j
    using that last_field_eq digits_no_colon str_of_nat_inject by metis
  then show ?thesis by (simp add: distinct_conv_nth)
qed

text \<open>A percentile lies between the smallest and the largest value and grows with the rank, so that
  the reported latencies satisfy p50 \<le> p95 \<le> p99.\<close>

theorem percentile_bounds_mono:
  assumes "xs \<noteq> []" "0 \<le> a" "a \<le> b" "b \<le> 1"
  shows "\<exists>p q. percentile xs a = Some p \<and> percentile xs b = Some q \<and>
    Min (set xs) \<le> p \<and> p \<le> q \<and> q \<le> Max (set xs)"
proof -
  let ?s = "sort xs"
  have mem: "Min (set xs) \<le> ?s ! i \<and> ?s ! i \<le> Max (set xs)" if "i < length xs" for i
    using that by (metis List.finite_set Max_ge Min_le length_sort nth_mem set_sort)
  show ?thesis
  proof (cases "length xs = 1")
    case True
    then show ?thesis using mem[of 0] by (simp add: percentile_interp assms(1))
  next
    case False
    let ?n = "of_nat (length xs) - 1 :: rat"
    have n: "0 \<le> ?n" using assms(1) by (cases xs) simp_all
    have idx: "0 \<le> a * ?n" "a * ?n \<le> b * ?n" "b * ?n \<le> of_nat (length ?s) - 1" "0 \<le> b * ?n"
      "a * ?n \<le> of_nat (length ?s) - 1"
      using assms n mult_right_mono[of b 1 ?n] mult_right_mono[of a 1 ?n] by (simp_all add: mult_right_mono)
    have ne: "?s \<noteq> []" using assms(1) by (metis length_0_conv length_sort)
    have len: "0 < length ?s" using assms(1) by simp
    have "Min (set xs) \<le> ?s ! nat (trunc_rat (a * ?n))"
      using mem trunc_index(1)[OF idx(1,5) len] by simp
    also have "\<dots> \<le> interp ?s (a * ?n)" by (rule interp_between(1)[OF sorted_sort idx(1,5) ne])
    finally have lo: "Min (set xs) \<le> interp ?s (a * ?n)" .
    have "interp ?s (b * ?n) \<le> ?s ! min (nat (trunc_rat (b * ?n)) + 1) (length ?s - 1)"
      by (rule interp_between(2)[OF sorted_sort idx(4,3) ne])
    also have "\<dots> \<le> Max (set xs)" using mem len by (simp add: min_def)
    finally have hi: "interp ?s (b * ?n) \<le> Max (set xs)" .
    show ?thesis
      using lo hi interp_mono[OF sorted_sort idx(1,2,3) ne] False assms(1) by (simp add: percentile_interp)
  qed
qed

definition demo_tables :: tables where
  "demo_tables = [(''/d/v1/train.parquet'', [[(''episode'', VInt 1)], [(''episode'', VInt 2)]])]"

definition demo_lenv :: lake_env where
  "demo_lenv = \<lparr>e_s3_ready = False, e_list_objects = (\<lambda>_ _. []), e_node = (\<lambda>_. None), e_parquet_rows = (\<lambda>_. None)\<rparr>"

definition demo_builder :: input_builder where
  "demo_builder = \<lparr>ib_input_uri = ''/d/v1'', ib_split = ''all'', ib_limit = Some 0, ib_dataset_id = None, ib_version = None\<rparr>"

lemma demo_build:
  "resolve_files demo_lenv demo_tables demo_builder = Inr [''/d/v1/train.parquet'']"
  "case build_samples demo_lenv demo_tables demo_builder of Inl _ \<Rightarrow> False | Inr xs \<Rightarrow> length xs = 1"
  "\<forall>(f, row)\<in>set (all_rows demo_tables [''/d/v1/train.parquet'']). get row ''sample_id'' = VNone"
  by code_simp+

lemma demo_build_Inr:
  obtains xs where "build_samples demo_lenv demo_tables demo_builder = Inr xs" "length xs = 1"
  using demo_build(2) by (auto split: sum.splits)

theorem build_samples_rows_witness:
  "\<exists>xs. build_samples demo_lenv demo_tables demo_builder = Inr xs \<and> length xs = 1 \<and> xs \<noteq> []"
proof (rule demo_build_Inr)
  fix xs
  assume x: "build_samples demo_lenv demo_tables demo_builder = Inr xs" "length xs = 1"
  with build_samples_rows[OF x(1)] show ?thesis by blast
qed

theorem sample_ids_distinct_witness:
  "\<exists>xs. build_samples demo_lenv demo_tables demo_builder = Inr xs \<and> distinct (map is_sample_id xs)"
proof (rule demo_build_Inr)
  fix xs
  assume x: "build_samples demo_lenv demo_tables demo_builder = Inr xs"
  with sample_ids_distinct[OF x demo_build(1,3)] show ?thesis by blast
qed

theorem percentile_bounds_mono_witness:
  "\<exists>p q. percentile [3, 1, 2] (1/2) = Some p \<and> percentile [3, 1, 2] (95/100) = Some q \<and> p \<le> q \<and> q \<le> Max {3, 1, 2}"
  using percentile_bounds_mono[of "[3, 1, 2]" "1/2" "95/100"] by auto

end
