(* ===== verification/Inference_Run.thy ===== *)
theory Inference_Run
  imports Inference_Data
begin

text \<open>
  The orchestration of batch inference, \<^verbatim>\<open>src/robot_dh/inference/runner.py\<close>: prediction with
  retries, the two execution modes, and \<open>run_inference\<close> with everything it writes. The lemmas on
  retries and execution are proved once for every back end that keeps the contract of
  \<^verbatim>\<open>backends/base.py\<close>, in the locale \<open>model_backend\<close>.
\<close>

section \<open>Prediction with retries\<close>

type_synonym by_id = "(string \<times> inference_prediction) list"

definition add_predictions :: "inference_prediction list \<Rightarrow> by_id \<Rightarrow> by_id" where
  "add_predictions ps d = fold (\<lambda>p. dict_set (ip_sample_id p) p) ps d"

definition retry_samples :: "by_id \<Rightarrow> inference_sample list \<Rightarrow> inference_sample list" where
  "retry_samples d batch = filter (\<lambda>s. case map_of d (is_sample_id s) of
     None \<Rightarrow> False | Some p \<Rightarrow> ip_status p \<noteq> POK) batch"

fun retry_loop :: "backend_fn \<Rightarrow> inference_sample list \<Rightarrow> nat \<Rightarrow> nat \<Rightarrow> by_id \<Rightarrow> by_id result" where
  "retry_loop predict batch k 0 d = Inr d"
| "retry_loop predict batch k (Suc n) d =
     (let rs = retry_samples d batch
      in if rs = [] then Inr d
         else rbind (predict k rs) (\<lambda>again. retry_loop predict batch (Suc k) n (add_predictions again d)))"

definition predict_with_retry :: "backend_fn \<Rightarrow> int \<Rightarrow> inference_sample list \<Rightarrow> inference_prediction list result" where
  "predict_with_retry predict retry batch =
     rbind (predict 0 batch) (\<lambda>preds.
     rbind (retry_loop predict batch 1 (nat (max 0 retry)) (add_predictions preds [])) (\<lambda>d.
       rmap (\<lambda>s. case map_of d (is_sample_id s) of None \<Rightarrow> Inl (KeyError (is_sample_id s)) | Some p \<Rightarrow> Inr p) batch))"

section \<open>Execution\<close>

definition skipped_predictions :: "model_spec \<Rightarrow> inference_sample list \<Rightarrow> inference_prediction list" where
  "skipped_predictions spec samples =
     (let ptype = prediction_type_for_task (task_type_for_model (ms_type spec))
      in map (\<lambda>s. (base_prediction s ptype [] None)
           \<lparr>ip_status := PFAILED, ip_error := Some (''SKIPPED: fail-fast '' @ utf8 [230, 143, 144, 229, 137, 141, 231, 187, 136, 230, 173, 162])\<rparr>) samples)"

definition batch_event :: "string \<Rightarrow> string \<Rightarrow> pydict \<Rightarrow> ai_event" where
  "batch_event job_id model_id payload =
     \<lparr>ae_type = ''inference_batch_finished'', ae_task_id = None, ae_job_id = Some job_id,
      ae_model_id = Some model_id, ae_dataset_id = None, ae_version = None, ae_payload = payload\<rparr>"

text \<open>The fail-fast loop: batches in order until one has a failed sample; \<open>idx\<close> and \<open>processed\<close> count
  the batches and samples, \<open>preds\<close> are the predictions so far.\<close>

fun fail_fast_loop :: "(inference_sample list \<Rightarrow> inference_prediction list result) \<Rightarrow> model_spec \<Rightarrow> string
    \<Rightarrow> inference_sample list \<Rightarrow> inference_sample list list \<Rightarrow> nat \<Rightarrow> nat \<Rightarrow> inference_prediction list
    \<Rightarrow> (task_store, inference_prediction list \<times> bool) act" where
  "fail_fast_loop fn spec job_id samples [] idx processed preds st = (Inr (preds, False), st)"
| "fail_fast_loop fn spec job_id samples (batch # bs) idx processed preds st =
     (case fn batch of
        Inl e \<Rightarrow> (Inl e, st)
      | Inr ps \<Rightarrow>
          (let preds' = preds @ ps; processed' = processed + length batch;
               st' = emit_event (batch_event job_id (ms_id spec)
                 [(''batch_index'', VInt (int idx)), (''processed'', VInt (int processed'))]) st
           in if list_ex (\<lambda>p. ip_status p \<noteq> POK) ps then
                (Inr (preds' @ skipped_predictions spec (drop (length preds') samples), True), st')
              else fail_fast_loop fn spec job_id samples bs (Suc idx) processed' preds' st'))"

definition emit_batches :: "string \<Rightarrow> string \<Rightarrow> inference_prediction list list \<Rightarrow> task_store \<Rightarrow> task_store" where
  "emit_batches job_id model_id results st =
     fold (\<lambda>(idx, ps). emit_event (batch_event job_id model_id
        [(''batch_index'', VInt (int idx)), (''batch_size'', VInt (int (length ps)))])) (enumerate 0 results) st"

definition execute_job :: "backend_fn \<Rightarrow> model_spec \<Rightarrow> inference_job \<Rightarrow> inference_sample list \<Rightarrow> int \<Rightarrow> int \<Rightarrow> bool
    \<Rightarrow> (task_store, inference_prediction list \<times> bool) act" where
  "execute_job predict spec job samples retry max_workers fail_fast st =
     (let size_of = (case ij_batch_size job of Some b \<Rightarrow> if b = 0 then 32 else b | None \<Rightarrow> 32);
          batches = iter_batches samples size_of;
          fn = predict_with_retry predict retry
      in if fail_fast then fail_fast_loop fn spec (ij_job_id job) samples batches 0 0 [] st
         else case run_batches_concurrent batches fn max_workers of
           Inl e \<Rightarrow> (Inl e, st)
         | Inr results \<Rightarrow> (Inr (concat results, False), emit_batches (ij_job_id job) (ms_id spec) results st))"

section \<open>The job\<close>

text \<open>What \<open>run_inference\<close> draws from the clock and from uuid, and the arguments of the call.\<close>

record infer_clock =
  ic_job_id :: string
  ic_now :: "nat \<Rightarrow> string"
  ic_duration :: rat
  ic_stamp :: "nat \<Rightarrow> string \<times> string"

record infer_args =
  ia_input_uri :: string
  ia_model_id :: string
  ia_output_uri :: string
  ia_task_type :: "string option"
  ia_split :: string
  ia_limit :: "int option"
  ia_batch_size :: "int option"
  ia_max_workers :: int
  ia_retry :: int
  ia_timeout :: "int option"
  ia_fail_fast :: bool
  ia_max_error_rate :: rat
  ia_dataset_id :: "string option"
  ia_version :: "string option"
  ia_record :: bool

record infer_world =
  iw_registry :: registry
  iw_tables :: tables
  iw_docs :: json_docs
  iw_store :: task_store
  iw_jobs :: jobs_table
  iw_outputs :: "output_record list"
  iw_failures :: "failed_record list"

record infer_result =
  ir_job :: inference_job
  ir_report :: pydict
  ir_predictions_uri :: string
  ir_failed_uri :: string
  ir_report_uri :: string
  ir_manifest_uri :: string
  ir_exit_code :: int
  ir_warn :: bool

definition upd_store :: "(task_store \<Rightarrow> task_store) \<Rightarrow> infer_world \<Rightarrow> infer_world" where
  "upd_store f w = w\<lparr>iw_store := f (iw_store w)\<rparr>"

text \<open>\<open>if engine is not None: write_job_pg(engine, job)\<close>; the engine is the one of the event store.\<close>

definition persist_job :: "string \<Rightarrow> inference_job \<Rightarrow> infer_world \<Rightarrow> infer_world" where
  "persist_job now job w = (if ats_db (iw_store w) then w\<lparr>iw_jobs := write_job now job (iw_jobs w)\<rparr> else w)"

definition job_event :: "string \<Rightarrow> inference_job \<Rightarrow> string option \<Rightarrow> string option \<Rightarrow> pydict \<Rightarrow> ai_event" where
  "job_event t job ds ver payload =
     \<lparr>ae_type = t, ae_task_id = None, ae_job_id = Some (ij_job_id job), ae_model_id = Some (ij_model_id job),
      ae_dataset_id = ds, ae_version = ver, ae_payload = payload\<rparr>"

text \<open>\<open>int(batch_size or spec.max_batch_size or 32)\<close> and \<open>timeout_sec or spec.timeout_sec\<close>.\<close>

definition int_or :: "int option \<Rightarrow> int \<Rightarrow> int" where
  "int_or o' d = (case o' of Some i \<Rightarrow> if i = 0 then d else i | None \<Rightarrow> d)"

definition new_job :: "infer_clock \<Rightarrow> infer_args \<Rightarrow> model_spec \<Rightarrow> inference_job" where
  "new_job c a spec =
     \<lparr>ij_job_id = ic_job_id c, ij_model_id = ia_model_id a, ij_input_uri = ia_input_uri a,
      ij_output_uri = ia_output_uri a,
      ij_task_type = opt_or (ia_task_type a) (task_type_for_model (ms_type spec)),
      ij_status = CREATED, ij_job_name = None, ij_input_format = Some ''parquet'',
      ij_output_format = Some ''parquet'', ij_dataset_id = ia_dataset_id a, ij_version = ia_version a,
      ij_dataset_family = None, ij_priority = 0,
      ij_batch_size = Some (int_or (ia_batch_size a) (int_or (Some (ms_max_batch spec)) 32)),
      ij_max_workers = Some (ia_max_workers a), ij_total = 0, ij_processed = 0, ij_failed = 0,
      ij_started_at = None, ij_finished_at = None, ij_duration = None, ij_error = None,
      ij_config = [(''split'', VStr (ia_split a)), (''limit'', of_opt_int (ia_limit a)),
        (''retry'', VInt (ia_retry a)),
        (''timeout_sec'', VInt (int_or (ia_timeout a) (ms_timeout spec))),
        (''fail_fast'', VBool (ia_fail_fast a)), (''max_error_rate'', VFloat (ia_max_error_rate a)),
        (''backend'', VStr (ms_backend spec)), (''record_to_registry'', VBool (ia_record a))],
      ij_metrics = []\<rparr>"

text \<open>\<open>max(error_summary.items(), key=...)\<close>: the first entry with the largest count.\<close>

fun top_error :: "(string \<times> nat) list \<Rightarrow> (string \<times> nat) option" where
  "top_error [] = None"
| "top_error (x # xs) = (case top_error xs of None \<Rightarrow> Some x | Some y \<Rightarrow> Some (if snd x \<ge> snd y then x else y))"

definition top_error_name :: "(string \<times> nat) list \<Rightarrow> string" where
  "top_error_name es = (case top_error es of None \<Rightarrow> ''None'' | Some (k, _) \<Rightarrow> k)"

definition build_manifest :: "string \<Rightarrow> inference_job \<Rightarrow> string \<Rightarrow> string \<Rightarrow> string \<Rightarrow> pydict" where
  "build_manifest now job predictions_uri failed_uri report_uri =
     [(''schema_version'', VStr ''1.9''), (''kind'', VStr ''inference_job''), (''job_id'', VStr (ij_job_id job)),
      (''model_id'', VStr (ij_model_id job)), (''task_type'', VStr (ij_task_type job)),
      (''dataset_id'', of_opt_str (ij_dataset_id job)), (''version'', of_opt_str (ij_version job)),
      (''input_uri'', VStr (ij_input_uri job)), (''output_uri'', VStr (ij_output_uri job)),
      (''status'', VStr (status_str (ij_status job))), (''total_samples'', VInt (ij_total job)),
      (''processed_samples'', VInt (ij_processed job)), (''failed_samples'', VInt (ij_failed job)),
      (''files'', VList
         [VDict [(''path'', VStr ''predictions.parquet''), (''uri'', VStr predictions_uri)],
          VDict [(''path'', VStr ''failed_samples.parquet''), (''uri'', VStr failed_uri)],
          VDict [(''path'', VStr ''inference_report.json''), (''uri'', VStr report_uri)]]),
      (''created_at'', VStr now)]"

text \<open>\<open>store.write_json(join_uri(output_uri, name), payload)\<close>, and the parts of the world that the
  other steps work on.\<close>

definition write_output_json :: "lake_env \<Rightarrow> string \<Rightarrow> string \<Rightarrow> pydict \<Rightarrow> (infer_world, string) act" where
  "write_output_json env output_uri name payload = act_update (\<lambda>w.
     rbind (create_lake_store env output_uri) (\<lambda>_.
     rbind (join_uri output_uri [Some name]) (\<lambda>target.
     rbind (table_key target) (\<lambda>k.
       Inr (k, w\<lparr>iw_docs := dict_set k payload (iw_docs w)\<rparr>)))))"

definition on_tables :: "(tables \<Rightarrow> (string \<times> tables) result) \<Rightarrow> (infer_world, string) act" where
  "on_tables f = act_update (\<lambda>w. rbind (f (iw_tables w)) (\<lambda>(u, ts). Inr (u, w\<lparr>iw_tables := ts\<rparr>)))"

definition on_store :: "(task_store, 'a) act \<Rightarrow> (infer_world, 'a) act" where
  "on_store m w = (case m (iw_store w) of (r, st) \<Rightarrow> (r, w\<lparr>iw_store := st\<rparr>))"

definition error_summary :: "failed_record list \<Rightarrow> (string \<times> nat) list" where
  "error_summary frs = tally (map (\<lambda>f. if fa_error_type f = [] then ''UNKNOWN'' else fa_error_type f) frs)"

text \<open>Aggregation: the pairs of samples and predictions, their records, the metrics and the final job.\<close>

record aggregated =
  ag_outputs :: "output_record list"
  ag_failed :: "failed_record list"
  ag_metrics :: metrics
  ag_summary :: "(string \<times> nat) list"
  ag_outcome :: job_outcome
  ag_job :: inference_job

definition aggregate :: "infer_clock \<Rightarrow> infer_args \<Rightarrow> inference_job \<Rightarrow> inference_sample list
    \<Rightarrow> inference_prediction list \<Rightarrow> bool \<Rightarrow> aggregated" where
  "aggregate c a job samples preds triggered =
     (let pairs = zip samples preds;
          outs = map (\<lambda>(i, s, p). record_from_prediction (ij_job_id job) (ij_model_id job)
                        (Some (ia_output_uri a)) (ic_stamp c i) s p) (enumerate 0 pairs);
          failed = map (\<lambda>(i, s, p). failure_from (ij_job_id job) (ij_model_id job) 1 (ic_stamp c i) s p)
                     (filter (\<lambda>(i, s, p). ip_status p \<noteq> POK) (enumerate 0 pairs));
          m = compute_metrics preds (ic_duration c);
          summary = error_summary failed;
          o' = evaluate_job_outcome (me_total m) (me_failed m) (ia_max_error_rate a) triggered
      in \<lparr>ag_outputs = outs, ag_failed = failed, ag_metrics = m, ag_summary = summary, ag_outcome = o',
          ag_job = job\<lparr>ij_processed := me_total m, ij_failed := me_failed m, ij_status := jo_status o',
             ij_finished_at := Some (ic_now c 2), ij_duration := Some (ic_duration c),
             ij_metrics := metrics_to_dict m,
             ij_error := (if me_failed m \<noteq> 0 then
                Some (str_of_int (me_failed m) @ '' samples failed; top='' @ top_error_name summary)
              else ij_error job)\<rparr>\<rparr>)"

definition write_results :: "lake_env \<Rightarrow> infer_clock \<Rightarrow> infer_args \<Rightarrow> model_spec \<Rightarrow> aggregated \<Rightarrow> (infer_world, infer_result) act" where
  "write_results env c a spec g =
     act_bind (on_tables (write_predictions (ia_output_uri a) (ag_outputs g))) (\<lambda>pu.
     act_bind (on_tables (write_failed_samples (ia_output_uri a) (ag_failed g))) (\<lambda>fu.
       let job = ag_job g;
           report = build_report (ij_job_id job) (ij_model_id job) (ia_input_uri a) (ia_output_uri a)
             (ij_task_type job) (ms_backend spec) (ag_metrics g) (status_str (ij_status job)) (ag_summary g)
       in act_bind (write_output_json env (ia_output_uri a) ''inference_report.json'' report) (\<lambda>ru.
          act_bind (write_output_json env (ia_output_uri a) ''_manifest.json''
                   (build_manifest (ic_now c 3) job pu fu ru)) (\<lambda>mu.
            act_return \<lparr>ir_job = job, ir_report = report, ir_predictions_uri = pu, ir_failed_uri = fu,
                  ir_report_uri = ru, ir_manifest_uri = mu, ir_exit_code = jo_exit_code (ag_outcome g),
                  ir_warn = jo_warn (ag_outcome g)\<rparr>))))"

text \<open>What flows back to the database, the final event and, on failure, the dead letter.\<close>

definition flow_back :: "infer_clock \<Rightarrow> aggregated \<Rightarrow> infer_world \<Rightarrow> infer_world" where
  "flow_back c g w =
     (let job = ag_job g;
          w1 = (if ats_db (iw_store w) then
                  persist_job (ic_now c 4) job
                    (w\<lparr>iw_outputs := iw_outputs w @ ag_outputs g, iw_failures := iw_failures w @ ag_failed g\<rparr>)
                else w);
          ok = (jo_exit_code (ag_outcome g) = 0);
          w2 = upd_store (emit_event (job_event
                 (if ok then ''inference_job_finished'' else ''inference_job_failed'') job None None
                 ((''status'', VStr (status_str (ij_status job))) # metrics_to_dict (ag_metrics g)))) w1
      in if ok then w2
         else upd_store (record_dead_letter
           \<lparr>dl_task_type = ''inference_job'', dl_task_id = None, dl_job_id = Some (ij_job_id job),
            dl_reason = opt_or (ij_error job) ''error_rate exceeded'',
            dl_payload = [(''error_summary'', VDict (map (\<lambda>(k, n). (k, VInt (int n))) (ag_summary g)))],
            dl_retry_count = 0\<rparr>) w2)"

definition job_begin :: "infer_clock \<Rightarrow> infer_args \<Rightarrow> inference_job \<Rightarrow> infer_world \<Rightarrow> infer_world" where
  "job_begin c a job w =
     upd_store (emit_event (job_event ''inference_job_created'' job (ia_dataset_id a) (ia_version a)
        [(''input_uri'', VStr (ia_input_uri a)), (''output_uri'', VStr (ia_output_uri a)),
         (''task_type'', VStr (ij_task_type job))]))
       (persist_job (ic_now c 0) job w)"

definition job_running :: "infer_clock \<Rightarrow> nat \<Rightarrow> inference_job \<Rightarrow> inference_job" where
  "job_running c n job = job\<lparr>ij_total := int n, ij_status := RUNNING, ij_started_at := Some (ic_now c 1)\<rparr>"

definition job_run :: "infer_clock \<Rightarrow> inference_job \<Rightarrow> infer_world \<Rightarrow> infer_world" where
  "job_run c job w =
     upd_store (emit_event (job_event ''inference_job_started'' job None None
        [(''total_samples'', VInt (ij_total job))]))
       (persist_job (ic_now c 1) job w)"

definition infer_finish :: "lake_env \<Rightarrow> infer_clock \<Rightarrow> infer_args \<Rightarrow> model_spec \<Rightarrow> inference_job \<Rightarrow> inference_sample list
    \<Rightarrow> inference_prediction list \<times> bool \<Rightarrow> (infer_world, infer_result) act" where
  "infer_finish env c a spec job samples executed =
     (let g = aggregate c a job samples (fst executed) (snd executed)
      in act_bind (write_results env c a spec g) (\<lambda>res.
         act_bind (act_modify (flow_back c g)) (\<lambda>_. act_return res)))"

definition infer_execute :: "lake_env \<Rightarrow> backend_env \<Rightarrow> infer_clock \<Rightarrow> infer_args \<Rightarrow> model_spec
    \<Rightarrow> inference_sample list \<Rightarrow> (infer_world, infer_result) act" where
  "infer_execute env be c a spec samples =
     (let job = job_running c (length samples) (new_job c a spec)
      in act_bind (act_modify (job_run c job)) (\<lambda>_.
         act_bind (act_lift (get_backend spec)) (\<lambda>impl.
         act_bind (on_store (execute_job (predict_batch be impl spec (ij_config job)) spec job samples
                     (ia_retry a) (ia_max_workers a) (ia_fail_fast a)))
           (infer_finish env c a spec job samples))))"

definition job_input :: "infer_args \<Rightarrow> input_builder" where
  "job_input a = \<lparr>ib_input_uri = ia_input_uri a, ib_split = ia_split a, ib_limit = ia_limit a,
     ib_dataset_id = ia_dataset_id a, ib_version = ia_version a\<rparr>"

definition run_inference :: "lake_env \<Rightarrow> registry_env \<Rightarrow> backend_env \<Rightarrow> infer_clock \<Rightarrow> infer_args
    \<Rightarrow> (infer_world, infer_result) act" where
  "run_inference env renv be c a =
     act_bind (act_read (\<lambda>w. get_spec renv (iw_registry w) (ia_model_id a))) (\<lambda>found.
     case found of
       None \<Rightarrow> act_lift (Inl (InferenceJobError ''model not registered''))
     | Some spec \<Rightarrow>
         act_bind (act_modify (job_begin c a (new_job c a spec))) (\<lambda>_.
         act_bind (act_read (\<lambda>w. build_samples env (iw_tables w) (job_input a)))
           (infer_execute env be c a spec)))"

section \<open>Retries, for every back end that keeps its contract\<close>

lemma lookup_add_predictions:
  "map_of (add_predictions ps d) = map_of d ++ map_of (rev (map (\<lambda>p. (ip_sample_id p, p)) ps))"
proof (induction ps arbitrary: d)
  case Nil
  then show ?case by (simp add: add_predictions_def)
next
  case (Cons p ps)
  have "map_of (add_predictions (p # ps) d) = map_of (add_predictions ps (dict_set (ip_sample_id p) p d))"
    by (simp add: add_predictions_def)
  also have "\<dots> = map_of d ++ map_of (rev (map (\<lambda>p. (ip_sample_id p, p)) (p # ps)))"
    by (auto simp: Cons.IH fun_eq_iff map_add_def split: option.splits)
  finally show ?case .
qed

lemma add_predictions_cases:
  "map_of (add_predictions ps d) i = Some p \<Longrightarrow> (p \<in> set ps \<and> ip_sample_id p = i) \<or> map_of d i = Some p"
  by (auto simp: lookup_add_predictions map_add_Some_iff dest: map_of_SomeD)

lemma add_predictions_other:
  "i \<notin> ip_sample_id ` set ps \<Longrightarrow> map_of (add_predictions ps d) i = map_of d i"
proof -
  assume "i \<notin> ip_sample_id ` set ps"
  then have "map_of (rev (map (\<lambda>p. (ip_sample_id p, p)) ps)) i = None" by (auto simp: map_of_eq_None_iff)
  then show ?thesis by (simp add: lookup_add_predictions map_add_def)
qed

lemma add_predictions_has:
  assumes "p \<in> set ps"
  shows "\<exists>q\<in>set ps. map_of (add_predictions ps d) (ip_sample_id p) = Some q \<and> ip_sample_id q = ip_sample_id p"
proof -
  have "map_of (rev (map (\<lambda>p. (ip_sample_id p, p)) ps)) (ip_sample_id p) \<noteq> None"
    using assms by (simp add: map_of_eq_None_iff image_image)
  then obtain q where q: "map_of (rev (map (\<lambda>p. (ip_sample_id p, p)) ps)) (ip_sample_id p) = Some q" by auto
  from map_of_SomeD[OF this] have "q \<in> set ps \<and> ip_sample_id q = ip_sample_id p" by auto
  with q show ?thesis by (auto simp: lookup_add_predictions)
qed

definition by_id_ok :: "inference_sample list \<Rightarrow> by_id \<Rightarrow> bool" where
  "by_id_ok batch d =
     ((\<forall>s\<in>set batch. map_of d (is_sample_id s) \<noteq> None) \<and> (\<forall>i p. map_of d i = Some p \<longrightarrow> ip_sample_id p = i))"

context model_backend
begin

lemma ids_of: "predict k xs = Inr ps \<Longrightarrow> ip_sample_id ` set ps = is_sample_id ` set xs"
  using predict_ids[of k xs ps] unfolding same_ids_def by (metis list.set_map)

lemma first_by_id_ok: "predict k batch = Inr ps \<Longrightarrow> by_id_ok batch (add_predictions ps [])"
proof -
  assume p: "predict k batch = Inr ps"
  have "map_of (add_predictions ps []) (is_sample_id s) \<noteq> None" if "s \<in> set batch" for s
  proof -
    have "is_sample_id s \<in> ip_sample_id ` set ps" using that ids_of[OF p] by auto
    then show ?thesis using add_predictions_has[of _ ps "[]"] by force
  qed
  then show ?thesis unfolding by_id_ok_def using add_predictions_cases[of ps "[]"] by fastforce
qed

lemma retry_step:
  assumes "predict k (retry_samples d batch) = Inr again" "by_id_ok batch d"
  shows "by_id_ok batch (add_predictions again d)"
    "map_of d i = Some p \<Longrightarrow> ip_status p = POK \<Longrightarrow> map_of (add_predictions again d) i = Some p"
proof -
  have "map_of (add_predictions again d) i \<noteq> None" if "map_of d i \<noteq> None" for i
    using that by (auto simp: lookup_add_predictions map_add_def split: option.splits)
  moreover have "ip_sample_id p = i" if "map_of (add_predictions again d) i = Some p" for i p
    using add_predictions_cases[OF that] assms(2) unfolding by_id_ok_def by blast
  ultimately show "by_id_ok batch (add_predictions again d)"
    using assms(2) unfolding by_id_ok_def by blast
  assume p: "map_of d i = Some p" "ip_status p = POK"
  have "i \<notin> ip_sample_id ` set again"
    unfolding ids_of[OF assms(1)] using p by (auto simp: retry_samples_def)
  then show "map_of (add_predictions again d) i = Some p" using p by (simp add: add_predictions_other)
qed

lemma retry_loop_ok:
  "retry_loop predict batch k n d = Inr d' \<Longrightarrow> by_id_ok batch d \<Longrightarrow>
   by_id_ok batch d' \<and> (\<forall>i p. map_of d i = Some p \<and> ip_status p = POK \<longrightarrow> map_of d' i = Some p)"
proof (induction n arbitrary: k d)
  case 0
  then show ?case by simp
next
  case (Suc n)
  show ?case
  proof (cases "retry_samples d batch = []")
    case True
    with Suc show ?thesis by simp
  next
    case False
    with Suc.prems(1) obtain again where a: "predict k (retry_samples d batch) = Inr again"
        "retry_loop predict batch (Suc k) n (add_predictions again d) = Inr d'"
      by (auto simp: Let_def rbind_Inr_iff)
    note step = retry_step[OF a(1) Suc.prems(2)]
    from Suc.IH[OF a(2) step(1)] step(2) show ?thesis by blast
  qed
qed

lemma predict_with_retry_Inr:
  assumes "predict_with_retry predict retry batch = Inr ps"
  obtains ps0 d where "predict 0 batch = Inr ps0" "by_id_ok batch d"
    "\<forall>i p. map_of (add_predictions ps0 []) i = Some p \<and> ip_status p = POK \<longrightarrow> map_of d i = Some p"
    "list_all2 (\<lambda>s p. map_of d (is_sample_id s) = Some p) batch ps"
proof -
  from assms obtain ps0 d where s: "predict 0 batch = Inr ps0"
      "retry_loop predict batch 1 (nat (max 0 retry)) (add_predictions ps0 []) = Inr d"
      "rmap (\<lambda>s. case map_of d (is_sample_id s) of None \<Rightarrow> Inl (KeyError (is_sample_id s)) | Some p \<Rightarrow> Inr p) batch = Inr ps"
    by (auto simp: predict_with_retry_def rbind_Inr_iff)
  have "list_all2 (\<lambda>s p. map_of d (is_sample_id s) = Some p) batch ps"
    using s(3) unfolding rmap_Inr_iff by (rule list_all2_mono) (auto split: option.splits)
  then show thesis
    using that s(1) retry_loop_ok[OF s(2) first_by_id_ok[OF s(1)]] by blast
qed

lemma predict_with_retry_ids:
  assumes "predict_with_retry predict retry batch = Inr ps"
  shows "same_ids batch ps"
proof (rule predict_with_retry_Inr[OF assms])
  fix d
  assume ok: "by_id_ok batch d" and all: "list_all2 (\<lambda>s p. map_of d (is_sample_id s) = Some p) batch ps"
  from all ok show ?thesis
    unfolding same_ids_def by_id_ok_def by (induction rule: list_all2_induct) auto
qed

lemma predict_with_retry_keeps:
  assumes "predict_with_retry predict retry batch = Inr ps" "distinct (map is_sample_id batch)"
    "predict 0 batch = Inr ps0" "i < length batch" "ip_status (ps0 ! i) = POK"
  shows "ps ! i = ps0 ! i"
proof (rule predict_with_retry_Inr[OF assms(1)])
  fix ps0' d
  assume p: "predict 0 batch = Inr ps0'"
    and keep: "\<forall>i p. map_of (add_predictions ps0' []) i = Some p \<and> ip_status p = POK \<longrightarrow> map_of d i = Some p"
    and all: "list_all2 (\<lambda>s p. map_of d (is_sample_id s) = Some p) batch ps"
  have eq: "ps0' = ps0" using p assms(3) by simp
  have ids: "map ip_sample_id ps0 = map is_sample_id batch" using predict_ids[OF assms(3)] by (simp add: same_ids_def)
  have len: "length ps0 = length batch" by (rule predict_length[OF assms(3)])
  have dist: "distinct (map ip_sample_id ps0)" using assms(2) ids by simp
  have "ps0 ! i \<in> set ps0" using assms(4) len by simp
  from add_predictions_has[OF this, of "[]"] obtain q where q: "q \<in> set ps0"
      "map_of (add_predictions ps0 []) (ip_sample_id (ps0 ! i)) = Some q" "ip_sample_id q = ip_sample_id (ps0 ! i)"
    by blast
  have "q = ps0 ! i"
    using q(1,3) dist assms(4) len by (metis distinct_map inj_onD nth_mem)
  moreover have "ip_sample_id (ps0 ! i) = is_sample_id (batch ! i)"
    using ids assms(4) len by (metis nth_map)
  ultimately have "map_of d (is_sample_id (batch ! i)) = Some (ps0 ! i)"
    using keep q(2) assms(5) eq by auto
  with all assms(4) show ?thesis by (auto simp: list_all2_conv_all_nth)
qed

lemma predict_with_retry_Inl:
  assumes "predict_with_retry predict retry batch = Inl e"
  shows "\<exists>k xs. predict k xs = Inl e"
proof (rule ccontr)
  assume no: "\<nexists>k xs. predict k xs = Inl e"
  obtain ps0 where p0: "predict 0 batch = Inr ps0"
    using assms no by (cases "predict 0 batch") (auto simp: predict_with_retry_def)
  have loop: "retry_loop predict batch k n d \<noteq> Inl e" for k n d
  proof (induction n arbitrary: k d)
    case (Suc n)
    show ?case using no Suc by (cases "predict k (retry_samples d batch)") (auto simp: Let_def)
  qed simp
  obtain d where d: "retry_loop predict batch 1 (nat (max 0 retry)) (add_predictions ps0 []) = Inr d"
    using assms p0 loop by (cases "retry_loop predict batch 1 (nat (max 0 retry)) (add_predictions ps0 [])")
      (auto simp: predict_with_retry_def)
  have ok: "by_id_ok batch d" using retry_loop_ok[OF d first_by_id_ok[OF p0]] by blast
  have "\<exists>ps. rmap (\<lambda>s. case map_of d (is_sample_id s) of None \<Rightarrow> Inl (KeyError (is_sample_id s)) | Some p \<Rightarrow> Inr p) xs = Inr ps"
    if "set xs \<subseteq> set batch" for xs
    using that ok unfolding by_id_ok_def by (induction xs) auto
  with assms p0 d show False by (force simp: predict_with_retry_def)
qed

end

section \<open>Execution, for every back end that keeps its contract\<close>

lemma same_ids_append: "same_ids xs ps \<Longrightarrow> same_ids ys qs \<Longrightarrow> same_ids (xs @ ys) (ps @ qs)"
  by (simp add: same_ids_def)

lemma same_ids_length: "same_ids xs ps \<Longrightarrow> length ps = length xs"
  unfolding same_ids_def by (metis length_map)

lemma same_ids_skipped: "same_ids xs (skipped_predictions spec xs)"
  by (simp add: same_ids_def skipped_predictions_def base_prediction_def Let_def comp_def)

lemma emit_batches_jsonl:
  "\<exists>evs. ats_jsonl (emit_batches j m results st) = ats_jsonl st @ evs \<and> length evs = length results \<and>
     (\<forall>e\<in>set evs. ae_type e = ''inference_batch_finished'' \<and> ae_job_id e = Some j)"
proof -
  have "\<exists>evs. ats_jsonl (fold (\<lambda>(idx, ps). emit_event (batch_event j m (f idx ps))) xs st) = ats_jsonl st @ evs \<and>
     length evs = length xs \<and> (\<forall>e\<in>set evs. ae_type e = ''inference_batch_finished'' \<and> ae_job_id e = Some j)"
    for f :: "nat \<Rightarrow> inference_prediction list \<Rightarrow> pydict" and xs st
  proof (induction xs arbitrary: st)
    case Nil
    then show ?case by simp
  next
    case (Cons x xs)
    obtain idx ps where x: "x = (idx, ps)" by (cases x)
    from Cons[of "emit_event (batch_event j m (f idx ps)) st"] obtain evs where
      "ats_jsonl (fold (\<lambda>(idx, ps). emit_event (batch_event j m (f idx ps))) (x # xs) st) =
         ats_jsonl st @ batch_event j m (f idx ps) # evs"
      "length evs = length xs" "\<forall>e\<in>set evs. ae_type e = ''inference_batch_finished'' \<and> ae_job_id e = Some j"
      by (auto simp: x)
    then show ?case
      by (intro exI[of _ "batch_event j m (f idx ps) # evs"]) (simp add: batch_event_def)
  qed
  from this[of "\<lambda>idx ps. [(''batch_index'', VInt (int idx)), (''batch_size'', VInt (int (length ps)))]"
      "enumerate 0 results" st]
  show ?thesis by (simp add: emit_batches_def)
qed

lemma store_fold_emit:
  "ats_db (fold (\<lambda>x. emit_event (f x)) xs st) = ats_db st \<and> ats_dead (fold (\<lambda>x. emit_event (f x)) xs st) = ats_dead st"
  by (induction xs arbitrary: st) auto

lemma emit_batches_keeps:
  "ats_db (emit_batches j m results st) = ats_db st" "ats_dead (emit_batches j m results st) = ats_dead st"
  using store_fold_emit[of "\<lambda>(idx, ps). batch_event j m [(''batch_index'', VInt (int idx)), (''batch_size'', VInt (int (length ps)))]"
      "enumerate 0 results" st]
  by (simp_all add: emit_batches_def case_prod_beta')

definition all_ok :: "inference_prediction list \<Rightarrow> bool" where
  "all_ok ps = list_all prediction_ok ps"

context model_backend
begin

lemma fail_fast_ids:
  "fail_fast_loop (predict_with_retry predict retry) spec j samples bs idx n preds st = (Inr (ps, trig), st') \<Longrightarrow>
   samples = xs @ concat bs \<Longrightarrow> same_ids xs preds \<Longrightarrow> all_ok preds \<Longrightarrow>
   same_ids samples ps \<and> (trig \<longleftrightarrow> \<not> all_ok ps) \<and> ats_db st' = ats_db st \<and> ats_dead st' = ats_dead st"
proof (induction bs arbitrary: idx n preds st xs)
  case Nil
  then show ?case by simp
next
  case (Cons b bs)
  then obtain qs where q: "predict_with_retry predict retry b = Inr qs" by (auto split: sum.splits)
  have ids: "same_ids (xs @ b) (preds @ qs)"
    by (rule same_ids_append[OF Cons.prems(3) predict_with_retry_ids[OF q]])
  let ?st = "emit_event (batch_event j (ms_id spec)
                 [(''batch_index'', VInt (int idx)), (''processed'', VInt (int (n + length b)))]) st"
  show ?case
  proof (cases "list_ex (\<lambda>p. ip_status p \<noteq> POK) qs")
    case True
    with Cons.prems(1) q have r: "ps = (preds @ qs) @ skipped_predictions spec (drop (length (preds @ qs)) samples)"
        "trig" "st' = ?st" by (simp_all add: Let_def)
    have "drop (length (preds @ qs)) samples = concat bs"
      using same_ids_length[OF ids] by (simp add: Cons.prems(2))
    moreover have "\<not> all_ok ps"
      using True by (auto simp: all_ok_def r list_ex_iff list_all_iff prediction_ok_def)
    ultimately show ?thesis
      using same_ids_append[OF ids same_ids_skipped] r Cons.prems(2) by simp
  next
    case False
    then have "all_ok (preds @ qs)" using Cons.prems(4) by (auto simp: all_ok_def list_ex_iff list_all_iff prediction_ok_def)
    moreover have "fail_fast_loop (predict_with_retry predict retry) spec j samples bs (Suc idx) (n + length b) (preds @ qs) ?st
        = (Inr (ps, trig), st')"
      using Cons.prems(1) q False by (simp add: Let_def)
    ultimately show ?thesis
      using Cons.IH[of "Suc idx" "n + length b" "preds @ qs" ?st "xs @ b"] ids Cons.prems(2) by simp
  qed
qed

lemma batches_ids:
  "rmap (predict_with_retry predict retry) bs = Inr results \<Longrightarrow> same_ids (concat bs) (concat results)"
proof (induction bs arbitrary: results)
  case Nil
  then show ?case by (simp add: same_ids_def)
next
  case (Cons b bs)
  then obtain q rs where "predict_with_retry predict retry b = Inr q"
      "rmap (predict_with_retry predict retry) bs = Inr rs" "results = q # rs"
    by (auto simp: rbind_Inr_iff)
  with Cons.IH[of rs] same_ids_append[OF predict_with_retry_ids[of retry b q], of "concat bs" "concat rs"]
  show ?case by simp
qed

lemma execute_ids:
  assumes "execute_job predict spec job samples retry mw ff st = (Inr (preds, trig), st')"
  shows "same_ids samples preds" "trig = (ff \<and> \<not> all_ok preds)" "ats_db st' = ats_db st" "ats_dead st' = ats_dead st"
proof -
  have "same_ids samples preds \<and> trig = (ff \<and> \<not> all_ok preds) \<and> ats_db st' = ats_db st \<and> ats_dead st' = ats_dead st"
  proof (cases ff)
    case True
    let ?b = "case ij_batch_size job of Some b \<Rightarrow> if b = 0 then 32 else b | None \<Rightarrow> 32"
    have "fail_fast_loop (predict_with_retry predict retry) spec (ij_job_id job) samples
        (iter_batches samples ?b) 0 0 [] st = (Inr (preds, trig), st')"
      using assms True by (simp add: execute_job_def Let_def)
    from fail_fast_ids[OF this, of "[]"] True show ?thesis by (simp add: same_ids_def all_ok_def)
  next
    case False
    with assms show ?thesis
      by (auto simp: execute_job_def Let_def run_batches_concurrent_def emit_batches_keeps
          split: sum.splits dest: batches_ids)
  qed
  then show "same_ids samples preds" "trig = (ff \<and> \<not> all_ok preds)" "ats_db st' = ats_db st" "ats_dead st' = ats_dead st"
    by simp_all
qed

end

section \<open>What a run writes\<close>

text \<open>The event log grows by batch events of the job, whether the execution returns or raises.\<close>

definition grows_by_batches :: "string \<Rightarrow> task_store \<Rightarrow> task_store \<Rightarrow> bool" where
  "grows_by_batches j st st' =
     (ats_db st' = ats_db st \<and> ats_dead st' = ats_dead st \<and>
      (\<exists>evs. ats_jsonl st' = ats_jsonl st @ evs \<and> (\<forall>e\<in>set evs. ae_type e = ''inference_batch_finished'' \<and> ae_job_id e = Some j)))"

lemma grows_refl: "grows_by_batches j st st"
  by (simp add: grows_by_batches_def)

lemma grows_emit:
  assumes "grows_by_batches j (emit_event (batch_event j m pl) st) st'"
  shows "grows_by_batches j st st'"
proof -
  from assms obtain evs where e: "ats_jsonl st' = (ats_jsonl st @ [batch_event j m pl]) @ evs"
      "\<forall>e\<in>set evs. ae_type e = ''inference_batch_finished'' \<and> ae_job_id e = Some j"
      "ats_db st' = ats_db st" "ats_dead st' = ats_dead st"
    by (auto simp: grows_by_batches_def)
  then show ?thesis
    unfolding grows_by_batches_def
    by (intro conjI exI[of _ "batch_event j m pl # evs"]) (simp_all add: batch_event_def)
qed

lemma fail_fast_grows:
  "fail_fast_loop fn spec j samples bs idx n preds st = (r, st') \<Longrightarrow> grows_by_batches j st st'"
proof (induction bs arbitrary: idx n preds st)
  case Nil
  then show ?case by (simp add: grows_refl)
next
  case (Cons b bs)
  show ?case
  proof (cases "fn b")
    case (Inl e)
    with Cons.prems show ?thesis by (simp add: grows_refl)
  next
    case (Inr ps)
    let ?st = "emit_event (batch_event j (ms_id spec)
                 [(''batch_index'', VInt (int idx)), (''processed'', VInt (int (n + length b)))]) st"
    have "grows_by_batches j ?st st'"
    proof (cases "list_ex (\<lambda>p. ip_status p \<noteq> POK) ps")
      case True
      with Cons.prems Inr have "st' = ?st" by (simp add: Let_def)
      then show ?thesis by (simp add: grows_refl)
    next
      case False
      with Cons.prems Inr have "fail_fast_loop fn spec j samples bs (Suc idx) (n + length b) (preds @ ps) ?st = (r, st')"
        by (simp add: Let_def)
      then show ?thesis by (rule Cons.IH)
    qed
    then show ?thesis by (rule grows_emit)
  qed
qed

lemma execute_grows:
  "execute_job predict spec job samples retry mw ff st = (r, st') \<Longrightarrow> grows_by_batches (ij_job_id job) st st'"
proof (cases ff)
  case True
  moreover assume "execute_job predict spec job samples retry mw ff st = (r, st')"
  ultimately show ?thesis by (auto simp: execute_job_def Let_def intro: fail_fast_grows)
next
  case False
  have emitted: "grows_by_batches (ij_job_id job) st (emit_batches (ij_job_id job) (ms_id spec) results st)" for results
    unfolding grows_by_batches_def
    using emit_batches_jsonl[of "ij_job_id job" "ms_id spec" results st] emit_batches_keeps by blast
  assume "execute_job predict spec job samples retry mw ff st = (r, st')"
  with False have "st' = st \<or> (\<exists>results. st' = emit_batches (ij_job_id job) (ms_id spec) results st)"
    by (auto simp: execute_job_def Let_def split: sum.splits)
  then show ?thesis using emitted grows_refl by blast
qed

lemma job_begin_sel [simp]:
  "iw_tables (job_begin c a job w) = iw_tables w" "iw_registry (job_begin c a job w) = iw_registry w"
  "iw_outputs (job_begin c a job w) = iw_outputs w" "iw_failures (job_begin c a job w) = iw_failures w"
  "ats_db (iw_store (job_begin c a job w)) = ats_db (iw_store w)"
  "ats_dead (iw_store (job_begin c a job w)) = ats_dead (iw_store w)"
  by (simp_all add: job_begin_def upd_store_def persist_job_def)

lemma job_run_sel [simp]:
  "iw_tables (job_run c job w) = iw_tables w" "iw_outputs (job_run c job w) = iw_outputs w"
  "iw_failures (job_run c job w) = iw_failures w"
  "ats_db (iw_store (job_run c job w)) = ats_db (iw_store w)"
  "ats_dead (iw_store (job_run c job w)) = ats_dead (iw_store w)"
  by (simp_all add: job_run_def upd_store_def persist_job_def)

text \<open>The parts of the world that writing files leaves alone.\<close>

definition files_only :: "infer_world \<Rightarrow> infer_world \<Rightarrow> bool" where
  "files_only w w' = (iw_store w' = iw_store w \<and> iw_jobs w' = iw_jobs w \<and> iw_outputs w' = iw_outputs w \<and>
     iw_failures w' = iw_failures w)"

lemma files_only_refl: "files_only w w"
  by (simp add: files_only_def)

lemma files_only_trans: "files_only u v \<Longrightarrow> files_only v w \<Longrightarrow> files_only u w"
  by (simp add: files_only_def)

lemma files_only_bind:
  assumes "\<And>v r v'. m v = (r, v') \<Longrightarrow> files_only v v'" "\<And>x v r v'. f x v = (r, v') \<Longrightarrow> files_only v v'"
    "act_bind m f w = (r, w')"
  shows "files_only w w'"
proof -
  obtain r1 v where m: "m w = (r1, v)" by (cases "m w")
  have wv: "files_only w v" by (rule assms(1)[OF m])
  show ?thesis
  proof (cases r1)
    case (Inl e)
    with assms(3) m wv show ?thesis by (simp add: act_bind_def)
  next
    case (Inr x)
    with assms(3) m have "f x v = (r, w')" by (simp add: act_bind_def)
    from files_only_trans[OF wv assms(2)[OF this]] show ?thesis .
  qed
qed

lemma files_only_on_tables: "on_tables f w = (r, w') \<Longrightarrow> files_only w w'"
  by (auto simp: on_tables_def act_update_def rbind_def files_only_def split: sum.splits prod.splits)

lemma files_only_json: "write_output_json env u n pl w = (r, w') \<Longrightarrow> files_only w w'"
  by (auto simp: write_output_json_def act_update_def rbind_def files_only_def split: sum.splits prod.splits)

lemma write_results_keeps:
  assumes "write_results env c a spec g w = (r, w')"
  shows "files_only w w'"
  using assms unfolding write_results_def Let_def
  by (elim files_only_bind[rotated -1])
     (auto elim!: files_only_bind[rotated -1] files_only_on_tables files_only_json simp: act_return_def files_only_refl)

lemma run_inference_Inr:
  assumes "run_inference env renv be c a w = (Inr res, w')"
  obtains spec impl samples preds triggered st w2 where
    "get_spec renv (iw_registry w) (ia_model_id a) = Inr (Some spec)"
    "build_samples env (iw_tables w) (job_input a) = Inr samples"
    "get_backend spec = Inr impl"
    "execute_job (predict_batch be impl spec (ij_config (job_running c (length samples) (new_job c a spec)))) spec
       (job_running c (length samples) (new_job c a spec)) samples (ia_retry a) (ia_max_workers a) (ia_fail_fast a)
       (iw_store (job_run c (job_running c (length samples) (new_job c a spec)) (job_begin c a (new_job c a spec) w)))
     = (Inr (preds, triggered), st)"
    "write_results env c a spec (aggregate c a (job_running c (length samples) (new_job c a spec)) samples preds triggered)
       ((job_run c (job_running c (length samples) (new_job c a spec)) (job_begin c a (new_job c a spec) w))\<lparr>iw_store := st\<rparr>)
     = (Inr res, w2)"
    "w' = flow_back c (aggregate c a (job_running c (length samples) (new_job c a spec)) samples preds triggered) w2"
proof -
  from assms obtain spec samples where f: "get_spec renv (iw_registry w) (ia_model_id a) = Inr (Some spec)"
      "build_samples env (iw_tables w) (job_input a) = Inr samples"
      "infer_execute env be c a spec samples (job_begin c a (new_job c a spec) w) = (Inr res, w')"
    by (auto simp: run_inference_def act_bind_step act_step_Inr_iff split: sum.splits option.splits)
  show thesis
    using f(3) unfolding infer_execute_def Let_def
    by (elim act_bind_InrE) (auto simp: act_step_Inr_iff on_store_def infer_finish_def f Let_def elim!: act_bind_InrE
        split: prod.splits intro: that)
qed

section \<open>The aggregate\<close>

definition failing :: "inference_prediction list \<Rightarrow> nat" where
  "failing ps = length (filter (\<lambda>p. \<not> prediction_ok p) ps)"

lemma failing_0: "failing ps = 0 \<longleftrightarrow> all_ok ps"
  by (auto simp: failing_def all_ok_def filter_empty_conv list_all_iff)

lemma failing_le: "failing ps \<le> length ps"
  by (simp add: failing_def)

lemma length_filter_zip:
  "length xs = length ys \<Longrightarrow>
   length (filter (\<lambda>(i, s, p). P p) (enumerate n (zip xs ys))) = length (filter P ys)"
  by (induction xs ys arbitrary: n rule: list_induct2) auto

lemma metrics_counts:
  "me_total (compute_metrics ps d) = int (length ps)" "me_failed (compute_metrics ps d) = int (failing ps)"
  "me_succeeded (compute_metrics ps d) = int (length ps) - int (failing ps)"
  using sum_length_filter_compl[of prediction_ok ps]
  by (simp_all add: compute_metrics_def failing_def Let_def)

lemma aggregate_outputs:
  "length samples = length preds \<Longrightarrow>
   length (ag_outputs (aggregate c a job samples preds trig)) = length samples \<and>
   length (ag_failed (aggregate c a job samples preds trig)) = failing preds"
  using length_filter_zip[of samples preds "\<lambda>p. ip_status p \<noteq> POK" 0]
  by (simp add: aggregate_def Let_def failing_def prediction_ok_def)

lemma aggregate_failed_ids:
  "map fa_sample_id (ag_failed (aggregate c a job samples preds trig)) =
   map or_sample_id (filter (\<lambda>r. or_status r \<noteq> POK) (ag_outputs (aggregate c a job samples preds trig)))"
proof -
  have "map fa_sample_id (map (\<lambda>(i, s, p). failure_from j m 1 (st i) s p) (filter (\<lambda>(i, s, p). ip_status p \<noteq> POK) xs)) =
    map or_sample_id (filter (\<lambda>r. or_status r \<noteq> POK)
      (map (\<lambda>(i, s, p). record_from_prediction j m u (st i) s p) xs))" for j m u st and xs :: "(nat \<times> inference_sample \<times> inference_prediction) list"
    by (induction xs) (auto simp: failure_from_def record_from_prediction_def Let_def)
  then show ?thesis by (simp add: aggregate_def Let_def)
qed

lemma aggregate_job:
  "ag_metrics (aggregate c a job samples preds trig) = compute_metrics preds (ic_duration c)"
  "ij_job_id (ag_job (aggregate c a job samples preds trig)) = ij_job_id job"
  "ij_total (ag_job (aggregate c a job samples preds trig)) = ij_total job"
  "ij_processed (ag_job (aggregate c a job samples preds trig)) = int (length preds)"
  "ij_failed (ag_job (aggregate c a job samples preds trig)) = int (failing preds)"
  "ij_status (ag_job (aggregate c a job samples preds trig)) = jo_status (ag_outcome (aggregate c a job samples preds trig))"
  "ag_outcome (aggregate c a job samples preds trig) =
     evaluate_job_outcome (int (length preds)) (int (failing preds)) (ia_max_error_rate a) trig"
  "ag_summary (aggregate c a job samples preds trig) = error_summary (ag_failed (aggregate c a job samples preds trig))"
  by (simp_all add: aggregate_def Let_def metrics_counts)

lemma error_summary_sum: "sum_list (map snd (error_summary frs)) = length frs"
  by (simp add: error_summary_def sum_list_tally)

lemma outcome_cases:
  assumes "0 < n"
  shows "jo_exit_code (evaluate_job_outcome (int n) (int f) r trig) = (if trig \<or> r * of_nat n < of_nat f then 1 else 0)"
    "jo_status (evaluate_job_outcome (int n) (int f) r trig) = (if trig \<or> r * of_nat n < of_nat f then FAILED else SUCCEEDED)"
    "jo_warn (evaluate_job_outcome (int n) (int f) r trig) = (\<not> (trig \<or> r * of_nat n < of_nat f) \<and> 0 < f)"
proof -
  have "r < of_int (int f) / of_int (int n) \<longleftrightarrow> r * of_nat n < of_nat f"
    using assms by (simp add: pos_less_divide_eq)
  then show "jo_exit_code (evaluate_job_outcome (int n) (int f) r trig) = (if trig \<or> r * of_nat n < of_nat f then 1 else 0)"
    "jo_status (evaluate_job_outcome (int n) (int f) r trig) = (if trig \<or> r * of_nat n < of_nat f then FAILED else SUCCEEDED)"
    "jo_warn (evaluate_job_outcome (int n) (int f) r trig) = (\<not> (trig \<or> r * of_nat n < of_nat f) \<and> 0 < f)"
    using assms by (auto simp: evaluate_job_outcome_def Let_def)
qed

lemma write_results_Inr:
  assumes "write_results env c a spec g w = (Inr res, w')"
  obtains ru where "ir_job res = ag_job g" "ir_exit_code res = jo_exit_code (ag_outcome g)" "ir_warn res = jo_warn (ag_outcome g)"
    "ir_report res = build_report (ij_job_id (ag_job g)) (ij_model_id (ag_job g)) (ia_input_uri a) (ia_output_uri a)
       (ij_task_type (ag_job g)) (ms_backend spec) (ag_metrics g) (status_str (ij_status (ag_job g))) (ag_summary g)"
    "ir_report_uri res = ru"
  using assms unfolding write_results_def Let_def
  by (elim act_bind_InrE) (auto simp: act_step_Inr_iff)

text \<open>What a successful run is made of: every sample has its prediction, in order.\<close>

lemma run_inference_parts:
  assumes "run_inference env renv be c a w = (Inr res, w')"
  obtains samples preds spec job g w2 where
    "build_samples env (iw_tables w) (job_input a) = Inr samples"
    "samples \<noteq> []" "same_ids samples preds"
    "job = job_running c (length samples) (new_job c a spec)"
    "g = aggregate c a job samples preds (ia_fail_fast a \<and> \<not> all_ok preds)"
    "\<exists>v. write_results env c a spec g v = (Inr res, w2)"
    "w' = flow_back c g w2"
    "files_only (job_run c job (job_begin c a (new_job c a spec) w)\<lparr>iw_store := iw_store w2\<rparr>) w2"
    "grows_by_batches (ij_job_id job) (iw_store (job_run c job (job_begin c a (new_job c a spec) w))) (iw_store w2)"
proof (rule run_inference_Inr[OF assms])
  fix spec :: model_spec and impl :: backend_impl and samples :: "inference_sample list"
    and preds :: "inference_prediction list" and triggered :: bool and st :: task_store and w2 :: infer_world
  let ?job = "job_running c (length samples) (new_job c a spec)"
  let ?w1 = "job_run c ?job (job_begin c a (new_job c a spec) w)"
  assume r: "build_samples env (iw_tables w) (job_input a) = Inr samples"
    and ex: "execute_job (predict_batch be impl spec (ij_config ?job)) spec ?job samples (ia_retry a) (ia_max_workers a)
       (ia_fail_fast a) (iw_store ?w1) = (Inr (preds, triggered), st)"
    and wr: "write_results env c a spec (aggregate c a ?job samples preds triggered) (?w1\<lparr>iw_store := st\<rparr>) = (Inr res, w2)"
    and w': "w' = flow_back c (aggregate c a ?job samples preds triggered) w2"
  note e = backend.execute_ids[OF ex]
  note k = write_results_keeps[OF wr]
  have ne: "samples \<noteq> []" by (rule build_samples_Inr[OF r])
  have st: "iw_store w2 = st" using k by (simp add: files_only_def)
  show thesis
  proof (rule that[OF r ne e(1) refl refl])
    show "\<exists>v. write_results env c a spec (aggregate c a ?job samples preds (ia_fail_fast a \<and> \<not> all_ok preds)) v = (Inr res, w2)"
      using wr e(2) by blast
    show "w' = flow_back c (aggregate c a ?job samples preds (ia_fail_fast a \<and> \<not> all_ok preds)) w2"
      using w' e(2) by simp
    show "files_only (?w1\<lparr>iw_store := iw_store w2\<rparr>) w2" using k st by simp
    show "grows_by_batches (ij_job_id ?job) (iw_store ?w1) (iw_store w2)"
      using execute_grows[OF ex] st by simp
  qed
qed

section \<open>What a settled job leaves behind\<close>

lemma flow_back_db:
  assumes "ats_db (iw_store w)"
  shows "get_job (iw_jobs (flow_back c g w)) (ij_job_id (ag_job g)) = Some (ag_job g)"
    "iw_outputs (flow_back c g w) = iw_outputs w @ ag_outputs g"
    "iw_failures (flow_back c g w) = iw_failures w @ ag_failed g"
  using assms by (simp_all add: flow_back_def Let_def upd_store_def persist_job_def get_write_job)

lemma flow_back_dead:
  assumes "ats_db (iw_store w)"
  shows "\<exists>d. ats_dead (iw_store (flow_back c g w)) =
      ats_dead (iw_store w) @ (if jo_exit_code (ag_outcome g) = 0 then [] else [d]) \<and>
      dl_job_id d = Some (ij_job_id (ag_job g)) \<and> dl_task_type d = ''inference_job''"
  using assms
  by (auto simp: flow_back_def Let_def upd_store_def persist_job_def record_dead_letter_def emit_event_def
      intro!: exI[of _ "\<lparr>dl_task_type = ''inference_job'', dl_task_id = None, dl_job_id = Some (ij_job_id (ag_job g)),
            dl_reason = opt_or (ij_error (ag_job g)) ''error_rate exceeded'',
            dl_payload = [(''error_summary'', VDict (map (\<lambda>(k, n). (k, VInt (int n))) (ag_summary g)))],
            dl_retry_count = 0\<rparr>"])

lemma flow_back_log:
  "map ae_type (ats_jsonl (iw_store (flow_back c g w))) = map ae_type (ats_jsonl (iw_store w)) @
     [if jo_exit_code (ag_outcome g) = 0 then ''inference_job_finished'' else ''inference_job_failed'']"
  by (simp add: flow_back_def Let_def upd_store_def persist_job_def job_event_def)

lemma started_log:
  "map ae_type (ats_jsonl (iw_store (job_run c job (job_begin c a job0 w)))) =
     map ae_type (ats_jsonl (iw_store w)) @ [''inference_job_created'', ''inference_job_started'']"
  by (simp add: job_run_def job_begin_def upd_store_def persist_job_def job_event_def)

lemma grows_types:
  assumes "grows_by_batches j st st'"
  shows "\<exists>n. map ae_type (ats_jsonl st') = map ae_type (ats_jsonl st) @ replicate n ''inference_batch_finished''"
proof -
  from assms obtain evs where e: "ats_jsonl st' = ats_jsonl st @ evs"
      "\<forall>e\<in>set evs. ae_type e = ''inference_batch_finished''"
    by (auto simp: grows_by_batches_def)
  have "map ae_type evs = replicate (length evs) ''inference_batch_finished''"
    using e(2) by (induction evs) auto
  with e(1) show ?thesis by auto
qed

lemma outputs_ids:
  assumes "same_ids samples preds"
  shows "map or_sample_id (ag_outputs (aggregate c a job samples preds trig)) = map is_sample_id samples"
    "map or_status (ag_outputs (aggregate c a job samples preds trig)) = map ip_status preds"
proof -
  have len: "length preds = length samples" by (rule same_ids_length[OF assms])
  have "map or_sample_id (map (\<lambda>(i, s, p). record_from_prediction j m u (st i) s p) (enumerate n (zip samples preds))) = map is_sample_id samples \<and>
    map or_status (map (\<lambda>(i, s, p). record_from_prediction j m u (st i) s p) (enumerate n (zip samples preds))) = map ip_status preds"
    for j m u st n
    using len[symmetric]
    by (induction samples preds arbitrary: n rule: list_induct2) (simp_all add: record_from_prediction_def)
  then show "map or_sample_id (ag_outputs (aggregate c a job samples preds trig)) = map is_sample_id samples"
    "map or_status (ag_outputs (aggregate c a job samples preds trig)) = map ip_status preds"
    by (simp_all add: aggregate_def Let_def)
qed

section \<open>A run that raises\<close>

text \<open>The world after an exception: the job was created, perhaps started, some batches ran and some files
  were written.\<close>

definition unsettled_log :: "task_store \<Rightarrow> task_store \<Rightarrow> bool" where
  "unsettled_log st st' = (ats_dead st' = ats_dead st \<and> (\<exists>evs. ats_jsonl st' = ats_jsonl st @ evs \<and>
     (\<forall>e\<in>set evs. ae_type e \<in> {''inference_job_created'', ''inference_job_started'', ''inference_batch_finished''})))"

definition abandoned :: "infer_clock \<Rightarrow> infer_world \<Rightarrow> infer_world \<Rightarrow> bool" where
  "abandoned c w w' =
     ((\<exists>job. get_job (iw_jobs w') (ic_job_id c) = Some job \<and> ij_status job \<in> {CREATED, RUNNING}) \<and>
      iw_outputs w' = iw_outputs w \<and> iw_failures w' = iw_failures w \<and> unsettled_log (iw_store w) (iw_store w'))"

lemma unsettled_emit:
  "unsettled_log st st' \<Longrightarrow> ae_type e \<in> {''inference_job_created'', ''inference_job_started'', ''inference_batch_finished''} \<Longrightarrow>
   unsettled_log st (emit_event e st')"
  unfolding unsettled_log_def by (elim conjE exE, intro conjI exI[of _ "_ @ [e]"]) auto

lemma unsettled_batches: "unsettled_log st st' \<Longrightarrow> grows_by_batches j st' st'' \<Longrightarrow> unsettled_log st st''"
  unfolding unsettled_log_def grows_by_batches_def by (elim conjE exE, intro conjI exI[of _ "_ @ _"]) auto

lemma unsettled_begin: "unsettled_log (iw_store w) (iw_store (job_begin c a job w))"
proof -
  have "unsettled_log (iw_store w) (iw_store w)" by (simp add: unsettled_log_def)
  from unsettled_emit[OF this] show ?thesis by (simp add: job_begin_def upd_store_def persist_job_def job_event_def)
qed

lemma unsettled_run: "unsettled_log (iw_store w) (iw_store (job_run c job (job_begin c a job0 w)))"
  using unsettled_emit[OF unsettled_begin[of w c a job0]]
  by (simp add: job_run_def upd_store_def persist_job_def job_event_def)

lemma abandoned_begin:
  assumes "ats_db (iw_store w)"
  shows "abandoned c w (job_begin c a (new_job c a spec) w)"
proof -
  have "get_job (iw_jobs (job_begin c a (new_job c a spec) w)) (ic_job_id c) = Some (new_job c a spec)"
    using assms by (simp add: job_begin_def upd_store_def persist_job_def get_write_job new_job_def)
  moreover have "ij_status (new_job c a spec) = CREATED" by (simp add: new_job_def)
  ultimately show ?thesis unfolding abandoned_def using unsettled_begin by simp
qed

lemma abandoned_run:
  assumes "ats_db (iw_store w)"
    "grows_by_batches (ic_job_id c) (iw_store (job_run c (job_running c m (new_job c a spec)) (job_begin c a (new_job c a spec) w))) (iw_store v)"
    "iw_jobs v = iw_jobs (job_run c (job_running c m (new_job c a spec)) (job_begin c a (new_job c a spec) w))"
    "iw_outputs v = iw_outputs w" "iw_failures v = iw_failures w"
  shows "abandoned c w v"
proof -
  let ?job = "job_running c m (new_job c a spec)"
  have "ij_job_id ?job = ic_job_id c" by (simp add: job_running_def new_job_def)
  moreover have "ats_db (iw_store (job_begin c a (new_job c a spec) w))" using assms(1) by simp
  ultimately have "get_job (iw_jobs v) (ic_job_id c) = Some ?job"
    unfolding assms(3) by (simp add: job_run_def upd_store_def persist_job_def get_write_job)
  moreover have "ij_status ?job = RUNNING" by (simp add: job_running_def)
  moreover have "unsettled_log (iw_store w) (iw_store v)"
    by (rule unsettled_batches[OF unsettled_run assms(2)])
  ultimately show ?thesis unfolding abandoned_def using assms(4,5) by simp
qed

lemma infer_finish_Inl:
  "infer_finish env c a spec job samples p w = (Inl e, w') \<Longrightarrow> files_only w w'"
  by (auto simp: infer_finish_def Let_def act_bind_step act_step_Inl_iff elim!: act_bind_InlE dest: write_results_keeps)

lemma infer_execute_Inl:
  assumes "infer_execute env be c a spec samples (job_begin c a (new_job c a spec) w) = (Inl e, w')" "ats_db (iw_store w)"
  shows "abandoned c w w'"
proof -
  let ?job = "job_running c (length samples) (new_job c a spec)"
  let ?w1 = "job_run c ?job (job_begin c a (new_job c a spec) w)"
  note ab = abandoned_run[OF assms(2), of c "length samples" a spec]
  have jid: "ij_job_id ?job = ic_job_id c" by (simp add: job_running_def new_job_def)
  show ?thesis
  proof (cases "get_backend spec")
    case (Inl b)
    with assms(1) have "w' = ?w1" by (simp add: infer_execute_def Let_def act_bind_step)
    then show ?thesis using ab[of ?w1] by (simp add: grows_refl)
  next
    case (Inr impl)
    let ?ex = "execute_job (predict_batch be impl spec (ij_config ?job)) spec ?job samples
                             (ia_retry a) (ia_max_workers a) (ia_fail_fast a)"
    obtain r st where st: "?ex (iw_store ?w1) = (r, st)" by (cases "?ex (iw_store ?w1)")
    have "act_bind (on_store ?ex) (infer_finish env c a spec ?job samples) ?w1 = (Inl e, w')"
      using assms(1) Inr by (simp add: infer_execute_def Let_def act_bind_step)
    then have "files_only (?w1\<lparr>iw_store := st\<rparr>) w'"
      by (rule act_bind_InlE) (auto simp: on_store_def st files_only_refl dest: infer_finish_Inl)
    then show ?thesis using ab[of w'] execute_grows[OF st] by (simp add: files_only_def jid)
  qed
qed

lemma run_inference_Inl:
  assumes "run_inference env renv be c a w = (Inl e, w')" "ats_db (iw_store w)"
    "get_spec renv (iw_registry w) (ia_model_id a) = Inr (Some spec)"
  shows "abandoned c w w'"
proof (cases "build_samples env (iw_tables w) (job_input a)")
  case (Inl b)
  with assms(1,3) have "w' = job_begin c a (new_job c a spec) w" by (simp add: run_inference_def act_bind_step)
  then show ?thesis using abandoned_begin[OF assms(2)] by simp
next
  case (Inr samples)
  with assms(1,3) show ?thesis by (intro infer_execute_Inl[OF _ assms(2)]) (simp add: run_inference_def act_bind_step)
qed

section \<open>Properties\<close>


text \<open>C28. With a database, a settled job is on record as it is returned: its row is the returned job, one
  output row per sample and one failure row per failed output were appended, a dead letter exactly when
  the exit code is not zero, and the event log grew by created, started, the batches and then finished
  or failed.\<close>

theorem run_inference_records:
  assumes "run_inference env renv be c a w = (Inr res, w')" "ats_db (iw_store w)"
  shows "\<exists>outs fails d n. get_job (iw_jobs w') (ic_job_id c) = Some (ir_job res) \<and>
    iw_outputs w' = iw_outputs w @ outs \<and> int (length outs) = ij_total (ir_job res) \<and>
    iw_failures w' = iw_failures w @ fails \<and> int (length fails) = ij_failed (ir_job res) \<and>
    map fa_sample_id fails = map or_sample_id (filter (\<lambda>r. or_status r \<noteq> POK) outs) \<and>
    ats_dead (iw_store w') = ats_dead (iw_store w) @ (if ir_exit_code res = 0 then [] else [d]) \<and>
    dl_job_id d = Some (ic_job_id c) \<and>
    map ae_type (ats_jsonl (iw_store w')) = map ae_type (ats_jsonl (iw_store w)) @
      [''inference_job_created'', ''inference_job_started''] @ replicate n ''inference_batch_finished'' @
      [if ir_exit_code res = 0 then ''inference_job_finished'' else ''inference_job_failed'']"
proof (rule run_inference_parts[OF assms(1)])
  fix samples :: "inference_sample list" and preds :: "inference_prediction list" and spec :: model_spec
    and job :: inference_job and g :: aggregated and w2 :: infer_world
  let ?trig = "ia_fail_fast a \<and> \<not> all_ok preds"
  let ?w1 = "job_run c job (job_begin c a (new_job c a spec) w)"
  assume ids: "same_ids samples preds"
    and job: "job = job_running c (length samples) (new_job c a spec)"
    and g: "g = aggregate c a job samples preds ?trig"
    and wr: "\<exists>v. write_results env c a spec g v = (Inr res, w2)" and w': "w' = flow_back c g w2"
    and fo: "files_only (?w1\<lparr>iw_store := iw_store w2\<rparr>) w2"
    and gr: "grows_by_batches (ij_job_id job) (iw_store ?w1) (iw_store w2)"
  note agg = aggregate_job[of c a job samples preds ?trig, folded g]
  have len: "length preds = length samples" by (rule same_ids_length[OF ids])
  have j: "ij_job_id job = ic_job_id c" "ij_total job = int (length samples)"
    by (simp_all add: job job_running_def new_job_def)
  have same: "iw_outputs w2 = iw_outputs w" "iw_failures w2 = iw_failures w" using fo by (simp_all add: files_only_def)
  have db: "ats_db (iw_store w2)" and dead: "ats_dead (iw_store w2) = ats_dead (iw_store w)"
    using gr assms(2) by (simp_all add: grows_by_batches_def)
  from grows_types[OF gr] obtain n where n: "map ae_type (ats_jsonl (iw_store w2)) =
      map ae_type (ats_jsonl (iw_store w)) @ [''inference_job_created'', ''inference_job_started''] @ replicate n ''inference_batch_finished''"
    by (auto simp: started_log)
  from flow_back_dead[OF db, of c g] obtain d where d: "ats_dead (iw_store w') = ats_dead (iw_store w) @
        (if jo_exit_code (ag_outcome g) = 0 then [] else [d])" "dl_job_id d = Some (ic_job_id c)"
    by (auto simp: w' dead agg j)
  have log: "map ae_type (ats_jsonl (iw_store w')) = map ae_type (ats_jsonl (iw_store w)) @
      [''inference_job_created'', ''inference_job_started''] @ replicate n ''inference_batch_finished'' @
      [if jo_exit_code (ag_outcome g) = 0 then ''inference_job_finished'' else ''inference_job_failed'']"
    by (simp add: w' flow_back_log n)
  note flow = flow_back_db[OF db, of c g, folded w', unfolded same]
  note sizes = aggregate_outputs[OF len[symmetric], of c a job ?trig, folded g]
  note failed = aggregate_failed_ids[of c a job samples preds ?trig, folded g]
  from wr obtain v where wr: "write_results env c a spec g v = (Inr res, w2)" by blast
  show ?thesis
  proof (rule write_results_Inr[OF wr])
    assume r: "ir_job res = ag_job g" "ir_exit_code res = jo_exit_code (ag_outcome g)"
    show ?thesis
      unfolding r using flow sizes failed d log
      by (intro exI[of _ "ag_outputs g"] exI[of _ "ag_failed g"] exI[of _ d] exI[of _ n]) (simp add: agg j)
  qed
qed

text \<open>C29. Retrying, for each of the back ends: the result holds one prediction per sample in the order of
  the samples; when their ids are distinct, a prediction that succeeded at the first attempt is kept;
  and the only errors are those of the back end.\<close>

theorem predict_with_retry_correct:
  "(\<forall>ps. predict_with_retry (predict_batch be impl spec config) retry batch = Inr ps \<longrightarrow>
      same_ids batch ps \<and>
      (distinct (map is_sample_id batch) \<longrightarrow>
       (\<forall>ps0 i. predict_batch be impl spec config 0 batch = Inr ps0 \<and> i < length batch \<and> ip_status (ps0 ! i) = POK \<longrightarrow>
          ps ! i = ps0 ! i))) \<and>
   (\<forall>e. predict_with_retry (predict_batch be impl spec config) retry batch = Inl e \<longrightarrow>
      (\<exists>k xs. predict_batch be impl spec config k xs = Inl e))"
  using backend.predict_with_retry_ids backend.predict_with_retry_keeps backend.predict_with_retry_Inl by meson

text \<open>A run of a registered model that raises leaves its job behind unsettled: the row of the job
  still says CREATED or RUNNING, no output, failure or dead letter was recorded, and the log has no
  finished and no failed event.\<close>

theorem run_inference_abandons:
  assumes "run_inference env renv be c a w = (Inl e, w')" "ats_db (iw_store w)"
    "get_spec renv (iw_registry w) (ia_model_id a) = Inr (Some spec)"
  shows "(\<exists>job. get_job (iw_jobs w') (ic_job_id c) = Some job \<and> ij_status job \<in> {CREATED, RUNNING}) \<and>
    iw_outputs w' = iw_outputs w \<and> iw_failures w' = iw_failures w \<and>
    ats_dead (iw_store w') = ats_dead (iw_store w) \<and>
    (\<exists>evs. ats_jsonl (iw_store w') = ats_jsonl (iw_store w) @ evs \<and>
       ''inference_job_finished'' \<notin> set (map ae_type evs) \<and> ''inference_job_failed'' \<notin> set (map ae_type evs))"
proof -
  have ab: "abandoned c w w'" by (rule run_inference_Inl[OF assms])
  then obtain evs where "ats_jsonl (iw_store w') = ats_jsonl (iw_store w) @ evs"
      "\<forall>e\<in>set evs. ae_type e \<in> {''inference_job_created'', ''inference_job_started'', ''inference_batch_finished''}"
    unfolding abandoned_def unsettled_log_def by blast
  moreover from this(2) have "''inference_job_finished'' \<notin> set (map ae_type evs)" "''inference_job_failed'' \<notin> set (map ae_type evs)"
    by auto
  ultimately show ?thesis using ab unfolding abandoned_def unsettled_log_def by auto
qed

definition demo_clock :: infer_clock where
  "demo_clock = \<lparr>ic_job_id = ''j'', ic_now = (\<lambda>_. ''t''), ic_duration = 1, ic_stamp = (\<lambda>i. (''o'', ''t''))\<rparr>"

definition demo_args :: "string \<Rightarrow> infer_args" where
  "demo_args out = \<lparr>ia_input_uri = ''/d/v1'', ia_model_id = ''m'', ia_output_uri = out, ia_task_type = None,
     ia_split = ''all'', ia_limit = None, ia_batch_size = None, ia_max_workers = 1, ia_retry = 0,
     ia_timeout = None, ia_fail_fast = False, ia_max_error_rate = 0, ia_dataset_id = None, ia_version = None,
     ia_record = True\<rparr>"

definition demo_world :: infer_world where
  "demo_world = \<lparr>iw_registry = register_db (demo_renv True) demo_spec empty_registry, iw_tables = demo_tables,
     iw_docs = [], iw_store = \<lparr>ats_db = True, ats_jsonl = [], ats_table = [], ats_dead = []\<rparr>,
     iw_jobs = [], iw_outputs = [], iw_failures = []\<rparr>"

lemma demo_run:
  obtains res w' where
    "run_inference demo_lenv (demo_renv True) demo_be demo_clock (demo_args ''/o'') demo_world = (Inr res, w')"
proof -
  have "\<not> isl (fst (run_inference demo_lenv (demo_renv True) demo_be demo_clock (demo_args ''/o'') demo_world))"
    by code_simp
  then show thesis
    using that by (metis prod.collapse sum.collapse(2))
qed


theorem run_inference_records_witness:
  "\<exists>res w'. run_inference demo_lenv (demo_renv True) demo_be demo_clock (demo_args ''/o'') demo_world = (Inr res, w') \<and>
     get_job (iw_jobs w') ''j'' = Some (ir_job res)"
proof (rule demo_run)
  fix res w'
  assume r: "run_inference demo_lenv (demo_renv True) demo_be demo_clock (demo_args ''/o'') demo_world = (Inr res, w')"
  have "ats_db (iw_store demo_world)" by (simp add: demo_world_def)
  from run_inference_records[OF r this] r show ?thesis by (auto simp: demo_clock_def)
qed

theorem run_inference_abandons_witness:
  "\<exists>e w' job. run_inference demo_lenv (demo_renv True) demo_be demo_clock ((demo_args ''/o'')\<lparr>ia_input_uri := ''/x''\<rparr>) demo_world
      = (Inl e, w') \<and> get_job (iw_jobs w') ''j'' = Some job \<and> ij_status job \<in> {CREATED, RUNNING}"
proof -
  let ?run = "run_inference demo_lenv (demo_renv True) demo_be demo_clock ((demo_args ''/o'')\<lparr>ia_input_uri := ''/x''\<rparr>) demo_world"
  have "isl (fst ?run)" by code_simp
  then obtain e w' where r: "?run = (Inl e, w')" by (cases ?run) (auto simp: isl_def)
  have "case get_spec (demo_renv True) (iw_registry demo_world) ''m'' of Inr (Some s) \<Rightarrow> True | _ \<Rightarrow> False"
    by code_simp
  then obtain s where "get_spec (demo_renv True) (iw_registry demo_world) (ia_model_id ((demo_args ''/o'')\<lparr>ia_input_uri := ''/x''\<rparr>)) = Inr (Some s)"
    by (auto simp: demo_args_def split: sum.splits option.splits)
  moreover have "ats_db (iw_store demo_world)" by (simp add: demo_world_def)
  ultimately show ?thesis using run_inference_abandons[OF r] r by (auto simp: demo_clock_def)
qed

theorem predict_with_retry_correct_witness:
  "\<exists>ps. predict_with_retry (predict_batch demo_be MockBackend demo_spec []) 1 [demo_sample ''a''] = Inr ps \<and>
     same_ids [demo_sample ''a''] ps"
proof -
  let ?r = "predict_with_retry (predict_batch demo_be MockBackend demo_spec []) 1 [demo_sample ''a'']"
  have "\<not> isl ?r" by code_simp
  then obtain ps where "?r = Inr ps" by (cases ?r) (auto simp: isl_def split: sum.splits)
  with predict_with_retry_correct[of demo_be MockBackend demo_spec "[]" 1 "[demo_sample ''a'']"] show ?thesis by blast
qed

end
