(* ===== verification/Sql_Runner.thy ===== *)
theory Sql_Runner
  imports Lake_Env
begin

text \<open>
  The SQL template runner, \<^verbatim>\<open>src/robot_dh/warehouse_metrics/sql_runner.py\<close>: loading a
  template below the SQL root, rendering its placeholders, splitting it into statements and executing
  them. Path resolution, the text of files and the database are parameters; the database runs one
  statement at a time, answering with a row count, and a failed transaction is rolled back.
\<close>

section \<open>Templates\<close>

definition name_start :: "char \<Rightarrow> bool" where
  "name_start c = (is_upper c \<or> is_lower c \<or> c = CHR ''_'')"

definition name_char :: "char \<Rightarrow> bool" where
  "name_char c = (is_alnum c \<or> c = CHR ''_'')"

text \<open>A placeholder at the start of the text: its name and what follows it.\<close>

definition match_placeholder :: "string \<Rightarrow> (string \<times> string) option" where
  "match_placeholder s =
     (if starts_with s ''{{'' then
        (let t = dropWhile is_space (drop 2 s);
             name = takeWhile name_char t;
             u = dropWhile is_space (dropWhile name_char t)
         in if name \<noteq> [] \<and> name_start (hd name) \<and> starts_with u ''}}'' then Some (name, drop 2 u) else None)
      else None)"

datatype segment = Lit char | Hole string

lemma match_placeholder_length: "match_placeholder s = Some (n, r) \<Longrightarrow> length r < length s"
proof -
  assume a: "match_placeholder s = Some (n, r)"
  let ?u = "dropWhile is_space (dropWhile name_char (dropWhile is_space (drop 2 s)))"
  have "length ?u \<le> length (drop 2 s)"
    by (rule le_trans[OF length_dropWhile_le le_trans[OF length_dropWhile_le length_dropWhile_le]])
  moreover from a have "r = drop 2 ?u" "prefix ''{{'' s"
    by (auto simp: match_placeholder_def Let_def split: if_splits)
  moreover from this(2) have "2 \<le> length s" by (auto simp: prefix_def)
  ultimately show ?thesis by simp
qed

function segments :: "string \<Rightarrow> segment list" where
  "segments [] = []"
| "segments (c # s) = (case match_placeholder (c # s) of
     Some (n, r) \<Rightarrow> Hole n # segments r | None \<Rightarrow> Lit c # segments s)"
  by pat_completeness auto
termination
  by (relation "measure length") (auto dest: match_placeholder_length)

definition forbidden_char :: "char \<Rightarrow> bool" where
  "forbidden_char c = (c \<in> {CHR '';'', CHR 0x27, CHR 0x22, CHR 0x5C})"

definition unsafe_value :: "string \<Rightarrow> bool" where
  "unsafe_value v = (list_ex forbidden_char v \<or> contains ''--'' v \<or> contains ''/*'' v \<or> contains ''*/'' v)"

type_synonym params = "(string \<times> string) list"

definition merge_params :: "params \<Rightarrow> (string \<times> string option) list \<Rightarrow> params" where
  "merge_params defaults given =
     fold (\<lambda>(k, v) m. case v of None \<Rightarrow> m | Some s \<Rightarrow> dict_set k s m) given defaults"

definition fill_segment :: "params \<Rightarrow> segment \<Rightarrow> string result" where
  "fill_segment merged g = (case g of Lit c \<Rightarrow> Inr [c]
     | Hole n \<Rightarrow> (case map_of merged n of Some v \<Rightarrow> Inr v
         | None \<Rightarrow> Inl (SqlExecutionError (''missing template parameter '' @ n))))"

definition render :: "params \<Rightarrow> string \<Rightarrow> (string \<times> string option) list \<Rightarrow> string result" where
  "render defaults sql given =
     (let merged = merge_params defaults given
      in case find (\<lambda>(k, v). unsafe_value v) merged of
           Some (k, v) \<Rightarrow> Inl (SqlExecutionError (''unsafe parameter value for '' @ k))
         | None \<Rightarrow> rbind (rmap (fill_segment merged) (segments sql)) (\<lambda>parts. Inr (concat parts)))"

section \<open>Statements\<close>

fun split_scan :: "string \<Rightarrow> bool \<Rightarrow> string \<Rightarrow> string list" where
  "split_scan cur in_string [] = (if cur = [] then [] else [cur])"
| "split_scan cur in_string (ch # s) =
     (if ch = CHR 0x27 then split_scan (cur @ [ch]) (\<not> in_string) s
      else if ch = CHR '';'' \<and> \<not> in_string then cur # split_scan [] in_string s
      else split_scan (cur @ [ch]) in_string s)"

definition split_statements :: "string \<Rightarrow> string list" where
  "split_statements sql = split_scan [] False sql"

definition statements_of :: "string \<Rightarrow> string list" where
  "statements_of sql = filter (\<lambda>s. s \<noteq> []) (map strip_ws (split_statements sql))"

section \<open>Loading and executing\<close>

text \<open>\<open>sq_resolve\<close> is \<open>Path.resolve\<close> on path text; \<open>sq_text\<close> the text of the file at a resolved path;
  \<open>sq_run\<close> executes one statement and answers with its row count, if the driver reports one.\<close>

record 'db sql_env =
  sq_root :: string
  sq_resolve :: "string \<Rightarrow> string"
  sq_text :: "string \<Rightarrow> string option"
  sq_run :: "string \<Rightarrow> ('db, int option) act"

definition load_sql :: "'db sql_env \<Rightarrow> string \<Rightarrow> string result" where
  "load_sql env sql_file =
     (let root = sq_resolve env (sq_root env);
          parts = path_parts sql_file;
          resolved =
            (if path_root sql_file \<noteq> [] then sq_resolve env sql_file
             else if take 2 parts = [''warehouse'', ''sql''] then sq_resolve env (posix root (drop 2 parts))
             else sq_resolve env (posix root parts))
      in if \<not> starts_with resolved root then
           Inl (SqlExecutionError (''refusing to load SQL outside warehouse tree: '' @ sql_file))
         else case sq_text env resolved of
             None \<Rightarrow> Inl (SqlExecutionError (''SQL file not found: '' @ sql_file))
           | Some t \<Rightarrow> Inr t)"

datatype affected = Rows int | Unknown_rows

fun run_statements :: "'db sql_env \<Rightarrow> int \<Rightarrow> bool \<Rightarrow> string list \<Rightarrow> ('db, affected) act" where
  "run_statements env n unknown [] = act_return (if unknown \<and> n = 0 then Unknown_rows else Rows n)"
| "run_statements env n unknown (stmt # stmts) =
     act_bind (sq_run env stmt) (\<lambda>rc. case rc of
        None \<Rightarrow> run_statements env n True stmts
      | Some k \<Rightarrow> if k < 0 then run_statements env n True stmts else run_statements env (n + k) unknown stmts)"

text \<open>\<open>with conn.begin()\<close> commits, or rolls back when the block raises; without it nothing commits
  before the connection is closed.\<close>

definition execute_with_engine :: "'db sql_env \<Rightarrow> string \<Rightarrow> bool \<Rightarrow> ('db, affected) act" where
  "execute_with_engine env sql transaction db =
     (let stmts = statements_of sql
      in if stmts = [] then (Inr (Rows 0), db)
         else case run_statements env 0 False stmts db of
           (Inr n, db') \<Rightarrow> (Inr n, if transaction then db' else db)
         | (Inl e, _) \<Rightarrow> (Inl e, db))"

record sql_execution =
  se_file :: string
  se_duration :: rat
  se_status :: string
  se_affected :: affected
  se_error :: "string option"
  se_preview :: string

definition sql_error :: "string \<Rightarrow> rat \<Rightarrow> string \<Rightarrow> string \<Rightarrow> sql_execution" where
  "sql_error sql_file duration err preview =
     \<lparr>se_file = sql_file, se_duration = duration, se_status = ''error'', se_affected = Unknown_rows,
      se_error = Some err, se_preview = preview\<rparr>"

text \<open>\<open>elapsed\<close> is the measured time. \<open>load_sql\<close> and \<open>render\<close> raise only the error that is caught.\<close>

definition execute_sql :: "'db sql_env \<Rightarrow> rat \<Rightarrow> params \<Rightarrow> string \<Rightarrow> (string \<times> string option) list \<Rightarrow> bool \<Rightarrow> bool
    \<Rightarrow> ('db, sql_execution) act" where
  "execute_sql env elapsed defaults sql_file given dry_run transaction db =
     (case load_sql env sql_file of
        Inl err \<Rightarrow> (Inr (sql_error sql_file 0 (err_text err) []), db)
      | Inr raw \<Rightarrow> (case render defaults raw given of
          Inl err \<Rightarrow> (Inr (sql_error sql_file 0 (err_text err) (take 200 raw)), db)
        | Inr rendered \<Rightarrow>
            if dry_run then
              (Inr \<lparr>se_file = sql_file, se_duration = 0, se_status = ''dry-run'', se_affected = Unknown_rows,
                    se_error = None, se_preview = take 400 rendered\<rparr>, db)
            else (case execute_with_engine env rendered transaction db of
                (Inl (SQLAlchemyError m), db') \<Rightarrow> (Inr (sql_error sql_file elapsed m (take 400 rendered)), db')
              | (Inl e, db') \<Rightarrow> (Inl e, db')
              | (Inr n, db') \<Rightarrow>
                  (Inr \<lparr>se_file = sql_file, se_duration = elapsed, se_status = ''ok'', se_affected = n,
                        se_error = None, se_preview = take 400 rendered\<rparr>, db'))))"

section \<open>Rendering keeps the structure of the template\<close>

text \<open>The characters that delimit statements and literals.\<close>

abbreviation skeleton :: "string \<Rightarrow> string" where
  "skeleton \<equiv> filter forbidden_char"

lemma skeleton_none: "\<forall>c\<in>set s. \<not> forbidden_char c \<Longrightarrow> skeleton s = []"
  by (simp add: filter_empty_conv)

lemma placeholder_skeleton: "match_placeholder s = Some (n, r) \<Longrightarrow> skeleton s = skeleton r"
proof -
  assume a: "match_placeholder s = Some (n, r)"
  let ?t = "drop 2 s"
  let ?v = "dropWhile is_space ?t"
  let ?w = "dropWhile name_char ?v"
  let ?u = "dropWhile is_space ?w"
  from a have r: "r = drop 2 ?u" and p: "prefix ''{{'' s" "prefix ''}}'' ?u"
    by (auto simp: match_placeholder_def Let_def split: if_splits)
  have drop_space: "skeleton (dropWhile is_space x) = skeleton x" for x
  proof -
    have "skeleton (takeWhile is_space x) = []"
      by (rule skeleton_none) (auto simp: forbidden_char_def is_space_def dest!: set_takeWhileD)
    then show ?thesis by (metis append_Nil filter_append takeWhile_dropWhile_id)
  qed
  have drop_name: "skeleton (dropWhile name_char x) = skeleton x" for x
  proof -
    have "skeleton (takeWhile name_char x) = []"
      by (rule skeleton_none)
        (auto simp: forbidden_char_def name_char_def is_alnum_def is_digit_def is_upper_def is_lower_def dest!: set_takeWhileD)
    then show ?thesis by (metis append_Nil filter_append takeWhile_dropWhile_id)
  qed
  from p(2) obtain q where "?u = ''}}'' @ q" by (auto simp: prefix_def)
  with r have u: "?u = ''}}'' @ r" by simp
  from p(1) obtain t where "s = ''{{'' @ t" by (auto simp: prefix_def)
  then have s: "s = ''{{'' @ ?t" by simp
  have "skeleton s = skeleton ?t" by (subst s) (simp add: forbidden_char_def)
  also have "\<dots> = skeleton ?u" by (simp add: drop_space drop_name)
  also have "\<dots> = skeleton r" by (subst u) (simp add: forbidden_char_def)
  finally show ?thesis .
qed

primrec segment_skeleton :: "segment \<Rightarrow> string" where
  "segment_skeleton (Lit c) = skeleton [c]"
| "segment_skeleton (Hole n) = []"

lemma segments_skeleton: "skeleton s = concat (map segment_skeleton (segments s))"
proof (induction s rule: segments.induct)
  case (2 c s)
  show ?case
  proof (cases "match_placeholder (c # s)")
    case None
    with 2(1)[OF None] show ?thesis by simp
  next
    case (Some p)
    obtain n r where p: "p = (n, r)" by (cases p)
    have "skeleton (c # s) = skeleton r" using placeholder_skeleton[of "c # s" n r] Some p by simp
    moreover have "segments (c # s) = Hole n # segments r" using Some p by simp
    ultimately show ?thesis using 2(2)[OF Some p[symmetric]] by (simp del: segments.simps filter.simps)
  qed
qed simp

lemma fill_skeleton:
  assumes "\<forall>(k, v)\<in>set merged. \<not> unsafe_value v" "fill_segment merged g = Inr p"
  shows "skeleton p = segment_skeleton g"
proof (cases g)
  case (Lit c)
  with assms(2) show ?thesis by (simp add: fill_segment_def split: if_splits)
next
  case (Hole n)
  with assms(2) have "(n, p) \<in> set merged"
    by (auto simp: fill_segment_def split: option.splits dest: map_of_SomeD)
  with assms(1) have "\<not> list_ex forbidden_char p" by (auto simp: unsafe_value_def)
  with Hole show ?thesis by (auto simp: list_ex_iff intro: skeleton_none)
qed

lemma render_Inr:
  assumes "render defaults sql given = Inr out"
  obtains parts where "\<forall>(k, v)\<in>set (merge_params defaults given). \<not> unsafe_value v"
    "rmap (fill_segment (merge_params defaults given)) (segments sql) = Inr parts" "out = concat parts"
  using assms
  by (auto simp: render_def Let_def rbind_Inr_iff find_None_iff split: option.splits prod.splits)

lemma render_skeleton:
  assumes "render defaults sql given = Inr out"
  shows "skeleton out = skeleton sql"
proof (rule render_Inr[OF assms])
  fix parts
  assume safe: "\<forall>(k, v)\<in>set (merge_params defaults given). \<not> unsafe_value v"
    and parts: "rmap (fill_segment (merge_params defaults given)) (segments sql) = Inr parts" and out: "out = concat parts"
  from parts have "list_all2 (\<lambda>g p. skeleton p = segment_skeleton g) (segments sql) parts"
    unfolding rmap_Inr_iff by (rule list_all2_mono) (rule fill_skeleton[OF safe])
  then have "skeleton (concat parts) = concat (map segment_skeleton (segments sql))"
    by (induction rule: list_all2_induct) simp_all
  then show ?thesis by (simp add: out segments_skeleton[symmetric])
qed

text \<open>The separators: semicolons outside single quotes.\<close>

fun separators :: "bool \<Rightarrow> string \<Rightarrow> nat" where
  "separators in_string [] = 0"
| "separators in_string (ch # s) =
     (if ch = CHR 0x27 then separators (\<not> in_string) s
      else if ch = CHR '';'' \<and> \<not> in_string then Suc (separators in_string s)
      else separators in_string s)"

lemma separators_skeleton: "separators b (skeleton s) = separators b s"
  by (induction b s rule: separators.induct) (auto simp: forbidden_char_def)

section \<open>Splitting\<close>

fun ends_inside :: "bool \<Rightarrow> string \<Rightarrow> bool" where
  "ends_inside b [] = b"
| "ends_inside b (ch # s) = ends_inside (if ch = CHR 0x27 then \<not> b else b) s"

lemma separators_append: "separators b (s @ t) = separators b s + separators (ends_inside b s) t"
  by (induction b s rule: separators.induct) auto

lemma ends_inside_append: "ends_inside b (s @ t) = ends_inside (ends_inside b s) t"
  by (induction b s rule: ends_inside.induct) auto

lemma split_scan_ne: "split_scan cur b s = [] \<longleftrightarrow> cur = [] \<and> s = []"
  by (induction cur b s rule: split_scan.induct) auto

lemma split_scan_join:
  "join '';'' (split_scan cur b s) = cur @ s \<or> join '';'' (split_scan cur b s) @ '';'' = cur @ s"
proof (induction cur b s rule: split_scan.induct)
  case (2 cur b ch s)
  show ?case
  proof (cases "ch = CHR '';'' \<and> \<not> b")
    case True
    then have eq: "split_scan cur b (ch # s) = cur # split_scan [] b s" by simp
    from 2 True have ih: "join '';'' (split_scan [] b s) = s \<or> join '';'' (split_scan [] b s) @ '';'' = s" by simp
    show ?thesis
    proof (cases "split_scan [] b s = []")
      case empty: True
      then have "s = []" by (simp add: split_scan_ne)
      with True empty show ?thesis by (simp add: eq)
    next
      case False
      with ih True show ?thesis by (auto simp: eq join_Cons)
    qed
  next
    case False
    with 2 show ?thesis by auto
  qed
qed simp


lemma split_scan_pieces:
  assumes "separators False cur = 0" "ends_inside False cur = b" "p \<in> set (split_scan cur b s)"
  shows "separators False p = 0"
  using assms
proof (induction cur b s rule: split_scan.induct)
  case (1 cur b)
  then show ?case by (simp split: if_splits)
next
  case (2 cur b ch s)
  consider (quote) "ch = CHR 0x27" | (semi) "ch \<noteq> CHR 0x27" "ch = CHR '';'' \<and> \<not> b"
    | (other) "ch \<noteq> CHR 0x27" "\<not> (ch = CHR '';'' \<and> \<not> b)" by blast
  then show ?case
  proof cases
    case quote
    then show ?thesis using 2 by (simp add: separators_append ends_inside_append)
  next
    case semi
    then show ?thesis using 2 by auto
  next
    case other
    then have "separators b [ch] = 0" by simp
    then show ?thesis using 2 other by (auto simp: separators_append ends_inside_append)
  qed
qed

lemma split_scan_length:
  "length (split_scan cur b s) = separators b s \<or> length (split_scan cur b s) = Suc (separators b s)"
  by (induction cur b s rule: split_scan.induct) auto

section \<open>Execution\<close>

text \<open>The statements run to the end, one after another.\<close>

fun run_all :: "'db sql_env \<Rightarrow> string list \<Rightarrow> 'db \<Rightarrow> 'db option" where
  "run_all env [] db = Some db"
| "run_all env (stmt # stmts) db = (case sq_run env stmt db of
     (Inl e, _) \<Rightarrow> None | (Inr _, db') \<Rightarrow> run_all env stmts db')"

lemma run_statements_all:
  "run_statements env n u stmts db = (Inr m, db') \<Longrightarrow> run_all env stmts db = Some db'"
proof (induction stmts arbitrary: n u db)
  case Nil
  then show ?case by (simp add: act_return_def)
next
  case (Cons stmt stmts)
  obtain rc d where r: "sq_run env stmt db = (rc, d)" by (cases "sq_run env stmt db")
  show ?case
  proof (cases rc)
    case (Inl e)
    with Cons.prems r show ?thesis by (simp add: act_bind_def)
  next
    case (Inr k)
    with Cons.prems r have "\<exists>n u. run_statements env n u stmts d = (Inr m, db')"
      by (auto simp: act_bind_def split: option.splits if_splits)
    with Cons.IH r Inr show ?thesis by auto
  qed
qed

lemma execute_with_engine_cases:
  assumes "execute_with_engine env sql tr db = (r, db')"
  shows "case r of Inl e \<Rightarrow> db' = db
     | Inr n \<Rightarrow> \<exists>d. run_all env (statements_of sql) db = Some d \<and> db' = (if tr then d else db)"
  using assms
  by (auto simp: execute_with_engine_def Let_def split: if_splits prod.splits sum.splits dest: run_statements_all)

section \<open>Properties\<close>

text \<open>Rendering cannot change the structure of a template: in what it returns, the semicolons, quotes
  and backslashes are those of the template, in their order, and it has the same statement separators.\<close>

theorem render_keeps_structure:
  assumes "render defaults sql given = Inr out"
  shows "filter forbidden_char out = filter forbidden_char sql \<and> separators False out = separators False sql"
  using render_skeleton[OF assms] separators_skeleton[of False out] separators_skeleton[of False sql] by simp

text \<open>Rendering fails exactly when a parameter has a forbidden value or a placeholder has no
  parameter.\<close>

theorem render_total:
  "(\<exists>out. render defaults sql given = Inr out) \<longleftrightarrow>
   \<not> list_ex (\<lambda>(k, v). unsafe_value v) (merge_params defaults given) \<and>
   {n. Hole n \<in> set (segments sql)} \<subseteq> set (dict_keys (merge_params defaults given))"
proof -
  let ?m = "merge_params defaults given"
  have fill: "(\<exists>p. fill_segment ?m g = Inr p) \<longleftrightarrow> (\<forall>n. g = Hole n \<longrightarrow> n \<in> set (dict_keys ?m))" for g
    by (cases g) (auto simp: fill_segment_def map_of_eq_None_iff image_iff split: option.splits dest!: map_of_SomeD, force)
  have ok: "(\<exists>ps. rmap (fill_segment ?m) gs = Inr ps) \<longleftrightarrow> (\<forall>g\<in>set gs. \<exists>p. fill_segment ?m g = Inr p)" for gs
    by (induction gs) (auto simp: rbind_Inr_iff)
  have find: "find (\<lambda>(k, v). unsafe_value v) ?m = None \<longleftrightarrow> \<not> list_ex (\<lambda>(k, v). unsafe_value v) ?m"
    by (auto simp: find_None_iff list_ex_iff)
  have "(\<exists>out. render defaults sql given = Inr out) \<longleftrightarrow>
      find (\<lambda>(k, v). unsafe_value v) ?m = None \<and> (\<exists>ps. rmap (fill_segment ?m) (segments sql) = Inr ps)"
    by (auto simp: render_def Let_def rbind_Inr_iff split: option.splits)
  then show ?thesis unfolding find ok fill by blast
qed

text \<open>Splitting loses nothing but a final semicolon, and no piece contains a separator.\<close>

theorem split_statements_correct:
  "(join '';'' (split_statements sql) = sql \<or> join '';'' (split_statements sql) @ '';'' = sql) \<and>
   list_all (\<lambda>p. separators False p = 0) (split_statements sql) \<and>
   length (split_statements sql) \<in> {separators False sql, Suc (separators False sql)}"
  using split_scan_join[of "[]" False sql] split_scan_pieces[of "[]" False _ sql] split_scan_length[of "[]" False sql]
  by (auto simp: split_statements_def list_all_iff)


definition demo_sql_env :: "nat sql_env" where
  "demo_sql_env = \<lparr>sq_root = ''/w/sql'', sq_resolve = (\<lambda>p. p),
     sq_text = (\<lambda>p. if p = ''/w/sql/a.sql'' then Some ''use {{ s }}; go;'' else if p = ''/w/sqlx/b.sql'' then Some ''x'' else None),
     sq_run = (\<lambda>_ n. (Inr (Some 1), Suc n))\<rparr>"

text \<open>The guard that keeps files below the SQL root compares text, so that a file of a sibling
  directory whose name extends the root's is loaded.\<close>

theorem load_sql_sibling:
  "load_sql demo_sql_env ''/w/sqlx/b.sql'' = Inr ''x'' \<and>
   \<not> starts_with ''/w/sqlx/b.sql'' (sq_resolve demo_sql_env (sq_root demo_sql_env) @ ''/'') \<and>
   \<not> isl (load_sql demo_sql_env ''warehouse/sql/a.sql'') \<and> isl (load_sql demo_sql_env ''/etc/b.sql'')"
  by code_simp

lemma demo_render: "render [] ''use {{ s }}; go;'' [(''s'', Some ''v'')] = Inr ''use v; go;''"
  by code_simp

theorem render_keeps_structure_witness:
  "filter forbidden_char ''use v; go;'' = filter forbidden_char ''use {{ s }}; go;'' \<and> separators False ''use v; go;'' = 2"
  using render_keeps_structure[OF demo_render] by simp

lemma demo_execute:
  "execute_sql demo_sql_env 1 [] ''a.sql'' [(''s'', Some ''v'')] False True 0 =
     (Inr \<lparr>se_file = ''a.sql'', se_duration = 1, se_status = ''ok'', se_affected = Rows 2, se_error = None,
           se_preview = ''use v; go;''\<rparr>, 2)"
  by code_simp


end
