(* ===== verification/Gate.thy ===== *)
theory Gate
  imports Py_Values
begin

text \<open>
  The quality gate, \<^verbatim>\<open>src/robot_dh/gate/\<close>: loading a policy from its parsed document
  (\<^verbatim>\<open>policy.py\<close>) and evaluating it on the metrics of a report
  (\<^verbatim>\<open>evaluator.py\<close>). The YAML and JSON parsers are not modelled: the documents are values.
\<close>

section \<open>Policies\<close>

definition supported_operators :: "string list" where
  "supported_operators = [''<='', ''<'', ''>='', ''>'', ''=='', ''!='', ''between'', ''in'']"

definition supported_severities :: "string list" where
  "supported_severities = [''fail'', ''warn'']"

record gate_rule =
  gr_name :: string
  gr_metric :: string
  gr_op :: string
  gr_value :: pyval
  gr_severity :: string

definition load_rule :: "pyval \<Rightarrow> gate_rule result" where
  "load_rule raw = (case raw of
     VDict d \<Rightarrow>
       rbind (item d ''name'') (\<lambda>name. rbind (item d ''metric'') (\<lambda>metric. rbind (item d ''op'') (\<lambda>op'.
       rbind (item d ''value'') (\<lambda>value. rbind (item d ''severity'') (\<lambda>severity.
         let r = \<lparr>gr_name = py_str name, gr_metric = py_str metric, gr_op = py_str op', gr_value = value,
                  gr_severity = lower (py_str severity)\<rparr>
         in if gr_op r \<notin> set supported_operators then Inl (ValueError (''Unsupported gate operator '' @ gr_op r))
            else if gr_severity r \<notin> set supported_severities then Inl (ValueError (''Unsupported gate severity '' @ gr_severity r))
            else Inr r)))))
   | _ \<Rightarrow> Inl (ValueError ''Gate rule must be a mapping''))"

text \<open>\<open>document\<close> is the parsed file, \<open>None\<close> when there is none.\<close>

definition load_gate_policy :: "pyval option \<Rightarrow> gate_rule list result" where
  "load_gate_policy document = (case document of
     None \<Rightarrow> Inl (FileNotFoundError ''Gate policy file not found'')
   | Some v \<Rightarrow> rbind (as_mapping (py_or v (VDict []))) (\<lambda>payload.
       case get payload ''rules'' of
         VList raws \<Rightarrow> rmap load_rule raws
       | _ \<Rightarrow> Inl (ValueError ''Gate policy must contain a rules list'')))"

section \<open>Evaluation\<close>

text \<open>\<open>lower_bound, upper_bound = rule.value\<close>: two items of a list, two characters of a string, or the two
  keys of a dictionary.\<close>

definition unpack2 :: "pyval \<Rightarrow> (pyval \<times> pyval) result" where
  "unpack2 v = (case v of
     VList [a, b] \<Rightarrow> Inr (a, b) | VList _ \<Rightarrow> Inl (ValueError ''unpack'')
   | VStr [a, b] \<Rightarrow> Inr (VStr [a], VStr [b]) | VStr _ \<Rightarrow> Inl (ValueError ''unpack'')
   | VDict [(a, _), (b, _)] \<Rightarrow> Inr (VStr a, VStr b) | VDict _ \<Rightarrow> Inl (ValueError ''unpack'')
   | _ \<Rightarrow> Inl (TypeError ''cannot unpack''))"

definition compare_floats :: "(rat \<Rightarrow> rat \<Rightarrow> bool) \<Rightarrow> pyval \<Rightarrow> pyval \<Rightarrow> bool result" where
  "compare_floats f a b = rbind (py_float a) (\<lambda>x. rbind (py_float b) (\<lambda>y. Inr (f x y)))"

definition evaluate_gate_rule :: "pyval \<Rightarrow> gate_rule \<Rightarrow> bool result" where
  "evaluate_gate_rule actual r =
     (let op' = gr_op r; value = gr_value r
      in if actual = VNone then Inr False
         else if op' = ''<='' then compare_floats (\<le>) actual value
         else if op' = ''<'' then compare_floats (<) actual value
         else if op' = ''>='' then compare_floats (\<ge>) actual value
         else if op' = ''>'' then compare_floats (>) actual value
         else if op' = ''=='' then Inr (py_eq actual value)
         else if op' = ''!='' then Inr (\<not> py_eq actual value)
         else if op' = ''between'' then
           rbind (unpack2 value) (\<lambda>(lo, hi).
           rbind (py_float lo) (\<lambda>l. rbind (py_float actual) (\<lambda>x.
             if l \<le> x then rbind (py_float hi) (\<lambda>h. Inr (x \<le> h)) else Inr False)))
         else if op' = ''in'' then
           (case py_in actual value of Some b \<Rightarrow> Inr b | None \<Rightarrow> Inl (TypeError ''in''))
         else Inl (ValueError (''Unsupported gate operator: '' @ op')))"

datatype gate_status = GPASS | GWARN | GFAIL

record gate_report =
  gt_status :: gate_status
  gt_results :: "(gate_rule \<times> pyval \<times> bool) list"
  gt_failed :: "string list"
  gt_warnings :: "string list"

text \<open>The loop over the rules with its three accumulators; the first rule that raises ends it.\<close>

fun gate_loop :: "pydict \<Rightarrow> gate_rule list \<Rightarrow> (gate_rule \<times> pyval \<times> bool) list \<Rightarrow> string list \<Rightarrow> string list
    \<Rightarrow> ((gate_rule \<times> pyval \<times> bool) list \<times> string list \<times> string list) result" where
  "gate_loop metrics [] results failed warns = Inr (results, failed, warns)"
| "gate_loop metrics (r # rs) results failed warns =
     (let actual = get metrics (gr_metric r)
      in rbind (evaluate_gate_rule actual r) (\<lambda>passed.
         let results' = results @ [(r, actual, passed)]
         in if passed then gate_loop metrics rs results' failed warns
            else if gr_severity r = ''fail'' then gate_loop metrics rs results' (failed @ [gr_name r]) warns
            else gate_loop metrics rs results' failed (warns @ [gr_name r])))"

definition evaluate_gate :: "pydict \<Rightarrow> gate_rule list \<Rightarrow> gate_report result" where
  "evaluate_gate metrics policy =
     rbind (gate_loop metrics policy [] [] []) (\<lambda>(results, failed, warns).
       Inr \<lparr>gt_status = (if failed \<noteq> [] then GFAIL else if warns \<noteq> [] then GWARN else GPASS),
            gt_results = results, gt_failed = failed, gt_warnings = warns\<rparr>)"

text \<open>\<open>report.get("metrics", {})\<close> of a report that may have none.\<close>

definition evaluate_report :: "pydict \<Rightarrow> pyval option \<Rightarrow> (gate_report \<times> pyval \<times> pyval) result" where
  "evaluate_report report document =
     rbind (load_gate_policy document) (\<lambda>policy.
     rbind (as_mapping (get_or report ''metrics'' (VDict []))) (\<lambda>metrics.
     rbind (evaluate_gate metrics policy) (\<lambda>g.
       Inr (g, get report ''run_id'', get report ''dataset_id''))))"

section \<open>Facts\<close>

definition rule_passes :: "pydict \<Rightarrow> gate_rule \<Rightarrow> bool" where
  "rule_passes metrics r = (evaluate_gate_rule (get metrics (gr_metric r)) r = Inr True)"

lemma gate_loop_Inr:
  "gate_loop metrics rs results failed warns = Inr (results', failed', warns') \<Longrightarrow>
   results' = results @ map (\<lambda>r. (r, get metrics (gr_metric r), rule_passes metrics r)) rs \<and>
   failed' = failed @ map gr_name (filter (\<lambda>r. \<not> rule_passes metrics r \<and> gr_severity r = ''fail'') rs) \<and>
   warns' = warns @ map gr_name (filter (\<lambda>r. \<not> rule_passes metrics r \<and> gr_severity r \<noteq> ''fail'') rs)"
proof (induction rs arbitrary: results failed warns)
  case (Cons r rs)
  let ?a = "get metrics (gr_metric r)"
  from Cons.prems obtain passed where p: "evaluate_gate_rule ?a r = Inr passed"
    by (auto simp: Let_def rbind_Inr_iff)
  show ?case
  proof (cases passed)
    case True
    with Cons.prems p have "gate_loop metrics rs (results @ [(r, ?a, True)]) failed warns = Inr (results', failed', warns')"
      by (simp add: Let_def)
    from Cons.IH[OF this] p True show ?thesis by (simp add: rule_passes_def)
  next
    case False
    show ?thesis
    proof (cases "gr_severity r = ''fail''")
      case sev: True
      with Cons.prems p False have
        "gate_loop metrics rs (results @ [(r, ?a, False)]) (failed @ [gr_name r]) warns = Inr (results', failed', warns')"
        by (simp add: Let_def)
      from Cons.IH[OF this] p False sev show ?thesis by (simp add: rule_passes_def)
    next
      case sev: False
      with Cons.prems p False have
        "gate_loop metrics rs (results @ [(r, ?a, False)]) failed (warns @ [gr_name r]) = Inr (results', failed', warns')"
        by (simp add: Let_def)
      from Cons.IH[OF this] p False sev show ?thesis by (simp add: rule_passes_def)
    qed
  qed
qed simp

lemma load_rule_Inr: "load_rule raw = Inr r \<Longrightarrow> gr_op r \<in> set supported_operators \<and> gr_severity r \<in> set supported_severities"
  by (auto simp: load_rule_def rbind_Inr_iff Let_def split: pyval.splits if_splits)

lemma load_gate_policy_rules:
  assumes "load_gate_policy document = Inr rules" "r \<in> set rules"
  shows "gr_op r \<in> set supported_operators \<and> gr_severity r \<in> set supported_severities"
proof -
  from assms(1) obtain payload where p: "(case get payload ''rules'' of VList raws \<Rightarrow> rmap load_rule raws
       | _ \<Rightarrow> Inl (ValueError ''Gate policy must contain a rules list'')) = Inr rules"
    by (auto simp: load_gate_policy_def rbind_Inr_iff split: option.splits)
  then obtain raws where "rmap load_rule raws = Inr rules" by (cases "get payload ''rules''") auto
  then have "list_all2 (\<lambda>raw r. load_rule raw = Inr r) raws rules" by (simp add: rmap_Inr_iff)
  with assms(2) obtain raw where "load_rule raw = Inr r" by (auto simp: list_all2_conv_all_nth in_set_conv_nth)
  then show ?thesis by (rule load_rule_Inr)
qed

lemma evaluate_gate_Inr:
  assumes "evaluate_gate metrics rules = Inr g"
  shows "gt_results g = map (\<lambda>r. (r, get metrics (gr_metric r), rule_passes metrics r)) rules"
    "gt_failed g = map gr_name (filter (\<lambda>r. \<not> rule_passes metrics r \<and> gr_severity r = ''fail'') rules)"
    "gt_warnings g = map gr_name (filter (\<lambda>r. \<not> rule_passes metrics r \<and> gr_severity r \<noteq> ''fail'') rules)"
    "gt_status g = (if gt_failed g \<noteq> [] then GFAIL else if gt_warnings g \<noteq> [] then GWARN else GPASS)"
proof -
  from assms obtain res f w where l: "gate_loop metrics rules [] [] [] = Inr (res, f, w)"
      "g = \<lparr>gt_status = (if f \<noteq> [] then GFAIL else if w \<noteq> [] then GWARN else GPASS),
            gt_results = res, gt_failed = f, gt_warnings = w\<rparr>"
    by (auto simp: evaluate_gate_def rbind_Inr_iff)
  from gate_loop_Inr[OF l(1)] l(2) show
    "gt_results g = map (\<lambda>r. (r, get metrics (gr_metric r), rule_passes metrics r)) rules"
    "gt_failed g = map gr_name (filter (\<lambda>r. \<not> rule_passes metrics r \<and> gr_severity r = ''fail'') rules)"
    "gt_warnings g = map gr_name (filter (\<lambda>r. \<not> rule_passes metrics r \<and> gr_severity r \<noteq> ''fail'') rules)"
    "gt_status g = (if gt_failed g \<noteq> [] then GFAIL else if gt_warnings g \<noteq> [] then GWARN else GPASS)"
    by auto
qed

section \<open>Properties\<close>

text \<open>The verdict of a gate: FAIL exactly when a rule of severity fail does not pass, PASS exactly when
  every rule passes; the names of the rules that do not pass are split by severity in the order of the
  policy, and a metric that is absent passes no rule.\<close>

theorem evaluate_gate_correct:
  assumes "evaluate_gate metrics rules = Inr g"
  shows "(gt_status g = GFAIL \<longleftrightarrow> list_ex (\<lambda>r. \<not> rule_passes metrics r \<and> gr_severity r = ''fail'') rules) \<and>
    (gt_status g = GPASS \<longleftrightarrow> list_all (rule_passes metrics) rules) \<and>
    gt_failed g = map gr_name (filter (\<lambda>r. \<not> rule_passes metrics r \<and> gr_severity r = ''fail'') rules) \<and>
    gt_warnings g = map gr_name (filter (\<lambda>r. \<not> rule_passes metrics r \<and> gr_severity r \<noteq> ''fail'') rules) \<and>
    length (gt_results g) = length rules \<and>
    list_all (\<lambda>r. get metrics (gr_metric r) \<noteq> VNone \<or> \<not> rule_passes metrics r) rules"
proof -
  note e = evaluate_gate_Inr[OF assms]
  have absent: "\<not> rule_passes metrics r" if "get metrics (gr_metric r) = VNone" for r
    using that by (simp add: rule_passes_def evaluate_gate_rule_def)
  have "gt_status g = GFAIL \<longleftrightarrow> list_ex (\<lambda>r. \<not> rule_passes metrics r \<and> gr_severity r = ''fail'') rules"
    using e(4) by (auto simp: e(2) filter_empty_conv list_ex_iff split: if_splits)
  moreover have "gt_status g = GPASS \<longleftrightarrow> list_all (rule_passes metrics) rules"
    using e(4) by (auto simp: e(2,3) filter_empty_conv list_all_iff split: if_splits)
  ultimately show ?thesis using e(1,2,3) absent by (auto simp: list_all_iff)
qed

text \<open>A loaded policy is well formed, so that evaluating one of its rules never meets an operator it
  does not know: every error is a value that has no float, that cannot be unpacked or searched.\<close>

theorem loaded_policy_supported:
  assumes "load_gate_policy document = Inr rules" "r \<in> set rules"
  shows "gr_op r \<in> set supported_operators \<and> gr_severity r \<in> set supported_severities \<and>
    (isl (evaluate_gate_rule actual r) \<longrightarrow>
      (gr_op r \<in> {''<='', ''<'', ''>='', ''>''} \<and> (isl (py_float actual) \<or> isl (py_float (gr_value r)))) \<or>
      (gr_op r = ''between'' \<and> (isl (py_float actual) \<or> isl (unpack2 (gr_value r)) \<or>
         (\<exists>lo hi. unpack2 (gr_value r) = Inr (lo, hi) \<and> (isl (py_float lo) \<or> isl (py_float hi))))) \<or>
      (gr_op r = ''in'' \<and> py_in actual (gr_value r) = None))"
proof -
  note s = load_gate_policy_rules[OF assms]
  have cmp: "isl (compare_floats f a b) \<Longrightarrow> isl (py_float a) \<or> isl (py_float b)" for f a b
    by (cases "py_float a"; cases "py_float b") (auto simp: compare_floats_def)
  have btw: "isl (rbind (unpack2 v) (\<lambda>(lo, hi). rbind (py_float lo) (\<lambda>l. rbind (py_float actual) (\<lambda>x.
             if l \<le> x then rbind (py_float hi) (\<lambda>h. Inr (x \<le> h)) else Inr False)))) \<Longrightarrow>
      isl (py_float actual) \<or> isl (unpack2 v) \<or>
      (\<exists>lo hi. unpack2 v = Inr (lo, hi) \<and> (isl (py_float lo) \<or> isl (py_float hi)))" for v
    by (auto simp: rbind_def split: sum.splits if_splits)
  let ?v = "gr_value r"
  let ?between = "rbind (unpack2 ?v) (\<lambda>(lo, hi). rbind (py_float lo) (\<lambda>l. rbind (py_float actual) (\<lambda>x.
             if l \<le> x then rbind (py_float hi) (\<lambda>h. Inr (x \<le> h)) else Inr False)))"
  have ops: "gr_op r \<in> {''<='', ''<'', ''>='', ''>'', ''=='', ''!='', ''between'', ''in''}"
    using s by (simp add: supported_operators_def)
  show ?thesis
  proof (cases "isl (evaluate_gate_rule actual r)")
    case False
    with s show ?thesis by simp
  next
    case True
    then have some: "actual \<noteq> VNone" by (auto simp: evaluate_gate_rule_def)
    note ev = evaluate_gate_rule_def[of actual r, unfolded Let_def if_not_P[OF some]]
    from ops consider "gr_op r = ''<=''" | "gr_op r = ''<''" | "gr_op r = ''>=''" | "gr_op r = ''>''"
      | "gr_op r = ''==''" | "gr_op r = ''!=''" | "gr_op r = ''between''" | "gr_op r = ''in''" by blast
    then show ?thesis
    proof cases
      case 1
      then have "isl (compare_floats (\<le>) actual ?v)" using True by (simp add: ev)
      from cmp[OF this] show ?thesis using s by (simp add: 1)
    next
      case 2
      then have "isl (compare_floats (<) actual ?v)" using True by (simp add: ev)
      from cmp[OF this] show ?thesis using s by (simp add: 2)
    next
      case 3
      then have "isl (compare_floats (\<ge>) actual ?v)" using True by (simp add: ev)
      from cmp[OF this] show ?thesis using s by (simp add: 3)
    next
      case 4
      then have "isl (compare_floats (>) actual ?v)" using True by (simp add: ev)
      from cmp[OF this] show ?thesis using s by (simp add: 4)
    next
      case 5
      then show ?thesis using True by (simp add: ev)
    next
      case 6
      then show ?thesis using True by (simp add: ev)
    next
      case 7
      then have "isl ?between" using True by (simp add: ev)
      from btw[OF this] show ?thesis using s by (simp add: 7)
    next
      case 8
      then show ?thesis using True s by (simp add: ev split: option.splits)
    qed
  qed
qed

definition demo_policy :: pyval where
  "demo_policy = VDict [(''rules'', VList
     [VDict [(''name'', VStr ''a''), (''metric'', VStr ''x''), (''op'', VStr ''>=''), (''value'', VInt 2), (''severity'', VStr ''FAIL'')],
      VDict [(''name'', VStr ''b''), (''metric'', VStr ''y''), (''op'', VStr ''in''), (''value'', VList [VInt 1]), (''severity'', VStr ''warn'')]])]"

definition demo_rules :: "gate_rule list" where
  "demo_rules = [\<lparr>gr_name = ''a'', gr_metric = ''x'', gr_op = ''>='', gr_value = VInt 2, gr_severity = ''fail''\<rparr>,
     \<lparr>gr_name = ''b'', gr_metric = ''y'', gr_op = ''in'', gr_value = VList [VInt 1], gr_severity = ''warn''\<rparr>]"

lemma demo_load: "load_gate_policy (Some demo_policy) = Inr demo_rules"
  by code_simp

theorem evaluate_gate_correct_witness:
  "\<exists>g. evaluate_gate [(''x'', VFloat (5/2))] demo_rules = Inr g \<and> gt_warnings g = [''b''] \<and> gt_status g \<noteq> GFAIL"
proof -
  have "\<not> isl (evaluate_gate [(''x'', VFloat (5/2))] demo_rules)" by code_simp
  then obtain g where g: "evaluate_gate [(''x'', VFloat (5/2))] demo_rules = Inr g"
    by (auto simp: isl_def) (metis sum.exhaust)
  have "map (rule_passes [(''x'', VFloat (5/2))]) demo_rules = [True, False]" by code_simp
  with evaluate_gate_correct[OF g] g show ?thesis by (auto simp: demo_rules_def)
qed

theorem loaded_policy_supported_witness:
  "\<exists>r. r \<in> set demo_rules \<and> gr_op r = ''in'' \<and> gr_severity r \<in> set supported_severities"
proof -
  have "demo_rules ! 1 \<in> set demo_rules" by (simp add: demo_rules_def)
  from loaded_policy_supported[OF demo_load this] show ?thesis
    by (intro exI[of _ "demo_rules ! 1"]) (simp add: demo_rules_def)
qed

end
