(* ===== verification/Qc.thy ===== *)
theory Qc
  imports Py_Values
begin

text \<open>
  The quality contracts, \<^verbatim>\<open>src/robot_dh/qc/\<close>: rules and their evaluation (\<^verbatim>\<open>base.py\<close>), the
  metrics and rules of each dataset family (\<^verbatim>\<open>universal.py\<close>, \<^verbatim>\<open>droid.py\<close>,
  \<^verbatim>\<open>robomimic.py\<close>, \<^verbatim>\<open>bridge.py\<close>), their registry (\<^verbatim>\<open>registry.py\<close>) and a contract run
  (\<^verbatim>\<open>contracts.py\<close>). The probes of the files are not modelled: a profile holds what they found.
\<close>

section \<open>Statuses\<close>

datatype qc_status = QPASS | QWARN | QFAIL

text \<open>Statuses are ordered by gravity.\<close>

instantiation qc_status :: linorder
begin

fun gravity :: "qc_status \<Rightarrow> nat" where
  "gravity QPASS = 0" | "gravity QWARN = 1" | "gravity QFAIL = 2"

definition less_eq_qc_status :: "qc_status \<Rightarrow> qc_status \<Rightarrow> bool" where
  "less_eq_qc_status a b = (gravity a \<le> gravity b)"

definition less_qc_status :: "qc_status \<Rightarrow> qc_status \<Rightarrow> bool" where
  "less_qc_status a b = (gravity a < gravity b)"

lemma gravity_inject: "gravity a = gravity b \<Longrightarrow> a = b"
  by (cases a; cases b) auto

instance
  by standard (auto simp: less_eq_qc_status_def less_qc_status_def intro: gravity_inject)

end

instantiation qc_status :: order_bot
begin

definition bot_qc_status :: qc_status where
  "bot_qc_status = QPASS"

instance
  by standard (simp add: less_eq_qc_status_def bot_qc_status_def)

end

section \<open>Rules\<close>

record qc_rule =
  ru_id :: string
  ru_metric :: string
  ru_op :: string
  ru_threshold :: pyval
  ru_severity :: string

record rule_result =
  rr_rule_id :: string
  rr_metric :: string
  rr_op :: string
  rr_threshold :: pyval
  rr_actual :: pyval
  rr_severity :: string
  rr_status :: qc_status

text \<open>A comparison that raises a \<open>TypeError\<close> counts as not satisfied.\<close>

definition or_false :: "bool option \<Rightarrow> bool" where
  "or_false o' = (case o' of Some b \<Rightarrow> b | None \<Rightarrow> False)"

definition rule_ok :: "qc_rule \<Rightarrow> pyval \<Rightarrow> bool" where
  "rule_ok r actual =
     (let op' = ru_op r; thr = ru_threshold r
      in if actual = VNone then op' = ''missing-ok''
         else if op' = ''>='' then or_false (py_le thr actual)
         else if op' = ''<='' then or_false (py_le actual thr)
         else if op' = ''>'' then or_false (py_lt thr actual)
         else if op' = ''<'' then or_false (py_lt actual thr)
         else if op' = ''=='' then py_eq actual thr
         else if op' = ''!='' then \<not> py_eq actual thr
         else if op' = ''in'' then or_false (py_in actual thr)
         else if op' = ''exists'' then \<not> py_eq actual (VStr [])
         else False)"

definition evaluate_rule :: "qc_rule \<Rightarrow> pyval \<Rightarrow> rule_result" where
  "evaluate_rule r actual =
     \<lparr>rr_rule_id = ru_id r, rr_metric = ru_metric r, rr_op = ru_op r, rr_threshold = ru_threshold r,
      rr_actual = actual, rr_severity = ru_severity r,
      rr_status = (if rule_ok r actual then QPASS else if ru_severity r = ''warn'' then QWARN
                   else if ru_severity r = ''fail'' then QFAIL else QPASS)\<rparr>"

definition aggregate_status :: "rule_result list \<Rightarrow> qc_status" where
  "aggregate_status rs =
     (if list_ex (\<lambda>r. rr_status r = QFAIL) rs then QFAIL
      else if list_ex (\<lambda>r. rr_status r = QWARN) rs then QWARN else QPASS)"

section \<open>Profiles\<close>

text \<open>An asset profile: the counters and the parts of its dictionary that the metrics read, where an
  absent part is empty.\<close>

record asset_profile =
  ap_bytes :: "int option"
  ap_files_count :: "int option"
  ap_episodes_count :: "int option"
  ap_parquet :: "pydict list"
  ap_hdf5 :: "pydict list"
  ap_video :: "pydict list"
  ap_overview :: pydict
  ap_lerobot :: pydict

definition count_if :: "('a \<Rightarrow> bool) \<Rightarrow> 'a list \<Rightarrow> int" where
  "count_if f xs = int (length (filter f xs))"

definition has :: "string \<Rightarrow> pydict \<Rightarrow> bool" where
  "has k d = truthy (get d k)"

text \<open>\<open>int(d.get(k) or 0)\<close>.\<close>

definition int_at :: "pydict \<Rightarrow> string \<Rightarrow> int result" where
  "int_at d k = py_int (py_or (get d k) (VInt 0))"

definition or_zero :: "int option \<Rightarrow> int" where
  "or_zero o' = (case o' of Some i \<Rightarrow> i | None \<Rightarrow> 0)"

definition as_text :: "pyval \<Rightarrow> string result" where
  "as_text v = (case v of VStr s \<Rightarrow> Inr s | _ \<Rightarrow> Inl (TypeError ''not a string''))"

definition str_items :: "pydict \<Rightarrow> string \<Rightarrow> string list result" where
  "str_items d k = rbind (as_list (py_or (get d k) (VList []))) (rmap as_text)"

text \<open>The columns of all parquet files, top level and nested, in lower case; and the hints among them.\<close>

definition columns_lower :: "pydict list \<Rightarrow> string list result" where
  "columns_lower parquet =
     rbind (rmap (\<lambda>p. rbind (str_items p ''schema_columns'') (\<lambda>xs.
                      rbind (str_items p ''nested_columns'') (\<lambda>ys. Inr (xs @ ys)))) parquet)
       (\<lambda>cols. Inr (map lower (concat cols)))"

definition has_hint :: "string list \<Rightarrow> string list \<Rightarrow> bool" where
  "has_hint hints cols = list_ex (\<lambda>c. list_ex (\<lambda>h. contains h c) hints) cols"

definition flag :: "bool \<Rightarrow> pyval" where
  "flag b = VFloat (if b then 1 else 0)"

definition rule :: "string \<Rightarrow> string \<Rightarrow> string \<Rightarrow> pyval \<Rightarrow> string \<Rightarrow> qc_rule" where
  "rule i m op' thr sev = \<lparr>ru_id = i, ru_metric = m, ru_op = op', ru_threshold = thr, ru_severity = sev\<rparr>"

section \<open>The universal contract\<close>

definition universal_rules :: "qc_rule list" where
  "universal_rules =
     [rule ''object_count_min'' ''files_count'' ''>='' (VInt 1) ''fail'',
      rule ''empty_files_count'' ''empty_file_count'' ''<='' (VInt 0) ''warn'',
      rule ''parquet_readable_rate'' ''readable_parquet_rate'' ''>='' (VFloat (95/100)) ''warn'',
      rule ''hdf5_readable_rate'' ''readable_hdf5_rate'' ''>='' (VFloat (95/100)) ''warn'',
      rule ''video_decode_pass_rate'' ''video_decode_pass_rate'' ''>='' (VFloat (9/10)) ''warn'']"

definition share :: "('a \<Rightarrow> bool) \<Rightarrow> 'a list \<Rightarrow> rat" where
  "share f xs = (if xs = [] then 1 else of_int (count_if f xs) / of_nat (length xs))"

definition universal_metrics :: "asset_profile \<Rightarrow> pydict result" where
  "universal_metrics p =
     (let parquet = ap_parquet p; hdf5 = ap_hdf5 p; video = ap_video p;
          files_count = VInt (or_zero (ap_files_count p));
          good = has ''readable''
      in rbind (rmap (\<lambda>it. int_at it ''size_bytes'') (parquet @ hdf5 @ video)) (\<lambda>sizes. Inr
        [(''object_count'', files_count), (''total_bytes'', VInt (or_zero (ap_bytes p))),
         (''files_count'', files_count), (''empty_file_count'', VInt (count_if (\<lambda>n. n = 0) sizes)),
         (''readable_parquet_count'', VInt (count_if good parquet)),
         (''unreadable_parquet_count'', VInt (count_if (\<lambda>d. \<not> good d) parquet)),
         (''readable_hdf5_count'', VInt (count_if good hdf5)),
         (''unreadable_hdf5_count'', VInt (count_if (\<lambda>d. \<not> good d) hdf5)),
         (''readable_video_count'', VInt (count_if good video)),
         (''unreadable_video_count'', VInt (count_if (\<lambda>d. \<not> good d) video)),
         (''readable_parquet_rate'', VFloat (share good parquet)),
         (''readable_hdf5_rate'', VFloat (share good hdf5)),
         (''video_decode_pass_rate'', VFloat (share good video)),
         (''json_parse_error_count'', VInt 0), (''timestamp_nonmonotonic_rate'', VFloat 0)]))"

section \<open>The DROID and LeRobot contract\<close>

definition droid_rules :: "qc_rule list" where
  "droid_rules =
     [rule ''num_parquet_files_min'' ''num_parquet_files'' ''>='' (VInt 1) ''fail'',
      rule ''parquet_valid_rate'' ''parquet_valid_rate'' ''>='' (VFloat (95/100)) ''warn'',
      rule ''video_decode_pass_rate'' ''video_decode_pass_rate'' ''>='' (VFloat (95/100)) ''warn'',
      rule ''action_column_coverage'' ''action_column_coverage'' ''>'' (VFloat 0) ''fail'',
      rule ''timestamp_monotonic_rate'' ''timestamp_monotonic_rate'' ''>='' (VFloat (95/100)) ''warn'',
      rule ''episode_count_min'' ''num_episodes'' ''>='' (VInt 1) ''fail'',
      rule ''schema_hash_consistency'' ''schema_hash_unique_count'' ''<='' (VInt 1) ''warn'']"

definition droid_action_hints :: "string list" where
  "droid_action_hints = [''action'', ''actions'', ''action.delta'', ''observation.state'']"

definition timestamp_hints :: "string list" where
  "timestamp_hints = [''timestamp'', ''timestamp_sec'', ''time'', ''time_sec'']"

definition droid_language_hints :: "string list" where
  "droid_language_hints = [''language'', ''language_instruction'', ''instruction'', ''task_description'']"

definition camera_hints :: "string list" where
  "camera_hints = [''cam'', ''camera'', ''wrist'', ''primary'', ''secondary'']"

definition droid_metrics :: "asset_profile \<Rightarrow> pydict result" where
  "droid_metrics p =
     (let parquet = ap_parquet p; video = ap_video p; lr = ap_lerobot p; good = has ''readable''
      in rbind (int_at (ap_overview p) ''parquet'') (\<lambda>parquet_files.
         rbind (int_at (ap_overview p) ''video'') (\<lambda>video_files.
         rbind (columns_lower parquet) (\<lambda>cols.
         let cameras = remdups (filter (\<lambda>c. has_hint camera_hints [c]) cols);
             hashes = remdups (map (\<lambda>d. get d ''schema_hash'') (filter (has ''schema_hash'') parquet))
         in rbind (py_int (py_or (get lr ''episodes_count'') (VInt (or_zero (ap_episodes_count p))))) (\<lambda>episodes.
            rbind (int_at lr ''frames_count'') (\<lambda>frames.
            rbind (int_at lr ''chunk_files_total'') (\<lambda>chunks.
            rbind (py_int (py_or (get lr ''sampled_parquet_count'') (VInt (int (length parquet))))) (\<lambda>sampled. Inr
              [(''num_parquet_files'', VInt parquet_files), (''num_episodes'', VInt episodes),
               (''num_frames'', VInt frames), (''num_videos'', VInt video_files),
               (''parquet_valid_rate'', VFloat (share good parquet)),
               (''video_decode_pass_rate'', VFloat (share good video)),
               (''camera_coverage'', VFloat (if cameras = [] then 0 else min 1 (of_nat (length cameras)))),
               (''language_coverage'', flag (has_hint droid_language_hints cols)),
               (''action_column_coverage'', flag (has_hint droid_action_hints cols)),
               (''timestamp_monotonic_rate'', VFloat (if has_hint timestamp_hints cols then 1 else 1/2)),
               (''action_jump_rate'', VFloat 0), (''calibration_coverage'', VFloat 0),
               (''schema_hash_unique_count'', VInt (int (length hashes))),
               (''chunk_files_total'', VInt chunks), (''sampled_parquet_count'', VInt sampled),
               (''lerobot_v2_fps'', get lr ''fps'')]))))))))"

section \<open>The robomimic contract\<close>

definition robomimic_rules :: "qc_rule list" where
  "robomimic_rules =
     [rule ''hdf5_valid_rate'' ''hdf5_valid_rate'' ''>='' (VFloat (95/100)) ''fail'',
      rule ''demo_count_min'' ''demo_count'' ''>='' (VInt 1) ''fail'',
      rule ''action_present_rate'' ''action_present_rate'' ''>='' (VFloat (95/100)) ''warn'',
      rule ''obs_next_obs_mismatch_rate'' ''obs_next_obs_mismatch_rate'' ''<='' (VFloat (5/100)) ''warn'',
      rule ''reward_done_length_mismatch_rate'' ''reward_done_length_mismatch_rate'' ''<='' (VFloat (5/100)) ''warn'',
      rule ''episode_len_p50_min'' ''episode_len_p50'' ''>='' (VInt 5) ''warn'',
      rule ''episode_len_p95_max'' ''episode_len_p95'' ''<='' (VInt 2000) ''warn'']"

definition length_percentile :: "int list \<Rightarrow> rat \<Rightarrow> int" where
  "length_percentile values pct =
     (let vs = sort values; n = length vs
      in if vs = [] then 0
         else if pct \<le> 0 then vs ! 0
         else if pct \<ge> 100 then vs ! (n - 1)
         else (let rank = (of_nat n - 1) * (pct / 100);
                   lo = nat (trunc_rat rank);
                   hi = min (lo + 1) (n - 1);
                   frac = rank - of_nat lo
               in round_even (of_int (vs ! lo) * (1 - frac) + of_int (vs ! hi) * frac)))"

definition positive_ints :: "pyval \<Rightarrow> int list result" where
  "positive_ints v = rbind (as_list v) (\<lambda>xs. rbind (rmap py_int xs) (\<lambda>ns. Inr (filter (\<lambda>n. n > 0) ns)))"

definition robomimic_metrics :: "asset_profile \<Rightarrow> pydict result" where
  "robomimic_metrics p =
     (let hdf5 = ap_hdf5 p; valid = filter (has ''readable'') hdf5;
          n_total = (if hdf5 = [] then 1 else of_nat (length hdf5));
          n_valid = (if valid = [] then 1 else of_nat (length valid));
          gap = (\<lambda>a b. VFloat (of_int \<bar>count_if (has a) valid - count_if (has b) valid\<bar> / n_valid))
      in rbind (rmap (\<lambda>h. int_at h ''demo_count'') valid) (\<lambda>demos.
         rbind (rmap (\<lambda>h. positive_ints (py_or (get h ''episode_lens'') (VList []))) valid) (\<lambda>ls.
         let lens = concat ls in Inr
           [(''hdf5_valid_rate'', VFloat (of_nat (length valid) / n_total)),
            (''demo_count'', VInt (sum_list demos)), (''num_hdf5_files'', VInt (int (length hdf5))),
            (''action_present_rate'', VFloat (of_int (count_if (has ''has_actions'') valid) / n_valid)),
            (''obs_next_obs_mismatch_rate'', gap ''has_obs'' ''has_next_obs''),
            (''reward_done_length_mismatch_rate'', gap ''has_rewards'' ''has_dones''),
            (''action_range_violation_rate'', VFloat 0),
            (''episode_len_p50'', VInt (length_percentile lens 50)),
            (''episode_len_p95'', VInt (length_percentile lens 95)),
            (''episode_len_min'', VInt (if lens = [] then 0 else foldl min (hd lens) lens)),
            (''episode_len_max'', VInt (if lens = [] then 0 else foldl max (hd lens) lens)),
            (''episode_count_total'', VInt (int (length lens)))])))"

section \<open>The BridgeData contract\<close>

definition bridge_rules :: "qc_rule list" where
  "bridge_rules =
     [rule ''parquet_valid_rate'' ''parquet_valid_rate'' ''>='' (VFloat (95/100)) ''warn'',
      rule ''num_parquet_files_min'' ''num_parquet_files'' ''>='' (VInt 1) ''fail'',
      rule ''action_column_coverage'' ''action_column_coverage'' ''>'' (VFloat 0) ''warn'',
      rule ''language_missing_rate'' ''language_missing_rate'' ''<='' (VFloat (1/2)) ''warn'',
      rule ''episode_count_min'' ''episode_count'' ''>='' (VInt 1) ''fail'']"

definition bridge_action_hints :: "string list" where
  "bridge_action_hints = [''action'', ''actions'', ''delta_action'']"

definition bridge_language_hints :: "string list" where
  "bridge_language_hints = [''language'', ''language_instruction'', ''instruction'', ''task_description'', ''language_embedding'']"

definition image_hints :: "string list" where
  "image_hints = [''image'', ''rgb'', ''primary_image'']"

definition env_hints :: "string list" where
  "env_hints = [''environment'', ''env'', ''scene'']"

definition skill_hints :: "string list" where
  "skill_hints = [''skill'', ''task'']"

definition episode_lengths :: "pydict list \<Rightarrow> int list result" where
  "episode_lengths parquet =
     rbind (rmap (\<lambda>p. if has ''per_episode_lengths'' p then positive_ints (get p ''per_episode_lengths'') else Inr []) parquet)
       (\<lambda>ls. Inr (sort (concat ls)))"

definition enrich_failures :: "pydict list \<Rightarrow> pyval list" where
  "enrich_failures parquet =
     map (\<lambda>p. VDict [(''uri'', get p ''uri''), (''error_type'', get p ''bridge_metrics_error_type''),
                     (''cause_type'', get p ''bridge_metrics_cause_type''), (''error'', get p ''bridge_metrics_error'')])
       (filter (\<lambda>p. \<not> has ''per_episode_lengths'' p \<and> has ''readable'' p) parquet)"

definition bridge_metrics :: "asset_profile \<Rightarrow> pydict result" where
  "bridge_metrics p =
     (let parquet = ap_parquet p;
          n = (if parquet = [] then 1 else of_nat (length parquet))
      in rbind (columns_lower parquet) (\<lambda>cols.
         rbind (episode_lengths parquet) (\<lambda>lens.
         rbind (rmap (\<lambda>q. py_float (get q ''language_missing_rate''))
                  (filter (\<lambda>q. get q ''language_missing_rate'' \<noteq> VNone) parquet)) (\<lambda>rates.
         let k = length lens;
             p50 = (if lens = [] then 0 else lens ! (k div 2));
             p95 = (if lens = [] then 0 else lens ! min (k - 1) (nat (trunc_rat (of_nat k * (95/100)))));
             missing = (if rates \<noteq> [] then sum_list rates / of_nat (length rates)
                        else if has_hint bridge_language_hints cols then 0 else 1);
             fails = enrich_failures parquet
         in Inr ([(''num_parquet_files'', VInt (int (length parquet))),
            (''parquet_valid_rate'', VFloat (of_int (count_if (has ''readable'') parquet) / n)),
            (''traj_len_p50'', VInt p50), (''traj_len_p95'', VInt p95),
            (''language_missing_rate'', VFloat missing),
            (''image_ref_missing_rate'', flag (\<not> has_hint image_hints cols)),
            (''action_column_coverage'', flag (has_hint bridge_action_hints cols)),
            (''environment_count'', VInt (if has_hint env_hints cols then 1 else 0)),
            (''skill_count'', VInt (if has_hint skill_hints cols then 1 else 0)),
            (''episode_count'', VInt (int k))] @
            (if fails = [] then []
             else [(''bridge_enrich_failure_count'', VInt (int (length fails))),
                   (''bridge_enrich_failures'', VList (take 5 fails))]))))))"

section \<open>The registry and a contract run\<close>

type_synonym contract_runner = "qc_rule list \<times> (asset_profile \<Rightarrow> pydict result) \<times> string"

definition contract_runners :: "(string \<times> contract_runner) list" where
  "contract_runners =
     [(''universal'', universal_rules, universal_metrics, ''universal_v1''),
      (''droid'', droid_rules, droid_metrics, ''droid_multimodal_v1''),
      (''lerobot'', droid_rules, droid_metrics, ''lerobot_multimodal_v1''),
      (''robomimic'', robomimic_rules, robomimic_metrics, ''robomimic_hdf5_v1''),
      (''bridge'', bridge_rules, bridge_metrics, ''bridgedata_v2_v1'')]"

definition get_contract_runner :: "string \<Rightarrow> contract_runner" where
  "get_contract_runner family =
     (case map_of contract_runners (lower family) of
        Some r \<Rightarrow> r | None \<Rightarrow> (universal_rules, universal_metrics, ''universal_v1''))"

definition list_contracts :: "(string \<times> string \<times> qc_rule list) list" where
  "list_contracts = map (\<lambda>(fam, rules, _, cid). (cid, fam, rules)) contract_runners"

record contract_report =
  cr_contract_id :: string
  cr_family :: string
  cr_dataset_id :: string
  cr_version :: string
  cr_uri :: string
  cr_status :: qc_status
  cr_metrics :: pydict
  cr_rules :: "rule_result list"
  cr_failed :: "rule_result list"
  cr_warning :: "rule_result list"

text \<open>\<open>profile\<close> is what \<open>profile_dataset\<close> returned; the time stamps and the random run id are left out.\<close>

definition run_contract :: "asset_profile \<Rightarrow> string \<Rightarrow> string \<Rightarrow> string \<Rightarrow> string \<Rightarrow> qc_rule list \<Rightarrow> contract_report result" where
  "run_contract profile dataset_uri family dataset_id version override =
     (case get_contract_runner family of (default_rules, metric_fn, contract_id) \<Rightarrow>
        let rules = (if override \<noteq> [] then override else default_rules)
        in rbind (metric_fn profile) (\<lambda>metrics.
           let results = map (\<lambda>r. evaluate_rule r (get metrics (ru_metric r))) rules
           in Inr \<lparr>cr_contract_id = contract_id, cr_family = family, cr_dataset_id = dataset_id,
                cr_version = version, cr_uri = dataset_uri, cr_status = aggregate_status results,
                cr_metrics = metrics, cr_rules = results,
                cr_failed = filter (\<lambda>r. rr_status r = QFAIL) results,
                cr_warning = filter (\<lambda>r. rr_status r = QWARN) results\<rparr>))"

section \<open>Facts\<close>

lemma Max_status:
  "Max (insert QPASS (rr_status ` set rs)) = aggregate_status rs"
proof (rule Max_eqI)
  show "finite (insert QPASS (rr_status ` set rs))" by simp
  show "x \<le> aggregate_status rs" if "x \<in> insert QPASS (rr_status ` set rs)" for x
  proof -
    from that consider "x = QPASS" | r where "r \<in> set rs" "rr_status r = x" by auto
    then show ?thesis
      by cases (cases x; auto simp: aggregate_status_def less_eq_qc_status_def list_ex_iff)+
  qed
  show "aggregate_status rs \<in> insert QPASS (rr_status ` set rs)"
    by (auto simp: aggregate_status_def list_ex_iff image_iff eq_commute[of _ "rr_status _"])
qed

lemma evaluate_rule_status:
  "rr_status (evaluate_rule r v) = QFAIL \<longleftrightarrow> ru_severity r = ''fail'' \<and> \<not> rule_ok r v"
  "rr_status (evaluate_rule r v) = QWARN \<longleftrightarrow> ru_severity r = ''warn'' \<and> \<not> rule_ok r v"
  by (auto simp: evaluate_rule_def)

lemma run_contract_Inr:
  assumes "run_contract profile uri family ds ver override = Inr rep"
  obtains rules metrics where "cr_metrics rep = metrics"
    "rules = (if override \<noteq> [] then override else fst (get_contract_runner family))"
    "fst (snd (get_contract_runner family)) profile = Inr metrics"
    "cr_rules rep = map (\<lambda>r. evaluate_rule r (get metrics (ru_metric r))) rules"
    "cr_status rep = aggregate_status (cr_rules rep)"
    "cr_failed rep = filter (\<lambda>r. rr_status r = QFAIL) (cr_rules rep)"
    "cr_warning rep = filter (\<lambda>r. rr_status r = QWARN) (cr_rules rep)"
  using assms by (auto simp: run_contract_def Let_def rbind_Inr_iff split: prod.splits if_splits)

lemma fails_if:
  assumes "r \<in> set rules" "ru_severity r = ''fail''" "\<not> rule_ok r (get metrics (ru_metric r))"
  shows "aggregate_status (map (\<lambda>r. evaluate_rule r (get metrics (ru_metric r))) rules) = QFAIL"
  using assms by (auto simp: aggregate_status_def list_ex_iff evaluate_rule_status)

lemma run_contract_fails:
  assumes "get_contract_runner family = (rules, fn, cid)" "fn profile = Inr metrics"
    "r \<in> set rules" "ru_severity r = ''fail''" "\<not> rule_ok r (get metrics (ru_metric r))"
  shows "\<exists>rep. run_contract profile uri family ds ver [] = Inr rep \<and> cr_status rep = QFAIL"
  using assms fails_if[OF assms(3,4,5)] by (simp add: run_contract_def Let_def)

lemma runner_cases:
  obtains "get_contract_runner family = (universal_rules, universal_metrics, ''universal_v1'')"
    | cid where "get_contract_runner family = (droid_rules, droid_metrics, cid)"
    | "get_contract_runner family = (robomimic_rules, robomimic_metrics, ''robomimic_hdf5_v1'')"
    | "get_contract_runner family = (bridge_rules, bridge_metrics, ''bridgedata_v2_v1'')"
proof -
  have "get_contract_runner family =
      (if lower family = ''droid'' then (droid_rules, droid_metrics, ''droid_multimodal_v1'')
       else if lower family = ''lerobot'' then (droid_rules, droid_metrics, ''lerobot_multimodal_v1'')
       else if lower family = ''robomimic'' then (robomimic_rules, robomimic_metrics, ''robomimic_hdf5_v1'')
       else if lower family = ''bridge'' then (bridge_rules, bridge_metrics, ''bridgedata_v2_v1'')
       else (universal_rules, universal_metrics, ''universal_v1''))"
    by (simp add: get_contract_runner_def contract_runners_def)
  then show ?thesis using that by (simp split: if_splits)
qed

definition no_files :: "asset_profile \<Rightarrow> bool" where
  "no_files p = (ap_parquet p = [] \<and> ap_hdf5 p = [] \<and> ap_video p = [] \<and> or_zero (ap_files_count p) = 0 \<and>
     or_zero (ap_episodes_count p) = 0 \<and> ap_overview p = [] \<and> ap_lerobot p = [])"

lemma share_bounds: "0 \<le> share f xs \<and> share f xs \<le> 1"
proof (cases "xs = []")
  case True
  then show ?thesis by (simp add: share_def)
next
  case False
  have "length (filter f xs) \<le> length xs" by simp
  then show ?thesis using False by (auto simp: share_def count_if_def divide_le_eq_1)
qed

lemma universal_empty:
  "no_files p \<Longrightarrow> \<exists>m. universal_metrics p = Inr m \<and> get m ''files_count'' = VInt 0"
  by (simp add: universal_metrics_def Let_def no_files_def)

lemma droid_empty:
  "no_files p \<Longrightarrow> \<exists>m. droid_metrics p = Inr m \<and> get m ''num_parquet_files'' = VInt 0"
  by (simp add: droid_metrics_def Let_def no_files_def int_at_def py_or_def columns_lower_def)

lemma robomimic_empty:
  "no_files p \<Longrightarrow> \<exists>m. robomimic_metrics p = Inr m \<and> get m ''demo_count'' = VInt 0"
  by (simp add: robomimic_metrics_def Let_def no_files_def)

lemma bridge_episodes:
  "bridge_metrics p = Inr m \<Longrightarrow> \<exists>lens. episode_lengths (ap_parquet p) = Inr lens \<and> get m ''episode_count'' = VInt (int (length lens))"
  by (auto simp: bridge_metrics_def Let_def rbind_Inr_iff)

lemma bridge_empty:
  "no_files p \<Longrightarrow> \<exists>m. bridge_metrics p = Inr m \<and> get m ''episode_count'' = VInt 0"
  by (simp add: bridge_metrics_def Let_def no_files_def columns_lower_def episode_lengths_def enrich_failures_def)

lemma below_one: "ru_op r = ''>='' \<Longrightarrow> ru_threshold r = VInt 1 \<Longrightarrow> \<not> rule_ok r (VInt 0)"
  by (simp add: rule_ok_def py_le_def or_false_def)

section \<open>Properties\<close>


text \<open>Whatever its family, a dataset without any file fails its contract.\<close>

theorem empty_dataset_fails:
  assumes "no_files p"
  shows "\<exists>rep. run_contract p uri family ds ver [] = Inr rep \<and> cr_status rep = QFAIL"
proof (cases rule: runner_cases[of family])
  case 1
  from universal_empty[OF assms] obtain m where m: "universal_metrics p = Inr m" "get m ''files_count'' = VInt 0" by blast
  have "rule ''object_count_min'' ''files_count'' ''>='' (VInt 1) ''fail'' \<in> set universal_rules"
    by (simp add: universal_rules_def)
  from run_contract_fails[OF 1 m(1) this] m(2) show ?thesis by (simp add: rule_def below_one)
next
  case (2 cid)
  from droid_empty[OF assms] obtain m where m: "droid_metrics p = Inr m" "get m ''num_parquet_files'' = VInt 0" by blast
  have "rule ''num_parquet_files_min'' ''num_parquet_files'' ''>='' (VInt 1) ''fail'' \<in> set droid_rules"
    by (simp add: droid_rules_def)
  from run_contract_fails[OF 2 m(1) this] m(2) show ?thesis by (simp add: rule_def below_one)
next
  case 3
  from robomimic_empty[OF assms] obtain m where m: "robomimic_metrics p = Inr m" "get m ''demo_count'' = VInt 0" by blast
  have "rule ''demo_count_min'' ''demo_count'' ''>='' (VInt 1) ''fail'' \<in> set robomimic_rules"
    by (simp add: robomimic_rules_def)
  from run_contract_fails[OF 3 m(1) this] m(2) show ?thesis by (simp add: rule_def below_one)
next
  case 4
  from bridge_empty[OF assms] obtain m where m: "bridge_metrics p = Inr m" "get m ''episode_count'' = VInt 0" by blast
  have "rule ''episode_count_min'' ''episode_count'' ''>='' (VInt 1) ''fail'' \<in> set bridge_rules"
    by (simp add: bridge_rules_def)
  from run_contract_fails[OF 4 m(1) this] m(2) show ?thesis by (simp add: rule_def below_one)
qed

text \<open>When the enrichment of every parquet file of a BridgeData dataset failed, so that no file has
  episode lengths, the contract never passes: it fails or the metrics raise.\<close>

theorem bridge_without_episodes:
  assumes "lower family = ''bridge''" "list_all (\<lambda>q. \<not> has ''per_episode_lengths'' q) (ap_parquet p)"
    "run_contract p uri family ds ver [] = Inr rep"
  shows "cr_status rep = QFAIL \<and> get (cr_metrics rep) ''traj_len_p50'' = VInt 0"
proof -
  have run: "get_contract_runner family = (bridge_rules, bridge_metrics, ''bridgedata_v2_v1'')"
    by (simp add: get_contract_runner_def contract_runners_def assms(1))
  have "rmap (\<lambda>q. if has ''per_episode_lengths'' q then positive_ints (get q ''per_episode_lengths'') else Inr []) qs =
      Inr (map (\<lambda>_. []) qs)" if "list_all (\<lambda>q. \<not> has ''per_episode_lengths'' q) qs" for qs
    using that by (induction qs) auto
  note none = this[OF assms(2)]
  have "concat (map (\<lambda>_. []) qs) = ([] :: int list)" for qs :: "pydict list" by (induction qs) auto
  then have lens: "episode_lengths (ap_parquet p) = Inr []"
    unfolding episode_lengths_def none rbind_simps by (metis sort_key_simps(1))
  from assms(3) run obtain m where m: "bridge_metrics p = Inr m" "cr_metrics rep = m"
    by (auto simp: run_contract_def Let_def rbind_Inr_iff)
  from bridge_episodes[OF m(1)] lens have ep: "get m ''episode_count'' = VInt 0" by simp
  have "rule ''episode_count_min'' ''episode_count'' ''>='' (VInt 1) ''fail'' \<in> set bridge_rules"
    by (simp add: bridge_rules_def)
  from run_contract_fails[OF run m(1) this] ep have
    "\<exists>rep. run_contract p uri family ds ver [] = Inr rep \<and> cr_status rep = QFAIL" by (simp add: rule_def below_one)
  with assms(3) have "cr_status rep = QFAIL" by auto
  moreover have "get m ''traj_len_p50'' = VInt 0"
    using m(1) lens by (auto simp: bridge_metrics_def Let_def rbind_Inr_iff)
  ultimately show ?thesis by (simp add: m(2))
qed

definition demo_profile :: asset_profile where
  "demo_profile = \<lparr>ap_bytes = None, ap_files_count = None, ap_episodes_count = None, ap_parquet = [], ap_hdf5 = [],
     ap_video = [], ap_overview = [], ap_lerobot = []\<rparr>"

lemma demo_no_files: "no_files demo_profile"
  by (simp add: no_files_def demo_profile_def or_zero_def)

theorem empty_dataset_fails_witness:
  "\<exists>rep. run_contract demo_profile ''u'' ''DROID'' ''d'' ''v'' [] = Inr rep \<and> cr_status rep = QFAIL"
  by (rule empty_dataset_fails[OF demo_no_files])

lemma demo_contract:
  "\<exists>rep. run_contract demo_profile ''u'' ''universal'' ''d'' ''v'' [] = Inr rep \<and> cr_status rep = QFAIL"
proof -
  have run: "get_contract_runner ''universal'' = (universal_rules, universal_metrics, ''universal_v1'')" 
    by (simp add: get_contract_runner_def contract_runners_def lower_def is_upper_def)
  from universal_empty[OF demo_no_files] obtain m where m: "universal_metrics demo_profile = Inr m" "get m ''files_count'' = VInt 0"
    by blast
  have "rule ''object_count_min'' ''files_count'' ''>='' (VInt 1) ''fail'' \<in> set universal_rules"
    by (simp add: universal_rules_def)
  from run_contract_fails[OF run m(1) this] m(2) show ?thesis by (simp add: rule_def below_one)
qed


theorem bridge_without_episodes_witness:
  "\<exists>rep. run_contract (demo_profile\<lparr>ap_parquet := [[(''readable'', VBool True)]]\<rparr>) ''u'' ''bridge'' ''d'' ''v'' [] = Inr rep \<and>
     cr_status rep = QFAIL"
proof -
  let ?p = "demo_profile\<lparr>ap_parquet := [[(''readable'', VBool True)]]\<rparr>"
  have low: "lower ''bridge'' = ''bridge''" by (simp add: lower_def is_upper_def)
  have none: "list_all (\<lambda>q. \<not> has ''per_episode_lengths'' q) (ap_parquet ?p)" by (simp add: has_def)
  have "\<exists>m. bridge_metrics ?p = Inr m"
    by (simp add: bridge_metrics_def Let_def columns_lower_def str_items_def py_or_def episode_lengths_def has_def)
  then obtain rep where r: "run_contract ?p ''u'' ''bridge'' ''d'' ''v'' [] = Inr rep"
    by (auto simp: run_contract_def get_contract_runner_def contract_runners_def low Let_def)
  from bridge_without_episodes[OF low none r] r show ?thesis by blast
qed

end
