(* ===== verification/Dates.thy ===== *)
theory Dates
  imports Py_Values
begin

text \<open>
  Calendar dates as Python's \<open>datetime.date\<close> has them, with their order, and the build windows of
  \<^verbatim>\<open>src/robot_dh/warehouse_metrics/dates.py\<close>: parsing a window, its number of days and
  the iteration over its days.
\<close>

section \<open>Dates\<close>

datatype date = Date (year_of: int) (month_of: int) (day_of: int)

definition leap_year :: "int \<Rightarrow> bool" where
  "leap_year y = (y mod 4 = 0 \<and> (y mod 100 \<noteq> 0 \<or> y mod 400 = 0))"

definition days_in_month :: "int \<Rightarrow> int \<Rightarrow> int" where
  "days_in_month y m = (if m = 2 then (if leap_year y then 29 else 28)
     else if m \<in> {4, 6, 9, 11} then 30 else 31)"

definition max_year :: int where
  "max_year = 9999"

definition date_ok :: "date \<Rightarrow> bool" where
  "date_ok d = (1 \<le> year_of d \<and> year_of d \<le> max_year \<and> 1 \<le> month_of d \<and> month_of d \<le> 12 \<and>
     1 \<le> day_of d \<and> day_of d \<le> days_in_month (year_of d) (month_of d))"

definition max_date :: date where
  "max_date = Date max_year 12 31"

instantiation date :: linorder
begin

definition less_eq_date :: "date \<Rightarrow> date \<Rightarrow> bool" where
  "less_eq_date a b = ((year_of a, month_of a, day_of a) \<le> (year_of b, month_of b, day_of b))"

definition less_date :: "date \<Rightarrow> date \<Rightarrow> bool" where
  "less_date a b = ((year_of a, month_of a, day_of a) < (year_of b, month_of b, day_of b))"

instance
  by standard (auto simp: less_eq_date_def less_date_def intro: date.expand)

end

text \<open>\<open>date.toordinal\<close>: the number of days since the first of January of year one.\<close>

definition days_before_year :: "int \<Rightarrow> int" where
  "days_before_year y = (y - 1) * 365 + (y - 1) div 4 - (y - 1) div 100 + (y - 1) div 400"

definition days_before_month :: "int \<Rightarrow> int \<Rightarrow> int" where
  "days_before_month y m = sum_list (map (days_in_month y) [1..m - 1])"

definition ordinal :: "date \<Rightarrow> int" where
  "ordinal d = days_before_year (year_of d) + days_before_month (year_of d) (month_of d) + day_of d"

text \<open>\<open>d + timedelta(days=1)\<close>.\<close>

definition next_day :: "date \<Rightarrow> date result" where
  "next_day d = (case d of Date y m k \<Rightarrow>
     if k < days_in_month y m then Inr (Date y m (k + 1))
     else if m < 12 then Inr (Date y (m + 1) 1)
     else if y < max_year then Inr (Date (y + 1) 1 1)
     else Inl (OverflowError ''date value out of range''))"

text \<open>\<open>isoformat\<close>.\<close>

definition pad_left :: "nat \<Rightarrow> string \<Rightarrow> string" where
  "pad_left n s = replicate (n - length s) (CHR ''0'') @ s"

definition date_iso :: "date \<Rightarrow> string" where
  "date_iso d = pad_left 4 (str_of_int (year_of d)) @ ''-'' @ pad_left 2 (str_of_int (month_of d)) @ ''-'' @
     pad_left 2 (str_of_int (day_of d))"

text \<open>\<open>datetime.strptime(text, "%Y-%m-%d").date()\<close>: four digits, one or two digits, and one or two
  digits or a blank and one digit.\<close>

definition month_text :: "string \<Rightarrow> bool" where
  "month_text s = (str_isdigit s \<and> length s \<le> 2 \<and> 1 \<le> nat_of_digits s \<and> nat_of_digits s \<le> 12)"

definition day_text :: "string \<Rightarrow> bool" where
  "day_text s = ((str_isdigit s \<and> length s \<le> 2 \<or> (case s of [a, c] \<Rightarrow> a = CHR '' '' \<and> is_digit c | _ \<Rightarrow> False)) \<and>
     1 \<le> nat_of_digits (strip_ws s) \<and> nat_of_digits (strip_ws s) \<le> 31)"

definition parse_ymd :: "string \<Rightarrow> date option" where
  "parse_ymd s = (case split_on (CHR ''-'') s of
     [y, m, k] \<Rightarrow>
       (let d = Date (int (nat_of_digits y)) (int (nat_of_digits m)) (int (nat_of_digits (strip_ws k)))
        in if str_isdigit y \<and> length y = 4 \<and> month_text m \<and> day_text k \<and> date_ok d then Some d else None)
   | _ \<Rightarrow> None)"

section \<open>Windows\<close>

record date_range =
  dr_start :: date
  dr_end :: date

text \<open>A date argument: text, a date, or a datetime (here its date).\<close>

datatype date_arg = DText string | DDate date | DDatetime date

definition coerce_date :: "date_arg \<Rightarrow> date result" where
  "coerce_date v = (case v of DDate d \<Rightarrow> Inr d | DDatetime d \<Rightarrow> Inr d
     | DText s \<Rightarrow> (case parse_ymd (strip_ws s) of Some d \<Rightarrow> Inr d | None \<Rightarrow> Inl (ValueError s)))"

definition make_range :: "date \<Rightarrow> date \<Rightarrow> date_range result" where
  "make_range s e = (if e < s then Inl (ValueError ''DateRange: end earlier than start'')
     else Inr \<lparr>dr_start = s, dr_end = e\<rparr>)"

text \<open>\<open>yesterday\<close> is the day before the current one, in UTC.\<close>

definition parse_date_range :: "date \<Rightarrow> date_arg option \<Rightarrow> date_arg option \<Rightarrow> date_arg option \<Rightarrow> date_range result" where
  "parse_date_range yesterday single from_date to_date =
     (case (from_date, to_date) of
        (Some f, Some t) \<Rightarrow> rbind (coerce_date f) (\<lambda>s. rbind (coerce_date t) (\<lambda>e. make_range s e))
      | (Some f, None) \<Rightarrow> rbind (coerce_date f) (\<lambda>s. rbind (coerce_date f) (\<lambda>e. make_range s e))
      | (None, Some t) \<Rightarrow> rbind (coerce_date t) (\<lambda>s. rbind (coerce_date t) (\<lambda>e. make_range s e))
      | (None, None) \<Rightarrow> (case single of
            Some d \<Rightarrow> rbind (coerce_date d) (\<lambda>s. make_range s s)
          | None \<Rightarrow> make_range yesterday yesterday))"

definition range_days :: "date_range \<Rightarrow> int" where
  "range_days w = ordinal (dr_end w) - ordinal (dr_start w) + 1"

lemma days_in_month_le: "days_in_month y m \<le> 31" "28 \<le> days_in_month y m"
  by (simp_all add: days_in_month_def)

text \<open>\<open>iter_dates\<close>, consumed to its end.\<close>

function dates_from :: "date \<Rightarrow> date \<Rightarrow> date list result" where
  "dates_from cur stop =
     (if cur \<le> stop then
        (case next_day cur of Inl e \<Rightarrow> Inl e
         | Inr nxt \<Rightarrow> rbind (dates_from nxt stop) (\<lambda>ds. Inr (cur # ds)))
      else Inr [])"
  by pat_completeness auto

termination
  by (relation "measures [\<lambda>(d, _). nat (max_year - year_of d), \<lambda>(d, _). nat (12 - month_of d), \<lambda>(d, _). nat (31 - day_of d)]")
    (use days_in_month_le in \<open>auto simp: next_day_def split: date.splits if_splits intro: less_le_trans\<close>)

declare dates_from.simps [simp del]

definition iter_dates :: "date_range \<Rightarrow> date list result" where
  "iter_dates w = dates_from (dr_start w) (dr_end w)"

section \<open>Dates and their ordinals\<close>

lemma days_before_month_Suc: "1 \<le> m \<Longrightarrow> days_before_month y (m + 1) = days_before_month y m + days_in_month y m"
  by (simp add: days_before_month_def upto_rec2[of 1 m])

lemma days_before_month_mono:
  assumes "1 \<le> m" "m \<le> n"
  shows "days_before_month y m \<le> days_before_month y n"
  using assms(2,1)
proof (induction n rule: int_ge_induct)
  case (step n)
  then have "days_before_month y (n + 1) = days_before_month y n + days_in_month y n"
    by (intro days_before_month_Suc) simp
  with step days_in_month_le[of y n] show ?case by simp
qed simp

lemma days_before_month_lt:
  assumes "1 \<le> m" "m < n" "k \<le> days_in_month y m"
  shows "days_before_month y m + k \<le> days_before_month y n"
  using days_before_month_mono[of "m + 1" n y] days_before_month_Suc[of m y] assms by simp

lemma year_length: "days_before_month y 13 = (if leap_year y then 366 else 365)"
proof -
  have u: "[1..12] = [1, 2, 3, 4, 5, 6, 7, 8, 9, 10, 11, 12::int]" by (simp add: upto_rec1)
  show ?thesis by (simp add: days_before_month_def u days_in_month_def)
qed

lemma div_step: "0 < n \<Longrightarrow> (y::int) div n = (y - 1) div n + (if y mod n = 0 then 1 else 0)"
proof (cases "y mod n = 0")
  case True
  assume n: "0 < n"
  have "y - 1 = n * (y div n - 1) + (n - 1)"
    using mult_div_mod_eq[of n y] True by (simp add: algebra_simps)
  then have "(y - 1) div n = y div n - 1" by (rule int_div_pos_eq) (use n in auto)
  with True show ?thesis by simp
next
  case False
  assume n: "0 < n"
  have "y - 1 = n * (y div n) + (y mod n - 1)" using mult_div_mod_eq[of n y] by simp
  moreover have "0 \<le> y mod n - 1" "y mod n - 1 < n"
    using n False pos_mod_sign[of n y] pos_mod_bound[of n y] by (simp_all add: order_less_le)
  ultimately have "(y - 1) div n = y div n" by (rule int_div_pos_eq)
  with False show ?thesis by simp
qed

lemma leap_step:
  "(if y mod 4 = 0 then 1 else 0) - (if y mod 100 = 0 then 1 else 0) + (if y mod 400 = 0 then 1 else 0) =
   (if leap_year y then 1 else (0::int))"
proof -
  have "(400::int) dvd y \<Longrightarrow> 100 dvd y" "(100::int) dvd y \<Longrightarrow> 4 dvd y" by (auto elim!: dvd_trans[rotated])
  then show ?thesis unfolding leap_year_def mod_eq_0_iff_dvd by (cases "400 dvd y"; cases "100 dvd y"; cases "4 dvd y") simp_all
qed

lemma days_before_year_Suc: "days_before_year (y + 1) = days_before_year y + days_before_month y 13"
proof -
  have alg: "y * 365 + (a + i) - (b + j) + (c + k) = (y - 1) * 365 + a - b + c + 365 + (i - j + k)" for a b c i j k :: int
    by (simp add: algebra_simps)
  have "days_before_year (y + 1) = y * 365 + y div 4 - y div 100 + y div 400" by (simp add: days_before_year_def)
  also have "\<dots> = days_before_year y + 365 + ((if y mod 4 = 0 then 1 else 0) - (if y mod 100 = 0 then 1 else 0) + (if y mod 400 = 0 then 1 else 0))"
    unfolding days_before_year_def div_step[of 4 y, OF zero_less_numeral] div_step[of 100 y, OF zero_less_numeral]
      div_step[of 400 y, OF zero_less_numeral]
    by (rule alg)
  also have "\<dots> = days_before_year y + days_before_month y 13"
    unfolding leap_step year_length by simp
  finally show ?thesis .
qed

lemma days_before_year_mono: "y \<le> z \<Longrightarrow> days_before_year y \<le> days_before_year z"
proof (induction z rule: int_ge_induct)
  case (step z)
  then show ?case by (simp add: days_before_year_Suc year_length)
qed simp

lemma ordinal_lt:
  assumes "date_ok a" "date_ok b" "a < b"
  shows "ordinal a < ordinal b"
proof -
  obtain y m k where a: "a = Date y m k" by (cases a)
  obtain y' m' k' where b: "b = Date y' m' k'" by (cases b)
  note ok = assms(1,2)[unfolded a b date_ok_def, simplified]
  from assms(3) consider "y < y'" | "y = y'" "m < m'" | "y = y'" "m = m'" "k < k'"
    by (simp add: a b less_date_def) linarith
  then show ?thesis
  proof cases
    case 1
    have "days_before_month y m + k \<le> days_before_month y 13"
      using days_before_month_lt[of m 13 k y] ok by simp
    then have "days_before_year y + days_before_month y m + k \<le> days_before_year (y + 1)"
      by (simp add: days_before_year_Suc)
    also have "\<dots> \<le> days_before_year y'" using 1 by (intro days_before_year_mono) simp
    also have "\<dots> < days_before_year y' + days_before_month y' m' + k'"
      using days_before_month_mono[of 1 m' y'] ok by (simp add: days_before_month_def)
    finally show ?thesis by (simp add: a b ordinal_def)
  next
    case 2
    then show ?thesis using days_before_month_lt[of m m' k y] ok by (simp add: a b ordinal_def)
  next
    case 3
    then show ?thesis by (simp add: a b ordinal_def)
  qed
qed

lemma ordinal_less_iff: "date_ok a \<Longrightarrow> date_ok b \<Longrightarrow> a < b \<longleftrightarrow> ordinal a < ordinal b"
  using ordinal_lt[of a b] ordinal_lt[of b a] by (cases a b rule: linorder_cases) auto

lemma ordinal_le_iff: "date_ok a \<Longrightarrow> date_ok b \<Longrightarrow> a \<le> b \<longleftrightarrow> ordinal a \<le> ordinal b"
  using ordinal_less_iff[of b a] by (simp add: not_less[symmetric])

lemma next_day_ordinal:
  assumes "date_ok d" "next_day d = Inr e"
  shows "date_ok e" "ordinal e = ordinal d + 1"
proof -
  obtain y m k where d: "d = Date y m k" by (cases d)
  note ok = assms(1)[unfolded d date_ok_def, simplified]
  have "date_ok e \<and> ordinal e = ordinal d + 1"
  proof (cases "k < days_in_month y m")
    case True
    with assms(2) ok show ?thesis by (auto simp: d next_day_def date_ok_def ordinal_def)
  next
    case False
    with ok have k: "k = days_in_month y m" by simp
    show ?thesis
    proof (cases "m < 12")
      case True
      with assms(2) ok k show ?thesis
        using days_in_month_le(2)[of y "m + 1"]
        by (auto simp: d next_day_def date_ok_def ordinal_def days_before_month_Suc)
    next
      case m: False
      with ok have m12: "m = 12" by simp
      have "days_before_month y 13 = days_before_month y 12 + days_in_month y 12"
        using days_before_month_Suc[of 12 y] by simp
      moreover have "days_before_month (y + 1) 1 = 0" by (simp add: days_before_month_def)
      ultimately show ?thesis
        using assms(2) ok k m12 days_in_month_le(2)[of "y + 1" 1]
        by (auto simp: d next_day_def date_ok_def ordinal_def days_before_year_Suc split: if_splits)
    qed
  qed
  then show "date_ok e" "ordinal e = ordinal d + 1" by simp_all
qed

lemma next_day_Inl: "date_ok d \<Longrightarrow> next_day d = Inl e \<longleftrightarrow> d = max_date \<and> e = OverflowError ''date value out of range''"
  by (cases d) (auto simp: next_day_def date_ok_def max_date_def days_in_month_def)

lemma max_date_ok: "date_ok max_date"
  by (simp add: date_ok_def max_date_def max_year_def days_in_month_def)

lemma max_date_max: "date_ok d \<Longrightarrow> d \<le> max_date"
  using days_in_month_le(1)[of "year_of d" "month_of d"] by (auto simp: date_ok_def max_date_def less_eq_date_def)

lemma next_day_leap:
  assumes "date_ok d" "next_day d = Inr e" "date_ok c"
  shows "e \<le> c \<longleftrightarrow> d < c"
  using next_day_ordinal[OF assms(1,2)] assms(1,3) by (simp add: ordinal_le_iff ordinal_less_iff add1_zle_eq)

lemma dates_from_ok:
  assumes "date_ok cur" "date_ok stop" "stop < max_date"
  shows "\<exists>ds. dates_from cur stop = Inr ds \<and> sorted_wrt (<) ds \<and> set ds = {d. date_ok d \<and> cur \<le> d \<and> d \<le> stop} \<and>
    int (length ds) = max 0 (ordinal stop - ordinal cur + 1)"
  using assms
proof (induction cur stop rule: dates_from.induct)
  case (1 cur stop)
  note ok = 1(2) and sok = 1(3) and smax = 1(4)
  show ?case
  proof (cases "cur \<le> stop")
    case False
    then have "ordinal stop < ordinal cur" using ordinal_le_iff[OF ok sok] by simp
    moreover have "{d. date_ok d \<and> cur \<le> d \<and> d \<le> stop} = {}" using False by auto
    ultimately show ?thesis using False by (simp add: dates_from.simps)
  next
    case True
    with smax have "cur \<noteq> max_date" by auto
    then obtain nxt where n: "next_day cur = Inr nxt"
      using next_day_Inl[OF ok] by (cases "next_day cur") auto
    note nx = next_day_ordinal[OF ok n]
    from 1(1)[OF True n nx(1) sok smax] obtain ds where ds: "dates_from nxt stop = Inr ds" "sorted_wrt (<) ds"
        "set ds = {d. date_ok d \<and> nxt \<le> d \<and> d \<le> stop}" "int (length ds) = max 0 (ordinal stop - ordinal nxt + 1)"
      by blast
    have "set (cur # ds) = {d. date_ok d \<and> cur \<le> d \<and> d \<le> stop}"
      using ds(3) next_day_leap[OF ok n] ok True by auto
    moreover have "sorted_wrt (<) (cur # ds)" using ds(2,3) next_day_leap[OF ok n] by auto
    moreover have "int (length (cur # ds)) = max 0 (ordinal stop - ordinal cur + 1)"
      using ds(4) nx(2) ordinal_le_iff[OF ok sok] True by simp
    moreover have "dates_from cur stop = Inr (cur # ds)"
      by (subst dates_from.simps) (simp add: True n ds(1))
    ultimately show ?thesis by blast
  qed
qed

lemma dates_from_max:
  "date_ok cur \<Longrightarrow> dates_from cur max_date = Inl (OverflowError ''date value out of range'')"
proof (induction cur max_date rule: dates_from.induct)
  case (1 cur)
  show ?case
  proof (cases "next_day cur")
    case (Inl e)
    then have "e = OverflowError ''date value out of range''" using next_day_Inl[OF 1(2)] by simp
    with Inl show ?thesis by (subst dates_from.simps) (simp add: max_date_max[OF 1(2)])
  next
    case (Inr nxt)
    from 1(1)[OF max_date_max[OF 1(2)] Inr next_day_ordinal(1)[OF 1(2) Inr]] show ?thesis
      by (subst dates_from.simps) (simp add: max_date_max 1(2) Inr)
  qed
qed

section \<open>Printing and parsing\<close>

lemma length_str_of_nat: "n < 10 ^ Suc k \<Longrightarrow> length (str_of_nat n) \<le> Suc k"
proof (induction k arbitrary: n)
  case 0
  then show ?case by (subst str_of_nat.simps) simp
next
  case (Suc k)
  show ?case
  proof (cases "n < 10")
    case True
    then show ?thesis by (subst str_of_nat.simps) simp
  next
    case False
    have "n div 10 < 10 ^ Suc k" using Suc.prems by (simp add: less_mult_imp_div_less)
    from Suc.IH[OF this] False show ?thesis by (subst str_of_nat.simps) simp
  qed
qed

lemma is_digit_0: "is_digit (CHR ''0'')"
  by (simp add: is_digit_def)

lemma pad_left_digits:
  assumes "0 \<le> i" "i < 10 ^ Suc k"
  shows "str_isdigit (pad_left (Suc k) (str_of_int i))" "nat_of_digits (pad_left (Suc k) (str_of_int i)) = nat i"
    "length (pad_left (Suc k) (str_of_int i)) = Suc k" "CHR ''-'' \<notin> set (pad_left (Suc k) (str_of_int i))"
    "strip_ws (pad_left (Suc k) (str_of_int i)) = pad_left (Suc k) (str_of_int i)"
    "\<forall>c\<in>set (pad_left (Suc k) (str_of_int i)). \<not> is_space c"
proof -
  let ?p = "pad_left (Suc k) (str_of_int i)"
  have s: "str_of_int i = str_of_nat (nat i)" using assms(1) by (simp add: str_of_int_def)
  have "nat i < 10 ^ Suc k" using assms by (simp add: nat_less_iff)
  from length_str_of_nat[OF this] show len: "length ?p = Suc k" by (simp add: pad_left_def s)
  show "nat_of_digits ?p = nat i" by (simp add: pad_left_def s nat_of_digits_zeros nat_of_digits_str)
  have digits: "list_all is_digit ?p"
    using digits_str_of_nat[of "nat i"] is_digit_0 by (auto simp: pad_left_def s list_all_iff)
  then show "str_isdigit ?p" using len by (auto simp: str_isdigit_def)
  show "CHR ''-'' \<notin> set ?p" using digits by (auto simp: list_all_iff is_digit_def)
  have sp: "\<not> is_space c" if "c \<in> set ?p" for c
    using digits that by (auto simp: list_all_iff is_digit_def is_space_def)
  then show "\<forall>c\<in>set ?p. \<not> is_space c" by simp
  then show "strip_ws ?p = ?p" by (simp add: strip_chars_none)
qed

section \<open>Properties\<close>

lemma parse_ymd_iso:
  assumes "date_ok d"
  shows "parse_ymd (date_iso d) = Some d" "strip_ws (date_iso d) = date_iso d"
proof -
  obtain y m k where d: "d = Date y m k" by (cases d)
  note ok = assms[unfolded d date_ok_def max_year_def, simplified]
  have b: "0 \<le> y" "y < 10 ^ Suc 3" "0 \<le> m" "m < 10 ^ Suc 1" "0 \<le> k" "k < 10 ^ Suc 1"
    using ok days_in_month_le(1)[of y m] by auto
  note py = pad_left_digits[OF b(1,2)] and pm = pad_left_digits[OF b(3,4)] and pk = pad_left_digits[OF b(5,6)]
  let ?y = "pad_left (Suc 3) (str_of_int y)" and ?m = "pad_left (Suc 1) (str_of_int m)" and ?k = "pad_left (Suc 1) (str_of_int k)"
  have iso: "date_iso d = join ''-'' [?y, ?m, ?k]" by (simp add: date_iso_def d numeral_eq_Suc)
  have split: "split_on (CHR ''-'') (date_iso d) = [?y, ?m, ?k]"
    unfolding iso by (rule split_on_join) (use py(4) pm(4) pk(4) in auto)
  have "\<not> is_space (CHR ''-'')" by (simp add: is_space_def)
  then have "\<forall>c\<in>set (date_iso d). \<not> is_space c"
    unfolding iso using py(6) pm(6) pk(6) by (simp add: ball_Un)
  then show "strip_ws (date_iso d) = date_iso d" by (rule strip_chars_none)
  have "Suc 0 \<le> nat k" "nat k \<le> 31" "Suc 0 \<le> nat m" "nat m \<le> 12"
    using ok days_in_month_le(1)[of y m] by auto
  then show "parse_ymd (date_iso d) = Some d"
    unfolding parse_ymd_def split using py pm pk ok assms b
    by (simp add: Let_def month_text_def day_text_def d)
qed

text \<open>Parsing the ISO form of a date gives the date back.\<close>

theorem date_iso_roundtrip:
  assumes "date_ok d"
  shows "coerce_date (DText (date_iso d)) = Inr d"
  by (simp add: coerce_date_def parse_ymd_iso[OF assms])

text \<open>C39. Iterating a window of valid dates ends: before the last representable day it yields every date
  of the window exactly once, in order, as many as \<open>days\<close> says; a window that ends on that last day
  raises an overflow instead.\<close>

theorem iter_dates_correct:
  assumes "date_ok (dr_start w)" "date_ok (dr_end w)" "dr_start w \<le> dr_end w"
  shows "if dr_end w = max_date then iter_dates w = Inl (OverflowError ''date value out of range'')
    else \<exists>ds. iter_dates w = Inr ds \<and> sorted_wrt (<) ds \<and>
      set ds = {d. date_ok d \<and> dr_start w \<le> d \<and> d \<le> dr_end w} \<and> int (length ds) = range_days w"
proof (cases "dr_end w = max_date")
  case True
  with dates_from_max[OF assms(1)] show ?thesis by (simp add: iter_dates_def)
next
  case False
  then have "dr_end w < max_date" using max_date_max[OF assms(2)] by simp
  from dates_from_ok[OF assms(1,2) this] show ?thesis
    using False assms(3) ordinal_le_iff[OF assms(1,2)] by (simp add: iter_dates_def range_days_def)
qed

theorem date_iso_roundtrip_witness: "coerce_date (DText (date_iso (Date 2024 2 29))) = Inr (Date 2024 2 29)"
  by (rule date_iso_roundtrip) (simp add: date_ok_def max_year_def days_in_month_def leap_year_def)

theorem iter_dates_correct_witness:
  "\<exists>ds. iter_dates \<lparr>dr_start = Date 2024 2 28, dr_end = Date 2024 3 1\<rparr> = Inr ds \<and> Date 2024 2 29 \<in> set ds \<and> length ds = 3"
proof -
  let ?w = "\<lparr>dr_start = Date 2024 2 28, dr_end = Date 2024 3 1\<rparr>"
  have ok: "date_ok (dr_start ?w)" "date_ok (dr_end ?w)" "dr_start ?w \<le> dr_end ?w" "dr_end ?w \<noteq> max_date"
    "range_days ?w = 3" "date_ok (Date 2024 2 29)" "dr_start ?w \<le> Date 2024 2 29" "Date 2024 2 29 \<le> dr_end ?w"
    by (simp_all add: date_ok_def max_year_def max_date_def days_in_month_def leap_year_def less_eq_date_def
        range_days_def ordinal_def days_before_year_def days_before_month_def upto_rec1)
  from iter_dates_correct[OF ok(1,2,3)] ok(4,5,6,7,8) show ?thesis by auto
qed

end
