(* ===== verification/Warehouse_Rows.thy ===== *)
theory Warehouse_Rows
  imports Dates
begin

text \<open>
  The tables of \<^verbatim>\<open>src/robot_dh/warehouse/models.py\<close> that the quality operations read and
  write, one record per table with the columns the code declares (a nullable column is an option, a
  JSON column a dynamic value), and the database they form. A table is its list of rows in the order
  a query without \<open>ORDER BY\<close> returns them; a database that lacks a table has \<open>None\<close> there.
\<close>

section \<open>Rows\<close>

text \<open>A point in time in UTC: the day and the seconds since its start.\<close>

type_synonym datetime = "date \<times> rat"

text \<open>The document that a JSON column holds; \<open>NULL\<close> is \<open>None\<close>.\<close>

record ads_row =
  ad_dt :: date
  ad_dataset_id :: string
  ad_version :: string
  ad_dataset_family :: "string option"
  ad_overall_status :: "string option"
  ad_quality_score :: "rat option"
  ad_qc_pass_rate :: "rat option"
  ad_etl_success_rate :: "rat option"
  ad_workflow_success_rate :: "rat option"
  ad_top_failed_rule :: "string option"
  ad_top_failed_rule_count :: "int option"
  ad_p95_duration_sec :: "rat option"
  ad_ml_ready_rows :: "int option"
  ad_raw_bytes :: "int option"
  ad_dwd_bytes :: "int option"
  ad_alert_level :: "string option"
  ad_alert_reason :: "string option"
  ad_updated_at :: datetime

record workflow_ops_row =
  wo_dt :: date
  wo_workflow_type :: string
  wo_workflow_count :: "int option"
  wo_success_count :: "int option"
  wo_failed_count :: "int option"
  wo_success_rate :: "rat option"
  wo_avg_duration_sec :: "rat option"
  wo_p95_duration_sec :: "rat option"
  wo_stale_heartbeat_count :: "int option"
  wo_oom_count :: "int option"
  wo_deadline_exceeded_count :: "int option"
  wo_alert_level :: "string option"
  wo_alert_reason :: "string option"
  wo_updated_at :: datetime

record dim_dataset_row =
  dd_dataset_key :: string
  dd_dataset_id :: string
  dd_version :: string
  dd_dataset_family :: "string option"
  dd_source_uri :: "string option"
  dd_raw_uri :: "string option"
  dd_ods_uri :: "string option"
  dd_dwd_uri :: "string option"
  dd_ads_uri :: "string option"
  dd_ml_ready_uri :: "string option"
  dd_first_seen_at :: "datetime option"
  dd_latest_status :: "string option"
  dd_latest_quality_score :: "rat option"
  dd_is_active :: bool
  dd_updated_at :: datetime

record etl_run_row =
  er_run_key :: string
  er_job_id :: "string option"
  er_run_id :: "string option"
  er_dataset_id :: "string option"
  er_version :: "string option"
  er_dataset_family :: "string option"
  er_phase :: "string option"
  er_status :: "string option"
  er_started_at :: "datetime option"
  er_finished_at :: "datetime option"
  er_dt :: "date option"
  er_duration_sec :: "rat option"
  er_input_bytes :: "int option"
  er_output_bytes :: "int option"
  er_input_rows :: "int option"
  er_output_rows :: "int option"
  er_peak_memory_mb :: "rat option"
  er_error_message :: "string option"
  er_archive_log_uri :: "string option"
  er_created_at :: datetime

record workflow_step_row =
  wsr_step_key :: string
  wsr_workflow_name :: "string option"
  wsr_workflow_namespace :: "string option"
  wsr_workflow_type :: "string option"
  wsr_step_name :: "string option"
  wsr_template_name :: "string option"
  wsr_pod_name :: "string option"
  wsr_phase :: "string option"
  wsr_dataset_id :: "string option"
  wsr_version :: "string option"
  wsr_dataset_family :: "string option"
  wsr_started_at :: "datetime option"
  wsr_finished_at :: "datetime option"
  wsr_dt :: "date option"
  wsr_duration_sec :: "rat option"
  wsr_exit_code :: "int option"
  wsr_container_reason :: "string option"
  wsr_archive_log_uri :: "string option"
  wsr_archive_log_url :: "string option"
  wsr_created_at :: datetime

record dataset_quality_row =
  dq_dt :: date
  dq_dataset_id :: string
  dq_version :: string
  dq_dataset_family :: "string option"
  dq_qc_run_count :: int
  dq_qc_pass_count :: int
  dq_qc_warn_count :: int
  dq_qc_fail_count :: int
  dq_qc_pass_rate :: "rat option"
  dq_etl_run_count :: int
  dq_etl_success_count :: int
  dq_etl_fail_count :: int
  dq_etl_success_rate :: "rat option"
  dq_workflow_count :: int
  dq_workflow_success_count :: int
  dq_workflow_fail_count :: int
  dq_workflow_success_rate :: "rat option"
  dq_avg_quality_score :: "rat option"
  dq_ml_ready_rows :: int
  dq_total_input_bytes :: int
  dq_total_output_bytes :: int
  dq_p95_etl_duration_sec :: "rat option"
  dq_p95_workflow_step_duration_sec :: "rat option"
  dq_stale_heartbeat_count :: int
  dq_updated_at :: datetime

record rule_failure_row =
  rf_dt :: date
  rf_dataset_family :: string
  rf_contract_id :: string
  rf_rule_id :: string
  rf_severity :: string
  rf_run_count :: int
  rf_pass_count :: int
  rf_warn_count :: int
  rf_fail_count :: int
  rf_fail_rate :: "rat option"
  rf_updated_at :: datetime

record inference_daily_row =
  idr_dt :: date
  idr_model_id :: string
  idr_backend :: "string option"
  idr_task_type :: string
  idr_job_count :: int
  idr_success_count :: int
  idr_fail_count :: int
  idr_success_rate :: "rat option"
  idr_total_samples :: int
  idr_samples_per_sec :: "rat option"
  idr_avg_latency_ms :: "rat option"
  idr_p95_latency_ms :: "rat option"
  idr_error_rate :: "rat option"
  idr_updated_at :: datetime

record ml_ready_row =
  ml_id :: int
  ml_dataset_id :: string
  ml_version :: string
  ml_dataset_family :: "string option"
  ml_output_uri :: string
  ml_train_uri :: "string option"
  ml_val_uri :: "string option"
  ml_test_uri :: "string option"
  ml_dataset_card_uri :: "string option"
  ml_feature_schema_uri :: "string option"
  ml_quality_filter_uri :: "string option"
  ml_lineage_uri :: "string option"
  ml_quality_threshold :: "rat option"
  ml_num_train :: "int option"
  ml_num_val :: "int option"
  ml_num_test :: "int option"
  ml_status :: "string option"
  ml_metrics_json :: "pyval option"
  ml_created_at :: datetime

record qc_contract_run_row =
  qr_id :: int
  qr_run_id :: string
  qr_contract_id :: string
  qr_dataset_id :: "string option"
  qr_version :: "string option"
  qr_dataset_family :: "string option"
  qr_dataset_uri :: "string option"
  qr_status :: string
  qr_started_at :: "datetime option"
  qr_finished_at :: "datetime option"
  qr_duration_sec :: "rat option"
  qr_metrics_json :: "pyval option"
  qr_failed_rules_json :: "pyval option"
  qr_warning_rules_json :: "pyval option"
  qr_artifacts_uri :: "string option"
  qr_error_message :: "string option"
  qr_created_at :: datetime

record workflow_run_row =
  wr_id :: int
  wr_workflow_name :: string
  wr_workflow_uid :: "string option"
  wr_workflow_namespace :: "string option"
  wr_workflow_template :: "string option"
  wr_workflow_type :: "string option"
  wr_status :: "string option"
  wr_started_at :: "datetime option"
  wr_finished_at :: "datetime option"
  wr_duration_sec :: "rat option"
  wr_parameters_json :: "pyval option"
  wr_metrics_json :: "pyval option"
  wr_workflow_json :: "pyval option"
  wr_created_at :: datetime

record distillation_row =
  dt_distill_id :: string
  dt_dataset_id :: "string option"
  dt_version :: "string option"
  dt_source_inference_job_id :: "string option"
  dt_teacher_model_id :: "string option"
  dt_distill_format :: string
  dt_output_uri :: string
  dt_train_uri :: "string option"
  dt_val_uri :: "string option"
  dt_test_uri :: "string option"
  dt_dataset_card_uri :: "string option"
  dt_num_train :: int
  dt_num_val :: int
  dt_num_test :: int
  dt_status :: string
  dt_metrics_json :: "pyval option"
  dt_created_at :: datetime
  dt_updated_at :: datetime

record benchmark_row =
  bm_benchmark_id :: string
  bm_model_id :: "string option"
  bm_backend :: "string option"
  bm_workload_name :: "string option"
  bm_input_uri :: "string option"
  bm_status :: "string option"
  bm_concurrency :: "int option"
  bm_batch_size :: "int option"
  bm_duration_sec :: "rat option"
  bm_total_samples :: "int option"
  bm_succeeded_samples :: "int option"
  bm_failed_samples :: "int option"
  bm_samples_per_sec :: "rat option"
  bm_p50_latency_ms :: "rat option"
  bm_p95_latency_ms :: "rat option"
  bm_p99_latency_ms :: "rat option"
  bm_error_rate :: "rat option"
  bm_cost_estimate_json :: "pyval option"
  bm_metrics_json :: "pyval option"
  bm_started_at :: "datetime option"
  bm_finished_at :: "datetime option"
  bm_created_at :: datetime

record backfill_plan_row =
  bp_plan_id :: string
  bp_from_date :: "date option"
  bp_to_date :: "date option"
  bp_dataset_id :: "string option"
  bp_version :: "string option"
  bp_phase :: "string option"
  bp_reason :: "string option"
  bp_status :: "string option"
  bp_task_count :: int
  bp_created_by :: "string option"
  bp_created_at :: datetime
  bp_updated_at :: datetime
  bp_plan_json :: "pyval option"

record backfill_task_row =
  bt_task_id :: string
  bt_plan_id :: string
  bt_dataset_id :: "string option"
  bt_version :: "string option"
  bt_dataset_family :: "string option"
  bt_dt :: "date option"
  bt_phase :: "string option"
  bt_input_uri :: "string option"
  bt_output_uri :: "string option"
  bt_recommended_command :: "string option"
  bt_status :: "string option"
  bt_attempts :: int
  bt_last_error :: "string option"
  bt_started_at :: "datetime option"
  bt_finished_at :: "datetime option"
  bt_created_at :: datetime
  bt_updated_at :: datetime

record sla_policy_row =
  spr_policy_id :: string
  spr_policy_name :: string
  spr_dataset_pattern :: "string option"
  spr_dataset_family :: "string option"
  spr_deadline_hour :: "int option"
  spr_required_outputs_json :: "pyval option"
  spr_min_qc_pass_rate :: "rat option"
  spr_min_etl_success_rate :: "rat option"
  spr_max_failed_workflows :: "int option"
  spr_enabled :: bool
  spr_created_at :: datetime
  spr_updated_at :: datetime

record sla_check_row =
  scr_check_id :: string
  scr_policy_id :: "string option"
  scr_dt :: "date option"
  scr_dataset_id :: "string option"
  scr_version :: "string option"
  scr_status :: "string option"
  scr_qc_pass_rate :: "rat option"
  scr_etl_success_rate :: "rat option"
  scr_workflow_success_rate :: "rat option"
  scr_missing_outputs_json :: "pyval option"
  scr_failed_reason :: "string option"
  scr_checked_at :: datetime
  scr_metrics_json :: "pyval option"

section \<open>The database\<close>

record ops_db =
  od_ads :: "ads_row list option"
  od_workflow_ops :: "workflow_ops_row list option"
  od_dim_dataset :: "dim_dataset_row list option"
  od_etl_runs :: "etl_run_row list option"
  od_steps :: "workflow_step_row list option"
  od_dataset_quality :: "dataset_quality_row list option"
  od_rule_failures :: "rule_failure_row list option"
  od_inference_daily :: "inference_daily_row list option"
  od_ml_ready :: "ml_ready_row list option"
  od_qc_runs :: "qc_contract_run_row list option"
  od_workflow_runs :: "workflow_run_row list option"
  od_distillation :: "distillation_row list option"
  od_benchmarks :: "benchmark_row list option"
  od_plans :: "(string \<times> backfill_plan_row) list option"
  od_tasks :: "(string \<times> backfill_task_row) list option"
  od_sla_policies :: "(string \<times> sla_policy_row) list option"
  od_sla_checks :: "sla_check_row list option"

text \<open>The rows of a table that may be missing.\<close>

definition table_rows :: "'a list option \<Rightarrow> 'a list" where
  "table_rows t = (case t of None \<Rightarrow> [] | Some rs \<Rightarrow> rs)"

definition empty_db :: ops_db where
  "empty_db = \<lparr>od_ads = None, od_workflow_ops = None, od_dim_dataset = None, od_etl_runs = None,
     od_steps = None, od_dataset_quality = None, od_rule_failures = None, od_inference_daily = None,
     od_ml_ready = None, od_qc_runs = None, od_workflow_runs = None, od_distillation = None,
     od_benchmarks = None, od_plans = None, od_tasks = None, od_sla_policies = None, od_sla_checks = None\<rparr>"

lemma table_rows_simps [simp]: "table_rows None = []" "table_rows (Some rs) = rs"
  by (simp_all add: table_rows_def)

end
