(* ===== verification/Sla.thy ===== *)
theory Sla
  imports Warehouse_Rows
begin

text \<open>
  \<^verbatim>\<open>src/robot_dh/quality_ops/sla.py\<close>: loading the SLA policies, choosing the data sets a policy
  covers, the presence of a required output, the verdict on the thresholds, and the check of all
  policies with its writes to \<open>sla_policies\<close> and \<open>sla_checks\<close>. The YAML file comes parsed (\<open>None\<close> when
  it does not exist); clocks and the random suffixes of check ids are parameters.
\<close>

section \<open>Policies\<close>

record sla_policy =
  po_policy_id :: string
  po_policy_name :: string
  po_dataset_pattern :: "string option"
  po_dataset_family :: "string option"
  po_deadline_hour :: "int option"
  po_required_outputs :: "string list"
  po_min_qc_pass_rate :: "rat option"
  po_min_etl_success_rate :: "rat option"
  po_max_failed_workflows :: "int option"
  po_enabled :: bool

text \<open>The optional entries: absent and \<open>None\<close> read as \<open>None\<close>; a text entry also when it is falsy.\<close>

definition opt_entry :: "(pyval \<Rightarrow> 'a result) \<Rightarrow> pydict \<Rightarrow> string \<Rightarrow> 'a option result" where
  "opt_entry conv entry k = (if get entry k = VNone then Inr None else rbind (conv (get entry k)) (\<lambda>x. Inr (Some x)))"

definition opt_text :: "pydict \<Rightarrow> string \<Rightarrow> string option" where
  "opt_text entry k = (if truthy (get entry k) then Some (py_str (get entry k)) else None)"

definition required_list :: "pydict \<Rightarrow> string list" where
  "required_list entry = (case py_or (get entry ''required_outputs'') (VList []) of
     VList xs \<Rightarrow> map py_str xs | v \<Rightarrow> [py_str v])"

definition load_policy :: "pydict \<Rightarrow> sla_policy result" where
  "load_policy entry =
     rbind (opt_entry py_int entry ''deadline_hour'') (\<lambda>deadline.
     rbind (opt_entry py_float entry ''min_qc_pass_rate'') (\<lambda>qc.
     rbind (opt_entry py_float entry ''min_etl_success_rate'') (\<lambda>etl.
     rbind (opt_entry py_int entry ''max_failed_workflows'') (\<lambda>wf.
       Inr \<lparr>po_policy_id = py_str (py_or (get entry ''policy_id'') (VStr [])),
            po_policy_name = py_str (py_or (get entry ''policy_name'') (py_or (get entry ''policy_id'') (VStr []))),
            po_dataset_pattern = opt_text entry ''dataset_pattern'',
            po_dataset_family = opt_text entry ''dataset_family'',
            po_deadline_hour = deadline, po_required_outputs = required_list entry,
            po_min_qc_pass_rate = qc, po_min_etl_success_rate = etl, po_max_failed_workflows = wf,
            po_enabled = truthy (get_or entry ''enabled'' (VBool True))\<rparr>))))"

text \<open>Entries that are not mappings are passed over.\<close>

fun load_entries :: "pyval list \<Rightarrow> sla_policy list result" where
  "load_entries [] = Inr []"
| "load_entries (VDict entry # vs) = rbind (load_policy entry) (\<lambda>p. rbind (load_entries vs) (\<lambda>ps. Inr (p # ps)))"
| "load_entries (_ # vs) = load_entries vs"

definition load_sla_policies :: "pyval option \<Rightarrow> sla_policy list result" where
  "load_sla_policies doc = (case doc of
     None \<Rightarrow> Inl (FileNotFoundError ''SLA policies file not found'')
   | Some v \<Rightarrow> rbind (as_mapping (py_or v (VDict []))) (\<lambda>raw.
       case py_or (get raw ''policies'') (VList []) of
         VList vs \<Rightarrow> load_entries vs
       | _ \<Rightarrow> Inl (ValueError ''policies must be a list'')))"

section \<open>The data sets of a policy\<close>

definition opt_set :: "string option \<Rightarrow> string option" where
  "opt_set o' = (case o' of Some [] \<Rightarrow> None | _ \<Rightarrow> o')"

definition policy_matches :: "sla_policy \<Rightarrow> string \<Rightarrow> string option \<Rightarrow> bool" where
  "policy_matches p dataset_id family =
     (if opt_set (po_dataset_family p) \<noteq> None \<and> family \<noteq> po_dataset_family p then False
      else case opt_set (po_dataset_pattern p) of None \<Rightarrow> True | Some pat \<Rightarrow> glob pat dataset_id)"

type_synonym dataset_ref = "string \<times> string \<times> string option"

definition ref_key :: "dataset_ref \<Rightarrow> string \<times> string" where
  "ref_key r = (fst r, fst (snd r))"

text \<open>One turn of the two loops; the set \<open>seen\<close> is the keys of the list built so far.\<close>

definition select_one :: "sla_policy \<Rightarrow> dataset_ref \<Rightarrow> dataset_ref list \<Rightarrow> dataset_ref list" where
  "select_one p r out =
     (if policy_matches p (fst r) (snd (snd r)) \<and> ref_key r \<notin> ref_key ` set out then out @ [r] else out)"

definition select_datasets :: "sla_policy \<Rightarrow> ads_row list \<Rightarrow> dim_dataset_row list \<Rightarrow> dataset_ref list" where
  "select_datasets p ads dims =
     fold (select_one p) (map (\<lambda>r. (dd_dataset_id r, dd_version r, dd_dataset_family r)) dims)
       (fold (select_one p) (map (\<lambda>r. (ad_dataset_id r, ad_version r, ad_dataset_family r)) ads) [])"

section \<open>Required outputs and thresholds\<close>

definition positive :: "int option \<Rightarrow> bool" where
  "positive n = (case n of None \<Rightarrow> False | Some k \<Rightarrow> k > 0)"

definition output_present :: "string \<Rightarrow> ads_row option \<Rightarrow> ml_ready_row option \<Rightarrow> qc_contract_run_row list \<Rightarrow> bool" where
  "output_present name0 ads_row ml_ready qc_runs =
     (let name = lower name0 in
      if name \<in> {''qc_contract'', ''qc''} then list_ex (\<lambda>r. upper (qr_status r) \<in> {''PASS'', ''WARN''}) qc_runs
      else if name \<in> {''ml_ready'', ''ml-ready''} then ml_ready \<noteq> None
      else if name = ''ads'' then ads_row \<noteq> None
      else if name \<in> {''dwd'', ''dwd_bytes''} then (case ads_row of None \<Rightarrow> False | Some r \<Rightarrow> positive (ad_dwd_bytes r))
      else if name \<in> {''ods'', ''raw'', ''raw_bytes''} then (case ads_row of None \<Rightarrow> False | Some r \<Rightarrow> positive (ad_raw_bytes r))
      else if ads_row = None then False
      else list_ex (contains name) [''ads'', ''dwd'', ''ods'', ''raw''])"

text \<open>\<open>f"{x:.3f}"\<close> and the text of a list of names.\<close>

definition fmt_fixed :: "nat \<Rightarrow> rat \<Rightarrow> string" where
  "fmt_fixed n q = (let r = round_even (\<bar>q\<bar> * 10 ^ n) in
     (if q < 0 then ''-'' else []) @ str_of_int (r div 10 ^ n) @ ''.'' @ pad_left n (str_of_int (r mod 10 ^ n)))"

definition fmt_names :: "string list \<Rightarrow> string" where
  "fmt_names xs = ''['' @ join '', '' (map (\<lambda>x. [CHR 0x27] @ x @ [CHR 0x27]) xs) @ '']''"

text \<open>The reasons collected so far, and the flags \<open>failing\<close> and \<open>warning\<close>.\<close>

type_synonym findings = "string list \<times> bool \<times> bool"

definition check_rate :: "string \<Rightarrow> rat option \<Rightarrow> rat option \<Rightarrow> findings \<Rightarrow> findings" where
  "check_rate name limit rate fs = (case limit of None \<Rightarrow> fs
     | Some m \<Rightarrow> (case fs of (reasons, failing, warning) \<Rightarrow>
        (case rate of
           None \<Rightarrow> (reasons @ [name @ ''=NULL''], failing, True)
         | Some x \<Rightarrow> if x < m then (reasons @ [name @ '' '' @ fmt_fixed 3 x @ ''<'' @ fmt_fixed 3 m], True, warning) else fs)))"

definition evaluate_policy :: "sla_policy \<Rightarrow> rat option \<Rightarrow> rat option \<Rightarrow> nat \<Rightarrow> string list \<Rightarrow> string \<times> string option" where
  "evaluate_policy p qc_rate etl_rate failed_workflows missing_outputs =
     (let f0 = (if missing_outputs \<noteq> [] then ([''missing_outputs='' @ fmt_names missing_outputs], True, False)
                else ([], False, False));
          f1 = check_rate ''qc_pass_rate'' (po_min_qc_pass_rate p) qc_rate f0;
          f2 = check_rate ''etl_success_rate'' (po_min_etl_success_rate p) etl_rate f1;
          (reasons, failing, warning) = (case po_max_failed_workflows p of None \<Rightarrow> f2
            | Some m \<Rightarrow> (case f2 of (rs, fl, w) \<Rightarrow>
                if int failed_workflows > m then
                  (rs @ [''failed_workflows '' @ str_of_nat failed_workflows @ ''>'' @ str_of_int m], True, w) else f2))
      in if failing then (''FAIL'', Some (if reasons \<noteq> [] then join ''; '' reasons else ''policy violated''))
         else if warning then (''WARN'', Some (if reasons \<noteq> [] then join ''; '' reasons else ''missing inputs''))
         else (''PASS'', None))"

section \<open>Checks\<close>

record sla_check =
  sk_check_id :: string
  sk_policy_id :: string
  sk_policy_name :: string
  sk_dt :: string
  sk_dataset_id :: string
  sk_version :: string
  sk_status :: string
  sk_qc_pass_rate :: "rat option"
  sk_etl_success_rate :: "rat option"
  sk_workflow_success_rate :: "rat option"
  sk_missing_outputs :: "string list"
  sk_failed_reason :: "string option"
  sk_metrics :: pydict

text \<open>The rows a run works on: those of the target day, the last row of a key winning.\<close>

record sla_data =
  sl_ads :: "ads_row list"
  sl_dims :: "dim_dataset_row list"
  sl_ml :: "ml_ready_row list"
  sl_qc :: "qc_contract_run_row list"
  sl_wf :: "workflow_run_row list"

definition on_day :: "date \<Rightarrow> datetime option \<Rightarrow> bool" where
  "on_day d t = (case t of None \<Rightarrow> False | Some (e, _) \<Rightarrow> e = d)"

definition fetch_data :: "date \<Rightarrow> ops_db \<Rightarrow> sla_data" where
  "fetch_data target db =
     \<lparr>sl_ads = filter (\<lambda>r. ad_dt r = target) (table_rows (od_ads db)),
      sl_dims = table_rows (od_dim_dataset db), sl_ml = table_rows (od_ml_ready db),
      sl_qc = filter (\<lambda>r. on_day target (qr_started_at r)) (table_rows (od_qc_runs db)),
      sl_wf = filter (\<lambda>r. on_day target (wr_started_at r)) (table_rows (od_workflow_runs db))\<rparr>"

definition ads_of :: "sla_data \<Rightarrow> string \<times> string \<Rightarrow> ads_row option" where
  "ads_of sl k = find (\<lambda>r. (ad_dataset_id r, ad_version r) = k) (rev (sl_ads sl))"

definition ml_of :: "sla_data \<Rightarrow> string \<times> string \<Rightarrow> ml_ready_row option" where
  "ml_of sl k = find (\<lambda>r. (ml_dataset_id r, ml_version r) = k) (rev (sl_ml sl))"

definition qc_of :: "sla_data \<Rightarrow> string \<times> string \<Rightarrow> qc_contract_run_row list" where
  "qc_of sl k = filter (\<lambda>r. qr_dataset_id r = Some (fst k) \<and> qr_version r = Some (snd k)) (sl_qc sl)"

definition failed_workflows :: "sla_data \<Rightarrow> nat" where
  "failed_workflows sl = length (filter (\<lambda>r. case wr_status r of None \<Rightarrow> False
     | Some s \<Rightarrow> upper s \<in> {''FAILED'', ''ERROR''}) (sl_wf sl))"

definition missing_outputs_of :: "sla_policy \<Rightarrow> sla_data \<Rightarrow> string \<times> string \<Rightarrow> string list" where
  "missing_outputs_of p sl k =
     filter (\<lambda>o'. \<not> output_present (lower o') (ads_of sl k) (ml_of sl k) (qc_of sl k)) (po_required_outputs p)"

definition rate_of :: "(ads_row \<Rightarrow> rat option) \<Rightarrow> ads_row option \<Rightarrow> rat option" where
  "rate_of f r = (case r of None \<Rightarrow> None | Some x \<Rightarrow> f x)"

definition check_dataset :: "string \<Rightarrow> date \<Rightarrow> sla_policy \<Rightarrow> sla_data \<Rightarrow> dataset_ref \<Rightarrow> sla_check" where
  "check_dataset rnd target p sl r =
     (case r of (d, v, family) \<Rightarrow>
       let k = (d, v);
           ads = ads_of sl k;
           missing = missing_outputs_of p sl k;
           (status, reason) = evaluate_policy p (rate_of ad_qc_pass_rate ads) (rate_of ad_etl_success_rate ads)
             (failed_workflows sl) missing
       in \<lparr>sk_check_id = join ''-'' [''slc'', date_iso target, po_policy_id p, d, v, rnd],
           sk_policy_id = po_policy_id p, sk_policy_name = po_policy_name p, sk_dt = date_iso target,
           sk_dataset_id = d, sk_version = v, sk_status = status,
           sk_qc_pass_rate = rate_of ad_qc_pass_rate ads, sk_etl_success_rate = rate_of ad_etl_success_rate ads,
           sk_workflow_success_rate = rate_of ad_workflow_success_rate ads,
           sk_missing_outputs = missing, sk_failed_reason = reason,
           sk_metrics = [(''qc_runs'', VInt (int (length (qc_of sl k)))),
             (''ml_ready_uri'', of_opt_str (map_option ml_output_uri (ml_of sl k))),
             (''failed_workflows'', VInt (int (failed_workflows sl))), (''dataset_family'', of_opt_str family)]\<rparr>)"

definition skipped_result :: "string \<Rightarrow> date \<Rightarrow> sla_policy \<Rightarrow> string \<Rightarrow> sla_check" where
  "skipped_result rnd target p reason =
     \<lparr>sk_check_id = join ''-'' [''slc'', date_iso target, po_policy_id p, ''skipped'', rnd],
      sk_policy_id = po_policy_id p, sk_policy_name = po_policy_name p, sk_dt = date_iso target,
      sk_dataset_id = [], sk_version = [], sk_status = ''SKIPPED'', sk_qc_pass_rate = None,
      sk_etl_success_rate = None, sk_workflow_success_rate = None, sk_missing_outputs = [],
      sk_failed_reason = Some reason, sk_metrics = [(''note'', VStr reason)]\<rparr>"

section \<open>Writes\<close>

definition policy_row :: "datetime \<Rightarrow> sla_policy \<Rightarrow> sla_policy_row option \<Rightarrow> sla_policy_row" where
  "policy_row now p old =
     \<lparr>spr_policy_id = po_policy_id p, spr_policy_name = po_policy_name p,
      spr_dataset_pattern = po_dataset_pattern p, spr_dataset_family = po_dataset_family p,
      spr_deadline_hour = po_deadline_hour p,
      spr_required_outputs_json = Some (VList (map VStr (po_required_outputs p))),
      spr_min_qc_pass_rate = po_min_qc_pass_rate p, spr_min_etl_success_rate = po_min_etl_success_rate p,
      spr_max_failed_workflows = po_max_failed_workflows p, spr_enabled = po_enabled p,
      spr_created_at = (case old of None \<Rightarrow> now | Some r \<Rightarrow> spr_created_at r), spr_updated_at = now\<rparr>"

definition upsert_policy :: "datetime \<Rightarrow> sla_policy \<Rightarrow> ops_db \<Rightarrow> ops_db" where
  "upsert_policy now p db = (case od_sla_policies db of None \<Rightarrow> db
     | Some t \<Rightarrow> if po_policy_id p = [] then db
         else db\<lparr>od_sla_policies := Some (dict_upsert (policy_row now p) (po_policy_id p) t)\<rparr>)"

definition non_empty :: "string \<Rightarrow> string option" where
  "non_empty s = (if s = [] then None else Some s)"

definition check_row :: "datetime \<Rightarrow> date \<Rightarrow> sla_check \<Rightarrow> sla_check_row" where
  "check_row now target c =
     \<lparr>scr_check_id = sk_check_id c, scr_policy_id = Some (sk_policy_id c), scr_dt = Some target,
      scr_dataset_id = non_empty (sk_dataset_id c), scr_version = non_empty (sk_version c),
      scr_status = Some (sk_status c), scr_qc_pass_rate = sk_qc_pass_rate c,
      scr_etl_success_rate = sk_etl_success_rate c, scr_workflow_success_rate = sk_workflow_success_rate c,
      scr_missing_outputs_json = Some (VList (map VStr (sk_missing_outputs c))),
      scr_failed_reason = sk_failed_reason c, scr_checked_at = now, scr_metrics_json = Some (VDict (sk_metrics c))\<rparr>"

definition persist_check :: "datetime \<Rightarrow> date \<Rightarrow> sla_check \<Rightarrow> ops_db \<Rightarrow> ops_db" where
  "persist_check now target c db = (case od_sla_checks db of None \<Rightarrow> db
     | Some t \<Rightarrow> db\<lparr>od_sla_checks := Some (t @ [check_row now target c])\<rparr>)"

section \<open>The run\<close>

text \<open>The clock as it is read for a policy, and the random suffix of the check of its n-th data set.\<close>

record sla_clock =
  sc_yesterday :: date
  sc_now :: "nat \<Rightarrow> datetime"
  sc_suffix :: "nat \<Rightarrow> nat \<Rightarrow> string"

definition unscoped :: "sla_policy \<Rightarrow> bool" where
  "unscoped p = (po_dataset_pattern p = None \<and> po_dataset_family p = None)"

definition policy_checks :: "sla_clock \<Rightarrow> date \<Rightarrow> sla_data \<Rightarrow> nat \<Rightarrow> sla_policy \<Rightarrow> sla_check list" where
  "policy_checks ck target sl i p =
     map (\<lambda>(j, r). check_dataset (sc_suffix ck i j) target p sl r)
       (enumerate 0 (select_datasets p (sl_ads sl) (sl_dims sl)))"

definition check_policy :: "sla_clock \<Rightarrow> bool \<Rightarrow> date \<Rightarrow> sla_data \<Rightarrow> nat \<times> sla_policy
    \<Rightarrow> sla_check list \<times> ops_db \<Rightarrow> sla_check list \<times> ops_db" where
  "check_policy ck persist target sl ip acc = (case ip of (i, p) \<Rightarrow> (case acc of (results, db) \<Rightarrow>
     if \<not> po_enabled p then (results, db)
     else let db1 = (if persist then upsert_policy (sc_now ck i) p db else db)
       in if select_datasets p (sl_ads sl) (sl_dims sl) = [] \<and> unscoped p then
            (results @ [skipped_result (sc_suffix ck i 0) target p ''no datasets matched policy scope''], db1)
          else (results @ policy_checks ck target sl i p,
                if persist then fold (persist_check (sc_now ck i) target) (policy_checks ck target sl i p) db1 else db1)))"

definition perform_sla_checks :: "sla_clock \<Rightarrow> sla_policy list \<Rightarrow> date_arg option \<Rightarrow> bool \<Rightarrow> ops_db
    \<Rightarrow> (sla_check list \<times> ops_db) result" where
  "perform_sla_checks ck policies date_arg persist db =
     rbind (parse_date_range (sc_yesterday ck) date_arg None None) (\<lambda>w.
       Inr (fold (check_policy ck persist (dr_start w) (fetch_data (dr_start w) db)) (enumerate 0 policies) ([], db)))"

section \<open>Lemmas\<close>

definition refs_of :: "ads_row list \<Rightarrow> dim_dataset_row list \<Rightarrow> dataset_ref list" where
  "refs_of ads dims = map (\<lambda>r. (ad_dataset_id r, ad_version r, ad_dataset_family r)) ads @
     map (\<lambda>r. (dd_dataset_id r, dd_version r, dd_dataset_family r)) dims"

lemma select_datasets_fold: "select_datasets p ads dims = fold (select_one p) (refs_of ads dims) []"
  by (simp add: select_datasets_def refs_of_def)

abbreviation ref_matches :: "sla_policy \<Rightarrow> dataset_ref \<Rightarrow> bool" where
  "ref_matches p r \<equiv> policy_matches p (fst r) (snd (snd r))"

lemma select_one_facts:
  "distinct (map ref_key out) \<Longrightarrow> distinct (map ref_key (select_one p r out))"
  "set out \<subseteq> set (select_one p r out)"
  "set (select_one p r out) \<subseteq> set out \<union> {x \<in> {r}. ref_matches p x}"
  "ref_key ` set (select_one p r out) = ref_key ` set out \<union> ref_key ` {x \<in> {r}. ref_matches p x}"
  by (auto simp: select_one_def)

lemma select_fold:
  "distinct (map ref_key out) \<Longrightarrow> distinct (map ref_key (fold (select_one p) rs out))"
  "set (fold (select_one p) rs out) \<subseteq> set out \<union> {r \<in> set rs. ref_matches p r}"
  "ref_key ` set (fold (select_one p) rs out) = ref_key ` set out \<union> ref_key ` {r \<in> set rs. ref_matches p r}"
proof (induction rs arbitrary: out)
  case (Cons r rs)
  { case 1 then show ?case using Cons.IH(1) select_one_facts(1) by simp }
  { case 2 show ?case using Cons.IH(2)[of "select_one p r out"] select_one_facts(3)[of p r out] by fastforce }
  { case 3 show ?case using Cons.IH(3)[of "select_one p r out"] select_one_facts(4)[of p r out] by auto }
qed simp_all

text \<open>What the thresholds say, apart from the texts of the reasons.\<close>

definition below_limit :: "rat option \<Rightarrow> rat option \<Rightarrow> bool" where
  "below_limit limit rate = (case (limit, rate) of (Some m, Some x) \<Rightarrow> x < m | _ \<Rightarrow> False)"

definition unknown_rate :: "rat option \<Rightarrow> rat option \<Rightarrow> bool" where
  "unknown_rate limit rate = (limit \<noteq> None \<and> rate = None)"

definition violated :: "sla_policy \<Rightarrow> rat option \<Rightarrow> rat option \<Rightarrow> nat \<Rightarrow> string list \<Rightarrow> bool" where
  "violated p qc etl nf missing =
     (missing \<noteq> [] \<or> below_limit (po_min_qc_pass_rate p) qc \<or> below_limit (po_min_etl_success_rate p) etl \<or>
      (case po_max_failed_workflows p of None \<Rightarrow> False | Some m \<Rightarrow> m < int nf))"

definition undecided :: "sla_policy \<Rightarrow> rat option \<Rightarrow> rat option \<Rightarrow> bool" where
  "undecided p qc etl = (unknown_rate (po_min_qc_pass_rate p) qc \<or> unknown_rate (po_min_etl_success_rate p) etl)"

lemma check_rate_flags:
  assumes "check_rate name limit rate (rs, fl, w) = (rs', fl', w')"
  shows "fl' = (fl \<or> below_limit limit rate)" "w' = (w \<or> unknown_rate limit rate)"
  using assms by (auto simp: check_rate_def below_limit_def unknown_rate_def split: option.splits if_splits)

lemma evaluate_policy_status:
  "fst (evaluate_policy p qc etl nf missing) =
     (if violated p qc etl nf missing then ''FAIL'' else if undecided p qc etl then ''WARN'' else ''PASS'')"
  "snd (evaluate_policy p qc etl nf missing) = None \<longleftrightarrow> fst (evaluate_policy p qc etl nf missing) = ''PASS''"
proof -
  let ?r0 = "if missing \<noteq> [] then [''missing_outputs='' @ fmt_names missing] else []"
  obtain rs1 fl1 w1 where f1: "check_rate ''qc_pass_rate'' (po_min_qc_pass_rate p) qc (?r0, missing \<noteq> [], False) = (rs1, fl1, w1)"
    using prod_cases3 by blast
  obtain rs2 fl2 w2 where f2: "check_rate ''etl_success_rate'' (po_min_etl_success_rate p) etl (rs1, fl1, w1) = (rs2, fl2, w2)"
    using prod_cases3 by blast
  have f0: "(if missing \<noteq> [] then ([''missing_outputs='' @ fmt_names missing], True, False) else ([], False, False)) =
      (?r0, missing \<noteq> [], False)" by simp
  have fl: "fl2 = (missing \<noteq> [] \<or> below_limit (po_min_qc_pass_rate p) qc \<or> below_limit (po_min_etl_success_rate p) etl)"
    "w2 = undecided p qc etl"
    using check_rate_flags[OF f1] check_rate_flags[OF f2] by (auto simp: undecided_def)
  show "fst (evaluate_policy p qc etl nf missing) =
     (if violated p qc etl nf missing then ''FAIL'' else if undecided p qc etl then ''WARN'' else ''PASS'')"
    unfolding evaluate_policy_def Let_def f0 f1 f2 violated_def using fl by (auto split: option.splits)
  show "snd (evaluate_policy p qc etl nf missing) = None \<longleftrightarrow> fst (evaluate_policy p qc etl nf missing) = ''PASS''"
    unfolding evaluate_policy_def Let_def f0 f1 f2 by (auto split: option.splits)
qed

text \<open>The results of a run are those of its policies, one after the other; so are its writes.\<close>

definition policy_output :: "sla_clock \<Rightarrow> date \<Rightarrow> sla_data \<Rightarrow> nat \<times> sla_policy \<Rightarrow> sla_check list" where
  "policy_output ck target sl ip = (case ip of (i, p) \<Rightarrow>
     if \<not> po_enabled p then []
     else if select_datasets p (sl_ads sl) (sl_dims sl) = [] \<and> unscoped p then
       [skipped_result (sc_suffix ck i 0) target p ''no datasets matched policy scope'']
     else policy_checks ck target sl i p)"

abbreviation recorded :: "sla_check list \<Rightarrow> sla_check list" where
  "recorded \<equiv> filter (\<lambda>c. sk_status c \<noteq> ''SKIPPED'')"

lemma check_dataset_sel:
  "sk_status (check_dataset rnd target p sl (d, v, f)) = fst (evaluate_policy p (rate_of ad_qc_pass_rate (ads_of sl (d, v)))
     (rate_of ad_etl_success_rate (ads_of sl (d, v))) (failed_workflows sl) (missing_outputs_of p sl (d, v)))"
  "sk_failed_reason (check_dataset rnd target p sl (d, v, f)) = snd (evaluate_policy p (rate_of ad_qc_pass_rate (ads_of sl (d, v)))
     (rate_of ad_etl_success_rate (ads_of sl (d, v))) (failed_workflows sl) (missing_outputs_of p sl (d, v)))"
  "sk_missing_outputs (check_dataset rnd target p sl (d, v, f)) = missing_outputs_of p sl (d, v)"
  "sk_policy_id (check_dataset rnd target p sl (d, v, f)) = po_policy_id p"
  "sk_dataset_id (check_dataset rnd target p sl (d, v, f)) = d"
  "sk_version (check_dataset rnd target p sl (d, v, f)) = v"
  by (simp_all add: check_dataset_def Let_def split: prod.splits)

lemma check_dataset_recorded: "sk_status (check_dataset rnd target p sl r) \<noteq> ''SKIPPED''"
  by (cases r) (simp add: check_dataset_sel evaluate_policy_status)

lemma policy_checks_elem:
  assumes "c \<in> set (policy_checks ck target sl i p)"
  shows "\<exists>j r. c = check_dataset (sc_suffix ck i j) target p sl r \<and> r \<in> set (select_datasets p (sl_ads sl) (sl_dims sl))"
proof -
  obtain jr where jr: "jr \<in> set (enumerate 0 (select_datasets p (sl_ads sl) (sl_dims sl)))"
      "c = (case jr of (j, r) \<Rightarrow> check_dataset (sc_suffix ck i j) target p sl r)"
    using assms by (auto simp: policy_checks_def)
  obtain j r where "jr = (j, r)" by (cases jr)
  moreover from this jr(1) have "r \<in> set (select_datasets p (sl_ads sl) (sl_dims sl))"
    by (auto simp: in_set_enumerate_eq)
  ultimately show ?thesis using jr(2) by (intro exI[of _ j] exI[of _ r]) simp
qed

lemma check_policy_fst:
  "fst (check_policy ck persist target sl ip acc) = fst acc @ policy_output ck target sl ip"
  by (cases ip; cases acc) (simp add: check_policy_def policy_output_def Let_def)

lemma fold_check_fst:
  "fst (fold (check_policy ck persist target sl) ips acc) = fst acc @ concat (map (policy_output ck target sl) ips)"
  by (induction ips arbitrary: acc) (simp_all add: check_policy_fst)

lemma upsert_policy_checks [simp]: "od_sla_checks (upsert_policy now p db) = od_sla_checks db"
  by (simp add: upsert_policy_def split: option.splits)

lemma fold_persist_check:
  "od_sla_checks (fold (persist_check now target) cs db) =
     map_option (\<lambda>t. t @ map (check_row now target) cs) (od_sla_checks db)"
  by (induction cs arbitrary: db) (auto simp: persist_check_def option.map_comp comp_def option.map_ident split: option.splits)

lemma perform_sla_checks_Inr:
  assumes "perform_sla_checks ck policies date_arg persist db = Inr (cs, db')"
  obtains w where "parse_date_range (sc_yesterday ck) date_arg None None = Inr w"
    "(cs, db') = fold (check_policy ck persist (dr_start w) (fetch_data (dr_start w) db)) (enumerate 0 policies) ([], db)"
  using assms by (auto simp: perform_sla_checks_def rbind_Inr_iff)

lemma policy_output_recorded:
  "recorded (policy_output ck target sl (i, p)) = (if po_enabled p then policy_checks ck target sl i p else [])"
proof -
  have "recorded (policy_checks ck target sl i p) = policy_checks ck target sl i p"
    using check_dataset_recorded by (auto simp: policy_checks_def filter_id_conv)
  then show ?thesis by (auto simp: policy_output_def skipped_result_def policy_checks_def)
qed

lemma check_policy_checks:
  "od_sla_checks (snd (check_policy ck True target sl (i, p) acc)) = map_option (\<lambda>t. t @
     map (check_row (sc_now ck i) target) (recorded (policy_output ck target sl (i, p)))) (od_sla_checks (snd acc))"
  unfolding policy_output_recorded
  by (cases acc) (auto simp: check_policy_def Let_def fold_persist_check policy_checks_def option.map_ident)

lemma fold_check_none:
  "od_sla_checks (snd acc) = None \<Longrightarrow> od_sla_checks (snd (fold (check_policy ck True target sl) ips acc)) = None"
proof (induction ips arbitrary: acc)
  case (Cons ip ips)
  then have "od_sla_checks (snd (check_policy ck True target sl ip acc)) = None"
    using check_policy_checks[of ck target sl "fst ip" "snd ip" acc] by simp
  then show ?case using Cons.IH by simp
qed simp

lemma fold_check_some:
  "od_sla_checks (snd acc) = Some t \<Longrightarrow>
     \<exists>rows. od_sla_checks (snd (fold (check_policy ck True target sl) ips acc)) = Some (t @ rows) \<and>
       list_all2 (\<lambda>r c. \<exists>now. r = check_row now target c) rows
         (concat (map (\<lambda>ip. recorded (policy_output ck target sl ip)) ips))"
proof (induction ips arbitrary: acc t)
  case (Cons ip ips)
  obtain i p where ip: "ip = (i, p)" by (cases ip)
  let ?acc = "check_policy ck True target sl ip acc" and ?new = "recorded (policy_output ck target sl ip)"
  let ?row = "check_row (sc_now ck i) target"
  have "od_sla_checks (snd ?acc) = Some (t @ map ?row ?new)"
    using check_policy_checks[of ck target sl i p acc] Cons.prems by (simp add: ip)
  from Cons.IH[OF this] obtain rows where rows:
    "od_sla_checks (snd (fold (check_policy ck True target sl) ips ?acc)) = Some ((t @ map ?row ?new) @ rows)"
    "list_all2 (\<lambda>r c. \<exists>now. r = check_row now target c) rows (concat (map (\<lambda>ip. recorded (policy_output ck target sl ip)) ips))"
    by blast
  have "list_all2 (\<lambda>r c. \<exists>now. r = check_row now target c) (map ?row ?new) ?new"
    unfolding list_all2_conv_all_nth by (auto simp del: split_paired_Ex)
  with rows(2) have "list_all2 (\<lambda>r c. \<exists>now. r = check_row now target c) (map ?row ?new @ rows)
      (?new @ concat (map (\<lambda>ip. recorded (policy_output ck target sl ip)) ips))"
    by (rule list_all2_appendI[rotated])
  then show ?case using rows(1)
    by (intro exI[of _ "map ?row ?new @ rows"] conjI) simp_all
qed simp

lemma check_policy_no_persist: "snd (check_policy ck False target sl ip acc) = snd acc"
  by (cases ip; cases acc) (simp add: check_policy_def Let_def)

lemma fold_check_no_persist: "snd (fold (check_policy ck False target sl) ips acc) = snd acc"
  by (induction ips arbitrary: acc) (simp_all add: check_policy_no_persist)

section \<open>Properties\<close>

text \<open>The data sets of a policy are the data sets with a row, of the day's dashboard or of the data set
  dimension, that matches both the family and the pattern of the policy (each where it is set), every
  data set and version once.\<close>

theorem select_datasets_correct:
  "distinct (map ref_key (select_datasets p ads dims)) \<and>
   set (select_datasets p ads dims) \<subseteq> {r \<in> set (refs_of ads dims). ref_matches p r} \<and>
   ref_key ` set (select_datasets p ads dims) = ref_key ` {r \<in> set (refs_of ads dims). ref_matches p r}"
  unfolding select_datasets_fold
  using select_fold(1)[of "[]"] select_fold(2)[of p _ "[]"] select_fold(3)[of p _ "[]"] by simp


text \<open>What a run returns and records: policy by policy, one check per covered data set, one placeholder
  for an enabled policy without a scope that covers nothing, nothing for a scoped one that covers
  nothing; a run that persists appends one row to \<open>sla_checks\<close> for every check but the placeholders,
  in order, where the table exists; a run that does not persist writes nothing.\<close>

theorem sla_run_recorded:
  assumes "perform_sla_checks ck policies date_arg persist db = Inr (cs, db')"
  shows "\<exists>w. parse_date_range (sc_yesterday ck) date_arg None None = Inr w \<and>
    cs = concat (map (policy_output ck (dr_start w) (fetch_data (dr_start w) db)) (enumerate 0 policies)) \<and>
    (if persist then (case od_sla_checks db of None \<Rightarrow> od_sla_checks db' = None
       | Some t \<Rightarrow> \<exists>rows. od_sla_checks db' = Some (t @ rows) \<and>
           list_all2 (\<lambda>r c. \<exists>now. r = check_row now (dr_start w) c) rows (recorded cs))
     else db' = db)"
proof -
  from assms obtain w where w: "parse_date_range (sc_yesterday ck) date_arg None None = Inr w"
    "(cs, db') = fold (check_policy ck persist (dr_start w) (fetch_data (dr_start w) db)) (enumerate 0 policies) ([], db)"
    by (rule perform_sla_checks_Inr)
  let ?sl = "fetch_data (dr_start w) db" and ?ips = "enumerate 0 policies"
  have cs: "cs = concat (map (policy_output ck (dr_start w) ?sl) ?ips)"
    using fold_check_fst[of ck persist "dr_start w" ?sl ?ips "([], db)"] w(2) by (metis append_Nil fst_conv)
  have db': "db' = snd (fold (check_policy ck persist (dr_start w) ?sl) ?ips ([], db))" using w(2) by (metis snd_conv)
  have rec: "recorded cs = concat (map (\<lambda>ip. recorded (policy_output ck (dr_start w) ?sl ip)) ?ips)"
    unfolding cs by (simp add: filter_concat comp_def)
  show ?thesis
  proof (cases persist)
    case True
    let ?db = "snd (fold (check_policy ck True (dr_start w) ?sl) ?ips ([], db))"
    have "case od_sla_checks db of None \<Rightarrow> od_sla_checks ?db = None
       | Some t \<Rightarrow> \<exists>rows. od_sla_checks ?db = Some (t @ rows) \<and>
           list_all2 (\<lambda>r c. \<exists>now. r = check_row now (dr_start w) c) rows (recorded cs)"
      unfolding rec using fold_check_none[of "([], db)"] fold_check_some[of "([], db)"]
      by (auto split: option.split)
    then show ?thesis using w(1) cs True db' by auto
  next
    case False
    then show ?thesis using w(1) cs fold_check_no_persist[where acc = "([], db)"] db' by auto
  qed
qed

section \<open>Witnesses\<close>

definition sla_demo_policy :: sla_policy where
  "sla_demo_policy = \<lparr>po_policy_id = ''daily'', po_policy_name = ''Daily'', po_dataset_pattern = Some ''*dev*'',
     po_dataset_family = None, po_deadline_hour = Some 23, po_required_outputs = [''ads'', ''ML_ready''],
     po_min_qc_pass_rate = Some (4/5), po_min_etl_success_rate = None, po_max_failed_workflows = Some 0, po_enabled = True\<rparr>"

definition sla_demo_ads :: "string \<Rightarrow> rat option \<Rightarrow> ads_row" where
  "sla_demo_ads d q = \<lparr>ad_dt = Date 2026 5 25, ad_dataset_id = d, ad_version = ''v1'', ad_dataset_family = Some ''droid'',
     ad_overall_status = None, ad_quality_score = None, ad_qc_pass_rate = q, ad_etl_success_rate = None,
     ad_workflow_success_rate = None, ad_top_failed_rule = None, ad_top_failed_rule_count = None,
     ad_p95_duration_sec = None, ad_ml_ready_rows = None, ad_raw_bytes = Some 10, ad_dwd_bytes = None,
     ad_alert_level = None, ad_alert_reason = None, ad_updated_at = (Date 2026 5 26, 0)\<rparr>"

definition sla_demo_db :: ops_db where
  "sla_demo_db = empty_db\<lparr>od_ads := Some [sla_demo_ads ''dev_a'' None, sla_demo_ads ''prod'' None], od_sla_checks := Some []\<rparr>"

definition sla_demo_clock :: sla_clock where
  "sla_demo_clock = \<lparr>sc_yesterday = Date 2026 5 25, sc_now = (\<lambda>_. (Date 2026 5 26, 0)), sc_suffix = (\<lambda>_ _. ''x'')\<rparr>"

lemma demo_window:
  "parse_date_range (sc_yesterday sla_demo_clock) None None None = Inr \<lparr>dr_start = Date 2026 5 25, dr_end = Date 2026 5 25\<rparr>"
  by code_simp

lemma demo_selected:
  "select_datasets sla_demo_policy (sl_ads (fetch_data (Date 2026 5 25) sla_demo_db)) (sl_dims (fetch_data (Date 2026 5 25) sla_demo_db)) =
     [(''dev_a'', ''v1'', Some ''droid'')]"
  by code_simp

lemma demo_missing: "missing_outputs_of sla_demo_policy (fetch_data (Date 2026 5 25) sla_demo_db) (''dev_a'', ''v1'') = [''ML_ready'']"
  by code_simp

lemma demo_checks:
  obtains cs db' where "perform_sla_checks sla_demo_clock [sla_demo_policy] None True sla_demo_db = Inr (cs, db')"
    "map sk_status cs = [''FAIL'']"
proof -
  let ?sl = "fetch_data (Date 2026 5 25) sla_demo_db"
  let ?r = "fold (check_policy sla_demo_clock True (Date 2026 5 25) ?sl) (enumerate 0 [sla_demo_policy]) ([], sla_demo_db)"
  have "perform_sla_checks sla_demo_clock [sla_demo_policy] None True sla_demo_db = Inr (fst ?r, snd ?r)"
    by (simp add: perform_sla_checks_def demo_window)
  moreover have "map sk_status (fst ?r) = [''FAIL'']"
    unfolding fold_check_fst
    by (simp add: policy_output_def policy_checks_def demo_selected check_dataset_sel evaluate_policy_status
        violated_def demo_missing) (simp add: sla_demo_policy_def)
  ultimately show thesis by (rule that)
qed

theorem sla_run_recorded_witness:
  "\<exists>cs db' rows. perform_sla_checks sla_demo_clock [sla_demo_policy] None True sla_demo_db = Inr (cs, db') \<and>
     od_sla_checks db' = Some rows \<and> map scr_status rows = [Some ''FAIL'']"
proof (rule demo_checks)
  fix cs db'
  assume r: "perform_sla_checks sla_demo_clock [sla_demo_policy] None True sla_demo_db = Inr (cs, db')"
    and st: "map sk_status cs = [''FAIL'']"
  obtain rows d where rows: "od_sla_checks db' = Some rows"
      "list_all2 (\<lambda>r c. \<exists>now. r = check_row now d c) rows (recorded cs)"
    using sla_run_recorded[OF r] by (auto simp: sla_demo_db_def)
  from st obtain c where "cs = [c]" "sk_status c = ''FAIL''" by auto
  with rows(2) have "map scr_status rows = [Some ''FAIL'']"
    by (auto simp: list_all2_Cons2 check_row_def)
  with r rows(1) show ?thesis by (intro exI conjI)
qed


end
