(* ===== verification/Shell_Words.thy ===== *)
theory Shell_Words
  imports Py_Values
begin

text \<open>
  \<open>shlex.quote\<close> and \<open>shlex.split\<close> of Python's standard library, as the back-fill commands of
  \<^verbatim>\<open>src/robot_dh/quality_ops/backfill.py\<close> use them: the split is the POSIX reader without
  comments, and reading a line of quoted words gives the words back.
\<close>

section \<open>Quoting\<close>

definition safe_char :: "char \<Rightarrow> bool" where
  "safe_char c = (is_alnum c \<or> c \<in> set ''_@%+=:,./-'')"

definition shell_quote :: "string \<Rightarrow> string" where
  "shell_quote s =
     (if s = [] then [CHR 0x27, CHR 0x27]
      else if list_all safe_char s then s
      else CHR 0x27 # concat (map (\<lambda>c. if c = CHR 0x27 then [CHR 0x27, CHR 0x22, CHR 0x27, CHR 0x22, CHR 0x27] else [c]) s) @ [CHR 0x27])"

section \<open>Splitting\<close>

text \<open>Between words; in a word; inside quotes; after a backslash in a word; after one inside double
  quotes. In a word, the text read so far and whether a quote was seen.\<close>

datatype lex_state = Between | In_Word string bool | In_Quote char string | Escaped string bool | Escaped_Quote string

definition shell_space :: "char \<Rightarrow> bool" where
  "shell_space c = (c \<in> {CHR '' '', CHR 0x09, CHR 0x0D, CHR 0x0A})"

definition shell_quotes :: "char \<Rightarrow> bool" where
  "shell_quotes c = (c \<in> {CHR 0x27, CHR 0x22})"

definition lex_emit :: "string \<Rightarrow> bool \<Rightarrow> string list" where
  "lex_emit tok quoted = (if tok \<noteq> [] \<or> quoted then [tok] else [])"

text \<open>The next state, and the words that the character completes.\<close>

fun lex_char :: "lex_state \<Rightarrow> char \<Rightarrow> string list \<times> lex_state" where
  "lex_char Between c =
     (if shell_space c then ([], Between) else if c = CHR 0x5C then ([], Escaped [] False)
      else if shell_quotes c then ([], In_Quote c []) else ([], In_Word [c] False))"
| "lex_char (In_Word tok q) c =
     (if shell_space c then (lex_emit tok q, Between) else if shell_quotes c then ([], In_Quote c tok)
      else if c = CHR 0x5C then ([], Escaped tok q) else ([], In_Word (tok @ [c]) q))"
| "lex_char (In_Quote k tok) c =
     (if c = k then ([], In_Word tok True) else if c = CHR 0x5C \<and> k = CHR 0x22 then ([], Escaped_Quote tok)
      else ([], In_Quote k (tok @ [c])))"
| "lex_char (Escaped tok q) c = ([], In_Word (tok @ [c]) q)"
| "lex_char (Escaped_Quote tok) c =
     ([], In_Quote (CHR 0x22) (tok @ (if c \<noteq> CHR 0x5C \<and> c \<noteq> CHR 0x22 then [CHR 0x5C, c] else [c])))"

fun lex_eof :: "lex_state \<Rightarrow> string list result" where
  "lex_eof Between = Inr []"
| "lex_eof (In_Word tok q) = Inr (lex_emit tok q)"
| "lex_eof (In_Quote k tok) = Inl (ValueError ''No closing quotation'')"
| "lex_eof (Escaped tok q) = Inl (ValueError ''No escaped character'')"
| "lex_eof (Escaped_Quote tok) = Inl (ValueError ''No escaped character'')"

fun shell_lex :: "lex_state \<Rightarrow> string \<Rightarrow> string list result" where
  "shell_lex st [] = lex_eof st"
| "shell_lex st (c # s) = (case lex_char st c of (ws, st') \<Rightarrow> rbind (shell_lex st' s) (\<lambda>rest. Inr (ws @ rest)))"

definition shell_split :: "string \<Rightarrow> string list result" where
  "shell_split s = shell_lex Between s"

section \<open>Reading quoted words\<close>

lemma safe_char_plain: "safe_char c \<Longrightarrow> \<not> shell_space c \<and> \<not> shell_quotes c \<and> c \<noteq> CHR 0x5C"
  by (auto simp: safe_char_def shell_space_def shell_quotes_def is_alnum_def is_digit_def is_upper_def is_lower_def)

lemma rbind_Nil [simp]: "rbind r (\<lambda>rest. Inr ([] @ rest)) = r" "rbind r (\<lambda>rest. Inr rest) = r"
  by (cases r; simp)+

lemma lex_plain: "list_all safe_char s \<Longrightarrow> shell_lex (In_Word tok q) (s @ t) = shell_lex (In_Word (tok @ s) q) t"
  by (induction s arbitrary: tok) (auto dest: safe_char_plain)

lemma lex_quoted:
  "shell_lex (In_Quote (CHR 0x27) tok)
     (concat (map (\<lambda>c. if c = CHR 0x27 then [CHR 0x27, CHR 0x22, CHR 0x27, CHR 0x22, CHR 0x27] else [c]) s) @ CHR 0x27 # t) =
   shell_lex (In_Word (tok @ s) True) t"
  by (induction s arbitrary: tok) (auto simp: shell_space_def shell_quotes_def)

lemma lex_quote:
  "\<exists>q. shell_lex Between (shell_quote s @ t) = shell_lex (In_Word s q) t \<and> (s = [] \<longrightarrow> q)"
proof (cases "s = []")
  case True
  then show ?thesis by (auto simp: shell_quote_def shell_space_def shell_quotes_def)
next
  case False
  then obtain c s' where s: "s = c # s'" by (cases s) auto
  show ?thesis
  proof (cases "list_all safe_char s")
    case True
    then have "shell_lex Between (s @ t) = shell_lex (In_Word [c] False) (s' @ t)"
      unfolding s by (auto dest: safe_char_plain)
    also have "\<dots> = shell_lex (In_Word s False) t" using True lex_plain[of s' "[c]"] by (simp add: s)
    finally show ?thesis using False True by (auto simp: shell_quote_def)
  next
    case unsafe: False
    have "shell_lex Between (shell_quote s @ t) = shell_lex (In_Word s True) t"
      using False unsafe lex_quoted[of "[]" s t]
      by (simp add: shell_quote_def shell_space_def shell_quotes_def)
    then show ?thesis using False by blast
  qed
qed

text \<open>The contract of the two: a quoted word followed by a blank, or by nothing, is read as that word.\<close>

lemma split_word: "shell_split (shell_quote s @ CHR '' '' # t) = rbind (shell_split t) (\<lambda>ws. Inr (s # ws))"
proof -
  obtain q where "shell_lex Between (shell_quote s @ CHR '' '' # t) = shell_lex (In_Word s q) (CHR '' '' # t)" "s = [] \<longrightarrow> q"
    using lex_quote by blast
  then show ?thesis by (simp add: shell_split_def shell_space_def lex_emit_def)
qed

lemma split_last: "shell_split (shell_quote s) = Inr [s]"
proof -
  obtain q where "shell_lex Between (shell_quote s @ []) = shell_lex (In_Word s q) []" "s = [] \<longrightarrow> q"
    using lex_quote by blast
  then show ?thesis by (simp add: shell_split_def lex_emit_def)
qed

lemma quote_safe: "list_all safe_char s \<Longrightarrow> s \<noteq> [] \<Longrightarrow> shell_quote s = s"
  by (simp add: shell_quote_def)

lemma split_quoted_words: "shell_split (join '' '' (map shell_quote ws)) = Inr ws"
proof (induction ws)
  case (Cons w ws)
  show ?case
  proof (cases "ws = []")
    case True
    then show ?thesis by (simp add: split_last)
  next
    case False
    then have "join '' '' (map shell_quote (w # ws)) = shell_quote w @ CHR '' '' # join '' '' (map shell_quote ws)"
      by (simp add: join_Cons)
    with Cons show ?thesis by (simp add: split_word)
  qed
qed (simp add: shell_split_def)

lemma lex_append_word:
  "shell_lex st c = Inr ws \<Longrightarrow> shell_lex st (c @ CHR '' '' # t) = rbind (shell_lex Between t) (\<lambda>rest. Inr (ws @ rest))"
proof (induction st c arbitrary: ws rule: shell_lex.induct)
  case (1 st)
  then show ?case by (cases st) (auto simp: shell_space_def)
next
  case (2 st c s)
  obtain ws1 st' where st: "lex_char st c = (ws1, st')" by (cases "lex_char st c")
  with 2(2) obtain ws2 where ws2: "shell_lex st' s = Inr ws2" "ws = ws1 @ ws2" by (auto simp: rbind_Inr_iff)
  show ?case using 2(1)[OF st[symmetric] ws2(1)] st ws2 by (cases "shell_lex Between t") auto
qed

lemma split_append_word:
  "shell_split c = Inr ws \<Longrightarrow> shell_split t = Inr vs \<Longrightarrow> shell_split (c @ CHR '' '' # t) = Inr (ws @ vs)"
  by (simp add: shell_split_def lex_append_word)

end
