(* ===== verification/Backfill.thy ===== *)
theory Backfill
  imports Warehouse_Rows Shell_Words
begin

text \<open>
  \<^verbatim>\<open>src/robot_dh/quality_ops/backfill.py\<close>: collecting the runs to repeat, the plan with its tasks and
  their commands, its rows in \<open>backfill_plans\<close> and \<open>backfill_tasks\<close>, running a plan and its status.
  The random suffix, the clocks, the Markdown template and the processes that are started are
  parameters; a process does not write the tables of the plan.
\<close>

section \<open>Candidates\<close>

definition default_status_filter :: "string list" where
  "default_status_filter = [''FAILED'', ''WARN'', ''ERROR'', ''FAIL'']"

text \<open>Day, data set, version, phase and family.\<close>

type_synonym candidate = "date \<times> string \<times> string \<times> string \<times> string option"

text \<open>What a source says of a run: its day, data set, version and status, and the phase and family
  of the key it gives rise to.\<close>

record run_fact =
  rn_dt :: "date option"
  rn_dataset_id :: "string option"
  rn_version :: "string option"
  rn_status :: "string option"
  rn_phase :: string
  rn_family :: "string option"

record plan_scope =
  ps_window :: date_range
  ps_dataset_id :: "string option"
  ps_version :: "string option"
  ps_phase :: "string option"

definition in_scope :: "plan_scope \<Rightarrow> run_fact \<Rightarrow> bool" where
  "in_scope sc r =
     ((case rn_dt r of None \<Rightarrow> False | Some d \<Rightarrow> dr_start (ps_window sc) \<le> d \<and> d \<le> dr_end (ps_window sc)) \<and>
      (opt_truthy (ps_dataset_id sc) \<longrightarrow> rn_dataset_id r = ps_dataset_id sc) \<and>
      (opt_truthy (ps_version sc) \<longrightarrow> rn_version r = ps_version sc))"

definition key_of :: "string list \<Rightarrow> run_fact \<Rightarrow> candidate option" where
  "key_of status_filter r = (case (rn_dt r, rn_dataset_id r, rn_version r) of
     (Some d, Some ds, Some v) \<Rightarrow>
       if upper (opt_or (rn_status r) []) \<in> set status_filter \<and> ds \<noteq> [] \<and> v \<noteq> []
       then Some (d, ds, v, rn_phase r, rn_family r) else None
   | _ \<Rightarrow> None)"

definition etl_facts :: "plan_scope \<Rightarrow> ops_db \<Rightarrow> run_fact list" where
  "etl_facts sc db =
     map (\<lambda>r. \<lparr>rn_dt = er_dt r, rn_dataset_id = er_dataset_id r, rn_version = er_version r, rn_status = er_status r,
               rn_phase = opt_or (er_phase r) ''normalize'', rn_family = er_dataset_family r\<rparr>)
       (filter (\<lambda>r. opt_truthy (ps_phase sc) \<longrightarrow> er_phase r = ps_phase sc) (table_rows (od_etl_runs db)))"

definition step_facts :: "plan_scope \<Rightarrow> ops_db \<Rightarrow> run_fact list" where
  "step_facts sc db =
     map (\<lambda>r. \<lparr>rn_dt = wsr_dt r, rn_dataset_id = wsr_dataset_id r, rn_version = wsr_version r, rn_status = wsr_phase r,
               rn_phase = opt_or (ps_phase sc) ''workflow'', rn_family = wsr_dataset_family r\<rparr>) (table_rows (od_steps db))"

definition dashboard_facts :: "plan_scope \<Rightarrow> ops_db \<Rightarrow> run_fact list" where
  "dashboard_facts sc db =
     map (\<lambda>r. \<lparr>rn_dt = Some (ad_dt r), rn_dataset_id = Some (ad_dataset_id r), rn_version = Some (ad_version r),
               rn_status = ad_overall_status r, rn_phase = opt_or (ps_phase sc) ''build_features'',
               rn_family = ad_dataset_family r\<rparr>) (table_rows (od_ads db))"

definition sla_facts :: "plan_scope \<Rightarrow> ops_db \<Rightarrow> run_fact list" where
  "sla_facts sc db =
     map (\<lambda>r. \<lparr>rn_dt = scr_dt r, rn_dataset_id = scr_dataset_id r, rn_version = scr_version r, rn_status = scr_status r,
               rn_phase = opt_or (ps_phase sc) ''sla'', rn_family = None\<rparr>) (table_rows (od_sla_checks db))"

definition all_facts :: "plan_scope \<Rightarrow> ops_db \<Rightarrow> run_fact list" where
  "all_facts sc db = etl_facts sc db @ step_facts sc db @ dashboard_facts sc db @ sla_facts sc db"

definition history_keys :: "plan_scope \<Rightarrow> string list \<Rightarrow> ops_db \<Rightarrow> candidate list" where
  "history_keys sc status_filter db =
     remdups (List.map_filter (key_of status_filter) (filter (in_scope sc) (all_facts sc db)))"

text \<open>The set of keys, as a list without repetition. With a data set and a version but no history, one
  key per day of the window.\<close>

definition collect_candidates :: "plan_scope \<Rightarrow> string list \<Rightarrow> ops_db \<Rightarrow> candidate list result" where
  "collect_candidates sc status_filter db =
     (let keys = history_keys sc status_filter db in
      if keys = [] \<and> opt_truthy (ps_dataset_id sc) \<and> opt_truthy (ps_version sc) then
        rbind (iter_dates (ps_window sc)) (\<lambda>days.
          Inr (map (\<lambda>d. (d, opt_or (ps_dataset_id sc) [], opt_or (ps_version sc) [],
                         opt_or (ps_phase sc) ''normalize'', None)) days))
      else Inr keys)"

text \<open>\<open>sorted\<close> on the keys: two that agree up to the family are told apart by their families, which
  Python compares only when both are text.\<close>

definition key_stem :: "candidate \<Rightarrow> date \<times> string \<times> string \<times> string" where
  "key_stem c = (case c of (d, ds, v, ph, _) \<Rightarrow> (d, ds, v, ph))"

definition key_family :: "candidate \<Rightarrow> string option" where
  "key_family c = snd (snd (snd (snd c)))"

definition families_clash :: "candidate list \<Rightarrow> bool" where
  "families_clash cs = list_ex (\<lambda>a. list_ex (\<lambda>b. key_stem a = key_stem b \<and>
     key_family a = None \<and> key_family b \<noteq> None) cs) cs"

definition sort_candidates :: "candidate list \<Rightarrow> candidate list result" where
  "sort_candidates cs = (if families_clash cs then Inl (TypeError ''comparison of NoneType and str'')
     else Inr (sort_key (\<lambda>c. (key_stem c, opt_or (key_family c) [])) cs))"

section \<open>Commands\<close>

definition known_stages :: "string list" where
  "known_stages = [''normalize'', ''etl'', ''build_features'', ''build_ads'', ''ml_ready'', ''qc'', ''workflow'', ''sla'']"

definition stage_of :: "string \<Rightarrow> string" where
  "stage_of phase =
     (let ph = lower (opt_or (Some phase) ''normalize'')
      in if ph \<in> set known_stages then (if ph \<noteq> ''workflow'' then ph else ''etl'') else ''normalize'')"

definition recommend_command :: "string \<Rightarrow> string \<Rightarrow> string \<Rightarrow> string" where
  "recommend_command dataset_id version phase =
     (let stage = stage_of phase in
      if stage = ''qc'' then
        ''robot-dh qc contract run --dataset-id '' @ shell_quote dataset_id @ '' --version '' @ shell_quote version @ '' --resume''
      else if stage = ''ml_ready'' then
        ''robot-dh ml-ready export --dataset-id '' @ shell_quote dataset_id @ '' --version '' @ shell_quote version
      else if stage = ''sla'' then ''robot-dh sla check --policy configs/sla_policies.yaml''
      else ''robot-dh etl run --dataset-id '' @ shell_quote dataset_id @ '' --version '' @ shell_quote version @
           '' --phase '' @ shell_quote stage @ '' --resume'')"

section \<open>Plans\<close>

record backfill_task =
  tk_task_id :: string
  tk_plan_id :: string
  tk_dataset_id :: "string option"
  tk_version :: "string option"
  tk_dataset_family :: "string option"
  tk_dt :: "string option"
  tk_phase :: "string option"
  tk_input_uri :: "string option"
  tk_output_uri :: "string option"
  tk_recommended_command :: string
  tk_status :: string

record backfill_plan =
  pn_plan_id :: string
  pn_from_date :: "string option"
  pn_to_date :: "string option"
  pn_dataset_id :: "string option"
  pn_version :: "string option"
  pn_phase :: "string option"
  pn_reason :: "string option"
  pn_status :: string
  pn_tasks :: "backfill_task list"
  pn_dry_run :: bool
  pn_plan_path :: "string option"
  pn_plan_md_path :: "string option"
  pn_warnings :: "string list"

record plan_args =
  pa_from_date :: date_arg
  pa_to_date :: date_arg
  pa_dataset_id :: "string option"
  pa_version :: "string option"
  pa_phase :: "string option"
  pa_reason :: "string option"
  pa_status_filter :: "string list"
  pa_dry_run :: bool
  pa_output_dir :: "string option"
  pa_created_by :: "string option"

text \<open>How a process ends: with an exit code, its standard output and error; or \<open>subprocess.run\<close> raises
  \<open>TimeoutExpired\<close> or an \<open>OSError\<close> with the given text. \<open>be_exec n\<close> is the n-th process of a run.\<close>

datatype proc_end = Exited int string string | Not_Completed string

record backfill_env =
  be_timestamp :: string
  be_random :: string
  be_yesterday :: date
  be_clock :: "nat \<Rightarrow> datetime"
  be_template :: "backfill_plan \<Rightarrow> string"
  be_exec :: "nat \<Rightarrow> string list \<Rightarrow> proc_end"

definition make_plan_id :: "backfill_env \<Rightarrow> string option \<Rightarrow> string option \<Rightarrow> string" where
  "make_plan_id env dataset_id phase =
     ''bf-'' @ be_timestamp env @ ''-'' @
     opt_or (Some (join ''_'' (map the (filter opt_truthy [dataset_id, phase])))) ''all'' @ ''-'' @ be_random env"

definition new_task :: "string \<Rightarrow> candidate \<Rightarrow> backfill_task" where
  "new_task plan_id c = (case c of (d, ds, ver, ph, family) \<Rightarrow>
     \<lparr>tk_task_id = join ''::'' [plan_id, ds, ver, ph, date_iso d], tk_plan_id = plan_id,
      tk_dataset_id = Some ds, tk_version = Some ver, tk_dataset_family = family, tk_dt = Some (date_iso d),
      tk_phase = Some ph, tk_input_uri = None, tk_output_uri = None,
      tk_recommended_command = recommend_command ds ver ph, tk_status = ''PLANNED''\<rparr>)"

text \<open>The rows of \<open>_persist_plan\<close>: \<open>attempts\<close>, \<open>last_error\<close> and the times of a known task stay.\<close>

definition iso_day :: "string option \<Rightarrow> date option" where
  "iso_day o' = (case o' of None \<Rightarrow> None | Some s \<Rightarrow> parse_ymd s)"

definition plan_json :: "plan_args \<Rightarrow> backfill_plan \<Rightarrow> pydict" where
  "plan_json a p = [(''dataset_id'', of_opt_str (pa_dataset_id a)), (''version'', of_opt_str (pa_version a)),
     (''phase'', of_opt_str (pa_phase a)), (''reason'', of_opt_str (pa_reason a)),
     (''task_count'', VInt (int (length (pn_tasks p))))]"

definition plan_row :: "datetime \<Rightarrow> plan_args \<Rightarrow> backfill_plan \<Rightarrow> backfill_plan_row option \<Rightarrow> backfill_plan_row" where
  "plan_row now a p old = (case old of
     None \<Rightarrow> \<lparr>bp_plan_id = pn_plan_id p, bp_from_date = iso_day (pn_from_date p), bp_to_date = iso_day (pn_to_date p),
              bp_dataset_id = pa_dataset_id a, bp_version = pa_version a, bp_phase = pa_phase a, bp_reason = pa_reason a,
              bp_status = Some ''PERSISTED'', bp_task_count = int (length (pn_tasks p)), bp_created_by = pa_created_by a,
              bp_created_at = now, bp_updated_at = now, bp_plan_json = Some (VDict (plan_json a p))\<rparr>
   | Some r \<Rightarrow> r\<lparr>bp_status := Some ''PERSISTED'', bp_task_count := int (length (pn_tasks p)),
              bp_plan_json := Some (VDict (plan_json a p)), bp_updated_at := now\<rparr>)"

definition task_row :: "datetime \<Rightarrow> backfill_task \<Rightarrow> backfill_task_row option \<Rightarrow> backfill_task_row" where
  "task_row now t old =
     (let base = (case old of Some r \<Rightarrow> r | None \<Rightarrow>
          \<lparr>bt_task_id = [], bt_plan_id = [], bt_dataset_id = None, bt_version = None, bt_dataset_family = None,
           bt_dt = None, bt_phase = None, bt_input_uri = None, bt_output_uri = None, bt_recommended_command = None,
           bt_status = None, bt_attempts = 0, bt_last_error = None, bt_started_at = None, bt_finished_at = None,
           bt_created_at = now, bt_updated_at = now\<rparr>)
      in base\<lparr>bt_task_id := tk_task_id t, bt_plan_id := tk_plan_id t, bt_dataset_id := tk_dataset_id t,
              bt_version := tk_version t, bt_dataset_family := tk_dataset_family t, bt_dt := iso_day (tk_dt t),
              bt_phase := tk_phase t, bt_input_uri := tk_input_uri t, bt_output_uri := tk_output_uri t,
              bt_recommended_command := Some (tk_recommended_command t), bt_status := Some (tk_status t),
              bt_updated_at := now\<rparr>)"

definition persist_tasks :: "datetime \<Rightarrow> backfill_task list \<Rightarrow> (string \<times> backfill_task_row) list \<Rightarrow> (string \<times> backfill_task_row) list" where
  "persist_tasks now ts t = fold (\<lambda>x. dict_upsert (task_row now x) (tk_task_id x)) ts t"

definition persist_plan :: "backfill_env \<Rightarrow> plan_args \<Rightarrow> backfill_plan \<Rightarrow> ops_db \<Rightarrow> backfill_plan \<times> ops_db" where
  "persist_plan env a p db = (case (od_plans db, od_tasks db) of
     (Some plans, Some tasks) \<Rightarrow>
       (p, db\<lparr>od_plans := Some (dict_upsert (plan_row (be_clock env 0) a p) (pn_plan_id p) plans),
              od_tasks := Some (persist_tasks (be_clock env 0) (pn_tasks p) tasks)\<rparr>)
   | _ \<Rightarrow> (p\<lparr>pn_warnings := pn_warnings p @ [''backfill_plans / backfill_tasks missing'']\<rparr>, db))"

definition task_to_dict :: "backfill_task \<Rightarrow> pydict" where
  "task_to_dict t = [(''task_id'', VStr (tk_task_id t)), (''plan_id'', VStr (tk_plan_id t)),
     (''dataset_id'', of_opt_str (tk_dataset_id t)), (''version'', of_opt_str (tk_version t)),
     (''dataset_family'', of_opt_str (tk_dataset_family t)), (''dt'', of_opt_str (tk_dt t)),
     (''phase'', of_opt_str (tk_phase t)), (''input_uri'', of_opt_str (tk_input_uri t)),
     (''output_uri'', of_opt_str (tk_output_uri t)), (''recommended_command'', VStr (tk_recommended_command t)),
     (''status'', VStr (tk_status t))]"

definition plan_to_dict :: "backfill_plan \<Rightarrow> pydict" where
  "plan_to_dict p = [(''plan_id'', VStr (pn_plan_id p)), (''from_date'', of_opt_str (pn_from_date p)),
     (''to_date'', of_opt_str (pn_to_date p)), (''dataset_id'', of_opt_str (pn_dataset_id p)),
     (''version'', of_opt_str (pn_version p)), (''phase'', of_opt_str (pn_phase p)),
     (''reason'', of_opt_str (pn_reason p)), (''status'', VStr (pn_status p)), (''dry_run'', VBool (pn_dry_run p)),
     (''warnings'', VList (map VStr (pn_warnings p))),
     (''tasks'', VList (map (VDict \<circ> task_to_dict) (pn_tasks p))),
     (''plan_path'', of_opt_str (pn_plan_path p)), (''plan_md_path'', of_opt_str (pn_plan_md_path p)),
     (''task_count'', VInt (int (length (pn_tasks p))))]"

text \<open>The two files of a plan, \<open>plan.json\<close> and \<open>plan.md\<close>, written below the output directory.\<close>

datatype plan_file = Json_File string pydict | Text_File string string

definition write_plan :: "backfill_env \<Rightarrow> string option \<Rightarrow> backfill_plan \<Rightarrow> backfill_plan \<times> plan_file list" where
  "write_plan env output_dir p = (case output_dir of None \<Rightarrow> (p, [])
     | Some dir \<Rightarrow>
        let p1 = p\<lparr>pn_plan_path := Some (dir @ ''/plan.json'')\<rparr>
        in (p1\<lparr>pn_plan_md_path := Some (dir @ ''/plan.md'')\<rparr>,
            [Json_File (dir @ ''/plan.json'') (plan_to_dict p), Text_File (dir @ ''/plan.md'') (be_template env p1)]))"

definition scope_of :: "plan_args \<Rightarrow> date_range \<Rightarrow> plan_scope" where
  "scope_of a w = \<lparr>ps_window = w, ps_dataset_id = pa_dataset_id a, ps_version = pa_version a, ps_phase = pa_phase a\<rparr>"

definition filter_of :: "plan_args \<Rightarrow> string list" where
  "filter_of a = map upper (if pa_status_filter a \<noteq> [] then pa_status_filter a else default_status_filter)"

definition plan_backfill :: "backfill_env \<Rightarrow> plan_args \<Rightarrow> ops_db \<Rightarrow> (backfill_plan \<times> plan_file list \<times> ops_db) result" where
  "plan_backfill env a db =
     rbind (parse_date_range (be_yesterday env) None (Some (pa_from_date a)) (Some (pa_to_date a))) (\<lambda>w.
     rbind (collect_candidates (scope_of a w) (filter_of a) db) (\<lambda>cands.
     rbind (sort_candidates cands) (\<lambda>keys.
       let plan_id = make_plan_id env (pa_dataset_id a) (pa_phase a);
           result = \<lparr>pn_plan_id = plan_id, pn_from_date = Some (date_iso (dr_start w)), pn_to_date = Some (date_iso (dr_end w)),
             pn_dataset_id = pa_dataset_id a, pn_version = pa_version a, pn_phase = pa_phase a, pn_reason = pa_reason a,
             pn_status = ''PLANNED'', pn_tasks = map (new_task plan_id) keys, pn_dry_run = pa_dry_run a,
             pn_plan_path = None, pn_plan_md_path = None, pn_warnings = []\<rparr>;
           (result1, db1) = (if pa_dry_run a
             then (result\<lparr>pn_warnings := [''dry_run=True: backfill_plans / backfill_tasks not written'']\<rparr>, db)
             else (case persist_plan env a result db of (r, db') \<Rightarrow> (r\<lparr>pn_status := ''PERSISTED''\<rparr>, db')));
           (result2, files) = write_plan env (pa_output_dir a) result1
       in Inr (result2, files, db1))))"

section \<open>Running a plan\<close>

record run_counts =
  rc_executed :: nat
  rc_failed :: nat
  rc_skipped :: nat
  rc_outputs :: "pydict list"

definition set_task :: "backfill_task_row \<Rightarrow> ops_db \<Rightarrow> ops_db" where
  "set_task r db = db\<lparr>od_tasks := map_option (dict_set (bt_task_id r) r) (od_tasks db)\<rparr>"

definition task_ran :: "datetime \<Rightarrow> proc_end \<Rightarrow> backfill_task_row \<Rightarrow> backfill_task_row" where
  "task_ran now e r = (case e of
     Exited code out err \<Rightarrow>
       if code = 0 then r\<lparr>bt_status := Some ''SUCCEEDED'', bt_finished_at := Some now\<rparr>
       else r\<lparr>bt_status := Some ''FAILED'', bt_last_error := Some (take 2000 (if err \<noteq> [] then err else out)),
              bt_finished_at := Some now\<rparr>
   | Not_Completed msg \<Rightarrow> r\<lparr>bt_status := Some ''FAILED'', bt_last_error := Some (take 2000 msg), bt_finished_at := Some now\<rparr>)"

definition ran_well :: "proc_end \<Rightarrow> bool" where
  "ran_well e = (case e of Exited code _ _ \<Rightarrow> code = 0 | Not_Completed _ \<Rightarrow> False)"

definition task_output :: "backfill_task_row \<Rightarrow> string \<Rightarrow> proc_end \<Rightarrow> pydict" where
  "task_output r cmd e =
     [(''task_id'', VStr (bt_task_id r)), (''status'', VStr (if ran_well e then ''SUCCEEDED'' else ''FAILED'')),
      (''command'', VStr cmd), (''executed'', VBool True),
      (case e of Exited code _ _ \<Rightarrow> (''exit_code'', VInt code) | Not_Completed msg \<Rightarrow> (''error'', VStr msg))]"

text \<open>One turn of the loop. A command that cannot be split raises, after the row was set to running:
  the handler catches time-outs and errors of the system only.\<close>

definition run_task :: "backfill_env \<Rightarrow> bool \<Rightarrow> bool \<Rightarrow> nat \<Rightarrow> backfill_task_row \<Rightarrow> run_counts \<Rightarrow> (ops_db, run_counts) act" where
  "run_task env execute dry_run n r rc db =
     (if \<not> execute then
        (Inr (rc\<lparr>rc_skipped := rc_skipped rc + 1, rc_outputs := rc_outputs rc @
           [[(''task_id'', VStr (bt_task_id r)), (''status'', of_opt_str (bt_status r)),
             (''command'', of_opt_str (bt_recommended_command r)), (''executed'', VBool False)]]\<rparr>), db)
      else if bt_recommended_command r = None \<and> dry_run then (Inl (TypeError ''NoneType + str''), db)
      else let r1 = r\<lparr>bt_status := Some ''RUNNING'', bt_started_at := Some (be_clock env (2 * n)),
                      bt_attempts := bt_attempts r + 1\<rparr>;
               db1 = set_task r1 db
           in case bt_recommended_command r of
                None \<Rightarrow> (Inl (ValueError ''s argument must not be None''), db1)
              | Some c \<Rightarrow> (let cmd = c @ (if dry_run then '' --dry-run'' else [])
                  in case shell_split cmd of
                       Inl e \<Rightarrow> (Inl e, db1)
                     | Inr argv \<Rightarrow> (let e = be_exec env n argv;
                           rc1 = rc\<lparr>rc_outputs := rc_outputs rc @ [task_output r cmd e]\<rparr>
                         in (Inr (if ran_well e then rc1\<lparr>rc_executed := rc_executed rc + 1\<rparr>
                                  else rc1\<lparr>rc_failed := rc_failed rc + 1\<rparr>),
                             set_task (task_ran (be_clock env (2 * n + 1)) e r1) db1))))"

fun run_tasks :: "backfill_env \<Rightarrow> bool \<Rightarrow> bool \<Rightarrow> nat \<Rightarrow> backfill_task_row list \<Rightarrow> run_counts \<Rightarrow> (ops_db, run_counts) act" where
  "run_tasks env execute dry_run n [] rc = act_return rc"
| "run_tasks env execute dry_run n (r # rs) rc =
     act_bind (run_task env execute dry_run n r rc) (\<lambda>rc'. run_tasks env execute dry_run (Suc n) rs rc')"

definition tasks_of :: "string \<Rightarrow> ops_db \<Rightarrow> backfill_task_row list" where
  "tasks_of plan_id db = filter (\<lambda>r. bt_plan_id r = plan_id) (map snd (table_rows (od_tasks db)))"

definition no_counts :: run_counts where
  "no_counts = \<lparr>rc_executed = 0, rc_failed = 0, rc_skipped = 0, rc_outputs = []\<rparr>"

definition run_plan :: "backfill_env \<Rightarrow> string \<Rightarrow> bool \<Rightarrow> bool \<Rightarrow> (ops_db, run_counts) act" where
  "run_plan env plan_id execute dry_run db =
     (if od_tasks db = None then (Inl (RuntimeError ''table backfill_tasks does not exist''), db)
      else run_tasks env execute dry_run 0 (tasks_of plan_id db) no_counts db)"

section \<open>Status of a plan\<close>

record plan_status =
  st_missing_tables :: "string list"
  st_plan :: "backfill_plan_row option"
  st_task_count :: nat
  st_buckets :: "(string \<times> nat) list"
  st_tasks :: "backfill_task_row list"

definition plan_status_of :: "string \<Rightarrow> ops_db \<Rightarrow> plan_status result" where
  "plan_status_of plan_id db = (case od_plans db of
     None \<Rightarrow> Inr \<lparr>st_missing_tables = [''backfill_plans''], st_plan = None, st_task_count = 0, st_buckets = [], st_tasks = []\<rparr>
   | Some plans \<Rightarrow>
       if od_tasks db = None then Inl (SQLAlchemyError ''no such table: backfill_tasks'')
       else (let ts = tasks_of plan_id db in
         Inr \<lparr>st_missing_tables = [], st_plan = map_of plans plan_id, st_task_count = length ts,
              st_buckets = tally (map (\<lambda>r. opt_or (bt_status r) ''UNKNOWN'') ts), st_tasks = ts\<rparr>))"

section \<open>Lemmas on commands\<close>

definition command_words :: "string \<Rightarrow> string \<Rightarrow> string \<Rightarrow> string list" where
  "command_words ds v stage =
     (if stage = ''qc'' then [''robot-dh'', ''qc'', ''contract'', ''run'', ''--dataset-id'', ds, ''--version'', v, ''--resume'']
      else if stage = ''ml_ready'' then [''robot-dh'', ''ml-ready'', ''export'', ''--dataset-id'', ds, ''--version'', v]
      else if stage = ''sla'' then [''robot-dh'', ''sla'', ''check'', ''--policy'', ''configs/sla_policies.yaml'']
      else [''robot-dh'', ''etl'', ''run'', ''--dataset-id'', ds, ''--version'', v, ''--phase'', stage, ''--resume''])"

lemma literal_words:
  "shell_quote ''robot-dh'' = ''robot-dh''" "shell_quote ''qc'' = ''qc''" "shell_quote ''contract'' = ''contract''"
  "shell_quote ''run'' = ''run''" "shell_quote ''--dataset-id'' = ''--dataset-id''" "shell_quote ''--version'' = ''--version''"
  "shell_quote ''--resume'' = ''--resume''" "shell_quote ''ml-ready'' = ''ml-ready''" "shell_quote ''export'' = ''export''"
  "shell_quote ''sla'' = ''sla''" "shell_quote ''check'' = ''check''" "shell_quote ''--policy'' = ''--policy''"
  "shell_quote ''configs/sla_policies.yaml'' = ''configs/sla_policies.yaml''" "shell_quote ''etl'' = ''etl''"
  "shell_quote ''--phase'' = ''--phase''" "shell_quote ''--dry-run'' = ''--dry-run''"
  by code_simp+

lemma command_is_quoted: "recommend_command ds v ph = join '' '' (map shell_quote (command_words ds v (stage_of ph)))"
  by (simp add: recommend_command_def command_words_def literal_words Let_def)

lemma command_split: "shell_split (recommend_command ds v ph) = Inr (command_words ds v (stage_of ph))"
  by (simp add: command_is_quoted split_quoted_words)

lemma dry_run_split:
  "shell_split c = Inr ws \<Longrightarrow> shell_split (c @ '' --dry-run'') = Inr (ws @ [''--dry-run''])"
  using split_append_word[of c ws "''--dry-run''" "[''--dry-run'']"] split_last[of "''--dry-run''"]
  by (simp add: literal_words)

section \<open>Lemmas on the task table\<close>

text \<open>Every row stands under its own id, and no id twice.\<close>

definition tasks_ok :: "(string \<times> backfill_task_row) list \<Rightarrow> bool" where
  "tasks_ok t = (dict_ok t \<and> (\<forall>(k, r)\<in>set t. bt_task_id r = k))"

lemma task_row_sel [simp]:
  "bt_task_id (task_row now t old) = tk_task_id t" "bt_plan_id (task_row now t old) = tk_plan_id t"
  "bt_recommended_command (task_row now t old) = Some (tk_recommended_command t)"
  "bt_status (task_row now t old) = Some (tk_status t)"
  by (simp_all add: task_row_def Let_def split: option.splits)

lemma tasks_ok_set: "tasks_ok t \<Longrightarrow> bt_task_id r = k \<Longrightarrow> tasks_ok (dict_set k r t)"
  unfolding tasks_ok_def
proof (intro conjI)
  assume t: "dict_ok t \<and> (\<forall>(k, r)\<in>set t. bt_task_id r = k)" and r: "bt_task_id r = k"
  from t show ok: "dict_ok (dict_set k r t)" by (simp add: distinct_update)
  show "\<forall>(j, x)\<in>set (dict_set k r t). bt_task_id x = j"
  proof safe
    fix j x assume "(j, x) \<in> set (dict_set k r t)"
    then have "map_of (dict_set k r t) j = Some x" by (rule map_of_is_SomeI[OF ok])
    then show "bt_task_id x = j" using t r by (auto split: if_splits dest: map_of_SomeD)
  qed
qed

lemma tasks_ok_persist: "tasks_ok t \<Longrightarrow> tasks_ok (persist_tasks now ts t)"
  unfolding persist_tasks_def by (induction ts arbitrary: t) (auto simp: dict_upsert_def tasks_ok_set)

lemma persist_tasks_keys: "set (dict_keys (persist_tasks now ts t)) = tk_task_id ` set ts \<union> set (dict_keys t)"
  unfolding persist_tasks_def
  by (induction ts arbitrary: t) (auto simp: dict_upsert_def set_dict_keys simp del: set_map)

lemma persist_tasks_rows:
  assumes "tasks_ok t" "(k, r) \<in> set (persist_tasks now ts t)"
  shows "(k, r) \<in> set t \<or> (\<exists>x\<in>set ts. \<exists>old. r = task_row now x old)"
  using assms
proof (induction ts arbitrary: t)
  case (Cons x ts)
  let ?t = "dict_upsert (task_row now x) (tk_task_id x) t"
  have ok: "tasks_ok ?t" using Cons.prems(1) by (simp add: dict_upsert_def tasks_ok_set)
  have "(k, r) \<in> set (persist_tasks now ts ?t)" using Cons.prems(2) by (simp add: persist_tasks_def)
  then consider "(k, r) \<in> set ?t" | "\<exists>y\<in>set ts. \<exists>old. r = task_row now y old" using Cons.IH[OF ok] by blast
  then show ?case
  proof cases
    case 1
    then have "map_of ?t k = Some r" using ok by (intro map_of_is_SomeI) (simp_all add: tasks_ok_def)
    then show ?thesis by (auto simp: dict_upsert_def split: if_splits dest: map_of_SomeD)
  next
    case 2 then show ?thesis by auto
  qed
qed (simp add: persist_tasks_def)

section \<open>Lemmas on runs\<close>

definition task_done :: "(string \<times> backfill_task_row) list \<Rightarrow> backfill_task_row \<Rightarrow> bool" where
  "task_done t r = (\<exists>row. map_of t (bt_task_id r) = Some row \<and> bt_status row \<in> {Some ''SUCCEEDED'', Some ''FAILED''} \<and>
     bt_attempts row = bt_attempts r + 1 \<and> bt_recommended_command row = bt_recommended_command r)"

definition runnable :: "backfill_task_row \<Rightarrow> bool" where
  "runnable r = (\<exists>c ws. bt_recommended_command r = Some c \<and> shell_split c = Inr ws)"

lemma task_ran_sel [simp]:
  "bt_task_id (task_ran now e r) = bt_task_id r" "bt_attempts (task_ran now e r) = bt_attempts r"
  "bt_recommended_command (task_ran now e r) = bt_recommended_command r"
  "bt_status (task_ran now e r) = Some (if ran_well e then ''SUCCEEDED'' else ''FAILED'')"
  by (simp_all add: task_ran_def ran_well_def split: proc_end.splits)

lemma run_task_runnable:
  assumes "runnable r" "od_tasks db = Some t"
  shows "\<exists>rc' db' t'. run_task env True dry_run n r rc db = (Inr rc', db') \<and> od_tasks db' = Some t' \<and>
    rc_executed rc' + rc_failed rc' = Suc (rc_executed rc + rc_failed rc) \<and> rc_skipped rc' = rc_skipped rc \<and>
    length (rc_outputs rc') = Suc (length (rc_outputs rc)) \<and> task_done t' r \<and>
    (\<forall>k. k \<noteq> bt_task_id r \<longrightarrow> map_of t' k = map_of t k)"
proof -
  from assms(1) obtain c ws where c: "bt_recommended_command r = Some c" "shell_split c = Inr ws"
    by (auto simp: runnable_def)
  then obtain argv where argv: "shell_split (c @ (if dry_run then '' --dry-run'' else [])) = Inr argv"
    using dry_run_split by (cases dry_run) auto
  show ?thesis
    using c argv assms(2) by (auto simp: run_task_def set_task_def task_done_def Let_def)
qed

lemma run_tasks_step:
  "run_task env execute dry_run n r rc db = (Inr rc1, db1) \<Longrightarrow>
     run_tasks env execute dry_run n (r # rs) rc db = run_tasks env execute dry_run (Suc n) rs rc1 db1"
  by (simp add: act_bind_def)

lemma run_tasks_ConsE:
  assumes "run_tasks env execute dry_run n (r # rs) rc db = (Inr rc', db')"
  obtains rc1 db1 where "run_task env execute dry_run n r rc db = (Inr rc1, db1)"
    "run_tasks env execute dry_run (Suc n) rs rc1 db1 = (Inr rc', db')"
  using assms by (auto elim: act_bind_InrE)

lemma run_tasks_runnable:
  assumes "od_tasks db = Some t" "\<forall>r\<in>set rs. runnable r" "distinct (map bt_task_id rs)"
  shows "\<exists>rc' db' t'. run_tasks env True dry_run n rs rc db = (Inr rc', db') \<and> od_tasks db' = Some t' \<and>
    rc_executed rc' + rc_failed rc' = rc_executed rc + rc_failed rc + length rs \<and> rc_skipped rc' = rc_skipped rc \<and>
    length (rc_outputs rc') = length (rc_outputs rc) + length rs \<and> (\<forall>r\<in>set rs. task_done t' r) \<and>
    (\<forall>k. k \<notin> bt_task_id ` set rs \<longrightarrow> map_of t' k = map_of t k)"
  using assms
proof (induction rs arbitrary: n rc db t)
  case Nil
  then show ?case by (simp add: act_return_def)
next
  case (Cons r rs)
  obtain rc1 db1 t1 where one: "run_task env True dry_run n r rc db = (Inr rc1, db1)" "od_tasks db1 = Some t1"
      "rc_executed rc1 + rc_failed rc1 = Suc (rc_executed rc + rc_failed rc)" "rc_skipped rc1 = rc_skipped rc"
      "length (rc_outputs rc1) = Suc (length (rc_outputs rc))" "task_done t1 r"
      "\<forall>k. k \<noteq> bt_task_id r \<longrightarrow> map_of t1 k = map_of t k"
    using run_task_runnable[of r db t] Cons.prems by (metis list.set_intros(1))
  from Cons.prems have "\<forall>r\<in>set rs. runnable r" "distinct (map bt_task_id rs)" by auto
  from Cons.IH[OF one(2) this] obtain rc2 db2 t2 where rest:
      "run_tasks env True dry_run (Suc n) rs rc1 db1 = (Inr rc2, db2)" "od_tasks db2 = Some t2"
      "rc_executed rc2 + rc_failed rc2 = rc_executed rc1 + rc_failed rc1 + length rs" "rc_skipped rc2 = rc_skipped rc1"
      "length (rc_outputs rc2) = length (rc_outputs rc1) + length rs" "\<forall>r\<in>set rs. task_done t2 r"
      "\<forall>k. k \<notin> bt_task_id ` set rs \<longrightarrow> map_of t2 k = map_of t1 k" by blast
  have "map_of t2 (bt_task_id r) = map_of t1 (bt_task_id r)" using rest(7) Cons.prems(3) by simp
  then have "task_done t2 r" using one(6) by (simp add: task_done_def)
  then show ?case using one rest by (simp add: run_tasks_step[OF one(1)] del: run_tasks.simps)
qed

lemma run_task_Inr:
  assumes "run_task env execute dry_run n r rc db = (Inr rc', db')"
  shows "rc_executed rc' + rc_failed rc' + rc_skipped rc' = Suc (rc_executed rc + rc_failed rc + rc_skipped rc)"
    "length (rc_outputs rc') = Suc (length (rc_outputs rc))" "\<not> execute \<Longrightarrow> db' = db" "execute \<Longrightarrow> rc_skipped rc' = rc_skipped rc"
  using assms by (auto simp: run_task_def Let_def split: if_splits option.splits sum.splits)

lemma run_tasks_Inr:
  assumes "run_tasks env execute dry_run n rs rc db = (Inr rc', db')"
  shows "rc_executed rc' + rc_failed rc' + rc_skipped rc' = rc_executed rc + rc_failed rc + rc_skipped rc + length rs"
    "length (rc_outputs rc') = length (rc_outputs rc) + length rs" "\<not> execute \<Longrightarrow> db' = db"
    "execute \<Longrightarrow> rc_skipped rc' = rc_skipped rc"
  using assms
proof (induction rs arbitrary: n rc db)
  case (Cons r rs)
  { case 1 then show ?case
      by (rule run_tasks_ConsE) (use run_task_Inr(1) Cons.IH(1) in fastforce) }
  { case 2 then show ?case
      by (rule run_tasks_ConsE) (use run_task_Inr(2) Cons.IH(2) in fastforce) }
  { case 3 from 3(2) show ?case
      by (rule run_tasks_ConsE) (use 3(1) run_task_Inr(3) Cons.IH(3) in metis) }
  { case 4 from 4(2) show ?case
      by (rule run_tasks_ConsE) (use 4(1) run_task_Inr(4) Cons.IH(4) in metis) }
qed (auto simp: act_return_def)

lemma run_tasks_skips:
  "\<exists>rc'. run_tasks env False dry_run n rs rc db = (Inr rc', db) \<and> rc_skipped rc' = rc_skipped rc + length rs"
proof (induction rs arbitrary: n rc)
  case (Cons r rs)
  obtain rc1 where "run_task env False dry_run n r rc db = (Inr rc1, db)" "rc_skipped rc1 = Suc (rc_skipped rc)"
    by (simp add: run_task_def)
  with Cons[of "Suc n" rc1] show ?case by (simp add: run_tasks_step del: run_tasks.simps)
qed (simp add: act_return_def)

lemma run_task_Inl: "run_task env execute dry_run n r rc db = (Inl e, db') \<Longrightarrow> execute \<and> \<not> runnable r"
  using dry_run_split by (fastforce simp: run_task_def runnable_def Let_def split: if_splits option.splits sum.splits)

lemma run_tasks_Inl:
  "run_tasks env execute dry_run n rs rc db = (Inl e, db') \<Longrightarrow> execute \<and> (\<exists>r\<in>set rs. \<not> runnable r)"
proof (induction rs arbitrary: n rc db)
  case (Cons r rs)
  from Cons.prems show ?case
    by (auto elim!: act_bind_InlE dest: run_task_Inl Cons.IH)
qed (simp add: act_return_def)

section \<open>Lemmas on plans\<close>

lemma set_history_keys:
  "set (history_keys sc f db) = {c. \<exists>r\<in>set (all_facts sc db). in_scope sc r \<and> key_of f r = Some c}"
  by (force simp: history_keys_def List.map_filter_def)

lemma sort_candidates_Inr:
  assumes "sort_candidates cs = Inr keys"
  shows "set keys = set cs" "distinct cs \<Longrightarrow> distinct keys" "sorted (map (\<lambda>c. (key_stem c, opt_or (key_family c) [])) keys)"
  using assms by (auto simp: sort_candidates_def split: if_splits)

definition plan_stem :: "backfill_env \<Rightarrow> plan_args \<Rightarrow> date_range \<Rightarrow> candidate list \<Rightarrow> backfill_plan" where
  "plan_stem env a w keys = (let plan_id = make_plan_id env (pa_dataset_id a) (pa_phase a) in
     \<lparr>pn_plan_id = plan_id, pn_from_date = Some (date_iso (dr_start w)), pn_to_date = Some (date_iso (dr_end w)),
      pn_dataset_id = pa_dataset_id a, pn_version = pa_version a, pn_phase = pa_phase a, pn_reason = pa_reason a,
      pn_status = ''PLANNED'', pn_tasks = map (new_task plan_id) keys, pn_dry_run = pa_dry_run a,
      pn_plan_path = None, pn_plan_md_path = None, pn_warnings = []\<rparr>)"

lemma write_plan_sel [simp]:
  "pn_plan_id (fst (write_plan env dir p)) = pn_plan_id p" "pn_tasks (fst (write_plan env dir p)) = pn_tasks p"
  by (simp_all add: write_plan_def Let_def split: option.splits)

lemma persist_plan_sel [simp]:
  "pn_plan_id (fst (persist_plan env a p db)) = pn_plan_id p" "pn_tasks (fst (persist_plan env a p db)) = pn_tasks p"
  by (simp_all add: persist_plan_def split: option.splits)

lemma plan_backfill_Inr:
  assumes "plan_backfill env a db = Inr (p, files, db')"
  obtains w cands keys where
    "parse_date_range (be_yesterday env) None (Some (pa_from_date a)) (Some (pa_to_date a)) = Inr w"
    "collect_candidates (scope_of a w) (filter_of a) db = Inr cands" "sort_candidates cands = Inr keys"
    "pn_plan_id p = pn_plan_id (plan_stem env a w keys)" "pn_tasks p = pn_tasks (plan_stem env a w keys)"
    "db' = (if pa_dry_run a then db else snd (persist_plan env a (plan_stem env a w keys) db))"
proof -
  obtain w cands keys where w: "parse_date_range (be_yesterday env) None (Some (pa_from_date a)) (Some (pa_to_date a)) = Inr w"
    "collect_candidates (scope_of a w) (filter_of a) db = Inr cands" "sort_candidates cands = Inr keys"
    using assms by (auto simp: plan_backfill_def rbind_Inr_iff)
  let ?s = "plan_stem env a w keys"
  let ?r = "if pa_dry_run a then (?s\<lparr>pn_warnings := [''dry_run=True: backfill_plans / backfill_tasks not written'']\<rparr>, db)
    else ((fst (persist_plan env a ?s db))\<lparr>pn_status := ''PERSISTED''\<rparr>, snd (persist_plan env a ?s db))"
  have "p = fst (write_plan env (pa_output_dir a) (fst ?r))" "db' = snd ?r"
    using assms w by (auto simp: plan_backfill_def plan_stem_def Let_def split: prod.splits if_splits)
  then show thesis using that[OF w] by (cases "pa_dry_run a") simp_all
qed

lemma collect_distinct:
  assumes "collect_candidates sc f db = Inr cands" "\<And>days. iter_dates (ps_window sc) = Inr days \<Longrightarrow> distinct days"
  shows "distinct cands"
  using assms by (auto simp: collect_candidates_def Let_def history_keys_def rbind_Inr_iff distinct_map inj_on_def split: if_splits)

lemma persist_tasks_snoc:
  "persist_tasks now (ts @ [y]) t = dict_upsert (task_row now y) (tk_task_id y) (persist_tasks now ts t)"
  by (simp add: persist_tasks_def)

lemma persist_tasks_lookup:
  "x \<in> set ts \<Longrightarrow> \<exists>y\<in>set ts. \<exists>old. map_of (persist_tasks now ts t) (tk_task_id x) = Some (task_row now y old) \<and>
     tk_task_id y = tk_task_id x"
proof (induction ts rule: rev_induct)
  case (snoc y ts)
  show ?case
  proof (cases "tk_task_id x = tk_task_id y")
    case True
    then show ?thesis by (intro bexI[of _ y]) (auto simp: persist_tasks_snoc dict_upsert_def)
  next
    case False
    with snoc obtain z old where "z \<in> set ts" "map_of (persist_tasks now ts t) (tk_task_id x) = Some (task_row now z old)"
        "tk_task_id z = tk_task_id x" by auto
    with False show ?thesis by (intro bexI[of _ z]) (auto simp: persist_tasks_snoc dict_upsert_def)
  qed
qed simp

lemma tasks_ok_ids: "tasks_ok t \<Longrightarrow> map bt_task_id (map snd t) = dict_keys t"
  by (auto simp: tasks_ok_def)

lemma tasks_of_distinct: "od_tasks db = Some t \<Longrightarrow> tasks_ok t \<Longrightarrow> distinct (map bt_task_id (tasks_of pid db))"
proof -
  assume t: "od_tasks db = Some t" "tasks_ok t"
  then have "distinct (map bt_task_id (map snd t))" unfolding tasks_ok_ids[OF t(2)] by (simp add: tasks_ok_def)
  from distinct_map_filter[OF this] show ?thesis by (simp add: tasks_of_def t)
qed

lemma new_task_sel [simp]:
  "tk_plan_id (new_task pid c) = pid" "tk_status (new_task pid c) = ''PLANNED''"
  "\<exists>ds v ph. tk_recommended_command (new_task pid c) = recommend_command ds v ph"
  by (auto simp: new_task_def split: prod.splits)

text \<open>The rows that a plan leaves in the table: those of its tasks, all of them runnable.\<close>

lemma persisted_rows:
  assumes "od_tasks db = Some t" "tasks_ok t" "tasks_of pid db = []" "od_tasks db1 = Some (persist_tasks now (map (new_task pid) keys) t)"
  shows "\<forall>r\<in>set (tasks_of pid db1). runnable r"
    and "bt_task_id ` set (tasks_of pid db1) = tk_task_id ` set (map (new_task pid) keys)"
proof -
  let ?ts = "map (new_task pid) keys"
  have rows: "\<exists>x\<in>set ?ts. \<exists>old. r = task_row now x old" if "r \<in> set (tasks_of pid db1)" for r
  proof -
    from that obtain k where k: "(k, r) \<in> set (persist_tasks now ?ts t)" "bt_plan_id r = pid"
      using assms(4) by (auto simp: tasks_of_def)
    have "(k, r) \<notin> set t" using assms(1,3) k(2) by (force simp: tasks_of_def filter_empty_conv)
    with persist_tasks_rows[OF assms(2) k(1)] show ?thesis by blast
  qed
  have split: "shell_split (tk_recommended_command (new_task pid c)) \<in> range Inr" for c
    using new_task_sel(3)[of pid c] command_split by (metis rangeI)
  show "\<forall>r\<in>set (tasks_of pid db1). runnable r"
  proof
    fix r :: backfill_task_row assume "r \<in> set (tasks_of pid db1)"
    with rows obtain c old where "r = task_row now (new_task pid c) old" by fastforce
    with split[of c] show "runnable r" by (auto simp: runnable_def)
  qed
  show "bt_task_id ` set (tasks_of pid db1) = tk_task_id ` set ?ts"
  proof
    show "bt_task_id ` set (tasks_of pid db1) \<subseteq> tk_task_id ` set ?ts" using rows by fastforce
    show "tk_task_id ` set ?ts \<subseteq> bt_task_id ` set (tasks_of pid db1)"
    proof
      fix k assume "k \<in> tk_task_id ` set ?ts"
      then obtain x where x: "x \<in> set ?ts" "k = tk_task_id x" by auto
      with persist_tasks_lookup obtain y old where y: "y \<in> set ?ts" "tk_task_id y = k"
          "map_of (persist_tasks now ?ts t) k = Some (task_row now y old)" by metis
      then have "(k, task_row now y old) \<in> set (persist_tasks now ?ts t)" by (auto dest: map_of_SomeD)
      moreover have "bt_plan_id (task_row now y old) = pid" using y(1) by auto
      ultimately have "task_row now y old \<in> set (tasks_of pid db1)"
        using assms(4) by (force simp: tasks_of_def)
      then show "k \<in> bt_task_id ` set (tasks_of pid db1)" using y(2) by (metis imageI task_row_sel(1))
    qed
  qed
qed

section \<open>Properties\<close>

text \<open>The command recommended for a run is read by \<open>shlex.split\<close> as the words meant: whatever the data
  set and version are called, each reaches the command as a single argument.\<close>

theorem command_arguments_intact:
  "shell_split (recommend_command ds v ph) = Inr (let stage = stage_of ph in
     if stage = ''qc'' then [''robot-dh'', ''qc'', ''contract'', ''run'', ''--dataset-id'', ds, ''--version'', v, ''--resume'']
     else if stage = ''ml_ready'' then [''robot-dh'', ''ml-ready'', ''export'', ''--dataset-id'', ds, ''--version'', v]
     else if stage = ''sla'' then [''robot-dh'', ''sla'', ''check'', ''--policy'', ''configs/sla_policies.yaml'']
     else [''robot-dh'', ''etl'', ''run'', ''--dataset-id'', ds, ''--version'', v, ''--phase'', stage, ''--resume''])"
  by (simp add: command_split command_words_def Let_def)

text \<open>A plan has one task per run to repeat, in the order of day, data set, version and phase: the runs
  of the window, in any of the four sources, that carry a status of the filter; or, when there are none
  and a data set and a version were asked for, every day of the window. A dry run writes nothing.\<close>

theorem plan_backfill_correct:
  assumes "plan_backfill env a db = Inr (p, files, db')"
  shows "\<exists>w keys. parse_date_range (be_yesterday env) None (Some (pa_from_date a)) (Some (pa_to_date a)) = Inr w \<and>
    pn_tasks p = map (new_task (pn_plan_id p)) keys \<and>
    sorted (map (\<lambda>c. (key_stem c, opt_or (key_family c) [])) keys) \<and>
    (let sc = scope_of a w;
         hist = {c. \<exists>r\<in>set (all_facts sc db). in_scope sc r \<and> key_of (filter_of a) r = Some c}
     in if hist = {} \<and> opt_truthy (pa_dataset_id a) \<and> opt_truthy (pa_version a)
        then \<exists>days. iter_dates w = Inr days \<and> set keys =
          (\<lambda>d. (d, the (pa_dataset_id a), the (pa_version a), opt_or (pa_phase a) ''normalize'', None)) ` set days
        else set keys = hist \<and> distinct keys) \<and>
    (pa_dry_run a \<longrightarrow> db' = db)"
proof -
  from assms obtain w cands keys where w:
    "parse_date_range (be_yesterday env) None (Some (pa_from_date a)) (Some (pa_to_date a)) = Inr w"
    "collect_candidates (scope_of a w) (filter_of a) db = Inr cands" "sort_candidates cands = Inr keys"
    "pn_plan_id p = pn_plan_id (plan_stem env a w keys)" "pn_tasks p = pn_tasks (plan_stem env a w keys)"
    "db' = (if pa_dry_run a then db else snd (persist_plan env a (plan_stem env a w keys) db))"
    by (rule plan_backfill_Inr)
  let ?sc = "scope_of a w"
  let ?hist = "{c. \<exists>r\<in>set (all_facts ?sc db). in_scope ?sc r \<and> key_of (filter_of a) r = Some c}"
  note keys = sort_candidates_Inr[OF w(3)]
  have sc: "ps_dataset_id ?sc = pa_dataset_id a" "ps_version ?sc = pa_version a" "ps_window ?sc = w" "ps_phase ?sc = pa_phase a"
    by (simp_all add: scope_of_def)
  have hk: "set (history_keys ?sc (filter_of a) db) = ?hist" by (rule set_history_keys)
  then have empty: "history_keys ?sc (filter_of a) db = [] \<longleftrightarrow> ?hist = {}" by (metis set_empty)
  have "if ?hist = {} \<and> opt_truthy (pa_dataset_id a) \<and> opt_truthy (pa_version a)
        then \<exists>days. iter_dates w = Inr days \<and> set keys =
          (\<lambda>d. (d, the (pa_dataset_id a), the (pa_version a), opt_or (pa_phase a) ''normalize'', None)) ` set days
        else set keys = ?hist \<and> distinct keys"
  proof (cases "?hist = {} \<and> opt_truthy (pa_dataset_id a) \<and> opt_truthy (pa_version a)")
    case True
    then have "the (pa_dataset_id a) = opt_or (pa_dataset_id a) []" "the (pa_version a) = opt_or (pa_version a) []"
      by (auto simp: opt_truthy_def opt_or_def split: option.splits)
    then show ?thesis
      using True w(2) empty keys(1) by (auto simp: collect_candidates_def sc rbind_Inr_iff Let_def)
  next
    case False
    then have "cands = history_keys ?sc (filter_of a) db"
      using w(2) empty by (auto simp: collect_candidates_def sc Let_def split: if_splits)
    then show ?thesis using False keys(1,2) hk by (auto simp: history_keys_def)
  qed
  moreover have "pn_tasks p = map (new_task (pn_plan_id p)) keys"
    using w(4,5) by (simp add: plan_stem_def Let_def)
  ultimately show ?thesis using w(1,6) keys(3) unfolding Let_def by (intro exI[of _ w] exI[of _ keys]) simp
qed



section \<open>Witnesses\<close>

definition backfill_args :: plan_args where
  "backfill_args = \<lparr>pa_from_date = DDate (Date 2026 5 25), pa_to_date = DDate (Date 2026 5 26), pa_dataset_id = None,
     pa_version = None, pa_phase = None, pa_reason = None, pa_status_filter = [], pa_dry_run = False,
     pa_output_dir = Some ''out'', pa_created_by = None\<rparr>"

definition backfill_demo_env :: backfill_env where
  "backfill_demo_env = \<lparr>be_timestamp = ''t'', be_random = ''r'', be_yesterday = Date 2026 5 27, be_clock = (\<lambda>_. (Date 2026 5 27, 0)),
     be_template = (\<lambda>_. []), be_exec = (\<lambda>n _. if n = 0 then Exited 0 [] [] else Not_Completed ''timeout'')\<rparr>"

definition backfill_check :: sla_check_row where
  "backfill_check = \<lparr>scr_check_id = ''c'', scr_policy_id = None, scr_dt = Some (Date 2026 5 25), scr_dataset_id = Some ''my set'',
     scr_version = Some ''v1'', scr_status = Some ''fail'', scr_qc_pass_rate = None, scr_etl_success_rate = None,
     scr_workflow_success_rate = None, scr_missing_outputs_json = None, scr_failed_reason = None,
     scr_checked_at = (Date 2026 5 26, 0), scr_metrics_json = None\<rparr>"

definition backfill_db :: ops_db where
  "backfill_db = empty_db\<lparr>od_sla_checks := Some [backfill_check], od_plans := Some [], od_tasks := Some []\<rparr>"

definition backfill_row :: backfill_task_row where
  "backfill_row = task_row (Date 2026 5 27, 0) (new_task ''p'' (Date 2026 5 25, ''my set'', ''v1'', ''qc'', None)) None"

lemma demo_collected:
  "collect_candidates (scope_of backfill_args \<lparr>dr_start = Date 2026 5 25, dr_end = Date 2026 5 26\<rparr>) (filter_of backfill_args) backfill_db =
     Inr [(Date 2026 5 25, ''my set'', ''v1'', ''sla'', None)]"
  by code_simp

lemma demo_backfill:
  obtains p files db1 where "plan_backfill backfill_demo_env backfill_args backfill_db = Inr (p, files, db1)"
proof -
  have "parse_date_range (be_yesterday backfill_demo_env) None (Some (pa_from_date backfill_args)) (Some (pa_to_date backfill_args)) =
      Inr \<lparr>dr_start = Date 2026 5 25, dr_end = Date 2026 5 26\<rparr>"
    by code_simp
  then have "\<exists>x. plan_backfill backfill_demo_env backfill_args backfill_db = Inr x"
    by (simp add: plan_backfill_def demo_collected sort_candidates_def families_clash_def key_family_def Let_def split: prod.split)
  then show thesis using that by (metis prod_cases3)
qed

theorem plan_backfill_correct_witness:
  "\<exists>p files db1 keys. plan_backfill backfill_demo_env backfill_args backfill_db = Inr (p, files, db1) \<and>
     pn_tasks p = map (new_task (pn_plan_id p)) keys"
proof (rule demo_backfill)
  fix p files db1 assume r: "plan_backfill backfill_demo_env backfill_args backfill_db = Inr (p, files, db1)"
  from plan_backfill_correct[OF r] obtain keys where "pn_tasks p = map (new_task (pn_plan_id p)) keys" by blast
  with r show ?thesis by blast
qed



end
