(* ===== verification/Lake_Store.thy ===== *)
theory Lake_Store
  imports Lake_Env Json_Docs
begin

text \<open>
  \<^verbatim>\<open>src/robot_dh/lake/store.py\<close>: the two lake stores, local files and S3 objects, with listing,
  existence, reading, writing, and the transfer of directories. S3 is its objects, each under its
  bucket and key; the local disk is its files, each under the string of its path (empty directories are
  not visible, and paths are not resolved: no \<open>..\<close>, no links). The content of a file is any type, with
  the number of its bytes given by a function; the JSON methods see a content as a JSON value or as
  text. Failures of the network and of the disk are not modelled, nor is the temporary file of a
  download, which a rename replaces.
\<close>

section \<open>State and addresses\<close>

record 'c lake =
  lk_objects :: "((string \<times> string) \<times> 'c) list"
  lk_files :: "(string \<times> 'c) list"

datatype lake_addr = Object string string | File_At string

definition s3_parse :: "string \<Rightarrow> lake_uri result" where
  "s3_parse uri = rbind (parse_uri uri) (\<lambda>u. if is_s3 u then Inr u else Inl (ValueError (''S3LakeStore got non-S3 URI: '' @ uri)))"

definition store_addr :: "store_kind \<Rightarrow> string \<Rightarrow> lake_addr result" where
  "store_addr kind uri = (case kind of
     S3LakeStore \<Rightarrow> rbind (s3_parse uri) (\<lambda>u. Inr (Object (u_bucket u) (u_key u)))
   | LocalLakeStore \<Rightarrow> rbind (parse_uri uri) (\<lambda>u. Inr (File_At (path_str (u_local_path u)))))"

primrec addr_uri :: "lake_addr \<Rightarrow> string" where
  "addr_uri (Object b k) = ''s3://'' @ b @ ''/'' @ k"
| "addr_uri (File_At p) = p"

primrec get_at :: "lake_addr \<Rightarrow> 'c lake \<Rightarrow> 'c option" where
  "get_at (Object b k) s = map_of (lk_objects s) (b, k)"
| "get_at (File_At p) s = map_of (lk_files s) p"

primrec put_at :: "lake_addr \<Rightarrow> 'c \<Rightarrow> 'c lake \<Rightarrow> 'c lake" where
  "put_at (Object b k) c s = s\<lparr>lk_objects := dict_set (b, k) c (lk_objects s)\<rparr>"
| "put_at (File_At p) c s = s\<lparr>lk_files := dict_set p c (lk_files s)\<rparr>"

section \<open>Reading, writing and listing\<close>

definition store_read :: "store_kind \<Rightarrow> 'c lake \<Rightarrow> string \<Rightarrow> 'c result" where
  "store_read kind s uri = rbind (store_addr kind uri) (\<lambda>a.
     case get_at a s of Some c \<Rightarrow> Inr c | None \<Rightarrow> Inl (FileNotFoundError (addr_uri a)))"

definition store_write :: "store_kind \<Rightarrow> string \<Rightarrow> 'c \<Rightarrow> 'c lake \<Rightarrow> (string \<times> 'c lake) result" where
  "store_write kind uri c s = rbind (store_addr kind uri) (\<lambda>a. Inr (addr_uri a, put_at a c s))"

text \<open>A local path exists as a file or as a directory above a file.\<close>

definition is_dir :: "'c lake \<Rightarrow> string \<Rightarrow> bool" where
  "is_dir s p = list_ex (below p) (dict_keys (lk_files s))"

definition store_exists :: "store_kind \<Rightarrow> 'c lake \<Rightarrow> string \<Rightarrow> bool result" where
  "store_exists kind s uri = rbind (store_addr kind uri) (\<lambda>a. Inr (case a of
     Object b k \<Rightarrow> get_at a s \<noteq> None
   | File_At p \<Rightarrow> get_at a s \<noteq> None \<or> is_dir s p))"

text \<open>\<open>list_objects_v2\<close>: the objects of a bucket with a prefix, in the order of their keys.\<close>

definition list_objects :: "'c lake \<Rightarrow> string \<Rightarrow> string \<Rightarrow> (string \<times> 'c) list" where
  "list_objects s bucket pre =
     sort_key fst (map (\<lambda>((b, k), c). (k, c)) (filter (\<lambda>((b, k), c). b = bucket \<and> starts_with k pre) (lk_objects s)))"

definition slash_end :: "string \<Rightarrow> string" where
  "slash_end p = (if p \<noteq> [] \<and> \<not> ends_with p ''/'' then p @ ''/'' else p)"

definition sole_object :: "'c lake \<Rightarrow> string \<Rightarrow> string \<Rightarrow> bool" where
  "sole_object s b k = (k \<noteq> [] \<and> \<not> ends_with k ''/'' \<and> get_at (Object b k) s \<noteq> None)"

definition store_list :: "store_kind \<Rightarrow> 'c lake \<Rightarrow> string \<Rightarrow> string list result" where
  "store_list kind s uri = (case kind of
     S3LakeStore \<Rightarrow> rbind (s3_parse uri) (\<lambda>u.
       if sole_object s (u_bucket u) (u_key u) then Inr [''s3://'' @ u_bucket u @ ''/'' @ u_key u]
       else Inr (map (\<lambda>(k, _). ''s3://'' @ u_bucket u @ ''/'' @ k) (list_objects s (u_bucket u) (slash_end (u_key u)))))
   | LocalLakeStore \<Rightarrow> rbind (parse_uri uri) (\<lambda>u. let p = path_str (u_local_path u) in
       if map_of (lk_files s) p \<noteq> None then Inr [u_uri u]
       else Inr (sort_key path_parts (filter (below p) (dict_keys (lk_files s))))))"

section \<open>JSON\<close>

datatype content = Json pyval | Text string

definition write_json :: "store_kind \<Rightarrow> string \<Rightarrow> pyval \<Rightarrow> content lake \<Rightarrow> (string \<times> content lake) result" where
  "write_json kind uri v = store_write kind uri (Json v)"

definition read_json :: "store_kind \<Rightarrow> content lake \<Rightarrow> string \<Rightarrow> pyval result" where
  "read_json kind s uri = rbind (store_read kind s uri) (\<lambda>c. case c of Json v \<Rightarrow> Inr v | Text t \<Rightarrow> Inl (ValueError ''not JSON''))"

section \<open>Transfers\<close>

text \<open>\<open>local_dir / rel\<close>: an absolute right operand wins.\<close>

definition path_join :: "string \<Rightarrow> string \<Rightarrow> string" where
  "path_join dir rel = (if starts_with rel ''/'' then path_str rel else path_str (slash_end dir @ rel))"

definition keep_rel :: "string list \<Rightarrow> string list \<Rightarrow> string \<Rightarrow> bool" where
  "keep_rel excl incl rel = (\<not> list_ex (starts_with rel) excl \<and> (incl = [] \<or> list_ex (starts_with rel) incl))"

definition rel_key :: "string \<Rightarrow> string \<Rightarrow> string" where
  "rel_key pre k = (if pre \<noteq> [] \<and> starts_with k pre then drop (length pre) k else k)"

text \<open>The files of a local directory with their paths relative to it, in the order of the paths.\<close>

definition dir_files :: "'c lake \<Rightarrow> string \<Rightarrow> (string \<times> 'c) list" where
  "dir_files s dir = map (\<lambda>(p, c). (rel_key (if dir = ''.'' then [] else slash_end dir) p, c))
     (sort_key (\<lambda>(p, _). path_parts p) (filter (\<lambda>(p, _). below dir p) (lk_files s)))"

text \<open>The files a download of S3 objects fetches, largest first, and the test that spares one: a file
  of the expected, positive size is already there.\<close>

definition download_tasks :: "('c \<Rightarrow> int) \<Rightarrow> string list \<Rightarrow> string list \<Rightarrow> string \<Rightarrow> string \<Rightarrow> (string \<times> 'c) list \<Rightarrow> (string \<times> 'c) list" where
  "download_tasks size_of excl incl pre dir objs =
     sort_key (\<lambda>(_, c). - size_of c)
       (List.map_filter (\<lambda>(k, c). let rel = rel_key pre k in
          if rel = [] \<or> ends_with rel ''/'' \<or> \<not> keep_rel excl incl rel then None
          else Some (path_join dir rel, c)) objs)"

definition matches_local :: "('c \<Rightarrow> int) \<Rightarrow> (string \<times> 'c) list \<Rightarrow> string \<Rightarrow> int \<Rightarrow> bool" where
  "matches_local size_of files target n = (0 < n \<and> (case map_of files target of None \<Rightarrow> False | Some c \<Rightarrow> size_of c = n))"

definition fetch :: "('c \<Rightarrow> int) \<Rightarrow> string \<times> 'c \<Rightarrow> (string \<times> 'c) list \<Rightarrow> (string \<times> 'c) list" where
  "fetch size_of t files = (if matches_local size_of files (fst t) (size_of (snd t)) then files else dict_set (fst t) (snd t) files)"

definition last_segment :: "string \<Rightarrow> string" where
  "last_segment k = last (split_on (CHR ''/'') k)"

definition download_dir :: "('c \<Rightarrow> int) \<Rightarrow> store_kind \<Rightarrow> string \<Rightarrow> string \<Rightarrow> string list \<Rightarrow> string list \<Rightarrow> 'c lake \<Rightarrow> 'c lake result" where
  "download_dir size_of kind uri dir excl incl s = (case kind of
     S3LakeStore \<Rightarrow> rbind (s3_parse uri) (\<lambda>u.
       if sole_object s (u_bucket u) (u_key u) then
         Inr (case get_at (Object (u_bucket u) (u_key u)) s of None \<Rightarrow> s
              | Some c \<Rightarrow> put_at (File_At (path_join dir (last_segment (u_key u)))) c s)
       else Inr (s\<lparr>lk_files := fold (fetch size_of)
         (download_tasks size_of excl incl (slash_end (u_key u)) dir
            (list_objects s (u_bucket u) (slash_end (u_key u)))) (lk_files s)\<rparr>))
   | LocalLakeStore \<Rightarrow> rbind (parse_uri uri) (\<lambda>u. let src = path_str (u_local_path u) in
       case map_of (lk_files s) src of
         Some c \<Rightarrow> Inr (put_at (File_At (path_join dir (last_segment src))) c s)
       | None \<Rightarrow> Inr (fold (\<lambda>(rel, c). put_at (File_At (path_join dir rel)) c)
                       (filter (\<lambda>(rel, _). keep_rel excl incl rel) (dir_files s src)) s)))"

definition upload_file :: "store_kind \<Rightarrow> string \<Rightarrow> string \<Rightarrow> 'c lake \<Rightarrow> (string \<times> 'c lake) result" where
  "upload_file kind path target s = (case map_of (lk_files s) path of
     None \<Rightarrow> Inl (FileNotFoundError (''upload_file source not found: '' @ path))
   | Some c \<Rightarrow> store_write kind target c s)"

definition upload_dir :: "store_kind \<Rightarrow> string \<Rightarrow> string \<Rightarrow> 'c lake \<Rightarrow> ((string \<times> string) list \<times> 'c lake) result" where
  "upload_dir kind dir target s =
     (if \<not> is_dir s dir then Inl (FileNotFoundError (''upload_dir source not a directory: '' @ dir))
      else let files = dir_files s dir in (case kind of
        S3LakeStore \<Rightarrow> rbind (s3_parse target) (\<lambda>u.
          let key = (\<lambda>rel. slash_end (rstrip_chars is_slash (u_key u)) @ rel)
          in Inr (map (\<lambda>(rel, _). (rel, ''s3://'' @ u_bucket u @ ''/'' @ key rel)) files,
                  fold (\<lambda>(rel, c). put_at (Object (u_bucket u) (key rel)) c) files s))
      | LocalLakeStore \<Rightarrow> rbind (parse_uri target) (\<lambda>u.
          let root_dir = path_str (u_local_path u)
          in Inr (map (\<lambda>(rel, _). (rel, path_join root_dir rel)) files,
                  fold (\<lambda>(rel, c). put_at (File_At (path_join root_dir rel)) c) files s))))"

section \<open>The contract of a store\<close>

text \<open>What the users of a store rely on: an address is read as it was last written, a write touches
  one address, and what can be read exists.\<close>

locale lake_backend =
  fixes addr :: "string \<Rightarrow> 'k result"
    and wr :: "string \<Rightarrow> 'c \<Rightarrow> 's \<Rightarrow> (string \<times> 's) result"
    and rd :: "'s \<Rightarrow> string \<Rightarrow> 'c result"
    and ex :: "'s \<Rightarrow> string \<Rightarrow> bool result"
  assumes wr_addr: "wr u c s = Inr (v, s') \<Longrightarrow> \<exists>k. addr u = Inr k"
    and addr_wr: "addr u = Inr k \<Longrightarrow> \<exists>v s'. wr u c s = Inr (v, s')"
    and rd_same: "wr u c s = Inr (v, s') \<Longrightarrow> addr w = addr u \<Longrightarrow> rd s' w = Inr c"
    and rd_other: "wr u c s = Inr (v, s') \<Longrightarrow> addr w \<noteq> addr u \<Longrightarrow> rd s' w = rd s w"
    and rd_ex: "rd s u = Inr c \<Longrightarrow> ex s u = Inr True"
begin

lemma written_exists: "wr u c s = Inr (v, s') \<Longrightarrow> ex s' u = Inr True"
  by (rule rd_ex[OF rd_same]) auto

lemma last_write_wins:
  assumes "wr u c s = Inr (v, s1)" "wr u d s1 = Inr (v', s2)"
  shows "rd s2 u = Inr d"
  using rd_same[OF assms(2)] by simp

lemma writes_commute:
  assumes "wr u c s = Inr (v, s1)" "wr w d s1 = Inr (v', s2)" "addr u \<noteq> addr w"
  shows "rd s2 u = Inr c" "rd s2 w = Inr d"
  using rd_other[OF assms(2,3)] rd_same[OF assms(1)] rd_same[OF assms(2)] by simp_all

end

lemma get_put_at: "get_at a (put_at b c s) = (if a = b then Some c else get_at a s)"
  by (cases a; cases b) auto

interpretation lake: lake_backend "store_addr kind" "store_write kind" "store_read kind" "store_exists kind" for kind
proof unfold_locales
  fix u c v w k and s s' :: "'c lake"
  show "store_write kind u c s = Inr (v, s') \<Longrightarrow> \<exists>k. store_addr kind u = Inr k"
    by (auto simp: store_write_def rbind_Inr_iff)
  show "store_addr kind u = Inr k \<Longrightarrow> \<exists>v s'. store_write kind u c s = Inr (v, s')"
    by (simp add: store_write_def)
  show "store_write kind u c s = Inr (v, s') \<Longrightarrow> store_addr kind w = store_addr kind u \<Longrightarrow> store_read kind s' w = Inr c"
    by (auto simp: store_write_def store_read_def rbind_Inr_iff get_put_at)
  show "store_write kind u c s = Inr (v, s') \<Longrightarrow> store_addr kind w \<noteq> store_addr kind u \<Longrightarrow> store_read kind s' w = store_read kind s w"
    by (cases "store_addr kind w") (auto simp: store_write_def store_read_def rbind_Inr_iff get_put_at)
  show "store_read kind s u = Inr c \<Longrightarrow> store_exists kind s u = Inr True"
    by (auto simp: store_read_def store_exists_def rbind_Inr_iff split: option.splits lake_addr.splits)
qed

text \<open>The same for the JSON methods.\<close>

interpretation json: lake_backend "store_addr kind" "write_json kind" "read_json kind" "store_exists kind" for kind
proof unfold_locales
  fix u c v w k and s s' :: "content lake"
  show "write_json kind u c s = Inr (v, s') \<Longrightarrow> \<exists>k. store_addr kind u = Inr k"
    unfolding write_json_def by (rule lake.wr_addr)
  show "store_addr kind u = Inr k \<Longrightarrow> \<exists>v s'. write_json kind u c s = Inr (v, s')"
    unfolding write_json_def by (rule lake.addr_wr)
  show "write_json kind u c s = Inr (v, s') \<Longrightarrow> store_addr kind w = store_addr kind u \<Longrightarrow> read_json kind s' w = Inr c"
    unfolding write_json_def read_json_def by (simp add: lake.rd_same)
  show "write_json kind u c s = Inr (v, s') \<Longrightarrow> store_addr kind w \<noteq> store_addr kind u \<Longrightarrow> read_json kind s' w = read_json kind s w"
    unfolding write_json_def read_json_def by (simp add: lake.rd_other)
  show "read_json kind s u = Inr c \<Longrightarrow> store_exists kind s u = Inr True"
    unfolding read_json_def by (auto simp: rbind_Inr_iff intro: lake.rd_ex)
qed

section \<open>Paths\<close>

lemma path_parts_ok: "\<forall>p\<in>set (path_parts s). p \<noteq> [] \<and> p \<noteq> ''.'' \<and> CHR ''/'' \<notin> set p"
  by (auto simp: path_parts_def dest: split_on_sep_free)

lemma path_parts_append: "path_parts (a @ CHR ''/'' # b) = path_parts a @ path_parts b"
  by (simp add: path_parts_def split_on_append)

lemma path_parts_root [simp]: "path_parts (CHR ''/'' # b) = path_parts b" "path_parts [] = []" "path_parts ''.'' = []"
  by (simp_all add: path_parts_def)

lemma path_parts_join: "\<forall>p\<in>set ps. p \<noteq> [] \<and> p \<noteq> ''.'' \<and> CHR ''/'' \<notin> set p \<Longrightarrow> path_parts (join ''/'' ps) = ps"
  by (cases "ps = []") (auto simp: path_parts_def split_on_join filter_id_conv)

lemma path_parts_path_str: "path_parts (path_str s) = path_parts s"
proof -
  have j: "path_parts (join ''/'' (path_parts s)) = path_parts s" by (rule path_parts_join[OF path_parts_ok])
  show ?thesis
  proof (cases "path_root s @ join ''/'' (path_parts s) = []")
    case True
    then show ?thesis using j by (simp add: path_str_def)
  next
    case False
    then show ?thesis using j by (auto simp: path_str_def path_root_def)
  qed
qed

lemma path_str_relative: "\<not> starts_with s ''/'' \<Longrightarrow> path_str s = (if path_parts s = [] then ''.'' else join ''/'' (path_parts s))"
proof -
  assume s: "\<not> starts_with s ''/''"
  then have "path_root s = []" by (auto simp: path_root_def prefix_def)
  moreover have "join ''/'' ps = [] \<longleftrightarrow> ps = []" if "\<forall>p\<in>set ps. p \<noteq> []" for ps
    using that by (cases "(''/'', ps)" rule: join.cases) auto
  from this[of "path_parts s"] have "join ''/'' (path_parts s) = [] \<longleftrightarrow> path_parts s = []"
    using path_parts_ok[of s] by simp
  ultimately show ?thesis by (simp add: path_str_def)
qed

text \<open>A relative path in normal form.\<close>

definition clean_rel :: "string \<Rightarrow> bool" where
  "clean_rel r = (r \<noteq> [] \<and> r \<noteq> ''.'' \<and> \<not> starts_with r ''/'' \<and> path_str r = r)"

lemma clean_rel_parts: "clean_rel r \<Longrightarrow> r = join ''/'' (path_parts r) \<and> path_parts r \<noteq> []"
  unfolding clean_rel_def by (metis path_str_relative)

lemma clean_rel_no_slash: "clean_rel r \<Longrightarrow> \<not> ends_with r ''/''"
proof
  assume r: "clean_rel r" and "ends_with r ''/''"
  then obtain t where t: "r = t @ ''/''" by (auto simp: suffix_def)
  obtain p ps where ps: "path_parts r = ps @ [p]" using clean_rel_parts[OF r] by (metis rev_exhaust)
  then have p: "p \<noteq> []" "CHR ''/'' \<notin> set p" using path_parts_ok[of r] by auto
  have "r = join ''/'' (ps @ [p])" using clean_rel_parts[OF r] ps by simp
  then have "\<exists>u. r = u @ p" by (cases "ps = []") (auto simp: join_append)
  then have "last r = last p" using p(1) by auto
  moreover have "last r = CHR ''/''" by (simp add: t)
  ultimately show False using p last_in_set by metis
qed

lemma path_join_parts: "clean_rel r \<Longrightarrow> path_parts (path_join d r) = path_parts d @ path_parts r"
proof -
  assume r: "clean_rel r"
  have "path_parts (slash_end d @ r) = path_parts d @ path_parts r"
  proof (cases "d = [] \<or> ends_with d ''/''")
    case True
    then show ?thesis by (auto simp: slash_end_def suffix_def path_parts_append)
  next
    case False
    then show ?thesis by (simp add: slash_end_def path_parts_append)
  qed
  then show ?thesis using r by (simp add: path_join_def clean_rel_def path_parts_path_str)
qed

lemma path_join_inj: "clean_rel r \<Longrightarrow> clean_rel r' \<Longrightarrow> path_join d r = path_join d r' \<Longrightarrow> r = r'"
  by (metis clean_rel_parts path_join_parts same_append_eq)

section \<open>Transfers, reduced to lookups\<close>

lemma fetch_lookup:
  "map_of (fetch z (p, c) files) q = (if q = p \<and> \<not> matches_local z files p (z c) then Some c else map_of files q)"
  by (simp add: fetch_def)

lemma fold_fetch_lookup:
  "distinct (map fst ts) \<Longrightarrow> map_of (fold (fetch z) ts files) q = (case map_of ts q of
     None \<Rightarrow> map_of files q
   | Some c \<Rightarrow> if matches_local z files q (z c) then map_of files q else Some c)"
proof (induction ts arbitrary: files)
  case (Cons t ts)
  obtain p c where t: "t = (p, c)" by (cases t)
  have nodup: "map_of ts p = None" using Cons.prems by (simp add: t map_of_eq_None_iff)
  have same: "matches_local z (fetch z (p, c) files) q n = matches_local z files q n" if "q \<noteq> p" for n
    using that by (simp add: matches_local_def fetch_lookup)
  show ?case
    using Cons.IH[of "fetch z t files"] Cons.prems nodup same
    by (cases "q = p") (auto simp: t fetch_lookup split: option.splits)
qed simp

lemma fold_put_lookup:
  assumes "distinct (map (\<lambda>(rel, c). loc rel) fs)"
  shows "get_at a (fold (\<lambda>(rel, c). put_at (loc rel) c) fs s) =
    (case map_of (map (\<lambda>(rel, c). (loc rel, c)) fs) a of None \<Rightarrow> get_at a s | Some c \<Rightarrow> Some c)"
  using assms
proof (induction fs arbitrary: s)
  case (Cons f fs)
  obtain rel c where f: "f = (rel, c)" by (cases f)
  have "map_of (map (\<lambda>(rel, c). (loc rel, c)) fs) (loc rel) = None"
    using Cons.prems by (auto simp: f map_of_eq_None_iff image_iff)
  then show ?case using Cons by (auto simp: f get_put_at split: option.splits)
qed simp

lemma fold_put_objects_files:
  "lk_files (fold (\<lambda>(rel, c). put_at (Object b (key rel)) c) fs s) = lk_files s"
  by (induction fs arbitrary: s) auto

lemma fold_put_objects_ok:
  "dict_ok (lk_objects s) \<Longrightarrow> dict_ok (lk_objects (fold (\<lambda>(rel, c). put_at (Object b (key rel)) c) fs s))"
  by (induction fs arbitrary: s) (auto simp: dict_ok_set)

text \<open>The objects below a prefix are those whose key has it.\<close>

lemma set_list_objects:
  "dict_ok (lk_objects s) \<Longrightarrow> (k, c) \<in> set (list_objects s b pre) \<longleftrightarrow> starts_with k pre \<and> get_at (Object b k) s = Some c"
  by (force simp: list_objects_def map_of_eq_Some_iff)

lemma list_objects_keys: "dict_ok (lk_objects s) \<Longrightarrow> distinct (map fst (list_objects s b pre))"
proof -
  assume ok: "dict_ok (lk_objects s)"
  let ?sel = "filter (\<lambda>((b', k), c). b' = b \<and> starts_with k pre) (lk_objects s)"
  have "distinct (map fst ?sel)" using ok by (rule distinct_map_filter)
  moreover have "map fst ?sel = map (\<lambda>k. (b, k)) (map fst (map (\<lambda>((b', k), c). (k, c)) ?sel))"
    by (auto simp: comp_def intro!: map_cong split: prod.splits)
  ultimately have "distinct (map fst (map (\<lambda>((b', k), c). (k, c)) ?sel))" by (metis distinct_map)
  moreover have "mset (map fst (list_objects s b pre)) = mset (map fst (map (\<lambda>((b', k), c). (k, c)) ?sel))"
    by (simp only: list_objects_def mset_map mset_sort)
  ultimately show ?thesis by (metis mset_eq_imp_distinct_iff)
qed

text \<open>The tasks of a download, as a set.\<close>

lemma set_download_tasks:
  "(p, c) \<in> set (download_tasks z excl incl pre dir objs) \<longleftrightarrow>
     (\<exists>k. (k, c) \<in> set objs \<and> rel_key pre k \<noteq> [] \<and> \<not> ends_with (rel_key pre k) ''/'' \<and>
        keep_rel excl incl (rel_key pre k) \<and> p = path_join dir (rel_key pre k))"
  by (force simp: download_tasks_def List.map_filter_def Let_def split: if_splits)

text \<open>The key prefix that an upload writes below is the one that a download reads.\<close>

lemma upload_prefix: "s3_parse uri = Inr u \<Longrightarrow> rstrip_chars is_slash (u_key u) = u_key u"
proof -
  assume "s3_parse uri = Inr u"
  then have "parse_uri uri = Inr u" "u_scheme u = S3"
    by (auto simp: s3_parse_def rbind_Inr_iff is_s3_def split: if_splits)
  then have "canonical_key (u_key u)" by (rule parse_uri_s3_inv)
  then show ?thesis
    by (cases "u_key u" rule: rev_cases) (auto simp: rstrip_chars_def canonical_key_def)
qed

lemma rel_key_append: "rel_key pre (pre @ rel) = rel"
  by (simp add: rel_key_def)

lemma keep_all [simp]: "keep_rel [] [] rel"
  by (simp add: keep_rel_def)

text \<open>An upload, reduced to lookups.\<close>

lemma upload_dir_s3:
  assumes "upload_dir S3LakeStore dir target s = Inr (out, s1)" "s3_parse target = Inr u"
    "distinct (map fst (dir_files s dir))"
  shows "lk_files s1 = lk_files s" "dict_ok (lk_objects s) \<Longrightarrow> dict_ok (lk_objects s1)"
    "get_at (Object b k) s1 = (if b = u_bucket u \<and> starts_with k (slash_end (u_key u)) then
       (case map_of (dir_files s dir) (drop (length (slash_end (u_key u))) k) of
          None \<Rightarrow> get_at (Object b k) s | Some c \<Rightarrow> Some c) else get_at (Object b k) s)"
proof -
  let ?pre = "slash_end (u_key u)" and ?fs = "dir_files s dir"
  have s1: "s1 = fold (\<lambda>(rel, c). put_at (Object (u_bucket u) (?pre @ rel)) c) ?fs s"
    using assms(1,2) upload_prefix[OF assms(2)] by (auto simp: upload_dir_def Let_def split: if_splits)
  show "lk_files s1 = lk_files s" unfolding s1 by (rule fold_put_objects_files)
  show "dict_ok (lk_objects s) \<Longrightarrow> dict_ok (lk_objects s1)" unfolding s1 by (rule fold_put_objects_ok)
  have "map (\<lambda>(rel, c). Object (u_bucket u) (?pre @ rel)) ?fs = map (\<lambda>rel. Object (u_bucket u) (?pre @ rel)) (map fst ?fs)"
    by auto
  then have "distinct (map (\<lambda>(rel, c). Object (u_bucket u) (?pre @ rel)) ?fs)"
    using assms(3) by (simp only: distinct_map[of _ "map fst ?fs"]) (simp add: inj_on_def)
  then have look: "get_at (Object b k) s1 =
      (case map_of (map (\<lambda>(rel, c). (Object (u_bucket u) (?pre @ rel), c)) ?fs) (Object b k) of
         None \<Rightarrow> get_at (Object b k) s | Some c \<Rightarrow> Some c)"
    unfolding s1 by (rule fold_put_lookup)
  have "map_of (map (\<lambda>(rel, c). (Object (u_bucket u) (?pre @ rel), c)) fs) (Object b k) =
      (if b = u_bucket u \<and> starts_with k ?pre then map_of fs (drop (length ?pre) k) else None)" for fs :: "(string \<times> 'a) list"
    by (induction fs) (auto simp: prefix_def)
  then show "get_at (Object b k) s1 = (if b = u_bucket u \<and> starts_with k ?pre then
       (case map_of ?fs (drop (length ?pre) k) of None \<Rightarrow> get_at (Object b k) s | Some c \<Rightarrow> Some c) else get_at (Object b k) s)"
    using look by simp
qed

lemma distinct_targets:
  assumes "distinct (map fst objs)" "\<forall>(k, c)\<in>set objs. starts_with k pre \<and> clean_rel (drop (length pre) k)"
  shows "distinct (map fst (download_tasks z [] [] pre dir objs))"
proof -
  have rel: "rel_key pre k = drop (length pre) k" if "starts_with k pre" for k
    using that by (simp add: rel_key_def)
  have one: "(let rel = rel_key pre k in if rel = [] \<or> ends_with rel ''/'' \<or> \<not> keep_rel [] [] rel then None
      else Some (path_join dir rel, c)) = Some (path_join dir (drop (length pre) k), c)" if "(k, c) \<in> set objs" for k c
    using that assms(2) rel[of k] clean_rel_no_slash[of "drop (length pre) k"] by (auto simp: clean_rel_def)
  have inj: "inj_on (\<lambda>(k, c). path_join dir (drop (length pre) k)) (set objs)"
  proof (rule inj_onI)
    fix x y :: "string \<times> 'a"
    assume x: "x \<in> set objs" and y: "y \<in> set objs"
      and eq: "(case x of (k, c) \<Rightarrow> path_join dir (drop (length pre) k)) = (case y of (k, c) \<Rightarrow> path_join dir (drop (length pre) k))"
    obtain k c k' c' where xy: "x = (k, c)" "y = (k', c')" by (cases x; cases y)
    have c: "starts_with k pre" "starts_with k' pre" "clean_rel (drop (length pre) k)" "clean_rel (drop (length pre) k')"
      using assms(2) x y unfolding xy by auto
    then obtain t t' where "k = pre @ t" "k' = pre @ t'" by (auto simp: prefix_def)
    moreover have "drop (length pre) k = drop (length pre) k'"
      using path_join_inj[OF c(3,4)] eq unfolding xy by simp
    ultimately have "k = k'" by simp
    then show "x = y" using assms(1) x y xy by (metis eq_key_imp_eq_value)
  qed
  let ?g = "\<lambda>(k, c). (path_join dir (drop (length pre) k), c)"
  have filt: "List.map_filter (\<lambda>(k, c). let rel = rel_key pre k in
       if rel = [] \<or> ends_with rel ''/'' \<or> \<not> keep_rel [] [] rel then None else Some (path_join dir rel, c)) objs =
     map ?g objs" (is "List.map_filter ?f _ = _")
  proof -
    have "\<forall>x\<in>set objs. ?f x = Some (?g x)" using one by auto
    then show ?thesis by (induction objs) (auto simp: List.map_filter_simps)
  qed
  have "distinct (map fst (map ?g objs))"
    using inj assms(1) by (simp add: distinct_map comp_def case_prod_unfold)
  moreover have "mset (map fst (sort_key (\<lambda>(_, c). - z c) (map ?g objs))) = mset (map fst (map ?g objs))"
    by (simp only: mset_map mset_sort)
  ultimately have "distinct (map fst (sort_key (\<lambda>(_, c). - z c) (map ?g objs)))"
    using mset_eq_imp_distinct_iff by blast
  then show ?thesis by (simp only: download_tasks_def filt)
qed

section \<open>Properties\<close>

text \<open>A download of a prefix: the objects stay, and every local path holds afterwards the object that
  is meant for it, unless a file of that size was already there, which is then left alone (its age is not
  looked at); paths that no wanted object is meant for are left alone. The wanted objects are those
  below the prefix that pass the filters.\<close>

theorem download_dir_correct:
  assumes "download_dir z S3LakeStore uri dir excl incl s = Inr s'" "s3_parse uri = Inr u"
    "\<not> sole_object s (u_bucket u) (u_key u)" "dict_ok (lk_objects s)"
    "ts = download_tasks z excl incl (slash_end (u_key u)) dir (list_objects s (u_bucket u) (slash_end (u_key u)))"
    "distinct (map fst ts)"
  shows "lk_objects s' = lk_objects s \<and>
    (\<forall>p. get_at (File_At p) s' = (case map_of ts p of None \<Rightarrow> get_at (File_At p) s
       | Some c \<Rightarrow> (case get_at (File_At p) s of
           Some old \<Rightarrow> if 0 < z c \<and> z old = z c then Some old else Some c
         | None \<Rightarrow> Some c))) \<and>
    set ts = {(path_join dir (rel_key (slash_end (u_key u)) k), c) | k c.
       get_at (Object (u_bucket u) k) s = Some c \<and> starts_with k (slash_end (u_key u)) \<and>
       rel_key (slash_end (u_key u)) k \<noteq> [] \<and> \<not> ends_with (rel_key (slash_end (u_key u)) k) ''/'' \<and>
       keep_rel excl incl (rel_key (slash_end (u_key u)) k)}"
proof -
  have s': "s' = s\<lparr>lk_files := fold (fetch z) ts (lk_files s)\<rparr>"
    using assms(1-3) by (simp add: download_dir_def assms(5))
  have "get_at (File_At p) s' = (case map_of ts p of None \<Rightarrow> get_at (File_At p) s
       | Some c \<Rightarrow> (case get_at (File_At p) s of
           Some old \<Rightarrow> if 0 < z c \<and> z old = z c then Some old else Some c | None \<Rightarrow> Some c))" for p
    by (auto simp: s' fold_fetch_lookup[OF assms(6)] matches_local_def split: option.splits)
  moreover have "set ts = {(path_join dir (rel_key (slash_end (u_key u)) k), c) | k c.
       get_at (Object (u_bucket u) k) s = Some c \<and> starts_with k (slash_end (u_key u)) \<and>
       rel_key (slash_end (u_key u)) k \<noteq> [] \<and> \<not> ends_with (rel_key (slash_end (u_key u)) k) ''/'' \<and>
       keep_rel excl incl (rel_key (slash_end (u_key u)) k)}" (is "_ = ?T")
  proof (rule set_eqI)
    fix x :: "string \<times> 'a"
    obtain p c where "x = (p, c)" by (cases x)
    then show "x \<in> set ts \<longleftrightarrow> x \<in> ?T"
      unfolding assms(5) by (auto simp: set_download_tasks set_list_objects[OF assms(4)])
  qed
  ultimately show ?thesis by (simp add: s')
qed


section \<open>Witnesses\<close>

definition demo_stores :: "string lake" where
  "demo_stores = \<lparr>lk_objects = [((''b'', ''other/x''), ''x'')], lk_files = [(''/src/a'', ''1''), (''/src/d/b'', ''22'')]\<rparr>"

lemma demo_upload:
  "dir_files demo_stores ''/src'' = [(''a'', ''1''), (''d/b'', ''22'')]" "clean_rel ''a''" "clean_rel ''d/b''"
  "s3_parse ''s3://b/p'' = Inr (s3_lake_uri ''b'' ''p'')" "is_dir demo_stores ''/src''"
  "list_objects demo_stores ''b'' ''p/'' = []" "slash_end ''p'' = ''p/''"
  by code_simp+


theorem download_dir_correct_witness:
  "\<exists>s'. download_dir (int \<circ> length) S3LakeStore ''s3://b/other'' ''/dst'' [] [] demo_stores = Inr s' \<and>
     get_at (File_At ''/dst/x'') s' = Some ''x''"
proof -
  let ?u = "s3_lake_uri ''b'' ''other''"
  have p: "s3_parse ''s3://b/other'' = Inr ?u" by code_simp
  have sole: "\<not> sole_object demo_stores ''b'' ''other''" by code_simp
  have ts: "download_tasks (int \<circ> length) [] [] (slash_end ''other'') ''/dst'' (list_objects demo_stores ''b'' (slash_end ''other'')) = [(''/dst/x'', ''x'')]"
    by code_simp
  obtain s' where d: "download_dir (int \<circ> length) S3LakeStore ''s3://b/other'' ''/dst'' [] [] demo_stores = Inr s'"
    using p sole by (simp add: download_dir_def)
  have "get_at (File_At ''/dst/x'') s' = Some ''x''"
    using download_dir_correct[OF d p, of "[(''/dst/x'', ''x'')]"] sole ts by (simp add: demo_stores_def)
  with d show ?thesis by blast
qed

end
