(* ===== verification/Checkpoints.thy ===== *)
theory Checkpoints
  imports Lake_Store
begin

text \<open>
  The two records an ETL output keeps of itself in the lake: the checkpoint of a run in progress,
  \<^verbatim>\<open>src/robot_dh/progress/checkpoint.py\<close>, and the manifest of a finished one,
  \<^verbatim>\<open>src/robot_dh/lake/manifest.py\<close>. Both are JSON documents written and read through the contract of
  the lake store. The clock, SHA-256 and the footer of a parquet file are parameters.
\<close>

section \<open>Checkpoints\<close>

record checkpoint_file =
  cf_name :: pyval
  cf_status :: pyval
  cf_uri :: pyval
  cf_row_count :: pyval
  cf_size_bytes :: pyval
  cf_checksum :: pyval

record checkpoint =
  ck_dataset_id :: string
  ck_version :: string
  ck_phase :: string
  ck_source_uri :: string
  ck_output_uri :: string
  ck_status :: string
  ck_completed_steps :: "pyval list"
  ck_files :: "(string \<times> checkpoint_file) list"
  ck_metrics :: pydict
  ck_schema_version :: string
  ck_updated_at :: string

definition file_to_dict :: "checkpoint_file \<Rightarrow> pydict" where
  "file_to_dict f = [(''name'', cf_name f), (''status'', cf_status f), (''uri'', cf_uri f),
     (''row_count'', cf_row_count f), (''size_bytes'', cf_size_bytes f), (''checksum_sha256'', cf_checksum f)]"

definition checkpoint_to_dict :: "checkpoint \<Rightarrow> pydict" where
  "checkpoint_to_dict c = [(''dataset_id'', VStr (ck_dataset_id c)), (''version'', VStr (ck_version c)),
     (''phase'', VStr (ck_phase c)), (''source_uri'', VStr (ck_source_uri c)), (''output_uri'', VStr (ck_output_uri c)),
     (''status'', VStr (ck_status c)), (''completed_steps'', VList (ck_completed_steps c)),
     (''files'', VDict (map (\<lambda>(k, f). (k, VDict (file_to_dict f))) (ck_files c))),
     (''metrics'', VDict (ck_metrics c)), (''schema_version'', VStr (ck_schema_version c)),
     (''updated_at'', VStr (ck_updated_at c))]"

definition file_from_dict :: "string \<Rightarrow> pydict \<Rightarrow> checkpoint_file" where
  "file_from_dict k v = \<lparr>cf_name = get_or v ''name'' (VStr k), cf_status = get_or v ''status'' (VStr ''PENDING''),
     cf_uri = get v ''uri'', cf_row_count = get v ''row_count'', cf_size_bytes = get v ''size_bytes'',
     cf_checksum = get v ''checksum_sha256''\<rparr>"

text \<open>\<open>list(v)\<close> on the values a JSON document can hold.\<close>

fun py_list :: "pyval \<Rightarrow> pyval list result" where
  "py_list (VList xs) = Inr xs"
| "py_list (VStr s) = Inr (map (\<lambda>c. VStr [c]) s)"
| "py_list (VDict d) = Inr (map (VStr \<circ> fst) d)"
| "py_list _ = Inl (TypeError ''object is not iterable'')"

definition checkpoint_from_dict :: "string \<Rightarrow> pydict \<Rightarrow> checkpoint result" where
  "checkpoint_from_dict now p =
     rbind (as_mapping (py_or (get p ''files'') (VDict []))) (\<lambda>files_raw.
     rbind (rmap (\<lambda>(k, v). rbind (as_mapping v) (\<lambda>d. Inr (k, file_from_dict k d))) files_raw) (\<lambda>files.
     rbind (py_list (py_or (get p ''completed_steps'') (VList []))) (\<lambda>steps.
     rbind (as_mapping (py_or (get p ''metrics'') (VDict []))) (\<lambda>metrics.
       Inr \<lparr>ck_dataset_id = py_str (get_or p ''dataset_id'' (VStr [])), ck_version = py_str (get_or p ''version'' (VStr [])),
            ck_phase = py_str (get_or p ''phase'' (VStr [])), ck_source_uri = py_str (get_or p ''source_uri'' (VStr [])),
            ck_output_uri = py_str (get_or p ''output_uri'' (VStr [])),
            ck_status = py_str (get_or p ''status'' (VStr ''RUNNING'')), ck_completed_steps = steps, ck_files = files,
            ck_metrics = metrics, ck_schema_version = py_str (get_or p ''schema_version'' (VStr ''1.6'')),
            ck_updated_at = py_str (get_or p ''updated_at'' (VStr now))\<rparr>))))"

definition has_step :: "string \<Rightarrow> checkpoint \<Rightarrow> bool" where
  "has_step step c = list_ex (py_eq (VStr step)) (ck_completed_steps c)"

definition mark_step :: "string \<Rightarrow> string \<Rightarrow> checkpoint \<Rightarrow> checkpoint" where
  "mark_step now step c =
     (if has_step step c then c else c\<lparr>ck_completed_steps := ck_completed_steps c @ [VStr step]\<rparr>)\<lparr>ck_updated_at := now\<rparr>"

text \<open>The key of a file is its name, which is text.\<close>

definition upsert_file :: "string \<Rightarrow> checkpoint_file \<Rightarrow> checkpoint \<Rightarrow> checkpoint" where
  "upsert_file now f c = c\<lparr>ck_files := dict_set (py_str (cf_name f)) f (ck_files c), ck_updated_at := now\<rparr>"

definition file_status :: "string \<Rightarrow> checkpoint \<Rightarrow> pyval" where
  "file_status name c = (case map_of (ck_files c) name of None \<Rightarrow> VStr ''PENDING'' | Some f \<Rightarrow> cf_status f)"

section \<open>The checkpoint store\<close>

definition checkpoint_uri :: "string \<Rightarrow> string result" where
  "checkpoint_uri output_uri = join_uri output_uri [Some ''_checkpoint.json'']"

definition checkpoint_exists :: "store_kind \<Rightarrow> string \<Rightarrow> content lake \<Rightarrow> bool result" where
  "checkpoint_exists kind output_uri s = rbind (checkpoint_uri output_uri) (store_exists kind s)"

text \<open>Whatever goes wrong while reading, the checkpoint counts as missing.\<close>

definition load_from :: "store_kind \<Rightarrow> string \<Rightarrow> string \<Rightarrow> content lake \<Rightarrow> checkpoint option result" where
  "load_from kind now output_uri s =
     rbind (checkpoint_exists kind output_uri s) (\<lambda>ex.
       if \<not> ex then Inr None
       else (case rbind (checkpoint_uri output_uri) (\<lambda>u. rbind (read_json kind s u) (\<lambda>v.
                    rbind (as_mapping v) (checkpoint_from_dict now))) of
               Inl _ \<Rightarrow> Inr None | Inr c \<Rightarrow> Inr (Some c)))"

definition save_to :: "store_kind \<Rightarrow> string \<Rightarrow> string \<Rightarrow> checkpoint \<Rightarrow> content lake \<Rightarrow> (string \<times> content lake) result" where
  "save_to kind now output_uri c s =
     rbind (checkpoint_uri output_uri) (\<lambda>u. write_json kind u (VDict (checkpoint_to_dict (c\<lparr>ck_updated_at := now\<rparr>))) s)"

definition load_checkpoint :: "lake_env \<Rightarrow> string \<Rightarrow> string \<Rightarrow> content lake \<Rightarrow> checkpoint option result" where
  "load_checkpoint env now output_uri s = rbind (create_lake_store env output_uri) (\<lambda>kind. load_from kind now output_uri s)"

definition save_checkpoint :: "lake_env \<Rightarrow> string \<Rightarrow> string \<Rightarrow> checkpoint \<Rightarrow> content lake \<Rightarrow> (string \<times> content lake) result" where
  "save_checkpoint env now output_uri c s = rbind (create_lake_store env output_uri) (\<lambda>kind. save_to kind now output_uri c s)"

section \<open>Manifests\<close>

text \<open>The part of a name from its last dot on; none when the dot is the first or the last character.\<close>

definition path_suffix :: "string \<Rightarrow> string" where
  "path_suffix name = (let ext = takeWhile (\<lambda>c. c \<noteq> CHR ''.'') (rev name);
       stem = take (length name - length ext - 1) name
     in if CHR ''.'' \<notin> set name \<or> ext = [] \<or> stem = [] then [] else CHR ''.'' # rev ext)"

record 'c file_probe =
  fp_size :: "'c \<Rightarrow> int"
  fp_sha256 :: "'c \<Rightarrow> string"
  fp_parquet_rows :: "'c \<Rightarrow> int option"

definition file_stat :: "'c file_probe \<Rightarrow> string \<Rightarrow> string \<times> 'c \<Rightarrow> pydict result" where
  "file_stat fp base_uri nc = (case nc of (name, c) \<Rightarrow>
     rbind (join_uri base_uri [Some name]) (\<lambda>uri.
       Inr [(''path'', VStr name), (''uri'', VStr uri),
            (''format'', VStr (let e = dropWhile (\<lambda>x. x = CHR ''.'') (path_suffix name) in if e = [] then ''raw'' else e)),
            (''size_bytes'', VInt (fp_size fp c)),
            (''row_count'', if lower (path_suffix name) = ''.parquet'' then of_opt_int (fp_parquet_rows fp c) else VNone),
            (''checksum_sha256'', VStr (fp_sha256 fp c))]))"

text \<open>The files directly in the directory, but the manifest; or those of a list of names that exist.\<close>

definition manifest_sources :: "'c lake \<Rightarrow> string \<Rightarrow> string list option \<Rightarrow> (string \<times> 'c) list" where
  "manifest_sources s dir names = (case names of
     None \<Rightarrow> filter (\<lambda>(rel, _). CHR ''/'' \<notin> set rel \<and> rel \<noteq> ''_manifest.json'') (dir_files s dir)
   | Some ns \<Rightarrow> List.map_filter (\<lambda>n. map_option (\<lambda>c. (last_segment n, c)) (map_of (lk_files s) (path_join dir n))) ns)"

definition collect_file_stats :: "'c file_probe \<Rightarrow> 'c lake \<Rightarrow> string \<Rightarrow> string \<Rightarrow> string list option \<Rightarrow> pydict list result" where
  "collect_file_stats fp s dir base_uri names =
     (if \<not> is_dir s dir then Inl (FileNotFoundError (''manifest source directory not found: '' @ dir))
      else rmap (file_stat fp base_uri) (manifest_sources s dir names))"

record manifest_builder =
  mb_dataset_id :: string
  mb_version :: string
  mb_layer :: string
  mb_output_uri :: string
  mb_source_uris :: "string list"
  mb_files :: "pydict list"
  mb_metrics :: pydict
  mb_job :: "(string \<times> string \<times> string \<times> string \<times> rat) option"
  mb_code :: "(string \<times> string option) option"
  mb_schema_version :: string
  mb_created_at :: string

definition manifest_to_dict :: "manifest_builder \<Rightarrow> pydict" where
  "manifest_to_dict b =
     [(''dataset_id'', VStr (mb_dataset_id b)), (''version'', VStr (mb_version b)), (''layer'', VStr (mb_layer b)),
      (''created_at'', VStr (mb_created_at b)), (''schema_version'', VStr (mb_schema_version b)),
      (''source_uris'', VList (map VStr (mb_source_uris b))), (''output_uri'', VStr (mb_output_uri b)),
      (''files'', VList (map VDict (mb_files b))), (''metrics'', VDict (mb_metrics b))] @
     (case mb_job b of None \<Rightarrow> [] | Some (jid, jtype, started, finished, dur) \<Rightarrow>
        [(''job'', VDict [(''job_id'', VStr jid), (''job_type'', VStr jtype), (''started_at'', VStr started),
                          (''finished_at'', VStr finished), (''duration_sec'', VFloat dur)])]) @
     (case mb_code b of None \<Rightarrow> [] | Some (pkg, commit) \<Rightarrow>
        [(''code'', VDict ((''package_version'', VStr pkg) #
            (case commit of None \<Rightarrow> [] | Some g \<Rightarrow> [(''git_commit'', VStr g)])))])"

definition write_manifest :: "store_kind \<Rightarrow> manifest_builder \<Rightarrow> content lake \<Rightarrow> (string \<times> content lake) result" where
  "write_manifest kind b s = rbind (join_uri (mb_output_uri b) [Some ''_manifest.json'']) (\<lambda>u.
     rbind (write_json kind u (VDict (manifest_to_dict b)) s) (\<lambda>(_, s'). Inr (u, s')))"

definition read_manifest :: "store_kind \<Rightarrow> content lake \<Rightarrow> string \<Rightarrow> pyval result" where
  "read_manifest kind s layer_uri =
     rbind (if ends_with layer_uri ''_manifest.json'' then Inr layer_uri else join_uri layer_uri [Some ''_manifest.json''])
       (read_json kind s)"

section \<open>Lemmas\<close>

lemma file_roundtrip: "file_from_dict k (file_to_dict f) = f"
  by (simp add: file_from_dict_def file_to_dict_def)

lemma checkpoint_roundtrip: "checkpoint_from_dict now (checkpoint_to_dict c) = Inr c"
proof -
  have files: "rmap (\<lambda>(k, v). rbind (as_mapping v) (\<lambda>d. Inr (k, file_from_dict k d)))
      (map (\<lambda>(k, f). (k, VDict (file_to_dict f))) fs) = Inr fs" for fs
    by (induction fs) (auto simp: file_roundtrip)
  have m: "as_mapping (py_or (VDict d) (VDict [])) = Inr d" for d by (simp add: py_or_def)
  have l: "py_list (py_or (VList xs) (VList [])) = Inr xs" for xs by (simp add: py_or_def)
  show ?thesis by (simp add: checkpoint_from_dict_def checkpoint_to_dict_def m l files)
qed

lemma has_step_mark: "has_step t (mark_step now step c) \<longleftrightarrow> t = step \<or> has_step t c"
  by (auto simp: mark_step_def has_step_def)

text \<open>The text entries of the step list, and that none is there twice.\<close>

definition steps_of :: "checkpoint \<Rightarrow> string list" where
  "steps_of c = List.map_filter (\<lambda>v. case v of VStr s \<Rightarrow> Some s | _ \<Rightarrow> None) (ck_completed_steps c)"

lemma has_step_iff: "has_step t c \<longleftrightarrow> t \<in> set (steps_of c)"
proof -
  have eq: "py_eq (VStr t) = (\<lambda>v. v = VStr t)"
  proof
    fix v show "py_eq (VStr t) v = (v = VStr t)" by (cases v) auto
  qed
  have "t \<in> set (List.map_filter (\<lambda>v. case v of VStr s \<Rightarrow> Some s | _ \<Rightarrow> None) xs) \<longleftrightarrow> list_ex (\<lambda>v. v = VStr t) xs" for xs
  proof (induction xs)
    case (Cons x xs)
    then show ?case by (cases x) (auto simp: List.map_filter_simps)
  qed (simp add: List.map_filter_simps)
  then show ?thesis by (simp add: has_step_def steps_of_def eq)
qed

lemma steps_of_mark: "steps_of (mark_step now step c) = (if step \<in> set (steps_of c) then steps_of c else steps_of c @ [step])"
  by (simp add: mark_step_def has_step_iff) (simp add: steps_of_def List.map_filter_def)

section \<open>Properties\<close>


text \<open>Marking a step: afterwards exactly that step is added to the steps done, it stays done however
  often it or others are marked, and the list of steps never names a step twice.\<close>

theorem mark_step_once:
  assumes "distinct (steps_of c)"
  shows "has_step t (mark_step now step c) = (t = step \<or> has_step t c) \<and>
    steps_of (mark_step now step (mark_step now' step c)) = steps_of (mark_step now step c) \<and>
    distinct (steps_of (fold (mark_step now) steps c)) \<and>
    set (steps_of (fold (mark_step now) steps c)) = set steps \<union> set (steps_of c)"
proof -
  have d: "distinct (steps_of c) \<Longrightarrow> distinct (steps_of (fold (mark_step now) steps c))" for c
    by (induction steps arbitrary: c) (simp_all add: steps_of_mark)
  have e: "set (steps_of (fold (mark_step now) steps c)) = set steps \<union> set (steps_of c)" for c
    by (induction steps arbitrary: c) (auto simp: steps_of_mark)
  show ?thesis using d[OF assms] e[of c] by (simp add: has_step_mark steps_of_mark)
qed

text \<open>A manifest that was written is what reading the layer gives, and reading the manifest by the
  address that was returned.\<close>

theorem manifest_roundtrip:
  assumes "write_manifest kind b s = Inr (u, s')"
  shows "(ends_with (mb_output_uri b) ''_manifest.json'' \<or>
      read_manifest kind s' (mb_output_uri b) = Inr (VDict (manifest_to_dict b))) \<and>
    read_json kind s' u = Inr (VDict (manifest_to_dict b))"
proof -
  from assms obtain v where u: "join_uri (mb_output_uri b) [Some ''_manifest.json''] = Inr u"
      "write_json kind u (VDict (manifest_to_dict b)) s = Inr (v, s')"
    by (auto simp: write_manifest_def rbind_Inr_iff)
  have "read_json kind s' u = Inr (VDict (manifest_to_dict b))" by (rule json.rd_same[OF u(2) refl])
  then show ?thesis by (simp add: read_manifest_def u(1))
qed

section \<open>Witnesses\<close>

definition demo_checkpoint :: checkpoint where
  "demo_checkpoint = mark_step ''t1'' ''normalize'' \<lparr>ck_dataset_id = ''d'', ck_version = ''v1'', ck_phase = ''normalize'',
     ck_source_uri = ''/raw'', ck_output_uri = ''/ods'', ck_status = ''RUNNING'', ck_completed_steps = [],
     ck_files = [(''a'', \<lparr>cf_name = VStr ''a'', cf_status = VStr ''DONE'', cf_uri = VNone, cf_row_count = VInt 3,
                        cf_size_bytes = VNone, cf_checksum = VNone\<rparr>)],
     ck_metrics = [], ck_schema_version = ''1.6'', ck_updated_at = ''t0''\<rparr>"

abbreviation "no_lake \<equiv> \<lparr>lk_objects = [], lk_files = []\<rparr>"


theorem mark_step_once_witness:
  "distinct (steps_of (fold (mark_step ''t'') [''a'', ''b'', ''a''] demo_checkpoint))"
proof -
  have "distinct (steps_of demo_checkpoint)"
    by (simp add: demo_checkpoint_def steps_of_mark) (simp add: steps_of_def List.map_filter_simps)
  from mark_step_once[OF this] show ?thesis by blast
qed

definition demo_manifest :: manifest_builder where
  "demo_manifest = \<lparr>mb_dataset_id = ''d'', mb_version = ''v1'', mb_layer = ''ods'', mb_output_uri = ''s3://lake/ods/d/v1'',
     mb_source_uris = [], mb_files = [], mb_metrics = [], mb_job = None, mb_code = Some (''1.9'', None),
     mb_schema_version = ''1.4'', mb_created_at = ''t''\<rparr>"

theorem manifest_roundtrip_witness:
  "\<exists>u s'. write_manifest S3LakeStore demo_manifest no_lake = Inr (u, s') \<and>
     read_json S3LakeStore s' u = Inr (VDict (manifest_to_dict demo_manifest))"
proof -
  have "join_uri (mb_output_uri demo_manifest) [Some ''_manifest.json''] = Inr ''s3://lake/ods/d/v1/_manifest.json''"
    "store_addr S3LakeStore ''s3://lake/ods/d/v1/_manifest.json'' = Inr (Object ''lake'' ''ods/d/v1/_manifest.json'')"
    by code_simp+
  then obtain u s' where w: "write_manifest S3LakeStore demo_manifest no_lake = Inr (u, s')"
    by (simp add: write_manifest_def write_json_def store_write_def)
  with conjunct2[OF manifest_roundtrip[OF w]] show ?thesis by blast
qed

end
