(* ===== verification/Heartbeats.thy ===== *)
theory Heartbeats
  imports Py_Values Packing
begin

text \<open>
  \<^verbatim>\<open>src/robot_dh/progress/\<close>: the heartbeat reporter with its log file, its fallback and its
  database table (\<^verbatim>\<open>heartbeat.py\<close>), the progress logger (\<^verbatim>\<open>progress_logger.py\<close>), and
  the detection of stale heartbeats (\<^verbatim>\<open>stale.py\<close>). Clock readings and the success of a write
  are inputs; times are seconds. What the reporter and the logger share is that they are rate limited:
  the contract of that is a locale that both fulfil.
\<close>

section \<open>The reporter\<close>

record heartbeat =
  hb_task_id :: string
  hb_workflow_name :: "string option"
  hb_step_name :: "string option"
  hb_dataset_id :: "string option"
  hb_version :: "string option"
  hb_phase :: "string option"
  hb_progress_current :: "int option"
  hb_progress_total :: "int option"
  hb_progress_unit :: "string option"
  hb_message :: "string option"
  hb_metrics :: pydict
  hb_updated_at :: string

record reporter =
  rp_template :: heartbeat
  rp_interval :: rat
  rp_last_emit :: rat
  rp_write_errors :: nat
  rp_jsonl :: "heartbeat list"
  rp_stderr :: "heartbeat list"
  rp_has_db :: bool
  rp_db :: "heartbeat list"

text \<open>What the caller passes to \<open>emit\<close>, and what happens while it runs: the clock when the call
  starts, when the payload is stamped and when it ends, and which of the writes succeed.\<close>

record beat =
  be_current :: "int option"
  be_total :: "int option"
  be_message :: "string option"
  be_metrics :: pydict
  be_phase :: "string option"
  be_start :: rat
  be_stamp :: string
  be_finish :: rat
  be_jsonl_ok :: bool
  be_db_ok :: bool

definition new_reporter :: "heartbeat \<Rightarrow> rat \<Rightarrow> bool \<Rightarrow> reporter" where
  "new_reporter template interval_sec has_db =
     \<lparr>rp_template = template, rp_interval = max 0 interval_sec, rp_last_emit = 0, rp_write_errors = 0,
      rp_jsonl = [], rp_stderr = [], rp_has_db = has_db, rp_db = []\<rparr>"

definition heartbeat_of :: "reporter \<Rightarrow> beat \<Rightarrow> heartbeat" where
  "heartbeat_of r b = (rp_template r)\<lparr>
     hb_phase := (if opt_truthy (be_phase b) then be_phase b else hb_phase (rp_template r)),
     hb_progress_current := be_current b, hb_progress_total := be_total b, hb_message := be_message b,
     hb_metrics := be_metrics b, hb_updated_at := be_stamp b\<rparr>"

definition write_jsonl :: "bool \<Rightarrow> heartbeat \<Rightarrow> reporter \<Rightarrow> reporter" where
  "write_jsonl ok h r =
     (if ok then r\<lparr>rp_jsonl := rp_jsonl r @ [h], rp_write_errors := 0\<rparr>
      else r\<lparr>rp_write_errors := rp_write_errors r + 1, rp_stderr := rp_stderr r @ [h]\<rparr>)"

definition write_db :: "bool \<Rightarrow> heartbeat \<Rightarrow> reporter \<Rightarrow> reporter" where
  "write_db ok h r = (if rp_has_db r \<and> ok then r\<lparr>rp_db := rp_db r @ [h]\<rparr> else r)"

definition emit_beat :: "beat \<Rightarrow> reporter \<Rightarrow> reporter" where
  "emit_beat b r = (let h = heartbeat_of r b
     in (write_db (be_db_ok b) h (write_jsonl (be_jsonl_ok b) h r))\<lparr>rp_last_emit := be_finish b\<rparr>)"

definition maybe_emit :: "bool \<Rightarrow> beat \<Rightarrow> reporter \<Rightarrow> bool \<times> reporter" where
  "maybe_emit force b r =
     (if \<not> force \<and> 0 < rp_interval r \<and> be_start b - rp_last_emit r < rp_interval r then (False, r)
      else (True, emit_beat (b\<lparr>be_phase := None\<rparr>) r))"

definition update_phase :: "string \<Rightarrow> reporter \<Rightarrow> reporter" where
  "update_phase phase r = r\<lparr>rp_template := (rp_template r)\<lparr>hb_phase := Some phase, hb_progress_current := None,
     hb_progress_total := None, hb_message := None, hb_metrics := []\<rparr>\<rparr>"

text \<open>\<open>with HeartbeatReporter(...)\<close>: the beats at the start and at the end of a phase.\<close>

definition enter_phase :: "beat \<Rightarrow> reporter \<Rightarrow> reporter" where
  "enter_phase b = emit_beat (b\<lparr>be_current := None, be_total := None, be_message := Some ''phase_start'', be_metrics := [], be_phase := None\<rparr>)"

definition exit_phase :: "string option \<Rightarrow> beat \<Rightarrow> reporter \<Rightarrow> reporter" where
  "exit_phase exc b = emit_beat (b\<lparr>be_current := None, be_total := None,
     be_message := Some (case exc of None \<Rightarrow> ''phase_finish'' | Some e \<Rightarrow> ''phase_failed: '' @ e), be_metrics := [], be_phase := None\<rparr>)"

section \<open>The progress logger\<close>

record progress_logger =
  pl_total :: "int option"
  pl_interval :: rat
  pl_started :: rat
  pl_last_tick :: rat
  pl_lines :: "(int \<times> rat \<times> rat option) list"

definition new_logger :: "int option \<Rightarrow> rat \<Rightarrow> rat \<Rightarrow> progress_logger" where
  "new_logger n interval_sec now =
     \<lparr>pl_total = n, pl_interval = max 0 interval_sec, pl_started = now, pl_last_tick = now, pl_lines = []\<rparr>"

text \<open>The line of a tick: position, rate per second and the remaining time, where there is one.\<close>

definition tick_line :: "int \<Rightarrow> rat \<Rightarrow> progress_logger \<Rightarrow> int \<times> rat \<times> rat option" where
  "tick_line current now p =
     (let elapsed = now - pl_started p;
          rate = (if elapsed > 0 then of_int current / elapsed else 0);
          eta = (case pl_total p of None \<Rightarrow> None
            | Some n \<Rightarrow> if n > 0 \<and> rate > 0 then Some (of_int (max 0 (n - current)) / rate) else None)
      in (current, rate, eta))"

definition logger_tick :: "int \<times> rat \<Rightarrow> progress_logger \<Rightarrow> bool \<times> progress_logger" where
  "logger_tick cn p = (case cn of (current, now) \<Rightarrow>
     if 0 < pl_interval p \<and> now - pl_last_tick p < pl_interval p then (False, p)
     else (True, p\<lparr>pl_lines := pl_lines p @ [tick_line current now p], pl_last_tick := now\<rparr>))"

section \<open>Rate limits\<close>

locale rate_limited =
  fixes step :: "'i \<Rightarrow> 's \<Rightarrow> bool \<times> 's"
    and last_at :: "'s \<Rightarrow> rat"
    and gap :: "'s \<Rightarrow> rat"
    and started :: "'i \<Rightarrow> rat"
    and ended :: "'i \<Rightarrow> rat"
  assumes fires: "step i s = (True, s') \<Longrightarrow> 0 < gap s \<Longrightarrow> gap s \<le> started i - last_at s"
    and fired: "step i s = (True, s') \<Longrightarrow> last_at s' = ended i"
    and idle: "step i s = (False, s') \<Longrightarrow> s' = s \<and> started i - last_at s < gap s"
    and gap_kept: "step i s = (b, s') \<Longrightarrow> gap s' = gap s"
begin

text \<open>The calls of a sequence that were let through.\<close>

fun passed :: "'i list \<Rightarrow> 's \<Rightarrow> 'i list" where
  "passed [] s = []"
| "passed (i # is) s = (case step i s of (b, s') \<Rightarrow> (if b then [i] else []) @ passed is s')"

lemma passed_spaced:
  assumes "0 < gap s"
  shows "(\<forall>j. passed is s \<noteq> [] \<and> hd (passed is s) = j \<longrightarrow> gap s \<le> started j - last_at s) \<and>
    (\<forall>k. Suc k < length (passed is s) \<longrightarrow> gap s \<le> started (passed is s ! Suc k) - ended (passed is s ! k))"
  using assms
proof (induction "is" arbitrary: s)
  case (Cons i "is")
  obtain b s' where st: "step i s = (b, s')" by (cases "step i s")
  have g: "gap s' = gap s" by (rule gap_kept[OF st])
  note IH = Cons.IH[of s', unfolded g, OF Cons.prems]
  show ?case
  proof (cases b)
    case True
    then have "last_at s' = ended i" "gap s \<le> started i - last_at s"
      using fired fires Cons.prems st by auto
    then show ?thesis using IH True by (auto simp: st nth_Cons hd_conv_nth split: nat.splits)
  next
    case False
    then show ?thesis using IH idle st by auto
  qed
qed simp

text \<open>A call is let through, or the last one that was let through is less than the gap ago.\<close>

lemma never_silent:
  assumes "i \<in> set is" "\<And>j. j \<in> set is \<Longrightarrow> started j \<le> ended j"
  shows "i \<in> set (passed is s) \<or> started i - last_at s < gap s \<or> (\<exists>j\<in>set (passed is s). started i - ended j < gap s)"
  using assms
proof (induction "is" arbitrary: s)
  case (Cons i' "is")
  obtain b s' where st: "step i' s = (b, s')" by (cases "step i' s")
  have g: "gap s' = gap s" by (rule gap_kept[OF st])
  show ?case
  proof (cases "i = i'")
    case True
    then show ?thesis using st idle by (cases b) auto
  next
    case False
    then have "i \<in> set is" using Cons.prems(1) by simp
    from Cons.IH[OF this, of s'] Cons.prems(2) have IH: "i \<in> set (passed is s') \<or> started i - last_at s' < gap s \<or>
        (\<exists>j\<in>set (passed is s'). started i - ended j < gap s)" by (simp add: g)
    show ?thesis
    proof (cases b)
      case True
      then have "last_at s' = ended i'" using fired st by auto
      then show ?thesis using IH True by (auto simp: st)
    next
      case False
      then have "s' = s" using idle st by auto
      then show ?thesis using IH False by (auto simp: st)
    qed
  qed
qed simp

end

lemma emit_beat_sel [simp]:
  "rp_last_emit (emit_beat b r) = be_finish b" "rp_interval (emit_beat b r) = rp_interval r"
  "rp_template (emit_beat b r) = rp_template r" "rp_has_db (emit_beat b r) = rp_has_db r"
  by (simp_all add: emit_beat_def write_db_def write_jsonl_def Let_def)

interpretation reporter: rate_limited "maybe_emit False" rp_last_emit rp_interval be_start be_finish
  by unfold_locales (auto simp: maybe_emit_def split: if_splits)

interpretation logger: rate_limited logger_tick pl_last_tick pl_interval snd snd
  by unfold_locales (auto simp: logger_tick_def split: if_splits prod.splits)

section \<open>A reporter that is polled\<close>

text \<open>The calls of \<open>maybe_emit\<close> that emit, and the reporter after all of them.\<close>

fun offer :: "beat list \<Rightarrow> reporter \<Rightarrow> beat list \<times> reporter" where
  "offer [] r = ([], r)"
| "offer (b # bs) r = (case maybe_emit False b r of (emitted, r1) \<Rightarrow>
     (case offer bs r1 of (es, r2) \<Rightarrow> ((if emitted then [b] else []) @ es, r2)))"

lemma fst_offer: "fst (offer bs r) = reporter.passed bs r"
proof (induction bs arbitrary: r)
  case (Cons b bs)
  obtain e r1 where m: "maybe_emit False b r = (e, r1)" by (cases "maybe_emit False b r")
  show ?case using Cons.IH[of r1] by (simp add: m case_prod_beta)
qed simp

lemma maybe_emit_written:
  assumes "maybe_emit force b r = (e, r')"
  shows "rp_template r' = rp_template r"
    and "rp_jsonl r' = rp_jsonl r @ (if e \<and> be_jsonl_ok b then [heartbeat_of r (b\<lparr>be_phase := None\<rparr>)] else [])"
    and "rp_stderr r' = rp_stderr r @ (if e \<and> \<not> be_jsonl_ok b then [heartbeat_of r (b\<lparr>be_phase := None\<rparr>)] else [])"
  using assms by (auto simp: maybe_emit_def emit_beat_def write_db_def write_jsonl_def Let_def split: if_splits)

lemma heartbeat_of_template: "rp_template r' = rp_template r \<Longrightarrow> heartbeat_of r' b = heartbeat_of r b"
  by (simp add: heartbeat_of_def)

lemma offer_written:
  assumes "offer bs r = (es, r')"
  shows "rp_jsonl r' = rp_jsonl r @ map (\<lambda>b. heartbeat_of r (b\<lparr>be_phase := None\<rparr>)) (filter be_jsonl_ok es)"
    and "rp_stderr r' = rp_stderr r @ map (\<lambda>b. heartbeat_of r (b\<lparr>be_phase := None\<rparr>)) (filter (\<lambda>b. \<not> be_jsonl_ok b) es)"
proof -
  have "rp_jsonl r' = rp_jsonl r @ map (\<lambda>b. heartbeat_of r (b\<lparr>be_phase := None\<rparr>)) (filter be_jsonl_ok es) \<and>
    rp_stderr r' = rp_stderr r @ map (\<lambda>b. heartbeat_of r (b\<lparr>be_phase := None\<rparr>)) (filter (\<lambda>b. \<not> be_jsonl_ok b) es)"
    using assms
  proof (induction bs arbitrary: r es)
    case (Cons b bs)
    obtain e r1 where m: "maybe_emit False b r = (e, r1)" by (cases "maybe_emit False b r")
    obtain es2 where o': "offer bs r1 = (es2, r')" and es: "es = (if e then [b] else []) @ es2"
      using Cons.prems by (auto simp: m split: prod.splits)
    have h: "heartbeat_of r1 = heartbeat_of r"
      by (rule ext) (rule heartbeat_of_template[OF maybe_emit_written(1)[OF m]])
    show ?case using Cons.IH[OF o'] maybe_emit_written(2,3)[OF m] by (simp add: es h)
  qed simp
  then show "rp_jsonl r' = rp_jsonl r @ map (\<lambda>b. heartbeat_of r (b\<lparr>be_phase := None\<rparr>)) (filter be_jsonl_ok es)"
    and "rp_stderr r' = rp_stderr r @ map (\<lambda>b. heartbeat_of r (b\<lparr>be_phase := None\<rparr>)) (filter (\<lambda>b. \<not> be_jsonl_ok b) es)"
    by blast+
qed

text \<open>The reporter is throttled and never falls silent: of the calls that poll it, two that emit are
  at least the interval apart, a call that does not emit comes less than the interval after the last
  beat, and every beat that is emitted is appended to the log file or, when that write fails, to
  standard error, in order.\<close>

theorem heartbeats_throttled:
  assumes "0 < rp_interval r" and "\<And>b. b \<in> set bs \<Longrightarrow> be_start b \<le> be_finish b"
  shows "case offer bs r of (emitted, r') \<Rightarrow>
    (\<forall>k. Suc k < length emitted \<longrightarrow> rp_interval r \<le> be_start (emitted ! Suc k) - be_finish (emitted ! k)) \<and>
    (\<forall>b\<in>set bs. b \<in> set emitted \<or> be_start b - rp_last_emit r < rp_interval r \<or>
       (\<exists>c\<in>set emitted. be_start b - be_finish c < rp_interval r)) \<and>
    rp_jsonl r' = rp_jsonl r @ map (\<lambda>b. heartbeat_of r (b\<lparr>be_phase := None\<rparr>)) (filter be_jsonl_ok emitted) \<and>
    rp_stderr r' = rp_stderr r @ map (\<lambda>b. heartbeat_of r (b\<lparr>be_phase := None\<rparr>)) (filter (\<lambda>b. \<not> be_jsonl_ok b) emitted)"
proof -
  obtain es r' where o': "offer bs r = (es, r')" by (cases "offer bs r")
  have es: "es = reporter.passed bs r" using fst_offer[of bs r] by (simp add: o')
  show ?thesis
    using reporter.passed_spaced[OF assms(1), of bs] reporter.never_silent[of _ bs r] assms(2) offer_written[OF o']
    by (auto simp: o' es)
qed

definition demo_template :: heartbeat where
  "demo_template = \<lparr>hb_task_id = ''t1'', hb_workflow_name = Some ''wf'', hb_step_name = None, hb_dataset_id = None,
     hb_version = None, hb_phase = Some ''scan'', hb_progress_current = None, hb_progress_total = None,
     hb_progress_unit = None, hb_message = None, hb_metrics = [], hb_updated_at = []\<rparr>"

definition demo_beat :: "int \<Rightarrow> rat \<Rightarrow> bool \<Rightarrow> beat" where
  "demo_beat n start ok = \<lparr>be_current = Some n, be_total = Some 9, be_message = None, be_metrics = [],
     be_phase = None, be_start = start, be_stamp = ''now'', be_finish = start + 1, be_jsonl_ok = ok, be_db_ok = True\<rparr>"

theorem heartbeats_throttled_witness:
  "case offer [demo_beat 1 40 True, demo_beat 2 50 True, demo_beat 3 80 False] (new_reporter demo_template 30 False) of
     (emitted, r') \<Rightarrow> map be_current emitted = [Some 1, Some 3] \<and>
       map hb_progress_current (rp_jsonl r') = [Some 1] \<and> map hb_progress_current (rp_stderr r') = [Some 3] \<and>
       (\<exists>c\<in>set emitted. be_start (demo_beat 2 50 True) - be_finish c < 30)"
proof -
  let ?bs = "[demo_beat 1 40 True, demo_beat 2 50 True, demo_beat 3 80 False]"
  let ?r = "new_reporter demo_template 30 False"
  have pre: "0 < rp_interval ?r" "\<And>b. b \<in> set ?bs \<Longrightarrow> be_start b \<le> be_finish b"
    by (auto simp: new_reporter_def demo_beat_def)
  from heartbeats_throttled[OF pre]
  show ?thesis
    by (simp add: new_reporter_def demo_beat_def maybe_emit_def emit_beat_def write_jsonl_def write_db_def
        heartbeat_of_def Let_def opt_truthy_def)
qed

section \<open>Stale heartbeats\<close>

text \<open>
  A parsed time: whether it carries a zone, the value comparison goes by (the instant of an aware time,
  the wall clock of a naive one), \<open>timestamp()\<close>, and its text in the report. The ISO parser
  \<open>datetime.fromisoformat\<close> and \<open>json.loads\<close> are parameters.
\<close>

record stamp =
  st_aware :: bool
  st_order :: rat
  st_timestamp :: rat
  st_text :: string

definition later :: "stamp \<Rightarrow> stamp \<Rightarrow> bool result" where
  "later a b = (if st_aware a = st_aware b then Inr (st_order b < st_order a)
     else Inl (TypeError ''can't compare offset-naive and offset-aware datetimes''))"

definition parse_iso :: "(string \<Rightarrow> stamp option) \<Rightarrow> pyval \<Rightarrow> stamp option result" where
  "parse_iso fromiso v =
     (if \<not> truthy v then Inr None
      else case v of
        VStr t \<Rightarrow> Inr (fromiso (if ends_with t ''Z'' then butlast t @ ''+00:00'' else t))
      | _ \<Rightarrow> Inl (TypeError ''no endswith''))"

text \<open>\<open>_iter_local_records\<close>: the files in the order of their names, a line per record. A file that
  cannot be read ends there; blank lines and lines that are not JSON are skipped.\<close>

definition iter_local_records :: "(string \<Rightarrow> pyval option) \<Rightarrow> (string \<times> string list) list option \<Rightarrow> pyval list" where
  "iter_local_records loads events_dir = (case events_dir of None \<Rightarrow> []
     | Some files \<Rightarrow>
         List.map_filter loads (filter (\<lambda>l. l \<noteq> []) (map strip_ws
           (concat (map snd (sort_key fst (filter (\<lambda>f. glob ''heartbeats_*.jsonl'' (fst f)) files)))))))"

type_synonym beat_key = "string \<times> string \<times> string"

definition beat_key_of :: "pydict \<Rightarrow> beat_key" where
  "beat_key_of rec = (let part = (\<lambda>k. py_str (py_or (get rec k) (VStr ''-'')))
     in (part ''workflow_name'', part ''phase'', part ''step_name''))"

text \<open>One turn of the loop over the records; \<open>only\<close> is the filter of the local reader.\<close>

definition consider_record ::
  "(string \<Rightarrow> stamp option) \<Rightarrow> string option \<Rightarrow> pyval \<Rightarrow> (beat_key \<times> stamp) list \<Rightarrow> (beat_key \<times> stamp) list result" where
  "consider_record fromiso only v latest =
     rbind (as_mapping v) (\<lambda>rec.
       if opt_truthy only \<and> \<not> py_eq (get rec ''workflow_name'') (of_opt_str only) then Inr latest
       else rbind (parse_iso fromiso (get rec ''updated_at'')) (\<lambda>ts.
         case ts of None \<Rightarrow> Inr latest
         | Some t \<Rightarrow>
             (case map_of latest (beat_key_of rec) of
                None \<Rightarrow> Inr (dict_set (beat_key_of rec) t latest)
              | Some old \<Rightarrow> rbind (later t old) (\<lambda>newer.
                  Inr (if newer then dict_set (beat_key_of rec) t latest else latest)))))"

record stale_row =
  sw_workflow_name :: "string option"
  sw_phase :: "string option"
  sw_step_name :: "string option"
  sw_last_updated_at :: string
  sw_seconds_since_last :: rat
  sw_status :: string
  sw_source :: string

record stale_report =
  sp_generated_at :: string
  sp_workflow_name :: "string option"
  sp_stale_after_sec :: rat
  sp_warn_after_sec :: rat
  sp_rows :: "stale_row list"
  sp_status :: string

definition undash :: "string \<Rightarrow> string option" where
  "undash s = (if s = ''-'' then None else Some s)"

definition beat_age :: "rat \<Rightarrow> stamp \<Rightarrow> rat" where
  "beat_age now t = max 0 (now - st_timestamp t)"

definition age_status :: "rat \<Rightarrow> rat \<Rightarrow> rat \<Rightarrow> string" where
  "age_status stale_after warn_after delta =
     (if stale_after \<le> delta then ''stale'' else if warn_after \<le> delta then ''warn'' else ''ok'')"

definition stale_row_of :: "rat \<Rightarrow> rat \<Rightarrow> rat \<Rightarrow> string \<Rightarrow> beat_key \<times> stamp \<Rightarrow> stale_row" where
  "stale_row_of stale_after warn_after now source kt = (case kt of ((w, p, s), t) \<Rightarrow>
     \<lparr>sw_workflow_name = undash w, sw_phase = undash p, sw_step_name = undash s,
      sw_last_updated_at = st_text t, sw_seconds_since_last = beat_age now t,
      sw_status = age_status stale_after warn_after (beat_age now t), sw_source = source\<rparr>)"

text \<open>The warehouse: absent or without the method, a query that raises, or its records.\<close>

datatype pg_source = PG_absent | PG_raises | PG_records "pyval list"

fun pg_records_of :: "pg_source \<Rightarrow> pyval list \<times> string" where
  "pg_records_of (PG_records rs) = (rs, ''pg'')"
| "pg_records_of _ = ([], ''jsonl'')"

definition stale_records ::
  "(string \<Rightarrow> pyval option) \<Rightarrow> pg_source \<Rightarrow> (string \<times> string list) list option \<Rightarrow> string option \<Rightarrow> pyval list \<times> string option \<times> string" where
  "stale_records loads pg events_dir workflow_name = (case pg_records_of pg of (rs, source) \<Rightarrow>
     if rs \<noteq> [] then (rs, None, source)
     else (iter_local_records loads events_dir, workflow_name, source))"

definition check_stale_heartbeats ::
  "(string \<Rightarrow> stamp option) \<Rightarrow> (string \<Rightarrow> pyval option) \<Rightarrow> pg_source \<Rightarrow> (string \<times> string list) list option
    \<Rightarrow> string option \<Rightarrow> rat \<Rightarrow> rat \<Rightarrow> rat \<Rightarrow> string \<Rightarrow> stale_report result" where
  "check_stale_heartbeats fromiso loads pg events_dir workflow_name stale_after warn_after now now_iso =
     (case stale_records loads pg events_dir workflow_name of (records, only, source) \<Rightarrow>
        rbind (rfold (consider_record fromiso only) records []) (\<lambda>latest.
          let rows = map (stale_row_of stale_after warn_after now source) (sort_key fst latest);
              any_stale = list_ex (\<lambda>r. sw_status r = ''stale'') rows;
              any_warn = list_ex (\<lambda>r. sw_status r = ''warn'') rows
          in Inr \<lparr>sp_generated_at = now_iso, sp_workflow_name = workflow_name,
               sp_stale_after_sec = stale_after, sp_warn_after_sec = warn_after, sp_rows = rows,
               sp_status = (if any_stale then ''stale'' else if any_warn then ''warn'' else ''ok'')\<rparr>))"

text \<open>What the table of latest times promises: one entry per key, the newest of the records with a
  readable time that pass the filter.\<close>

definition stamped :: "(string \<Rightarrow> stamp option) \<Rightarrow> string option \<Rightarrow> pyval \<Rightarrow> (beat_key \<times> stamp) option" where
  "stamped fromiso only v = (case v of
     VDict rec \<Rightarrow>
       if opt_truthy only \<and> \<not> py_eq (get rec ''workflow_name'') (of_opt_str only) then None
       else (case parse_iso fromiso (get rec ''updated_at'') of
               Inr (Some t) \<Rightarrow> Some (beat_key_of rec, t) | _ \<Rightarrow> None)
   | _ \<Rightarrow> None)"

definition newest_in :: "('k \<times> stamp) list \<Rightarrow> 'k \<Rightarrow> stamp \<Rightarrow> bool" where
  "newest_in sts k t = ((k, t) \<in> set sts \<and> list_all (\<lambda>(k', t'). k' = k \<longrightarrow>
     st_aware t' = st_aware t \<and> st_order t' \<le> st_order t) sts)"

definition tracks :: "('k \<times> stamp) list \<Rightarrow> ('k \<times> stamp) list \<Rightarrow> bool" where
  "tracks sts latest = (dict_ok latest \<and> set (dict_keys latest) = fst ` set sts \<and>
     (\<forall>k t. map_of latest k = Some t \<longrightarrow> newest_in sts k t))"

lemma newest_in_snoc:
  "newest_in (sts @ [(k, t)]) j u \<longleftrightarrow>
     (if j = k then (newest_in sts j u \<and> st_aware t = st_aware u \<and> st_order t \<le> st_order u) \<or>
        (u = t \<and> (\<forall>t'. (k, t') \<in> set sts \<longrightarrow> st_aware t' = st_aware t \<and> st_order t' \<le> st_order t))
      else newest_in sts j u)"
  by (auto simp: newest_in_def list_all_iff)

lemma tracks_newest: "tracks sts latest \<Longrightarrow> map_of latest k = Some t \<Longrightarrow> newest_in sts k t"
  by (simp add: tracks_def)

lemma tracks_keep:
  assumes "tracks sts latest" "map_of latest k = Some old" "st_aware t = st_aware old" "st_order t \<le> st_order old"
  shows "tracks (sts @ [(k, t)]) latest"
proof -
  have "k \<in> fst ` set sts"
    using tracks_newest[OF assms(1,2)] by (force simp: newest_in_def)
  moreover have "newest_in (sts @ [(k, t)]) j u" if "map_of latest j = Some u" for j u
    using tracks_newest[OF assms(1) that] that assms(2-4) by (cases "j = k") (simp_all add: newest_in_snoc)
  ultimately show ?thesis using assms(1) by (auto simp: tracks_def simp del: set_map)
qed

lemma tracks_set:
  assumes "tracks sts latest"
    "\<And>t'. (k, t') \<in> set sts \<Longrightarrow> st_aware t' = st_aware t \<and> st_order t' \<le> st_order t"
  shows "tracks (sts @ [(k, t)]) (dict_set k t latest)"
  using assms by (auto simp: tracks_def newest_in_snoc dict_ok_set set_dict_keys simp del: set_map)

lemma consider_record_tracks:
  assumes "consider_record fromiso only v latest = Inr latest'" "tracks sts latest"
  shows "tracks (sts @ (case stamped fromiso only v of None \<Rightarrow> [] | Some kt \<Rightarrow> [kt])) latest'"
proof -
  obtain rec where v: "v = VDict rec" using assms(1) by (cases v) (auto simp: consider_record_def)
  note st = assms(1)[unfolded consider_record_def v, simplified]
  show ?thesis
  proof (cases "opt_truthy only \<and> \<not> py_eq (get rec ''workflow_name'') (of_opt_str only)")
    case True
    then show ?thesis using st assms(2) by (simp add: v stamped_def)
  next
    case False
    with st obtain ts where ts: "parse_iso fromiso (get rec ''updated_at'') = Inr ts"
      by (auto simp: rbind_Inr_iff)
    show ?thesis
    proof (cases ts)
      case None
      then show ?thesis using st ts False assms(2) by (simp add: v stamped_def)
    next
      case (Some t)
      have kt: "stamped fromiso only v = Some (beat_key_of rec, t)" using False ts Some by (simp add: v stamped_def)
      let ?k = "beat_key_of rec"
      show ?thesis
      proof (cases "map_of latest ?k")
        case None
        then have l': "latest' = dict_set ?k t latest" using st ts Some False by simp
        have "?k \<notin> fst ` set sts" using None assms(2) by (auto simp: tracks_def map_of_eq_None_iff)
        then have "\<And>t'. (?k, t') \<in> set sts \<Longrightarrow> st_aware t' = st_aware t \<and> st_order t' \<le> st_order t" by force
        from tracks_set[OF assms(2) this] show ?thesis by (simp add: kt l')
      next
        case (Some old)
        then have "rbind (later t old) (\<lambda>newer. Inr (if newer then dict_set ?k t latest else latest)) = Inr latest'"
          using st ts \<open>ts = Some t\<close> False by simp
        then have aware: "st_aware t = st_aware old"
          and l': "latest' = (if st_order old < st_order t then dict_set ?k t latest else latest)"
          by (auto simp: later_def split: if_splits)
        have old: "newest_in sts ?k old" by (rule tracks_newest[OF assms(2) Some])
        show ?thesis
        proof (cases "st_order old < st_order t")
          case True
          have "st_aware t' = st_aware t \<and> st_order t' \<le> st_order t" if "(?k, t') \<in> set sts" for t'
            using old that True aware by (force simp: newest_in_def list_all_iff)
          from tracks_set[OF assms(2) this] True show ?thesis by (simp add: kt l')
        next
          case False
          then show ?thesis using tracks_keep[OF assms(2) Some aware] by (simp add: kt l')
        qed
      qed
    qed
  qed
qed

lemma rfold_tracks:
  assumes "rfold (consider_record fromiso only) vs latest = Inr latest'" "tracks sts latest"
  shows "tracks (sts @ List.map_filter (stamped fromiso only) vs) latest'"
  using assms
proof (induction vs arbitrary: sts latest)
  case Nil
  then show ?case by (simp add: List.map_filter_simps)
next
  case (Cons v vs)
  then obtain l1 where l1: "consider_record fromiso only v latest = Inr l1"
    "rfold (consider_record fromiso only) vs l1 = Inr latest'" by (auto simp: rbind_Inr_iff)
  from Cons.IH[OF l1(2) consider_record_tracks[OF l1(1) Cons.prems(2)]] show ?case
    by (cases "stamped fromiso only v") (simp_all add: List.map_filter_simps)
qed

lemma parse_iso_Inr_stamped: "parse_iso fromiso (VStr t) = Inr (if t = [] then None else
    fromiso (if ends_with t ''Z'' then butlast t @ ''+00:00'' else t))"
  by (simp add: parse_iso_def)

lemma status_list_ex:
  "(\<exists>r\<in>set (map (stale_row_of sa wa now src) l). sw_status r = s) \<longleftrightarrow>
     (\<exists>kt\<in>set l. age_status sa wa (beat_age now (snd kt)) = s)"
proof -
  have "sw_status (stale_row_of sa wa now src kt) = age_status sa wa (beat_age now (snd kt))" for kt
    by (simp add: stale_row_of_def case_prod_beta)
  then show ?thesis by auto
qed

text \<open>The report on stale heartbeats has one row for each workflow, phase and step that some record
  with a readable time names, in the order of those names, made from the newest of their times; its age is
  never negative, and the overall status is the worst of the rows.\<close>

theorem check_stale_correct:
  assumes "check_stale_heartbeats fromiso loads pg events_dir name stale_after warn_after now now_iso = Inr rep"
    and "stale_records loads pg events_dir name = (records, only, source)"
    and "sts = List.map_filter (stamped fromiso only) records"
  shows "\<exists>latest. sp_rows rep = map (stale_row_of stale_after warn_after now source) latest \<and>
      sorted_wrt (<) (map fst latest) \<and> set (map fst latest) = fst ` set sts \<and>
      list_all (\<lambda>(k, t). newest_in sts k t) latest \<and>
      list_all (\<lambda>r. 0 \<le> sw_seconds_since_last r) (sp_rows rep) \<and>
      sp_status rep = (if list_ex (\<lambda>(k, t). stale_after \<le> beat_age now t) latest then ''stale''
        else if list_ex (\<lambda>(k, t). warn_after \<le> beat_age now t) latest then ''warn'' else ''ok'')"
proof -
  from assms(1,2) obtain l where l: "rfold (consider_record fromiso only) records [] = Inr l"
    and rep: "sp_rows rep = map (stale_row_of stale_after warn_after now source) (sort_key fst l)"
      "sp_status rep = (if list_ex (\<lambda>r. sw_status r = ''stale'') (sp_rows rep) then ''stale''
         else if list_ex (\<lambda>r. sw_status r = ''warn'') (sp_rows rep) then ''warn'' else ''ok'')"
    by (auto simp: check_stale_heartbeats_def rbind_Inr_iff Let_def)
  have "tracks [] ([] :: (beat_key \<times> stamp) list)" by (simp add: tracks_def)
  from rfold_tracks[OF l this] have tr: "tracks sts l" by (simp add: assms(3))
  let ?l = "sort_key fst l"
  have "distinct (map fst ?l)" using tr by (simp add: tracks_def distinct_map)
  then have sorted: "sorted_wrt (<) (map fst ?l)" by (simp add: strict_sorted_iff)
  have keys: "set (map fst ?l) = fst ` set sts" using tr by (simp add: tracks_def)
  have newest: "list_all (\<lambda>(k, t). newest_in sts k t) ?l"
    unfolding list_all_iff set_sort case_prod_beta
    by (metis map_of_eq_Some_iff prod.collapse tr tracks_def)
  have ages: "list_all (\<lambda>r. 0 \<le> sw_seconds_since_last r) (sp_rows rep)"
    by (simp add: rep(1) list_all_iff stale_row_of_def beat_age_def split: prod.splits)
  have st: "list_ex (\<lambda>r. sw_status r = s) (sp_rows rep) \<longleftrightarrow>
      (\<exists>kt\<in>set ?l. age_status stale_after warn_after (beat_age now (snd kt)) = s)" for s
    unfolding rep(1) list_ex_iff by (rule status_list_ex)
  have "sp_status rep = (if list_ex (\<lambda>(k, t). stale_after \<le> beat_age now t) ?l then ''stale''
        else if list_ex (\<lambda>(k, t). warn_after \<le> beat_age now t) ?l then ''warn'' else ''ok'')"
    unfolding rep(2) st unfolding list_ex_iff case_prod_beta age_status_def by auto
  with sorted keys newest ages rep(1) show ?thesis by blast
qed

definition demo_iso :: "string \<Rightarrow> stamp option" where
  "demo_iso s = map_option (\<lambda>i. \<lparr>st_aware = True, st_order = of_int i, st_timestamp = of_int i, st_text = s\<rparr>) (parse_int s)"

definition demo_record :: "string \<Rightarrow> string \<Rightarrow> pyval" where
  "demo_record phase at' = VDict [(''workflow_name'', VStr ''wf''), (''phase'', VStr phase), (''updated_at'', VStr at')]"

theorem check_stale_correct_witness:
  "\<exists>rep :: stale_report. check_stale_heartbeats demo_iso (\<lambda>_. None)
      (PG_records [demo_record ''b'' ''5'', demo_record ''a'' ''40'', demo_record ''b'' ''7'', demo_record ''b'' ''x''])
      None None 30 10 50 ''t'' = Inr rep \<and>
    map (\<lambda>r. (sw_phase r, sw_seconds_since_last r, sw_status r)) (sp_rows rep)
      = [(Some ''a'', 10, ''warn''), (Some ''b'', 43, ''stale'')] \<and> sp_status rep = ''stale''"
proof -
  let ?rs = "[demo_record ''b'' ''5'', demo_record ''a'' ''40'', demo_record ''b'' ''7'', demo_record ''b'' ''x'']"
  let ?c = "check_stale_heartbeats demo_iso (\<lambda>_. None) (PG_records ?rs) None None 30 10 50 ''t''"
  have ok: "case ?c of Inl _ \<Rightarrow> False | Inr rep \<Rightarrow> map (\<lambda>r. (sw_phase r, sw_seconds_since_last r, sw_status r)) (sp_rows rep)
      = [(Some ''a'', 10, ''warn''), (Some ''b'', 43, ''stale'')]" by code_simp
  then obtain rep :: stale_report where rep: "?c = Inr rep"
    "map (\<lambda>r. (sw_phase r, sw_seconds_since_last r, sw_status r)) (sp_rows rep)
      = [(Some ''a'', 10, ''warn''), (Some ''b'', 43, ''stale'')]" by (cases ?c) auto
  have r: "stale_records (\<lambda>_. None) (PG_records ?rs) None None = (?rs, None, ''pg'')"
    by (simp add: stale_records_def)
  from check_stale_correct[OF rep(1) r refl]
  obtain latest where l: "sp_rows rep = map (stale_row_of 30 10 50 ''pg'') latest"
    "sp_status rep = (if list_ex (\<lambda>(k, t). 30 \<le> beat_age 50 t) latest then ''stale''
        else if list_ex (\<lambda>(k, t). 10 \<le> beat_age 50 t) latest then ''warn'' else ''ok'')" by blast
  have "map (\<lambda>r. sw_seconds_since_last r) (sp_rows rep) = [10, 43]"
    using arg_cong[OF rep(2), of "map (fst \<circ> snd)"] by (simp add: comp_def)
  then have "map (\<lambda>kt. beat_age 50 (snd kt)) latest = [10, 43]"
    by (simp add: l(1) stale_row_of_def case_prod_beta' comp_def)
  then obtain x y where xy: "latest = [x, y]" "beat_age 50 (snd y) = 43" by auto
  have "list_ex (\<lambda>(k, t). 30 \<le> beat_age 50 t) latest" by (simp add: xy case_prod_beta)
  then have st: "sp_status rep = ''stale''" by (simp add: l(2))
  show ?thesis by (rule exI[of _ rep]) (intro conjI rep st)
qed

end
