(* ===== verification/Upserts.thy ===== *)
theory Upserts
  imports Prelude
begin

text \<open>
  The two idioms that the aggregations of the warehouse are made of: \<open>row = session.get(Row, key)\<close> with
  an insert or an update of every column, for a sequence of payloads, and \<open>agg[key]\<close> with a bucket that
  the rows of a key update in turn. A table is a dictionary from the primary key to the row.
\<close>

section \<open>Upserts\<close>

text \<open>\<open>merge payload old\<close> is the row after the upsert: the payload with the columns that it leaves alone.\<close>

definition upsert_all :: "('p \<Rightarrow> 'v option \<Rightarrow> 'v) \<Rightarrow> ('k \<times> 'p) list \<Rightarrow> ('k \<times> 'v) list \<Rightarrow> ('k \<times> 'v) list" where
  "upsert_all merge ps t = fold (\<lambda>(k, p). dict_upsert (merge p) k) ps t"

definition merges :: "('p \<Rightarrow> 'v option \<Rightarrow> 'v) \<Rightarrow> 'p list \<Rightarrow> 'v option \<Rightarrow> 'v option" where
  "merges merge ps old = fold (\<lambda>p o'. Some (merge p o')) ps old"

definition payloads :: "('k \<times> 'p) list \<Rightarrow> 'k \<Rightarrow> 'p list" where
  "payloads ps k = map snd (filter (\<lambda>(j, _). j = k) ps)"

lemma upsert_all_Nil [simp]: "upsert_all merge [] t = t"
  by (simp add: upsert_all_def)

lemma upsert_all_Cons [simp]: "upsert_all merge ((k, p) # ps) t = upsert_all merge ps (dict_upsert (merge p) k t)"
  by (simp add: upsert_all_def)

lemma upsert_all_append: "upsert_all merge (ps @ qs) t = upsert_all merge qs (upsert_all merge ps t)"
  by (simp add: upsert_all_def)

lemma map_of_dict_upsert: "map_of (dict_upsert f k t) j = (if j = k then Some (f (map_of t k)) else map_of t j)"
  by (simp add: dict_upsert_def)

lemma upsert_all_lookup: "map_of (upsert_all merge ps t) k = merges merge (payloads ps k) (map_of t k)"
proof (induction ps arbitrary: t)
  case Nil
  then show ?case by (simp add: payloads_def merges_def)
next
  case (Cons p ps)
  obtain j q where p: "p = (j, q)" by (cases p)
  show ?case by (simp add: p Cons.IH payloads_def merges_def map_of_dict_upsert)
qed

lemma upsert_all_ok: "dict_ok t \<Longrightarrow> dict_ok (upsert_all merge ps t)"
  by (induction ps arbitrary: t) (auto simp: dict_upsert_def dict_ok_set)

lemma upsert_all_keys: "set (dict_keys (upsert_all merge ps t)) = fst ` set ps \<union> set (dict_keys t)"
proof (induction ps arbitrary: t)
  case (Cons p ps)
  obtain j q where p: "p = (j, q)" by (cases p)
  show ?case by (simp add: p Cons.IH dict_upsert_def set_dict_keys del: set_map)
qed simp

lemma upsert_all_other: "k \<notin> fst ` set ps \<Longrightarrow> map_of (upsert_all merge ps t) k = map_of t k"
proof -
  assume "k \<notin> fst ` set ps"
  then have "payloads ps k = []" by (force simp: payloads_def filter_empty_conv)
  then show ?thesis by (simp add: upsert_all_lookup merges_def)
qed

lemma dict_keys_set: "dict_keys (dict_set k v t) = (if k \<in> set (dict_keys t) then dict_keys t else dict_keys t @ [k])"
  by (induction t) auto

lemma dict_eqI:
  "dict_keys xs = dict_keys ys \<Longrightarrow> dict_ok xs \<Longrightarrow> map_of xs = map_of ys \<Longrightarrow> xs = ys"
proof (induction xs arbitrary: ys)
  case (Cons x xs)
  obtain k v where x: "x = (k, v)" by (cases x)
  obtain w zs where ys: "ys = (k, w) # zs" using Cons.prems(1) x by (cases ys) auto
  have "v = w" using fun_cong[OF Cons.prems(3), of k] by (simp add: x ys)
  moreover have "map_of xs = map_of zs"
  proof
    fix j
    have "k \<notin> set (dict_keys xs)" "k \<notin> set (dict_keys zs)" using Cons.prems(1,2) by (auto simp: x ys)
    then have "map_of xs k = None" "map_of zs k = None" by (simp_all add: map_of_eq_None_iff)
    then show "map_of xs j = map_of zs j" using fun_cong[OF Cons.prems(3), of j] by (cases "j = k") (simp_all add: x ys)
  qed
  ultimately show ?case using Cons.IH[of zs] Cons.prems(1,2) by (simp add: x ys)
qed simp

lemma upsert_all_fixed:
  assumes "map_of (upsert_all merge ps t) = map_of t" "dict_ok t"
  shows "upsert_all merge ps t = t"
proof -
  have "set (dict_keys (upsert_all merge ps t)) = set (dict_keys t)"
    using arg_cong[OF assms(1), of dom] by (simp add: dom_map_of_conv_image_fst)
  then have sub: "fst ` set ps \<subseteq> set (dict_keys t)" using upsert_all_keys[of merge ps t] by blast
  have "dict_keys (upsert_all merge ps t) = dict_keys t" using sub
  proof (induction ps arbitrary: t)
    case (Cons p ps)
    obtain k q where p: "p = (k, q)" by (cases p)
    have "dict_keys (dict_upsert (merge q) k t) = dict_keys t"
      using Cons.prems unfolding dict_upsert_def dict_keys_set by (simp add: p)
    then show ?case using Cons.IH[of "dict_upsert (merge q) k t"] Cons.prems by (simp add: p)
  qed simp
  then show ?thesis using assms upsert_all_ok[OF assms(2)] by (intro dict_eqI)
qed

text \<open>A pass that finds nothing to change, and a sequence of passes of which none disturbs an earlier one.\<close>

definition undisturbed :: "('d \<Rightarrow> 'd) \<Rightarrow> ('d \<Rightarrow> 'd) \<Rightarrow> bool" where
  "undisturbed f g = (\<forall>db. f db = db \<longrightarrow> f (g db) = g db)"

lemma passes_settle:
  assumes "sorted_wrt undisturbed fs" "\<And>f db. f \<in> set fs \<Longrightarrow> ok db \<Longrightarrow> f (f db) = f db"
    "\<And>f db. f \<in> set fs \<Longrightarrow> ok db \<Longrightarrow> ok (f db)" "ok db"
  shows "\<forall>f\<in>set fs. f (fold (\<lambda>f. f) fs db) = fold (\<lambda>f. f) fs db"
  using assms
proof (induction fs rule: rev_induct)
  case (snoc g fs)
  let ?d = "fold (\<lambda>f. f) fs db"
  have before: "\<forall>f\<in>set fs. f ?d = ?d" using snoc by (simp add: sorted_wrt_append)
  have "ok (fold (\<lambda>f. f) fs db)"
    using snoc.prems(3,4) by (induction fs arbitrary: db) auto
  then have "g (g ?d) = g ?d" using snoc.prems(2) by simp
  moreover have "f (g ?d) = g ?d" if "f \<in> set fs" for f
    using that before snoc.prems(1) by (simp add: sorted_wrt_append undisturbed_def)
  ultimately show ?case by auto
qed simp

lemma passes_twice:
  assumes "\<forall>f\<in>set fs. f db = db"
  shows "fold (\<lambda>f. f) fs db = db"
  using assms by (induction fs) auto

text \<open>What the columns of the payload promise: a second upsert with the same payload changes nothing
  (\<open>again\<close>), and an upsert does not depend on an earlier one in the same pass (\<open>absorb\<close>).\<close>

locale repeatable =
  fixes merge :: "'p \<Rightarrow> 'v option \<Rightarrow> 'v"
  assumes again: "merge p (Some (merge p r)) = merge p r"
begin

lemma merge_twice_distinct:
  assumes "distinct (map fst ps)"
  shows "map_of (upsert_all merge ps (upsert_all merge ps t)) = map_of (upsert_all merge ps t)"
proof
  fix k
  show "map_of (upsert_all merge ps (upsert_all merge ps t)) k = map_of (upsert_all merge ps t) k"
  proof (cases "map_of ps k")
    case None
    then have "payloads ps k = []" by (force simp: payloads_def filter_empty_conv map_of_eq_None_iff)
    then show ?thesis by (simp add: upsert_all_lookup merges_def)
  next
    case (Some p)
    have "payloads ps k = [p]" using assms Some
    proof (induction ps)
      case (Cons q ps)
      obtain j r where q: "q = (j, r)" by (cases q)
      show ?case
      proof (cases "j = k")
        case True
        then have "filter (\<lambda>(j, _). j = k) ps = []" using Cons.prems(1) by (force simp: q filter_empty_conv)
        then show ?thesis using Cons.prems(2) True by (simp add: q payloads_def)
      next
        case False
        then show ?thesis using Cons by (simp add: q payloads_def)
      qed
    qed simp
    then show ?thesis by (simp add: upsert_all_lookup merges_def again)
  qed
qed

lemma upsert_distinct_again:
  "dict_ok t \<Longrightarrow> distinct (map fst ps) \<Longrightarrow> upsert_all merge ps (upsert_all merge ps t) = upsert_all merge ps t"
  by (rule upsert_all_fixed) (simp_all add: merge_twice_distinct upsert_all_ok)

end

locale overwriting = repeatable merge for merge :: "'p \<Rightarrow> 'v option \<Rightarrow> 'v" +
  assumes absorb: "merge p (Some (merge q r)) = merge p r"
begin

lemma merges_last: "ps \<noteq> [] \<Longrightarrow> merges merge ps r = Some (merge (last ps) r)"
proof (induction ps rule: rev_induct)
  case (snoc p ps)
  then show ?case by (cases "ps = []") (simp_all add: merges_def absorb)
qed simp

text \<open>The row of a key comes from the last payload for it.\<close>

lemma final_row: "map_of (upsert_all merge ps t) k = (case map_of (rev ps) k of
    None \<Rightarrow> map_of t k | Some p \<Rightarrow> Some (merge p (map_of t k)))"
proof (induction ps rule: rev_induct)
  case (snoc p ps)
  obtain j q where p: "p = (j, q)" by (cases p)
  show ?case using snoc
    by (auto simp: p upsert_all_append map_of_dict_upsert absorb split: option.splits)
qed simp

lemma upsert_all_idem: "map_of (upsert_all merge ps (upsert_all merge ps t)) = map_of (upsert_all merge ps t)"
  by (auto simp: fun_eq_iff final_row absorb split: option.splits)

lemma upsert_all_again: "dict_ok t \<Longrightarrow> upsert_all merge ps (upsert_all merge ps t) = upsert_all merge ps t"
  by (rule upsert_all_fixed) (simp_all add: upsert_all_idem upsert_all_ok)

end

text \<open>A pass over a database: the payloads it computes go into one table of it, which they do not depend on.\<close>

locale table_pass =
  fixes tab :: "'d \<Rightarrow> ('k \<times> 'v) list"
    and put :: "('k \<times> 'v) list \<Rightarrow> 'd \<Rightarrow> 'd"
    and merge :: "'p \<Rightarrow> 'v option \<Rightarrow> 'v"
    and load :: "'d \<Rightarrow> ('k \<times> 'p) list"
    and ok :: "'d \<Rightarrow> bool"
  assumes put_tab: "put (tab d) d = d"
    and tab_put: "tab (put t d) = t"
    and put_put: "put t (put u d) = put t d"
    and load_put: "load (put t d) = load d"
    and again: "ok d \<Longrightarrow> dict_ok t \<Longrightarrow> upsert_all merge (load d) (upsert_all merge (load d) t) = upsert_all merge (load d) t"
begin

definition pass :: "'d \<Rightarrow> 'd" where
  "pass d = put (upsert_all merge (load d) (tab d)) d"

lemma pass_fixed: "pass d = d \<longleftrightarrow> upsert_all merge (load d) (tab d) = tab d"
  by (metis pass_def put_tab tab_put)

lemma pass_again: "ok d \<Longrightarrow> dict_ok (tab d) \<Longrightarrow> pass (pass d) = pass d"
  by (simp add: pass_def load_put tab_put put_put again)

lemma pass_undisturbed: "(\<And>d. load (g d) = load d) \<Longrightarrow> (\<And>d. tab (g d) = tab d) \<Longrightarrow> undisturbed pass g"
  by (simp add: undisturbed_def pass_fixed)

lemma pass_tab: "tab (pass d) = upsert_all merge (load d) (tab d)"
  by (simp add: pass_def tab_put)

end

section \<open>Buckets\<close>

definition group_into :: "('r \<Rightarrow> 'k option) \<Rightarrow> ('r \<Rightarrow> 'b \<Rightarrow> 'b) \<Rightarrow> 'b \<Rightarrow> 'r list \<Rightarrow> ('k \<times> 'b) list \<Rightarrow> ('k \<times> 'b) list" where
  "group_into key_fn step init rs agg =
     fold (\<lambda>r. case key_fn r of None \<Rightarrow> id
       | Some k \<Rightarrow> dict_upsert (\<lambda>o'. step r (case o' of None \<Rightarrow> init | Some b \<Rightarrow> b)) k) rs agg"

definition rows_at :: "('r \<Rightarrow> 'k option) \<Rightarrow> 'k \<Rightarrow> 'r list \<Rightarrow> 'r list" where
  "rows_at key_fn k rs = filter (\<lambda>r. key_fn r = Some k) rs"

lemma group_into_lookup:
  "map_of (group_into key_fn step init rs agg) k =
    (if rows_at key_fn k rs = [] then map_of agg k
     else Some (fold step (rows_at key_fn k rs) (case map_of agg k of None \<Rightarrow> init | Some b \<Rightarrow> b)))"
proof (induction rs arbitrary: agg)
  case Nil
  then show ?case by (simp add: group_into_def rows_at_def)
next
  case (Cons r rs)
  show ?case
  proof (cases "key_fn r")
    case None
    then show ?thesis using Cons.IH[of agg] by (simp add: group_into_def rows_at_def)
  next
    case (Some j)
    let ?agg = "dict_upsert (\<lambda>o'. step r (case o' of None \<Rightarrow> init | Some b \<Rightarrow> b)) j agg"
    have e: "group_into key_fn step init (r # rs) agg = group_into key_fn step init rs ?agg"
      by (simp add: group_into_def Some)
    show ?thesis unfolding e Cons.IH using Some
      by (cases "j = k") (simp_all add: rows_at_def map_of_dict_upsert)
  qed
qed

lemma group_into_keys:
  "set (dict_keys (group_into key_fn step init rs agg)) = {k. \<exists>r\<in>set rs. key_fn r = Some k} \<union> set (dict_keys agg)"
proof (induction rs arbitrary: agg)
  case (Cons r rs)
  show ?case
  proof (cases "key_fn r")
    case None
    then show ?thesis using Cons.IH[of agg] by (simp add: group_into_def del: set_map)
  next
    case (Some j)
    then show ?thesis using Cons.IH[of "dict_upsert (\<lambda>o'. step r (case o' of None \<Rightarrow> init | Some b \<Rightarrow> b)) j agg"]
      by (auto simp: group_into_def dict_upsert_def set_dict_keys simp del: set_map)
  qed
qed (simp add: group_into_def)

lemma group_into_ok: "dict_ok agg \<Longrightarrow> dict_ok (group_into key_fn step init rs agg)"
proof (induction rs arbitrary: agg)
  case (Cons r rs)
  show ?case
  proof (cases "key_fn r")
    case None
    then show ?thesis using Cons by (simp add: group_into_def)
  next
    case (Some j)
    have "dict_ok (dict_upsert (\<lambda>o'. step r (case o' of None \<Rightarrow> init | Some b \<Rightarrow> b)) j agg)"
      using Cons.prems by (simp add: dict_upsert_def dict_ok_set)
    from Cons.IH[OF this] show ?thesis by (simp add: group_into_def Some)
  qed
qed (simp add: group_into_def)

text \<open>Counters: a step that adds a number per row adds up, and a step that collects values lists them.\<close>

lemma fold_counter:
  "(\<And>r b. c (step r b) = c b + w r) \<Longrightarrow> c (fold step rs b) = c b + sum_list (map w rs)"
  for c :: "'b \<Rightarrow> int"
  by (induction rs arbitrary: b) (simp_all add: algebra_simps)

lemma fold_collects:
  "(\<And>r b. c (step r b) = c b @ w r) \<Longrightarrow> c (fold step rs b) = c b @ concat (map w rs)"
  by (induction rs arbitrary: b) simp_all

lemma fold_column_keeps: "(\<And>r b. c (step r b) = c b) \<Longrightarrow> c (fold step rs b) = c b"
  by (induction rs arbitrary: b) simp_all

lemma sum_list_indicator: "sum_list (map (\<lambda>r. if P r then 1 else 0) rs) = int (length (filter P rs))"
  by (induction rs) simp_all

end
