(* ===== verification/Warehouse_Tables.thy ===== *)
theory Warehouse_Tables
  imports Warehouse_Rows Upserts
begin

text \<open>
  The rest of the tables of \<^verbatim>\<open>src/robot_dh/warehouse/models.py\<close> that the warehouse build reads and
  writes, the database they form for it, and the small helpers of
  \<^verbatim>\<open>src/robot_dh/warehouse_metrics/builder.py\<close>. A table that the build only reads is the list of
  its rows in the order a query returns them; a table that it writes is a dictionary from the primary key.
\<close>

section \<open>Rows\<close>

record dataset_version_row =
  dv_id :: int
  dv_dataset_id :: string
  dv_version :: string
  dv_raw_uri :: "string option"
  dv_ods_uri :: "string option"
  dv_dwd_uri :: "string option"
  dv_status :: "string option"
  dv_created_at :: datetime
  dv_updated_at :: datetime

record quality_snapshot_row =
  qs_id :: int
  qs_dataset_id :: string
  qs_version :: string
  qs_run_id :: "string option"
  qs_quality_status :: "string option"
  qs_quality_score :: "rat option"
  qs_metrics_json :: "pyval option"
  qs_created_at :: datetime

record etl_perf_row =
  pf_id :: int
  pf_job_id :: string
  pf_run_id :: string
  pf_dataset_id :: string
  pf_version :: string
  pf_phase :: string
  pf_input_uri :: "string option"
  pf_output_uri :: "string option"
  pf_input_bytes :: "int option"
  pf_output_bytes :: "int option"
  pf_input_rows :: "int option"
  pf_output_rows :: "int option"
  pf_duration_sec :: "rat option"
  pf_download_duration_sec :: "rat option"
  pf_upload_duration_sec :: "rat option"
  pf_compute_duration_sec :: "rat option"
  pf_peak_memory_mb :: "rat option"
  pf_worker_id :: "string option"
  pf_status :: string
  pf_error_message :: "string option"
  pf_started_at :: "datetime option"
  pf_finished_at :: "datetime option"
  pf_metrics_json :: "pyval option"
  pf_created_at :: datetime

record flow_step_row =
  fsr_id :: int
  fsr_workflow_name :: string
  fsr_workflow_namespace :: "string option"
  fsr_step_name :: string
  fsr_template_name :: "string option"
  fsr_pod_name :: "string option"
  fsr_phase :: "string option"
  fsr_started_at :: "datetime option"
  fsr_finished_at :: "datetime option"
  fsr_duration_sec :: "rat option"
  fsr_dataset_id :: "string option"
  fsr_version :: "string option"
  fsr_dataset_family :: "string option"
  fsr_input_uri :: "string option"
  fsr_output_uri :: "string option"
  fsr_metrics_json :: "pyval option"
  fsr_message :: "string option"
  fsr_created_at :: datetime

record asset_profile_row =
  apr_id :: int
  apr_profile_id :: string
  apr_dataset_id :: "string option"
  apr_version :: "string option"
  apr_dataset_family :: "string option"
  apr_asset_uri :: string
  apr_asset_format :: "string option"
  apr_layer :: "string option"
  apr_bytes :: "int option"
  apr_rows :: "int option"
  apr_files_count :: "int option"
  apr_episodes_count :: "int option"
  apr_videos_count :: "int option"
  apr_schema_hash :: "string option"
  apr_null_rate :: "rat option"
  apr_profile_json :: "pyval option"
  apr_status :: "string option"
  apr_created_at :: datetime

record fact_rule_row =
  frr_rule_result_key :: string
  frr_run_id :: "string option"
  frr_contract_id :: "string option"
  frr_dataset_id :: "string option"
  frr_version :: "string option"
  frr_dataset_family :: "string option"
  frr_rule_id :: "string option"
  frr_severity :: "string option"
  frr_status :: "string option"
  frr_metric :: "string option"
  frr_op :: "string option"
  frr_threshold_value :: "string option"
  frr_actual_value :: "string option"
  frr_dt :: "date option"
  frr_created_at :: datetime

record fact_asset_row =
  fap_asset_profile_key :: string
  fap_profile_id :: "string option"
  fap_dataset_id :: "string option"
  fap_version :: "string option"
  fap_dataset_family :: "string option"
  fap_asset_uri :: "string option"
  fap_asset_format :: "string option"
  fap_layer :: "string option"
  fap_bytes :: "int option"
  fap_rows :: "int option"
  fap_files_count :: "int option"
  fap_episodes_count :: "int option"
  fap_videos_count :: "int option"
  fap_schema_hash :: "string option"
  fap_null_rate :: "rat option"
  fap_status :: "string option"
  fap_dt :: "date option"
  fap_created_at :: datetime

record ops_daily_row =
  wod_dt :: date
  wod_workflow_type :: string
  wod_workflow_count :: int
  wod_success_count :: int
  wod_failed_count :: int
  wod_running_count :: int
  wod_success_rate :: "rat option"
  wod_avg_duration_sec :: "rat option"
  wod_p95_duration_sec :: "rat option"
  wod_deadline_exceeded_count :: int
  wod_oom_count :: int
  wod_nonzero_exit_count :: int
  wod_updated_at :: datetime

record model_registry_row =
  mrr_model_id :: string
  mrr_model_name :: string
  mrr_model_type :: string
  mrr_backend :: string
  mrr_endpoint_url :: "string option"
  mrr_input_schema_json :: "pyval option"
  mrr_output_schema_json :: "pyval option"
  mrr_max_batch_size :: "int option"
  mrr_timeout_sec :: "int option"
  mrr_status :: string
  mrr_tags_json :: "pyval option"
  mrr_created_at :: datetime
  mrr_updated_at :: datetime

record inference_job_row =
  ijr_job_id :: string
  ijr_job_name :: "string option"
  ijr_model_id :: string
  ijr_input_uri :: string
  ijr_output_uri :: string
  ijr_input_format :: "string option"
  ijr_output_format :: "string option"
  ijr_dataset_id :: "string option"
  ijr_version :: "string option"
  ijr_dataset_family :: "string option"
  ijr_task_type :: string
  ijr_status :: string
  ijr_priority :: int
  ijr_batch_size :: "int option"
  ijr_max_workers :: "int option"
  ijr_total_samples :: int
  ijr_processed_samples :: int
  ijr_failed_samples :: int
  ijr_started_at :: "datetime option"
  ijr_finished_at :: "datetime option"
  ijr_duration_sec :: "rat option"
  ijr_error_message :: "string option"
  ijr_config_json :: "pyval option"
  ijr_metrics_json :: "pyval option"
  ijr_created_at :: datetime
  ijr_updated_at :: datetime

record inference_output_row =
  ior_output_id :: string
  ior_job_id :: string
  ior_model_id :: string
  ior_sample_id :: "string option"
  ior_dataset_id :: "string option"
  ior_version :: "string option"
  ior_episode_id :: "string option"
  ior_frame_id :: "string option"
  ior_input_uri :: "string option"
  ior_output_uri :: "string option"
  ior_prediction_type :: "string option"
  ior_prediction_json :: "pyval option"
  ior_confidence :: "rat option"
  ior_latency_ms :: "rat option"
  ior_token_count :: "int option"
  ior_status :: "string option"
  ior_error_message :: "string option"
  ior_created_at :: datetime

record inference_failure_row =
  ifr_failure_id :: string
  ifr_job_id :: string
  ifr_model_id :: "string option"
  ifr_sample_id :: "string option"
  ifr_input_uri :: "string option"
  ifr_error_type :: "string option"
  ifr_error_message :: "string option"
  ifr_retryable :: bool
  ifr_attempt :: int
  ifr_created_at :: datetime

record ads_inference_row =
  aid_dt :: date
  aid_model_id :: string
  aid_backend :: "string option"
  aid_task_type :: string
  aid_overall_status :: "string option"
  aid_job_count :: "int option"
  aid_success_rate :: "rat option"
  aid_total_samples :: "int option"
  aid_samples_per_sec :: "rat option"
  aid_p95_latency_ms :: "rat option"
  aid_error_rate :: "rat option"
  aid_top_error_type :: "string option"
  aid_alert_level :: "string option"
  aid_alert_reason :: "string option"
  aid_updated_at :: datetime

section \<open>The database of a build\<close>

type_synonym quality_key = "date \<times> string \<times> string"
type_synonym rule_key = "date \<times> string \<times> string \<times> string \<times> string"
type_synonym ops_key = "date \<times> string"

record wh_db =
  wb_dataset_versions :: "dataset_version_row list"
  wb_snapshots :: "quality_snapshot_row list"
  wb_ml_ready :: "ml_ready_row list"
  wb_perf_runs :: "etl_perf_row list"
  wb_qc_runs :: "qc_contract_run_row list"
  wb_flow_runs :: "workflow_run_row list"
  wb_flow_steps :: "flow_step_row list"
  wb_profiles :: "asset_profile_row list"
  wb_models :: "model_registry_row list"
  wb_jobs :: "inference_job_row list"
  wb_outputs :: "inference_output_row list"
  wb_failures :: "inference_failure_row list"
  wb_dim :: "(string \<times> dim_dataset_row) list"
  wb_etl :: "(string \<times> etl_run_row) list"
  wb_rules :: "(string \<times> fact_rule_row) list"
  wb_steps :: "(string \<times> workflow_step_row) list"
  wb_assets :: "(string \<times> fact_asset_row) list"
  wb_quality :: "(quality_key \<times> dataset_quality_row) list"
  wb_rule_daily :: "(rule_key \<times> rule_failure_row) list"
  wb_ops_daily :: "(ops_key \<times> ops_daily_row) list"
  wb_ads_quality :: "(quality_key \<times> ads_row) list"
  wb_ads_ops :: "(ops_key \<times> workflow_ops_row) list"
  wb_inference :: "(quality_key \<times> inference_daily_row) list"
  wb_ads_inference :: "(quality_key \<times> ads_inference_row) list"

section \<open>Helpers\<close>

text \<open>\<open>_md5_pipe\<close>; the digest is a parameter.\<close>

definition md5_pipe :: "(string \<Rightarrow> string) \<Rightarrow> string option list \<Rightarrow> string" where
  "md5_pipe md5 parts = md5 (join ''|'' (map (\<lambda>p. case p of None \<Rightarrow> [] | Some s \<Rightarrow> s) parts))"

definition safe_int :: "pyval \<Rightarrow> int option" where
  "safe_int v = (case v of VNone \<Rightarrow> None | _ \<Rightarrow> (case py_int v of Inl _ \<Rightarrow> None | Inr i \<Rightarrow> Some i))"

definition safe_str :: "pyval \<Rightarrow> string option" where
  "safe_str v = (case v of VNone \<Rightarrow> None | _ \<Rightarrow> Some (py_str v))"

text \<open>\<open>isinstance(column, dict)\<close> and \<open>isinstance(column, list)\<close>, with the empty value otherwise.\<close>

definition json_dict :: "pyval option \<Rightarrow> pydict" where
  "json_dict c = (case c of Some (VDict d) \<Rightarrow> d | _ \<Rightarrow> [])"

definition json_list :: "pyval option \<Rightarrow> pyval list" where
  "json_list c = (case c of Some (VList xs) \<Rightarrow> xs | _ \<Rightarrow> [])"

text \<open>\<open>a or b\<close> on nullable columns.\<close>

definition or_else :: "string option \<Rightarrow> string option \<Rightarrow> string option" where
  "or_else a b = (if opt_truthy a then a else b)"

definition num_or_0 :: "int option \<Rightarrow> int" where
  "num_or_0 n = (case n of None \<Rightarrow> 0 | Some i \<Rightarrow> i)"

definition in_window :: "date_range \<Rightarrow> date \<Rightarrow> bool" where
  "in_window w d = (dr_start w \<le> d \<and> d \<le> dr_end w)"

definition opt_in_window :: "date_range \<Rightarrow> date option \<Rightarrow> bool" where
  "opt_in_window w d = (case d of None \<Rightarrow> False | Some e \<Rightarrow> in_window w e)"

definition day_of_time :: "datetime option \<Rightarrow> date option" where
  "day_of_time t = map_option fst t"

text \<open>\<open>order_by(created_at.desc()).limit(1)\<close>.\<close>

fun latest_by :: "('r \<Rightarrow> datetime) \<Rightarrow> 'r list \<Rightarrow> 'r option" where
  "latest_by f [] = None"
| "latest_by f (r # rs) = (case latest_by f rs of None \<Rightarrow> Some r | Some q \<Rightarrow> if f r < f q then Some q else Some r)"

lemma latest_by_None [simp]: "latest_by f rs = None \<longleftrightarrow> rs = []"
  by (cases rs) (auto split: option.splits)

lemma latest_by_Some: "latest_by f rs = Some r \<Longrightarrow> r \<in> set rs \<and> (\<forall>q\<in>set rs. f q \<le> f r)"
proof (induction rs arbitrary: r)
  case (Cons x rs)
  then show ?case by (fastforce split: option.splits if_splits)
qed simp

lemma or_else_idem [simp]: "or_else a (or_else a b) = or_else a b"
  by (simp add: or_else_def)

definition empty_wh :: wh_db where
  "empty_wh = \<lparr>wb_dataset_versions = [], wb_snapshots = [], wb_ml_ready = [], wb_perf_runs = [], wb_qc_runs = [],
     wb_flow_runs = [], wb_flow_steps = [], wb_profiles = [], wb_models = [], wb_jobs = [], wb_outputs = [],
     wb_failures = [], wb_dim = [], wb_etl = [], wb_rules = [], wb_steps = [], wb_assets = [], wb_quality = [],
     wb_rule_daily = [], wb_ops_daily = [], wb_ads_quality = [], wb_ads_ops = [], wb_inference = [], wb_ads_inference = []\<rparr>"

end
