(* ===== verification/Warehouse_Facts.thy ===== *)
theory Warehouse_Facts
  imports Warehouse_Tables
begin

text \<open>
  The first two layers of the build on SQLite, \<^verbatim>\<open>src/robot_dh/warehouse_metrics/builder.py\<close>: the
  dimension of data sets and the four fact tables, each filled by upserts from the rows of the sources
  that fall into the window. A value of a JSON column that goes into a text column goes there as its text.
  The clock \<open>now\<close> and the digest \<open>md5\<close> are arguments; \<open>created_at\<close> is set when a row is inserted.
\<close>

section \<open>Data sets\<close>

type_synonym dim_source = "dataset_version_row \<times> quality_snapshot_row option \<times> ml_ready_row option"

definition dim_key :: "dataset_version_row \<Rightarrow> string" where
  "dim_key dv = ''dataset:'' @ dv_dataset_id dv @ '':'' @ dv_version dv"

definition snapshot_of :: "wh_db \<Rightarrow> dataset_version_row \<Rightarrow> quality_snapshot_row option" where
  "snapshot_of db dv = latest_by qs_created_at
     (filter (\<lambda>q. qs_dataset_id q = dv_dataset_id dv \<and> qs_version q = dv_version dv) (wb_snapshots db))"

definition ml_ready_of :: "wh_db \<Rightarrow> dataset_version_row \<Rightarrow> ml_ready_row option" where
  "ml_ready_of db dv = latest_by ml_created_at
     (filter (\<lambda>m. ml_dataset_id m = dv_dataset_id dv \<and> ml_version m = dv_version dv) (wb_ml_ready db))"

definition family_of :: "quality_snapshot_row option \<Rightarrow> string option" where
  "family_of q = (case q of None \<Rightarrow> None | Some s \<Rightarrow> safe_str (get (json_dict (qs_metrics_json s)) ''dataset_family''))"

definition merge_dim :: "datetime \<Rightarrow> dim_source \<Rightarrow> dim_dataset_row option \<Rightarrow> dim_dataset_row" where
  "merge_dim now src old = (case src of (dv, q, m) \<Rightarrow> (case old of
     None \<Rightarrow>
       \<lparr>dd_dataset_key = dim_key dv, dd_dataset_id = dv_dataset_id dv, dd_version = dv_version dv,
        dd_dataset_family = family_of q, dd_source_uri = dv_raw_uri dv, dd_raw_uri = dv_raw_uri dv,
        dd_ods_uri = dv_ods_uri dv, dd_dwd_uri = dv_dwd_uri dv, dd_ads_uri = None,
        dd_ml_ready_uri = map_option ml_output_uri m, dd_first_seen_at = Some (dv_created_at dv),
        dd_latest_status = (case q of Some s \<Rightarrow> qs_quality_status s | None \<Rightarrow> dv_status dv),
        dd_latest_quality_score = (case q of Some s \<Rightarrow> qs_quality_score s | None \<Rightarrow> None),
        dd_is_active = True, dd_updated_at = now\<rparr>
   | Some row \<Rightarrow> row\<lparr>
        dd_dataset_family := or_else (family_of q) (dd_dataset_family row),
        dd_raw_uri := or_else (dv_raw_uri dv) (dd_raw_uri row),
        dd_ods_uri := or_else (dv_ods_uri dv) (dd_ods_uri row),
        dd_dwd_uri := or_else (dv_dwd_uri dv) (dd_dwd_uri row),
        dd_ml_ready_uri := (case m of Some r \<Rightarrow> Some (ml_output_uri r) | None \<Rightarrow> dd_ml_ready_uri row),
        dd_latest_status := (case q of Some s \<Rightarrow> qs_quality_status s | None \<Rightarrow> or_else (dd_latest_status row) (dv_status dv)),
        dd_latest_quality_score := (case q of Some s \<Rightarrow> qs_quality_score s | None \<Rightarrow> dd_latest_quality_score row),
        dd_updated_at := now\<rparr>))"

definition dim_payloads :: "wh_db \<Rightarrow> (string \<times> dim_source) list" where
  "dim_payloads db = map (\<lambda>dv. (dim_key dv, (dv, snapshot_of db dv, ml_ready_of db dv))) (wb_dataset_versions db)"

type_synonym build_step = "wh_db \<Rightarrow> nat \<times> wh_db"

definition build_dim_dataset :: "datetime \<Rightarrow> build_step" where
  "build_dim_dataset now db = (let ps = dim_payloads db
     in (length ps, db\<lparr>wb_dim := upsert_all (merge_dim now) ps (wb_dim db)\<rparr>))"

section \<open>ETL runs\<close>

definition etl_payload :: "(string \<Rightarrow> string) \<Rightarrow> etl_perf_row \<Rightarrow> etl_run_row" where
  "etl_payload md5 r =
     \<lparr>er_run_key = md5_pipe md5 [Some (pf_job_id r), Some (pf_run_id r), Some (pf_phase r), Some (pf_dataset_id r), Some (pf_version r)],
      er_job_id = Some (pf_job_id r), er_run_id = Some (pf_run_id r), er_dataset_id = Some (pf_dataset_id r),
      er_version = Some (pf_version r), er_dataset_family = None, er_phase = Some (pf_phase r),
      er_status = Some (pf_status r), er_started_at = pf_started_at r, er_finished_at = pf_finished_at r,
      er_dt = day_of_time (pf_started_at r), er_duration_sec = pf_duration_sec r,
      er_input_bytes = pf_input_bytes r, er_output_bytes = pf_output_bytes r, er_input_rows = pf_input_rows r,
      er_output_rows = pf_output_rows r, er_peak_memory_mb = pf_peak_memory_mb r,
      er_error_message = pf_error_message r,
      er_archive_log_uri = safe_str (get (json_dict (pf_metrics_json r)) ''archive_log_uri''),
      er_created_at = pf_created_at r\<rparr>"

text \<open>The payload has no family and no creation time: they stay, or are new.\<close>

definition merge_etl :: "datetime \<Rightarrow> etl_run_row \<Rightarrow> etl_run_row option \<Rightarrow> etl_run_row" where
  "merge_etl now p old = (case old of
     None \<Rightarrow> p\<lparr>er_dataset_family := None, er_created_at := now\<rparr>
   | Some row \<Rightarrow> p\<lparr>er_dataset_family := er_dataset_family row, er_created_at := er_created_at row\<rparr>)"

definition etl_payloads :: "(string \<Rightarrow> string) \<Rightarrow> date_range \<Rightarrow> wh_db \<Rightarrow> (string \<times> etl_run_row) list" where
  "etl_payloads md5 w db = map (\<lambda>r. (er_run_key (etl_payload md5 r), etl_payload md5 r))
     (filter (\<lambda>r. opt_in_window w (day_of_time (pf_started_at r))) (wb_perf_runs db))"

definition build_fact_etl_run :: "(string \<Rightarrow> string) \<Rightarrow> date_range \<Rightarrow> datetime \<Rightarrow> build_step" where
  "build_fact_etl_run md5 w now db = (let ps = etl_payloads md5 w db
     in (length ps, db\<lparr>wb_etl := upsert_all (merge_etl now) ps (wb_etl db)\<rparr>))"

section \<open>Quality rules\<close>

text \<open>The rules of a contract run that failed or warned; an entry without a rule id is skipped.\<close>

definition rule_payload :: "(string \<Rightarrow> string) \<Rightarrow> qc_contract_run_row \<Rightarrow> string \<times> pyval \<Rightarrow> fact_rule_row option" where
  "rule_payload md5 run si = (case si of
     (status, VDict d) \<Rightarrow>
       (let rule_id = py_str (py_or (get d ''rule_id'') (VStr []));
            severity = py_str (py_or (get d ''severity'') (VStr ''unknown''));
            metric = get d ''metric''
        in if rule_id = [] then None
           else Some \<lparr>
             frr_rule_result_key = md5_pipe md5 [Some (qr_run_id run), Some severity, Some rule_id,
               Some (if truthy metric then py_str metric else [])],
             frr_run_id = Some (qr_run_id run), frr_contract_id = Some (qr_contract_id run),
             frr_dataset_id = qr_dataset_id run, frr_version = qr_version run,
             frr_dataset_family = qr_dataset_family run, frr_rule_id = Some rule_id,
             frr_severity = Some severity, frr_status = Some status, frr_metric = safe_str metric,
             frr_op = safe_str (get d ''op''), frr_threshold_value = safe_str (get d ''threshold''),
             frr_actual_value = safe_str (get d ''actual''), frr_dt = day_of_time (qr_started_at run),
             frr_created_at = qr_created_at run\<rparr>)
   | _ \<Rightarrow> None)"

definition summary_payload :: "(string \<Rightarrow> string) \<Rightarrow> qc_contract_run_row \<Rightarrow> fact_rule_row" where
  "summary_payload md5 run =
     \<lparr>frr_rule_result_key = md5_pipe md5 [Some (qr_run_id run), Some ''summary'', Some ''contract_status'', Some []],
      frr_run_id = Some (qr_run_id run), frr_contract_id = Some (qr_contract_id run),
      frr_dataset_id = qr_dataset_id run, frr_version = qr_version run,
      frr_dataset_family = qr_dataset_family run, frr_rule_id = Some ''contract_status'',
      frr_severity = Some ''summary'', frr_status = Some (qr_status run), frr_metric = None, frr_op = None,
      frr_threshold_value = None, frr_actual_value = None, frr_dt = day_of_time (qr_started_at run),
      frr_created_at = qr_created_at run\<rparr>"

definition run_payloads :: "(string \<Rightarrow> string) \<Rightarrow> qc_contract_run_row \<Rightarrow> fact_rule_row list" where
  "run_payloads md5 run =
     List.map_filter (rule_payload md5 run)
       (map (\<lambda>i. (''FAIL'', i)) (json_list (qr_failed_rules_json run)) @
        map (\<lambda>i. (''WARN'', i)) (json_list (qr_warning_rules_json run)))
     @ [summary_payload md5 run]"

definition merge_rule :: "datetime \<Rightarrow> fact_rule_row \<Rightarrow> fact_rule_row option \<Rightarrow> fact_rule_row" where
  "merge_rule now p old = p\<lparr>frr_created_at := (case old of None \<Rightarrow> now | Some row \<Rightarrow> frr_created_at row)\<rparr>"

definition rule_payloads :: "(string \<Rightarrow> string) \<Rightarrow> date_range \<Rightarrow> wh_db \<Rightarrow> (string \<times> fact_rule_row) list" where
  "rule_payloads md5 w db = map (\<lambda>p. (frr_rule_result_key p, p))
     (concat (map (run_payloads md5) (filter (\<lambda>r. opt_in_window w (day_of_time (qr_started_at r))) (wb_qc_runs db))))"

definition build_fact_qc_rule_result :: "(string \<Rightarrow> string) \<Rightarrow> date_range \<Rightarrow> datetime \<Rightarrow> build_step" where
  "build_fact_qc_rule_result md5 w now db = (let ps = rule_payloads md5 w db
     in (length ps, db\<lparr>wb_rules := upsert_all (merge_rule now) ps (wb_rules db)\<rparr>))"

section \<open>Workflow steps\<close>

definition flow_run_of :: "wh_db \<Rightarrow> flow_step_row \<Rightarrow> workflow_run_row option" where
  "flow_run_of db s = find (\<lambda>r. wr_workflow_name r = fsr_workflow_name s \<and>
     wr_workflow_namespace r = fsr_workflow_namespace s) (wb_flow_runs db)"

definition step_payload :: "(string \<Rightarrow> string) \<Rightarrow> wh_db \<Rightarrow> flow_step_row \<Rightarrow> workflow_step_row" where
  "step_payload md5 db s = (let metrics = json_dict (fsr_metrics_json s) in
     \<lparr>wsr_step_key = md5_pipe md5 [fsr_workflow_namespace s, Some (fsr_workflow_name s), Some (fsr_step_name s), fsr_pod_name s],
      wsr_workflow_name = Some (fsr_workflow_name s), wsr_workflow_namespace = fsr_workflow_namespace s,
      wsr_workflow_type = (case flow_run_of db s of None \<Rightarrow> None | Some r \<Rightarrow> wr_workflow_type r),
      wsr_step_name = Some (fsr_step_name s), wsr_template_name = fsr_template_name s,
      wsr_pod_name = fsr_pod_name s, wsr_phase = fsr_phase s, wsr_dataset_id = fsr_dataset_id s,
      wsr_version = fsr_version s, wsr_dataset_family = fsr_dataset_family s,
      wsr_started_at = fsr_started_at s, wsr_finished_at = fsr_finished_at s,
      wsr_dt = day_of_time (fsr_started_at s), wsr_duration_sec = fsr_duration_sec s,
      wsr_exit_code = safe_int (get metrics ''exit_code''),
      wsr_container_reason = safe_str (get metrics ''container_reason''),
      wsr_archive_log_uri = safe_str (get metrics ''archive_log_uri''),
      wsr_archive_log_url = safe_str (get metrics ''archive_log_url''),
      wsr_created_at = fsr_created_at s\<rparr>)"

definition merge_step :: "datetime \<Rightarrow> workflow_step_row \<Rightarrow> workflow_step_row option \<Rightarrow> workflow_step_row" where
  "merge_step now p old = p\<lparr>wsr_created_at := (case old of None \<Rightarrow> now | Some row \<Rightarrow> wsr_created_at row)\<rparr>"

definition step_payloads :: "(string \<Rightarrow> string) \<Rightarrow> date_range \<Rightarrow> wh_db \<Rightarrow> (string \<times> workflow_step_row) list" where
  "step_payloads md5 w db = map (\<lambda>s. (wsr_step_key (step_payload md5 db s), step_payload md5 db s))
     (filter (\<lambda>s. opt_in_window w (day_of_time (fsr_started_at s))) (wb_flow_steps db))"

definition build_fact_workflow_step :: "(string \<Rightarrow> string) \<Rightarrow> date_range \<Rightarrow> datetime \<Rightarrow> build_step" where
  "build_fact_workflow_step md5 w now db = (let ps = step_payloads md5 w db
     in (length ps, db\<lparr>wb_steps := upsert_all (merge_step now) ps (wb_steps db)\<rparr>))"

section \<open>Asset profiles\<close>

definition asset_payload :: "(string \<Rightarrow> string) \<Rightarrow> asset_profile_row \<Rightarrow> fact_asset_row" where
  "asset_payload md5 a =
     \<lparr>fap_asset_profile_key = md5 (apr_profile_id a), fap_profile_id = Some (apr_profile_id a),
      fap_dataset_id = apr_dataset_id a, fap_version = apr_version a, fap_dataset_family = apr_dataset_family a,
      fap_asset_uri = Some (apr_asset_uri a), fap_asset_format = apr_asset_format a, fap_layer = apr_layer a,
      fap_bytes = apr_bytes a, fap_rows = apr_rows a, fap_files_count = apr_files_count a,
      fap_episodes_count = apr_episodes_count a, fap_videos_count = apr_videos_count a,
      fap_schema_hash = apr_schema_hash a, fap_null_rate = apr_null_rate a, fap_status = apr_status a,
      fap_dt = Some (fst (apr_created_at a)), fap_created_at = apr_created_at a\<rparr>"

definition merge_asset :: "datetime \<Rightarrow> fact_asset_row \<Rightarrow> fact_asset_row option \<Rightarrow> fact_asset_row" where
  "merge_asset now p old = p\<lparr>fap_created_at := (case old of None \<Rightarrow> now | Some row \<Rightarrow> fap_created_at row)\<rparr>"

definition asset_payloads :: "(string \<Rightarrow> string) \<Rightarrow> date_range \<Rightarrow> wh_db \<Rightarrow> (string \<times> fact_asset_row) list" where
  "asset_payloads md5 w db = map (\<lambda>a. (fap_asset_profile_key (asset_payload md5 a), asset_payload md5 a))
     (filter (\<lambda>a. in_window w (fst (apr_created_at a))) (wb_profiles db))"

definition build_fact_asset_profile :: "(string \<Rightarrow> string) \<Rightarrow> date_range \<Rightarrow> datetime \<Rightarrow> build_step" where
  "build_fact_asset_profile md5 w now db = (let ps = asset_payloads md5 w db
     in (length ps, db\<lparr>wb_assets := upsert_all (merge_asset now) ps (wb_assets db)\<rparr>))"

section \<open>The contracts\<close>

interpretation dim_rows: repeatable "merge_dim now" for now
  by unfold_locales (auto simp: merge_dim_def or_else_def split: prod.splits option.splits)

interpretation etl_rows: overwriting "merge_etl now" for now
  by unfold_locales (auto simp: merge_etl_def split: option.splits)

interpretation rule_rows: overwriting "merge_rule now" for now
  by unfold_locales (auto simp: merge_rule_def split: option.splits)

interpretation step_rows: overwriting "merge_step now" for now
  by unfold_locales (auto simp: merge_step_def split: option.splits)

interpretation asset_rows: overwriting "merge_asset now" for now
  by unfold_locales (auto simp: merge_asset_def split: option.splits)

end
