(* ===== verification/Warehouse_Daily.thy ===== *)
theory Warehouse_Daily
  imports Warehouse_Facts Inference_Data
begin

text \<open>
  The daily aggregates of the build on SQLite, \<^verbatim>\<open>src/robot_dh/warehouse_metrics/builder.py\<close>: quality
  per data set, failures per rule, operations per type of workflow, and inference jobs per model. Each
  groups the rows of the window into buckets and upserts a row per bucket. The reference definitions
  give a row directly from the rows that belong to its key; the code is proved equal to them.
\<close>

section \<open>Shared pieces\<close>

definition upper_of :: "string option \<Rightarrow> string" where
  "upper_of s = upper (case s of None \<Rightarrow> [] | Some t \<Rightarrow> t)"

definition ratio :: "int \<Rightarrow> int \<Rightarrow> rat option" where
  "ratio a n = (if n \<noteq> 0 then Some (of_int a / of_int n) else None)"

definition mean :: "rat list \<Rightarrow> rat option" where
  "mean xs = (if xs \<noteq> [] then Some (sum_list xs / of_nat (length xs)) else None)"

text \<open>\<open>_percentile\<close>.\<close>

definition duration_percentile :: "rat list \<Rightarrow> rat \<Rightarrow> rat option" where
  "duration_percentile values q =
     (if values = [] then None
      else let s = sort values
        in if length s = 1 then Some (s ! 0)
           else let idx = q * (of_nat (length s) - 1);
                    lo = nat (trunc_rat idx);
                    hi = min (lo + 1) (length s - 1);
                    frac = idx - of_nat lo
             in Some (s ! lo + (s ! hi - s ! lo) * frac))"

lemma duration_percentile_eq: "duration_percentile = percentile"
proof (intro ext)
  fix xs :: "rat list" and q
  have "sort xs = [] \<longleftrightarrow> xs = []" by (metis length_0_conv length_sort)
  then show "duration_percentile xs q = percentile xs q" by (simp add: duration_percentile_def percentile_def Let_def)
qed

text \<open>Payloads that set every column.\<close>

interpretation replaced: overwriting "\<lambda>p _. p"
  by unfold_locales auto

definition bucket_at :: "'b \<Rightarrow> ('k \<times> 'b) list \<Rightarrow> 'k \<Rightarrow> 'b" where
  "bucket_at init agg k = (case map_of agg k of None \<Rightarrow> init | Some b \<Rightarrow> b)"

lemma bucket_at_Nil [simp]: "bucket_at init [] k = init"
  by (simp add: bucket_at_def)

lemma bucket_at_group: "bucket_at init (group_into kf step init rs agg) k = fold step (rows_at kf k rs) (bucket_at init agg k)"
  by (simp add: bucket_at_def group_into_lookup)

lemma in_keys_lookup: "k \<in> set (dict_keys agg) \<Longrightarrow> map_of agg k = Some (bucket_at init agg k)"
  by (auto simp: bucket_at_def map_of_eq_None_iff split: option.splits)

lemma rows_at_empty: "rows_at kf k rs = [] \<longleftrightarrow> \<not> (\<exists>r\<in>set rs. kf r = Some k)"
  by (auto simp: rows_at_def filter_empty_conv)

text \<open>A row per bucket: what the table holds after it.\<close>

lemma rows_of_buckets:
  assumes "dict_ok agg"
  shows "map_of (upsert_all (\<lambda>p _. p) (map (\<lambda>(k, b). (k, mk k b)) agg) t) k =
    (if k \<in> set (dict_keys agg) then Some (mk k (bucket_at init agg k)) else map_of t k)"
proof -
  let ?ps = "map (\<lambda>(k, b). (k, mk k b)) agg"
  have "map fst ?ps = dict_keys agg" by (simp add: case_prod_beta comp_def)
  then have "distinct (map fst ?ps)" using assms by metis
  then have rev: "map_of (rev ?ps) = map_of ?ps"
    by (subst map_of_inject_set) (simp_all add: rev_map[symmetric])
  have "map_of ?ps k = map_option (mk k) (map_of agg k)" by (induction agg) auto
  moreover have "k \<in> set (dict_keys agg) \<longleftrightarrow> map_of agg k \<noteq> None" by (simp add: map_of_eq_None_iff)
  ultimately show ?thesis
    by (cases "map_of agg k") (simp_all add: replaced.final_row rev bucket_at_def del: set_map)
qed

section \<open>Quality per data set and day\<close>

record quality_bucket =
  qb_family :: "string option"
  qb_etl_runs :: int
  qb_etl_success :: int
  qb_etl_fail :: int
  qb_etl_durations :: "rat list"
  qb_input_bytes :: int
  qb_output_bytes :: int
  qb_qc_runs :: int
  qb_qc_pass :: int
  qb_qc_warn :: int
  qb_qc_fail :: int
  qb_wf_names :: "string list"
  qb_wf_success :: "string list"
  qb_wf_fail :: "string list"
  qb_wf_durations :: "rat list"
  qb_ml_rows :: int
  qb_scores :: "rat list"

definition empty_quality :: quality_bucket where
  "empty_quality = \<lparr>qb_family = None, qb_etl_runs = 0, qb_etl_success = 0, qb_etl_fail = 0, qb_etl_durations = [],
     qb_input_bytes = 0, qb_output_bytes = 0, qb_qc_runs = 0, qb_qc_pass = 0, qb_qc_warn = 0, qb_qc_fail = 0,
     qb_wf_names = [], qb_wf_success = [], qb_wf_fail = [], qb_wf_durations = [], qb_ml_rows = 0, qb_scores = []\<rparr>"

definition quality_key_of :: "date option \<Rightarrow> string option \<Rightarrow> string option \<Rightarrow> quality_key option" where
  "quality_key_of d ds v = (case (d, ds, v) of (Some d', Some ds', Some v') \<Rightarrow> Some (d', ds', v') | _ \<Rightarrow> None)"

definition etl_ok :: "etl_run_row \<Rightarrow> bool" where
  "etl_ok r = (upper_of (er_status r) \<in> {''OK'', ''WARN'', ''SUCCESS'', ''SUCCEEDED''})"

definition etl_failed :: "etl_run_row \<Rightarrow> bool" where
  "etl_failed r = (upper_of (er_status r) \<in> {''FAIL'', ''FAILED'', ''ERROR''})"

definition etl_open :: "etl_run_row \<Rightarrow> bool" where
  "etl_open r = (upper_of (er_status r) \<in> {''RUNNING'', ''PENDING'', ''STARTED''})"

text \<open>Runs that are still open make no bucket and are not counted.\<close>

definition etl_bucket_key :: "etl_run_row \<Rightarrow> quality_key option" where
  "etl_bucket_key r = (if etl_open r then None else quality_key_of (er_dt r) (er_dataset_id r) (er_version r))"

definition opt_cons :: "'a option \<Rightarrow> 'a list" where
  "opt_cons x = (case x of None \<Rightarrow> [] | Some a \<Rightarrow> [a])"

definition etl_step :: "etl_run_row \<Rightarrow> quality_bucket \<Rightarrow> quality_bucket" where
  "etl_step r b = b\<lparr>qb_family := or_else (qb_family b) (er_dataset_family r),
     qb_etl_runs := qb_etl_runs b + 1,
     qb_etl_success := qb_etl_success b + (if etl_ok r then 1 else 0),
     qb_etl_fail := qb_etl_fail b + (if \<not> etl_ok r \<and> etl_failed r then 1 else 0),
     qb_etl_durations := qb_etl_durations b @ opt_cons (er_duration_sec r),
     qb_input_bytes := qb_input_bytes b + num_or_0 (er_input_bytes r),
     qb_output_bytes := qb_output_bytes b + num_or_0 (er_output_bytes r)\<rparr>"

definition qc_bucket_key :: "fact_rule_row \<Rightarrow> quality_key option" where
  "qc_bucket_key r = quality_key_of (frr_dt r) (frr_dataset_id r) (frr_version r)"

definition qc_step :: "fact_rule_row \<Rightarrow> quality_bucket \<Rightarrow> quality_bucket" where
  "qc_step r b = (let s = upper_of (frr_status r) in
     b\<lparr>qb_family := or_else (qb_family b) (frr_dataset_family r),
       qb_qc_runs := qb_qc_runs b + 1,
       qb_qc_pass := qb_qc_pass b + (if s = ''PASS'' then 1 else 0),
       qb_qc_warn := qb_qc_warn b + (if s = ''WARN'' then 1 else 0),
       qb_qc_fail := qb_qc_fail b + (if s = ''FAIL'' then 1 else 0)\<rparr>)"

definition name_of :: "workflow_step_row \<Rightarrow> string" where
  "name_of r = (case wsr_workflow_name r of None \<Rightarrow> [] | Some s \<Rightarrow> s)"

definition step_ok :: "workflow_step_row \<Rightarrow> bool" where
  "step_ok r = (upper_of (wsr_phase r) = ''SUCCEEDED'')"

definition step_failed :: "workflow_step_row \<Rightarrow> bool" where
  "step_failed r = (upper_of (wsr_phase r) \<in> {''FAILED'', ''ERROR''})"

definition step_bucket_key :: "workflow_step_row \<Rightarrow> quality_key option" where
  "step_bucket_key r = quality_key_of (wsr_dt r) (wsr_dataset_id r) (wsr_version r)"

definition flow_step :: "workflow_step_row \<Rightarrow> quality_bucket \<Rightarrow> quality_bucket" where
  "flow_step r b = b\<lparr>qb_family := or_else (qb_family b) (wsr_dataset_family r),
     qb_wf_names := List.insert (name_of r) (qb_wf_names b),
     qb_wf_success := (if step_ok r then List.insert (name_of r) (qb_wf_success b) else qb_wf_success b),
     qb_wf_fail := (if \<not> step_ok r \<and> step_failed r then List.insert (name_of r) (qb_wf_fail b) else qb_wf_fail b),
     qb_wf_durations := qb_wf_durations b @ opt_cons (wsr_duration_sec r)\<rparr>"

definition ml_bucket_key :: "date_range \<Rightarrow> ml_ready_row \<Rightarrow> quality_key option" where
  "ml_bucket_key w r = (if in_window w (fst (ml_created_at r)) then Some (fst (ml_created_at r), ml_dataset_id r, ml_version r) else None)"

definition ml_rows_of :: "ml_ready_row \<Rightarrow> int" where
  "ml_rows_of r = num_or_0 (ml_num_train r) + num_or_0 (ml_num_val r) + num_or_0 (ml_num_test r)"

definition ml_step :: "ml_ready_row \<Rightarrow> quality_bucket \<Rightarrow> quality_bucket" where
  "ml_step r b = b\<lparr>qb_ml_rows := max (qb_ml_rows b) (ml_rows_of r)\<rparr>"

definition snapshot_bucket_key :: "date_range \<Rightarrow> quality_snapshot_row \<Rightarrow> quality_key option" where
  "snapshot_bucket_key w r = (if in_window w (fst (qs_created_at r)) \<and> qs_quality_score r \<noteq> None
     then Some (fst (qs_created_at r), qs_dataset_id r, qs_version r) else None)"

definition snapshot_step :: "quality_snapshot_row \<Rightarrow> quality_bucket \<Rightarrow> quality_bucket" where
  "snapshot_step r b = b\<lparr>qb_scores := qb_scores b @ opt_cons (qs_quality_score r)\<rparr>"

text \<open>The rows that the queries of the builder return.\<close>

definition etl_rows_in :: "date_range \<Rightarrow> wh_db \<Rightarrow> etl_run_row list" where
  "etl_rows_in w db = filter (\<lambda>r. opt_in_window w (er_dt r)) (map snd (wb_etl db))"

definition summary_rows_in :: "date_range \<Rightarrow> wh_db \<Rightarrow> fact_rule_row list" where
  "summary_rows_in w db = filter (\<lambda>r. opt_in_window w (frr_dt r) \<and> frr_rule_id r = Some ''contract_status'') (map snd (wb_rules db))"

definition step_rows_in :: "date_range \<Rightarrow> wh_db \<Rightarrow> workflow_step_row list" where
  "step_rows_in w db = filter (\<lambda>r. opt_in_window w (wsr_dt r)) (map snd (wb_steps db))"

definition quality_buckets :: "date_range \<Rightarrow> wh_db \<Rightarrow> (quality_key \<times> quality_bucket) list" where
  "quality_buckets w db =
     group_into (snapshot_bucket_key w) snapshot_step empty_quality (wb_snapshots db)
      (group_into (ml_bucket_key w) ml_step empty_quality (wb_ml_ready db)
        (group_into step_bucket_key flow_step empty_quality (step_rows_in w db)
          (group_into qc_bucket_key qc_step empty_quality (summary_rows_in w db)
            (group_into etl_bucket_key etl_step empty_quality (etl_rows_in w db) []))))"

definition quality_row :: "datetime \<Rightarrow> quality_key \<Rightarrow> quality_bucket \<Rightarrow> dataset_quality_row" where
  "quality_row now k b = (case k of (d, ds, v) \<Rightarrow>
     \<lparr>dq_dt = d, dq_dataset_id = ds, dq_version = v, dq_dataset_family = qb_family b,
      dq_qc_run_count = qb_qc_runs b, dq_qc_pass_count = qb_qc_pass b, dq_qc_warn_count = qb_qc_warn b,
      dq_qc_fail_count = qb_qc_fail b, dq_qc_pass_rate = ratio (qb_qc_pass b) (qb_qc_runs b),
      dq_etl_run_count = qb_etl_runs b, dq_etl_success_count = qb_etl_success b, dq_etl_fail_count = qb_etl_fail b,
      dq_etl_success_rate = ratio (qb_etl_success b) (qb_etl_runs b),
      dq_workflow_count = int (length (qb_wf_names b)), dq_workflow_success_count = int (length (qb_wf_success b)),
      dq_workflow_fail_count = int (length (qb_wf_fail b)),
      dq_workflow_success_rate = ratio (int (length (qb_wf_success b))) (int (length (qb_wf_names b))),
      dq_avg_quality_score = mean (qb_scores b), dq_ml_ready_rows = qb_ml_rows b,
      dq_total_input_bytes = qb_input_bytes b, dq_total_output_bytes = qb_output_bytes b,
      dq_p95_etl_duration_sec = duration_percentile (qb_etl_durations b) (95/100),
      dq_p95_workflow_step_duration_sec = duration_percentile (qb_wf_durations b) (95/100),
      dq_stale_heartbeat_count = 0, dq_updated_at = now\<rparr>)"

definition build_dws_dataset_quality_daily :: "date_range \<Rightarrow> datetime \<Rightarrow> build_step" where
  "build_dws_dataset_quality_daily w now db =
     (let ps = map (\<lambda>(k, b). (k, quality_row now k b)) (quality_buckets w db)
      in (length ps, db\<lparr>wb_quality := upsert_all (\<lambda>p _. p) ps (wb_quality db)\<rparr>))"

section \<open>The same, row by row\<close>

definition set_size :: "'a list \<Rightarrow> int" where
  "set_size xs = int (card (set xs))"

definition first_family :: "string option list \<Rightarrow> string option" where
  "first_family fs = fold (\<lambda>f acc. or_else acc f) fs None"

definition quality_reference :: "date_range \<Rightarrow> datetime \<Rightarrow> wh_db \<Rightarrow> quality_key \<Rightarrow> dataset_quality_row" where
  "quality_reference w now db k = (case k of (d, ds, v) \<Rightarrow>
     let etl = rows_at etl_bucket_key k (etl_rows_in w db);
         qc = rows_at qc_bucket_key k (summary_rows_in w db);
         steps = rows_at step_bucket_key k (step_rows_in w db);
         mls = rows_at (ml_bucket_key w) k (wb_ml_ready db);
         snaps = rows_at (snapshot_bucket_key w) k (wb_snapshots db);
         qc_n = (\<lambda>s. int (length (filter (\<lambda>r. upper_of (frr_status r) = s) qc)));
         names = (\<lambda>P. set_size (map name_of (filter P steps)))
     in \<lparr>dq_dt = d, dq_dataset_id = ds, dq_version = v,
         dq_dataset_family = first_family (map er_dataset_family etl @ map frr_dataset_family qc @ map wsr_dataset_family steps),
         dq_qc_run_count = int (length qc), dq_qc_pass_count = qc_n ''PASS'', dq_qc_warn_count = qc_n ''WARN'',
         dq_qc_fail_count = qc_n ''FAIL'', dq_qc_pass_rate = ratio (qc_n ''PASS'') (int (length qc)),
         dq_etl_run_count = int (length etl), dq_etl_success_count = int (length (filter etl_ok etl)),
         dq_etl_fail_count = int (length (filter etl_failed etl)),
         dq_etl_success_rate = ratio (int (length (filter etl_ok etl))) (int (length etl)),
         dq_workflow_count = names (\<lambda>_. True), dq_workflow_success_count = names step_ok,
         dq_workflow_fail_count = names step_failed,
         dq_workflow_success_rate = ratio (names step_ok) (names (\<lambda>_. True)),
         dq_avg_quality_score = mean (concat (map (\<lambda>r. opt_cons (qs_quality_score r)) snaps)),
         dq_ml_ready_rows = Max (insert 0 (ml_rows_of ` set mls)),
         dq_total_input_bytes = sum_list (map (\<lambda>r. num_or_0 (er_input_bytes r)) etl),
         dq_total_output_bytes = sum_list (map (\<lambda>r. num_or_0 (er_output_bytes r)) etl),
         dq_p95_etl_duration_sec = percentile (concat (map (\<lambda>r. opt_cons (er_duration_sec r)) etl)) (95/100),
         dq_p95_workflow_step_duration_sec = percentile (concat (map (\<lambda>r. opt_cons (wsr_duration_sec r)) steps)) (95/100),
         dq_stale_heartbeat_count = 0, dq_updated_at = now\<rparr>)"

lemma etl_ok_failed: "etl_failed r \<Longrightarrow> \<not> etl_ok r"
  by (auto simp: etl_ok_def etl_failed_def)

lemma step_ok_failed: "step_failed r \<Longrightarrow> \<not> step_ok r"
  by (auto simp: step_ok_def step_failed_def)

lemma fold_etl: "fold etl_step rs b = b\<lparr>
    qb_family := fold (\<lambda>f acc. or_else acc f) (map er_dataset_family rs) (qb_family b),
    qb_etl_runs := qb_etl_runs b + int (length rs),
    qb_etl_success := qb_etl_success b + int (length (filter etl_ok rs)),
    qb_etl_fail := qb_etl_fail b + int (length (filter etl_failed rs)),
    qb_etl_durations := qb_etl_durations b @ concat (map (\<lambda>r. opt_cons (er_duration_sec r)) rs),
    qb_input_bytes := qb_input_bytes b + sum_list (map (\<lambda>r. num_or_0 (er_input_bytes r)) rs),
    qb_output_bytes := qb_output_bytes b + sum_list (map (\<lambda>r. num_or_0 (er_output_bytes r)) rs)\<rparr>"
proof (induction rs arbitrary: b)
  case (Cons r rs)
  show ?case using etl_ok_failed[of r] by (cases "etl_ok r"; cases "etl_failed r") (simp_all add: Cons.IH, simp_all add: etl_step_def)
qed simp

lemma fold_qc: "fold qc_step rs b = b\<lparr>
    qb_family := fold (\<lambda>f acc. or_else acc f) (map frr_dataset_family rs) (qb_family b),
    qb_qc_runs := qb_qc_runs b + int (length rs),
    qb_qc_pass := qb_qc_pass b + int (length (filter (\<lambda>r. upper_of (frr_status r) = ''PASS'') rs)),
    qb_qc_warn := qb_qc_warn b + int (length (filter (\<lambda>r. upper_of (frr_status r) = ''WARN'') rs)),
    qb_qc_fail := qb_qc_fail b + int (length (filter (\<lambda>r. upper_of (frr_status r) = ''FAIL'') rs))\<rparr>"
proof (induction rs arbitrary: b)
  case (Cons r rs)
  show ?case by (simp add: Cons.IH) (simp add: qc_step_def Let_def)
qed simp

definition insert_names :: "(workflow_step_row \<Rightarrow> bool) \<Rightarrow> workflow_step_row list \<Rightarrow> string list \<Rightarrow> string list" where
  "insert_names P rs xs = fold (\<lambda>r ys. if P r then List.insert (name_of r) ys else ys) rs xs"

lemma insert_names_set: "set (insert_names P rs xs) = set xs \<union> set (map name_of (filter P rs))"
  by (induction rs arbitrary: xs) (auto simp: insert_names_def)

lemma insert_names_distinct: "distinct xs \<Longrightarrow> distinct (insert_names P rs xs)"
  by (induction rs arbitrary: xs) (auto simp: insert_names_def)

lemma insert_names_size: "int (length (insert_names P rs [])) = set_size (map name_of (filter P rs))"
  unfolding set_size_def distinct_card[OF insert_names_distinct[OF distinct.simps(1)[THEN iffD2, OF TrueI]], of P rs, symmetric]
  by (simp add: insert_names_set)

lemma fold_flow: "fold flow_step rs b = b\<lparr>
    qb_family := fold (\<lambda>f acc. or_else acc f) (map wsr_dataset_family rs) (qb_family b),
    qb_wf_names := insert_names (\<lambda>_. True) rs (qb_wf_names b),
    qb_wf_success := insert_names step_ok rs (qb_wf_success b),
    qb_wf_fail := insert_names step_failed rs (qb_wf_fail b),
    qb_wf_durations := qb_wf_durations b @ concat (map (\<lambda>r. opt_cons (wsr_duration_sec r)) rs)\<rparr>"
proof (induction rs arbitrary: b)
  case Nil
  then show ?case by (simp add: insert_names_def)
next
  case (Cons r rs)
  show ?case using step_ok_failed[of r]
    by (cases "step_ok r"; cases "step_failed r") (simp_all add: Cons.IH, simp_all add: flow_step_def insert_names_def)
qed

lemma fold_ml: "fold ml_step rs b = b\<lparr>qb_ml_rows := fold (\<lambda>r m. max m (ml_rows_of r)) rs (qb_ml_rows b)\<rparr>"
  by (induction rs arbitrary: b) (simp_all add: ml_step_def)

lemma fold_max: "fold (\<lambda>r m. max m (f r)) rs n = Max (insert n (f ` set rs))" for f :: "'r \<Rightarrow> int"
proof (induction rs arbitrary: n)
  case (Cons r rs)
  have "Max (insert n (insert (f r) (f ` set rs))) = max n (Max (insert (f r) (f ` set rs)))"
    by (rule Max_insert) auto
  moreover have "Max (insert (max n (f r)) (f ` set rs)) = max n (Max (insert (f r) (f ` set rs)))"
    by (cases "rs = []") (simp_all add: max.assoc)
  ultimately show ?case by (simp add: Cons.IH)
qed simp

lemma fold_snapshot: "fold snapshot_step rs b = b\<lparr>qb_scores := qb_scores b @ concat (map (\<lambda>r. opt_cons (qs_quality_score r)) rs)\<rparr>"
  by (induction rs arbitrary: b) (simp_all add: snapshot_step_def)

lemma quality_bucket_row: "quality_row now k (bucket_at empty_quality (quality_buckets w db) k) = quality_reference w now db k"
  by (cases k) (simp add: quality_row_def quality_reference_def quality_buckets_def bucket_at_group
      fold_etl fold_qc fold_flow fold_ml fold_snapshot empty_quality_def Let_def first_family_def
      insert_names_size fold_max duration_percentile_eq)

text \<open>The keys that get a row.\<close>

definition quality_day :: "date_range \<Rightarrow> wh_db \<Rightarrow> quality_key \<Rightarrow> bool" where
  "quality_day w db k =
     ((\<exists>r\<in>set (etl_rows_in w db). etl_bucket_key r = Some k) \<or>
      (\<exists>r\<in>set (summary_rows_in w db). qc_bucket_key r = Some k) \<or>
      (\<exists>r\<in>set (step_rows_in w db). step_bucket_key r = Some k) \<or>
      (\<exists>r\<in>set (wb_ml_ready db). ml_bucket_key w r = Some k) \<or>
      (\<exists>r\<in>set (wb_snapshots db). snapshot_bucket_key w r = Some k))"

lemma quality_buckets_ok: "dict_ok (quality_buckets w db)"
  unfolding quality_buckets_def by (intro group_into_ok) simp

lemma quality_buckets_keys: "k \<in> set (dict_keys (quality_buckets w db)) \<longleftrightarrow> quality_day w db k"
  unfolding quality_buckets_def quality_day_def group_into_keys by auto

lemma quality_daily_lookup:
  "map_of (wb_quality (snd (build_dws_dataset_quality_daily w now db))) k =
    (if quality_day w db k then Some (quality_reference w now db k) else map_of (wb_quality db) k)"
  unfolding build_dws_dataset_quality_daily_def Let_def
  using rows_of_buckets[OF quality_buckets_ok, of "quality_row now" w db "wb_quality db" k empty_quality]
  by (simp add: quality_buckets_keys quality_bucket_row del: set_map)

lemma set_size_mono: "set xs \<subseteq> set ys \<Longrightarrow> set_size xs \<le> set_size ys"
  by (simp add: set_size_def card_mono)

lemma ratio_bounds: "0 \<le> a \<Longrightarrow> a \<le> n \<Longrightarrow> ratio a n = Some q \<Longrightarrow> 0 \<le> q \<and> q \<le> 1"
proof -
  assume a: "0 \<le> a" "a \<le> n" "ratio a n = Some q"
  then have n: "0 < n" and q: "q = of_int a / of_int n" by (auto simp: ratio_def split: if_splits)
  have "(of_int a :: rat) \<le> of_int n" using a(2) by simp
  then show "0 \<le> q \<and> q \<le> 1" using a(1) n by (simp add: q)
qed

lemma quality_daily_count:
  "fst (build_dws_dataset_quality_daily w now db) = card {k. quality_day w db k}"
proof -
  have "fst (build_dws_dataset_quality_daily w now db) = length (dict_keys (quality_buckets w db))"
    by (simp add: build_dws_dataset_quality_daily_def Let_def)
  also have "\<dots> = card (set (dict_keys (quality_buckets w db)))" by (rule distinct_card[OF quality_buckets_ok, symmetric])
  also have "set (dict_keys (quality_buckets w db)) = {k. quality_day w db k}" using quality_buckets_keys by blast
  finally show ?thesis .
qed

section \<open>Properties\<close>

text \<open>C26. The daily quality table after a pass: every data set and day with an ETL fact that is not open, a
  contract summary, a workflow step, a training export or a score in the window has exactly the row that
  counting, averaging and ranking its own facts gives; every other row is as it was; and the number
  returned is the number of rows written.\<close>

theorem quality_daily_correct:
  "case build_dws_dataset_quality_daily w now db of (n, db') \<Rightarrow>
    n = card {k. quality_day w db k} \<and> db' = db\<lparr>wb_quality := wb_quality db'\<rparr> \<and>
    (\<forall>k. map_of (wb_quality db') k =
      (if quality_day w db k then Some (quality_reference w now db k) else map_of (wb_quality db) k))"
proof -
  have "snd (build_dws_dataset_quality_daily w now db) =
      db\<lparr>wb_quality := wb_quality (snd (build_dws_dataset_quality_daily w now db))\<rparr>"
    by (simp add: build_dws_dataset_quality_daily_def Let_def)
  then show ?thesis
    using quality_daily_count[of w now db] quality_daily_lookup[of w now db] by (simp add: case_prod_beta)
qed

text \<open>Consistency of a row of the daily quality table: the outcomes counted are at most the runs, a
  workflow counts as successful or failed only if it is counted, and every rate lies between 0 and 1.\<close>

theorem quality_row_consistent:
  "let r = quality_reference w now db k in
    0 \<le> dq_etl_success_count r \<and> 0 \<le> dq_etl_fail_count r \<and>
    dq_etl_success_count r + dq_etl_fail_count r \<le> dq_etl_run_count r \<and>
    dq_qc_pass_count r + dq_qc_warn_count r + dq_qc_fail_count r \<le> dq_qc_run_count r \<and>
    dq_workflow_success_count r \<le> dq_workflow_count r \<and> dq_workflow_fail_count r \<le> dq_workflow_count r \<and>
    list_all (\<lambda>q. 0 \<le> q \<and> q \<le> 1)
      (opt_cons (dq_etl_success_rate r) @ opt_cons (dq_qc_pass_rate r) @ opt_cons (dq_workflow_success_rate r))"
proof -
  obtain d ds v where k: "k = (d, ds, v)" by (cases k)
  define etl where "etl = rows_at etl_bucket_key k (etl_rows_in w db)"
  define qc where "qc = rows_at qc_bucket_key k (summary_rows_in w db)"
  define steps where "steps = rows_at step_bucket_key k (step_rows_in w db)"
  let ?n = "\<lambda>s. length (filter (\<lambda>r. upper_of (frr_status r) = s) qc)"
  let ?names = "\<lambda>P. set_size (map name_of (filter P steps))"
  have two: "length (filter etl_ok etl) + length (filter etl_failed etl) \<le> length etl"
    by (induction etl) (auto dest: etl_ok_failed)
  have three: "?n ''PASS'' + ?n ''WARN'' + ?n ''FAIL'' \<le> length qc"
    by (induction qc) auto
  have names: "?names P \<le> ?names (\<lambda>_. True)" "0 \<le> ?names P" for P
    by (intro set_size_mono) (auto simp: set_size_def)
  define r where "r = quality_reference w now db k"
  have r: "dq_etl_success_count r = int (length (filter etl_ok etl))" "dq_etl_fail_count r = int (length (filter etl_failed etl))"
    "dq_etl_run_count r = int (length etl)" "dq_qc_pass_count r = int (?n ''PASS'')" "dq_qc_warn_count r = int (?n ''WARN'')"
    "dq_qc_fail_count r = int (?n ''FAIL'')" "dq_qc_run_count r = int (length qc)"
    "dq_workflow_success_count r = ?names step_ok" "dq_workflow_fail_count r = ?names step_failed"
    "dq_workflow_count r = ?names (\<lambda>_. True)" "dq_etl_success_rate r = ratio (int (length (filter etl_ok etl))) (int (length etl))"
    "dq_qc_pass_rate r = ratio (int (?n ''PASS'')) (int (length qc))"
    "dq_workflow_success_rate r = ratio (?names step_ok) (?names (\<lambda>_. True))"
    unfolding r_def quality_reference_def Let_def k prod.case etl_def qc_def steps_def by simp_all
  have rates: "list_all (\<lambda>q. 0 \<le> q \<and> q \<le> 1) (opt_cons (ratio a n))" if "0 \<le> a" "a \<le> n" for a n
    using ratio_bounds[OF that] by (cases "ratio a n") (auto simp: opt_cons_def)
  have le: "int (length (filter etl_ok etl)) \<le> int (length etl)" "int (?n ''PASS'') \<le> int (length qc)"
    using two three by linarith+
  show ?thesis unfolding Let_def r_def[symmetric] r list_all_append
    using two three names rates[OF _ le(1)] rates[OF _ le(2)] rates[OF names(2) names(1)] by simp
qed

end
