(* ===== verification/Warehouse_Ops.thy ===== *)
theory Warehouse_Ops
  imports Warehouse_Daily
begin

text \<open>
  Three more daily aggregates of \<^verbatim>\<open>src/robot_dh/warehouse_metrics/builder.py\<close>: failures per quality
  rule, operations per type of workflow, and inference jobs per model and task type.
\<close>

section \<open>Failures per rule\<close>

record rule_bucket =
  rb_run :: int
  rb_pass :: int
  rb_warn :: int
  rb_fail :: int

definition empty_rule :: rule_bucket where
  "empty_rule = \<lparr>rb_run = 0, rb_pass = 0, rb_warn = 0, rb_fail = 0\<rparr>"

definition rule_rows_in :: "date_range \<Rightarrow> wh_db \<Rightarrow> fact_rule_row list" where
  "rule_rows_in w db = filter (\<lambda>r. opt_in_window w (frr_dt r) \<and>
     (case frr_rule_id r of None \<Rightarrow> False | Some i \<Rightarrow> i \<noteq> ''contract_status'')) (map snd (wb_rules db))"

definition rule_bucket_key :: "fact_rule_row \<Rightarrow> rule_key option" where
  "rule_bucket_key r = (case (frr_dt r, frr_rule_id r) of
     (Some d, Some i) \<Rightarrow> Some (d, opt_or (frr_dataset_family r) ''unknown'', opt_or (frr_contract_id r) ''unknown'', i,
                            opt_or (frr_severity r) ''unknown'')
   | _ \<Rightarrow> None)"

definition rule_step :: "fact_rule_row \<Rightarrow> rule_bucket \<Rightarrow> rule_bucket" where
  "rule_step r b = (let s = upper_of (frr_status r) in
     b\<lparr>rb_run := rb_run b + 1, rb_pass := rb_pass b + (if s = ''PASS'' then 1 else 0),
       rb_warn := rb_warn b + (if s = ''WARN'' then 1 else 0), rb_fail := rb_fail b + (if s = ''FAIL'' then 1 else 0)\<rparr>)"

definition rule_row :: "datetime \<Rightarrow> rule_key \<Rightarrow> rule_bucket \<Rightarrow> rule_failure_row" where
  "rule_row now k b = (case k of (d, fam, c, i, sev) \<Rightarrow>
     \<lparr>rf_dt = d, rf_dataset_family = fam, rf_contract_id = c, rf_rule_id = i, rf_severity = sev,
      rf_run_count = rb_run b, rf_pass_count = rb_pass b, rf_warn_count = rb_warn b, rf_fail_count = rb_fail b,
      rf_fail_rate = ratio (rb_fail b) (rb_run b), rf_updated_at = now\<rparr>)"

definition rule_buckets :: "date_range \<Rightarrow> wh_db \<Rightarrow> (rule_key \<times> rule_bucket) list" where
  "rule_buckets w db = group_into rule_bucket_key rule_step empty_rule (rule_rows_in w db) []"

definition build_dws_rule_failure_daily :: "date_range \<Rightarrow> datetime \<Rightarrow> build_step" where
  "build_dws_rule_failure_daily w now db = (let ps = map (\<lambda>(k, b). (k, rule_row now k b)) (rule_buckets w db)
     in (length ps, db\<lparr>wb_rule_daily := upsert_all (\<lambda>p _. p) ps (wb_rule_daily db)\<rparr>))"

definition rule_reference :: "datetime \<Rightarrow> rule_key \<Rightarrow> fact_rule_row list \<Rightarrow> rule_failure_row" where
  "rule_reference now k rs = (case k of (d, fam, c, i, sev) \<Rightarrow>
     let count = (\<lambda>s. int (length (filter (\<lambda>r. upper_of (frr_status r) = s) rs)))
     in \<lparr>rf_dt = d, rf_dataset_family = fam, rf_contract_id = c, rf_rule_id = i, rf_severity = sev,
         rf_run_count = int (length rs), rf_pass_count = count ''PASS'', rf_warn_count = count ''WARN'',
         rf_fail_count = count ''FAIL'', rf_fail_rate = ratio (count ''FAIL'') (int (length rs)), rf_updated_at = now\<rparr>)"

lemma fold_rule: "fold rule_step rs b = b\<lparr>rb_run := rb_run b + int (length rs),
    rb_pass := rb_pass b + int (length (filter (\<lambda>r. upper_of (frr_status r) = ''PASS'') rs)),
    rb_warn := rb_warn b + int (length (filter (\<lambda>r. upper_of (frr_status r) = ''WARN'') rs)),
    rb_fail := rb_fail b + int (length (filter (\<lambda>r. upper_of (frr_status r) = ''FAIL'') rs))\<rparr>"
proof (induction rs arbitrary: b)
  case (Cons r rs)
  show ?case by (simp add: Cons.IH) (simp add: rule_step_def Let_def)
qed simp

lemma rule_bucket_row: "rule_row now k (bucket_at empty_rule (rule_buckets w db) k) =
    rule_reference now k (rows_at rule_bucket_key k (rule_rows_in w db))"
  by (cases k) (simp add: rule_row_def rule_reference_def rule_buckets_def bucket_at_group fold_rule empty_rule_def Let_def)

lemma rule_daily_lookup:
  "map_of (wb_rule_daily (snd (build_dws_rule_failure_daily w now db))) k =
    (if rows_at rule_bucket_key k (rule_rows_in w db) \<noteq> []
     then Some (rule_reference now k (rows_at rule_bucket_key k (rule_rows_in w db)))
     else map_of (wb_rule_daily db) k)"
proof -
  have ok: "dict_ok (rule_buckets w db)" unfolding rule_buckets_def by (intro group_into_ok) simp
  have keys: "k \<in> set (dict_keys (rule_buckets w db)) \<longleftrightarrow> rows_at rule_bucket_key k (rule_rows_in w db) \<noteq> []"
    unfolding rule_buckets_def group_into_keys rows_at_empty by auto
  show ?thesis unfolding build_dws_rule_failure_daily_def Let_def
    using rows_of_buckets[OF ok, of "rule_row now" "wb_rule_daily db" k empty_rule]
    by (simp add: keys rule_bucket_row del: set_map)
qed

section \<open>Operations per type of workflow\<close>

record ops_bucket =
  ob_names :: "string list"
  ob_success :: "string list"
  ob_failed :: "string list"
  ob_running :: "string list"
  ob_durations :: "rat list"
  ob_deadline :: int
  ob_oom :: int
  ob_nonzero :: int

definition empty_ops :: ops_bucket where
  "empty_ops = \<lparr>ob_names = [], ob_success = [], ob_failed = [], ob_running = [], ob_durations = [],
     ob_deadline = 0, ob_oom = 0, ob_nonzero = 0\<rparr>"

definition ops_bucket_key :: "workflow_step_row \<Rightarrow> ops_key option" where
  "ops_bucket_key r = map_option (\<lambda>d. (d, opt_or (wsr_workflow_type r) ''unknown'')) (wsr_dt r)"

definition step_running :: "workflow_step_row \<Rightarrow> bool" where
  "step_running r = (upper_of (wsr_phase r) \<in> {''RUNNING'', ''PENDING''})"

definition deadline_hit :: "workflow_step_row \<Rightarrow> bool" where
  "deadline_hit r = (upper_of (wsr_container_reason r) = ''DEADLINEEXCEEDED'')"

definition oom_killed :: "workflow_step_row \<Rightarrow> bool" where
  "oom_killed r = (upper_of (wsr_container_reason r) = ''OOMKILLED'')"

definition exit_nonzero :: "workflow_step_row \<Rightarrow> bool" where
  "exit_nonzero r = (num_or_0 (wsr_exit_code r) \<noteq> 0)"

definition ops_step :: "workflow_step_row \<Rightarrow> ops_bucket \<Rightarrow> ops_bucket" where
  "ops_step r b = b\<lparr>ob_names := List.insert (name_of r) (ob_names b),
     ob_success := (if step_ok r then List.insert (name_of r) (ob_success b) else ob_success b),
     ob_failed := (if \<not> step_ok r \<and> step_failed r then List.insert (name_of r) (ob_failed b) else ob_failed b),
     ob_running := (if \<not> step_ok r \<and> \<not> step_failed r \<and> step_running r then List.insert (name_of r) (ob_running b) else ob_running b),
     ob_durations := ob_durations b @ opt_cons (wsr_duration_sec r),
     ob_deadline := ob_deadline b + (if deadline_hit r then 1 else 0),
     ob_oom := ob_oom b + (if oom_killed r then 1 else 0),
     ob_nonzero := ob_nonzero b + (if exit_nonzero r then 1 else 0)\<rparr>"

definition ops_row :: "datetime \<Rightarrow> ops_key \<Rightarrow> ops_bucket \<Rightarrow> ops_daily_row" where
  "ops_row now k b = (case k of (d, t) \<Rightarrow>
     \<lparr>wod_dt = d, wod_workflow_type = t, wod_workflow_count = int (length (ob_names b)),
      wod_success_count = int (length (ob_success b)), wod_failed_count = int (length (ob_failed b)),
      wod_running_count = int (length (ob_running b)),
      wod_success_rate = ratio (int (length (ob_success b))) (int (length (ob_names b))),
      wod_avg_duration_sec = mean (ob_durations b), wod_p95_duration_sec = duration_percentile (ob_durations b) (95/100),
      wod_deadline_exceeded_count = ob_deadline b, wod_oom_count = ob_oom b, wod_nonzero_exit_count = ob_nonzero b,
      wod_updated_at = now\<rparr>)"

definition ops_buckets :: "date_range \<Rightarrow> wh_db \<Rightarrow> (ops_key \<times> ops_bucket) list" where
  "ops_buckets w db = group_into ops_bucket_key ops_step empty_ops (step_rows_in w db) []"

definition build_dws_workflow_ops_daily :: "date_range \<Rightarrow> datetime \<Rightarrow> build_step" where
  "build_dws_workflow_ops_daily w now db = (let ps = map (\<lambda>(k, b). (k, ops_row now k b)) (ops_buckets w db)
     in (length ps, db\<lparr>wb_ops_daily := upsert_all (\<lambda>p _. p) ps (wb_ops_daily db)\<rparr>))"

definition ops_reference :: "datetime \<Rightarrow> ops_key \<Rightarrow> workflow_step_row list \<Rightarrow> ops_daily_row" where
  "ops_reference now k rs = (case k of (d, t) \<Rightarrow>
     let names = (\<lambda>P. set_size (map name_of (filter P rs)));
         durations = concat (map (\<lambda>r. opt_cons (wsr_duration_sec r)) rs)
     in \<lparr>wod_dt = d, wod_workflow_type = t, wod_workflow_count = names (\<lambda>_. True), wod_success_count = names step_ok,
         wod_failed_count = names step_failed, wod_running_count = names step_running,
         wod_success_rate = ratio (names step_ok) (names (\<lambda>_. True)),
         wod_avg_duration_sec = mean durations, wod_p95_duration_sec = percentile durations (95/100),
         wod_deadline_exceeded_count = int (length (filter deadline_hit rs)),
         wod_oom_count = int (length (filter oom_killed rs)),
         wod_nonzero_exit_count = int (length (filter exit_nonzero rs)), wod_updated_at = now\<rparr>)"

lemma step_running_excl: "step_running r \<Longrightarrow> \<not> step_ok r \<and> \<not> step_failed r"
  by (auto simp: step_ok_def step_failed_def step_running_def)

lemma fold_ops: "fold ops_step rs b = b\<lparr>ob_names := insert_names (\<lambda>_. True) rs (ob_names b),
    ob_success := insert_names step_ok rs (ob_success b), ob_failed := insert_names step_failed rs (ob_failed b),
    ob_running := insert_names step_running rs (ob_running b),
    ob_durations := ob_durations b @ concat (map (\<lambda>r. opt_cons (wsr_duration_sec r)) rs),
    ob_deadline := ob_deadline b + int (length (filter deadline_hit rs)),
    ob_oom := ob_oom b + int (length (filter oom_killed rs)),
    ob_nonzero := ob_nonzero b + int (length (filter exit_nonzero rs))\<rparr>"
proof (induction rs arbitrary: b)
  case Nil
  then show ?case by (simp add: insert_names_def)
next
  case (Cons r rs)
  have s: "ops_step r b = b\<lparr>ob_names := List.insert (name_of r) (ob_names b),
     ob_success := (if step_ok r then List.insert (name_of r) (ob_success b) else ob_success b),
     ob_failed := (if step_failed r then List.insert (name_of r) (ob_failed b) else ob_failed b),
     ob_running := (if step_running r then List.insert (name_of r) (ob_running b) else ob_running b),
     ob_durations := ob_durations b @ opt_cons (wsr_duration_sec r),
     ob_deadline := ob_deadline b + (if deadline_hit r then 1 else 0),
     ob_oom := ob_oom b + (if oom_killed r then 1 else 0),
     ob_nonzero := ob_nonzero b + (if exit_nonzero r then 1 else 0)\<rparr>"
    using step_ok_failed[of r] step_running_excl[of r] by (auto simp: ops_step_def)
  have i: "insert_names P (r # rs) xs = insert_names P rs (if P r then List.insert (name_of r) xs else xs)" for P xs
    by (simp add: insert_names_def)
  show ?case unfolding fold_simps comp_apply Cons.IH s i by simp
qed

lemma ops_bucket_row: "ops_row now k (bucket_at empty_ops (ops_buckets w db) k) =
    ops_reference now k (rows_at ops_bucket_key k (step_rows_in w db))"
  by (cases k) (simp add: ops_row_def ops_reference_def ops_buckets_def bucket_at_group fold_ops empty_ops_def Let_def
      insert_names_size duration_percentile_eq)

lemma ops_daily_lookup:
  "map_of (wb_ops_daily (snd (build_dws_workflow_ops_daily w now db))) k =
    (if rows_at ops_bucket_key k (step_rows_in w db) \<noteq> []
     then Some (ops_reference now k (rows_at ops_bucket_key k (step_rows_in w db)))
     else map_of (wb_ops_daily db) k)"
proof -
  have ok: "dict_ok (ops_buckets w db)" unfolding ops_buckets_def by (intro group_into_ok) simp
  have keys: "k \<in> set (dict_keys (ops_buckets w db)) \<longleftrightarrow> rows_at ops_bucket_key k (step_rows_in w db) \<noteq> []"
    unfolding ops_buckets_def group_into_keys rows_at_empty by auto
  show ?thesis unfolding build_dws_workflow_ops_daily_def Let_def
    using rows_of_buckets[OF ok, of "ops_row now" "wb_ops_daily db" k empty_ops]
    by (simp add: keys ops_bucket_row del: set_map)
qed

end
