(* ===== verification/Warehouse_Inference.thy ===== *)
theory Warehouse_Inference
  imports Warehouse_Ops
begin

text \<open>
  The inference layer of the build on SQLite, \<^verbatim>\<open>src/robot_dh/warehouse_metrics/builder.py\<close>: inference
  jobs per day, model and task type, and the dashboard with its alerts and the most frequent error.
\<close>

section \<open>Jobs per model\<close>

definition job_day :: "inference_job_row \<Rightarrow> date" where
  "job_day j = fst (case ijr_finished_at j of Some t \<Rightarrow> t
     | None \<Rightarrow> (case ijr_started_at j of Some t \<Rightarrow> t | None \<Rightarrow> ijr_created_at j))"

definition task_type_of :: "inference_job_row \<Rightarrow> string" where
  "task_type_of j = (if ijr_task_type j = [] then ''unknown'' else ijr_task_type j)"

definition job_bucket_key :: "date_range \<Rightarrow> inference_job_row \<Rightarrow> quality_key option" where
  "job_bucket_key w j = (if in_window w (job_day j) then Some (job_day j, ijr_model_id j, task_type_of j) else None)"

definition model_backends :: "wh_db \<Rightarrow> (string \<times> string) list" where
  "model_backends db = fold (\<lambda>m. dict_set (mrr_model_id m) (mrr_backend m)) (wb_models db) []"

definition latencies_by_job :: "wh_db \<Rightarrow> (string \<times> rat list) list" where
  "latencies_by_job db = group_into (\<lambda>r. map_option (\<lambda>_. ior_job_id r) (ior_latency_ms r))
     (\<lambda>r ls. ls @ opt_cons (ior_latency_ms r)) [] (wb_outputs db) []"

record inference_bucket =
  ib_jobs :: int
  ib_success :: int
  ib_fail :: int
  ib_total :: int
  ib_processed :: int
  ib_failed :: int
  ib_duration :: rat
  ib_latencies :: "rat list"
  ib_backend :: "string option"

definition empty_inference :: inference_bucket where
  "empty_inference = \<lparr>ib_jobs = 0, ib_success = 0, ib_fail = 0, ib_total = 0, ib_processed = 0, ib_failed = 0,
     ib_duration = 0, ib_latencies = [], ib_backend = None\<rparr>"

definition job_succeeded :: "inference_job_row \<Rightarrow> bool" where
  "job_succeeded j = (upper (ijr_status j) \<in> {''SUCCEEDED'', ''OK''})"

definition job_failed :: "inference_job_row \<Rightarrow> bool" where
  "job_failed j = (upper (ijr_status j) \<in> {''FAILED'', ''DEAD_LETTER''})"

text \<open>The back end is looked up by the model of the bucket, at its first job or as long as it is missing.\<close>

definition job_bucket_step :: "wh_db \<Rightarrow> inference_job_row \<Rightarrow> inference_bucket \<Rightarrow> inference_bucket" where
  "job_bucket_step db j b = b\<lparr>ib_jobs := ib_jobs b + 1,
     ib_success := ib_success b + (if job_succeeded j then 1 else 0),
     ib_fail := ib_fail b + (if \<not> job_succeeded j \<and> job_failed j then 1 else 0),
     ib_total := ib_total b + ijr_total_samples j, ib_processed := ib_processed b + ijr_processed_samples j,
     ib_failed := ib_failed b + ijr_failed_samples j,
     ib_duration := ib_duration b + (case ijr_duration_sec j of None \<Rightarrow> 0 | Some q \<Rightarrow> q),
     ib_latencies := ib_latencies b @ dict_get (latencies_by_job db) (ijr_job_id j) [],
     ib_backend := (case ib_backend b of None \<Rightarrow> map_of (model_backends db) (ijr_model_id j) | Some s \<Rightarrow> Some s)\<rparr>"

definition inference_buckets :: "date_range \<Rightarrow> wh_db \<Rightarrow> (quality_key \<times> inference_bucket) list" where
  "inference_buckets w db = group_into (job_bucket_key w) (job_bucket_step db) empty_inference (wb_jobs db) []"

definition inference_row :: "datetime \<Rightarrow> quality_key \<Rightarrow> inference_bucket \<Rightarrow> inference_daily_row" where
  "inference_row now k b = (case k of (d, m, t) \<Rightarrow>
     \<lparr>idr_dt = d, idr_model_id = m, idr_backend = ib_backend b, idr_task_type = t, idr_job_count = ib_jobs b,
      idr_success_count = ib_success b, idr_fail_count = ib_fail b, idr_success_rate = ratio (ib_success b) (ib_jobs b),
      idr_total_samples = ib_total b,
      idr_samples_per_sec = (if ib_duration b > 0 then Some (of_int (ib_processed b) / ib_duration b) else None),
      idr_avg_latency_ms = mean (ib_latencies b), idr_p95_latency_ms = percentile (ib_latencies b) (95/100),
      idr_error_rate = Some (if ib_total b \<noteq> 0 then of_int (ib_failed b) / of_int (ib_total b) else 0),
      idr_updated_at = now\<rparr>)"

definition build_dws_inference_job_daily :: "date_range \<Rightarrow> datetime \<Rightarrow> build_step" where
  "build_dws_inference_job_daily w now db = (let ps = map (\<lambda>(k, b). (k, inference_row now k b)) (inference_buckets w db)
     in (length ps, db\<lparr>wb_inference := upsert_all (\<lambda>p _. p) ps (wb_inference db)\<rparr>))"

text \<open>The same from the jobs of a key.\<close>

definition latencies_of :: "wh_db \<Rightarrow> inference_job_row \<Rightarrow> rat list" where
  "latencies_of db j = concat (map (\<lambda>r. opt_cons (ior_latency_ms r)) (filter (\<lambda>r. ior_job_id r = ijr_job_id j) (wb_outputs db)))"

definition inference_reference :: "datetime \<Rightarrow> wh_db \<Rightarrow> quality_key \<Rightarrow> inference_job_row list \<Rightarrow> inference_daily_row" where
  "inference_reference now db k js = (case k of (d, m, t) \<Rightarrow>
     let ok = int (length (filter job_succeeded js)); n = int (length js);
         total_n = sum_list (map ijr_total_samples js);
         secs = sum_list (map (\<lambda>j. case ijr_duration_sec j of None \<Rightarrow> 0 | Some q \<Rightarrow> q) js);
         lats = concat (map (latencies_of db) js)
     in \<lparr>idr_dt = d, idr_model_id = m, idr_backend = map_of (model_backends db) m, idr_task_type = t, idr_job_count = n,
         idr_success_count = ok, idr_fail_count = int (length (filter job_failed js)), idr_success_rate = ratio ok n,
         idr_total_samples = total_n,
         idr_samples_per_sec = (if secs > 0 then Some (of_int (sum_list (map ijr_processed_samples js)) / secs) else None),
         idr_avg_latency_ms = mean lats, idr_p95_latency_ms = percentile lats (95/100),
         idr_error_rate = Some (if total_n \<noteq> 0 then of_int (sum_list (map ijr_failed_samples js)) / of_int total_n else 0),
         idr_updated_at = now\<rparr>)"

lemma latencies_by_job_lookup: "dict_get (latencies_by_job db) (ijr_job_id j) [] = latencies_of db j"
proof -
  let ?kf = "\<lambda>r. map_option (\<lambda>_. ior_job_id r) (ior_latency_ms r)"
  let ?rows = "rows_at ?kf (ijr_job_id j) (wb_outputs db)"
  have f: "fold (\<lambda>r ls. ls @ opt_cons (ior_latency_ms r)) rs xs = xs @ concat (map (\<lambda>r. opt_cons (ior_latency_ms r)) rs)" for rs :: "inference_output_row list" and xs
    by (induction rs arbitrary: xs) simp_all
  have "concat (map (\<lambda>r. opt_cons (ior_latency_ms r)) (rows_at ?kf (ijr_job_id j) rs)) =
      concat (map (\<lambda>r. opt_cons (ior_latency_ms r)) (filter (\<lambda>r. ior_job_id r = ijr_job_id j) rs))" for rs :: "inference_output_row list"
    by (induction rs) (auto simp: rows_at_def opt_cons_def)
  then have "latencies_of db j = concat (map (\<lambda>r. opt_cons (ior_latency_ms r)) ?rows)" by (simp add: latencies_of_def)
  moreover have "dict_get (latencies_by_job db) (ijr_job_id j) [] = bucket_at [] (latencies_by_job db) (ijr_job_id j)"
    by (simp add: dict_get_def bucket_at_def)
  ultimately show ?thesis by (simp add: latencies_by_job_def bucket_at_group f)
qed

lemma job_failed_excl: "job_failed j \<Longrightarrow> \<not> job_succeeded j"
  by (auto simp: job_failed_def job_succeeded_def)

lemma fold_jobs:
  assumes "\<forall>j\<in>set js. ijr_model_id j = m"
  shows "fold (job_bucket_step db) js b = b\<lparr>ib_jobs := ib_jobs b + int (length js),
     ib_success := ib_success b + int (length (filter job_succeeded js)),
     ib_fail := ib_fail b + int (length (filter job_failed js)),
     ib_total := ib_total b + sum_list (map ijr_total_samples js),
     ib_processed := ib_processed b + sum_list (map ijr_processed_samples js),
     ib_failed := ib_failed b + sum_list (map ijr_failed_samples js),
     ib_duration := ib_duration b + sum_list (map (\<lambda>j. case ijr_duration_sec j of None \<Rightarrow> 0 | Some q \<Rightarrow> q) js),
     ib_latencies := ib_latencies b @ concat (map (latencies_of db) js),
     ib_backend := (if js = [] then ib_backend b else case ib_backend b of None \<Rightarrow> map_of (model_backends db) m | Some s \<Rightarrow> Some s)\<rparr>"
  using assms
proof (induction js arbitrary: b)
  case (Cons j js)
  have jm: "ijr_model_id j = m" using Cons.prems by simp
  have s: "job_bucket_step db j b = b\<lparr>ib_jobs := ib_jobs b + 1,
     ib_success := ib_success b + (if job_succeeded j then 1 else 0),
     ib_fail := ib_fail b + (if job_failed j then 1 else 0),
     ib_total := ib_total b + ijr_total_samples j, ib_processed := ib_processed b + ijr_processed_samples j,
     ib_failed := ib_failed b + ijr_failed_samples j,
     ib_duration := ib_duration b + (case ijr_duration_sec j of None \<Rightarrow> 0 | Some q \<Rightarrow> q),
     ib_latencies := ib_latencies b @ latencies_of db j,
     ib_backend := (case ib_backend b of None \<Rightarrow> map_of (model_backends db) m | Some s \<Rightarrow> Some s)\<rparr>"
    unfolding job_bucket_step_def latencies_by_job_lookup jm using job_failed_excl[of j] by auto
  have p: "\<forall>j\<in>set js. ijr_model_id j = m" using Cons.prems by simp
  show ?case unfolding fold_simps comp_apply Cons.IH[OF p] s by (simp split: option.splits)
qed simp

lemma inference_daily_lookup:
  "map_of (wb_inference (snd (build_dws_inference_job_daily w now db))) k =
    (if rows_at (job_bucket_key w) k (wb_jobs db) \<noteq> []
     then Some (inference_reference now db k (rows_at (job_bucket_key w) k (wb_jobs db)))
     else map_of (wb_inference db) k)"
proof -
  let ?js = "rows_at (job_bucket_key w) k (wb_jobs db)"
  obtain d m t where k: "k = (d, m, t)" by (cases k)
  have ok: "dict_ok (inference_buckets w db)" unfolding inference_buckets_def by (intro group_into_ok) simp
  have keys: "k \<in> set (dict_keys (inference_buckets w db)) \<longleftrightarrow> ?js \<noteq> []"
    unfolding inference_buckets_def group_into_keys rows_at_empty by auto
  define js where "js = ?js"
  have m: "\<forall>j\<in>set js. ijr_model_id j = m"
    by (auto simp: js_def rows_at_def job_bucket_key_def k split: if_splits)
  have "inference_row now k (fold (job_bucket_step db) js empty_inference) = inference_reference now db k js" if "js \<noteq> []"
    using that unfolding fold_jobs[OF m] by (simp add: inference_row_def inference_reference_def empty_inference_def Let_def k)
  then have "inference_row now k (bucket_at empty_inference (inference_buckets w db) k) = inference_reference now db k ?js" if "?js \<noteq> []"
    using that by (simp add: inference_buckets_def bucket_at_group js_def)
  then show ?thesis unfolding build_dws_inference_job_daily_def Let_def
    using rows_of_buckets[OF ok, of "inference_row now" "wb_inference db" k empty_inference]
    by (simp add: keys del: set_map)
qed

section \<open>The dashboard\<close>

definition failure_key :: "date_range \<Rightarrow> wh_db \<Rightarrow> inference_failure_row \<Rightarrow> quality_key option" where
  "failure_key w db f =
     (case map_of (fold (\<lambda>j. dict_set (ijr_job_id j) j) (wb_jobs db) []) (ifr_job_id f) of
        None \<Rightarrow> None | Some j \<Rightarrow> job_bucket_key w j)"

definition error_counts :: "date_range \<Rightarrow> wh_db \<Rightarrow> (quality_key \<times> (string \<times> nat) list) list" where
  "error_counts w db = group_into (failure_key w db) (\<lambda>f. dict_bump (opt_or (ifr_error_type f) ''UNKNOWN'')) [] (wb_failures db) []"

text \<open>\<open>max(counts.items(), key=count)\<close>: the first of the largest.\<close>

fun first_max :: "('a \<times> nat) list \<Rightarrow> ('a \<times> nat) option" where
  "first_max [] = None"
| "first_max (x # xs) = (case first_max xs of None \<Rightarrow> Some x | Some y \<Rightarrow> if snd x < snd y then Some y else Some x)"

definition inference_verdict :: "rat \<Rightarrow> rat \<Rightarrow> string \<times> string \<times> string option" where
  "inference_verdict sr er =
     (if sr < 8/10 \<or> er > 2/10 then
        (''FAIL'', ''CRITICAL'', Some (if sr < 8/10 then ''success_rate<0.8'' else ''error_rate>0.2''))
      else if sr < 95/100 then (''WARN'', ''WARN'', Some ''success_rate<0.95'')
      else (''PASS'', ''OK'', None))"

definition opt_rat :: "rat option \<Rightarrow> rat \<Rightarrow> rat" where
  "opt_rat q d = (case q of None \<Rightarrow> d | Some x \<Rightarrow> x)"

definition ads_inference_of :: "date_range \<Rightarrow> datetime \<Rightarrow> wh_db \<Rightarrow> inference_daily_row \<Rightarrow> ads_inference_row" where
  "ads_inference_of w now db d =
     (case inference_verdict (opt_rat (idr_success_rate d) 1) (opt_rat (idr_error_rate d) 0) of (overall, alert, reason) \<Rightarrow>
       \<lparr>aid_dt = idr_dt d, aid_model_id = idr_model_id d, aid_backend = idr_backend d, aid_task_type = idr_task_type d,
        aid_overall_status = Some overall, aid_job_count = Some (idr_job_count d), aid_success_rate = idr_success_rate d,
        aid_total_samples = Some (idr_total_samples d), aid_samples_per_sec = idr_samples_per_sec d,
        aid_p95_latency_ms = idr_p95_latency_ms d, aid_error_rate = idr_error_rate d,
        aid_top_error_type = map_option fst (first_max (dict_get (error_counts w db) (idr_dt d, idr_model_id d, idr_task_type d) [])),
        aid_alert_level = Some alert, aid_alert_reason = reason, aid_updated_at = now\<rparr>)"

definition build_ads_inference_dashboard :: "date_range \<Rightarrow> datetime \<Rightarrow> build_step" where
  "build_ads_inference_dashboard w now db =
     (let ps = map (\<lambda>d. ((idr_dt d, idr_model_id d, idr_task_type d), ads_inference_of w now db d))
                 (filter (\<lambda>d. in_window w (idr_dt d)) (map snd (wb_inference db)))
      in (length ps, db\<lparr>wb_ads_inference := upsert_all (\<lambda>p _. p) ps (wb_ads_inference db)\<rparr>))"

end
