(* ===== verification/Warehouse_Dashboards.thy ===== *)
theory Warehouse_Dashboards
  imports Warehouse_Inference
begin

text \<open>
  The dashboards of the build on SQLite, \<^verbatim>\<open>src/robot_dh/warehouse_metrics/builder.py\<close>: the verdict
  on every data set and day, with its score, its alert and the rule that fails most, and the verdict on
  every type of workflow and day.
\<close>

section \<open>Quality of data sets\<close>

definition failing_rules :: "date_range \<Rightarrow> wh_db \<Rightarrow> rule_failure_row list" where
  "failing_rules w db = filter (\<lambda>r. in_window w (rf_dt r) \<and> 0 < rf_fail_count r) (map snd (wb_rule_daily db))"

text \<open>The failing rule with the highest count for a day and a family; the first of several.\<close>

definition top_rules :: "date_range \<Rightarrow> wh_db \<Rightarrow> ((date \<times> string option) \<times> rule_failure_row option) list" where
  "top_rules w db = group_into (\<lambda>r. Some (rf_dt r, Some (rf_dataset_family r)))
     (\<lambda>r cur. case cur of None \<Rightarrow> Some r | Some c \<Rightarrow> if rf_fail_count c < rf_fail_count r then Some r else Some c)
     None (failing_rules w db) []"

type_synonym layer_key = "date option \<times> string option \<times> string option"

definition layer_bytes :: "string list \<Rightarrow> date_range \<Rightarrow> wh_db \<Rightarrow> (layer_key \<times> int) list" where
  "layer_bytes layers w db = group_into
     (\<lambda>a. if lower (opt_or (fap_layer a) []) \<in> set layers then Some (fap_dt a, fap_dataset_id a, fap_version a) else None)
     (\<lambda>a n. n + num_or_0 (fap_bytes a)) 0 (filter (\<lambda>a. opt_in_window w (fap_dt a)) (map snd (wb_assets db))) []"

definition quality_verdict :: "rat \<Rightarrow> rat \<Rightarrow> string \<times> string \<times> string option" where
  "quality_verdict qc etl =
     (let (overall, alert) = (if qc < 8/10 \<or> etl < 8/10 then (''FAIL'', ''CRITICAL'')
            else if qc < 95/100 then (''WARN'', ''WARN'') else (''PASS'', ''OK''));
          reason = (if qc < 8/10 then Some ''qc_pass_rate<0.8''
            else if etl < 8/10 then Some ''etl_success_rate<0.8''
            else if qc < 95/100 then Some ''qc_pass_rate<0.95'' else None)
      in (overall, alert, reason))"

definition quality_score :: "rat \<Rightarrow> rat \<Rightarrow> rat \<Rightarrow> rat" where
  "quality_score qc etl flow = 100 * qc * (5/10) + 100 * etl * (3/10) + 100 * flow * (2/10)"

definition ads_quality_of :: "date_range \<Rightarrow> datetime \<Rightarrow> wh_db \<Rightarrow> dataset_quality_row \<Rightarrow> ads_row" where
  "ads_quality_of w now db d =
     (let qc = opt_rat (dq_qc_pass_rate d) 1; etl = opt_rat (dq_etl_success_rate d) 1;
          flow = opt_rat (dq_workflow_success_rate d) 1;
          top_rule = dict_get (top_rules w db) (dq_dt d, dq_dataset_family d) None;
          k = (Some (dq_dt d), Some (dq_dataset_id d), Some (dq_version d));
          (overall, alert, reason) = quality_verdict qc etl
      in \<lparr>ad_dt = dq_dt d, ad_dataset_id = dq_dataset_id d, ad_version = dq_version d,
          ad_dataset_family = dq_dataset_family d, ad_overall_status = Some overall,
          ad_quality_score = Some (quality_score qc etl flow), ad_qc_pass_rate = dq_qc_pass_rate d,
          ad_etl_success_rate = dq_etl_success_rate d, ad_workflow_success_rate = dq_workflow_success_rate d,
          ad_top_failed_rule = map_option rf_rule_id top_rule,
          ad_top_failed_rule_count = map_option rf_fail_count top_rule,
          ad_p95_duration_sec = dq_p95_workflow_step_duration_sec d, ad_ml_ready_rows = Some (dq_ml_ready_rows d),
          ad_raw_bytes = map_of (layer_bytes [''raw'', ''ods''] w db) k,
          ad_dwd_bytes = map_of (layer_bytes [''dwd''] w db) k, ad_alert_level = Some alert,
          ad_alert_reason = reason, ad_updated_at = now\<rparr>)"

definition quality_days_in :: "date_range \<Rightarrow> wh_db \<Rightarrow> dataset_quality_row list" where
  "quality_days_in w db = filter (\<lambda>d. in_window w (dq_dt d)) (map snd (wb_quality db))"

definition build_ads_quality_dashboard :: "date_range \<Rightarrow> datetime \<Rightarrow> build_step" where
  "build_ads_quality_dashboard w now db =
     (let ps = map (\<lambda>d. ((dq_dt d, dq_dataset_id d, dq_version d), ads_quality_of w now db d)) (quality_days_in w db)
      in (length ps, db\<lparr>wb_ads_quality := upsert_all (\<lambda>p _. p) ps (wb_ads_quality db)\<rparr>))"

section \<open>Operations of workflows\<close>

definition ops_verdict :: "rat \<Rightarrow> int \<Rightarrow> int \<Rightarrow> string \<times> string option" where
  "ops_verdict sr oom ded =
     (if sr < 8/10 \<or> oom > 0 \<or> ded > 0 then
        (''CRITICAL'', Some (if sr < 8/10 then ''success_rate<0.8'' else if oom > 0 then ''oom_kill'' else ''deadline_exceeded''))
      else if sr < 95/100 then (''WARN'', Some ''success_rate<0.95'')
      else (''OK'', None))"

definition ads_ops_of :: "datetime \<Rightarrow> ops_daily_row \<Rightarrow> workflow_ops_row" where
  "ads_ops_of now d =
     (case ops_verdict (opt_rat (wod_success_rate d) 1) (wod_oom_count d) (wod_deadline_exceeded_count d) of (alert, reason) \<Rightarrow>
       \<lparr>wo_dt = wod_dt d, wo_workflow_type = wod_workflow_type d, wo_workflow_count = Some (wod_workflow_count d),
        wo_success_count = Some (wod_success_count d), wo_failed_count = Some (wod_failed_count d),
        wo_success_rate = wod_success_rate d, wo_avg_duration_sec = wod_avg_duration_sec d,
        wo_p95_duration_sec = wod_p95_duration_sec d, wo_stale_heartbeat_count = Some 0,
        wo_oom_count = Some (wod_oom_count d), wo_deadline_exceeded_count = Some (wod_deadline_exceeded_count d),
        wo_alert_level = Some alert, wo_alert_reason = reason, wo_updated_at = now\<rparr>)"

definition build_ads_workflow_ops_dashboard :: "date_range \<Rightarrow> datetime \<Rightarrow> build_step" where
  "build_ads_workflow_ops_dashboard w now db =
     (let ps = map (\<lambda>d. ((wod_dt d, wod_workflow_type d), ads_ops_of now d))
                 (filter (\<lambda>d. in_window w (wod_dt d)) (map snd (wb_ops_daily db)))
      in (length ps, db\<lparr>wb_ads_ops := upsert_all (\<lambda>p _. p) ps (wb_ads_ops db)\<rparr>))"

section \<open>Facts\<close>

text \<open>Rows that sit under their own key.\<close>

definition keyed_by :: "('v \<Rightarrow> 'k) \<Rightarrow> ('k \<times> 'v) list \<Rightarrow> bool" where
  "keyed_by f t = (dict_ok t \<and> (\<forall>k v. map_of t k = Some v \<longrightarrow> f v = k))"

lemma keyed_by_lookup:
  assumes "keyed_by f t"
  shows "map_of t k = Some v \<longleftrightarrow> v \<in> set (map snd t) \<and> f v = k"
proof
  assume m: "map_of t k = Some v"
  then show "v \<in> set (map snd t) \<and> f v = k"
    using assms by (auto simp: keyed_by_def dest: map_of_SomeD intro!: rev_image_eqI)
next
  assume "v \<in> set (map snd t) \<and> f v = k"
  then obtain j where "(j, v) \<in> set t" "f v = k" by auto
  then show "map_of t k = Some v" using assms by (metis keyed_by_def map_of_is_SomeI)
qed

lemma keyed_by_set: "keyed_by f t \<Longrightarrow> f v = k \<Longrightarrow> keyed_by f (dict_set k v t)"
  unfolding keyed_by_def by (intro conjI) (simp_all only: dict_ok_set map_of_dict_set, auto split: if_splits)

lemma keyed_by_upserts:
  "keyed_by f t \<Longrightarrow> \<forall>(k, p)\<in>set ps. f (merge p None) = k \<and> (\<forall>r. f r = k \<longrightarrow> f (merge p (Some r)) = k) \<Longrightarrow>
    keyed_by f (upsert_all merge ps t)"
proof (induction ps arbitrary: t)
  case (Cons kp ps)
  obtain k p where kp: "kp = (k, p)" by (cases kp)
  have "f (merge p (map_of t k)) = k"
    using Cons.prems by (cases "map_of t k") (auto simp: kp keyed_by_def)
  then show ?case using Cons by (simp add: kp dict_upsert_def keyed_by_set)
qed simp

text \<open>A dashboard row per daily row of the window.\<close>

lemma dashboard_lookup:
  assumes "keyed_by f t" "map_of t k = Some d" "sel d"
  shows "map_of (upsert_all (\<lambda>p _. p) (map (\<lambda>d. (f d, mk d)) (filter sel (map snd t))) u) k = Some (mk d)"
proof -
  let ?ps = "map (\<lambda>d. (f d, mk d)) (filter sel (map snd t))"
  have "map fst ?ps = map f (filter sel (map snd t))" by simp
  have "(k, mk d) \<in> set ?ps" using assms keyed_by_lookup[OF assms(1)] by auto
  moreover have "\<forall>q. (k, q) \<in> set ?ps \<longrightarrow> q = mk d"
  proof (intro allI impI)
    fix q assume "(k, q) \<in> set ?ps"
    then obtain e where e: "e \<in> set (map snd t)" "f e = k" "q = mk e" by auto
    then have "map_of t k = Some e" using keyed_by_lookup[OF assms(1)] by blast
    then show "q = mk d" using assms(2) e(3) by simp
  qed
  ultimately have "map_of (rev ?ps) k = Some (mk d)"
    by (metis map_of_SomeD not_None_eq set_rev weak_map_of_SomeI)
  then show ?thesis by (simp only: replaced.final_row option.case)
qed

lemma dashboard_other:
  assumes "\<And>d. map_of t k = Some d \<Longrightarrow> \<not> sel d" "keyed_by f t"
  shows "map_of (upsert_all (\<lambda>p _. p) (map (\<lambda>d. (f d, mk d)) (filter sel (map snd t))) u) k = map_of u k"
proof (rule upsert_all_other)
  show "k \<notin> fst ` set (map (\<lambda>d. (f d, mk d)) (filter sel (map snd t)))"
  proof
    assume "k \<in> fst ` set (map (\<lambda>d. (f d, mk d)) (filter sel (map snd t)))"
    then obtain e where e: "e \<in> set (map snd t)" "f e = k" "sel e"
      unfolding set_map set_filter image_image by (auto simp del: set_map)
    then have "map_of t k = Some e" using keyed_by_lookup[OF assms(2)] by blast
    then show False using assms(1) e(3) by blast
  qed
qed

lemma keyed_by_rows: "keyed_by f t \<Longrightarrow> \<forall>x\<in>set xs. f (mk x) = g x \<Longrightarrow> keyed_by f (upsert_all (\<lambda>p _. p) (map (\<lambda>x. (g x, mk x)) xs) t)"
  by (rule keyed_by_upserts) auto

text \<open>The rule of a day and a family that failed most.\<close>

definition rules_on :: "date_range \<Rightarrow> wh_db \<Rightarrow> date \<Rightarrow> string option \<Rightarrow> rule_failure_row list" where
  "rules_on w db d fam = filter (\<lambda>r. rf_dt r = d \<and> Some (rf_dataset_family r) = fam) (failing_rules w db)"

definition better_rule :: "rule_failure_row \<Rightarrow> rule_failure_row option \<Rightarrow> rule_failure_row option" where
  "better_rule r cur = (case cur of None \<Rightarrow> Some r | Some c \<Rightarrow> if rf_fail_count c < rf_fail_count r then Some r else Some c)"

lemma fold_better:
  "case fold better_rule rs cur of
     None \<Rightarrow> rs = [] \<and> cur = None
   | Some t \<Rightarrow> (t \<in> set rs \<or> cur = Some t) \<and> (\<forall>r\<in>set rs. rf_fail_count r \<le> rf_fail_count t) \<and>
       (\<forall>c. cur = Some c \<longrightarrow> rf_fail_count c \<le> rf_fail_count t)"
proof (induction rs arbitrary: cur)
  case Nil
  then show ?case by (cases cur) auto
next
  case (Cons r rs)
  show ?case using Cons.IH[of "better_rule r cur"]
    by (cases cur) (auto simp: better_rule_def split: option.splits if_splits)
qed

lemma top_rule_fold: "dict_get (top_rules w db) (d, fam) None = fold better_rule (rules_on w db d fam) None"
proof -
  have rows: "rows_at (\<lambda>r. Some (rf_dt r, Some (rf_dataset_family r))) (d, fam) (failing_rules w db) = rules_on w db d fam"
    by (simp add: rows_at_def rules_on_def)
  have step: "(\<lambda>r cur. case cur of None \<Rightarrow> Some r | Some c \<Rightarrow> if rf_fail_count c < rf_fail_count r then Some r else Some c) = better_rule"
    by (simp add: fun_eq_iff better_rule_def)
  show ?thesis
    unfolding top_rules_def step dict_get_def using bucket_at_group[of None _ better_rule "failing_rules w db" "[]" "(d, fam)"]
    by (simp add: bucket_at_def rows)
qed

definition quality_row_key :: "dataset_quality_row \<Rightarrow> quality_key" where
  "quality_row_key d = (dq_dt d, dq_dataset_id d, dq_version d)"

lemma quality_dashboard_lookup:
  assumes "keyed_by quality_row_key (wb_quality db)" "map_of (wb_quality db) k = Some d" "in_window w (dq_dt d)"
  shows "map_of (wb_ads_quality (snd (build_ads_quality_dashboard w now db))) k = Some (ads_quality_of w now db d)"
  using dashboard_lookup[OF assms(1,2), of "\<lambda>d. in_window w (dq_dt d)" "ads_quality_of w now db" "wb_ads_quality db"] assms(3)
  by (simp add: build_ads_quality_dashboard_def quality_days_in_def Let_def quality_row_key_def)

lemma verdict_cases:
  "quality_verdict qc etl = (if qc < 8/10 then (''FAIL'', ''CRITICAL'', Some ''qc_pass_rate<0.8'')
     else if etl < 8/10 then (''FAIL'', ''CRITICAL'', Some ''etl_success_rate<0.8'')
     else if qc < 95/100 then (''WARN'', ''WARN'', Some ''qc_pass_rate<0.95'') else (''PASS'', ''OK'', None))"
  by (simp add: quality_verdict_def Let_def)

lemma quality_score_bounds:
  "0 \<le> qc \<Longrightarrow> qc \<le> 1 \<Longrightarrow> 0 \<le> etl \<Longrightarrow> etl \<le> 1 \<Longrightarrow> 0 \<le> flow \<Longrightarrow> flow \<le> 1 \<Longrightarrow>
   0 \<le> quality_score qc etl flow \<and> quality_score qc etl flow \<le> 100"
  by (simp add: quality_score_def)

lemma ads_quality_sel:
  "ad_alert_level (ads_quality_of w now db d) = Some (fst (snd (quality_verdict (opt_rat (dq_qc_pass_rate d) 1) (opt_rat (dq_etl_success_rate d) 1))))"
  "ad_alert_reason (ads_quality_of w now db d) = snd (snd (quality_verdict (opt_rat (dq_qc_pass_rate d) 1) (opt_rat (dq_etl_success_rate d) 1)))"
  "ad_overall_status (ads_quality_of w now db d) = Some (fst (quality_verdict (opt_rat (dq_qc_pass_rate d) 1) (opt_rat (dq_etl_success_rate d) 1)))"
  "ad_quality_score (ads_quality_of w now db d) =
     Some (quality_score (opt_rat (dq_qc_pass_rate d) 1) (opt_rat (dq_etl_success_rate d) 1) (opt_rat (dq_workflow_success_rate d) 1))"
  "ad_top_failed_rule (ads_quality_of w now db d) = map_option rf_rule_id (fold better_rule (rules_on w db (dq_dt d) (dq_dataset_family d)) None)"
  "ad_top_failed_rule_count (ads_quality_of w now db d) = map_option rf_fail_count (fold better_rule (rules_on w db (dq_dt d) (dq_dataset_family d)) None)"
  by (simp_all add: ads_quality_of_def Let_def top_rule_fold split: prod.splits)

section \<open>Properties\<close>

text \<open>The quality dashboard shows, for every daily quality row of the window, a verdict that is exactly the
  thresholds on its rates, a missing rate counting as 1, with a reason unless all is well, and the rule
  that failed most often that day among the rules of the same family, if one failed.\<close>

theorem quality_dashboard_correct:
  assumes "keyed_by quality_row_key (wb_quality db)" "map_of (wb_quality db) k = Some d" "in_window w (dq_dt d)"
  shows "\<exists>a :: ads_row. map_of (wb_ads_quality (snd (build_ads_quality_dashboard w now db))) k = Some a \<and>
    (let qc = opt_rat (dq_qc_pass_rate d) 1; etl = opt_rat (dq_etl_success_rate d) 1 in
      (ad_alert_level a = Some ''CRITICAL'' \<longleftrightarrow> qc < 8/10 \<or> etl < 8/10) \<and>
      (ad_alert_level a = Some ''WARN'' \<longleftrightarrow> 8/10 \<le> qc \<and> 8/10 \<le> etl \<and> qc < 95/100) \<and>
      (ad_overall_status a = Some ''PASS'' \<longleftrightarrow> 95/100 \<le> qc \<and> 8/10 \<le> etl) \<and>
      (ad_alert_reason a = None \<longleftrightarrow> ad_alert_level a = Some ''OK'')) \<and>
    (case (ad_top_failed_rule a, ad_top_failed_rule_count a) of
       (Some i, Some n) \<Rightarrow> (\<exists>r\<in>set (rules_on w db (dq_dt d) (dq_dataset_family d)). rf_rule_id r = i \<and> rf_fail_count r = n) \<and>
         list_all (\<lambda>r. rf_fail_count r \<le> n) (rules_on w db (dq_dt d) (dq_dataset_family d))
     | (None, None) \<Rightarrow> rules_on w db (dq_dt d) (dq_dataset_family d) = []
     | _ \<Rightarrow> False)"
proof -
  let ?a = "ads_quality_of w now db d" and ?rs = "rules_on w db (dq_dt d) (dq_dataset_family d)"
  have top: "case (ad_top_failed_rule ?a, ad_top_failed_rule_count ?a) of
       (Some i, Some n) \<Rightarrow> (\<exists>r\<in>set ?rs. rf_rule_id r = i \<and> rf_fail_count r = n) \<and>
         list_all (\<lambda>r. rf_fail_count r \<le> n) ?rs
     | (None, None) \<Rightarrow> ?rs = [] | _ \<Rightarrow> False"
    using fold_better[of ?rs None] by (auto simp: ads_quality_sel list_all_iff split: option.splits)
  show ?thesis
    by (rule exI[of _ ?a], intro conjI quality_dashboard_lookup[OF assms] top)
      (simp add: ads_quality_sel verdict_cases Let_def)
qed

definition demo_day :: quality_key where
  "demo_day = (Date 2024 5 1, ''ds'', ''v1'')"

definition demo_daily :: wh_db where
  "demo_daily = empty_wh\<lparr>wb_quality := [(demo_day,
     quality_row (Date 2024 5 2, 0) demo_day (empty_quality\<lparr>qb_family := Some ''droid'', qb_qc_runs := 4, qb_qc_pass := 3\<rparr>))],
     wb_rule_daily := [((Date 2024 5 1, ''droid'', ''c'', ''r1'', ''error''),
       rule_row (Date 2024 5 2, 0) (Date 2024 5 1, ''droid'', ''c'', ''r1'', ''error'')
         \<lparr>rb_run = 2, rb_pass = 0, rb_warn = 1, rb_fail = 1\<rparr>)]\<rparr>"

theorem quality_dashboard_correct_witness:
  "\<exists>a :: ads_row. map_of (wb_ads_quality (snd (build_ads_quality_dashboard \<lparr>dr_start = Date 2024 5 1, dr_end = Date 2024 5 1\<rparr>
      (Date 2024 5 2, 0) demo_daily))) demo_day = Some a \<and> ad_alert_level a = Some ''CRITICAL''"
proof -
  let ?w = "\<lparr>dr_start = Date 2024 5 1, dr_end = Date 2024 5 1\<rparr>"
  let ?d = "quality_row (Date 2024 5 2, 0) demo_day (empty_quality\<lparr>qb_family := Some ''droid'', qb_qc_runs := 4, qb_qc_pass := 3\<rparr>)"
  have k: "keyed_by quality_row_key (wb_quality demo_daily)"
    by (simp add: keyed_by_def demo_daily_def quality_row_key_def quality_row_def demo_day_def)
  have d: "map_of (wb_quality demo_daily) demo_day = Some ?d" by (simp add: demo_daily_def)
  have dt: "dq_dt ?d = Date 2024 5 1" and qc: "opt_rat (dq_qc_pass_rate ?d) 1 < 8/10"
    by (simp_all add: quality_row_def demo_day_def opt_rat_def ratio_def)
  have w: "in_window ?w (dq_dt ?d)" by (simp add: dt in_window_def)
  from quality_dashboard_correct[OF k d w, of "(Date 2024 5 2, 0)"] qc show ?thesis
    unfolding Let_def by blast
qed

end
