(* ===== verification/Warehouse_Build.thy ===== *)
theory Warehouse_Build
  imports Warehouse_Dashboards Sql_Runner
begin

text \<open>
  The entry points of \<^verbatim>\<open>src/robot_dh/warehouse_metrics/builder.py\<close> and their reports
  (\<^verbatim>\<open>models.py\<close>): the check of the tables, and the build of the chosen layers, by SQL templates on
  PostgreSQL and by the passes of the previous theories on SQLite. On PostgreSQL the database is opaque:
  statements act on it through the SQL runner, and \<open>tables_of\<close> lists its tables. On SQLite a pass may fail
  as a database error, and is then rolled back.
\<close>

section \<open>Layers and templates\<close>

definition build_sql_sequence :: "(string \<times> string) list" where
  "build_sql_sequence =
    [(''dim'', ''warehouse/sql/dml/build_dim_dataset.sql''),
     (''fact'', ''warehouse/sql/dml/build_fact_etl_run.sql''),
     (''fact'', ''warehouse/sql/dml/build_fact_qc_rule_result.sql''),
     (''fact'', ''warehouse/sql/dml/build_fact_workflow_step.sql''),
     (''fact'', ''warehouse/sql/dml/build_fact_asset_profile.sql''),
     (''dws'', ''warehouse/sql/dml/build_dws_dataset_quality_daily.sql''),
     (''dws'', ''warehouse/sql/dml/build_dws_rule_failure_daily.sql''),
     (''dws'', ''warehouse/sql/dml/build_dws_workflow_ops_daily.sql''),
     (''ads'', ''warehouse/sql/dml/build_ads_quality_dashboard.sql''),
     (''ads'', ''warehouse/sql/dml/build_ads_workflow_ops_dashboard.sql''),
     (''inference'', ''warehouse/sql/dml/build_dws_inference_job_daily.sql''),
     (''inference'', ''warehouse/sql/dml/build_ads_inference_dashboard.sql'')]"

definition supported_layers :: "string list" where
  "supported_layers = [''dim'', ''fact'', ''dws'', ''ads'', ''inference'']"

definition metrics_tables :: "string list" where
  "metrics_tables = [''dim_dataset'', ''fact_etl_run'', ''fact_qc_rule_result'', ''fact_workflow_step'',
     ''fact_asset_profile'', ''dws_dataset_quality_daily'', ''dws_rule_failure_daily'', ''dws_workflow_ops_daily'',
     ''ads_quality_dashboard'', ''ads_workflow_ops_dashboard'', ''backfill_plans'', ''backfill_tasks'',
     ''sla_policies'', ''sla_checks'', ''dataset_partition_readiness'']"

definition inference_tables :: "string list" where
  "inference_tables = [''model_registry'', ''inference_jobs'', ''inference_outputs'', ''inference_failures'',
     ''distillation_datasets'', ''inference_benchmark_runs'', ''ai_task_events'', ''dead_letter_tasks'',
     ''dws_inference_job_daily'', ''ads_inference_dashboard'']"

record layer_result =
  lr_layer :: string
  lr_sql_file :: string
  lr_status :: string
  lr_duration :: rat
  lr_affected :: affected
  lr_error :: "string option"
  lr_note :: "string option"

definition to_layer_result :: "string \<Rightarrow> sql_execution \<Rightarrow> layer_result" where
  "to_layer_result layer ex =
     \<lparr>lr_layer = layer, lr_sql_file = se_file ex, lr_status = se_status ex, lr_duration = se_duration ex,
      lr_affected = se_affected ex, lr_error = se_error ex, lr_note = None\<rparr>"

section \<open>PostgreSQL\<close>

definition missing_tables :: "string list \<Rightarrow> string list \<Rightarrow> string list" where
  "missing_tables wanted existing = filter (\<lambda>t. t \<notin> set existing) wanted"

definition build_params :: "string \<Rightarrow> date_range \<Rightarrow> (string \<times> string option) list" where
  "build_params schema w = [(''schema'', Some schema), (''start_date'', Some (date_iso (dr_start w))),
     (''end_date'', Some (date_iso (dr_end w)))]"

text \<open>The loop over the templates: an error of a template is a result, and the loop goes on.\<close>

fun run_templates ::
  "'db sql_env \<Rightarrow> rat \<Rightarrow> string \<Rightarrow> (string \<times> string option) list \<Rightarrow> bool \<Rightarrow> (string \<times> string) list \<Rightarrow> ('db, layer_result list) act" where
  "run_templates env elapsed schema params dry_run [] = act_return []"
| "run_templates env elapsed schema params dry_run ((layer, sql_file) # ts) =
     act_bind (execute_sql env elapsed [(''schema'', schema)] sql_file params dry_run True) (\<lambda>ex.
     act_bind (run_templates env elapsed schema params dry_run ts) (\<lambda>rs. act_return (to_layer_result layer ex # rs)))"

definition build_postgres ::
  "'db sql_env \<Rightarrow> ('db \<Rightarrow> string list) \<Rightarrow> rat \<Rightarrow> string \<Rightarrow> date_range \<Rightarrow> string list \<Rightarrow> bool \<Rightarrow> ('db, layer_result list) act" where
  "build_postgres env tables_of elapsed schema w layer_set dry_run db =
     (if list_ex (\<lambda>l. l \<in> set layer_set) [''dim'', ''fact'', ''dws'', ''ads''] \<and>
         missing_tables metrics_tables (tables_of db) \<noteq> [] \<and> \<not> dry_run then
        (Inl (RuntimeError ''missing tables''), db)
      else if ''inference'' \<in> set layer_set \<and> missing_tables inference_tables (tables_of db) \<noteq> [] \<and> \<not> dry_run then
        (Inl (RuntimeError ''missing inference tables''), db)
      else run_templates env elapsed schema (build_params schema w) dry_run
             (filter (\<lambda>(l, _). l \<in> set layer_set) build_sql_sequence) db)"

section \<open>SQLite\<close>

definition sqlite_steps :: "(string \<Rightarrow> string) \<Rightarrow> date_range \<Rightarrow> datetime \<Rightarrow> (string \<times> string \<times> build_step) list" where
  "sqlite_steps md5 w now =
    [(''dim'', ''build_dim_dataset.sql (sqlite simplified)'', build_dim_dataset now),
     (''fact'', ''build_fact_etl_run.sql (sqlite simplified)'', build_fact_etl_run md5 w now),
     (''fact'', ''build_fact_qc_rule_result.sql (sqlite simplified)'', build_fact_qc_rule_result md5 w now),
     (''fact'', ''build_fact_workflow_step.sql (sqlite simplified)'', build_fact_workflow_step md5 w now),
     (''fact'', ''build_fact_asset_profile.sql (sqlite simplified)'', build_fact_asset_profile md5 w now),
     (''dws'', ''build_dws_dataset_quality_daily.sql (sqlite simplified)'', build_dws_dataset_quality_daily w now),
     (''dws'', ''build_dws_rule_failure_daily.sql (sqlite simplified)'', build_dws_rule_failure_daily w now),
     (''dws'', ''build_dws_workflow_ops_daily.sql (sqlite simplified)'', build_dws_workflow_ops_daily w now),
     (''ads'', ''build_ads_quality_dashboard.sql (sqlite simplified)'', build_ads_quality_dashboard w now),
     (''ads'', ''build_ads_workflow_ops_dashboard.sql (sqlite simplified)'', build_ads_workflow_ops_dashboard w now),
     (''inference'', ''build_dws_inference_job_daily.sql (sqlite simplified)'', build_dws_inference_job_daily w now),
     (''inference'', ''build_ads_inference_dashboard.sql (sqlite simplified)'', build_ads_inference_dashboard w now)]"

text \<open>\<open>fails\<close> tells which pass meets a database error, by the name of its template.\<close>

fun run_sqlite_step ::
  "(string \<Rightarrow> string option) \<Rightarrow> rat \<Rightarrow> bool \<Rightarrow> string \<times> string \<times> build_step \<Rightarrow> wh_db \<Rightarrow> layer_result \<times> wh_db" where
  "run_sqlite_step fails elapsed dry_run (layer, sql_file, step) db =
     (if dry_run then
        (\<lparr>lr_layer = layer, lr_sql_file = sql_file, lr_status = ''dry-run'', lr_duration = 0, lr_affected = Unknown_rows,
          lr_error = None, lr_note = Some ''sqlite-simplified path; would run Python aggregation''\<rparr>, db)
      else case fails sql_file of
        Some msg \<Rightarrow>
          (\<lparr>lr_layer = layer, lr_sql_file = sql_file, lr_status = ''error'', lr_duration = elapsed, lr_affected = Unknown_rows,
            lr_error = Some msg, lr_note = None\<rparr>, db)
      | None \<Rightarrow> (case step db of (n, db') \<Rightarrow>
          (\<lparr>lr_layer = layer, lr_sql_file = sql_file, lr_status = ''ok'', lr_duration = elapsed, lr_affected = Rows (int n),
            lr_error = None, lr_note = Some ''sqlite-simplified path''\<rparr>, db')))"

fun run_sqlite_steps ::
  "(string \<Rightarrow> string option) \<Rightarrow> rat \<Rightarrow> bool \<Rightarrow> (string \<times> string \<times> build_step) list \<Rightarrow> wh_db \<Rightarrow> layer_result list \<times> wh_db" where
  "run_sqlite_steps fails elapsed dry_run [] db = ([], db)"
| "run_sqlite_steps fails elapsed dry_run (s # ss) db = (case run_sqlite_step fails elapsed dry_run s db of (r, db1) \<Rightarrow>
     (case run_sqlite_steps fails elapsed dry_run ss db1 of (rs, db2) \<Rightarrow> (r # rs, db2)))"

definition build_sqlite ::
  "(string \<Rightarrow> string option) \<Rightarrow> rat \<Rightarrow> (string \<Rightarrow> string) \<Rightarrow> date_range \<Rightarrow> datetime \<Rightarrow> string list \<Rightarrow> bool \<Rightarrow> wh_db
     \<Rightarrow> layer_result list \<times> wh_db" where
  "build_sqlite fails elapsed md5 w now layer_set dry_run db =
     run_sqlite_steps fails elapsed dry_run (filter (\<lambda>(l, _, _). l \<in> set layer_set) (sqlite_steps md5 w now)) db"

section \<open>The build\<close>

datatype 'db warehouse = Postgres 'db | Sqlite wh_db | Other_backend string

record 'db build_env =
  bv_sql :: "'db sql_env"
  bv_tables_of :: "'db \<Rightarrow> string list"
  bv_schema :: string
  bv_default_layers :: "string list"
  bv_fails :: "string \<Rightarrow> string option"
  bv_md5 :: "string \<Rightarrow> string"
  bv_now :: datetime
  bv_elapsed :: rat
  bv_started_at :: string
  bv_finished_at :: string
  bv_duration :: rat

record warehouse_report =
  br_start_date :: string
  br_end_date :: string
  br_layers :: "string list"
  br_backend :: string
  br_schema :: string
  br_dry_run :: bool
  br_started_at :: string
  br_finished_at :: string
  br_duration_sec :: rat
  br_status :: string
  br_results :: "layer_result list"
  br_warnings :: "string list"

definition requested_layers :: "string list \<Rightarrow> string option list option \<Rightarrow> string list" where
  "requested_layers default_layers layers =
     (case layers of Some (l # ls) \<Rightarrow> map (\<lambda>l. lower (case l of None \<Rightarrow> [] | Some s \<Rightarrow> s)) (l # ls) | _ \<Rightarrow> default_layers)"

definition select_layers :: "string list \<Rightarrow> string option list option \<Rightarrow> string list" where
  "select_layers default_layers layers =
     remdups (filter (\<lambda>l. l \<in> set supported_layers) (requested_layers default_layers layers))"

definition overall_status :: "layer_result list \<Rightarrow> string list \<Rightarrow> string" where
  "overall_status results warnings =
     (if list_ex (\<lambda>r. lr_status r = ''error'') results then ''fail''
      else if list_ex (\<lambda>r. lr_status r = ''warn'') results \<or> warnings \<noteq> [] then ''warn'' else ''ok'')"

definition run_backend ::
  "'db build_env \<Rightarrow> date_range \<Rightarrow> string list \<Rightarrow> bool \<Rightarrow> ('db warehouse, string \<times> layer_result list) act" where
  "run_backend env w layer_set dry_run wh = (case wh of
     Postgres db \<Rightarrow>
       (case build_postgres (bv_sql env) (bv_tables_of env) (bv_elapsed env) (bv_schema env) w layer_set dry_run db of
          (r, db') \<Rightarrow> (rbind r (\<lambda>rs. Inr (''postgresql'', rs)), Postgres db'))
   | Sqlite db \<Rightarrow>
       (case build_sqlite (bv_fails env) (bv_elapsed env) (bv_md5 env) w (bv_now env) layer_set dry_run db of
          (rs, db') \<Rightarrow> (Inr (''sqlite'', rs), Sqlite db'))
   | Other_backend b \<Rightarrow> (Inl (RuntimeError (''unsupported backend '' @ [CHR 0x27] @ b @ [CHR 0x27] @ ''; only PostgreSQL / SQLite supported'')), wh))"

definition build :: "'db build_env \<Rightarrow> date_range \<Rightarrow> string option list option \<Rightarrow> bool \<Rightarrow> ('db warehouse, warehouse_report) act" where
  "build env w layers dry_run =
     (let layer_set = select_layers (bv_default_layers env) layers
      in if layer_set = [] then act_lift (Inl (ValueError ''no valid layers selected''))
         else act_bind (run_backend env w layer_set dry_run) (\<lambda>(backend, results).
           act_return
             \<lparr>br_start_date = date_iso (dr_start w), br_end_date = date_iso (dr_end w), br_layers = sort layer_set,
              br_backend = backend, br_schema = bv_schema env, br_dry_run = dry_run, br_started_at = bv_started_at env,
              br_finished_at = bv_finished_at env, br_duration_sec = bv_duration env,
              br_status = overall_status results [], br_results = results, br_warnings = []\<rparr>))"

section \<open>The check of the tables\<close>

record init_report =
  it_backend :: string
  it_schema :: string
  it_existing_tables :: "string list"
  it_missing_tables :: "string list"
  it_applied_ddl :: bool
  it_notes :: "string list"

definition affected_text :: "affected \<Rightarrow> string" where
  "affected_text a = (case a of Rows n \<Rightarrow> str_of_int n | Unknown_rows \<Rightarrow> ''unknown'')"

definition ddl_note :: "string \<Rightarrow> sql_execution \<Rightarrow> string" where
  "ddl_note name ex = (if se_status ex = ''error'' then ''ddl '' @ name @ '' failed: '' @ (case se_error ex of None \<Rightarrow> ''None'' | Some e \<Rightarrow> e)
     else ''ddl '' @ name @ '' applied (rows='' @ affected_text (se_affected ex) @ '')'')"

text \<open>The DDL files, in order, each with its name and the path the runner gets; \<open>None\<close> when there is no
  directory.\<close>

fun apply_ddl_files :: "'db sql_env \<Rightarrow> rat \<Rightarrow> string \<Rightarrow> (string \<times> string) list \<Rightarrow> ('db, string list) act" where
  "apply_ddl_files env elapsed schema [] = act_return []"
| "apply_ddl_files env elapsed schema ((name, rel) # fs) =
     act_bind (execute_sql env elapsed [(''schema'', schema)] rel [(''schema'', Some schema)] False True) (\<lambda>ex.
     act_bind (apply_ddl_files env elapsed schema fs) (\<lambda>notes. act_return (ddl_note name ex # notes)))"

definition init_check ::
  "'db sql_env \<Rightarrow> ('db \<Rightarrow> string list) \<Rightarrow> rat \<Rightarrow> string \<Rightarrow> string \<Rightarrow> (string \<times> string) list option \<Rightarrow> bool \<Rightarrow> ('db, init_report) act" where
  "init_check env tables_of elapsed backend schema ddl apply_ddl db =
     (let missing = missing_tables metrics_tables (tables_of db);
          notes = (if missing \<noteq> [] then [''missing v1.8 tables: '' @ join '', '' missing] else []);
          report = (\<lambda>applied notes d.
            \<lparr>it_backend = backend, it_schema = schema,
             it_existing_tables = sort (filter (\<lambda>t. t \<in> set (tables_of d)) metrics_tables),
             it_missing_tables = missing_tables metrics_tables (tables_of d), it_applied_ddl = applied, it_notes = notes\<rparr>)
      in case ddl of
           Some files \<Rightarrow>
             (if apply_ddl \<and> missing \<noteq> [] then
                act_bind (apply_ddl_files env elapsed schema files) (\<lambda>more d. (Inr (report True (notes @ more) d), d)) db
              else (Inr (report False notes db), db))
         | None \<Rightarrow> (Inr (report False notes db), db))"

section \<open>The report of a build\<close>

text \<open>What the results say, on both back ends: one per template, in order, none of them a warning.\<close>

definition results_for :: "(string \<times> string) list \<Rightarrow> bool \<Rightarrow> layer_result list \<Rightarrow> bool" where
  "results_for ts dry_run rs = (map (\<lambda>r. (lr_layer r, lr_sql_file r)) rs = ts \<and>
     list_all (\<lambda>r. lr_status r = ''error'' \<or> lr_status r = (if dry_run then ''dry-run'' else ''ok'')) rs)"

lemma results_for_Nil [simp]: "results_for ts dry_run [] \<longleftrightarrow> ts = []"
  by (auto simp: results_for_def)

lemma results_for_Cons: "results_for ((l, f) # ts) dry_run (r # rs) \<longleftrightarrow>
    lr_layer r = l \<and> lr_sql_file r = f \<and> (lr_status r = ''error'' \<or> lr_status r = (if dry_run then ''dry-run'' else ''ok'')) \<and>
    results_for ts dry_run rs"
  by (auto simp: results_for_def)

lemma execute_sql_status:
  "execute_sql env elapsed defaults f given dry_run tr db = (Inr ex, db') \<Longrightarrow>
    se_file ex = f \<and> (se_status ex = ''error'' \<or> se_status ex = (if dry_run then ''dry-run'' else ''ok'')) \<and> (dry_run \<longrightarrow> db' = db)"
  by (auto simp: execute_sql_def sql_error_def split: sum.splits prod.splits if_splits py_error.splits)

lemma execute_sql_dry: "execute_sql env elapsed defaults f given True tr db = (r, db') \<Longrightarrow> db' = db"
  by (auto simp: execute_sql_def split: sum.splits)

lemma run_templates_results:
  "run_templates env elapsed schema ps dry_run ts db = (Inr rs, db') \<Longrightarrow> results_for ts dry_run rs \<and> (dry_run \<longrightarrow> db' = db)"
proof (induction ts arbitrary: db rs)
  case (Cons t ts)
  obtain l f where t: "t = (l, f)" by (cases t)
  from Cons.prems obtain ex d1 qs where
    ex: "execute_sql env elapsed [(''schema'', schema)] f ps dry_run True db = (Inr ex, d1)" and
    qs: "run_templates env elapsed schema ps dry_run ts d1 = (Inr qs, db')" and rs: "rs = to_layer_result l ex # qs"
    by (auto simp: t act_bind_def act_apply split: prod.splits sum.splits)
  show ?case using execute_sql_status[OF ex] Cons.IH[OF qs]
    by (auto simp: rs t results_for_Cons to_layer_result_def)
qed (simp add: act_apply)

lemma run_sqlite_steps_results:
  "run_sqlite_steps fails elapsed dry_run ss db = (rs, db') \<Longrightarrow>
    results_for (map (\<lambda>(l, f, _). (l, f)) ss) dry_run rs \<and> (dry_run \<longrightarrow> db' = db)"
proof (induction ss arbitrary: db rs)
  case (Cons s ss)
  obtain l f st where s: "s = (l, f, st)" by (cases s)
  from Cons.prems obtain r d1 qs where
    r: "run_sqlite_step fails elapsed dry_run s db = (r, d1)" and
    qs: "run_sqlite_steps fails elapsed dry_run ss d1 = (qs, db')" and rs: "rs = r # qs"
    by (auto split: prod.splits)
  have "(dry_run \<longrightarrow> d1 = db) \<and> lr_layer r = l \<and> lr_sql_file r = f \<and>
      (lr_status r = ''error'' \<or> lr_status r = (if dry_run then ''dry-run'' else ''ok''))"
    using r by (cases dry_run; cases "fails f") (auto simp: s split: prod.splits)
  then show ?case using Cons.IH[OF qs] by (auto simp: rs s results_for_Cons)
qed simp

lemma sqlite_steps_layers: "map fst (sqlite_steps md5 w now) = map fst build_sql_sequence"
  by (simp add: sqlite_steps_def build_sql_sequence_def)

lemma filter_fst: "map fst (filter (\<lambda>(l, _). l \<in> A) ts) = filter (\<lambda>l. l \<in> A) (map fst ts)"
  by (induction ts) auto

lemma filter_fst3: "map fst (filter (\<lambda>x. fst x \<in> A) ts) = filter (\<lambda>l. l \<in> A) (map fst ts)"
  by (induction ts) auto

lemma results_layers: "results_for ts dry_run rs \<Longrightarrow> map lr_layer rs = map fst ts"
  by (auto simp: results_for_def)

lemma run_backend_results:
  assumes "run_backend env w ls dry_run wh = (Inr (b, rs), wh')"
  shows "map lr_layer rs = filter (\<lambda>l. l \<in> set ls) (map fst build_sql_sequence) \<and>
    list_all (\<lambda>r. lr_status r = ''error'' \<or> lr_status r = (if dry_run then ''dry-run'' else ''ok'')) rs \<and> (dry_run \<longrightarrow> wh' = wh)"
proof (cases wh)
  case (Postgres db)
  then obtain db' where "run_templates (bv_sql env) (bv_elapsed env) (bv_schema env) (build_params (bv_schema env) w) dry_run
      (filter (\<lambda>(l, _). l \<in> set ls) build_sql_sequence) db = (Inr rs, db')" and wh': "wh' = Postgres db'"
    using assms by (auto simp: run_backend_def build_postgres_def rbind_Inr_iff split: prod.splits if_splits)
  note res = run_templates_results[OF this(1)]
  then have "map lr_layer rs = map fst (filter (\<lambda>(l, _). l \<in> set ls) build_sql_sequence)" using results_layers by blast
  then show ?thesis using res by (simp add: filter_fst wh' Postgres results_for_def)
next
  case (Sqlite db)
  then obtain db' where st: "run_sqlite_steps (bv_fails env) (bv_elapsed env) dry_run
      (filter (\<lambda>(l, _, _). l \<in> set ls) (sqlite_steps (bv_md5 env) w (bv_now env))) db = (rs, db')" and wh': "wh' = Sqlite db'"
    using assms by (auto simp: run_backend_def build_sqlite_def split: prod.splits)
  have fs: "map fst (map (\<lambda>(l, f, _). (l, f)) (filter (\<lambda>(l, _, _). l \<in> set ls) (sqlite_steps (bv_md5 env) w (bv_now env)))) =
      filter (\<lambda>l. l \<in> set ls) (map fst build_sql_sequence)"
    by (simp add: filter_fst3[symmetric] sqlite_steps_layers[symmetric, of "bv_md5 env" w "bv_now env"] comp_def case_prod_beta')
  from run_sqlite_steps_results[OF st] results_layers[of _ dry_run rs] show ?thesis
    unfolding fs[symmetric] by (simp add: wh' Sqlite results_for_def)
next
  case (Other_backend b')
  then show ?thesis using assms by (simp add: run_backend_def)
qed


end
