(* ===== verification/Warehouse_Passes.thy ===== *)
theory Warehouse_Passes
  imports Warehouse_Build
begin

text \<open>
  What the passes of the build on SQLite have in common: each computes payloads that do not depend on its
  own table and upserts them there, and no pass disturbs what an earlier one computed. From that it follows
  that the build keeps the primary keys and that building the same window again changes nothing.
\<close>

named_theorems frame_simps "what a pass reads"
named_theorems key_simps "what a pass writes"

text \<open>No two data set versions share the key of the dimension.\<close>

definition sources_ok :: "wh_db \<Rightarrow> bool" where
  "sources_ok db = distinct (map dim_key (wb_dataset_versions db))"

lemma dim_payloads_keys: "map fst (dim_payloads db) = map dim_key (wb_dataset_versions db)"
  by (simp add: dim_payloads_def)

lemma dim_payloads_distinct: "distinct (map fst (dim_payloads db)) = sources_ok db"
  unfolding dim_payloads_keys sources_ok_def ..

section \<open>The passes as upserts of their tables\<close>

definition quality_daily_payloads :: "date_range \<Rightarrow> datetime \<Rightarrow> wh_db \<Rightarrow> (quality_key \<times> dataset_quality_row) list" where
  "quality_daily_payloads w now db = map (\<lambda>(k, b). (k, quality_row now k b)) (quality_buckets w db)"

definition rule_daily_payloads :: "date_range \<Rightarrow> datetime \<Rightarrow> wh_db \<Rightarrow> (rule_key \<times> rule_failure_row) list" where
  "rule_daily_payloads w now db = map (\<lambda>(k, b). (k, rule_row now k b)) (rule_buckets w db)"

definition ops_daily_payloads :: "date_range \<Rightarrow> datetime \<Rightarrow> wh_db \<Rightarrow> (ops_key \<times> ops_daily_row) list" where
  "ops_daily_payloads w now db = map (\<lambda>(k, b). (k, ops_row now k b)) (ops_buckets w db)"

definition ads_quality_payloads :: "date_range \<Rightarrow> datetime \<Rightarrow> wh_db \<Rightarrow> (quality_key \<times> ads_row) list" where
  "ads_quality_payloads w now db = map (\<lambda>d. ((dq_dt d, dq_dataset_id d, dq_version d), ads_quality_of w now db d)) (quality_days_in w db)"

definition ads_ops_payloads :: "date_range \<Rightarrow> datetime \<Rightarrow> wh_db \<Rightarrow> (ops_key \<times> workflow_ops_row) list" where
  "ads_ops_payloads w now db = map (\<lambda>d. ((wod_dt d, wod_workflow_type d), ads_ops_of now d)) (filter (\<lambda>d. in_window w (wod_dt d)) (map snd (wb_ops_daily db)))"

definition inference_payloads :: "date_range \<Rightarrow> datetime \<Rightarrow> wh_db \<Rightarrow> (quality_key \<times> inference_daily_row) list" where
  "inference_payloads w now db = map (\<lambda>(k, b). (k, inference_row now k b)) (inference_buckets w db)"

definition ads_inference_payloads :: "date_range \<Rightarrow> datetime \<Rightarrow> wh_db \<Rightarrow> (quality_key \<times> ads_inference_row) list" where
  "ads_inference_payloads w now db = map (\<lambda>d. ((idr_dt d, idr_model_id d, idr_task_type d), ads_inference_of w now db d)) (filter (\<lambda>d. in_window w (idr_dt d)) (map snd (wb_inference db)))"

text \<open>The payloads of a pass do not depend on its own table, nor on those of the passes after it.\<close>

lemma dim_payloads_frame [frame_simps]:
  "dim_payloads (db\<lparr>wb_dim := t0\<rparr>) = dim_payloads db"
  "dim_payloads (db\<lparr>wb_etl := t1\<rparr>) = dim_payloads db"
  "dim_payloads (db\<lparr>wb_rules := t2\<rparr>) = dim_payloads db"
  "dim_payloads (db\<lparr>wb_steps := t3\<rparr>) = dim_payloads db"
  "dim_payloads (db\<lparr>wb_assets := t4\<rparr>) = dim_payloads db"
  "dim_payloads (db\<lparr>wb_quality := t5\<rparr>) = dim_payloads db"
  "dim_payloads (db\<lparr>wb_rule_daily := t6\<rparr>) = dim_payloads db"
  "dim_payloads (db\<lparr>wb_ops_daily := t7\<rparr>) = dim_payloads db"
  "dim_payloads (db\<lparr>wb_ads_quality := t8\<rparr>) = dim_payloads db"
  "dim_payloads (db\<lparr>wb_ads_ops := t9\<rparr>) = dim_payloads db"
  "dim_payloads (db\<lparr>wb_inference := t10\<rparr>) = dim_payloads db"
  "dim_payloads (db\<lparr>wb_ads_inference := t11\<rparr>) = dim_payloads db"
  by (simp_all add: dim_payloads_def snapshot_of_def ml_ready_of_def)

lemma etl_payloads_frame [frame_simps]:
  "etl_payloads md5 w (db\<lparr>wb_etl := t0\<rparr>) = etl_payloads md5 w db"
  "etl_payloads md5 w (db\<lparr>wb_rules := t1\<rparr>) = etl_payloads md5 w db"
  "etl_payloads md5 w (db\<lparr>wb_steps := t2\<rparr>) = etl_payloads md5 w db"
  "etl_payloads md5 w (db\<lparr>wb_assets := t3\<rparr>) = etl_payloads md5 w db"
  "etl_payloads md5 w (db\<lparr>wb_quality := t4\<rparr>) = etl_payloads md5 w db"
  "etl_payloads md5 w (db\<lparr>wb_rule_daily := t5\<rparr>) = etl_payloads md5 w db"
  "etl_payloads md5 w (db\<lparr>wb_ops_daily := t6\<rparr>) = etl_payloads md5 w db"
  "etl_payloads md5 w (db\<lparr>wb_ads_quality := t7\<rparr>) = etl_payloads md5 w db"
  "etl_payloads md5 w (db\<lparr>wb_ads_ops := t8\<rparr>) = etl_payloads md5 w db"
  "etl_payloads md5 w (db\<lparr>wb_inference := t9\<rparr>) = etl_payloads md5 w db"
  "etl_payloads md5 w (db\<lparr>wb_ads_inference := t10\<rparr>) = etl_payloads md5 w db"
  by (simp_all add: etl_payloads_def)

lemma rule_payloads_frame [frame_simps]:
  "rule_payloads md5 w (db\<lparr>wb_rules := t0\<rparr>) = rule_payloads md5 w db"
  "rule_payloads md5 w (db\<lparr>wb_steps := t1\<rparr>) = rule_payloads md5 w db"
  "rule_payloads md5 w (db\<lparr>wb_assets := t2\<rparr>) = rule_payloads md5 w db"
  "rule_payloads md5 w (db\<lparr>wb_quality := t3\<rparr>) = rule_payloads md5 w db"
  "rule_payloads md5 w (db\<lparr>wb_rule_daily := t4\<rparr>) = rule_payloads md5 w db"
  "rule_payloads md5 w (db\<lparr>wb_ops_daily := t5\<rparr>) = rule_payloads md5 w db"
  "rule_payloads md5 w (db\<lparr>wb_ads_quality := t6\<rparr>) = rule_payloads md5 w db"
  "rule_payloads md5 w (db\<lparr>wb_ads_ops := t7\<rparr>) = rule_payloads md5 w db"
  "rule_payloads md5 w (db\<lparr>wb_inference := t8\<rparr>) = rule_payloads md5 w db"
  "rule_payloads md5 w (db\<lparr>wb_ads_inference := t9\<rparr>) = rule_payloads md5 w db"
  by (simp_all add: rule_payloads_def)

lemma step_payloads_frame [frame_simps]:
  "step_payloads md5 w (db\<lparr>wb_steps := t0\<rparr>) = step_payloads md5 w db"
  "step_payloads md5 w (db\<lparr>wb_assets := t1\<rparr>) = step_payloads md5 w db"
  "step_payloads md5 w (db\<lparr>wb_quality := t2\<rparr>) = step_payloads md5 w db"
  "step_payloads md5 w (db\<lparr>wb_rule_daily := t3\<rparr>) = step_payloads md5 w db"
  "step_payloads md5 w (db\<lparr>wb_ops_daily := t4\<rparr>) = step_payloads md5 w db"
  "step_payloads md5 w (db\<lparr>wb_ads_quality := t5\<rparr>) = step_payloads md5 w db"
  "step_payloads md5 w (db\<lparr>wb_ads_ops := t6\<rparr>) = step_payloads md5 w db"
  "step_payloads md5 w (db\<lparr>wb_inference := t7\<rparr>) = step_payloads md5 w db"
  "step_payloads md5 w (db\<lparr>wb_ads_inference := t8\<rparr>) = step_payloads md5 w db"
  by (simp_all add: step_payloads_def step_payload_def flow_run_of_def)

lemma asset_payloads_frame [frame_simps]:
  "asset_payloads md5 w (db\<lparr>wb_assets := t0\<rparr>) = asset_payloads md5 w db"
  "asset_payloads md5 w (db\<lparr>wb_quality := t1\<rparr>) = asset_payloads md5 w db"
  "asset_payloads md5 w (db\<lparr>wb_rule_daily := t2\<rparr>) = asset_payloads md5 w db"
  "asset_payloads md5 w (db\<lparr>wb_ops_daily := t3\<rparr>) = asset_payloads md5 w db"
  "asset_payloads md5 w (db\<lparr>wb_ads_quality := t4\<rparr>) = asset_payloads md5 w db"
  "asset_payloads md5 w (db\<lparr>wb_ads_ops := t5\<rparr>) = asset_payloads md5 w db"
  "asset_payloads md5 w (db\<lparr>wb_inference := t6\<rparr>) = asset_payloads md5 w db"
  "asset_payloads md5 w (db\<lparr>wb_ads_inference := t7\<rparr>) = asset_payloads md5 w db"
  by (simp_all add: asset_payloads_def)

lemma quality_daily_payloads_frame [frame_simps]:
  "quality_daily_payloads w now (db\<lparr>wb_quality := t0\<rparr>) = quality_daily_payloads w now db"
  "quality_daily_payloads w now (db\<lparr>wb_rule_daily := t1\<rparr>) = quality_daily_payloads w now db"
  "quality_daily_payloads w now (db\<lparr>wb_ops_daily := t2\<rparr>) = quality_daily_payloads w now db"
  "quality_daily_payloads w now (db\<lparr>wb_ads_quality := t3\<rparr>) = quality_daily_payloads w now db"
  "quality_daily_payloads w now (db\<lparr>wb_ads_ops := t4\<rparr>) = quality_daily_payloads w now db"
  "quality_daily_payloads w now (db\<lparr>wb_inference := t5\<rparr>) = quality_daily_payloads w now db"
  "quality_daily_payloads w now (db\<lparr>wb_ads_inference := t6\<rparr>) = quality_daily_payloads w now db"
  by (simp_all add: quality_daily_payloads_def quality_buckets_def etl_rows_in_def summary_rows_in_def step_rows_in_def)

lemma rule_daily_payloads_frame [frame_simps]:
  "rule_daily_payloads w now (db\<lparr>wb_rule_daily := t0\<rparr>) = rule_daily_payloads w now db"
  "rule_daily_payloads w now (db\<lparr>wb_ops_daily := t1\<rparr>) = rule_daily_payloads w now db"
  "rule_daily_payloads w now (db\<lparr>wb_ads_quality := t2\<rparr>) = rule_daily_payloads w now db"
  "rule_daily_payloads w now (db\<lparr>wb_ads_ops := t3\<rparr>) = rule_daily_payloads w now db"
  "rule_daily_payloads w now (db\<lparr>wb_inference := t4\<rparr>) = rule_daily_payloads w now db"
  "rule_daily_payloads w now (db\<lparr>wb_ads_inference := t5\<rparr>) = rule_daily_payloads w now db"
  by (simp_all add: rule_daily_payloads_def rule_buckets_def rule_rows_in_def)

lemma ops_daily_payloads_frame [frame_simps]:
  "ops_daily_payloads w now (db\<lparr>wb_ops_daily := t0\<rparr>) = ops_daily_payloads w now db"
  "ops_daily_payloads w now (db\<lparr>wb_ads_quality := t1\<rparr>) = ops_daily_payloads w now db"
  "ops_daily_payloads w now (db\<lparr>wb_ads_ops := t2\<rparr>) = ops_daily_payloads w now db"
  "ops_daily_payloads w now (db\<lparr>wb_inference := t3\<rparr>) = ops_daily_payloads w now db"
  "ops_daily_payloads w now (db\<lparr>wb_ads_inference := t4\<rparr>) = ops_daily_payloads w now db"
  by (simp_all add: ops_daily_payloads_def ops_buckets_def step_rows_in_def)

lemma ads_quality_payloads_frame [frame_simps]:
  "ads_quality_payloads w now (db\<lparr>wb_ads_quality := t0\<rparr>) = ads_quality_payloads w now db"
  "ads_quality_payloads w now (db\<lparr>wb_ads_ops := t1\<rparr>) = ads_quality_payloads w now db"
  "ads_quality_payloads w now (db\<lparr>wb_inference := t2\<rparr>) = ads_quality_payloads w now db"
  "ads_quality_payloads w now (db\<lparr>wb_ads_inference := t3\<rparr>) = ads_quality_payloads w now db"
  by (simp_all add: ads_quality_payloads_def quality_days_in_def ads_quality_of_def top_rules_def failing_rules_def layer_bytes_def)

lemma ads_ops_payloads_frame [frame_simps]:
  "ads_ops_payloads w now (db\<lparr>wb_ads_ops := t0\<rparr>) = ads_ops_payloads w now db"
  "ads_ops_payloads w now (db\<lparr>wb_inference := t1\<rparr>) = ads_ops_payloads w now db"
  "ads_ops_payloads w now (db\<lparr>wb_ads_inference := t2\<rparr>) = ads_ops_payloads w now db"
  by (simp_all add: ads_ops_payloads_def)

lemma inference_payloads_frame [frame_simps]:
  "inference_payloads w now (db\<lparr>wb_inference := t0\<rparr>) = inference_payloads w now db"
  "inference_payloads w now (db\<lparr>wb_ads_inference := t1\<rparr>) = inference_payloads w now db"
  by (simp_all add: inference_payloads_def inference_buckets_def job_bucket_step_def[abs_def] model_backends_def latencies_by_job_def cong: option.case_cong)

lemma ads_inference_payloads_frame [frame_simps]:
  "ads_inference_payloads w now (db\<lparr>wb_ads_inference := t0\<rparr>) = ads_inference_payloads w now db"
  by (simp_all add: ads_inference_payloads_def ads_inference_of_def error_counts_def failure_key_def[abs_def])

interpretation dim_pass: table_pass wb_dim "\<lambda>t db. db\<lparr>wb_dim := t\<rparr>" "merge_dim now" "dim_payloads" sources_ok for now
  by unfold_locales (simp_all add: frame_simps dim_rows.upsert_distinct_again dim_payloads_distinct)

interpretation etl_pass: table_pass wb_etl "\<lambda>t db. db\<lparr>wb_etl := t\<rparr>" "merge_etl now" "etl_payloads md5 w" sources_ok for md5 w now
  by unfold_locales (simp_all add: frame_simps etl_rows.upsert_all_again)

interpretation rules_pass: table_pass wb_rules "\<lambda>t db. db\<lparr>wb_rules := t\<rparr>" "merge_rule now" "rule_payloads md5 w" sources_ok for md5 w now
  by unfold_locales (simp_all add: frame_simps rule_rows.upsert_all_again)

interpretation steps_pass: table_pass wb_steps "\<lambda>t db. db\<lparr>wb_steps := t\<rparr>" "merge_step now" "step_payloads md5 w" sources_ok for md5 w now
  by unfold_locales (simp_all add: frame_simps step_rows.upsert_all_again)

interpretation assets_pass: table_pass wb_assets "\<lambda>t db. db\<lparr>wb_assets := t\<rparr>" "merge_asset now" "asset_payloads md5 w" sources_ok for md5 w now
  by unfold_locales (simp_all add: frame_simps asset_rows.upsert_all_again)

interpretation quality_pass: table_pass wb_quality "\<lambda>t db. db\<lparr>wb_quality := t\<rparr>" "\<lambda>p _. p" "quality_daily_payloads w now" sources_ok for w now
  by unfold_locales (simp_all add: frame_simps replaced.upsert_all_again)

interpretation rule_daily_pass: table_pass wb_rule_daily "\<lambda>t db. db\<lparr>wb_rule_daily := t\<rparr>" "\<lambda>p _. p" "rule_daily_payloads w now" sources_ok for w now
  by unfold_locales (simp_all add: frame_simps replaced.upsert_all_again)

interpretation ops_daily_pass: table_pass wb_ops_daily "\<lambda>t db. db\<lparr>wb_ops_daily := t\<rparr>" "\<lambda>p _. p" "ops_daily_payloads w now" sources_ok for w now
  by unfold_locales (simp_all add: frame_simps replaced.upsert_all_again)

interpretation ads_quality_pass: table_pass wb_ads_quality "\<lambda>t db. db\<lparr>wb_ads_quality := t\<rparr>" "\<lambda>p _. p" "ads_quality_payloads w now" sources_ok for w now
  by unfold_locales (simp_all add: frame_simps replaced.upsert_all_again)

interpretation ads_ops_pass: table_pass wb_ads_ops "\<lambda>t db. db\<lparr>wb_ads_ops := t\<rparr>" "\<lambda>p _. p" "ads_ops_payloads w now" sources_ok for w now
  by unfold_locales (simp_all add: frame_simps replaced.upsert_all_again)

interpretation inference_pass: table_pass wb_inference "\<lambda>t db. db\<lparr>wb_inference := t\<rparr>" "\<lambda>p _. p" "inference_payloads w now" sources_ok for w now
  by unfold_locales (simp_all add: frame_simps replaced.upsert_all_again)

interpretation ads_inference_pass: table_pass wb_ads_inference "\<lambda>t db. db\<lparr>wb_ads_inference := t\<rparr>" "\<lambda>p _. p" "ads_inference_payloads w now" sources_ok for w now
  by unfold_locales (simp_all add: frame_simps replaced.upsert_all_again)

lemmas pass_defs = dim_pass.pass_def etl_pass.pass_def rules_pass.pass_def steps_pass.pass_def assets_pass.pass_def quality_pass.pass_def rule_daily_pass.pass_def ops_daily_pass.pass_def ads_quality_pass.pass_def ads_ops_pass.pass_def inference_pass.pass_def ads_inference_pass.pass_def

lemma pass_eqs:
  "snd (build_dim_dataset now db) = dim_pass.pass now db"
  "snd (build_fact_etl_run md5 w now db) = etl_pass.pass now md5 w db"
  "snd (build_fact_qc_rule_result md5 w now db) = rules_pass.pass now md5 w db"
  "snd (build_fact_workflow_step md5 w now db) = steps_pass.pass now md5 w db"
  "snd (build_fact_asset_profile md5 w now db) = assets_pass.pass now md5 w db"
  "snd (build_dws_dataset_quality_daily w now db) = quality_pass.pass w now db"
  "snd (build_dws_rule_failure_daily w now db) = rule_daily_pass.pass w now db"
  "snd (build_dws_workflow_ops_daily w now db) = ops_daily_pass.pass w now db"
  "snd (build_ads_quality_dashboard w now db) = ads_quality_pass.pass w now db"
  "snd (build_ads_workflow_ops_dashboard w now db) = ads_ops_pass.pass w now db"
  "snd (build_dws_inference_job_daily w now db) = inference_pass.pass w now db"
  "snd (build_ads_inference_dashboard w now db) = ads_inference_pass.pass w now db"
  by (simp_all add: build_dim_dataset_def build_fact_etl_run_def build_fact_qc_rule_result_def build_fact_workflow_step_def
      build_fact_asset_profile_def build_dws_dataset_quality_daily_def build_dws_rule_failure_daily_def
      build_dws_workflow_ops_daily_def build_ads_quality_dashboard_def build_ads_workflow_ops_dashboard_def
      build_dws_inference_job_daily_def build_ads_inference_dashboard_def Let_def dim_pass.pass_def etl_pass.pass_def
      rules_pass.pass_def steps_pass.pass_def assets_pass.pass_def quality_pass.pass_def rule_daily_pass.pass_def
      ops_daily_pass.pass_def ads_quality_pass.pass_def ads_ops_pass.pass_def inference_pass.pass_def
      ads_inference_pass.pass_def quality_daily_payloads_def rule_daily_payloads_def ops_daily_payloads_def
      ads_quality_payloads_def ads_ops_payloads_def inference_payloads_def ads_inference_payloads_def)

section \<open>Primary keys\<close>

definition rule_row_key :: "rule_failure_row \<Rightarrow> rule_key" where
  "rule_row_key r = (rf_dt r, rf_dataset_family r, rf_contract_id r, rf_rule_id r, rf_severity r)"

definition ops_row_key :: "ops_daily_row \<Rightarrow> ops_key" where
  "ops_row_key r = (wod_dt r, wod_workflow_type r)"

definition ads_row_key :: "ads_row \<Rightarrow> quality_key" where
  "ads_row_key r = (ad_dt r, ad_dataset_id r, ad_version r)"

definition ads_ops_row_key :: "workflow_ops_row \<Rightarrow> ops_key" where
  "ads_ops_row_key r = (wo_dt r, wo_workflow_type r)"

definition inference_row_key :: "inference_daily_row \<Rightarrow> quality_key" where
  "inference_row_key r = (idr_dt r, idr_model_id r, idr_task_type r)"

definition ads_inference_row_key :: "ads_inference_row \<Rightarrow> quality_key" where
  "ads_inference_row_key r = (aid_dt r, aid_model_id r, aid_task_type r)"

text \<open>The invariant of the warehouse: the sources have distinct keys, and every table holds at most one row
  per primary key, under that key.\<close>

definition wh_ok :: "wh_db \<Rightarrow> bool" where
  "wh_ok db = (sources_ok db \<and>
     keyed_by dd_dataset_key (wb_dim db) \<and>
     keyed_by er_run_key (wb_etl db) \<and>
     keyed_by frr_rule_result_key (wb_rules db) \<and>
     keyed_by wsr_step_key (wb_steps db) \<and>
     keyed_by fap_asset_profile_key (wb_assets db) \<and>
     keyed_by quality_row_key (wb_quality db) \<and>
     keyed_by rule_row_key (wb_rule_daily db) \<and>
     keyed_by ops_row_key (wb_ops_daily db) \<and>
     keyed_by ads_row_key (wb_ads_quality db) \<and>
     keyed_by ads_ops_row_key (wb_ads_ops db) \<and>
     keyed_by inference_row_key (wb_inference db) \<and>
     keyed_by ads_inference_row_key (wb_ads_inference db))"

lemma dim_pass_keyed [key_simps]: "keyed_by dd_dataset_key (wb_dim db) \<Longrightarrow> keyed_by dd_dataset_key (wb_dim (dim_pass.pass now db))"
  unfolding dim_pass.pass_tab by (rule keyed_by_upserts) (auto simp: dim_payloads_def merge_dim_def)

lemma etl_pass_keyed [key_simps]: "keyed_by er_run_key (wb_etl db) \<Longrightarrow> keyed_by er_run_key (wb_etl (etl_pass.pass now md5 w db))"
  unfolding etl_pass.pass_tab by (rule keyed_by_upserts) (auto simp: etl_payloads_def merge_etl_def)

lemma rules_pass_keyed [key_simps]: "keyed_by frr_rule_result_key (wb_rules db) \<Longrightarrow> keyed_by frr_rule_result_key (wb_rules (rules_pass.pass now md5 w db))"
  unfolding rules_pass.pass_tab by (rule keyed_by_upserts) (auto simp: rule_payloads_def merge_rule_def)

lemma steps_pass_keyed [key_simps]: "keyed_by wsr_step_key (wb_steps db) \<Longrightarrow> keyed_by wsr_step_key (wb_steps (steps_pass.pass now md5 w db))"
  unfolding steps_pass.pass_tab by (rule keyed_by_upserts) (auto simp: step_payloads_def merge_step_def)

lemma assets_pass_keyed [key_simps]: "keyed_by fap_asset_profile_key (wb_assets db) \<Longrightarrow> keyed_by fap_asset_profile_key (wb_assets (assets_pass.pass now md5 w db))"
  unfolding assets_pass.pass_tab by (rule keyed_by_upserts) (auto simp: asset_payloads_def merge_asset_def)

lemma quality_pass_keyed [key_simps]: "keyed_by quality_row_key (wb_quality db) \<Longrightarrow> keyed_by quality_row_key (wb_quality (quality_pass.pass w now db))"
  unfolding quality_pass.pass_tab by (rule keyed_by_upserts) (auto simp: quality_daily_payloads_def quality_row_def quality_row_key_def)

lemma rule_daily_pass_keyed [key_simps]: "keyed_by rule_row_key (wb_rule_daily db) \<Longrightarrow> keyed_by rule_row_key (wb_rule_daily (rule_daily_pass.pass w now db))"
  unfolding rule_daily_pass.pass_tab by (rule keyed_by_upserts) (auto simp: rule_daily_payloads_def rule_row_def rule_row_key_def)

lemma ops_daily_pass_keyed [key_simps]: "keyed_by ops_row_key (wb_ops_daily db) \<Longrightarrow> keyed_by ops_row_key (wb_ops_daily (ops_daily_pass.pass w now db))"
  unfolding ops_daily_pass.pass_tab by (rule keyed_by_upserts) (auto simp: ops_daily_payloads_def ops_row_def ops_row_key_def)

lemma ads_quality_pass_keyed [key_simps]: "keyed_by ads_row_key (wb_ads_quality db) \<Longrightarrow> keyed_by ads_row_key (wb_ads_quality (ads_quality_pass.pass w now db))"
  unfolding ads_quality_pass.pass_tab by (rule keyed_by_upserts) (auto simp: ads_quality_payloads_def ads_quality_of_def ads_row_key_def Let_def split: prod.splits)

lemma ads_ops_pass_keyed [key_simps]: "keyed_by ads_ops_row_key (wb_ads_ops db) \<Longrightarrow> keyed_by ads_ops_row_key (wb_ads_ops (ads_ops_pass.pass w now db))"
  unfolding ads_ops_pass.pass_tab by (rule keyed_by_upserts) (auto simp: ads_ops_payloads_def ads_ops_of_def ads_ops_row_key_def Let_def split: prod.splits)

lemma inference_pass_keyed [key_simps]: "keyed_by inference_row_key (wb_inference db) \<Longrightarrow> keyed_by inference_row_key (wb_inference (inference_pass.pass w now db))"
  unfolding inference_pass.pass_tab by (rule keyed_by_upserts) (auto simp: inference_payloads_def inference_row_def inference_row_key_def)

lemma ads_inference_pass_keyed [key_simps]: "keyed_by ads_inference_row_key (wb_ads_inference db) \<Longrightarrow> keyed_by ads_inference_row_key (wb_ads_inference (ads_inference_pass.pass w now db))"
  unfolding ads_inference_pass.pass_tab by (rule keyed_by_upserts) (auto simp: ads_inference_payloads_def ads_inference_of_def ads_inference_row_key_def Let_def split: prod.splits)

lemma pass_other [key_simps]:
  "wb_dataset_versions (dim_pass.pass now db) = wb_dataset_versions db"
  "wb_etl (dim_pass.pass now db) = wb_etl db"
  "wb_rules (dim_pass.pass now db) = wb_rules db"
  "wb_steps (dim_pass.pass now db) = wb_steps db"
  "wb_assets (dim_pass.pass now db) = wb_assets db"
  "wb_quality (dim_pass.pass now db) = wb_quality db"
  "wb_rule_daily (dim_pass.pass now db) = wb_rule_daily db"
  "wb_ops_daily (dim_pass.pass now db) = wb_ops_daily db"
  "wb_ads_quality (dim_pass.pass now db) = wb_ads_quality db"
  "wb_ads_ops (dim_pass.pass now db) = wb_ads_ops db"
  "wb_inference (dim_pass.pass now db) = wb_inference db"
  "wb_ads_inference (dim_pass.pass now db) = wb_ads_inference db"
  "wb_dataset_versions (etl_pass.pass now md5 w db) = wb_dataset_versions db"
  "wb_dim (etl_pass.pass now md5 w db) = wb_dim db"
  "wb_rules (etl_pass.pass now md5 w db) = wb_rules db"
  "wb_steps (etl_pass.pass now md5 w db) = wb_steps db"
  "wb_assets (etl_pass.pass now md5 w db) = wb_assets db"
  "wb_quality (etl_pass.pass now md5 w db) = wb_quality db"
  "wb_rule_daily (etl_pass.pass now md5 w db) = wb_rule_daily db"
  "wb_ops_daily (etl_pass.pass now md5 w db) = wb_ops_daily db"
  "wb_ads_quality (etl_pass.pass now md5 w db) = wb_ads_quality db"
  "wb_ads_ops (etl_pass.pass now md5 w db) = wb_ads_ops db"
  "wb_inference (etl_pass.pass now md5 w db) = wb_inference db"
  "wb_ads_inference (etl_pass.pass now md5 w db) = wb_ads_inference db"
  "wb_dataset_versions (rules_pass.pass now md5 w db) = wb_dataset_versions db"
  "wb_dim (rules_pass.pass now md5 w db) = wb_dim db"
  "wb_etl (rules_pass.pass now md5 w db) = wb_etl db"
  "wb_steps (rules_pass.pass now md5 w db) = wb_steps db"
  "wb_assets (rules_pass.pass now md5 w db) = wb_assets db"
  "wb_quality (rules_pass.pass now md5 w db) = wb_quality db"
  "wb_rule_daily (rules_pass.pass now md5 w db) = wb_rule_daily db"
  "wb_ops_daily (rules_pass.pass now md5 w db) = wb_ops_daily db"
  "wb_ads_quality (rules_pass.pass now md5 w db) = wb_ads_quality db"
  "wb_ads_ops (rules_pass.pass now md5 w db) = wb_ads_ops db"
  "wb_inference (rules_pass.pass now md5 w db) = wb_inference db"
  "wb_ads_inference (rules_pass.pass now md5 w db) = wb_ads_inference db"
  "wb_dataset_versions (steps_pass.pass now md5 w db) = wb_dataset_versions db"
  "wb_dim (steps_pass.pass now md5 w db) = wb_dim db"
  "wb_etl (steps_pass.pass now md5 w db) = wb_etl db"
  "wb_rules (steps_pass.pass now md5 w db) = wb_rules db"
  "wb_assets (steps_pass.pass now md5 w db) = wb_assets db"
  "wb_quality (steps_pass.pass now md5 w db) = wb_quality db"
  "wb_rule_daily (steps_pass.pass now md5 w db) = wb_rule_daily db"
  "wb_ops_daily (steps_pass.pass now md5 w db) = wb_ops_daily db"
  "wb_ads_quality (steps_pass.pass now md5 w db) = wb_ads_quality db"
  "wb_ads_ops (steps_pass.pass now md5 w db) = wb_ads_ops db"
  "wb_inference (steps_pass.pass now md5 w db) = wb_inference db"
  "wb_ads_inference (steps_pass.pass now md5 w db) = wb_ads_inference db"
  "wb_dataset_versions (assets_pass.pass now md5 w db) = wb_dataset_versions db"
  "wb_dim (assets_pass.pass now md5 w db) = wb_dim db"
  "wb_etl (assets_pass.pass now md5 w db) = wb_etl db"
  "wb_rules (assets_pass.pass now md5 w db) = wb_rules db"
  "wb_steps (assets_pass.pass now md5 w db) = wb_steps db"
  "wb_quality (assets_pass.pass now md5 w db) = wb_quality db"
  "wb_rule_daily (assets_pass.pass now md5 w db) = wb_rule_daily db"
  "wb_ops_daily (assets_pass.pass now md5 w db) = wb_ops_daily db"
  "wb_ads_quality (assets_pass.pass now md5 w db) = wb_ads_quality db"
  "wb_ads_ops (assets_pass.pass now md5 w db) = wb_ads_ops db"
  "wb_inference (assets_pass.pass now md5 w db) = wb_inference db"
  "wb_ads_inference (assets_pass.pass now md5 w db) = wb_ads_inference db"
  "wb_dataset_versions (quality_pass.pass w now db) = wb_dataset_versions db"
  "wb_dim (quality_pass.pass w now db) = wb_dim db"
  "wb_etl (quality_pass.pass w now db) = wb_etl db"
  "wb_rules (quality_pass.pass w now db) = wb_rules db"
  "wb_steps (quality_pass.pass w now db) = wb_steps db"
  "wb_assets (quality_pass.pass w now db) = wb_assets db"
  "wb_rule_daily (quality_pass.pass w now db) = wb_rule_daily db"
  "wb_ops_daily (quality_pass.pass w now db) = wb_ops_daily db"
  "wb_ads_quality (quality_pass.pass w now db) = wb_ads_quality db"
  "wb_ads_ops (quality_pass.pass w now db) = wb_ads_ops db"
  "wb_inference (quality_pass.pass w now db) = wb_inference db"
  "wb_ads_inference (quality_pass.pass w now db) = wb_ads_inference db"
  "wb_dataset_versions (rule_daily_pass.pass w now db) = wb_dataset_versions db"
  "wb_dim (rule_daily_pass.pass w now db) = wb_dim db"
  "wb_etl (rule_daily_pass.pass w now db) = wb_etl db"
  "wb_rules (rule_daily_pass.pass w now db) = wb_rules db"
  "wb_steps (rule_daily_pass.pass w now db) = wb_steps db"
  "wb_assets (rule_daily_pass.pass w now db) = wb_assets db"
  "wb_quality (rule_daily_pass.pass w now db) = wb_quality db"
  "wb_ops_daily (rule_daily_pass.pass w now db) = wb_ops_daily db"
  "wb_ads_quality (rule_daily_pass.pass w now db) = wb_ads_quality db"
  "wb_ads_ops (rule_daily_pass.pass w now db) = wb_ads_ops db"
  "wb_inference (rule_daily_pass.pass w now db) = wb_inference db"
  "wb_ads_inference (rule_daily_pass.pass w now db) = wb_ads_inference db"
  "wb_dataset_versions (ops_daily_pass.pass w now db) = wb_dataset_versions db"
  "wb_dim (ops_daily_pass.pass w now db) = wb_dim db"
  "wb_etl (ops_daily_pass.pass w now db) = wb_etl db"
  "wb_rules (ops_daily_pass.pass w now db) = wb_rules db"
  "wb_steps (ops_daily_pass.pass w now db) = wb_steps db"
  "wb_assets (ops_daily_pass.pass w now db) = wb_assets db"
  "wb_quality (ops_daily_pass.pass w now db) = wb_quality db"
  "wb_rule_daily (ops_daily_pass.pass w now db) = wb_rule_daily db"
  "wb_ads_quality (ops_daily_pass.pass w now db) = wb_ads_quality db"
  "wb_ads_ops (ops_daily_pass.pass w now db) = wb_ads_ops db"
  "wb_inference (ops_daily_pass.pass w now db) = wb_inference db"
  "wb_ads_inference (ops_daily_pass.pass w now db) = wb_ads_inference db"
  "wb_dataset_versions (ads_quality_pass.pass w now db) = wb_dataset_versions db"
  "wb_dim (ads_quality_pass.pass w now db) = wb_dim db"
  "wb_etl (ads_quality_pass.pass w now db) = wb_etl db"
  "wb_rules (ads_quality_pass.pass w now db) = wb_rules db"
  "wb_steps (ads_quality_pass.pass w now db) = wb_steps db"
  "wb_assets (ads_quality_pass.pass w now db) = wb_assets db"
  "wb_quality (ads_quality_pass.pass w now db) = wb_quality db"
  "wb_rule_daily (ads_quality_pass.pass w now db) = wb_rule_daily db"
  "wb_ops_daily (ads_quality_pass.pass w now db) = wb_ops_daily db"
  "wb_ads_ops (ads_quality_pass.pass w now db) = wb_ads_ops db"
  "wb_inference (ads_quality_pass.pass w now db) = wb_inference db"
  "wb_ads_inference (ads_quality_pass.pass w now db) = wb_ads_inference db"
  "wb_dataset_versions (ads_ops_pass.pass w now db) = wb_dataset_versions db"
  "wb_dim (ads_ops_pass.pass w now db) = wb_dim db"
  "wb_etl (ads_ops_pass.pass w now db) = wb_etl db"
  "wb_rules (ads_ops_pass.pass w now db) = wb_rules db"
  "wb_steps (ads_ops_pass.pass w now db) = wb_steps db"
  "wb_assets (ads_ops_pass.pass w now db) = wb_assets db"
  "wb_quality (ads_ops_pass.pass w now db) = wb_quality db"
  "wb_rule_daily (ads_ops_pass.pass w now db) = wb_rule_daily db"
  "wb_ops_daily (ads_ops_pass.pass w now db) = wb_ops_daily db"
  "wb_ads_quality (ads_ops_pass.pass w now db) = wb_ads_quality db"
  "wb_inference (ads_ops_pass.pass w now db) = wb_inference db"
  "wb_ads_inference (ads_ops_pass.pass w now db) = wb_ads_inference db"
  "wb_dataset_versions (inference_pass.pass w now db) = wb_dataset_versions db"
  "wb_dim (inference_pass.pass w now db) = wb_dim db"
  "wb_etl (inference_pass.pass w now db) = wb_etl db"
  "wb_rules (inference_pass.pass w now db) = wb_rules db"
  "wb_steps (inference_pass.pass w now db) = wb_steps db"
  "wb_assets (inference_pass.pass w now db) = wb_assets db"
  "wb_quality (inference_pass.pass w now db) = wb_quality db"
  "wb_rule_daily (inference_pass.pass w now db) = wb_rule_daily db"
  "wb_ops_daily (inference_pass.pass w now db) = wb_ops_daily db"
  "wb_ads_quality (inference_pass.pass w now db) = wb_ads_quality db"
  "wb_ads_ops (inference_pass.pass w now db) = wb_ads_ops db"
  "wb_ads_inference (inference_pass.pass w now db) = wb_ads_inference db"
  "wb_dataset_versions (ads_inference_pass.pass w now db) = wb_dataset_versions db"
  "wb_dim (ads_inference_pass.pass w now db) = wb_dim db"
  "wb_etl (ads_inference_pass.pass w now db) = wb_etl db"
  "wb_rules (ads_inference_pass.pass w now db) = wb_rules db"
  "wb_steps (ads_inference_pass.pass w now db) = wb_steps db"
  "wb_assets (ads_inference_pass.pass w now db) = wb_assets db"
  "wb_quality (ads_inference_pass.pass w now db) = wb_quality db"
  "wb_rule_daily (ads_inference_pass.pass w now db) = wb_rule_daily db"
  "wb_ops_daily (ads_inference_pass.pass w now db) = wb_ops_daily db"
  "wb_ads_quality (ads_inference_pass.pass w now db) = wb_ads_quality db"
  "wb_ads_ops (ads_inference_pass.pass w now db) = wb_ads_ops db"
  "wb_inference (ads_inference_pass.pass w now db) = wb_inference db"
  by (simp_all add: dim_pass.pass_def etl_pass.pass_def rules_pass.pass_def steps_pass.pass_def assets_pass.pass_def quality_pass.pass_def rule_daily_pass.pass_def ops_daily_pass.pass_def ads_quality_pass.pass_def ads_ops_pass.pass_def inference_pass.pass_def ads_inference_pass.pass_def)

lemma step_keeps_ok:
  assumes "(l, f, st) \<in> set (sqlite_steps md5 w now)" "wh_ok db"
  shows "wh_ok (snd (st db))"
  using assms unfolding sqlite_steps_def
  by (auto simp: pass_eqs wh_ok_def sources_ok_def key_simps)

lemma steps_keep_ok:
  assumes "set ss \<subseteq> set (sqlite_steps md5 w now)" "wh_ok db"
  shows "wh_ok (snd (run_sqlite_steps fails el dry ss db))"
  using assms
proof (induction ss arbitrary: db)
  case (Cons s ss)
  obtain l f st where s: "s = (l, f, st)" by (cases s)
  have ok: "wh_ok (snd (st db))" using step_keeps_ok[of l f st md5 w now db] Cons.prems by (simp add: s)
  have "wh_ok (snd (run_sqlite_step fails el dry s db))"
    using ok Cons.prems(2) by (auto simp: s split: option.splits prod.splits)
  from Cons.IH[OF _ this] Cons.prems(1) show ?case by (simp add: case_prod_beta)
qed simp

section \<open>Building again\<close>

lemma passes_ordered: "sorted_wrt undisturbed (map (\<lambda>(_, _, st) db. snd (st db)) (sqlite_steps md5 w now))"
  unfolding sqlite_steps_def list.map prod.case pass_eqs sorted_wrt.simps list.set ball_simps
  by (intro conjI TrueI)
    (rule dim_pass.pass_undisturbed etl_pass.pass_undisturbed rules_pass.pass_undisturbed steps_pass.pass_undisturbed
        assets_pass.pass_undisturbed quality_pass.pass_undisturbed rule_daily_pass.pass_undisturbed
        ops_daily_pass.pass_undisturbed ads_quality_pass.pass_undisturbed ads_ops_pass.pass_undisturbed
        inference_pass.pass_undisturbed ads_inference_pass.pass_undisturbed;
      simp add: key_simps pass_defs frame_simps)+

lemma run_steps_fold:
  "snd (run_sqlite_steps (\<lambda>_. None) el False ss db) = fold (\<lambda>f. f) (map (\<lambda>(_, _, st) db. snd (st db)) ss) db"
proof (induction ss arbitrary: db)
  case (Cons s ss)
  obtain l f st where s: "s = (l, f, st)" by (cases s)
  show ?case using Cons.IH[of "snd (st db)"] by (simp add: s case_prod_beta)
qed simp

lemma step_again:
  assumes "(l, f, st) \<in> set (sqlite_steps md5 w now)" "wh_ok db"
  shows "snd (st (snd (st db))) = snd (st db)"
proof -
  have ok: "sources_ok db" and d: "dict_ok (wb_dim db)" "dict_ok (wb_etl db)" "dict_ok (wb_rules db)" "dict_ok (wb_steps db)"
    "dict_ok (wb_assets db)" "dict_ok (wb_quality db)" "dict_ok (wb_rule_daily db)" "dict_ok (wb_ops_daily db)"
    "dict_ok (wb_ads_quality db)" "dict_ok (wb_ads_ops db)" "dict_ok (wb_inference db)" "dict_ok (wb_ads_inference db)"
    using assms(2) unfolding wh_ok_def keyed_by_def by blast+
  note again = dim_pass.pass_again[OF ok d(1)] etl_pass.pass_again[OF ok d(2)] rules_pass.pass_again[OF ok d(3)]
    steps_pass.pass_again[OF ok d(4)] assets_pass.pass_again[OF ok d(5)] quality_pass.pass_again[OF ok d(6)]
    rule_daily_pass.pass_again[OF ok d(7)] ops_daily_pass.pass_again[OF ok d(8)] ads_quality_pass.pass_again[OF ok d(9)]
    ads_ops_pass.pass_again[OF ok d(10)] inference_pass.pass_again[OF ok d(11)] ads_inference_pass.pass_again[OF ok d(12)]
  show ?thesis using assms(1) unfolding sqlite_steps_def by (auto simp: pass_eqs again)
qed

text \<open>After a build in which no pass fails every pass it ran has nothing left to do.\<close>

lemma build_settled:
  assumes "wh_ok db" "db1 = snd (build_sqlite (\<lambda>_. None) el md5 w now ls False db)"
    "(l, f, st) \<in> set (sqlite_steps md5 w now)" "l \<in> set ls"
  shows "snd (st db1) = db1"
proof -
  let ?sel = "filter (\<lambda>(l, _, _). l \<in> set ls) (sqlite_steps md5 w now)"
  let ?fs = "map (\<lambda>(_, _, st) db. snd (st db)) ?sel"
  have db1: "db1 = fold (\<lambda>f. f) ?fs db" by (simp add: assms(2) build_sqlite_def run_steps_fold)
  have order: "sorted_wrt undisturbed ?fs"
    using passes_ordered[of md5 w now] unfolding sorted_wrt_map by (rule sorted_wrt_filter)
  have step: "\<exists>l f st. (l, f, st) \<in> set (sqlite_steps md5 w now) \<and> g = (\<lambda>db. snd (st db))" if "g \<in> set ?fs" for g
    using that by auto
  have "\<forall>f\<in>set ?fs. f (fold (\<lambda>f. f) ?fs db) = fold (\<lambda>f. f) ?fs db"
  proof (rule passes_settle[where ok = wh_ok, OF order _ _ assms(1)])
    fix g db assume g: "g \<in> set ?fs" and ok: "wh_ok db"
    obtain l f st where st: "(l, f, st) \<in> set (sqlite_steps md5 w now)" "g = (\<lambda>db. snd (st db))" using step[OF g] by blast
    show "g (g db) = g db" unfolding st(2) by (rule step_again[OF st(1) ok])
    show "wh_ok (g db)" unfolding st(2) by (rule step_keeps_ok[OF st(1) ok])
  qed
  moreover have "(\<lambda>db. snd (st db)) \<in> set ?fs" using assms(3,4) by (force intro!: image_eqI[of _ _ "(l, f, st)"])
  ultimately have "(\<lambda>db. snd (st db)) db1 = db1" unfolding db1 by (rule bspec)
  then show ?thesis by simp
qed

lemma sqlite_steps_mem:
  "(''dws'', ''build_dws_dataset_quality_daily.sql (sqlite simplified)'', build_dws_dataset_quality_daily w now) \<in> set (sqlite_steps md5 w now)"
  "(''ads'', ''build_ads_quality_dashboard.sql (sqlite simplified)'', build_ads_quality_dashboard w now) \<in> set (sqlite_steps md5 w now)"
  by (simp_all add: sqlite_steps_def)

lemma quality_day_in_window: "quality_day w db (d, ds, v) \<Longrightarrow> in_window w d"
  by (auto simp: quality_day_def etl_rows_in_def summary_rows_in_def step_rows_in_def etl_bucket_key_def qc_bucket_key_def
      step_bucket_key_def ml_bucket_key_def snapshot_bucket_key_def quality_key_of_def opt_in_window_def
      split: option.splits if_splits)

lemma ratio_low: "0 \<le> a \<Longrightarrow> a \<le> n \<Longrightarrow> opt_rat (ratio a n) 1 < 8/10 \<longleftrightarrow> 10 * a < 8 * n"
proof -
  assume a: "0 \<le> a" "a \<le> n"
  show ?thesis
  proof (cases "n = 0")
    case True
    then show ?thesis using a by (simp add: opt_rat_def ratio_def)
  next
    case False
    then have n: "(0 :: rat) < of_int n" using a by simp
    have "opt_rat (ratio a n) 1 < 8/10 \<longleftrightarrow> of_int a / of_int n < (8/10 :: rat)" using False by (simp add: opt_rat_def ratio_def)
    also have "\<dots> \<longleftrightarrow> of_int (10 * a) < (of_int (8 * n) :: rat)" using n by (simp add: divide_simps mult.commute)
    also have "\<dots> \<longleftrightarrow> 10 * a < 8 * n" by (simp only: of_int_less_iff)
    finally show ?thesis .
  qed
qed

section \<open>Properties\<close>


text \<open>C6. The build is idempotent: after a build in which no pass fails, building the same layers of the same
  window again at the same moment leaves every table exactly as it is.\<close>

theorem build_twice:
  assumes "wh_ok db"
  shows "snd (build_sqlite (\<lambda>_. None) el md5 w now ls False (snd (build_sqlite (\<lambda>_. None) el md5 w now ls False db))) =
    snd (build_sqlite (\<lambda>_. None) el md5 w now ls False db)"
proof -
  let ?sel = "filter (\<lambda>(l, _, _). l \<in> set ls) (sqlite_steps md5 w now)"
  define db1 where "db1 = snd (build_sqlite (\<lambda>_. None) el md5 w now ls False db)"
  have "snd (st db1) = db1" if "(l, f, st) \<in> set (sqlite_steps md5 w now)" "l \<in> set ls" for l f st
    by (rule build_settled[OF assms db1_def that])
  then have "\<forall>g\<in>set (map (\<lambda>(_, _, st) db. snd (st db)) ?sel). g db1 = db1" by auto
  from passes_twice[OF this] show ?thesis
    unfolding db1_def[symmetric] by (simp add: build_sqlite_def run_steps_fold)
qed

text \<open>C5. From the facts to the alert: after a build of the aggregates and the dashboards, every data set and
  day of the window that some fact speaks of has a row on the quality dashboard, and it is critical
  exactly when less than four fifths of its contract runs passed or less than four fifths of its
  finished ETL runs succeeded.\<close>

theorem build_raises_alerts:
  assumes "wh_ok db" "build_sqlite (\<lambda>_. None) el md5 w now ls False db = (rs, db1)" "''dws'' \<in> set ls" "''ads'' \<in> set ls"
    "quality_day w db1 k"
  shows "\<exists>a :: ads_row. map_of (wb_ads_quality db1) k = Some a \<and>
    (ad_alert_level a = Some ''CRITICAL'' \<longleftrightarrow>
      (let qc = rows_at qc_bucket_key k (summary_rows_in w db1); etl = rows_at etl_bucket_key k (etl_rows_in w db1)
       in 10 * length (filter (\<lambda>r. upper_of (frr_status r) = ''PASS'') qc) < 8 * length qc \<or>
          10 * length (filter etl_ok etl) < 8 * length etl))"
proof -
  obtain d ds v where k: "k = (d, ds, v)" by (cases k)
  have db1: "db1 = snd (build_sqlite (\<lambda>_. None) el md5 w now ls False db)" by (simp add: assms(2))
  have ok1: "wh_ok db1"
    using steps_keep_ok[OF _ assms(1), of "filter (\<lambda>(l, _, _). l \<in> set ls) (sqlite_steps md5 w now)" md5 w now "\<lambda>_. None" el False]
    by (simp add: db1 build_sqlite_def)
  have q: "snd (build_dws_dataset_quality_daily w now db1) = db1"
    by (rule build_settled[OF assms(1) db1 sqlite_steps_mem(1) assms(3)])
  have a: "snd (build_ads_quality_dashboard w now db1) = db1"
    by (rule build_settled[OF assms(1) db1 sqlite_steps_mem(2) assms(4)])
  let ?r = "quality_reference w now db1 k"
  have r: "map_of (wb_quality db1) k = Some ?r"
    using quality_daily_lookup[of w now db1 k] assms(5) by (simp add: q)
  have dt: "dq_dt ?r = d" by (simp add: quality_reference_def Let_def k)
  have w: "in_window w (dq_dt ?r)" unfolding dt using quality_day_in_window assms(5) k by blast
  have "keyed_by quality_row_key (wb_quality db1)" using ok1 by (simp add: wh_ok_def)
  from quality_dashboard_lookup[OF this r w, of now]
  have row: "map_of (wb_ads_quality db1) k = Some (ads_quality_of w now db1 ?r)" by (simp add: a)
  let ?qc = "rows_at qc_bucket_key k (summary_rows_in w db1)" and ?etl = "rows_at etl_bucket_key k (etl_rows_in w db1)"
  let ?pass = "filter (\<lambda>r. upper_of (frr_status r) = ''PASS'') ?qc"
  have rates: "dq_qc_pass_rate ?r = ratio (int (length ?pass)) (int (length ?qc))"
    "dq_etl_success_rate ?r = ratio (int (length (filter etl_ok ?etl))) (int (length ?etl))"
    by (simp_all add: quality_reference_def Let_def k)
  have le: "int (length ?pass) \<le> int (length ?qc)" "int (length (filter etl_ok ?etl)) \<le> int (length ?etl)"
    by (simp_all add: length_filter_le)
  have crit: "ad_alert_level (ads_quality_of w now db1 ?r) = Some ''CRITICAL'' \<longleftrightarrow>
      opt_rat (dq_qc_pass_rate ?r) 1 < 8/10 \<or> opt_rat (dq_etl_success_rate ?r) 1 < 8/10"
    by (simp add: ads_quality_sel verdict_cases)
  have "ad_alert_level (ads_quality_of w now db1 ?r) = Some ''CRITICAL'' \<longleftrightarrow>
      10 * length ?pass < 8 * length ?qc \<or> 10 * length (filter etl_ok ?etl) < 8 * length ?etl"
    unfolding crit rates ratio_low[OF of_nat_0_le_iff le(1)] ratio_low[OF of_nat_0_le_iff le(2)] by linarith
  with row show ?thesis unfolding Let_def by blast
qed

section \<open>Witnesses\<close>

definition demo_perf :: "string \<Rightarrow> etl_perf_row" where
  "demo_perf status = \<lparr>pf_id = 1, pf_job_id = ''j1'', pf_run_id = ''r1'', pf_dataset_id = ''ds'', pf_version = ''v1'',
     pf_phase = ''normalize'', pf_input_uri = None, pf_output_uri = None, pf_input_bytes = Some 10,
     pf_output_bytes = None, pf_input_rows = None, pf_output_rows = None, pf_duration_sec = Some 3,
     pf_download_duration_sec = None, pf_upload_duration_sec = None, pf_compute_duration_sec = None,
     pf_peak_memory_mb = None, pf_worker_id = None, pf_status = status, pf_error_message = None,
     pf_started_at = Some (Date 2024 5 1, 60), pf_finished_at = None, pf_metrics_json = None,
     pf_created_at = (Date 2024 5 1, 60)\<rparr>"

definition demo_wh :: wh_db where
  "demo_wh = empty_wh\<lparr>wb_perf_runs := [demo_perf ''FAIL'']\<rparr>"

definition demo_day_window :: date_range where
  "demo_day_window = \<lparr>dr_start = Date 2024 5 1, dr_end = Date 2024 5 1\<rparr>"

definition demo_sqlite_build :: "layer_result list \<times> wh_db" where
  "demo_sqlite_build = build_sqlite (\<lambda>_. None) 1 (\<lambda>s. s) demo_day_window (Date 2024 5 2, 0) [''fact'', ''dws'', ''ads''] False demo_wh"

lemma demo_wh_ok: "wh_ok demo_wh"
  by (simp add: wh_ok_def demo_wh_def empty_wh_def sources_ok_def keyed_by_def)

lemma demo_wh_etl: "wb_etl (snd demo_sqlite_build) =
    upsert_all (merge_etl (Date 2024 5 2, 0)) (etl_payloads (\<lambda>s. s) demo_day_window demo_wh) []"
  unfolding demo_sqlite_build_def build_sqlite_def run_steps_fold
  by (simp add: sqlite_steps_def pass_eqs pass_defs demo_wh_def empty_wh_def)

lemma demo_wh_etl_row: "map (\<lambda>r. (etl_bucket_key r, etl_ok r, er_dt r)) (map snd (wb_etl (snd demo_sqlite_build))) =
    [(Some demo_day, False, Some (Date 2024 5 1))]"
  unfolding demo_wh_etl by code_simp

lemma demo_day_etl: "\<exists>r. etl_rows_in demo_day_window (snd demo_sqlite_build) = [r] \<and> etl_bucket_key r = Some demo_day \<and> \<not> etl_ok r"
  using demo_wh_etl_row by (auto simp: etl_rows_in_def opt_in_window_def in_window_def demo_day_window_def)

lemma demo_day_built: "quality_day demo_day_window (snd demo_sqlite_build) demo_day"
  using demo_day_etl by (auto simp: quality_day_def)


theorem build_twice_witness:
  "snd (build_sqlite (\<lambda>_. None) 1 (\<lambda>s. s) demo_day_window (Date 2024 5 2, 0) [''fact'', ''dws'', ''ads''] False (snd demo_sqlite_build)) =
     snd demo_sqlite_build"
  using build_twice[OF demo_wh_ok, of 1 "\<lambda>s. s" demo_day_window "(Date 2024 5 2, 0)" "[''fact'', ''dws'', ''ads'']"]
  by (simp add: demo_sqlite_build_def)

theorem build_raises_alerts_witness:
  "\<exists>a :: ads_row. map_of (wb_ads_quality (snd demo_sqlite_build)) demo_day = Some a \<and> ad_alert_level a = Some ''CRITICAL''"
proof -
  have b: "build_sqlite (\<lambda>_. None) 1 (\<lambda>s. s) demo_day_window (Date 2024 5 2, 0) [''fact'', ''dws'', ''ads''] False demo_wh =
      (fst demo_sqlite_build, snd demo_sqlite_build)" by (simp add: demo_sqlite_build_def)
  obtain r where "etl_rows_in demo_day_window (snd demo_sqlite_build) = [r]" "etl_bucket_key r = Some demo_day" "\<not> etl_ok r"
    using demo_day_etl by blast
  then have "rows_at etl_bucket_key demo_day (etl_rows_in demo_day_window (snd demo_sqlite_build)) = [r]" "\<not> etl_ok r"
    by (simp_all add: rows_at_def)
  with build_raises_alerts[OF demo_wh_ok b _ _ demo_day_built] show ?thesis by (auto simp: Let_def)
qed

end
