(* ===== verification/Lake_Names.thy ===== *)
theory Lake_Names
  imports Lake_Store
begin

text \<open>
  The documents of one directory of the lake: a component writes several files with fixed names below an
  output address, by \<open>store.write_text(join_uri(output_uri, name), ...)\<close>. Their addresses end in the
  names, so that they differ and no document overwrites another.
\<close>

definition plain_name :: "string \<Rightarrow> bool" where
  "plain_name n = (n \<noteq> [] \<and> n \<noteq> ''.'' \<and> CHR ''/'' \<notin> set n \<and> strip_ws n = n)"

definition doc_addr :: "store_kind \<Rightarrow> string \<Rightarrow> string \<Rightarrow> lake_addr result" where
  "doc_addr kind base n = rbind (join_uri base [Some n]) (store_addr kind)"

definition save_doc :: "store_kind \<Rightarrow> string \<Rightarrow> string \<Rightarrow> 'c \<Rightarrow> 'c lake \<Rightarrow> (string \<times> 'c lake) result" where
  "save_doc kind base n c s = rbind (join_uri base [Some n]) (\<lambda>u. store_write kind u c s)"

definition read_doc :: "store_kind \<Rightarrow> string \<Rightarrow> string \<Rightarrow> 'c lake \<Rightarrow> 'c result" where
  "read_doc kind base n s = rbind (join_uri base [Some n]) (store_read kind s)"

primrec addr_leaf :: "lake_addr \<Rightarrow> string" where
  "addr_leaf (Object b k) = last ([] # segs k)"
| "addr_leaf (File_At p) = last ([] # path_parts p)"

lemma save_doc_eq: "save_doc kind base n c s = rbind (doc_addr kind base n) (\<lambda>a. Inr (addr_uri a, put_at a c s))"
  by (cases "join_uri base [Some n]") (simp_all add: save_doc_def doc_addr_def store_write_def)

lemma read_doc_eq: "read_doc kind base n s = rbind (doc_addr kind base n) (\<lambda>a.
    case get_at a s of Some c \<Rightarrow> Inr c | None \<Rightarrow> Inl (FileNotFoundError (addr_uri a)))"
  by (cases "join_uri base [Some n]") (simp_all add: read_doc_def doc_addr_def store_read_def)

section \<open>Addresses of documents\<close>

lemma plain_segs: "plain_name n \<Longrightarrow> segs n = [n]" "plain_name n \<Longrightarrow> path_parts n = [n]"
  by (simp_all add: plain_name_def segs_def path_parts_def split_on_no_sep)

lemma plain_strip: "plain_name n \<Longrightarrow> clean_part (Some n) = Some n"
proof -
  assume n: "plain_name n"
  then have "strip_chars is_slash n = n" by (intro strip_chars_none) (auto simp: plain_name_def)
  then show ?thesis using n by (simp add: plain_name_def clean_part_def)
qed

lemma rstrip_slash: "rstrip_chars is_slash s = [] \<or> last (rstrip_chars is_slash s) \<noteq> CHR ''/''"
proof (cases "dropWhile is_slash (rev s)")
  case (Cons c t)
  then have "\<not> is_slash c" by (simp add: dropWhile_eq_Cons_conv)
  then show ?thesis by (simp add: rstrip_chars_def Cons)
qed (simp add: rstrip_chars_def)

lemma rstrip_prefix: "\<exists>t. s = rstrip_chars is_slash s @ t"
  unfolding rstrip_chars_def by (metis rev_append rev_rev_ident takeWhile_dropWhile_id)

text \<open>A local address stays local: nothing turns \<open>base/name\<close> into an address with a scheme.\<close>

lemma join_no_scheme:
  assumes "\<not> prefix (q @ '':/'' @ ''/'') base" "plain_name n"
  shows "\<not> prefix (q @ '':/'' @ ''/'') (rstrip_chars is_slash base @ ''/'' @ n)" "\<not> prefix (q @ '':/'' @ ''/'') n"
proof -
  let ?b = "rstrip_chars is_slash base" and ?p = "q @ '':/'' @ ''/''"
  obtain t where t: "base = ?b @ t" using rstrip_prefix by blast
  have plain: "CHR ''/'' \<notin> set v" if "prefix v n" for v
    using that assms(2) set_mono_prefix unfolding plain_name_def by blast
  show "\<not> prefix ?p (?b @ ''/'' @ n)"
  proof
    assume "prefix ?p (?b @ ''/'' @ n)"
    moreover have nb: "\<not> prefix ?p ?b" using assms(1) prefix_order.trans by (metis t prefixI)
    ultimately obtain us where us: "?p = ?b @ us" "prefix us (''/'' @ n)" unfolding prefix_append by blast
    from us nb obtain v where v: "us = CHR ''/'' # v" "prefix v n"
      by (cases us) auto
    have "v = []"
    proof (rule ccontr)
      assume "v \<noteq> []"
      then have "last v = last ?p" using us(1) v(1) by simp
      then show False using plain[OF v(2)] last_in_set[OF \<open>v \<noteq> []\<close>] by simp
    qed
    then have "(q @ '':/'') @ [CHR ''/''] = ?b @ [CHR ''/'']" using us(1) v(1) by simp
    then have "?b = q @ '':/''" unfolding append1_eq_conv by simp
    then show False using rstrip_slash[of base] by simp
  qed
  show "\<not> prefix ?p n" using plain[of ?p] by auto
qed

lemma doc_addr_s3:
  assumes "parse_uri base = Inr u" "is_s3 u" "plain_name n"
  shows "doc_addr S3LakeStore base n = Inr (Object (u_bucket u) (seg_join (segs (u_key u) @ [n])))"
proof -
  have u: "u_scheme u = S3" using assms(2) by (simp add: is_s3_def)
  have p: "concat (map part_segs [Some n]) = [n]"
    using plain_segs[OF assms(3)] assms(3) by (simp add: part_segs_def plain_name_def)
  obtain w where w: "join_uri base [Some n] = Inr w" using join_uri_s3[OF assms(1) u] by simp
  show ?thesis using parse_join_s3[OF assms(1) u w] unfolding p
    by (simp add: doc_addr_def w store_addr_def s3_parse_def is_s3_def)
qed

lemma doc_addr_local:
  assumes "parse_uri base = Inr u" "\<not> is_s3 u" "\<not> is_file_uri base" "plain_name n"
  shows "\<exists>p. doc_addr LocalLakeStore base n = Inr (File_At p) \<and> last ([] # path_parts p) = n"
proof -
  have s3: "\<not> is_s3_uri base" using parse_uri_scheme[OF assms(1)] assms(2) by (simp add: is_s3_def)
  have u: "u = local_lake_uri base" using parse_uri_local_cases[OF assms(1) s3] assms(3) by simp
  let ?b = "rstrip_chars is_slash base"
  let ?w = "if ?b \<noteq> [] then ?b @ ''/'' @ n else n"
  have n: "n \<noteq> []" using assms(4) by (simp add: plain_name_def)
  have c: "List.map_filter clean_part [Some n] = [n]" using plain_strip[OF assms(4)] by (simp add: List.map_filter_def)
  have w: "join_uri base [Some n] = Inr ?w"
    using assms(1,2) n c unfolding join_uri_def by (simp add: Let_def u)
  have ws3: "\<not> is_s3_uri ?w" and wf: "\<not> is_file_uri ?w"
    using join_no_scheme[of "''s3''" base n] join_no_scheme[of "''file''" base n] s3 assms(3,4)
    by (simp_all add: is_s3_uri_def is_file_uri_def)
  have parts: "path_parts ?w \<noteq> [] \<and> last (path_parts ?w) = n"
    using plain_segs(2)[OF assms(4)] by (simp add: path_parts_append)
  have "parse_uri ?w = Inr (local_lake_uri ?w)"
    using ws3 wf n unfolding parse_uri_def is_s3_uri_def is_file_uri_def by simp
  then have "doc_addr LocalLakeStore base n = Inr (File_At (path_str ?w))"
    by (simp add: doc_addr_def w store_addr_def split del: if_split)
  then show ?thesis using parts by (auto simp: path_parts_path_str split del: if_split)
qed

lemma doc_addr_ok:
  assumes "create_lake_store env base = Inr kind" "\<not> is_file_uri base" "plain_name n"
  shows "\<exists>a. doc_addr kind base n = Inr a \<and> addr_leaf a = n"
proof -
  obtain u where u: "parse_uri base = Inr u" and k: "kind = (if is_s3 u then S3LakeStore else LocalLakeStore)"
    using assms(1) by (auto simp: create_lake_store_def rbind_Inr_iff split: if_splits)
  show ?thesis
  proof (cases "is_s3 u")
    case True
    have "segs (seg_join (segs (u_key u) @ [n])) = segs (u_key u) @ [n]"
      by (rule segs_seg_join) (use segs_parts_ok assms(3) in \<open>auto simp: plain_name_def\<close>)
    then show ?thesis using doc_addr_s3[OF u True assms(3)] True k by simp
  next
    case False
    then show ?thesis using doc_addr_local[OF u False assms(2,3)] k by auto
  qed
qed

section \<open>A set of documents\<close>

text \<open>The contract of a directory of documents: a document with a good name can be written, and is then
  what was written, while the others stay.\<close>

locale named_docs =
  fixes save :: "string \<Rightarrow> 'c \<Rightarrow> 's \<Rightarrow> (string \<times> 's) result"
    and rd :: "string \<Rightarrow> 's \<Rightarrow> 'c result"
    and good :: "string \<Rightarrow> bool"
  assumes save_ok: "good n \<Longrightarrow> \<exists>v s'. save n c s = Inr (v, s')"
    and rd_save: "good n \<Longrightarrow> good m \<Longrightarrow> save n c s = Inr (v, s') \<Longrightarrow> rd m s' = (if m = n then Inr c else rd m s)"
begin

lemma save_not_Inl: "good n \<Longrightarrow> save n c s \<noteq> Inl e"
  using save_ok[of n c s] by auto

lemma rd_same_doc: "good n \<Longrightarrow> save n c s = Inr (v, s') \<Longrightarrow> rd n s' = Inr c"
  using rd_save[of n n c s v s'] by simp

lemma rd_other_doc: "good n \<Longrightarrow> good m \<Longrightarrow> save n c s = Inr (v, s') \<Longrightarrow> m \<noteq> n \<Longrightarrow> rd m s' = rd m s"
  using rd_save[of n m c s v s'] by simp

end

definition doc_names_ok :: "store_kind \<Rightarrow> string \<Rightarrow> string \<Rightarrow> bool" where
  "doc_names_ok kind base n = (plain_name n \<and> \<not> is_file_uri base \<and>
     (\<exists>u. parse_uri base = Inr u \<and> kind = (if is_s3 u then S3LakeStore else LocalLakeStore)))"

lemma doc_names_okI: "create_lake_store env base = Inr kind \<Longrightarrow> \<not> is_file_uri base \<Longrightarrow> plain_name n \<Longrightarrow> doc_names_ok kind base n"
  by (auto simp: doc_names_ok_def create_lake_store_def rbind_Inr_iff split: if_splits)

lemma doc_names_addr: "doc_names_ok kind base n \<Longrightarrow> \<exists>a. doc_addr kind base n = Inr a \<and> addr_leaf a = n"
proof -
  assume a: "doc_names_ok kind base n"
  then have "create_lake_store (e\<lparr>e_s3_ready := True\<rparr>) base = Inr kind" for e :: lake_env
    by (auto simp: doc_names_ok_def create_lake_store_def)
  from doc_addr_ok[OF this] show ?thesis using a by (simp add: doc_names_ok_def)
qed

interpretation docs: named_docs "save_doc kind base" "read_doc kind base" "doc_names_ok kind base" for kind base
proof unfold_locales
  fix n m v and c :: 'c and s s' :: "'c lake"
  show "doc_names_ok kind base n \<Longrightarrow> \<exists>v s'. save_doc kind base n c s = Inr (v, s')"
    using doc_names_addr by (fastforce simp: save_doc_eq)
  assume n: "doc_names_ok kind base n" and m: "doc_names_ok kind base m" and w: "save_doc kind base n c s = Inr (v, s')"
  obtain a b where a: "doc_addr kind base n = Inr a" "addr_leaf a = n" "doc_addr kind base m = Inr b" "addr_leaf b = m"
    using doc_names_addr[OF n] doc_names_addr[OF m] by blast
  show "read_doc kind base m s' = (if m = n then Inr c else read_doc kind base m s)"
    using w a by (cases "m = n") (auto simp: save_doc_eq read_doc_eq get_put_at)
qed

end
