(* ===== verification/Distill.thy ===== *)
theory Distill
  imports Lake_Names Inference_Data Job_State Warehouse_Tables
begin

text \<open>
  \<^verbatim>\<open>src/robot_dh/distill\<close>: the construction of a training set for a student model from the outputs of a
  teacher. The rows of the teacher become records of the chosen format, each record goes to the split
  that the digest of its id selects, and the splits, a report, a card and a manifest are written below
  the output address, with a row in the warehouse and two events. \<open>json.loads\<close>, \<open>json.dumps\<close>, the first
  eight bytes of SHA-256 as a number, the parquet tables, the text of the card, the id and the clock are
  parameters. A split file is the text it holds; the other documents are JSON values.
\<close>

section \<open>Records\<close>

definition distill_formats :: "string list" where
  "distill_formats = [''instruction_tuning'', ''caption_sft'', ''embedding_pairs'', ''anomaly_detection'']"

definition default_templates :: "(string \<times> string) list" where
  "default_templates = [(''caption'', ''Describe the robot episode.''),
     (''anomaly'', ''Determine whether the robot episode is anomalous.'')]"

text \<open>\<open>loads\<close> is \<open>None\<close> where \<open>json.loads\<close> raises a \<open>ValueError\<close>.\<close>

definition parse_prediction :: "(string \<Rightarrow> pyval option) \<Rightarrow> pydict \<Rightarrow> pydict" where
  "parse_prediction loads row = (case get row ''prediction_json'' of
     VDict d \<Rightarrow> d
   | VStr raw \<Rightarrow> (if raw = [] then [] else case loads raw of Some (VDict d) \<Rightarrow> d | _ \<Rightarrow> [])
   | _ \<Rightarrow> [])"

definition input_block :: "pydict \<Rightarrow> pydict" where
  "input_block row = [(''sample_id'', get row ''sample_id''), (''dataset_id'', get row ''dataset_id''),
     (''episode_id'', get row ''episode_id''),
     (''input_refs'', VList (filter truthy [get row ''input_uri'']))]"

text \<open>The default of \<open>label\<close> is computed before \<open>get\<close> is called, so that a score that is not a number
  raises even where there is a label.\<close>

definition build_record ::
  "(string \<Rightarrow> pyval option) \<Rightarrow> string \<Rightarrow> pydict \<Rightarrow> pyval \<Rightarrow> (string \<times> string) list \<Rightarrow> pydict option result" where
  "build_record loads fmt row teacher templates =
     (let pred = parse_prediction loads row;
          sample_id = get row ''sample_id''
      in if \<not> truthy sample_id then Inr None
         else if fmt \<in> {''instruction_tuning'', ''caption_sft''} then
           (let text = get pred ''text''
            in if \<not> truthy text then Inr None
               else Inr (Some [(''id'', sample_id),
                 (''instruction'', VStr (dict_get templates ''caption'' ''Describe the robot episode.'')),
                 (''input'', VDict (input_block row)), (''output'', text), (''teacher_model'', teacher),
                 (''metadata'', VDict [(''confidence'', get row ''confidence''),
                   (''prediction_type'', get row ''prediction_type'')])]))
         else if fmt = ''embedding_pairs'' then
           (case get pred ''embedding'' of
              VList emb \<Rightarrow> Inr (Some [(''id'', sample_id), (''sample_id'', sample_id),
                (''dataset_id'', get row ''dataset_id''), (''episode_id'', get row ''episode_id''),
                (''embedding'', VList emb), (''dim'', get_or pred ''dim'' (VInt (int (length emb)))),
                (''teacher_model'', teacher)])
            | _ \<Rightarrow> Inr None)
         else if fmt = ''anomaly_detection'' then
           (let score = get pred ''anomaly_score''
            in if score = VNone then Inr None
               else rbind (py_float score) (\<lambda>q. Inr (Some [(''id'', sample_id), (''sample_id'', sample_id),
                 (''dataset_id'', get row ''dataset_id''), (''episode_id'', get row ''episode_id''),
                 (''anomaly_score'', score),
                 (''label'', get_or pred ''label'' (VStr (if q \<ge> 1/2 then ''anomaly'' else ''normal''))),
                 (''teacher_model'', teacher)])))
         else Inl (ValueError (''distill_format='' @ fmt)))"

definition row_ok :: "pydict \<Rightarrow> bool" where
  "row_ok row = (py_or (get row ''status'') (VStr ''OK'') = VStr ''OK'')"

fun iter_records ::
  "(string \<Rightarrow> pyval option) \<Rightarrow> string \<Rightarrow> pydict list \<Rightarrow> pyval \<Rightarrow> (string \<times> string) list \<Rightarrow> pydict list result" where
  "iter_records loads fmt [] teacher templates = Inr []"
| "iter_records loads fmt (row # rows) teacher templates =
     (if \<not> row_ok row then iter_records loads fmt rows teacher templates
      else rbind (build_record loads fmt row teacher templates) (\<lambda>r.
           rbind (iter_records loads fmt rows teacher templates) (\<lambda>rs.
           Inr (case r of None \<Rightarrow> rs | Some x \<Rightarrow> x # rs))))"

section \<open>Splits\<close>

type_synonym shares = "rat \<times> rat \<times> rat"

definition normalize_split :: "shares \<Rightarrow> shares" where
  "normalize_split s = (case s of (a, b, c) \<Rightarrow>
     let a' = max 0 a; b' = max 0 b; c' = max 0 c; total = a' + b' + c'
     in if total \<le> 0 then (8/10, 1/10, 1/10) else (a' / total, b' / total, c' / total))"

definition split_at :: "shares \<Rightarrow> rat \<Rightarrow> string" where
  "split_at ratios h = (case ratios of (a, b, c) \<Rightarrow>
     if h < a then ''train'' else if h < a + b then ''val'' else ''test'')"

definition assign_split :: "(string \<Rightarrow> nat) \<Rightarrow> string \<Rightarrow> shares \<Rightarrow> string" where
  "assign_split digest8 rec_id ratios = split_at ratios (of_nat (digest8 rec_id mod 10000) / 10000)"

definition record_id :: "pydict \<Rightarrow> string" where
  "record_id r = py_str (get r ''id'')"

definition no_records :: "(string \<times> pydict list) list" where
  "no_records = [(''train'', []), (''val'', []), (''test'', [])]"

definition split_records :: "(string \<Rightarrow> nat) \<Rightarrow> shares \<Rightarrow> pydict list \<Rightarrow> (string \<times> pydict list) list" where
  "split_records digest8 ratios recs =
     fold (\<lambda>r d. let n = assign_split digest8 (record_id r) ratios in dict_set n (dict_get d n [] @ [r]) d) recs no_records"

definition split_file :: "string \<Rightarrow> string" where
  "split_file name = dict_get [(''train'', ''train.jsonl''), (''val'', ''val.jsonl''), (''test'', ''test.jsonl'')] name []"

definition json_lines :: "(pyval \<Rightarrow> string) \<Rightarrow> pydict list \<Rightarrow> string" where
  "json_lines dumps recs = (let text = join [CHR 0x0A] (map (\<lambda>r. dumps (VDict r)) recs)
     in if text \<noteq> [] then text @ [CHR 0x0A] else [])"

section \<open>The build\<close>

record distill_args =
  da_teacher_output_uri :: string
  da_format :: string
  da_output_uri :: string
  da_split :: shares
  da_templates :: "(string \<times> string) list"
  da_teacher_model :: "string option"
  da_source_job_id :: "string option"
  da_dataset_id :: "string option"
  da_version :: "string option"

record distill_report =
  rd_distill_id :: string
  rd_distill_format :: string
  rd_teacher_model_id :: pyval
  rd_source_inference_job_id :: pyval
  rd_dataset_id :: pyval
  rd_version :: pyval
  rd_output_uri :: string
  rd_train_uri :: string
  rd_val_uri :: string
  rd_test_uri :: string
  rd_num_total :: int
  rd_num_train :: int
  rd_num_val :: int
  rd_num_test :: int
  rd_num_skipped :: int
  rd_status :: string
  rd_split_ratio :: shares

record distill_env =
  dn_lake_env :: lake_env
  dn_tables :: tables
  dn_loads :: "string \<Rightarrow> pyval option"
  dn_dumps :: "pyval \<Rightarrow> string"
  dn_digest8 :: "string \<Rightarrow> nat"
  dn_card :: "distill_report \<Rightarrow> string"
  dn_id :: string
  dn_has_db :: bool
  dn_db_fails :: bool
  dn_now :: datetime
  dn_created_at :: string

record distill_world =
  dz_lake :: "content lake"
  dz_events :: task_store
  dz_rows :: "(string \<times> distillation_row) list"

record distill_result =
  dg_report :: distill_report
  dg_report_uri :: string
  dg_card_uri :: string
  dg_manifest_uri :: string

definition report_to_dict :: "distill_report \<Rightarrow> pydict" where
  "report_to_dict r = [(''distill_id'', VStr (rd_distill_id r)), (''distill_format'', VStr (rd_distill_format r)),
     (''teacher_model_id'', rd_teacher_model_id r), (''source_inference_job_id'', rd_source_inference_job_id r),
     (''dataset_id'', rd_dataset_id r), (''version'', rd_version r), (''output_uri'', VStr (rd_output_uri r)),
     (''train_uri'', VStr (rd_train_uri r)), (''val_uri'', VStr (rd_val_uri r)), (''test_uri'', VStr (rd_test_uri r)),
     (''num_total'', VInt (rd_num_total r)), (''num_train'', VInt (rd_num_train r)), (''num_val'', VInt (rd_num_val r)),
     (''num_test'', VInt (rd_num_test r)), (''num_skipped'', VInt (rd_num_skipped r)), (''status'', VStr (rd_status r)),
     (''split_ratio'', case rd_split_ratio r of (a, b, c) \<Rightarrow> VList [VFloat a, VFloat b, VFloat c])]"

text \<open>Whatever goes wrong while reading the report of the teacher, it counts as empty; a report that is not
  a mapping raises when it is asked for a key.\<close>

definition teacher_report :: "lake_env \<Rightarrow> string \<Rightarrow> content lake \<Rightarrow> pyval" where
  "teacher_report env uri lake =
     (case rbind (create_lake_store env uri) (\<lambda>kind. rbind (join_uri uri [Some ''inference_report.json'']) (read_json kind lake)) of
        Inl _ \<Rightarrow> VDict [] | Inr v \<Rightarrow> v)"

definition meta_get :: "pyval \<Rightarrow> string \<Rightarrow> pyval result" where
  "meta_get meta k = (case meta of VDict d \<Rightarrow> Inr (get d k) | _ \<Rightarrow> Inl (AttributeError ''get''))"

definition arg_or_meta :: "string option \<Rightarrow> pyval \<Rightarrow> string \<Rightarrow> pyval result" where
  "arg_or_meta arg meta k = (if opt_truthy arg then Inr (of_opt_str arg) else meta_get meta k)"

fun first_value :: "pydict list \<Rightarrow> string \<Rightarrow> pyval" where
  "first_value [] k = VNone"
| "first_value (row # rows) k = (if truthy (get row k) then get row k else first_value rows k)"

record distill_inputs =
  di_rows :: "pydict list"
  di_teacher :: pyval
  di_job :: pyval
  di_dataset :: pyval
  di_version :: pyval

definition read_inputs :: "distill_env \<Rightarrow> distill_args \<Rightarrow> content lake \<Rightarrow> distill_inputs result" where
  "read_inputs env a lake =
     rbind (read_predictions (dn_tables env) (da_teacher_output_uri a)) (\<lambda>rows.
     let meta = teacher_report (dn_lake_env env) (da_teacher_output_uri a) lake
     in rbind (arg_or_meta (da_teacher_model a) meta ''model_id'') (\<lambda>teacher.
        rbind (arg_or_meta (da_source_job_id a) meta ''job_id'') (\<lambda>job.
        rbind (arg_or_meta (da_dataset_id a) meta ''dataset_id'') (\<lambda>ds.
        rbind (arg_or_meta (da_version a) meta ''version'') (\<lambda>v.
        Inr \<lparr>di_rows = rows, di_teacher = teacher, di_job = job, di_dataset = py_or ds (first_value rows ''dataset_id''),
             di_version = py_or v (first_value rows ''version'')\<rparr>)))))"

text \<open>Identifiers in an event are texts.\<close>

definition distill_event :: "string \<Rightarrow> distill_env \<Rightarrow> distill_inputs \<Rightarrow> pydict \<Rightarrow> ai_event" where
  "distill_event type env i payload =
     \<lparr>ae_type = type, ae_task_id = Some (dn_id env), ae_job_id = safe_str (di_job i), ae_model_id = safe_str (di_teacher i),
      ae_dataset_id = safe_str (di_dataset i), ae_version = safe_str (di_version i), ae_payload = payload\<rparr>"

definition on_lake :: "(content lake \<Rightarrow> ('a \<times> content lake) result) \<Rightarrow> (distill_world, 'a) act" where
  "on_lake f = act_update (\<lambda>z. rbind (f (dz_lake z)) (\<lambda>(r, l). Inr (r, z\<lparr>dz_lake := l\<rparr>)))"

definition log_event :: "ai_event \<Rightarrow> (distill_world, unit) act" where
  "log_event e = act_modify (\<lambda>z. z\<lparr>dz_events := emit_event e (dz_events z)\<rparr>)"

primrec save_splits ::
  "store_kind \<Rightarrow> string \<Rightarrow> (pyval \<Rightarrow> string) \<Rightarrow> (string \<times> pydict list) list \<Rightarrow> (distill_world, (string \<times> string) list) act" where
  "save_splits kind out dumps [] = act_return []"
| "save_splits kind out dumps (x # xs) = (case x of (name, recs) \<Rightarrow>
     act_bind (on_lake (save_doc kind out (split_file name) (Text (json_lines dumps recs)))) (\<lambda>u.
     act_bind (save_splits kind out dumps xs) (\<lambda>us. act_return ((name, u) # us))))"

definition distill_manifest :: "distill_env \<Rightarrow> distill_report \<Rightarrow> (string \<times> string) list \<Rightarrow> pydict" where
  "distill_manifest env r uris =
     [(''schema_version'', VStr ''1.9''), (''kind'', VStr ''distillation_dataset''), (''distill_id'', VStr (rd_distill_id r)),
      (''distill_format'', VStr (rd_distill_format r)), (''teacher_model_id'', rd_teacher_model_id r),
      (''dataset_id'', rd_dataset_id r), (''version'', rd_version r), (''output_uri'', VStr (rd_output_uri r)),
      (''files'', VList [VDict [(''path'', VStr ''train.jsonl''), (''uri'', VStr (dict_get uris ''train'' []))],
         VDict [(''path'', VStr ''val.jsonl''), (''uri'', VStr (dict_get uris ''val'' []))],
         VDict [(''path'', VStr ''test.jsonl''), (''uri'', VStr (dict_get uris ''test'' []))]]),
      (''num_total'', VInt (rd_num_total r)), (''created_at'', VStr (dn_created_at env))]"

definition distill_report_of ::
  "distill_env \<Rightarrow> distill_args \<Rightarrow> distill_inputs \<Rightarrow> pydict list \<Rightarrow> (string \<times> pydict list) list \<Rightarrow> (string \<times> string) list \<Rightarrow> distill_report" where
  "distill_report_of env a i recs splits uris =
     \<lparr>rd_distill_id = dn_id env, rd_distill_format = da_format a, rd_teacher_model_id = di_teacher i,
      rd_source_inference_job_id = di_job i, rd_dataset_id = di_dataset i, rd_version = di_version i,
      rd_output_uri = da_output_uri a, rd_train_uri = dict_get uris ''train'' [], rd_val_uri = dict_get uris ''val'' [],
      rd_test_uri = dict_get uris ''test'' [], rd_num_total = int (length recs),
      rd_num_train = int (length (dict_get splits ''train'' [])), rd_num_val = int (length (dict_get splits ''val'' [])),
      rd_num_test = int (length (dict_get splits ''test'' [])),
      rd_num_skipped = int (length (di_rows i)) - int (length recs), rd_status = ''READY'',
      rd_split_ratio = normalize_split (da_split a)\<rparr>"

definition distill_row_of :: "distill_env \<Rightarrow> distill_report \<Rightarrow> string \<Rightarrow> distillation_row option \<Rightarrow> distillation_row" where
  "distill_row_of env r card_uri old =
     \<lparr>dt_distill_id = rd_distill_id r, dt_dataset_id = safe_str (rd_dataset_id r), dt_version = safe_str (rd_version r),
      dt_source_inference_job_id = safe_str (rd_source_inference_job_id r), dt_teacher_model_id = safe_str (rd_teacher_model_id r),
      dt_distill_format = rd_distill_format r, dt_output_uri = rd_output_uri r, dt_train_uri = Some (rd_train_uri r),
      dt_val_uri = Some (rd_val_uri r), dt_test_uri = Some (rd_test_uri r), dt_dataset_card_uri = Some card_uri,
      dt_num_train = rd_num_train r, dt_num_val = rd_num_val r, dt_num_test = rd_num_test r, dt_status = rd_status r,
      dt_metrics_json = Some (VDict [(''num_total'', VInt (rd_num_total r)), (''num_skipped'', VInt (rd_num_skipped r))]),
      dt_created_at = (case old of None \<Rightarrow> dn_now env | Some row \<Rightarrow> dt_created_at row), dt_updated_at = dn_now env\<rparr>"

text \<open>A database that fails is only logged.\<close>

definition write_distill_pg :: "distill_env \<Rightarrow> distill_report \<Rightarrow> string \<Rightarrow> (distill_world, unit) act" where
  "write_distill_pg env r card_uri = act_modify (\<lambda>z.
     if dn_has_db env \<and> \<not> dn_db_fails env
     then z\<lparr>dz_rows := dict_upsert (distill_row_of env r card_uri) (rd_distill_id r) (dz_rows z)\<rparr> else z)"

definition write_distill ::
  "distill_env \<Rightarrow> distill_args \<Rightarrow> distill_inputs \<Rightarrow> pydict list \<Rightarrow> (distill_world, distill_result) act" where
  "write_distill env a i recs =
     (let splits = split_records (dn_digest8 env) (normalize_split (da_split a)) recs; out = da_output_uri a
      in act_bind (act_lift (create_lake_store (dn_lake_env env) out)) (\<lambda>kind.
         act_bind (save_splits kind out (dn_dumps env) splits) (\<lambda>uris.
         let r = distill_report_of env a i recs splits uris
         in act_bind (on_lake (save_doc kind out ''distill_report.json'' (Json (VDict (report_to_dict r))))) (\<lambda>report_uri.
            act_bind (on_lake (save_doc kind out ''dataset_card.md'' (Text (dn_card env r)))) (\<lambda>card_uri.
            act_bind (on_lake (save_doc kind out ''_manifest.json'' (Json (VDict (distill_manifest env r uris))))) (\<lambda>manifest_uri.
            act_bind (write_distill_pg env r card_uri) (\<lambda>_.
            act_bind (log_event (distill_event ''distill_build_finished'' env i
               [(''num_total'', VInt (rd_num_total r)), (''num_train'', VInt (rd_num_train r)), (''report_uri'', VStr report_uri)])) (\<lambda>_.
            act_return \<lparr>dg_report = r, dg_report_uri = report_uri, dg_card_uri = card_uri, dg_manifest_uri = manifest_uri\<rparr>))))))))"

definition build_distill :: "distill_env \<Rightarrow> distill_args \<Rightarrow> (distill_world, distill_result) act" where
  "build_distill env a =
     (if da_format a \<notin> set distill_formats then act_lift (Inl (ValueError (''distill_format='' @ da_format a)))
      else act_bind (act_read (\<lambda>z. read_inputs env a (dz_lake z))) (\<lambda>i.
           act_bind (log_event (distill_event ''distill_build_started'' env i
              [(''distill_format'', VStr (da_format a)), (''teacher_output_uri'', VStr (da_teacher_output_uri a))])) (\<lambda>_.
           act_bind (act_lift (iter_records (dn_loads env) (da_format a) (di_rows i) (py_or (di_teacher i) (VStr ''unknown''))
              (fold (\<lambda>(k, v). dict_set k v) (da_templates a) default_templates))) (write_distill env a i))))"

section \<open>Lemmas\<close>

definition split_names :: "string list" where
  "split_names = [''train'', ''val'', ''test'']"

lemma assign_split_name: "assign_split dg rid ratios \<in> set split_names"
  by (cases ratios) (simp add: assign_split_def split_at_def split_names_def)

lemma split_records_keys: "dict_keys (split_records dg ratios recs) = split_names"
proof (induction recs rule: rev_induct)
  case Nil
  then show ?case by (simp add: split_records_def no_records_def split_names_def)
next
  case (snoc r recs)
  then show ?case using assign_split_name[of dg "record_id r" ratios]
    by (simp add: split_records_def Let_def dict_keys_set del: set_map)
qed

lemma split_records_get:
  "dict_get (split_records dg ratios recs) n [] = filter (\<lambda>r. assign_split dg (record_id r) ratios = n) recs"
proof (induction recs rule: rev_induct)
  case Nil
  then show ?case by (simp add: split_records_def no_records_def dict_get_def)
next
  case (snoc r recs)
  then show ?case by (cases "n = assign_split dg (record_id r) ratios") (simp_all add: split_records_def Let_def dict_get_set)
qed

lemma split_records_eq: "split_records dg ratios recs =
    map (\<lambda>n. (n, filter (\<lambda>r. assign_split dg (record_id r) ratios = n) recs)) split_names" (is "?d = map ?f _")
proof (rule dict_eqI)
  show "dict_keys ?d = dict_keys (map ?f split_names)" by (simp add: split_records_keys comp_def)
  show "dict_ok ?d" by (simp add: split_records_keys split_names_def del: distinct_map)
  show "map_of ?d = map_of (map ?f split_names)"
  proof
    fix n
    show "map_of ?d n = map_of (map ?f split_names) n"
    proof (cases "n \<in> set split_names")
      case True
      then have "n \<in> set (dict_keys ?d)" by (simp only: split_records_keys)
      then obtain rs where rs: "map_of ?d n = Some rs" by (metis map_of_eq_None_iff set_map option.exhaust)
      then show ?thesis using True split_records_get[of dg ratios recs n] by (simp add: dict_get_def map_of_map_restrict)
    next
      case False
      then have "n \<notin> set (dict_keys ?d)" by (simp only: split_records_keys not_False_eq_True)
      then have "map_of ?d n = None" by (simp add: map_of_eq_None_iff)
      then show ?thesis using False by (simp add: map_of_map_restrict)
    qed
  qed
qed

lemma split_counts: "length recs = length (filter (\<lambda>r. assign_split dg (record_id r) ratios = ''train'') recs) +
    length (filter (\<lambda>r. assign_split dg (record_id r) ratios = ''val'') recs) +
    length (filter (\<lambda>r. assign_split dg (record_id r) ratios = ''test'') recs)"
proof (induction recs)
  case (Cons r recs)
  then show ?case using assign_split_name[of dg "record_id r" ratios] by (auto simp: split_names_def)
qed simp

lemma iter_records_length: "iter_records loads fmt rows teacher ts = Inr rs \<Longrightarrow> length rs \<le> length rows"
proof (induction rows arbitrary: rs)
  case (Cons row rows)
  then show ?case
    by (cases "row_ok row") (force simp: rbind_Inr_iff split: option.splits dest!: Cons.IH)+
qed simp

text \<open>Writing the documents of a build.\<close>

lemma on_lake_Inr_iff: "on_lake f z = (Inr r, z') \<longleftrightarrow> (\<exists>l. f (dz_lake z) = Inr (r, l) \<and> z' = z\<lparr>dz_lake := l\<rparr>)"
  by (auto simp: on_lake_def act_update_Inr_iff rbind_Inr_iff)

lemma on_lake_Inl_iff: "on_lake f z = (Inl e, z') \<longleftrightarrow> f (dz_lake z) = Inl e \<and> z' = z"
  by (cases "f (dz_lake z)") (auto simp: on_lake_def act_update_def)

lemma split_file_names: "plain_name (split_file ''train'')" "plain_name (split_file ''val'')" "plain_name (split_file ''test'')"
  "split_file ''train'' = ''train.jsonl''" "split_file ''val'' = ''val.jsonl''" "split_file ''test'' = ''test.jsonl''"
  "plain_name ''distill_report.json''" "plain_name ''dataset_card.md''" "plain_name ''_manifest.json''"
  by code_simp+

text \<open>The splits of a build, and then its three documents: none can fail, and each is read back.\<close>

lemma save_splits_names:
  "doc_names_ok kind out ''train.jsonl'' \<Longrightarrow> doc_names_ok kind out ''val.jsonl'' \<Longrightarrow> doc_names_ok kind out ''test.jsonl'' \<Longrightarrow>
    \<exists>uris l. save_splits kind out dumps (map (\<lambda>n. (n, f n)) split_names) z = (Inr uris, z\<lparr>dz_lake := l\<rparr>) \<and>
      (\<forall>m. doc_names_ok kind out m \<longrightarrow> read_doc kind out m l =
         (if m = ''test.jsonl'' then Inr (Text (json_lines dumps (f ''test'')))
          else if m = ''val.jsonl'' then Inr (Text (json_lines dumps (f ''val'')))
          else if m = ''train.jsonl'' then Inr (Text (json_lines dumps (f ''train'')))
          else read_doc kind out m (dz_lake z)))"
proof -
  assume ok: "doc_names_ok kind out ''train.jsonl''" "doc_names_ok kind out ''val.jsonl''" "doc_names_ok kind out ''test.jsonl''"
  let ?t = "\<lambda>n. Text (json_lines dumps (f n))"
  obtain u1 l1 where 1: "save_doc kind out ''train.jsonl'' (?t ''train'') (dz_lake z) = Inr (u1, l1)"
    using docs.save_ok[OF ok(1), of "(?t ''train'')" "(dz_lake z)"] by (elim exE)
  obtain u2 l2 where 2: "save_doc kind out ''val.jsonl'' (?t ''val'') l1 = Inr (u2, l2)"
    using docs.save_ok[OF ok(2), of "(?t ''val'')" "l1"] by (elim exE)
  obtain u3 l3 where 3: "save_doc kind out ''test.jsonl'' (?t ''test'') l2 = Inr (u3, l3)"
    using docs.save_ok[OF ok(3), of "(?t ''test'')" "l2"] by (elim exE)
  have "save_splits kind out dumps (map (\<lambda>n. (n, f n)) split_names) z =
      (Inr [(''train'', u1), (''val'', u2), (''test'', u3)], z\<lparr>dz_lake := l3\<rparr>)"
    using 1 2 3 by (simp add: split_names_def split_file_names on_lake_def act_bind_def act_update_def act_apply)
  moreover have "read_doc kind out m l3 =
         (if m = ''test.jsonl'' then Inr (?t ''test'') else if m = ''val.jsonl'' then Inr (?t ''val'')
          else if m = ''train.jsonl'' then Inr (?t ''train'') else read_doc kind out m (dz_lake z))" if "doc_names_ok kind out m" for m
    using docs.rd_save[OF ok(1) that 1] docs.rd_save[OF ok(2) that 2] docs.rd_save[OF ok(3) that 3] by simp
  ultimately show ?thesis by blast
qed

lemma write_distill_runs:
  fixes recs :: "pydict list"
  assumes "create_lake_store (dn_lake_env env) (da_output_uri a) = Inr kind" "\<not> is_file_uri (da_output_uri a)"
  defines "sel \<equiv> \<lambda>n. filter (\<lambda>r. assign_split (dn_digest8 env) (record_id r) (normalize_split (da_split a)) = n) recs"
  shows "\<exists>res l uris ru. write_distill env a i recs z =
    (Inr res, z\<lparr>dz_lake := l,
       dz_rows := (if dn_has_db env \<and> \<not> dn_db_fails env
         then dict_upsert (distill_row_of env (dg_report res) (dg_card_uri res)) (dn_id env) (dz_rows z) else dz_rows z),
       dz_events := emit_event (distill_event ''distill_build_finished'' env i
         [(''num_total'', VInt (int (length recs))), (''num_train'', VInt (int (length (sel ''train'')))), (''report_uri'', VStr ru)])
         (dz_events z)\<rparr>) \<and>
    dg_report res = distill_report_of env a i recs (map (\<lambda>n. (n, sel n)) split_names) uris \<and>
    (\<forall>n\<in>set split_names. read_doc kind (da_output_uri a) (split_file n) l = Inr (Text (json_lines (dn_dumps env) (sel n)))) \<and>
    read_doc kind (da_output_uri a) ''distill_report.json'' l = Inr (Json (VDict (report_to_dict (dg_report res)))) \<and>
    read_doc kind (da_output_uri a) ''_manifest.json'' l = Inr (Json (VDict (distill_manifest env (dg_report res) uris)))"
proof -
  let ?out = "da_output_uri a"
  have ok: "doc_names_ok kind ?out n" if "plain_name n" for n by (rule doc_names_okI[OF assms(1,2) that])
  note oks = ok[OF split_file_names(1)] ok[OF split_file_names(2)] ok[OF split_file_names(3)]
    ok[OF split_file_names(7)] ok[OF split_file_names(8)] ok[OF split_file_names(9)]
  note oks' = oks[unfolded split_file_names(4,5,6)]
  have splits: "split_records (dn_digest8 env) (normalize_split (da_split a)) recs = map (\<lambda>n. (n, sel n)) split_names"
    by (simp add: split_records_eq sel_def)
  obtain uris l0 where s: "save_splits kind ?out (dn_dumps env) (map (\<lambda>n. (n, sel n)) split_names) z = (Inr uris, z\<lparr>dz_lake := l0\<rparr>)"
    and rd0: "\<And>m. doc_names_ok kind ?out m \<Longrightarrow> read_doc kind ?out m l0 =
         (if m = ''test.jsonl'' then Inr (Text (json_lines (dn_dumps env) (sel ''test'')))
          else if m = ''val.jsonl'' then Inr (Text (json_lines (dn_dumps env) (sel ''val'')))
          else if m = ''train.jsonl'' then Inr (Text (json_lines (dn_dumps env) (sel ''train'')))
          else read_doc kind ?out m (dz_lake z))"
    using save_splits_names[OF oks'(1,2,3), of "dn_dumps env" sel z] by blast
  define r where "r = distill_report_of env a i recs (map (\<lambda>n. (n, sel n)) split_names) uris"
  obtain u1 l1 where 1: "save_doc kind ?out ''distill_report.json'' (Json (VDict (report_to_dict r))) l0 = Inr (u1, l1)"
    using docs.save_ok[OF oks(4), of "(Json (VDict (report_to_dict r)))" "l0"] by (elim exE)
  obtain u2 l2 where 2: "save_doc kind ?out ''dataset_card.md'' (Text (dn_card env r)) l1 = Inr (u2, l2)"
    using docs.save_ok[OF oks(5), of "(Text (dn_card env r))" "l1"] by (elim exE)
  obtain u3 l3 where 3: "save_doc kind ?out ''_manifest.json'' (Json (VDict (distill_manifest env r uris))) l2 = Inr (u3, l3)"
    using docs.save_ok[OF oks(6), of "(Json (VDict (distill_manifest env r uris)))" "l2"] by (elim exE)
  have k: "act_lift (create_lake_store (dn_lake_env env) ?out) z = (Inr kind, z)" by (simp add: assms(1) act_apply)
  have w: "on_lake (save_doc kind ?out ''distill_report.json'' (Json (VDict (report_to_dict r)))) (z\<lparr>dz_lake := l0\<rparr>) = (Inr u1, z\<lparr>dz_lake := l1\<rparr>)"
    "on_lake (save_doc kind ?out ''dataset_card.md'' (Text (dn_card env r))) (z\<lparr>dz_lake := l1\<rparr>) = (Inr u2, z\<lparr>dz_lake := l2\<rparr>)"
    "on_lake (save_doc kind ?out ''_manifest.json'' (Json (VDict (distill_manifest env r uris)))) (z\<lparr>dz_lake := l2\<rparr>) = (Inr u3, z\<lparr>dz_lake := l3\<rparr>)"
    by (simp_all add: on_lake_Inr_iff 1 2 3)
  have r: "rd_distill_id r = dn_id env" "rd_num_total r = int (length recs)" "rd_num_train r = int (length (sel ''train''))"
    by (simp_all add: r_def distill_report_of_def split_names_def dict_get_def)
  note rd = docs.rd_save[OF oks(4) _ 1] docs.rd_save[OF oks(5) _ 2] docs.rd_save[OF oks(6) _ 3]
  have "write_distill env a i recs z = (Inr \<lparr>dg_report = r, dg_report_uri = u1, dg_card_uri = u2, dg_manifest_uri = u3\<rparr>,
      z\<lparr>dz_lake := l3,
       dz_rows := (if dn_has_db env \<and> \<not> dn_db_fails env
         then dict_upsert (distill_row_of env r u2) (dn_id env) (dz_rows z) else dz_rows z),
       dz_events := emit_event (distill_event ''distill_build_finished'' env i
         [(''num_total'', VInt (int (length recs))), (''num_train'', VInt (int (length (sel ''train'')))), (''report_uri'', VStr u1)])
         (dz_events z)\<rparr>)"
    by (simp add: write_distill_def Let_def splits act_bind_def k s w r r_def[symmetric] write_distill_pg_def log_event_def act_apply(1,4))
  moreover have "read_doc kind ?out (split_file n) l3 = Inr (Text (json_lines (dn_dumps env) (sel n)))" if "n \<in> set split_names" for n
    using that rd[OF oks(1)] rd[OF oks(2)] rd[OF oks(3)] rd0[OF oks(1)] rd0[OF oks(2)] rd0[OF oks(3)]
    by (auto simp: split_names_def split_file_names)
  moreover have "read_doc kind ?out ''distill_report.json'' l3 = Inr (Json (VDict (report_to_dict r)))"
    "read_doc kind ?out ''_manifest.json'' l3 = Inr (Json (VDict (distill_manifest env r uris)))"
    using rd[OF oks(4)] rd[OF oks(6)] by simp_all
  ultimately show ?thesis unfolding r_def[symmetric] by (intro exI conjI) (auto simp: r_def)
qed

text \<open>How many of the ten thousand digests select a split.\<close>

lemma normalize_split_sum: "normalize_split s = (a, b, c) \<Longrightarrow> 0 \<le> a \<and> 0 \<le> b \<and> 0 \<le> c \<and> a + b + c = 1"
proof -
  assume n: "normalize_split s = (a, b, c)"
  obtain x y z where s: "s = (x, y, z)" by (cases s)
  define t where "t = max 0 x + max 0 y + max 0 z"
  have eq: "(a, b, c) = (if t \<le> 0 then (8/10, 1/10, 1/10) else (max 0 x / t, max 0 y / t, max 0 z / t))"
    using n by (simp only: s normalize_split_def Let_def prod.case t_def)
  show ?thesis
  proof (cases "t \<le> 0")
    case True
    then show ?thesis using eq by simp
  next
    case False
    then have abc: "a = max 0 x / t" "b = max 0 y / t" "c = max 0 z / t" using eq by simp_all
    have "a + b + c = t / t" unfolding abc by (simp only: add_divide_distrib[symmetric] t_def)
    then show ?thesis using False unfolding abc by simp
  qed
qed

lemma card_below:
  assumes "0 \<le> (q :: rat)" "q \<le> 1"
  shows "int (card {h. h < 10000 \<and> of_nat h / 10000 < q}) = \<lceil>10000 * q\<rceil>"
proof -
  have up: "\<lceil>10000 * q\<rceil> \<le> 10000" "0 \<le> \<lceil>10000 * q\<rceil>" using assms by (simp_all add: ceiling_le_iff)
  have "of_nat h / 10000 < q \<longleftrightarrow> h < nat \<lceil>10000 * q\<rceil>" for h
  proof -
    have "of_nat h / 10000 < q \<longleftrightarrow> of_int (int h) < 10000 * q" by (simp add: divide_less_eq mult.commute)
    also have "\<dots> \<longleftrightarrow> int h < \<lceil>10000 * q\<rceil>" by (rule less_ceiling_iff[symmetric])
    also have "\<dots> \<longleftrightarrow> h < nat \<lceil>10000 * q\<rceil>" by (rule zless_nat_eq_int_zless[symmetric])
    finally show ?thesis .
  qed
  then have "{h. h < 10000 \<and> of_nat h / 10000 < q} = {h. h < 10000 \<and> h < nat \<lceil>10000 * q\<rceil>}" by simp
  also have "\<dots> = {..<nat \<lceil>10000 * q\<rceil>}" using up(1) by (intro set_eqI) (simp only: mem_Collect_eq lessThan_iff, linarith)
  finally show ?thesis using up by simp
qed

lemma usable_rows:
  "iter_records loads fmt rows teacher ts = Inr rs \<Longrightarrow> r \<in> set rs \<Longrightarrow>
    \<exists>row\<in>set rows. row_ok row \<and> build_record loads fmt row teacher ts = Inr (Some r)"
proof (induction rows arbitrary: rs)
  case (Cons row rows)
  then show ?case
    by (cases "row_ok row") (auto simp: rbind_Inr_iff split: option.splits)
qed simp

lemma record_id_row: "build_record loads fmt row teacher ts = Inr (Some r) \<Longrightarrow>
    get r ''id'' = get row ''sample_id'' \<and> truthy (get row ''sample_id'')"
  by (auto simp: build_record_def Let_def rbind_Inr_iff get_Cons split: if_splits pyval.splits)

lemma started: "build_distill env a z = (r, z') \<Longrightarrow> da_format a \<in> set distill_formats \<Longrightarrow> read_inputs env a (dz_lake z) = Inr i \<Longrightarrow>
    (case iter_records (dn_loads env) (da_format a) (di_rows i) (py_or (di_teacher i) (VStr ''unknown''))
       (fold (\<lambda>(k, v). dict_set k v) (da_templates a) default_templates) of
       Inl e \<Rightarrow> (Inl e, z\<lparr>dz_events := emit_event (distill_event ''distill_build_started'' env i
         [(''distill_format'', VStr (da_format a)), (''teacher_output_uri'', VStr (da_teacher_output_uri a))]) (dz_events z)\<rparr>)
     | Inr recs \<Rightarrow> write_distill env a i recs (z\<lparr>dz_events := emit_event (distill_event ''distill_build_started'' env i
         [(''distill_format'', VStr (da_format a)), (''teacher_output_uri'', VStr (da_teacher_output_uri a))]) (dz_events z)\<rparr>)) = (r, z')"
  by (auto simp: build_distill_def act_bind_step log_event_def split: sum.splits)

section \<open>Properties\<close>

text \<open>C14. A build that succeeds: the records are those of the usable outputs; each goes to the file of the
  split that its id selects and to no other, in the order of the outputs; the numbers in the report add
  up to the outputs of the teacher; the report is what is written; and the warehouse has a row with the
  same numbers when there is a database.\<close>

theorem distill_files_correct:
  assumes "build_distill env a z = (Inr res, z')" "\<not> is_file_uri (da_output_uri a)"
  shows "\<exists>i recs kind. read_inputs env a (dz_lake z) = Inr i \<and>
    iter_records (dn_loads env) (da_format a) (di_rows i) (py_or (di_teacher i) (VStr ''unknown''))
      (fold (\<lambda>(k, v). dict_set k v) (da_templates a) default_templates) = Inr recs \<and>
    create_lake_store (dn_lake_env env) (da_output_uri a) = Inr kind \<and>
    (\<forall>n\<in>{''train'', ''val'', ''test''}. read_doc kind (da_output_uri a) (split_file n) (dz_lake z') =
       Inr (Text (json_lines (dn_dumps env)
         (filter (\<lambda>r. assign_split (dn_digest8 env) (record_id r) (normalize_split (da_split a)) = n) recs)))) \<and>
    read_doc kind (da_output_uri a) ''distill_report.json'' (dz_lake z') = Inr (Json (VDict (report_to_dict (dg_report res)))) \<and>
    (let r = dg_report res in
       rd_num_total r = int (length recs) \<and> rd_num_train r + rd_num_val r + rd_num_test r = rd_num_total r \<and>
       rd_num_total r + rd_num_skipped r = int (length (di_rows i)) \<and> 0 \<le> rd_num_skipped r) \<and>
    (dn_has_db env \<and> \<not> dn_db_fails env \<longrightarrow>
       map_option (\<lambda>q. (dt_num_train q, dt_num_val q, dt_num_test q)) (map_of (dz_rows z') (dn_id env)) =
         Some (rd_num_train (dg_report res), rd_num_val (dg_report res), rd_num_test (dg_report res)))"
proof -
  obtain i where i: "read_inputs env a (dz_lake z) = Inr i" and f: "da_format a \<in> set distill_formats"
    using assms(1) by (auto simp: build_distill_def act_bind_step act_apply split: if_splits sum.splits)
  obtain recs where recs: "iter_records (dn_loads env) (da_format a) (di_rows i) (py_or (di_teacher i) (VStr ''unknown''))
      (fold (\<lambda>(k, v). dict_set k v) (da_templates a) default_templates) = Inr recs"
    using started[OF assms(1) f i] by (auto split: sum.splits)
  obtain y where wr: "write_distill env a i recs y = (Inr res, z')"
    using started[OF assms(1) f i] recs by auto
  obtain kind where k: "create_lake_store (dn_lake_env env) (da_output_uri a) = Inr kind"
    using wr by (auto simp: write_distill_def Let_def act_bind_step split: sum.splits)
  let ?sel = "\<lambda>n. filter (\<lambda>r. assign_split (dn_digest8 env) (record_id r) (normalize_split (da_split a)) = n) recs"
  from write_distill_runs[OF k assms(2), of i recs y] wr obtain l uris where
    l: "dz_lake z' = l" and rows: "dz_rows z' = (if dn_has_db env \<and> \<not> dn_db_fails env
         then dict_upsert (distill_row_of env (dg_report res) (dg_card_uri res)) (dn_id env) (dz_rows y) else dz_rows y)" and
    r: "dg_report res = distill_report_of env a i recs (map (\<lambda>n. (n, ?sel n)) split_names) uris" and
    files: "\<forall>n\<in>set split_names. read_doc kind (da_output_uri a) (split_file n) l = Inr (Text (json_lines (dn_dumps env) (?sel n)))"
      "read_doc kind (da_output_uri a) ''distill_report.json'' l = Inr (Json (VDict (report_to_dict (dg_report res))))"
    by auto
  have nums: "rd_num_total (dg_report res) = int (length recs)" "rd_num_train (dg_report res) = int (length (?sel ''train''))"
    "rd_num_val (dg_report res) = int (length (?sel ''val''))" "rd_num_test (dg_report res) = int (length (?sel ''test''))"
    "rd_num_skipped (dg_report res) = int (length (di_rows i)) - int (length recs)"
    unfolding r by (simp_all add: distill_report_of_def split_names_def dict_get_def)
  have "int (length recs) = rd_num_train (dg_report res) + rd_num_val (dg_report res) + rd_num_test (dg_report res)"
    unfolding nums by (subst split_counts[of recs "dn_digest8 env" "normalize_split (da_split a)"]) simp
  moreover have "length recs \<le> length (di_rows i)" by (rule iter_records_length[OF recs])
  ultimately show ?thesis using i recs k files nums
    by (intro exI[of _ i] exI[of _ recs] exI[of _ kind])
      (simp add: l rows split_names_def Let_def map_of_dict_upsert distill_row_of_def)
qed

text \<open>A build that fails leaves nothing behind but, at most, the event that it has started: no document of the
  lake changes and no row is written.\<close>

theorem distill_fails_cleanly:
  assumes "build_distill env a z = (Inl e, z')" "\<not> is_file_uri (da_output_uri a)"
  shows "dz_lake z' = dz_lake z \<and> dz_rows z' = dz_rows z \<and>
    (dz_events z' = dz_events z \<or>
     (\<exists>ev. ae_type ev = ''distill_build_started'' \<and> ae_task_id ev = Some (dn_id env) \<and> dz_events z' = emit_event ev (dz_events z)))"
proof (cases "da_format a \<in> set distill_formats \<and> (\<exists>i. read_inputs env a (dz_lake z) = Inr i)")
  case True
  then obtain i where i: "read_inputs env a (dz_lake z) = Inr i" and f: "da_format a \<in> set distill_formats" by blast
  let ?ev = "distill_event ''distill_build_started'' env i
     [(''distill_format'', VStr (da_format a)), (''teacher_output_uri'', VStr (da_teacher_output_uri a))]"
  let ?y = "z\<lparr>dz_events := emit_event ?ev (dz_events z)\<rparr>"
  have "z' = ?y"
  proof (cases "iter_records (dn_loads env) (da_format a) (di_rows i) (py_or (di_teacher i) (VStr ''unknown''))
      (fold (\<lambda>(k, v). dict_set k v) (da_templates a) default_templates)")
    case (Inl e')
    then show ?thesis using started[OF assms(1) f i] by simp
  next
    case (Inr recs)
    then have w: "write_distill env a i recs ?y = (Inl e, z')" using started[OF assms(1) f i] by simp
    show ?thesis
    proof (cases "create_lake_store (dn_lake_env env) (da_output_uri a)")
      case (Inl e')
      then show ?thesis using w by (simp add: write_distill_def Let_def act_bind_step)
    next
      case (Inr kind)
      from write_distill_runs[OF this assms(2), of i recs ?y] w show ?thesis by auto
    qed
  qed
  moreover have "ae_type ?ev = ''distill_build_started''" "ae_task_id ?ev = Some (dn_id env)" by (simp_all add: distill_event_def)
  ultimately show ?thesis by auto
next
  case False
  then show ?thesis using assms(1)
    by (auto simp: build_distill_def act_bind_step act_apply split: if_splits sum.splits)
qed

text \<open>The shares: whatever numbers are given, the shares used are not negative and add up to one; of the ten
  thousand values a digest can take, as many select training as its share says, and so on, each up to
  one value; and a share of zero selects none.\<close>

theorem split_shares_correct:
  "case normalize_split s of (a, b, c) \<Rightarrow>
    let count = (\<lambda>n. int (card {h. h < 10000 \<and> split_at (a, b, c) (of_nat h / 10000) = n}))
    in 0 \<le> a \<and> 0 \<le> b \<and> 0 \<le> c \<and> a + b + c = 1 \<and>
       count ''train'' = \<lceil>10000 * a\<rceil> \<and> count ''train'' + count ''val'' = \<lceil>10000 * (a + b)\<rceil> \<and>
       count ''train'' + count ''val'' + count ''test'' = 10000"
proof -
  obtain a b c where n: "normalize_split s = (a, b, c)" by (cases "normalize_split s")
  note sum = normalize_split_sum[OF n]
  let ?sel = "\<lambda>n. {h :: nat. h < 10000 \<and> split_at (a, b, c) (of_nat h / 10000) = n}"
  have t: "?sel ''train'' = {h. h < 10000 \<and> of_nat h / 10000 < a}" by (auto simp: split_at_def split: if_splits)
  have tv: "?sel ''train'' \<union> ?sel ''val'' = {h. h < 10000 \<and> of_nat h / 10000 < a + b}"
    using sum by (auto simp: split_at_def split: if_splits)
  have tvt: "?sel ''train'' \<union> ?sel ''val'' \<union> ?sel ''test'' = {..<10000}" by (auto simp: split_at_def split: if_splits)
  have c1: "card (?sel ''train'' \<union> ?sel ''val'') = card (?sel ''train'') + card (?sel ''val'')"
    by (rule card_Un_disjoint) auto
  have c2: "card (?sel ''train'' \<union> ?sel ''val'' \<union> ?sel ''test'') = card (?sel ''train'' \<union> ?sel ''val'') + card (?sel ''test'')"
    by (rule card_Un_disjoint) auto
  have "int (card (?sel ''train'')) = \<lceil>10000 * a\<rceil>" unfolding t using sum by (intro card_below) auto
  moreover have "int (card (?sel ''train'')) + int (card (?sel ''val'')) = \<lceil>10000 * (a + b)\<rceil>"
    using c1 card_below[of "a + b"] sum unfolding tv by simp
  moreover have "int (card (?sel ''train'')) + int (card (?sel ''val'')) + int (card (?sel ''test'')) = 10000"
    using c1 c2 unfolding tvt by simp
  ultimately show ?thesis using sum unfolding n Let_def prod.case by simp
qed

section \<open>Witnesses\<close>

definition demo_teacher_rows :: "pydict list" where
  "demo_teacher_rows =
     [[(''sample_id'', VStr ''s1''), (''status'', VStr ''OK''), (''prediction_json'', VStr ''p1'')],
      [(''sample_id'', VStr ''s2''), (''status'', VStr ''FAILED''), (''prediction_json'', VStr ''p1'')],
      [(''sample_id'', VStr ''s3''), (''prediction_json'', VStr ''p1'')]]"

definition demo_distill_env :: "pydict \<Rightarrow> distill_env" where
  "demo_distill_env prediction = \<lparr>dn_lake_env = \<lparr>e_s3_ready = True, e_list_objects = (\<lambda>_ _. []), e_node = (\<lambda>_. None), e_parquet_rows = (\<lambda>_. None)\<rparr>,
     dn_tables = [(''t/predictions.parquet'', demo_teacher_rows)],
     dn_loads = (\<lambda>s. Some (VDict prediction)), dn_dumps = (\<lambda>_. ''{}''),
     dn_digest8 = (\<lambda>s. if s = ''s1'' then 0 else 9999), dn_card = (\<lambda>_. []), dn_id = ''d1'', dn_has_db = True,
     dn_db_fails = False, dn_now = (Date 2024 5 1, 0), dn_created_at = []\<rparr>"

definition demo_distill_args :: "string \<Rightarrow> distill_args" where
  "demo_distill_args fmt = \<lparr>da_teacher_output_uri = ''t'', da_format = fmt, da_output_uri = ''s3://b/out'',
     da_split = (8, 1, 1), da_templates = [], da_teacher_model = Some ''m'', da_source_job_id = Some ''j'',
     da_dataset_id = Some ''ds'', da_version = Some ''v1''\<rparr>"

definition demo_distill_world :: distill_world where
  "demo_distill_world = \<lparr>dz_lake = \<lparr>lk_objects = [], lk_files = []\<rparr>,
     dz_events = \<lparr>ats_db = True, ats_jsonl = [], ats_table = [], ats_dead = []\<rparr>, dz_rows = []\<rparr>"

definition demo_inputs :: distill_inputs where
  "demo_inputs = \<lparr>di_rows = demo_teacher_rows, di_teacher = VStr ''m'', di_job = VStr ''j'', di_dataset = VStr ''ds'', di_version = VStr ''v1''\<rparr>"

lemma demo_read_inputs: "read_inputs (demo_distill_env []) (demo_distill_args []) (dz_lake demo_distill_world) = Inr demo_inputs"
  by code_simp

lemma demo_inputs_any: "read_inputs (demo_distill_env p) (demo_distill_args fmt) lake = read_inputs (demo_distill_env []) (demo_distill_args []) lake"
  by (simp add: read_inputs_def demo_distill_env_def demo_distill_args_def)

lemma demo_texts: "(case iter_records (dn_loads (demo_distill_env [(''text'', VStr ''a cup'')])) ''caption_sft'' demo_teacher_rows (VStr ''m'')
    default_templates of Inr rs \<Rightarrow> map record_id rs = [''s1'', ''s3''] | _ \<Rightarrow> False)"
  by code_simp

lemma demo_scores: "iter_records (dn_loads (demo_distill_env [(''anomaly_score'', VStr ''high'')])) ''anomaly_detection'' demo_teacher_rows (VStr ''m'')
    default_templates = Inl (ValueError ''high'')"
  by code_simp

lemma demo_out_store: "create_lake_store (dn_lake_env (demo_distill_env p)) ''s3://b/out'' = Inr S3LakeStore" "\<not> is_file_uri ''s3://b/out''"
  by (simp_all add: create_lake_store_def parse_uri_def demo_distill_env_def is_s3_def is_file_uri_def)

lemma demo_arg_fields: "da_format (demo_distill_args fmt) = fmt" "da_output_uri (demo_distill_args fmt) = ''s3://b/out''"
  "da_templates (demo_distill_args fmt) = []"
  by (simp_all add: demo_distill_args_def)

lemma demo_distill_built: "\<exists>res z'. build_distill (demo_distill_env [(''text'', VStr ''a cup'')]) (demo_distill_args ''caption_sft'') demo_distill_world = (Inr res, z')"
proof -
  let ?e = "demo_distill_env [(''text'', VStr ''a cup'')]" and ?a = "demo_distill_args ''caption_sft''"
  obtain recs where recs: "iter_records (dn_loads ?e) ''caption_sft'' demo_teacher_rows (VStr ''m'') default_templates = Inr recs"
    using demo_texts by (auto split: sum.splits)
  have i: "read_inputs ?e ?a (dz_lake demo_distill_world) = Inr demo_inputs" using demo_inputs_any demo_read_inputs by metis
  have f: "da_format ?a \<in> set distill_formats" by (simp add: demo_arg_fields distill_formats_def)
  obtain r z' where b: "build_distill ?e ?a demo_distill_world = (r, z')" by (cases "build_distill ?e ?a demo_distill_world")
  obtain y where y: "write_distill ?e ?a demo_inputs recs y = (r, z')"
    using started[OF b f i] recs by (simp add: demo_arg_fields demo_inputs_def py_or_def)
  have k: "create_lake_store (dn_lake_env ?e) (da_output_uri ?a) = Inr S3LakeStore" "\<not> is_file_uri (da_output_uri ?a)"
    unfolding demo_arg_fields by (rule demo_out_store)+
  obtain res l where "fst (write_distill ?e ?a demo_inputs recs y) = Inr res"
    using write_distill_runs[OF k, of demo_inputs recs y] by fastforce
  then show ?thesis using y b by simp
qed

theorem distill_files_correct_witness:
  "\<exists>res z'. build_distill (demo_distill_env [(''text'', VStr ''a cup'')]) (demo_distill_args ''caption_sft'') demo_distill_world = (Inr res, z') \<and>
    rd_num_total (dg_report res) + rd_num_skipped (dg_report res) = 3"
proof -
  let ?e = "demo_distill_env [(''text'', VStr ''a cup'')]" and ?a = "demo_distill_args ''caption_sft''"
  obtain res z' where b: "build_distill ?e ?a demo_distill_world = (Inr res, z')" using demo_distill_built by blast
  have i: "read_inputs ?e ?a (dz_lake demo_distill_world) = Inr demo_inputs" using demo_inputs_any demo_read_inputs by metis
  have l: "\<not> is_file_uri (da_output_uri ?a)" unfolding demo_arg_fields by (rule demo_out_store)
  obtain j where "read_inputs ?e ?a (dz_lake demo_distill_world) = Inr j"
    "rd_num_total (dg_report res) + rd_num_skipped (dg_report res) = int (length (di_rows j))"
    using distill_files_correct[OF b l] unfolding Let_def by blast
  then have "rd_num_total (dg_report res) + rd_num_skipped (dg_report res) = int (length (di_rows demo_inputs))" using i by simp
  with b show ?thesis by (simp add: demo_inputs_def demo_teacher_rows_def)
qed

theorem distill_fails_cleanly_witness:
  "dz_lake (snd (build_distill (demo_distill_env [(''anomaly_score'', VStr ''high'')]) (demo_distill_args ''anomaly_detection'') demo_distill_world)) =
    dz_lake demo_distill_world"
proof -
  let ?e = "demo_distill_env [(''anomaly_score'', VStr ''high'')]" and ?a = "demo_distill_args ''anomaly_detection''"
  have i: "read_inputs ?e ?a (dz_lake demo_distill_world) = Inr demo_inputs" using demo_inputs_any demo_read_inputs by metis
  have f: "da_format ?a \<in> set distill_formats" by (simp add: demo_arg_fields distill_formats_def)
  have l: "\<not> is_file_uri (da_output_uri ?a)" unfolding demo_arg_fields by (rule demo_out_store)
  obtain r z' where b: "build_distill ?e ?a demo_distill_world = (r, z')" by (cases "build_distill ?e ?a demo_distill_world")
  then have "r = Inl (ValueError ''high'')" using started[OF b f i] demo_scores by (simp add: demo_arg_fields demo_inputs_def py_or_def)
  then show ?thesis using distill_fails_cleanly[OF _ l] b by simp
qed

end
