(* ===== verification/Metadata_Store.thy ===== *)
theory Metadata_Store
  imports Warehouse_Tables
begin

text \<open>
  What the two access layers of the metadata database have in common, \<^verbatim>\<open>src/robot_dh/warehouse/service.py\<close>
  and \<^verbatim>\<open>src/robot_dh/warehouse/robot_platform.py\<close>: the check of the tables, the handling of errors in soft
  and in strict mode, inserts with an automatic id, upserts by a key, and queries for the newest rows.
  A table is the list of its rows in the order of their insertion; rows are never deleted, so that the
  automatic id is the number of rows. What the database answers to the inspection of its tables, and the
  error that a session meets, if any, are parameters; a session that fails is rolled back.
\<close>

section \<open>Errors\<close>

text \<open>An exception: whether it is an undefined column or table, its \<open>orig\<close> and its \<open>__cause__\<close>. The chain is
  followed through \<open>orig\<close> where there is one, and through the cause otherwise.\<close>

datatype exc_link = Exc bool "exc_link option" "exc_link option"

fun drift_in :: "exc_link \<Rightarrow> bool" where
  "drift_in (Exc drift orig cause) = (drift \<or> (case orig of
     Some e \<Rightarrow> drift_in e
   | None \<Rightarrow> (case cause of Some e \<Rightarrow> drift_in e | None \<Rightarrow> False)))"

text \<open>What an error passes on: its text, and whether its chain has drifted. An error that is raised from
  another one inherits the flag.\<close>

datatype meta_error =
    Db_error string bool
  | Schema_missing string bool
  | Lake_unavailable string
  | Raised py_error

definition db_error :: "string \<Rightarrow> exc_link \<Rightarrow> meta_error" where
  "db_error m e = Db_error m (drift_in e)"

lemma drift_raised_from: "drift_in (Exc False None (Some e)) = drift_in e" "\<not> drift_in (Exc False None None)"
  by simp_all

primrec is_schema_drift_error :: "meta_error \<Rightarrow> bool" where
  "is_schema_drift_error (Db_error m drift) = drift"
| "is_schema_drift_error (Schema_missing m drift) = drift"
| "is_schema_drift_error (Lake_unavailable m) = False"
| "is_schema_drift_error (Raised e) = False"

primrec meta_text :: "meta_error \<Rightarrow> string" where
  "meta_text (Db_error m drift) = m"
| "meta_text (Schema_missing m drift) = m"
| "meta_text (Lake_unavailable m) = m"
| "meta_text (Raised e) = err_text e"

text \<open>The texts of an access layer, and its view of the database: \<open>mv_open\<close> is the error that the creation of
  the engine meets, if any, \<open>mv_tables\<close> the answer to the inspection of the tables, \<open>mv_session\<close> the error
  of the statements or of the commit of an operation.\<close>

record layer_texts =
  lt_label :: string
  lt_drift :: string
  lt_missing :: string
  lt_missing_hint :: string

record meta_env =
  mv_texts :: layer_texts
  mv_soft :: bool
  mv_open :: "meta_error option"
  mv_tables :: "meta_error + string list"
  mv_session :: "string \<Rightarrow> meta_error option"
  mv_now :: datetime

definition is_db_error :: "meta_error \<Rightarrow> bool" where
  "is_db_error err = (case err of Db_error m drift \<Rightarrow> True | _ \<Rightarrow> False)"

definition handle_write_error :: "meta_env \<Rightarrow> string \<Rightarrow> meta_error \<Rightarrow> meta_error + unit" where
  "handle_write_error env op err =
     (if is_schema_drift_error err then
        (let msg = ''warehouse '' @ op @ '' schema mismatch: '' @ meta_text err @ ''. '' @ lt_drift (mv_texts env)
         in if mv_soft env then Inl (Schema_missing msg True) else Inl (Lake_unavailable msg))
      else if mv_soft env then Inr ()
      else Inl (Lake_unavailable (''warehouse '' @ lt_label (mv_texts env) @ op @ '' failed: '' @ meta_text err)))"

text \<open>The \<open>except\<close> clause of a write. The first layer handles database errors and an unavailable lake, the
  later ones database errors and missing tables; what is not handled passes.\<close>

definition lake_handles :: "meta_error \<Rightarrow> bool" where
  "lake_handles err = (case err of Db_error m drift \<Rightarrow> True | Lake_unavailable m \<Rightarrow> True | _ \<Rightarrow> False)"

definition table_handles :: "meta_error \<Rightarrow> bool" where
  "table_handles err = (case err of Db_error m drift \<Rightarrow> True | Schema_missing m drift \<Rightarrow> True | _ \<Rightarrow> False)"

definition recover :: "(meta_error \<Rightarrow> bool) \<Rightarrow> meta_env \<Rightarrow> string \<Rightarrow> meta_error \<Rightarrow> meta_error + int option" where
  "recover handles env op err =
     (if handles err then (case handle_write_error env op err of Inl e \<Rightarrow> Inl e | Inr _ \<Rightarrow> Inr None) else Inl err)"

text \<open>\<open>inspect(self._get_engine()).get_table_names()\<close>.\<close>

definition inspect_tables :: "meta_env \<Rightarrow> meta_error + string list" where
  "inspect_tables env = (case mv_open env of Some err \<Rightarrow> Inl err | None \<Rightarrow> mv_tables env)"

definition missing_of :: "string list \<Rightarrow> string list \<Rightarrow> string list" where
  "missing_of required existing = filter (\<lambda>t. t \<notin> set existing) required"

definition ensure_tables :: "meta_env \<Rightarrow> string list \<Rightarrow> string \<Rightarrow> meta_error + bool" where
  "ensure_tables env required op = (case inspect_tables env of
     Inl err \<Rightarrow> if is_db_error err then (case handle_write_error env op err of Inl e \<Rightarrow> Inl e | Inr _ \<Rightarrow> Inr False) else Inl err
   | Inr existing \<Rightarrow>
       (let missing = missing_of required existing
        in if missing = [] then Inr True
           else if mv_soft env then Inr False
           else Inl (Schema_missing (lt_missing (mv_texts env) @ join '', '' missing @ lt_missing_hint (mv_texts env)) False)))"

section \<open>Writes and reads\<close>

type_synonym 'd meta_write = "'d \<Rightarrow> meta_error + int \<times> 'd"

text \<open>The body of a session computes the row, its id and the table. What it raises itself comes before the
  first statement; an error of the database rolls the session back.\<close>

definition in_session ::
  "(meta_error \<Rightarrow> bool) \<Rightarrow> meta_env \<Rightarrow> string \<Rightarrow> 'd meta_write \<Rightarrow> 'd \<Rightarrow> (meta_error + int option) \<times> 'd" where
  "in_session handles env op body db = (case mv_open env of
     Some err \<Rightarrow> (recover handles env op err, db)
   | None \<Rightarrow> (case body db of
       Inl (Raised e) \<Rightarrow> (recover handles env op (Raised e), db)
     | r \<Rightarrow> (case mv_session env op of
         Some err \<Rightarrow> (recover handles env op err, db)
       | None \<Rightarrow> (case r of Inl err \<Rightarrow> (recover handles env op err, db) | Inr (i, db') \<Rightarrow> (Inr (Some i), db')))))"

abbreviation lake_write :: "meta_env \<Rightarrow> string \<Rightarrow> 'd meta_write \<Rightarrow> 'd \<Rightarrow> (meta_error + int option) \<times> 'd" where
  "lake_write \<equiv> in_session lake_handles"

definition guarded_write :: "meta_env \<Rightarrow> string list \<Rightarrow> string \<Rightarrow> 'd meta_write \<Rightarrow> 'd \<Rightarrow> (meta_error + int option) \<times> 'd" where
  "guarded_write env required op body db = (case ensure_tables env required op of
     Inl err \<Rightarrow> (recover table_handles env op err, db)
   | Inr False \<Rightarrow> (Inr None, db)
   | Inr True \<Rightarrow> in_session table_handles env op body db)"

definition guarded_read :: "meta_env \<Rightarrow> string \<Rightarrow> ('d \<Rightarrow> 'a) \<Rightarrow> 'd \<Rightarrow> meta_error + 'a" where
  "guarded_read env op f db = (case (case mv_open env of Some err \<Rightarrow> Some err | None \<Rightarrow> mv_session env op) of
     Some err \<Rightarrow> Inl (if is_db_error err then Lake_unavailable (op @ '' failed: '' @ meta_text err) else err)
   | None \<Rightarrow> Inr (f db))"

section \<open>Tables\<close>

definition next_id :: "'r list \<Rightarrow> int" where
  "next_id t = int (length t) + 1"

definition insert_row :: "(int \<Rightarrow> 'r) \<Rightarrow> 'r list \<Rightarrow> int \<times> 'r list" where
  "insert_row mk t = (next_id t, t @ [mk (next_id t)])"

text \<open>An insert into a table with a unique column: the database refuses a second row with the value.\<close>

definition insert_unique :: "('r \<Rightarrow> bool) \<Rightarrow> (int \<Rightarrow> 'r) \<Rightarrow> 'r list \<Rightarrow> meta_error + int \<times> 'r list" where
  "insert_unique same mk t = (if list_ex same t then Inl (Db_error ''UNIQUE constraint failed'' False) else Inr (insert_row mk t))"

primrec update_first :: "('r \<Rightarrow> bool) \<Rightarrow> ('r \<Rightarrow> 'r) \<Rightarrow> 'r list \<Rightarrow> 'r list" where
  "update_first P f [] = []"
| "update_first P f (r # rs) = (if P r then f r # rs else r # update_first P f rs)"

text \<open>\<open>row = session.scalar(select(Row).where(...))\<close>, then an insert or an update of the row.\<close>

definition upsert_row ::
  "('r \<Rightarrow> bool) \<Rightarrow> ('r \<Rightarrow> int) \<Rightarrow> (int \<Rightarrow> 'r) \<Rightarrow> ('r \<Rightarrow> 'r) \<Rightarrow> 'r list \<Rightarrow> int \<times> 'r list" where
  "upsert_row match rid mk upd t = (case find match t of
     None \<Rightarrow> insert_row mk t
   | Some r \<Rightarrow> (rid r, update_first match upd t))"

text \<open>A change of one table of the database.\<close>

definition on_table :: "('d \<Rightarrow> 'r list) \<Rightarrow> ('r list \<Rightarrow> 'd \<Rightarrow> 'd) \<Rightarrow> ('r list \<Rightarrow> int \<times> 'r list) \<Rightarrow> 'd meta_write" where
  "on_table read_table put_table f db = (case f (read_table db) of (i, t) \<Rightarrow> Inr (i, put_table t db))"

definition on_table_unique ::
  "('d \<Rightarrow> 'r list) \<Rightarrow> ('r list \<Rightarrow> 'd \<Rightarrow> 'd) \<Rightarrow> ('r list \<Rightarrow> meta_error + int \<times> 'r list) \<Rightarrow> 'd meta_write" where
  "on_table_unique read_table put_table f db = (case f (read_table db) of Inl e \<Rightarrow> Inl e | Inr (i, t) \<Rightarrow> Inr (i, put_table t db))"

text \<open>\<open>order_by(column.desc()).limit(n)\<close>; rows with the same value stay in the order of insertion.\<close>

definition newest :: "('r \<Rightarrow> 'k :: linorder) \<Rightarrow> nat \<Rightarrow> 'r list \<Rightarrow> 'r list" where
  "newest col n rows = take n (rev (sort_key col (rev rows)))"

definition first_row :: "'r list \<Rightarrow> 'r option" where
  "first_row rows = (case rows of [] \<Rightarrow> None | r # _ \<Rightarrow> Some r)"

text \<open>A filter that is applied only when its argument is given.\<close>

definition given :: "'a option \<Rightarrow> 'a \<Rightarrow> bool" where
  "given a v = (case a of None \<Rightarrow> True | Some x \<Rightarrow> v = x)"

definition given_opt :: "'a option \<Rightarrow> 'a option \<Rightarrow> bool" where
  "given_opt a v = (case a of None \<Rightarrow> True | Some x \<Rightarrow> v = Some x)"

text \<open>\<open>dict(metrics) if metrics else None\<close>, and the update of a JSON column in place.\<close>

definition json_or_none :: "pydict option \<Rightarrow> pyval option" where
  "json_or_none m = (case m of Some (p # ps) \<Rightarrow> Some (VDict (p # ps)) | _ \<Rightarrow> None)"

definition json_update :: "pydict option \<Rightarrow> pyval option \<Rightarrow> pyval option" where
  "json_update m old = (case m of None \<Rightarrow> old | Some d \<Rightarrow> Some (VDict (fold (\<lambda>(k, v). dict_set k v) d (json_dict old))))"

section \<open>Lemmas\<close>

lemma next_id_pos: "0 < next_id t"
  by (simp add: next_id_def)

lemma find_update_first: "find P t = Some r \<Longrightarrow> P (f r) \<Longrightarrow> find P (update_first P f t) = Some (f r)"
  by (induction t) (auto split: if_splits)

lemma update_first_id: "find P t = Some r \<Longrightarrow> f r = r \<Longrightarrow> update_first P f t = t"
  by (induction t) (auto split: if_splits)

lemma update_first_again: "(\<And>r. P r \<Longrightarrow> P (f r)) \<Longrightarrow> (\<And>r. P r \<Longrightarrow> f (f r) = f r) \<Longrightarrow>
    update_first P f (update_first P f t) = update_first P f t"
  by (induction t) auto

lemma map_update_first: "(\<And>r. P r \<Longrightarrow> g (f r) = g r) \<Longrightarrow> map g (update_first P f t) = map g t"
  by (induction t) auto

lemma filter_update_first: "(\<And>r. P r \<Longrightarrow> P (f r)) \<Longrightarrow> filter (\<lambda>r. \<not> P r) (update_first P f t) = filter (\<lambda>r. \<not> P r) t"
  by (induction t) auto

lemma find_none: "find P t = None \<longleftrightarrow> \<not> (\<exists>r\<in>set t. P r)"
  by (induction t) auto

lemma find_snoc: "find P (t @ [r]) = (case find P t of Some x \<Rightarrow> Some x | None \<Rightarrow> if P r then Some r else None)"
  by (induction t) auto

lemma update_first_snoc: "find P t = None \<Longrightarrow> update_first P f (t @ [r]) = t @ [if P r then f r else r]"
  by (induction t) (auto split: if_splits)

text \<open>The ids of a table count its rows.\<close>

definition ids_ok :: "('r \<Rightarrow> int) \<Rightarrow> 'r list \<Rightarrow> bool" where
  "ids_ok rid t = (map rid t = map int [1..<length t + 1])"

lemma ids_ok_Nil [simp]: "ids_ok rid []"
  by (simp add: ids_ok_def)

lemma ids_ok_insert: "ids_ok rid t \<Longrightarrow> (\<And>i. rid (mk i) = i) \<Longrightarrow> ids_ok rid (snd (insert_row mk t))"
  by (simp add: ids_ok_def insert_row_def next_id_def)

lemma ids_ok_update: "ids_ok rid t \<Longrightarrow> (\<And>r. P r \<Longrightarrow> rid (f r) = rid r) \<Longrightarrow> ids_ok rid (update_first P f t)"
proof -
  assume a: "ids_ok rid t" "\<And>r. P r \<Longrightarrow> rid (f r) = rid r"
  have "map rid (update_first P f t) = map rid t" by (rule map_update_first) (rule a(2))
  moreover from this have "length (update_first P f t) = length t" by (metis length_map)
  ultimately show ?thesis using a(1) by (simp add: ids_ok_def)
qed

lemma ids_ok_distinct: "ids_ok rid t \<Longrightarrow> distinct (map rid t)"
  unfolding ids_ok_def by (simp add: distinct_map)

section \<open>The outcomes of a write\<close>

text \<open>A write stores a row, or it leaves the database as it was.\<close>

lemma recover_not_stored: "recover handles env op err \<noteq> Inr (Some i)"
  by (auto simp: recover_def split: sum.splits)

lemma recover_unhandled: "\<not> handles err \<Longrightarrow> recover handles env op err = Inl err"
  by (simp add: recover_def)

lemma recover_soft: "mv_soft env \<Longrightarrow> handles err \<Longrightarrow> \<not> is_schema_drift_error err \<Longrightarrow> recover handles env op err = Inr None"
  by (simp add: recover_def handle_write_error_def)

lemma recover_drift: "handles err \<Longrightarrow> is_schema_drift_error err \<Longrightarrow> \<exists>m. recover handles env op err =
    Inl (if mv_soft env then Schema_missing m True else Lake_unavailable m)"
  by (simp add: recover_def handle_write_error_def Let_def)

lemma recover_strict: "\<not> mv_soft env \<Longrightarrow> handles err \<Longrightarrow> \<exists>m. recover handles env op err = Inl (Lake_unavailable m)"
  by (simp add: recover_def handle_write_error_def Let_def)

text \<open>Which bodies a session runs, whatever it meets.\<close>

definition total_write :: "'d meta_write \<Rightarrow> bool" where
  "total_write body = (\<forall>db. \<exists>i db'. body db = Inr (i, db'))"

lemma on_table_total [simp]: "total_write (on_table rd pt f)"
  by (auto simp: total_write_def on_table_def split: prod.splits)

lemma in_session_cases:
  assumes "in_session handles env op body db = (res, db')"
  shows "(\<exists>i. res = Inr (Some i) \<and> body db = Inr (i, db') \<and> mv_open env = None \<and> mv_session env op = None) \<or>
    (db' = db \<and> (\<exists>err. res = recover handles env op err \<and>
       (mv_open env = Some err \<or> mv_open env = None \<and> mv_session env op = Some err \<or> mv_open env = None \<and> body db = Inl err)))"
proof (cases "mv_open env")
  case None
  show ?thesis
  proof (cases "body db")
    case (Inl e)
    then show ?thesis using assms None by (cases e; cases "mv_session env op") (auto simp: in_session_def)
  next
    case (Inr p)
    then show ?thesis using assms None by (cases p; cases "mv_session env op") (auto simp: in_session_def)
  qed
qed (use assms in \<open>auto simp: in_session_def\<close>)

lemma in_session_stored: "mv_open env = None \<Longrightarrow> mv_session env op = None \<Longrightarrow> body db = Inr (i, db') \<Longrightarrow>
    in_session handles env op body db = (Inr (Some i), db')"
  by (simp add: in_session_def)

lemma in_session_db: "snd (in_session handles env op body db) = db \<or> (\<exists>i. body db = Inr (i, snd (in_session handles env op body db)))"
  using in_session_cases[of handles env op body db] by (cases "in_session handles env op body db") auto

lemma guarded_write_db: "snd (guarded_write env required op body db) = db \<or>
    (\<exists>i. body db = Inr (i, snd (guarded_write env required op body db)))"
  using in_session_db[of table_handles env op body db] by (auto simp: guarded_write_def split: sum.splits bool.splits)

lemma guarded_write_stored:
  "inspect_tables env = Inr existing \<Longrightarrow> set required \<subseteq> set existing \<Longrightarrow> mv_session env op = None \<Longrightarrow> body db = Inr (i, db') \<Longrightarrow>
    guarded_write env required op body db = (Inr (Some i), db')"
  by (auto simp: guarded_write_def ensure_tables_def missing_of_def filter_empty_conv Let_def inspect_tables_def subset_eq
      intro!: in_session_stored split: option.splits)

lemma guarded_write_some:
  assumes "guarded_write env required op body db = (Inr (Some i), db')"
  shows "body db = Inr (i, db')"
proof -
  have "in_session table_handles env op body db = (Inr (Some i), db')"
    using assms by (auto simp: guarded_write_def recover_not_stored split: sum.splits bool.splits)
  from in_session_cases[OF this] show ?thesis by (auto simp: recover_not_stored[symmetric] dest: sym)
qed

text \<open>A write that repeats itself on a table repeats itself in a session.\<close>

lemma in_session_again:
  assumes body: "\<And>i db'. body db = Inr (i, db') \<Longrightarrow> body db' = Inr (i, db')"
  shows "in_session handles env op body (snd (in_session handles env op body db)) = in_session handles env op body db"
proof -
  obtain res db' where r: "in_session handles env op body db = (res, db')" by (cases "in_session handles env op body db")
  from in_session_cases[OF r] show ?thesis
  proof (elim disjE exE conjE)
    fix i assume s: "res = Inr (Some i)" "body db = Inr (i, db')" "mv_open env = None" "mv_session env op = None"
    then show ?thesis using r body[OF s(2)] by (simp add: in_session_stored)
  qed (use r in auto)
qed

lemma guarded_write_again:
  assumes body: "\<And>i db'. body db = Inr (i, db') \<Longrightarrow> body db' = Inr (i, db')"
  shows "guarded_write env required op body (snd (guarded_write env required op body db)) = guarded_write env required op body db"
  using in_session_again[of body db table_handles env op, OF body]
  by (auto simp: guarded_write_def split: sum.splits bool.splits)

lemma on_table_again:
  assumes "\<And>t. f (snd (f t)) = f t" "\<And>t db. rd (pt t db) = t" "\<And>t u db. pt t (pt u db) = pt t db" "on_table rd pt f db = Inr (i, db')"
  shows "on_table rd pt f db' = Inr (i, db')"
proof -
  obtain j t where f: "f (rd db) = (j, t)" by (cases "f (rd db)")
  then have "i = j" "db' = pt t db" using assms(4) by (auto simp: on_table_def)
  moreover have "f t = (j, t)" using assms(1)[of "rd db"] f by simp
  ultimately show ?thesis by (simp add: on_table_def assms(2,3))
qed

section \<open>Updates of JSON columns\<close>

lemma update_keys_stay: "k \<in> set (dict_keys d) \<Longrightarrow> dict_keys (dict_set k v d) = dict_keys d"
  by (induction d) auto

lemma update_commute: "k \<noteq> j \<Longrightarrow> k \<in> set (dict_keys d) \<Longrightarrow> dict_set k v (dict_set j w d) = dict_set j w (dict_set k v d)"
  by (induction d) auto

lemma update_past_end: "k \<in> set (dict_keys d) \<Longrightarrow> dict_set k v (d @ e) = dict_set k v d @ e"
  by (induction d) auto

lemma update_new: "k \<notin> set (dict_keys d) \<Longrightarrow> dict_set k v d = d @ [(k, v)]"
  by (induction d) auto

lemma update_last_new: "k \<notin> set (dict_keys d) \<Longrightarrow> dict_set k v (d @ [(k, w)]) = d @ [(k, v)]"
  by (induction d) auto

lemma fold_update_keys: "set (dict_keys (fold (\<lambda>(k, v). dict_set k v) m d)) = set (dict_keys m) \<union> set (dict_keys d)"
  by (induction m arbitrary: d) (auto simp: set_dict_keys simp del: set_map)

lemma fold_update_inside:
  "k \<in> set (dict_keys d) \<Longrightarrow> dict_set k v (fold (\<lambda>(k, v). dict_set k v) m (dict_set k w d)) =
    dict_set k v (fold (\<lambda>(k, v). dict_set k v) m d)"
proof (induction m arbitrary: d w)
  case (Cons p m)
  obtain j u where p: "p = (j, u)" by (cases p)
  show ?case
  proof (cases "j = k")
    case False
    have "dict_set j u (dict_set k w d) = dict_set k w (dict_set j u d)" using update_commute[of k j d w u] False Cons.prems by simp
    moreover have "k \<in> set (dict_keys (dict_set j u d))" using Cons.prems by (simp add: set_dict_keys del: set_map)
    ultimately show ?thesis by (simp add: p Cons.IH)
  qed (simp add: p)
qed simp

lemma fold_update_past_end:
  "set (dict_keys m) \<subseteq> set (dict_keys d) \<Longrightarrow> fold (\<lambda>(k, v). dict_set k v) m (d @ e) = fold (\<lambda>(k, v). dict_set k v) m d @ e"
proof (induction m arbitrary: d)
  case (Cons p m)
  obtain j u where p: "p = (j, u)" by (cases p)
  have j: "j \<in> set (dict_keys d)" using Cons.prems by (simp add: p)
  then have "set (dict_keys m) \<subseteq> set (dict_keys (dict_set j u d))" using Cons.prems by (simp add: update_keys_stay p)
  then show ?case using Cons.IH j by (simp add: p update_past_end)
qed simp

text \<open>\<open>d.update(m)\<close> twice is \<open>d.update(m)\<close>.\<close>

lemma fold_update_twice:
  "fold (\<lambda>(k, v). dict_set k v) m (fold (\<lambda>(k, v). dict_set k v) m d) = fold (\<lambda>(k, v). dict_set k v) m d"
proof (induction m rule: rev_induct)
  case (snoc p m)
  let ?F = "fold (\<lambda>(k, v). dict_set k v) m"
  obtain k v where p: "p = (k, v)" by (cases p)
  show ?case
  proof (cases "k \<in> set (dict_keys (?F d))")
    case True
    then show ?thesis by (simp add: p fold_update_inside snoc.IH)
  next
    case False
    have "set (dict_keys m) \<subseteq> set (dict_keys (?F d))" using fold_update_keys[of m d] by (simp del: set_map)
    then show ?thesis using False by (simp add: p update_new update_last_new fold_update_past_end snoc.IH)
  qed
qed simp

lemma json_update_twice: "json_update m (json_update m c) = json_update m c"
  by (cases m) (simp_all add: json_update_def json_dict_def fold_update_twice)

section \<open>Tables\<close>

text \<open>A table of the database: ids that count the rows, a unique key, and rows of the right form.\<close>

definition table_ok :: "('r \<Rightarrow> int) \<Rightarrow> ('r \<Rightarrow> 'k) \<Rightarrow> ('r \<Rightarrow> bool) \<Rightarrow> 'r list \<Rightarrow> bool" where
  "table_ok rid key ok t = (ids_ok rid t \<and> distinct (map key t) \<and> list_all ok t)"

lemma table_ok_Nil [simp]: "table_ok rid key ok []"
  by (simp add: table_ok_def)

lemma table_ok_insert:
  "table_ok rid key ok t \<Longrightarrow> (\<And>i. rid (mk i) = i) \<Longrightarrow> (\<And>i. ok (mk i)) \<Longrightarrow> (\<And>i. key (mk i) \<notin> key ` set t) \<Longrightarrow>
    table_ok rid key ok (snd (insert_row mk t))"
  using ids_ok_insert[of rid t mk] by (simp add: table_ok_def insert_row_def)

lemma table_ok_append:
  "table_ok rid rid ok t \<Longrightarrow> (\<And>i. rid (mk i) = i) \<Longrightarrow> (\<And>i. ok (mk i)) \<Longrightarrow> table_ok rid rid ok (snd (insert_row mk t))"
  using ids_ok_insert[of rid t mk] ids_ok_distinct[of rid "snd (insert_row mk t)"]
  by (simp add: table_ok_def insert_row_def)

lemma table_ok_unique:
  "table_ok rid key ok t \<Longrightarrow> insert_unique same mk t = Inr (i, t') \<Longrightarrow> (\<And>i. rid (mk i) = i) \<Longrightarrow> (\<And>i. ok (mk i)) \<Longrightarrow>
    (\<And>i r. same r \<longleftrightarrow> key r = key (mk i)) \<Longrightarrow> table_ok rid key ok t'"
proof -
  assume a: "table_ok rid key ok t" "insert_unique same mk t = Inr (i, t')" "\<And>i. rid (mk i) = i" "\<And>i. ok (mk i)"
    "\<And>i r. same r \<longleftrightarrow> key r = key (mk i)"
  have "\<not> list_ex same t" "t' = snd (insert_row mk t)"
    using a(2) by (simp_all add: insert_unique_def split: if_splits prod.splits)
  moreover from this(1) have "key (mk i) \<notin> key ` set t" for i using a(5)[of _ i] by (auto simp: list_ex_iff)
  ultimately show ?thesis using table_ok_insert[of rid key ok t mk] a(1,3,4) by simp
qed

lemma list_all_update_first: "list_all ok t \<Longrightarrow> (\<And>r. ok r \<Longrightarrow> ok (f r)) \<Longrightarrow> list_all ok (update_first P f t)"
  by (induction t) auto

lemma table_ok_upsert:
  assumes "table_ok rid key ok t" "\<And>i. rid (mk i) = i" "\<And>i. ok (mk i)"
    "\<And>r. match r \<Longrightarrow> rid (upd r) = rid r" "\<And>r. match r \<Longrightarrow> key (upd r) = key r" "\<And>r. ok r \<Longrightarrow> ok (upd r)"
    and new: "\<And>i r. key r = key (mk i) \<Longrightarrow> match r"
  shows "table_ok rid key ok (snd (upsert_row match rid mk upd t))"
proof (cases "find match t")
  case None
  then have "key (mk i) \<notin> key ` set t" for i using new[of _ i] by (force simp: find_none)
  then show ?thesis using None table_ok_insert[of rid key ok t mk] assms(1-3) by (simp add: upsert_row_def)
next
  case (Some r)
  have "ids_ok rid (update_first match upd t)" using assms(1,4) by (auto simp: table_ok_def intro: ids_ok_update)
  moreover have "map key (update_first match upd t) = map key t" using assms(5) by (rule map_update_first)
  moreover have "list_all ok (update_first match upd t)" using assms(1,6) by (auto simp: table_ok_def intro: list_all_update_first)
  ultimately show ?thesis using Some assms(1) by (simp add: upsert_row_def table_ok_def)
qed

section \<open>The newest rows\<close>

lemma newest_set: "set (newest col n rows) \<subseteq> set rows"
  unfolding newest_def by (metis set_rev set_sort set_take_subset)

lemma newest_length: "length (newest col n rows) = min n (length rows)"
  by (simp add: newest_def)

lemma newest_sorted: "sorted_wrt (\<ge>) (map col (newest col n rows))"
proof -
  have "sorted (rev (rev (map col (sort_key col (rev rows)))))" by simp
  then have "sorted_wrt (\<ge>) (rev (map col (sort_key col (rev rows))))" by (simp add: sorted_wrt_rev)
  then show ?thesis by (simp add: newest_def take_map[symmetric] rev_map[symmetric] sorted_wrt_take)
qed

lemma newest_all: "length rows \<le> n \<Longrightarrow> mset (newest col n rows) = mset rows"
  by (simp add: newest_def)

text \<open>A row that is left out is not newer than one that is listed.\<close>

lemma newest_rest:
  assumes "r \<in> set (newest col n rows)" "s \<in> set rows" "s \<notin> set (newest col n rows)"
  shows "col s \<le> col r"
proof -
  let ?all = "rev (sort_key col (rev rows))"
  have "s \<in> set (take n ?all @ drop n ?all)" using assms(2) by simp
  then have s: "s \<in> set (drop n ?all)" using assms(3) unfolding newest_def set_append by blast
  have "sorted (map col (sort_key col (rev rows)))" by simp
  then have "sorted_wrt (\<ge>) (map col ?all)" by (simp add: rev_map[symmetric] sorted_wrt_rev)
  then have "sorted_wrt (\<ge>) (map col (take n ?all) @ map col (drop n ?all))"
    by (metis append_take_drop_id map_append)
  then show ?thesis using assms(1) s unfolding newest_def sorted_wrt_append by auto
qed

section \<open>The contract of an upsert\<close>

text \<open>\<open>match\<close> selects the row of a key, \<open>mk\<close> is the row that is inserted and \<open>upd\<close> the update of the row
  that is there.\<close>

locale row_upsert =
  fixes match :: "'r \<Rightarrow> bool"
    and rid :: "'r \<Rightarrow> int"
    and mk :: "int \<Rightarrow> 'r"
    and upd :: "'r \<Rightarrow> 'r"
  assumes match_mk: "match (mk i)"
    and rid_mk: "rid (mk i) = i"
    and match_upd: "match r \<Longrightarrow> match (upd r)"
    and rid_upd: "match r \<Longrightarrow> rid (upd r) = rid r"
    and upd_upd: "match r \<Longrightarrow> upd (upd r) = upd r"
begin

lemma found: "find match (snd (upsert_row match rid mk upd t)) =
    Some (case find match t of None \<Rightarrow> mk (next_id t) | Some r \<Rightarrow> upd r)"
proof (cases "find match t")
  case None
  then show ?thesis by (simp add: upsert_row_def insert_row_def find_snoc match_mk)
next
  case (Some r)
  then have "match r" by (auto simp: find_Some_iff)
  then show ?thesis using Some by (simp add: upsert_row_def find_update_first match_upd)
qed

lemma found_id: "upsert_row match rid mk upd t = (i, t') \<Longrightarrow> \<exists>r. find match t' = Some r \<and> rid r = i"
proof -
  assume u: "upsert_row match rid mk upd t = (i, t')"
  have i: "i = (case find match t of None \<Rightarrow> next_id t | Some r \<Rightarrow> rid r)"
    using u by (auto simp: upsert_row_def insert_row_def split: option.splits)
  have "match r" if "find match t = Some r" for r using that by (auto simp: find_Some_iff)
  then show ?thesis using found[of t] u i by (auto simp: rid_mk rid_upd split: option.splits)
qed

lemma others_stay: "filter (\<lambda>r. \<not> match r) (snd (upsert_row match rid mk upd t)) = filter (\<lambda>r. \<not> match r) t"
  by (cases "find match t") (simp_all add: upsert_row_def insert_row_def match_mk filter_update_first match_upd)

lemma keeps_ids: "ids_ok rid t \<Longrightarrow> ids_ok rid (snd (upsert_row match rid mk upd t))"
  by (cases "find match t") (auto simp: upsert_row_def intro: ids_ok_insert ids_ok_update rid_mk rid_upd)

lemma one_row: "length (filter match t) \<le> 1 \<Longrightarrow> length (filter match (snd (upsert_row match rid mk upd t))) = 1"
proof -
  assume one: "length (filter match t) \<le> 1"
  show ?thesis
  proof (cases "find match t")
    case None
    then have "filter match t = []" by (auto simp: find_none filter_empty_conv)
    then show ?thesis using None by (simp add: upsert_row_def insert_row_def match_mk)
  next
    case (Some r)
    have "length (filter match (update_first match upd t)) = length (filter match t)"
      by (induction t) (auto simp: match_upd)
    moreover have "filter match t \<noteq> []" using Some by (auto simp: find_Some_iff filter_empty_conv)
    ultimately show ?thesis using one Some by (cases "filter match t") (auto simp: upsert_row_def)
  qed
qed

lemma third_is_second:
  "upsert_row match rid mk upd (snd (upsert_row match rid mk upd (snd (upsert_row match rid mk upd t)))) =
   upsert_row match rid mk upd (snd (upsert_row match rid mk upd t))"
proof -
  let ?u = "upsert_row match rid mk upd"
  have again: "?u (snd (?u s)) = ?u s" if s: "find match s \<noteq> None" for s
  proof -
    obtain r where r: "find match s = Some r" using s by blast
    then have m: "match r" by (auto simp: find_Some_iff)
    have "find match (update_first match upd s) = Some (upd r)" using r m by (simp add: find_update_first match_upd)
    then show ?thesis using r m
      by (simp add: upsert_row_def rid_upd update_first_again match_upd upd_upd)
  qed
  show ?thesis by (rule again) (simp add: found)
qed

end

text \<open>An upsert that finds nothing to change in the row it has inserted.\<close>

locale steady_upsert = row_upsert +
  assumes upd_mk: "upd (mk i) = mk i"
begin

lemma second_is_first: "upsert_row match rid mk upd (snd (upsert_row match rid mk upd t)) = upsert_row match rid mk upd t"
proof (cases "find match t")
  case None
  have "find match (snd (upsert_row match rid mk upd t)) = Some (mk (next_id t))" using found[of t] None by simp
  then show ?thesis using None
    by (simp add: upsert_row_def insert_row_def rid_mk update_first_snoc match_mk upd_mk)
next
  case (Some r)
  then have m: "match r" by (auto simp: find_Some_iff)
  have "find match (update_first match upd t) = Some (upd r)" using Some m by (simp add: find_update_first match_upd)
  then show ?thesis using Some m
    by (simp add: upsert_row_def rid_upd update_first_again match_upd upd_upd)
qed

end

end
