(* ===== verification/Metadata_Rows.thy ===== *)
theory Metadata_Rows
  imports Metadata_Store
begin

text \<open>
  The rows of the metadata tables that the other theories do not have yet, \<^verbatim>\<open>src/robot_dh/warehouse/models.py\<close>,
  the database as a record of its tables, and the dictionaries that the access layers return for the
  rows. \<open>isof\<close> is \<open>datetime.isoformat\<close>.
\<close>

section \<open>Rows\<close>

record lake_asset_row =
  la_id :: int
  la_dataset_id :: string
  la_version :: string
  la_layer :: string
  la_asset_type :: string
  la_uri :: string
  la_format :: "string option"
  la_size_bytes :: "int option"
  la_row_count :: "int option"
  la_checksum :: "string option"
  la_created_at :: datetime
  la_updated_at :: datetime

record etl_job_row =
  ej_id :: int
  ej_job_id :: string
  ej_job_type :: string
  ej_input_uri :: "string option"
  ej_output_uri :: "string option"
  ej_status :: string
  ej_started_at :: "datetime option"
  ej_finished_at :: "datetime option"
  ej_duration_sec :: "rat option"
  ej_error_message :: "string option"
  ej_metrics_json :: "pyval option"
  ej_created_at :: datetime

record lineage_edge_row =
  le_id :: int
  le_source_uri :: string
  le_target_uri :: string
  le_job_id :: string
  le_job_type :: string
  le_run_id :: "string option"
  le_created_at :: datetime

record etl_shard_row =
  esr_id :: int
  esr_plan_id :: string
  esr_shard_id :: string
  esr_shard_index :: int
  esr_dataset_count :: "int option"
  esr_input_bytes :: "int option"
  esr_status :: string
  esr_started_at :: "datetime option"
  esr_finished_at :: "datetime option"
  esr_duration_sec :: "rat option"
  esr_succeeded :: "int option"
  esr_failed :: "int option"
  esr_skipped :: "int option"
  esr_summary_uri :: "string option"
  esr_error_message :: "string option"
  esr_metrics_json :: "pyval option"
  esr_created_at :: datetime

record benchmark_run_row =
  bmr_id :: int
  bmr_benchmark_id :: string
  bmr_suite_name :: string
  bmr_suite_path :: "string option"
  bmr_total_cases :: "int option"
  bmr_passed :: "int option"
  bmr_failed :: "int option"
  bmr_mismatched :: "int option"
  bmr_status :: string
  bmr_started_at :: "datetime option"
  bmr_finished_at :: "datetime option"
  bmr_duration_sec :: "rat option"
  bmr_report_uri :: "string option"
  bmr_metrics_json :: "pyval option"
  bmr_created_at :: datetime

record benchmark_case_row =
  bmc_id :: int
  bmc_benchmark_id :: string
  bmc_case_id :: string
  bmc_dataset_uri :: "string option"
  bmc_mutation_type :: "string option"
  bmc_mutation :: "string option"
  bmc_expected_status :: "string option"
  bmc_actual_status :: "string option"
  bmc_expected_failed_validators :: "pyval option"
  bmc_actual_failed_validators :: "pyval option"
  bmc_passed :: "bool option"
  bmc_match :: "bool option"
  bmc_duration_sec :: "rat option"
  bmc_error_message :: "string option"
  bmc_metrics_json :: "pyval option"
  bmc_artifacts_uri :: "string option"
  bmc_created_at :: datetime

record runtime_event_row =
  rer_id :: int
  rer_event_id :: string
  rer_event_type :: string
  rer_job_id :: "string option"
  rer_run_id :: "string option"
  rer_dataset_id :: "string option"
  rer_version :: "string option"
  rer_payload_json :: "pyval option"
  rer_created_at :: datetime

record argo_workflow_row =
  awr_id :: int
  awr_workflow_name :: string
  awr_workflow_template :: "string option"
  awr_status :: "string option"
  awr_started_at :: "datetime option"
  awr_finished_at :: "datetime option"
  awr_duration_sec :: "rat option"
  awr_metrics_json :: "pyval option"
  awr_created_at :: datetime

record task_heartbeat_row =
  thr_id :: int
  thr_task_id :: string
  thr_workflow_name :: "string option"
  thr_step_name :: "string option"
  thr_dataset_id :: "string option"
  thr_version :: "string option"
  thr_phase :: "string option"
  thr_progress_current :: "int option"
  thr_progress_total :: "int option"
  thr_progress_unit :: "string option"
  thr_message :: "string option"
  thr_metrics_json :: "pyval option"
  thr_updated_at :: datetime

record dataset_partition_row =
  dpr_id :: int
  dpr_partition_id :: string
  dpr_dataset_id :: string
  dpr_version :: string
  dpr_dataset_family :: "string option"
  dpr_dataset_uri :: string
  dpr_partition_type :: string
  dpr_partition_index :: int
  dpr_partition_uri :: "string option"
  dpr_input_bytes :: "int option"
  dpr_estimated_rows :: "int option"
  dpr_status :: "string option"
  dpr_metrics_json :: "pyval option"
  dpr_created_at :: datetime

record qc_contract_row =
  qcr_id :: int
  qcr_contract_id :: string
  qcr_dataset_family :: string
  qcr_version :: string
  qcr_description :: "string option"
  qcr_rules_json :: pyval
  qcr_enabled :: bool
  qcr_created_at :: datetime
  qcr_updated_at :: datetime

record open_lineage_row =
  olr_id :: int
  olr_event_id :: string
  olr_event_type :: string
  olr_event_time :: datetime
  olr_job_namespace :: "string option"
  olr_job_name :: "string option"
  olr_run_id :: "string option"
  olr_inputs_json :: "pyval option"
  olr_outputs_json :: "pyval option"
  olr_facets_json :: "pyval option"
  olr_raw_event_json :: "pyval option"
  olr_created_at :: datetime

record meta_db =
  mx_assets :: "lake_asset_row list"
  mx_jobs :: "etl_job_row list"
  mx_edges :: "lineage_edge_row list"
  mx_versions :: "dataset_version_row list"
  mx_snapshots :: "quality_snapshot_row list"
  mx_perf :: "etl_perf_row list"
  mx_shards :: "etl_shard_row list"
  mx_benchmarks :: "benchmark_run_row list"
  mx_cases :: "benchmark_case_row list"
  mx_events :: "runtime_event_row list"
  mx_argo :: "argo_workflow_row list"
  mx_beats :: "task_heartbeat_row list"
  mx_partitions :: "dataset_partition_row list"
  mx_contracts :: "qc_contract_row list"
  mx_contract_runs :: "qc_contract_run_row list"
  mx_profiles :: "asset_profile_row list"
  mx_ml_ready :: "ml_ready_row list"
  mx_flows :: "workflow_run_row list"
  mx_flow_steps :: "flow_step_row list"
  mx_lineage :: "open_lineage_row list"

definition empty_meta :: meta_db where
  "empty_meta = \<lparr>mx_assets = [], mx_jobs = [], mx_edges = [], mx_versions = [], mx_snapshots = [], mx_perf = [], mx_shards = [],
     mx_benchmarks = [], mx_cases = [], mx_events = [], mx_argo = [], mx_beats = [], mx_partitions = [], mx_contracts = [],
     mx_contract_runs = [], mx_profiles = [], mx_ml_ready = [], mx_flows = [], mx_flow_steps = [], mx_lineage = []\<rparr>"

section \<open>Dictionaries\<close>

definition of_opt_json :: "pyval option \<Rightarrow> pyval" where
  "of_opt_json v = (case v of None \<Rightarrow> VNone | Some j \<Rightarrow> j)"

definition of_opt_bool :: "bool option \<Rightarrow> pyval" where
  "of_opt_bool v = (case v of None \<Rightarrow> VNone | Some b \<Rightarrow> VBool b)"

definition of_opt_time :: "(datetime \<Rightarrow> string) \<Rightarrow> datetime option \<Rightarrow> pyval" where
  "of_opt_time isof t = (case t of None \<Rightarrow> VNone | Some x \<Rightarrow> VStr (isof x))"

definition of_opt_list :: "pyval list option \<Rightarrow> pyval" where
  "of_opt_list v = (case v of None \<Rightarrow> VNone | Some xs \<Rightarrow> VList xs)"

text \<open>\<open>column.get("items") if isinstance(column, dict) else None\<close>.\<close>

definition items_of :: "pyval option \<Rightarrow> pyval" where
  "items_of c = (case c of Some (VDict d) \<Rightarrow> get d ''items'' | _ \<Rightarrow> VNone)"

text \<open>The rules of a contract run, as an array or in the older form \<open>{"items": [...]}\<close>.\<close>

definition normalize_rules_array :: "pyval option \<Rightarrow> pyval list option" where
  "normalize_rules_array c = (case c of
     Some (VList xs) \<Rightarrow> Some xs
   | Some (VDict d) \<Rightarrow> (case get d ''items'' of VList xs \<Rightarrow> Some xs | _ \<Rightarrow> None)
   | _ \<Rightarrow> None)"

definition lake_asset_to_dict :: "(datetime \<Rightarrow> string) \<Rightarrow> lake_asset_row \<Rightarrow> pydict" where
  "lake_asset_to_dict isof row =
     [(''id'', VInt (la_id row)),
      (''dataset_id'', VStr (la_dataset_id row)),
      (''version'', VStr (la_version row)),
      (''layer'', VStr (la_layer row)),
      (''asset_type'', VStr (la_asset_type row)),
      (''uri'', VStr (la_uri row)),
      (''format'', of_opt_str (la_format row)),
      (''size_bytes'', of_opt_int (la_size_bytes row)),
      (''row_count'', of_opt_int (la_row_count row)),
      (''checksum'', of_opt_str (la_checksum row)),
      (''created_at'', VStr (isof (la_created_at row))),
      (''updated_at'', VStr (isof (la_updated_at row)))]"

definition lineage_edge_to_dict :: "(datetime \<Rightarrow> string) \<Rightarrow> lineage_edge_row \<Rightarrow> pydict" where
  "lineage_edge_to_dict isof row =
     [(''id'', VInt (le_id row)),
      (''source_uri'', VStr (le_source_uri row)),
      (''target_uri'', VStr (le_target_uri row)),
      (''job_id'', VStr (le_job_id row)),
      (''job_type'', VStr (le_job_type row)),
      (''run_id'', of_opt_str (le_run_id row)),
      (''created_at'', VStr (isof (le_created_at row)))]"

definition etl_job_to_dict :: "(datetime \<Rightarrow> string) \<Rightarrow> etl_job_row \<Rightarrow> pydict" where
  "etl_job_to_dict isof row =
     [(''id'', VInt (ej_id row)),
      (''job_id'', VStr (ej_job_id row)),
      (''job_type'', VStr (ej_job_type row)),
      (''input_uri'', of_opt_str (ej_input_uri row)),
      (''output_uri'', of_opt_str (ej_output_uri row)),
      (''status'', VStr (ej_status row)),
      (''started_at'', of_opt_time isof (ej_started_at row)),
      (''finished_at'', of_opt_time isof (ej_finished_at row)),
      (''duration_sec'', of_opt_float (ej_duration_sec row)),
      (''error_message'', of_opt_str (ej_error_message row)),
      (''metrics_json'', of_opt_json (ej_metrics_json row)),
      (''created_at'', VStr (isof (ej_created_at row)))]"

definition quality_snapshot_to_dict :: "(datetime \<Rightarrow> string) \<Rightarrow> quality_snapshot_row \<Rightarrow> pydict" where
  "quality_snapshot_to_dict isof row =
     [(''id'', VInt (qs_id row)),
      (''dataset_id'', VStr (qs_dataset_id row)),
      (''version'', VStr (qs_version row)),
      (''run_id'', of_opt_str (qs_run_id row)),
      (''quality_status'', of_opt_str (qs_quality_status row)),
      (''quality_score'', of_opt_float (qs_quality_score row)),
      (''metrics_json'', of_opt_json (qs_metrics_json row)),
      (''created_at'', VStr (isof (qs_created_at row)))]"

definition etl_perf_run_to_dict :: "(datetime \<Rightarrow> string) \<Rightarrow> etl_perf_row \<Rightarrow> pydict" where
  "etl_perf_run_to_dict isof row =
     [(''id'', VInt (pf_id row)),
      (''job_id'', VStr (pf_job_id row)),
      (''run_id'', VStr (pf_run_id row)),
      (''dataset_id'', VStr (pf_dataset_id row)),
      (''version'', VStr (pf_version row)),
      (''phase'', VStr (pf_phase row)),
      (''input_uri'', of_opt_str (pf_input_uri row)),
      (''output_uri'', of_opt_str (pf_output_uri row)),
      (''input_bytes'', of_opt_int (pf_input_bytes row)),
      (''output_bytes'', of_opt_int (pf_output_bytes row)),
      (''input_rows'', of_opt_int (pf_input_rows row)),
      (''output_rows'', of_opt_int (pf_output_rows row)),
      (''duration_sec'', of_opt_float (pf_duration_sec row)),
      (''download_duration_sec'', of_opt_float (pf_download_duration_sec row)),
      (''upload_duration_sec'', of_opt_float (pf_upload_duration_sec row)),
      (''compute_duration_sec'', of_opt_float (pf_compute_duration_sec row)),
      (''peak_memory_mb'', of_opt_float (pf_peak_memory_mb row)),
      (''worker_id'', of_opt_str (pf_worker_id row)),
      (''status'', VStr (pf_status row)),
      (''error_message'', of_opt_str (pf_error_message row)),
      (''started_at'', of_opt_time isof (pf_started_at row)),
      (''finished_at'', of_opt_time isof (pf_finished_at row)),
      (''metrics_json'', of_opt_json (pf_metrics_json row)),
      (''created_at'', VStr (isof (pf_created_at row)))]"

definition etl_shard_to_dict :: "(datetime \<Rightarrow> string) \<Rightarrow> etl_shard_row \<Rightarrow> pydict" where
  "etl_shard_to_dict isof row =
     [(''id'', VInt (esr_id row)),
      (''plan_id'', VStr (esr_plan_id row)),
      (''shard_id'', VStr (esr_shard_id row)),
      (''shard_index'', VInt (esr_shard_index row)),
      (''dataset_count'', of_opt_int (esr_dataset_count row)),
      (''input_bytes'', of_opt_int (esr_input_bytes row)),
      (''status'', VStr (esr_status row)),
      (''started_at'', of_opt_time isof (esr_started_at row)),
      (''finished_at'', of_opt_time isof (esr_finished_at row)),
      (''duration_sec'', of_opt_float (esr_duration_sec row)),
      (''succeeded'', of_opt_int (esr_succeeded row)),
      (''failed'', of_opt_int (esr_failed row)),
      (''skipped'', of_opt_int (esr_skipped row)),
      (''summary_uri'', of_opt_str (esr_summary_uri row)),
      (''error_message'', of_opt_str (esr_error_message row)),
      (''metrics_json'', of_opt_json (esr_metrics_json row)),
      (''created_at'', VStr (isof (esr_created_at row)))]"

definition benchmark_run_to_dict :: "(datetime \<Rightarrow> string) \<Rightarrow> benchmark_run_row \<Rightarrow> pydict" where
  "benchmark_run_to_dict isof row =
     [(''id'', VInt (bmr_id row)),
      (''benchmark_id'', VStr (bmr_benchmark_id row)),
      (''suite_name'', VStr (bmr_suite_name row)),
      (''suite_path'', of_opt_str (bmr_suite_path row)),
      (''total_cases'', of_opt_int (bmr_total_cases row)),
      (''passed'', of_opt_int (bmr_passed row)),
      (''failed'', of_opt_int (bmr_failed row)),
      (''mismatched'', of_opt_int (bmr_mismatched row)),
      (''status'', VStr (bmr_status row)),
      (''started_at'', of_opt_time isof (bmr_started_at row)),
      (''finished_at'', of_opt_time isof (bmr_finished_at row)),
      (''duration_sec'', of_opt_float (bmr_duration_sec row)),
      (''report_uri'', of_opt_str (bmr_report_uri row)),
      (''metrics_json'', of_opt_json (bmr_metrics_json row)),
      (''created_at'', VStr (isof (bmr_created_at row)))]"

definition benchmark_case_to_dict :: "(datetime \<Rightarrow> string) \<Rightarrow> benchmark_case_row \<Rightarrow> pydict" where
  "benchmark_case_to_dict isof row =
     [(''id'', VInt (bmc_id row)),
      (''benchmark_id'', VStr (bmc_benchmark_id row)),
      (''case_id'', VStr (bmc_case_id row)),
      (''dataset_uri'', of_opt_str (bmc_dataset_uri row)),
      (''mutation_type'', of_opt_str (bmc_mutation_type row)),
      (''mutation'', of_opt_str (bmc_mutation row)),
      (''expected_status'', of_opt_str (bmc_expected_status row)),
      (''actual_status'', of_opt_str (bmc_actual_status row)),
      (''passed'', of_opt_bool (bmc_passed row)),
      (''match'', of_opt_bool (bmc_match row)),
      (''duration_sec'', of_opt_float (bmc_duration_sec row)),
      (''error_message'', of_opt_str (bmc_error_message row)),
      (''metrics_json'', of_opt_json (bmc_metrics_json row)),
      (''artifacts_uri'', of_opt_str (bmc_artifacts_uri row)),
      (''created_at'', VStr (isof (bmc_created_at row)))]"

definition runtime_event_to_dict :: "(datetime \<Rightarrow> string) \<Rightarrow> runtime_event_row \<Rightarrow> pydict" where
  "runtime_event_to_dict isof row =
     [(''id'', VInt (rer_id row)),
      (''event_id'', VStr (rer_event_id row)),
      (''event_type'', VStr (rer_event_type row)),
      (''job_id'', of_opt_str (rer_job_id row)),
      (''run_id'', of_opt_str (rer_run_id row)),
      (''dataset_id'', of_opt_str (rer_dataset_id row)),
      (''version'', of_opt_str (rer_version row)),
      (''payload_json'', of_opt_json (rer_payload_json row)),
      (''created_at'', VStr (isof (rer_created_at row)))]"

definition heartbeat_to_dict :: "(datetime \<Rightarrow> string) \<Rightarrow> task_heartbeat_row \<Rightarrow> pydict" where
  "heartbeat_to_dict isof row =
     [(''id'', VInt (thr_id row)),
      (''task_id'', VStr (thr_task_id row)),
      (''workflow_name'', of_opt_str (thr_workflow_name row)),
      (''step_name'', of_opt_str (thr_step_name row)),
      (''dataset_id'', of_opt_str (thr_dataset_id row)),
      (''version'', of_opt_str (thr_version row)),
      (''phase'', of_opt_str (thr_phase row)),
      (''progress_current'', of_opt_int (thr_progress_current row)),
      (''progress_total'', of_opt_int (thr_progress_total row)),
      (''progress_unit'', of_opt_str (thr_progress_unit row)),
      (''message'', of_opt_str (thr_message row)),
      (''metrics_json'', of_opt_json (thr_metrics_json row)),
      (''updated_at'', VStr (isof (thr_updated_at row)))]"

definition partition_to_dict :: "(datetime \<Rightarrow> string) \<Rightarrow> dataset_partition_row \<Rightarrow> pydict" where
  "partition_to_dict isof row =
     [(''id'', VInt (dpr_id row)),
      (''partition_id'', VStr (dpr_partition_id row)),
      (''dataset_id'', VStr (dpr_dataset_id row)),
      (''version'', VStr (dpr_version row)),
      (''dataset_family'', of_opt_str (dpr_dataset_family row)),
      (''dataset_uri'', VStr (dpr_dataset_uri row)),
      (''partition_type'', VStr (dpr_partition_type row)),
      (''partition_index'', VInt (dpr_partition_index row)),
      (''partition_uri'', of_opt_str (dpr_partition_uri row)),
      (''input_bytes'', of_opt_int (dpr_input_bytes row)),
      (''estimated_rows'', of_opt_int (dpr_estimated_rows row)),
      (''status'', of_opt_str (dpr_status row)),
      (''metrics_json'', of_opt_json (dpr_metrics_json row)),
      (''created_at'', VStr (isof (dpr_created_at row)))]"

definition contract_to_dict :: "(datetime \<Rightarrow> string) \<Rightarrow> qc_contract_row \<Rightarrow> pydict" where
  "contract_to_dict isof row =
     [(''id'', VInt (qcr_id row)),
      (''contract_id'', VStr (qcr_contract_id row)),
      (''dataset_family'', VStr (qcr_dataset_family row)),
      (''version'', VStr (qcr_version row)),
      (''description'', of_opt_str (qcr_description row)),
      (''rules_json'',  (qcr_rules_json row)),
      (''enabled'', VBool (qcr_enabled row)),
      (''created_at'', VStr (isof (qcr_created_at row))),
      (''updated_at'', VStr (isof (qcr_updated_at row)))]"

definition contract_run_to_dict :: "(datetime \<Rightarrow> string) \<Rightarrow> qc_contract_run_row \<Rightarrow> pydict" where
  "contract_run_to_dict isof row =
     [(''id'', VInt (qr_id row)),
      (''run_id'', VStr (qr_run_id row)),
      (''contract_id'', VStr (qr_contract_id row)),
      (''dataset_id'', of_opt_str (qr_dataset_id row)),
      (''version'', of_opt_str (qr_version row)),
      (''dataset_family'', of_opt_str (qr_dataset_family row)),
      (''dataset_uri'', of_opt_str (qr_dataset_uri row)),
      (''status'', VStr (qr_status row)),
      (''started_at'', of_opt_time isof (qr_started_at row)),
      (''finished_at'', of_opt_time isof (qr_finished_at row)),
      (''duration_sec'', of_opt_float (qr_duration_sec row)),
      (''metrics_json'', of_opt_json (qr_metrics_json row)),
      (''failed_rules_json'', of_opt_list (normalize_rules_array (qr_failed_rules_json row))),
      (''warning_rules_json'', of_opt_list (normalize_rules_array (qr_warning_rules_json row))),
      (''artifacts_uri'', of_opt_str (qr_artifacts_uri row)),
      (''error_message'', of_opt_str (qr_error_message row)),
      (''created_at'', VStr (isof (qr_created_at row)))]"

definition profile_to_dict :: "(datetime \<Rightarrow> string) \<Rightarrow> asset_profile_row \<Rightarrow> pydict" where
  "profile_to_dict isof row =
     [(''id'', VInt (apr_id row)),
      (''profile_id'', VStr (apr_profile_id row)),
      (''dataset_id'', of_opt_str (apr_dataset_id row)),
      (''version'', of_opt_str (apr_version row)),
      (''dataset_family'', of_opt_str (apr_dataset_family row)),
      (''asset_uri'', VStr (apr_asset_uri row)),
      (''asset_format'', of_opt_str (apr_asset_format row)),
      (''layer'', of_opt_str (apr_layer row)),
      (''bytes'', of_opt_int (apr_bytes row)),
      (''rows'', of_opt_int (apr_rows row)),
      (''files_count'', of_opt_int (apr_files_count row)),
      (''episodes_count'', of_opt_int (apr_episodes_count row)),
      (''videos_count'', of_opt_int (apr_videos_count row)),
      (''schema_hash'', of_opt_str (apr_schema_hash row)),
      (''null_rate'', of_opt_float (apr_null_rate row)),
      (''profile_json'', of_opt_json (apr_profile_json row)),
      (''status'', of_opt_str (apr_status row)),
      (''created_at'', VStr (isof (apr_created_at row)))]"

definition ml_ready_to_dict :: "(datetime \<Rightarrow> string) \<Rightarrow> ml_ready_row \<Rightarrow> pydict" where
  "ml_ready_to_dict isof row =
     [(''id'', VInt (ml_id row)),
      (''dataset_id'', VStr (ml_dataset_id row)),
      (''version'', VStr (ml_version row)),
      (''dataset_family'', of_opt_str (ml_dataset_family row)),
      (''output_uri'', VStr (ml_output_uri row)),
      (''train_uri'', of_opt_str (ml_train_uri row)),
      (''val_uri'', of_opt_str (ml_val_uri row)),
      (''test_uri'', of_opt_str (ml_test_uri row)),
      (''dataset_card_uri'', of_opt_str (ml_dataset_card_uri row)),
      (''feature_schema_uri'', of_opt_str (ml_feature_schema_uri row)),
      (''quality_filter_uri'', of_opt_str (ml_quality_filter_uri row)),
      (''lineage_uri'', of_opt_str (ml_lineage_uri row)),
      (''quality_threshold'', of_opt_float (ml_quality_threshold row)),
      (''num_train'', of_opt_int (ml_num_train row)),
      (''num_val'', of_opt_int (ml_num_val row)),
      (''num_test'', of_opt_int (ml_num_test row)),
      (''status'', of_opt_str (ml_status row)),
      (''metrics_json'', of_opt_json (ml_metrics_json row)),
      (''created_at'', VStr (isof (ml_created_at row)))]"

definition workflow_run_to_dict :: "(datetime \<Rightarrow> string) \<Rightarrow> workflow_run_row \<Rightarrow> pydict" where
  "workflow_run_to_dict isof row =
     [(''id'', VInt (wr_id row)),
      (''workflow_name'', VStr (wr_workflow_name row)),
      (''workflow_uid'', of_opt_str (wr_workflow_uid row)),
      (''workflow_namespace'', of_opt_str (wr_workflow_namespace row)),
      (''workflow_template'', of_opt_str (wr_workflow_template row)),
      (''workflow_type'', of_opt_str (wr_workflow_type row)),
      (''status'', of_opt_str (wr_status row)),
      (''started_at'', of_opt_time isof (wr_started_at row)),
      (''finished_at'', of_opt_time isof (wr_finished_at row)),
      (''duration_sec'', of_opt_float (wr_duration_sec row)),
      (''parameters_json'', of_opt_json (wr_parameters_json row)),
      (''metrics_json'', of_opt_json (wr_metrics_json row)),
      (''workflow_json'', of_opt_json (wr_workflow_json row)),
      (''created_at'', VStr (isof (wr_created_at row)))]"

definition workflow_step_to_dict :: "(datetime \<Rightarrow> string) \<Rightarrow> flow_step_row \<Rightarrow> pydict" where
  "workflow_step_to_dict isof row =
     [(''id'', VInt (fsr_id row)),
      (''workflow_name'', VStr (fsr_workflow_name row)),
      (''workflow_namespace'', of_opt_str (fsr_workflow_namespace row)),
      (''step_name'', VStr (fsr_step_name row)),
      (''template_name'', of_opt_str (fsr_template_name row)),
      (''pod_name'', of_opt_str (fsr_pod_name row)),
      (''phase'', of_opt_str (fsr_phase row)),
      (''started_at'', of_opt_time isof (fsr_started_at row)),
      (''finished_at'', of_opt_time isof (fsr_finished_at row)),
      (''duration_sec'', of_opt_float (fsr_duration_sec row)),
      (''dataset_id'', of_opt_str (fsr_dataset_id row)),
      (''version'', of_opt_str (fsr_version row)),
      (''dataset_family'', of_opt_str (fsr_dataset_family row)),
      (''input_uri'', of_opt_str (fsr_input_uri row)),
      (''output_uri'', of_opt_str (fsr_output_uri row)),
      (''metrics_json'', of_opt_json (fsr_metrics_json row)),
      (''message'', of_opt_str (fsr_message row)),
      (''created_at'', VStr (isof (fsr_created_at row)))]"

definition ol_event_to_dict :: "(datetime \<Rightarrow> string) \<Rightarrow> open_lineage_row \<Rightarrow> pydict" where
  "ol_event_to_dict isof row =
     [(''id'', VInt (olr_id row)),
      (''event_id'', VStr (olr_event_id row)),
      (''event_type'', VStr (olr_event_type row)),
      (''event_time'', VStr (isof (olr_event_time row))),
      (''job_namespace'', of_opt_str (olr_job_namespace row)),
      (''job_name'', of_opt_str (olr_job_name row)),
      (''run_id'', of_opt_str (olr_run_id row)),
      (''inputs'', items_of (olr_inputs_json row)),
      (''outputs'', items_of (olr_outputs_json row)),
      (''facets_json'', of_opt_json (olr_facets_json row)),
      (''raw_event_json'', of_opt_json (olr_raw_event_json row)),
      (''created_at'', VStr (isof (olr_created_at row)))]"

end
