(* ===== verification/Metadata_Service.thy ===== *)
theory Metadata_Service
  imports Metadata_Rows
begin

text \<open>
  \<^verbatim>\<open>src/robot_dh/warehouse/service.py\<close>: the access layer of the lake metadata. The keyword arguments of a
  write are given as a row, whose id, times of creation and update and JSON column are ignored; the JSON
  column is an argument of its own. A write changes one table.
\<close>

type_synonym meta_result = "(meta_error + int option) \<times> meta_db"

text \<open>\<open>(b - a).total_seconds()\<close>.\<close>

definition seconds_between :: "datetime \<Rightarrow> datetime \<Rightarrow> rat" where
  "seconds_between a b = of_int ((ordinal (fst b) - ordinal (fst a)) * 86400) + (snd b - snd a)"

definition service_texts :: layer_texts where
  "service_texts = \<lparr>lt_label = [], lt_drift = ''Apply the matching schema migration in the infra project first.'',
     lt_missing = ''v1.5 PostgreSQL tables missing: '',
     lt_missing_hint = ''. Apply v1.5 schema in the infra project first (e.g. scripts/29_pg_apply_v1_5_schema.sh).''\<rparr>"

section \<open>The lake, jobs and lineage\<close>

definition required_tables :: "string list" where
  "required_tables = [''lake_assets'', ''etl_jobs'', ''lineage_edges'', ''dataset_versions'', ''quality_snapshots'']"

definition tables_present :: "meta_env \<Rightarrow> meta_error + (string \<times> bool) list" where
  "tables_present env = (case inspect_tables env of
     Inl err \<Rightarrow> Inl (if is_db_error err then Lake_unavailable (''warehouse inspect failed: '' @ meta_text err) else err)
   | Inr existing \<Rightarrow> Inr (map (\<lambda>t. (t, t \<in> set existing)) required_tables))"

definition same_asset :: "lake_asset_row \<Rightarrow> lake_asset_row \<Rightarrow> bool" where
  "same_asset p r = (la_uri r = la_uri p)"

definition new_asset :: "datetime \<Rightarrow> lake_asset_row \<Rightarrow> int \<Rightarrow> lake_asset_row" where
  "new_asset now p i = p\<lparr>la_id := i, la_created_at := now, la_updated_at := now\<rparr>"

definition update_asset :: "datetime \<Rightarrow> lake_asset_row \<Rightarrow> lake_asset_row \<Rightarrow> lake_asset_row" where
  "update_asset now p r = r\<lparr>la_dataset_id := la_dataset_id p, la_version := la_version p, la_layer := la_layer p,
     la_asset_type := la_asset_type p, la_format := la_format p, la_size_bytes := la_size_bytes p,
     la_row_count := la_row_count p, la_checksum := la_checksum p, la_updated_at := now\<rparr>"

definition record_lake_asset :: "meta_env \<Rightarrow> lake_asset_row \<Rightarrow> meta_db \<Rightarrow> meta_result" where
  "record_lake_asset env p = lake_write env ''record_lake_asset'' (on_table mx_assets (\<lambda>t db. db\<lparr>mx_assets := t\<rparr>)
     (upsert_row (same_asset p) la_id (new_asset (mv_now env) p) (update_asset (mv_now env) p)))"

definition same_job :: "string \<Rightarrow> etl_job_row \<Rightarrow> bool" where
  "same_job job_id r = (ej_job_id r = job_id)"

definition record_etl_job_start ::
  "meta_env \<Rightarrow> string \<Rightarrow> string \<Rightarrow> string option \<Rightarrow> string option \<Rightarrow> pydict option \<Rightarrow> meta_db \<Rightarrow> meta_result" where
  "record_etl_job_start env job_id job_type input_uri output_uri metrics =
     lake_write env ''record_etl_job_start'' (on_table_unique mx_jobs (\<lambda>t db. db\<lparr>mx_jobs := t\<rparr>)
       (insert_unique (same_job job_id) (\<lambda>i. \<lparr>ej_id = i, ej_job_id = job_id, ej_job_type = job_type, ej_input_uri = input_uri,
          ej_output_uri = output_uri, ej_status = ''RUNNING'', ej_started_at = Some (mv_now env), ej_finished_at = None,
          ej_duration_sec = None, ej_error_message = None, ej_metrics_json = json_or_none metrics, ej_created_at = mv_now env\<rparr>)))"

definition finished_job ::
  "datetime \<Rightarrow> string \<Rightarrow> string \<Rightarrow> pydict option \<Rightarrow> string option \<Rightarrow> int \<Rightarrow> etl_job_row" where
  "finished_job now job_id status metrics error_message i =
     \<lparr>ej_id = i, ej_job_id = job_id, ej_job_type = ''unknown'', ej_input_uri = None, ej_output_uri = None, ej_status = status,
      ej_started_at = Some now, ej_finished_at = Some now, ej_duration_sec = Some 0, ej_error_message = error_message,
      ej_metrics_json = json_or_none metrics, ej_created_at = now\<rparr>"

definition finish_job :: "datetime \<Rightarrow> string \<Rightarrow> pydict option \<Rightarrow> string option \<Rightarrow> etl_job_row \<Rightarrow> etl_job_row" where
  "finish_job now status metrics error_message r =
     r\<lparr>ej_status := status, ej_finished_at := Some now,
       ej_duration_sec := (case ej_started_at r of None \<Rightarrow> ej_duration_sec r | Some t \<Rightarrow> Some (seconds_between t now)),
       ej_error_message := error_message, ej_metrics_json := json_update metrics (ej_metrics_json r)\<rparr>"

definition record_etl_job_finish ::
  "meta_env \<Rightarrow> string \<Rightarrow> string \<Rightarrow> pydict option \<Rightarrow> string option \<Rightarrow> meta_db \<Rightarrow> meta_result" where
  "record_etl_job_finish env job_id status metrics error_message =
     lake_write env ''record_etl_job_finish'' (on_table mx_jobs (\<lambda>t db. db\<lparr>mx_jobs := t\<rparr>)
       (upsert_row (same_job job_id) ej_id (finished_job (mv_now env) job_id status metrics error_message)
          (finish_job (mv_now env) status metrics error_message)))"

definition new_edge :: "datetime \<Rightarrow> string \<Rightarrow> string \<Rightarrow> string \<Rightarrow> string \<Rightarrow> string option \<Rightarrow> int \<Rightarrow> lineage_edge_row" where
  "new_edge now source target job_id job_type run_id i =
     \<lparr>le_id = i, le_source_uri = source, le_target_uri = target, le_job_id = job_id, le_job_type = job_type,
      le_run_id = run_id, le_created_at = now\<rparr>"

definition record_lineage_edge ::
  "meta_env \<Rightarrow> string \<Rightarrow> string \<Rightarrow> string \<Rightarrow> string \<Rightarrow> string option \<Rightarrow> meta_db \<Rightarrow> meta_result" where
  "record_lineage_edge env source target job_id job_type run_id =
     lake_write env ''record_lineage_edge'' (on_table mx_edges (\<lambda>t db. db\<lparr>mx_edges := t\<rparr>)
       (insert_row (new_edge (mv_now env) source target job_id job_type run_id)))"

text \<open>The edges of a batch are added one after the other; a missing key raises, and the rows added before
  are rolled back. A database error comes with the commit, when all have been counted.\<close>

fun add_edges :: "datetime \<Rightarrow> pydict list \<Rightarrow> lineage_edge_row list \<Rightarrow> meta_error + lineage_edge_row list" where
  "add_edges now [] t = Inr t"
| "add_edges now (e # es) t =
     (case rbind (item e ''source_uri'') (\<lambda>s. rbind (item e ''target_uri'') (\<lambda>g. rbind (item e ''job_id'') (\<lambda>j.
             rbind (item e ''job_type'') (\<lambda>ty. Inr (s, g, j, ty))))) of
        Inl err \<Rightarrow> Inl (Raised err)
      | Inr (s, g, j, ty) \<Rightarrow> add_edges now es (snd (insert_row
          (new_edge now (py_str s) (py_str g) (py_str j) (py_str ty) (safe_str (get e ''run_id''))) t)))"

definition recover_count :: "meta_env \<Rightarrow> string \<Rightarrow> meta_error \<Rightarrow> int \<Rightarrow> meta_error + int" where
  "recover_count env op err n = (case recover lake_handles env op err of Inl e \<Rightarrow> Inl e | Inr _ \<Rightarrow> Inr n)"

definition record_lineage_edges :: "meta_env \<Rightarrow> pydict list \<Rightarrow> meta_db \<Rightarrow> (meta_error + int) \<times> meta_db" where
  "record_lineage_edges env edges db = (case mv_open env of
     Some err \<Rightarrow> (recover_count env ''record_lineage_edges'' err 0, db)
   | None \<Rightarrow> (case add_edges (mv_now env) edges (mx_edges db) of
       Inl err \<Rightarrow> (Inl err, db)
     | Inr t \<Rightarrow> (case mv_session env ''record_lineage_edges'' of
         Some err \<Rightarrow> (recover_count env ''record_lineage_edges'' err (int (length edges)), db)
       | None \<Rightarrow> (Inr (int (length edges)), db\<lparr>mx_edges := t\<rparr>))))"

definition same_version :: "dataset_version_row \<Rightarrow> dataset_version_row \<Rightarrow> bool" where
  "same_version p r = (dv_dataset_id r = dv_dataset_id p \<and> dv_version r = dv_version p)"

definition new_version :: "datetime \<Rightarrow> dataset_version_row \<Rightarrow> int \<Rightarrow> dataset_version_row" where
  "new_version now p i = p\<lparr>dv_id := i, dv_created_at := now, dv_updated_at := now\<rparr>"

definition update_version :: "datetime \<Rightarrow> dataset_version_row \<Rightarrow> dataset_version_row \<Rightarrow> dataset_version_row" where
  "update_version now p r = r\<lparr>dv_raw_uri := keep (dv_raw_uri r) (dv_raw_uri p), dv_ods_uri := keep (dv_ods_uri r) (dv_ods_uri p),
     dv_dwd_uri := keep (dv_dwd_uri r) (dv_dwd_uri p), dv_status := keep (dv_status r) (dv_status p), dv_updated_at := now\<rparr>"

definition upsert_dataset_version :: "meta_env \<Rightarrow> dataset_version_row \<Rightarrow> meta_db \<Rightarrow> meta_result" where
  "upsert_dataset_version env p = lake_write env ''upsert_dataset_version'' (on_table mx_versions (\<lambda>t db. db\<lparr>mx_versions := t\<rparr>)
     (upsert_row (same_version p) dv_id (new_version (mv_now env) p) (update_version (mv_now env) p)))"

definition record_quality_snapshot :: "meta_env \<Rightarrow> quality_snapshot_row \<Rightarrow> pydict option \<Rightarrow> meta_db \<Rightarrow> meta_result" where
  "record_quality_snapshot env p metrics = lake_write env ''record_quality_snapshot''
     (on_table mx_snapshots (\<lambda>t db. db\<lparr>mx_snapshots := t\<rparr>)
       (insert_row (\<lambda>i. p\<lparr>qs_id := i, qs_metrics_json := json_or_none metrics, qs_created_at := mv_now env\<rparr>)))"

section \<open>Profiles, shards, benchmarks, events and workflows\<close>

definition v1_5_tables :: "string list" where
  "v1_5_tables = [''etl_perf_runs'', ''etl_shards'', ''benchmark_runs'', ''benchmark_cases'', ''runtime_events'', ''argo_workflow_runs'']"

text \<open>\<open>_parse_dt\<close> on a JSON value; \<open>parse_iso\<close> is \<open>datetime.fromisoformat\<close>.\<close>

fun z_to_offset :: "string \<Rightarrow> string" where
  "z_to_offset [] = []"
| "z_to_offset (c # s) = (if c = CHR ''Z'' then ''+00:00'' @ z_to_offset s else c # z_to_offset s)"

definition parse_dt :: "(string \<Rightarrow> datetime option) \<Rightarrow> pyval \<Rightarrow> datetime option" where
  "parse_dt parse_iso v = (case v of VStr s \<Rightarrow> if s = [] then None else parse_iso (z_to_offset s) | _ \<Rightarrow> None)"

text \<open>The row of a profile from its dictionary. \<open>cols\<close> are the columns that the table has: the times go
  to the JSON column when their own are missing, and a value without a column is left out. The columns
  of identifiers and status are in every version of the table.\<close>

definition perf_metrics ::
  "(datetime \<Rightarrow> string) \<Rightarrow> string list \<Rightarrow> datetime option \<Rightarrow> datetime option \<Rightarrow> pydict \<Rightarrow> pydict" where
  "perf_metrics isof cols started finished m =
     (let m1 = (case started of Some t \<Rightarrow> if ''started_at'' \<notin> set cols then dict_set ''started_at'' (VStr (isof t)) m else m | None \<Rightarrow> m)
      in case finished of Some t \<Rightarrow> if ''finished_at'' \<notin> set cols then dict_set ''finished_at'' (VStr (isof t)) m1 else m1 | None \<Rightarrow> m1)"

definition has_col :: "string list \<Rightarrow> string \<Rightarrow> 'a \<Rightarrow> 'a option" where
  "has_col cols c v = (if c \<in> set cols then Some v else None)"

definition opt_col :: "string list \<Rightarrow> string \<Rightarrow> 'a option \<Rightarrow> 'a option" where
  "opt_col cols c v = (if c \<in> set cols then v else None)"

definition int_of :: "pydict \<Rightarrow> string \<Rightarrow> int result" where
  "int_of d k = py_int (py_or (get d k) (VInt 0))"

definition float_of :: "pydict \<Rightarrow> string \<Rightarrow> rat result" where
  "float_of d k = py_float (py_or (get d k) (VFloat 0))"

definition perf_row ::
  "(datetime \<Rightarrow> string) \<Rightarrow> (string \<Rightarrow> datetime option) \<Rightarrow> string list \<Rightarrow> datetime \<Rightarrow> pydict \<Rightarrow> (int \<Rightarrow> etl_perf_row) result" where
  "perf_row isof parse_iso cols now d =
     (let started = parse_dt parse_iso (get d ''started_at''); finished = parse_dt parse_iso (get d ''finished_at'')
      in rbind (as_mapping (py_or (get d ''metrics'') (VDict []))) (\<lambda>m.
         rbind (int_of d ''input_bytes'') (\<lambda>ib. rbind (int_of d ''output_bytes'') (\<lambda>ob.
         rbind (int_of d ''input_rows'') (\<lambda>ir. rbind (int_of d ''output_rows'') (\<lambda>orows.
         rbind (float_of d ''duration_sec'') (\<lambda>dur. rbind (float_of d ''download_duration_sec'') (\<lambda>dl.
         rbind (float_of d ''upload_duration_sec'') (\<lambda>ul. rbind (float_of d ''compute_duration_sec'') (\<lambda>cd.
         rbind (float_of d ''peak_memory_mb'') (\<lambda>pm.
         Inr (\<lambda>i. \<lparr>pf_id = i, pf_job_id = py_str (get_or d ''job_id'' (VStr [])), pf_run_id = py_str (get_or d ''run_id'' (VStr [])),
           pf_dataset_id = py_str (get_or d ''dataset_id'' (VStr [])), pf_version = py_str (get_or d ''version'' (VStr [])),
           pf_phase = py_str (get_or d ''phase'' (VStr [])), pf_input_uri = opt_col cols ''input_uri'' (safe_str (get d ''input_uri'')),
           pf_output_uri = opt_col cols ''output_uri'' (safe_str (get d ''output_uri'')), pf_input_bytes = has_col cols ''input_bytes'' ib,
           pf_output_bytes = has_col cols ''output_bytes'' ob, pf_input_rows = has_col cols ''input_rows'' ir,
           pf_output_rows = has_col cols ''output_rows'' orows, pf_duration_sec = has_col cols ''duration_sec'' dur,
           pf_download_duration_sec = has_col cols ''download_duration_sec'' dl,
           pf_upload_duration_sec = has_col cols ''upload_duration_sec'' ul,
           pf_compute_duration_sec = has_col cols ''compute_duration_sec'' cd, pf_peak_memory_mb = has_col cols ''peak_memory_mb'' pm,
           pf_worker_id = opt_col cols ''worker_id'' (safe_str (get d ''worker_id'')),
           pf_status = py_str (py_or (get d ''status'') (VStr ''OK'')),
           pf_error_message = opt_col cols ''error_message'' (safe_str (get d ''error_message'')),
           pf_started_at = opt_col cols ''started_at'' started, pf_finished_at = opt_col cols ''finished_at'' finished,
           pf_metrics_json = has_col cols ''metrics_json'' (VDict (perf_metrics isof cols started finished m)),
           pf_created_at = now\<rparr>))))))))))))"

definition store_perf_run ::
  "meta_env \<Rightarrow> (datetime \<Rightarrow> string) \<Rightarrow> (string \<Rightarrow> datetime option) \<Rightarrow> meta_error + string list \<Rightarrow> pydict \<Rightarrow> meta_db \<Rightarrow> meta_result" where
  "store_perf_run env isof parse_iso get_columns payload = guarded_write env v1_5_tables ''record_etl_perf_run'' (\<lambda>db.
     case get_columns of
       Inl err \<Rightarrow> Inl err
     | Inr cols \<Rightarrow> (case perf_row isof parse_iso cols (mv_now env) payload of
         Inl e \<Rightarrow> Inl (Raised e)
       | Inr mk \<Rightarrow> on_table mx_perf (\<lambda>t db. db\<lparr>mx_perf := t\<rparr>) (insert_row mk) db))"

definition same_shard :: "etl_shard_row \<Rightarrow> etl_shard_row \<Rightarrow> bool" where
  "same_shard p r = (esr_plan_id r = esr_plan_id p \<and> esr_shard_id r = esr_shard_id p)"

definition new_shard_entry :: "datetime \<Rightarrow> etl_shard_row \<Rightarrow> pydict option \<Rightarrow> int \<Rightarrow> etl_shard_row" where
  "new_shard_entry now p metrics i = p\<lparr>esr_id := i, esr_metrics_json := json_or_none metrics, esr_created_at := now\<rparr>"

definition update_shard :: "etl_shard_row \<Rightarrow> pydict option \<Rightarrow> etl_shard_row \<Rightarrow> etl_shard_row" where
  "update_shard p metrics r = r\<lparr>esr_status := esr_status p, esr_dataset_count := keep (esr_dataset_count r) (esr_dataset_count p),
     esr_input_bytes := keep (esr_input_bytes r) (esr_input_bytes p), esr_started_at := keep (esr_started_at r) (esr_started_at p),
     esr_finished_at := keep (esr_finished_at r) (esr_finished_at p), esr_duration_sec := keep (esr_duration_sec r) (esr_duration_sec p),
     esr_succeeded := keep (esr_succeeded r) (esr_succeeded p), esr_failed := keep (esr_failed r) (esr_failed p),
     esr_skipped := keep (esr_skipped r) (esr_skipped p), esr_summary_uri := keep (esr_summary_uri r) (esr_summary_uri p),
     esr_error_message := keep (esr_error_message r) (esr_error_message p),
     esr_metrics_json := json_update metrics (esr_metrics_json r)\<rparr>"

definition store_etl_shard :: "meta_env \<Rightarrow> etl_shard_row \<Rightarrow> pydict option \<Rightarrow> meta_db \<Rightarrow> meta_result" where
  "store_etl_shard env p metrics = guarded_write env v1_5_tables ''record_etl_shard'' (on_table mx_shards (\<lambda>t db. db\<lparr>mx_shards := t\<rparr>)
     (upsert_row (same_shard p) esr_id (new_shard_entry (mv_now env) p metrics) (update_shard p metrics)))"

definition same_benchmark :: "string \<Rightarrow> benchmark_run_row \<Rightarrow> bool" where
  "same_benchmark benchmark_id r = (bmr_benchmark_id r = benchmark_id)"

definition new_benchmark :: "datetime \<Rightarrow> benchmark_run_row \<Rightarrow> pydict option \<Rightarrow> int \<Rightarrow> benchmark_run_row" where
  "new_benchmark now p metrics i = p\<lparr>bmr_id := i, bmr_metrics_json := json_or_none metrics, bmr_created_at := now\<rparr>"

definition update_benchmark :: "benchmark_run_row \<Rightarrow> pydict option \<Rightarrow> benchmark_run_row \<Rightarrow> benchmark_run_row" where
  "update_benchmark p metrics r = r\<lparr>bmr_suite_name := bmr_suite_name p, bmr_suite_path := bmr_suite_path p,
     bmr_total_cases := bmr_total_cases p, bmr_passed := bmr_passed p, bmr_failed := bmr_failed p,
     bmr_mismatched := bmr_mismatched p, bmr_status := bmr_status p, bmr_started_at := keep (bmr_started_at r) (bmr_started_at p),
     bmr_finished_at := keep (bmr_finished_at r) (bmr_finished_at p), bmr_duration_sec := keep (bmr_duration_sec r) (bmr_duration_sec p),
     bmr_report_uri := keep (bmr_report_uri r) (bmr_report_uri p), bmr_metrics_json := json_update metrics (bmr_metrics_json r)\<rparr>"

definition record_benchmark_run :: "meta_env \<Rightarrow> benchmark_run_row \<Rightarrow> pydict option \<Rightarrow> meta_db \<Rightarrow> meta_result" where
  "record_benchmark_run env p metrics = guarded_write env v1_5_tables ''record_benchmark_run''
     (on_table mx_benchmarks (\<lambda>t db. db\<lparr>mx_benchmarks := t\<rparr>)
       (upsert_row (same_benchmark (bmr_benchmark_id p)) bmr_id (new_benchmark (mv_now env) p metrics) (update_benchmark p metrics)))"

text \<open>The lists of validators are stored under \<open>items\<close>; the kind of mutation and the verdict are not
  written.\<close>

definition items_json :: "pyval list option \<Rightarrow> pyval option" where
  "items_json xs = Some (VDict [(''items'', VList (case xs of None \<Rightarrow> [] | Some ys \<Rightarrow> ys))])"

definition record_benchmark_case ::
  "meta_env \<Rightarrow> benchmark_case_row \<Rightarrow> pyval list option \<Rightarrow> pyval list option \<Rightarrow> pydict option \<Rightarrow> meta_db \<Rightarrow> meta_result" where
  "record_benchmark_case env p expected actual metrics = guarded_write env v1_5_tables ''record_benchmark_case''
     (on_table_unique mx_cases (\<lambda>t db. db\<lparr>mx_cases := t\<rparr>)
       (insert_unique (\<lambda>r. bmc_benchmark_id r = bmc_benchmark_id p \<and> bmc_case_id r = bmc_case_id p)
          (\<lambda>i. p\<lparr>bmc_id := i, bmc_mutation_type := None, bmc_expected_failed_validators := items_json expected,
             bmc_actual_failed_validators := items_json actual, bmc_passed := None,
             bmc_metrics_json := json_or_none metrics, bmc_created_at := mv_now env\<rparr>)))"

definition record_runtime_event :: "meta_env \<Rightarrow> pydict \<Rightarrow> meta_db \<Rightarrow> meta_result" where
  "record_runtime_event env e = guarded_write env v1_5_tables ''record_runtime_event'' (\<lambda>db.
     case as_mapping (py_or (get e ''payload'') (VDict [])) of
       Inl err \<Rightarrow> Inl (Raised err)
     | Inr payload \<Rightarrow> on_table_unique mx_events (\<lambda>t db. db\<lparr>mx_events := t\<rparr>)
         (insert_unique (\<lambda>r. rer_event_id r = py_str (get e ''event_id''))
            (\<lambda>i. \<lparr>rer_id = i, rer_event_id = py_str (get e ''event_id''), rer_event_type = py_str (get e ''event_type''),
               rer_job_id = safe_str (get e ''job_id''), rer_run_id = safe_str (get e ''run_id''),
               rer_dataset_id = safe_str (get e ''dataset_id''), rer_version = safe_str (get e ''version''),
               rer_payload_json = Some (VDict payload), rer_created_at = mv_now env\<rparr>)) db)"

definition same_argo :: "string \<Rightarrow> argo_workflow_row \<Rightarrow> bool" where
  "same_argo name r = (awr_workflow_name r = name)"

definition new_argo :: "datetime \<Rightarrow> argo_workflow_row \<Rightarrow> pydict option \<Rightarrow> int \<Rightarrow> argo_workflow_row" where
  "new_argo now p metrics i = p\<lparr>awr_id := i, awr_metrics_json := json_or_none metrics, awr_created_at := now\<rparr>"

definition update_argo :: "argo_workflow_row \<Rightarrow> pydict option \<Rightarrow> argo_workflow_row \<Rightarrow> argo_workflow_row" where
  "update_argo p metrics r = r\<lparr>awr_workflow_template := keep (awr_workflow_template r) (awr_workflow_template p),
     awr_status := keep (awr_status r) (awr_status p), awr_started_at := keep (awr_started_at r) (awr_started_at p),
     awr_finished_at := keep (awr_finished_at r) (awr_finished_at p), awr_duration_sec := keep (awr_duration_sec r) (awr_duration_sec p),
     awr_metrics_json := json_update metrics (awr_metrics_json r)\<rparr>"

definition record_argo_workflow :: "meta_env \<Rightarrow> argo_workflow_row \<Rightarrow> pydict option \<Rightarrow> meta_db \<Rightarrow> meta_result" where
  "record_argo_workflow env p metrics = guarded_write env v1_5_tables ''record_argo_workflow''
     (on_table mx_argo (\<lambda>t db. db\<lparr>mx_argo := t\<rparr>)
       (upsert_row (same_argo (awr_workflow_name p)) awr_id (new_argo (mv_now env) p metrics) (update_argo p metrics)))"

section \<open>Queries\<close>

definition list_lake_assets ::
  "meta_env \<Rightarrow> (datetime \<Rightarrow> string) \<Rightarrow> string option \<Rightarrow> string option \<Rightarrow> string option \<Rightarrow> nat \<Rightarrow> meta_db \<Rightarrow> meta_error + pydict list" where
  "list_lake_assets env isof layer dataset_id version n = guarded_read env ''list_lake_assets'' (\<lambda>db.
     map (lake_asset_to_dict isof) (newest la_created_at n
       (filter (\<lambda>r. given layer (la_layer r) \<and> given dataset_id (la_dataset_id r) \<and> given version (la_version r)) (mx_assets db))))"

definition list_lineage :: "meta_env \<Rightarrow> (datetime \<Rightarrow> string) \<Rightarrow> string \<Rightarrow> nat \<Rightarrow> meta_db \<Rightarrow> meta_error + (string \<times> pydict list) list" where
  "list_lineage env isof uri n = guarded_read env ''list_lineage'' (\<lambda>db.
     [(''inbound'', map (lineage_edge_to_dict isof) (newest le_created_at n (filter (\<lambda>r. le_target_uri r = uri) (mx_edges db)))),
      (''outbound'', map (lineage_edge_to_dict isof) (newest le_created_at n (filter (\<lambda>r. le_source_uri r = uri) (mx_edges db))))])"

definition list_etl_jobs :: "meta_env \<Rightarrow> (datetime \<Rightarrow> string) \<Rightarrow> nat \<Rightarrow> meta_db \<Rightarrow> meta_error + pydict list" where
  "list_etl_jobs env isof n = guarded_read env ''list_etl_jobs'' (\<lambda>db. map (etl_job_to_dict isof) (newest ej_created_at n (mx_jobs db)))"

definition get_etl_job :: "meta_env \<Rightarrow> (datetime \<Rightarrow> string) \<Rightarrow> string \<Rightarrow> meta_db \<Rightarrow> meta_error + pydict option" where
  "get_etl_job env isof job_id = guarded_read env ''get_etl_job'' (\<lambda>db. map_option (etl_job_to_dict isof) (find (same_job job_id) (mx_jobs db)))"

definition list_etl_perf_runs ::
  "meta_env \<Rightarrow> (datetime \<Rightarrow> string) \<Rightarrow> string option \<Rightarrow> string option \<Rightarrow> string option \<Rightarrow> string option \<Rightarrow> nat \<Rightarrow> meta_db
     \<Rightarrow> meta_error + pydict list" where
  "list_etl_perf_runs env isof dataset_id version phase status n = guarded_read env ''list_etl_perf_runs'' (\<lambda>db.
     map (etl_perf_run_to_dict isof) (newest pf_created_at n (filter (\<lambda>r. given dataset_id (pf_dataset_id r) \<and> given version (pf_version r) \<and>
       given phase (pf_phase r) \<and> given status (pf_status r)) (mx_perf db))))"

definition list_etl_shards ::
  "meta_env \<Rightarrow> (datetime \<Rightarrow> string) \<Rightarrow> string option \<Rightarrow> string option \<Rightarrow> nat \<Rightarrow> meta_db \<Rightarrow> meta_error + pydict list" where
  "list_etl_shards env isof plan_id status n = guarded_read env ''list_etl_shards'' (\<lambda>db.
     map (etl_shard_to_dict isof) (newest esr_created_at n (filter (\<lambda>r. given plan_id (esr_plan_id r) \<and> given status (esr_status r)) (mx_shards db))))"

definition list_benchmark_runs :: "meta_env \<Rightarrow> (datetime \<Rightarrow> string) \<Rightarrow> nat \<Rightarrow> meta_db \<Rightarrow> meta_error + pydict list" where
  "list_benchmark_runs env isof n = guarded_read env ''list_benchmark_runs'' (\<lambda>db.
     map (benchmark_run_to_dict isof) (newest bmr_created_at n (mx_benchmarks db)))"

definition get_benchmark_run :: "meta_env \<Rightarrow> (datetime \<Rightarrow> string) \<Rightarrow> string \<Rightarrow> meta_db \<Rightarrow> meta_error + pydict option" where
  "get_benchmark_run env isof benchmark_id = guarded_read env ''get_benchmark_run'' (\<lambda>db.
     map_option (\<lambda>r. dict_set ''cases'' (VList (map (\<lambda>c. VDict (benchmark_case_to_dict isof c))
         (filter (\<lambda>c. bmc_benchmark_id c = benchmark_id) (mx_cases db)))) (benchmark_run_to_dict isof r))
       (find (same_benchmark benchmark_id) (mx_benchmarks db)))"

definition list_runtime_events ::
  "meta_env \<Rightarrow> (datetime \<Rightarrow> string) \<Rightarrow> string option \<Rightarrow> string option \<Rightarrow> string option \<Rightarrow> nat \<Rightarrow> meta_db \<Rightarrow> meta_error + pydict list" where
  "list_runtime_events env isof event_type run_id job_id n = guarded_read env ''list_runtime_events'' (\<lambda>db.
     map (runtime_event_to_dict isof) (newest rer_created_at n (filter (\<lambda>r. given event_type (rer_event_type r) \<and>
       given_opt run_id (rer_run_id r) \<and> given_opt job_id (rer_job_id r)) (mx_events db))))"

text \<open>The loop over the newest snapshots: the first of each data set version, until there are enough.\<close>

fun first_of_each :: "nat \<Rightarrow> (string \<times> string) list \<Rightarrow> quality_snapshot_row list \<Rightarrow> quality_snapshot_row list \<Rightarrow> quality_snapshot_row list" where
  "first_of_each n seen out [] = out"
| "first_of_each n seen out (r # rs) =
     (let key = (qs_dataset_id r, qs_version r)
      in if key \<in> set seen then first_of_each n seen out rs
         else if n \<le> length (out @ [r]) then out @ [r]
         else first_of_each n (key # seen) (out @ [r]) rs)"

definition latest_snapshots :: "nat \<Rightarrow> quality_snapshot_row list \<Rightarrow> quality_snapshot_row list" where
  "latest_snapshots n rows = first_of_each n [] [] (newest qs_created_at (n * 4) rows)"

definition latest_quality_summary :: "meta_env \<Rightarrow> (datetime \<Rightarrow> string) \<Rightarrow> nat \<Rightarrow> meta_db \<Rightarrow> meta_error + pydict list" where
  "latest_quality_summary env isof n = guarded_read env ''latest_quality_summary'' (\<lambda>db.
     map (quality_snapshot_to_dict isof) (latest_snapshots n (mx_snapshots db)))"

end
