(* ===== verification/Metadata_Platform.thy ===== *)
theory Metadata_Platform
  imports Metadata_Rows
begin

text \<open>
  \<^verbatim>\<open>src/robot_dh/warehouse/robot_platform.py\<close>: the access layer of the nine tables of the platform. As in
  \<^verbatim>\<open>Metadata_Service\<close>, the keyword arguments of a write are given as a row, whose id, times of creation
  and update and JSON columns are ignored, and the JSON columns are arguments of their own.
\<close>

definition platform_tables :: "string list" where
  "platform_tables = [''qc_contracts'', ''qc_contract_runs'', ''workflow_runs'', ''workflow_steps'', ''asset_profiles'',
     ''ml_ready_datasets'', ''dataset_partitions'', ''task_heartbeats'', ''openlineage_events'']"

definition platform_texts :: layer_texts where
  "platform_texts = \<lparr>lt_label = ''v1.6 '', lt_drift = ''Apply v1.6 schema migration first.'',
     lt_missing = ''robot platform PostgreSQL tables missing: '',
     lt_missing_hint = ''. Apply schema first (postgres/migrations/005_robot_platform.sql).''\<rparr>"

type_synonym platform_result = "(meta_error + int option) \<times> meta_db"

abbreviation platform_write :: "meta_env \<Rightarrow> string \<Rightarrow> meta_db meta_write \<Rightarrow> meta_db \<Rightarrow> platform_result" where
  "platform_write env \<equiv> guarded_write env platform_tables"

section \<open>Heartbeats and partitions\<close>

definition record_task_heartbeat :: "meta_env \<Rightarrow> task_heartbeat_row \<Rightarrow> pydict option \<Rightarrow> meta_db \<Rightarrow> platform_result" where
  "record_task_heartbeat env p metrics = platform_write env ''record_task_heartbeat'' (on_table mx_beats (\<lambda>t db. db\<lparr>mx_beats := t\<rparr>)
     (insert_row (\<lambda>i. p\<lparr>thr_id := i, thr_metrics_json := json_or_none metrics, thr_updated_at := mv_now env\<rparr>)))"

definition latest_heartbeat :: "meta_env \<Rightarrow> (datetime \<Rightarrow> string) \<Rightarrow> string \<Rightarrow> meta_db \<Rightarrow> meta_error + pydict option" where
  "latest_heartbeat env isof task_id = guarded_read env ''latest_heartbeat'' (\<lambda>db.
     map_option (heartbeat_to_dict isof) (first_row (newest thr_updated_at 1 (filter (\<lambda>r. thr_task_id r = task_id) (mx_beats db)))))"

definition same_partition :: "string \<Rightarrow> dataset_partition_row \<Rightarrow> bool" where
  "same_partition partition_id r = (dpr_partition_id r = partition_id)"

definition new_partition :: "datetime \<Rightarrow> dataset_partition_row \<Rightarrow> pydict option \<Rightarrow> int \<Rightarrow> dataset_partition_row" where
  "new_partition now p metrics i = p\<lparr>dpr_id := i, dpr_metrics_json := json_or_none metrics, dpr_created_at := now\<rparr>"

definition update_partition :: "dataset_partition_row \<Rightarrow> pydict option \<Rightarrow> dataset_partition_row \<Rightarrow> dataset_partition_row" where
  "update_partition p metrics r = r\<lparr>
     dpr_dataset_family := keep (dpr_dataset_family r) (dpr_dataset_family p), dpr_dataset_uri := dpr_dataset_uri p,
     dpr_partition_type := dpr_partition_type p, dpr_partition_index := dpr_partition_index p,
     dpr_partition_uri := keep (dpr_partition_uri r) (dpr_partition_uri p),
     dpr_input_bytes := keep (dpr_input_bytes r) (dpr_input_bytes p),
     dpr_estimated_rows := keep (dpr_estimated_rows r) (dpr_estimated_rows p),
     dpr_status := keep (dpr_status r) (dpr_status p),
     dpr_metrics_json := json_update metrics (dpr_metrics_json r)\<rparr>"

definition record_dataset_partition :: "meta_env \<Rightarrow> dataset_partition_row \<Rightarrow> pydict option \<Rightarrow> meta_db \<Rightarrow> platform_result" where
  "record_dataset_partition env p metrics = platform_write env ''record_dataset_partition''
     (on_table mx_partitions (\<lambda>t db. db\<lparr>mx_partitions := t\<rparr>)
       (upsert_row (same_partition (dpr_partition_id p)) dpr_id (new_partition (mv_now env) p metrics) (update_partition p metrics)))"

definition list_dataset_partitions ::
  "meta_env \<Rightarrow> (datetime \<Rightarrow> string) \<Rightarrow> string option \<Rightarrow> string option \<Rightarrow> string option \<Rightarrow> nat \<Rightarrow> meta_db \<Rightarrow> meta_error + pydict list" where
  "list_dataset_partitions env isof dataset_id version partition_type n = guarded_read env ''list_dataset_partitions'' (\<lambda>db.
     map (partition_to_dict isof) (newest dpr_created_at n (filter (\<lambda>r. given dataset_id (dpr_dataset_id r) \<and>
       given version (dpr_version r) \<and> given partition_type (dpr_partition_type r)) (mx_partitions db))))"

section \<open>Contracts and their runs\<close>

definition same_contract :: "string \<Rightarrow> qc_contract_row \<Rightarrow> bool" where
  "same_contract contract_id r = (qcr_contract_id r = contract_id)"

definition new_contract :: "datetime \<Rightarrow> qc_contract_row \<Rightarrow> pydict \<Rightarrow> int \<Rightarrow> qc_contract_row" where
  "new_contract now p rules i = p\<lparr>qcr_id := i, qcr_rules_json := VDict rules, qcr_created_at := now, qcr_updated_at := now\<rparr>"

definition update_contract :: "datetime \<Rightarrow> qc_contract_row \<Rightarrow> pydict \<Rightarrow> qc_contract_row \<Rightarrow> qc_contract_row" where
  "update_contract now p rules r = r\<lparr>qcr_dataset_family := qcr_dataset_family p, qcr_version := qcr_version p,
     qcr_description := qcr_description p, qcr_rules_json := VDict rules, qcr_enabled := qcr_enabled p, qcr_updated_at := now\<rparr>"

definition upsert_qc_contract :: "meta_env \<Rightarrow> qc_contract_row \<Rightarrow> pydict \<Rightarrow> meta_db \<Rightarrow> platform_result" where
  "upsert_qc_contract env p rules = platform_write env ''upsert_qc_contract'' (on_table mx_contracts (\<lambda>t db. db\<lparr>mx_contracts := t\<rparr>)
     (upsert_row (same_contract (qcr_contract_id p)) qcr_id (new_contract (mv_now env) p rules) (update_contract (mv_now env) p rules)))"

text \<open>\<open>finished_at - timedelta(seconds=duration_sec)\<close>: the duration is rounded to microseconds, and the day
  steps back once for every midnight that it crosses.\<close>

definition prev_day :: "date \<Rightarrow> date result" where
  "prev_day d = (case d of Date y m k \<Rightarrow>
     if 1 < k then Inr (Date y m (k - 1))
     else if 1 < m then Inr (Date y (m - 1) (days_in_month y (m - 1)))
     else if 1 < y then Inr (Date (y - 1) 12 31)
     else Inl (OverflowError ''date value out of range''))"

fun days_back :: "nat \<Rightarrow> date \<Rightarrow> date result" where
  "days_back 0 d = Inr d"
| "days_back (Suc n) d = (case prev_day d of Inl e \<Rightarrow> Inl e | Inr d' \<Rightarrow> days_back n d')"

definition minus_seconds :: "datetime \<Rightarrow> rat \<Rightarrow> datetime result" where
  "minus_seconds t s = (let u = snd t - py_round 6 s; k = nat (- \<lfloor>u / 86400\<rfloor>)
     in case days_back k (fst t) of Inl e \<Rightarrow> Inl e | Inr d \<Rightarrow> Inr (d, u + of_nat k * 86400))"

definition run_finished :: "datetime \<Rightarrow> qc_contract_run_row \<Rightarrow> datetime" where
  "run_finished now p = (case qr_finished_at p of None \<Rightarrow> now | Some t \<Rightarrow> t)"

definition run_started :: "datetime \<Rightarrow> qc_contract_run_row \<Rightarrow> datetime result" where
  "run_started now p = (case qr_started_at p of
     Some t \<Rightarrow> Inr t
   | None \<Rightarrow> (case qr_duration_sec p of
       Some d \<Rightarrow> if 0 < d then minus_seconds (run_finished now p) d else Inr (run_finished now p)
     | None \<Rightarrow> Inr (run_finished now p)))"

text \<open>\<open>list(x or [])\<close>.\<close>

definition or_nil :: "'a list option \<Rightarrow> 'a list" where
  "or_nil xs = (case xs of None \<Rightarrow> [] | Some ys \<Rightarrow> ys)"

definition dict_list :: "pydict list option \<Rightarrow> pyval" where
  "dict_list rules = VList (map VDict (or_nil rules))"

definition recorded_rules :: "pydict list option \<Rightarrow> pydict list option \<Rightarrow> pydict list option \<Rightarrow> pydict list" where
  "recorded_rules all_rules failed_rules warning_rules =
     (if or_nil all_rules = [] then or_nil failed_rules @ or_nil warning_rules else or_nil all_rules)"

definition record_qc_contract_run ::
  "meta_env \<Rightarrow> qc_contract_run_row \<Rightarrow> pydict option \<Rightarrow> pydict list option \<Rightarrow> pydict list option \<Rightarrow> pydict list option
     \<Rightarrow> meta_db \<Rightarrow> platform_result" where
  "record_qc_contract_run env p metrics failed_rules warning_rules all_rules = platform_write env ''record_qc_contract_run'' (\<lambda>db.
     case run_started (mv_now env) p of
       Inl e \<Rightarrow> Inl (Raised e)
     | Inr started \<Rightarrow> on_table_unique mx_contract_runs (\<lambda>t db. db\<lparr>mx_contract_runs := t\<rparr>)
         (insert_unique (\<lambda>r. qr_run_id r = qr_run_id p) (\<lambda>i. p\<lparr>qr_id := i, qr_started_at := Some started,
            qr_finished_at := Some (run_finished (mv_now env) p),
            qr_metrics_json := Some (VDict (dict_set ''_rule_results''
               (VList (map VDict (recorded_rules all_rules failed_rules warning_rules))) (or_nil metrics))),
            qr_failed_rules_json := Some (dict_list failed_rules), qr_warning_rules_json := Some (dict_list warning_rules),
            qr_created_at := mv_now env\<rparr>)) db)"

definition list_qc_contracts :: "meta_env \<Rightarrow> (datetime \<Rightarrow> string) \<Rightarrow> nat \<Rightarrow> meta_db \<Rightarrow> meta_error + pydict list" where
  "list_qc_contracts env isof n = guarded_read env ''list_qc_contracts'' (\<lambda>db.
     map (contract_to_dict isof) (newest qcr_created_at n (mx_contracts db)))"

definition list_qc_contract_runs ::
  "meta_env \<Rightarrow> (datetime \<Rightarrow> string) \<Rightarrow> string option \<Rightarrow> string option \<Rightarrow> string option \<Rightarrow> nat \<Rightarrow> meta_db \<Rightarrow> meta_error + pydict list" where
  "list_qc_contract_runs env isof contract_id dataset_id status n = guarded_read env ''list_qc_contract_runs'' (\<lambda>db.
     map (contract_run_to_dict isof) (newest qr_created_at n (filter (\<lambda>r. given contract_id (qr_contract_id r) \<and>
       given_opt dataset_id (qr_dataset_id r) \<and> given status (qr_status r)) (mx_contract_runs db))))"

definition get_qc_contract_run :: "meta_env \<Rightarrow> (datetime \<Rightarrow> string) \<Rightarrow> string \<Rightarrow> meta_db \<Rightarrow> meta_error + pydict option" where
  "get_qc_contract_run env isof run_id = guarded_read env ''get_qc_contract_run'' (\<lambda>db.
     map_option (contract_run_to_dict isof) (find (\<lambda>r. qr_run_id r = run_id) (mx_contract_runs db)))"

section \<open>Profiles of assets and data sets for training\<close>

definition same_profile :: "string \<Rightarrow> asset_profile_row \<Rightarrow> bool" where
  "same_profile profile_id r = (apr_profile_id r = profile_id)"

definition new_profile :: "datetime \<Rightarrow> asset_profile_row \<Rightarrow> pydict option \<Rightarrow> int \<Rightarrow> asset_profile_row" where
  "new_profile now p profile i = p\<lparr>apr_id := i, apr_profile_json := json_or_none profile, apr_created_at := now\<rparr>"

definition update_profile :: "asset_profile_row \<Rightarrow> pydict option \<Rightarrow> asset_profile_row \<Rightarrow> asset_profile_row" where
  "update_profile p profile r = r\<lparr>
     apr_profile_id := apr_profile_id p, apr_dataset_id := keep (apr_dataset_id r) (apr_dataset_id p),
     apr_version := keep (apr_version r) (apr_version p),
     apr_dataset_family := keep (apr_dataset_family r) (apr_dataset_family p), apr_asset_uri := apr_asset_uri p,
     apr_asset_format := keep (apr_asset_format r) (apr_asset_format p), apr_layer := keep (apr_layer r) (apr_layer p),
     apr_bytes := keep (apr_bytes r) (apr_bytes p), apr_rows := keep (apr_rows r) (apr_rows p),
     apr_files_count := keep (apr_files_count r) (apr_files_count p),
     apr_episodes_count := keep (apr_episodes_count r) (apr_episodes_count p),
     apr_videos_count := keep (apr_videos_count r) (apr_videos_count p),
     apr_schema_hash := keep (apr_schema_hash r) (apr_schema_hash p),
     apr_null_rate := keep (apr_null_rate r) (apr_null_rate p),
     apr_profile_json := keep (apr_profile_json r) (json_or_none profile),
     apr_status := keep (apr_status r) (apr_status p)\<rparr>"

definition record_asset_profile :: "meta_env \<Rightarrow> asset_profile_row \<Rightarrow> pydict option \<Rightarrow> meta_db \<Rightarrow> platform_result" where
  "record_asset_profile env p profile = platform_write env ''record_asset_profile'' (on_table mx_profiles (\<lambda>t db. db\<lparr>mx_profiles := t\<rparr>)
     (upsert_row (same_profile (apr_profile_id p)) apr_id (new_profile (mv_now env) p profile) (update_profile p profile)))"

definition list_asset_profiles ::
  "meta_env \<Rightarrow> (datetime \<Rightarrow> string) \<Rightarrow> string option \<Rightarrow> string option \<Rightarrow> string option \<Rightarrow> nat \<Rightarrow> meta_db \<Rightarrow> meta_error + pydict list" where
  "list_asset_profiles env isof dataset_id version dataset_family n = guarded_read env ''list_asset_profiles'' (\<lambda>db.
     map (profile_to_dict isof) (newest apr_created_at n (filter (\<lambda>r. given_opt dataset_id (apr_dataset_id r) \<and>
       given_opt version (apr_version r) \<and> given_opt dataset_family (apr_dataset_family r)) (mx_profiles db))))"

definition get_asset_profile :: "meta_env \<Rightarrow> (datetime \<Rightarrow> string) \<Rightarrow> string \<Rightarrow> meta_db \<Rightarrow> meta_error + pydict option" where
  "get_asset_profile env isof profile_id = guarded_read env ''get_asset_profile'' (\<lambda>db.
     map_option (profile_to_dict isof) (find (same_profile profile_id) (mx_profiles db)))"

definition same_output :: "string \<Rightarrow> ml_ready_row \<Rightarrow> bool" where
  "same_output output_uri r = (ml_output_uri r = output_uri)"

definition new_ml_ready :: "datetime \<Rightarrow> ml_ready_row \<Rightarrow> pydict option \<Rightarrow> int \<Rightarrow> ml_ready_row" where
  "new_ml_ready now p metrics i = p\<lparr>ml_id := i, ml_metrics_json := json_or_none metrics, ml_created_at := now\<rparr>"

definition update_ml_ready :: "ml_ready_row \<Rightarrow> pydict option \<Rightarrow> ml_ready_row \<Rightarrow> ml_ready_row" where
  "update_ml_ready p metrics r = r\<lparr>
     ml_dataset_id := ml_dataset_id p, ml_version := ml_version p,
     ml_dataset_family := keep (ml_dataset_family r) (ml_dataset_family p), ml_output_uri := ml_output_uri p,
     ml_train_uri := keep (ml_train_uri r) (ml_train_uri p), ml_val_uri := keep (ml_val_uri r) (ml_val_uri p),
     ml_test_uri := keep (ml_test_uri r) (ml_test_uri p),
     ml_dataset_card_uri := keep (ml_dataset_card_uri r) (ml_dataset_card_uri p),
     ml_feature_schema_uri := keep (ml_feature_schema_uri r) (ml_feature_schema_uri p),
     ml_quality_filter_uri := keep (ml_quality_filter_uri r) (ml_quality_filter_uri p),
     ml_lineage_uri := keep (ml_lineage_uri r) (ml_lineage_uri p),
     ml_quality_threshold := keep (ml_quality_threshold r) (ml_quality_threshold p),
     ml_num_train := keep (ml_num_train r) (ml_num_train p), ml_num_val := keep (ml_num_val r) (ml_num_val p),
     ml_num_test := keep (ml_num_test r) (ml_num_test p), ml_status := keep (ml_status r) (ml_status p),
     ml_metrics_json := keep (ml_metrics_json r) (json_or_none metrics)\<rparr>"

definition record_ml_ready_dataset :: "meta_env \<Rightarrow> ml_ready_row \<Rightarrow> pydict option \<Rightarrow> meta_db \<Rightarrow> platform_result" where
  "record_ml_ready_dataset env p metrics = platform_write env ''record_ml_ready_dataset'' (on_table mx_ml_ready (\<lambda>t db. db\<lparr>mx_ml_ready := t\<rparr>)
     (upsert_row (same_output (ml_output_uri p)) ml_id (new_ml_ready (mv_now env) p metrics) (update_ml_ready p metrics)))"

definition list_ml_ready_datasets :: "meta_env \<Rightarrow> (datetime \<Rightarrow> string) \<Rightarrow> nat \<Rightarrow> meta_db \<Rightarrow> meta_error + pydict list" where
  "list_ml_ready_datasets env isof n = guarded_read env ''list_ml_ready_datasets'' (\<lambda>db.
     map (ml_ready_to_dict isof) (newest ml_created_at n (mx_ml_ready db)))"

definition get_ml_ready_dataset ::
  "meta_env \<Rightarrow> (datetime \<Rightarrow> string) \<Rightarrow> string \<Rightarrow> string \<Rightarrow> meta_db \<Rightarrow> meta_error + pydict option" where
  "get_ml_ready_dataset env isof dataset_id version = guarded_read env ''get_ml_ready_dataset'' (\<lambda>db.
     map_option (ml_ready_to_dict isof) (first_row (newest ml_created_at 1
       (filter (\<lambda>r. ml_dataset_id r = dataset_id \<and> ml_version r = version) (mx_ml_ready db)))))"

section \<open>Workflows and their steps\<close>

text \<open>The namespace selects a row only when it is given.\<close>

definition same_flow :: "string \<Rightarrow> string option \<Rightarrow> workflow_run_row \<Rightarrow> bool" where
  "same_flow name namespace r = (wr_workflow_name r = name \<and> given_opt namespace (wr_workflow_namespace r))"

definition new_flow ::
  "datetime \<Rightarrow> workflow_run_row \<Rightarrow> pydict option \<Rightarrow> pydict option \<Rightarrow> pydict option \<Rightarrow> int \<Rightarrow> workflow_run_row" where
  "new_flow now p parameters metrics workflow_doc i = p\<lparr>wr_id := i, wr_parameters_json := json_or_none parameters,
     wr_metrics_json := json_or_none metrics, wr_workflow_json := json_or_none workflow_doc, wr_created_at := now\<rparr>"

definition update_flow ::
  "workflow_run_row \<Rightarrow> pydict option \<Rightarrow> pydict option \<Rightarrow> pydict option \<Rightarrow> workflow_run_row \<Rightarrow> workflow_run_row" where
  "update_flow p parameters metrics workflow_doc r = r\<lparr>
     wr_workflow_name := wr_workflow_name p, wr_workflow_uid := keep (wr_workflow_uid r) (wr_workflow_uid p),
     wr_workflow_namespace := keep (wr_workflow_namespace r) (wr_workflow_namespace p),
     wr_workflow_template := keep (wr_workflow_template r) (wr_workflow_template p),
     wr_workflow_type := keep (wr_workflow_type r) (wr_workflow_type p), wr_status := keep (wr_status r) (wr_status p),
     wr_started_at := keep (wr_started_at r) (wr_started_at p),
     wr_finished_at := keep (wr_finished_at r) (wr_finished_at p),
     wr_duration_sec := keep (wr_duration_sec r) (wr_duration_sec p),
     wr_parameters_json := keep (wr_parameters_json r) (json_or_none parameters),
     wr_metrics_json := keep (wr_metrics_json r) (json_or_none metrics),
     wr_workflow_json := keep (wr_workflow_json r) (json_or_none workflow_doc)\<rparr>"

definition upsert_workflow_run ::
  "meta_env \<Rightarrow> workflow_run_row \<Rightarrow> pydict option \<Rightarrow> pydict option \<Rightarrow> pydict option \<Rightarrow> meta_db \<Rightarrow> platform_result" where
  "upsert_workflow_run env p parameters metrics workflow_doc = platform_write env ''upsert_workflow_run''
     (on_table mx_flows (\<lambda>t db. db\<lparr>mx_flows := t\<rparr>)
       (upsert_row (same_flow (wr_workflow_name p) (wr_workflow_namespace p)) wr_id
          (new_flow (mv_now env) p parameters metrics workflow_doc) (update_flow p parameters metrics workflow_doc)))"

definition same_flow_step :: "string \<Rightarrow> string \<Rightarrow> string option \<Rightarrow> flow_step_row \<Rightarrow> bool" where
  "same_flow_step name step namespace r =
     (fsr_workflow_name r = name \<and> fsr_step_name r = step \<and> given_opt namespace (fsr_workflow_namespace r))"

definition new_flow_step :: "datetime \<Rightarrow> flow_step_row \<Rightarrow> pydict option \<Rightarrow> int \<Rightarrow> flow_step_row" where
  "new_flow_step now p metrics i = p\<lparr>fsr_id := i, fsr_metrics_json := json_or_none metrics, fsr_created_at := now\<rparr>"

definition update_flow_step :: "flow_step_row \<Rightarrow> pydict option \<Rightarrow> flow_step_row \<Rightarrow> flow_step_row" where
  "update_flow_step p metrics r = r\<lparr>
     fsr_workflow_name := fsr_workflow_name p,
     fsr_workflow_namespace := keep (fsr_workflow_namespace r) (fsr_workflow_namespace p),
     fsr_step_name := fsr_step_name p, fsr_template_name := keep (fsr_template_name r) (fsr_template_name p),
     fsr_pod_name := keep (fsr_pod_name r) (fsr_pod_name p), fsr_phase := keep (fsr_phase r) (fsr_phase p),
     fsr_started_at := keep (fsr_started_at r) (fsr_started_at p),
     fsr_finished_at := keep (fsr_finished_at r) (fsr_finished_at p),
     fsr_duration_sec := keep (fsr_duration_sec r) (fsr_duration_sec p),
     fsr_dataset_id := keep (fsr_dataset_id r) (fsr_dataset_id p), fsr_version := keep (fsr_version r) (fsr_version p),
     fsr_dataset_family := keep (fsr_dataset_family r) (fsr_dataset_family p),
     fsr_input_uri := keep (fsr_input_uri r) (fsr_input_uri p),
     fsr_output_uri := keep (fsr_output_uri r) (fsr_output_uri p),
     fsr_metrics_json := keep (fsr_metrics_json r) (json_or_none metrics),
     fsr_message := keep (fsr_message r) (fsr_message p)\<rparr>"

definition upsert_workflow_step :: "meta_env \<Rightarrow> flow_step_row \<Rightarrow> pydict option \<Rightarrow> meta_db \<Rightarrow> platform_result" where
  "upsert_workflow_step env p metrics = platform_write env ''upsert_workflow_step'' (on_table mx_flow_steps (\<lambda>t db. db\<lparr>mx_flow_steps := t\<rparr>)
     (upsert_row (same_flow_step (fsr_workflow_name p) (fsr_step_name p) (fsr_workflow_namespace p)) fsr_id
        (new_flow_step (mv_now env) p metrics) (update_flow_step p metrics)))"

definition list_workflow_runs ::
  "meta_env \<Rightarrow> (datetime \<Rightarrow> string) \<Rightarrow> string option \<Rightarrow> nat \<Rightarrow> meta_db \<Rightarrow> meta_error + pydict list" where
  "list_workflow_runs env isof status n = guarded_read env ''list_workflow_runs'' (\<lambda>db.
     map (workflow_run_to_dict isof) (newest wr_created_at n (filter (\<lambda>r. given_opt status (wr_status r)) (mx_flows db))))"

definition get_workflow_run ::
  "meta_env \<Rightarrow> (datetime \<Rightarrow> string) \<Rightarrow> string \<Rightarrow> string option \<Rightarrow> meta_db \<Rightarrow> meta_error + pydict option" where
  "get_workflow_run env isof name namespace = guarded_read env ''get_workflow_run'' (\<lambda>db.
     map_option (workflow_run_to_dict isof) (find (same_flow name namespace) (mx_flows db)))"

text \<open>\<open>order_by(started_at.asc().nullslast())\<close>.\<close>

definition start_order :: "flow_step_row \<Rightarrow> bool \<times> datetime" where
  "start_order r = (case fsr_started_at r of None \<Rightarrow> (True, (Date 1 1 1, 0)) | Some t \<Rightarrow> (False, t))"

definition list_workflow_steps ::
  "meta_env \<Rightarrow> (datetime \<Rightarrow> string) \<Rightarrow> string \<Rightarrow> string option \<Rightarrow> nat \<Rightarrow> meta_db \<Rightarrow> meta_error + pydict list" where
  "list_workflow_steps env isof name namespace n = guarded_read env ''list_workflow_steps'' (\<lambda>db.
     map (workflow_step_to_dict isof) (take n (sort_key start_order
       (filter (\<lambda>r. fsr_workflow_name r = name \<and> given_opt namespace (fsr_workflow_namespace r)) (mx_flow_steps db)))))"

section \<open>Open lineage\<close>

definition record_openlineage_event ::
  "meta_env \<Rightarrow> open_lineage_row \<Rightarrow> pydict list option \<Rightarrow> pydict list option \<Rightarrow> pydict option \<Rightarrow> pydict option
     \<Rightarrow> meta_db \<Rightarrow> platform_result" where
  "record_openlineage_event env p inputs outputs facets raw_event = platform_write env ''record_openlineage_event''
     (on_table_unique mx_lineage (\<lambda>t db. db\<lparr>mx_lineage := t\<rparr>)
       (insert_unique (\<lambda>r. olr_event_id r = olr_event_id p) (\<lambda>i. p\<lparr>olr_id := i,
          olr_inputs_json := Some (VDict [(''items'', dict_list inputs)]),
          olr_outputs_json := Some (VDict [(''items'', dict_list outputs)]),
          olr_facets_json := json_or_none facets, olr_raw_event_json := json_or_none raw_event,
          olr_created_at := mv_now env\<rparr>)))"

definition list_openlineage_events ::
  "meta_env \<Rightarrow> (datetime \<Rightarrow> string) \<Rightarrow> string option \<Rightarrow> nat \<Rightarrow> meta_db \<Rightarrow> meta_error + pydict list" where
  "list_openlineage_events env isof event_type n = guarded_read env ''list_openlineage_events'' (\<lambda>db.
     map (ol_event_to_dict isof) (newest olr_event_time n (filter (\<lambda>r. given event_type (olr_event_type r)) (mx_lineage db))))"

end
