(* ===== verification/Metadata_Laws.thy ===== *)
theory Metadata_Laws
  imports Metadata_Service Metadata_Platform
begin

text \<open>
  What the two access layers of the metadata promise together. Their upserts are interpreted in the
  contract of \<^verbatim>\<open>Metadata_Store\<close>; a sequence of writes of both layers, each in an environment of its own,
  keeps the form of the twenty tables; in soft mode a write degrades instead of raising.
\<close>

section \<open>The upserts\<close>

interpretation assets: steady_upsert "same_asset p" la_id "new_asset now p" "update_asset now p" for now p
  by unfold_locales (simp_all add: same_asset_def new_asset_def update_asset_def)

interpretation versions: steady_upsert "same_version p" dv_id "new_version now p" "update_version now p" for now p
  by unfold_locales (simp_all add: same_version_def new_version_def update_version_def)

interpretation contracts: steady_upsert "same_contract (qcr_contract_id p)" qcr_id "new_contract now p rules" "update_contract now p rules"
    for now p rules
  by unfold_locales (simp_all add: same_contract_def new_contract_def update_contract_def)

interpretation profiles: steady_upsert "same_profile (apr_profile_id p)" apr_id "new_profile now p profile" "update_profile p profile"
    for now p profile
  by unfold_locales (simp_all add: same_profile_def new_profile_def update_profile_def)

interpretation ml_sets: steady_upsert "same_output (ml_output_uri p)" ml_id "new_ml_ready now p metrics" "update_ml_ready p metrics"
    for now p metrics
  by unfold_locales (simp_all add: same_output_def new_ml_ready_def update_ml_ready_def)

lemma given_opt_keep: "given_opt a v \<Longrightarrow> given_opt a (keep v a)"
  by (cases a) (simp_all add: given_opt_def)

lemma given_opt_same [simp]: "given_opt a a"
  by (cases a) (simp_all add: given_opt_def)

lemma given_opt_keep_same: "given_opt a v \<Longrightarrow> keep v a = v"
  by (cases a) (simp_all add: given_opt_def)

interpretation flows: steady_upsert "same_flow (wr_workflow_name p) (wr_workflow_namespace p)" wr_id
    "new_flow now p parameters metrics doc" "update_flow p parameters metrics doc" for now p parameters metrics doc
  by unfold_locales (simp_all add: same_flow_def new_flow_def update_flow_def given_opt_keep)

interpretation flow_steps: steady_upsert "same_flow_step (fsr_workflow_name p) (fsr_step_name p) (fsr_workflow_namespace p)" fsr_id
    "new_flow_step now p metrics" "update_flow_step p metrics" for now p metrics
  by unfold_locales (simp_all add: same_flow_step_def new_flow_step_def update_flow_step_def given_opt_keep)

text \<open>These merge their metrics into the JSON column: an empty dictionary is stored as null first, and as an
  empty document by the second call.\<close>

interpretation jobs: row_upsert "same_job job_id" ej_id "finished_job now job_id status metrics msg" "finish_job now status metrics msg"
    for now job_id status metrics msg
  by unfold_locales (simp_all add: same_job_def finished_job_def finish_job_def json_update_twice split: option.splits)

interpretation shards: row_upsert "same_shard p" esr_id "new_shard_entry now p metrics" "update_shard p metrics" for now p metrics
  by unfold_locales (simp_all add: same_shard_def new_shard_entry_def update_shard_def json_update_twice)

interpretation benchmarks: row_upsert "same_benchmark (bmr_benchmark_id p)" bmr_id "new_benchmark now p metrics" "update_benchmark p metrics"
    for now p metrics
  by unfold_locales (simp_all add: same_benchmark_def new_benchmark_def update_benchmark_def json_update_twice)

interpretation argo: row_upsert "same_argo (awr_workflow_name p)" awr_id "new_argo now p metrics" "update_argo p metrics"
    for now p metrics
  by unfold_locales (simp_all add: same_argo_def new_argo_def update_argo_def json_update_twice)

interpretation partitions: row_upsert "same_partition (dpr_partition_id p)" dpr_id "new_partition now p metrics" "update_partition p metrics"
    for now p metrics
  by unfold_locales (simp_all add: same_partition_def new_partition_def update_partition_def json_update_twice)

section \<open>Sequences of writes\<close>

datatype meta_call =
    Write_asset lake_asset_row
  | Start_job string string "string option" "string option" "pydict option"
  | Finish_job string string "pydict option" "string option"
  | Write_edge string string string string "string option"
  | Write_edges "pydict list"
  | Write_version dataset_version_row
  | Write_snapshot quality_snapshot_row "pydict option"
  | Write_perf "meta_error + string list" pydict
  | Write_shard etl_shard_row "pydict option"
  | Write_benchmark benchmark_run_row "pydict option"
  | Write_case benchmark_case_row "pyval list option" "pyval list option" "pydict option"
  | Write_event pydict
  | Write_argo argo_workflow_row "pydict option"
  | Write_beat task_heartbeat_row "pydict option"
  | Write_partition dataset_partition_row "pydict option"
  | Write_contract qc_contract_row pydict
  | Write_contract_run qc_contract_run_row "pydict option" "pydict list option" "pydict list option" "pydict list option"
  | Write_profile asset_profile_row "pydict option"
  | Write_ml_ready ml_ready_row "pydict option"
  | Write_flow workflow_run_row "pydict option" "pydict option" "pydict option"
  | Write_flow_step flow_step_row "pydict option"
  | Write_lineage open_lineage_row "pydict list option" "pydict list option" "pydict option" "pydict option"

primrec run_call ::
  "(datetime \<Rightarrow> string) \<Rightarrow> (string \<Rightarrow> datetime option) \<Rightarrow> meta_env \<Rightarrow> meta_call \<Rightarrow> meta_db \<Rightarrow> meta_result" where
  "run_call isof parse_iso env (Write_asset p) db = record_lake_asset env p db"
| "run_call isof parse_iso env (Start_job j ty inp outp m) db = record_etl_job_start env j ty inp outp m db"
| "run_call isof parse_iso env (Finish_job j st m msg) db = record_etl_job_finish env j st m msg db"
| "run_call isof parse_iso env (Write_edge s t j ty r) db = record_lineage_edge env s t j ty r db"
| "run_call isof parse_iso env (Write_edges es) db = (case record_lineage_edges env es db of (res, db') \<Rightarrow> (map_sum id Some res, db'))"
| "run_call isof parse_iso env (Write_version p) db = upsert_dataset_version env p db"
| "run_call isof parse_iso env (Write_snapshot p m) db = record_quality_snapshot env p m db"
| "run_call isof parse_iso env (Write_perf cols d) db = store_perf_run env isof parse_iso cols d db"
| "run_call isof parse_iso env (Write_shard p m) db = store_etl_shard env p m db"
| "run_call isof parse_iso env (Write_benchmark p m) db = record_benchmark_run env p m db"
| "run_call isof parse_iso env (Write_case p ex ac m) db = record_benchmark_case env p ex ac m db"
| "run_call isof parse_iso env (Write_event e) db = record_runtime_event env e db"
| "run_call isof parse_iso env (Write_argo p m) db = record_argo_workflow env p m db"
| "run_call isof parse_iso env (Write_beat p m) db = record_task_heartbeat env p m db"
| "run_call isof parse_iso env (Write_partition p m) db = record_dataset_partition env p m db"
| "run_call isof parse_iso env (Write_contract p rules) db = upsert_qc_contract env p rules db"
| "run_call isof parse_iso env (Write_contract_run p m f w a) db = record_qc_contract_run env p m f w a db"
| "run_call isof parse_iso env (Write_profile p m) db = record_asset_profile env p m db"
| "run_call isof parse_iso env (Write_ml_ready p m) db = record_ml_ready_dataset env p m db"
| "run_call isof parse_iso env (Write_flow p ps m doc) db = upsert_workflow_run env p ps m doc db"
| "run_call isof parse_iso env (Write_flow_step p m) db = upsert_workflow_step env p m db"
| "run_call isof parse_iso env (Write_lineage p i out f raw) db = record_openlineage_event env p i out f raw db"

fun run_calls ::
  "(datetime \<Rightarrow> string) \<Rightarrow> (string \<Rightarrow> datetime option) \<Rightarrow> (meta_env \<times> meta_call) list \<Rightarrow> meta_db \<Rightarrow> meta_db" where
  "run_calls isof parse_iso [] db = db"
| "run_calls isof parse_iso ((env, c) # cs) db = run_calls isof parse_iso cs (snd (run_call isof parse_iso env c db))"

section \<open>The form of the tables\<close>

text \<open>A JSON column holds a document or null.\<close>

definition json_ok :: "pyval option \<Rightarrow> bool" where
  "json_ok c = (case c of None \<Rightarrow> True | Some (VDict d) \<Rightarrow> True | _ \<Rightarrow> False)"

definition list_json :: "pyval option \<Rightarrow> bool" where
  "list_json c = (case c of Some (VList xs) \<Rightarrow> True | _ \<Rightarrow> False)"

lemma json_ok_simps [simp]: "json_ok None" "json_ok (Some (VDict d))" "json_ok (json_or_none m)" "list_json (Some (VList xs))"
  by (simp_all add: json_ok_def json_or_none_def list_json_def split: option.splits list.splits)

lemma json_ok_update [simp]: "json_ok c \<Longrightarrow> json_ok (json_update m c)"
  by (cases m) (simp_all add: json_update_def)

lemma json_ok_keep [simp]: "json_ok c \<Longrightarrow> json_ok (keep c (json_or_none m))"
  by (cases "json_or_none m") (auto simp: json_or_none_def split: option.splits list.splits)

definition run_row_ok :: "qc_contract_run_row \<Rightarrow> bool" where
  "run_row_ok r = (qr_started_at r \<noteq> None \<and> qr_finished_at r \<noteq> None \<and> json_ok (qr_metrics_json r) \<and>
     list_json (qr_failed_rules_json r) \<and> list_json (qr_warning_rules_json r))"

definition lake_tables_ok :: "meta_db \<Rightarrow> bool" where
  "lake_tables_ok db =
    (table_ok la_id la_uri (\<lambda>r. True) (mx_assets db) \<and>
     table_ok ej_id ej_job_id (\<lambda>r. json_ok (ej_metrics_json r)) (mx_jobs db) \<and>
     table_ok le_id le_id (\<lambda>r. True) (mx_edges db) \<and>
     table_ok dv_id (\<lambda>r. (dv_dataset_id r, dv_version r)) (\<lambda>r. True) (mx_versions db) \<and>
     table_ok qs_id qs_id (\<lambda>r. json_ok (qs_metrics_json r)) (mx_snapshots db) \<and>
     table_ok pf_id pf_id (\<lambda>r. json_ok (pf_metrics_json r)) (mx_perf db) \<and>
     table_ok esr_id (\<lambda>r. (esr_plan_id r, esr_shard_id r)) (\<lambda>r. json_ok (esr_metrics_json r)) (mx_shards db) \<and>
     table_ok bmr_id bmr_benchmark_id (\<lambda>r. json_ok (bmr_metrics_json r)) (mx_benchmarks db) \<and>
     table_ok bmc_id (\<lambda>r. (bmc_benchmark_id r, bmc_case_id r)) (\<lambda>r. json_ok (bmc_metrics_json r) \<and>
       json_ok (bmc_expected_failed_validators r) \<and> json_ok (bmc_actual_failed_validators r)) (mx_cases db) \<and>
     table_ok rer_id rer_event_id (\<lambda>r. json_ok (rer_payload_json r)) (mx_events db) \<and>
     table_ok awr_id awr_workflow_name (\<lambda>r. json_ok (awr_metrics_json r)) (mx_argo db))"

definition platform_tables_ok :: "meta_db \<Rightarrow> bool" where
  "platform_tables_ok db =
    (table_ok thr_id thr_id (\<lambda>r. json_ok (thr_metrics_json r)) (mx_beats db) \<and>
     table_ok dpr_id dpr_partition_id (\<lambda>r. json_ok (dpr_metrics_json r)) (mx_partitions db) \<and>
     table_ok qcr_id qcr_contract_id (\<lambda>r. json_ok (Some (qcr_rules_json r))) (mx_contracts db) \<and>
     table_ok qr_id qr_run_id run_row_ok (mx_contract_runs db) \<and>
     table_ok apr_id apr_profile_id (\<lambda>r. json_ok (apr_profile_json r)) (mx_profiles db) \<and>
     table_ok ml_id ml_output_uri (\<lambda>r. json_ok (ml_metrics_json r)) (mx_ml_ready db) \<and>
     table_ok wr_id (\<lambda>r. (wr_workflow_namespace r, wr_workflow_name r)) (\<lambda>r. json_ok (wr_parameters_json r) \<and>
       json_ok (wr_metrics_json r) \<and> json_ok (wr_workflow_json r)) (mx_flows db) \<and>
     table_ok fsr_id (\<lambda>r. (fsr_workflow_namespace r, fsr_workflow_name r, fsr_step_name r)) (\<lambda>r. json_ok (fsr_metrics_json r))
       (mx_flow_steps db) \<and>
     table_ok olr_id olr_event_id (\<lambda>r. json_ok (olr_inputs_json r) \<and> json_ok (olr_outputs_json r) \<and> json_ok (olr_facets_json r) \<and>
       json_ok (olr_raw_event_json r)) (mx_lineage db))"

definition meta_ok :: "meta_db \<Rightarrow> bool" where
  "meta_ok db = (lake_tables_ok db \<and> platform_tables_ok db)"

text \<open>Each write keeps the tables: what it stores fits its table, and the others stay.\<close>

lemma on_table_result: "on_table rd pt f db = Inr (i, db') \<longleftrightarrow> i = fst (f (rd db)) \<and> db' = pt (snd (f (rd db))) db"
  by (auto simp: on_table_def split: prod.splits)

lemma on_table_unique_result: "on_table_unique rd pt f db = Inr (i, db') \<longleftrightarrow> (\<exists>t. f (rd db) = Inr (i, t) \<and> db' = pt t db)"
  by (auto simp: on_table_unique_def split: sum.splits prod.splits)

lemma keeps_in_session: "P db \<Longrightarrow> (\<And>i d. body db = Inr (i, d) \<Longrightarrow> P d) \<Longrightarrow> P (snd (in_session h env op body db))"
  using in_session_db[of h env op body db] by auto

lemma keeps_guarded: "P db \<Longrightarrow> (\<And>i d. body db = Inr (i, d) \<Longrightarrow> P d) \<Longrightarrow> P (snd (guarded_write env required op body db))"
  using guarded_write_db[of env required op body db] by auto

lemmas table_simps = on_table_result on_table_unique_result meta_ok_def lake_tables_ok_def platform_tables_ok_def

lemma asset_keeps: "meta_ok db \<Longrightarrow> meta_ok (snd (record_lake_asset env p db))"
  unfolding record_lake_asset_def
  by (rule keeps_in_session)
    (auto simp: table_simps new_asset_def update_asset_def same_asset_def intro!: table_ok_upsert)

lemma job_start_keeps: "meta_ok db \<Longrightarrow> meta_ok (snd (record_etl_job_start env job_id ty inp outp m db))"
  unfolding record_etl_job_start_def
  by (rule keeps_in_session) (auto simp: table_simps same_job_def elim!: table_ok_unique[rotated])

lemma job_finish_keeps: "meta_ok db \<Longrightarrow> meta_ok (snd (record_etl_job_finish env job_id status m msg db))"
  unfolding record_etl_job_finish_def
  by (rule keeps_in_session)
    (auto simp: table_simps finished_job_def finish_job_def same_job_def intro!: table_ok_upsert)

lemma edge_keeps: "meta_ok db \<Longrightarrow> meta_ok (snd (record_lineage_edge env s g job_id ty run_id db))"
  unfolding record_lineage_edge_def
  by (rule keeps_in_session) (auto simp: table_simps new_edge_def intro!: table_ok_append)

lemma add_edges_ok: "add_edges now es t = Inr t' \<Longrightarrow> table_ok le_id le_id (\<lambda>r. True) t \<Longrightarrow> table_ok le_id le_id (\<lambda>r. True) t'"
proof (induction es arbitrary: t)
  case (Cons e es)
  obtain mk where "add_edges now es (snd (insert_row mk t)) = Inr t'" "\<And>i. le_id (mk i) = i"
    using Cons.prems(1) by (auto simp: new_edge_def split: sum.splits)
  then show ?case using Cons.IH[of "snd (insert_row mk t)"] table_ok_append[OF Cons.prems(2)] by blast
qed simp

lemma edges_keeps: "meta_ok db \<Longrightarrow> meta_ok (snd (record_lineage_edges env es db))"
  by (auto simp: record_lineage_edges_def table_simps add_edges_ok split: option.splits sum.splits)

lemma version_keeps: "meta_ok db \<Longrightarrow> meta_ok (snd (upsert_dataset_version env p db))"
  unfolding upsert_dataset_version_def
  by (rule keeps_in_session)
    (auto simp: table_simps new_version_def update_version_def same_version_def intro!: table_ok_upsert)

lemma snapshot_keeps: "meta_ok db \<Longrightarrow> meta_ok (snd (record_quality_snapshot env p m db))"
  unfolding record_quality_snapshot_def
  by (rule keeps_in_session) (auto simp: table_simps intro!: table_ok_append)

lemma perf_row_ok: "perf_row isof parse_iso cols now d = Inr mk \<Longrightarrow> pf_id (mk i) = i \<and> json_ok (pf_metrics_json (mk i))"
  by (auto simp: perf_row_def Let_def has_col_def rbind_Inr_iff)

lemma perf_keeps: "meta_ok db \<Longrightarrow> meta_ok (snd (store_perf_run env isof parse_iso cols d db))"
  unfolding store_perf_run_def
  by (rule keeps_guarded) (auto simp: table_simps split: sum.splits intro!: table_ok_append dest: perf_row_ok)

lemma shard_keeps: "meta_ok db \<Longrightarrow> meta_ok (snd (store_etl_shard env p m db))"
  unfolding store_etl_shard_def
  by (rule keeps_guarded)
    (auto simp: table_simps new_shard_entry_def update_shard_def same_shard_def intro!: table_ok_upsert)

lemma benchmark_keeps: "meta_ok db \<Longrightarrow> meta_ok (snd (record_benchmark_run env p m db))"
  unfolding record_benchmark_run_def
  by (rule keeps_guarded)
    (auto simp: table_simps new_benchmark_def update_benchmark_def same_benchmark_def intro!: table_ok_upsert)

lemma case_keeps: "meta_ok db \<Longrightarrow> meta_ok (snd (record_benchmark_case env p ex ac m db))"
  unfolding record_benchmark_case_def
  by (rule keeps_guarded) (auto simp: table_simps items_json_def elim!: table_ok_unique[rotated])

lemma event_keeps: "meta_ok db \<Longrightarrow> meta_ok (snd (record_runtime_event env e db))"
  unfolding record_runtime_event_def
  by (rule keeps_guarded) (auto simp: table_simps split: sum.splits elim!: table_ok_unique[rotated])

lemma argo_keeps: "meta_ok db \<Longrightarrow> meta_ok (snd (record_argo_workflow env p m db))"
  unfolding record_argo_workflow_def
  by (rule keeps_guarded)
    (auto simp: table_simps new_argo_def update_argo_def same_argo_def intro!: table_ok_upsert)

lemma beat_keeps: "meta_ok db \<Longrightarrow> meta_ok (snd (record_task_heartbeat env p m db))"
  unfolding record_task_heartbeat_def
  by (rule keeps_guarded) (auto simp: table_simps intro!: table_ok_append)

lemma partition_keeps: "meta_ok db \<Longrightarrow> meta_ok (snd (record_dataset_partition env p m db))"
  unfolding record_dataset_partition_def
  by (rule keeps_guarded)
    (auto simp: table_simps new_partition_def update_partition_def same_partition_def intro!: table_ok_upsert)

lemma contract_keeps: "meta_ok db \<Longrightarrow> meta_ok (snd (upsert_qc_contract env p rules db))"
  unfolding upsert_qc_contract_def
  by (rule keeps_guarded)
    (auto simp: table_simps new_contract_def update_contract_def same_contract_def intro!: table_ok_upsert)

lemma contract_run_keeps: "meta_ok db \<Longrightarrow> meta_ok (snd (record_qc_contract_run env p m f w a db))"
  unfolding record_qc_contract_run_def
  by (rule keeps_guarded)
    (auto simp: table_simps run_row_ok_def dict_list_def split: sum.splits elim!: table_ok_unique[rotated])

lemma profile_keeps: "meta_ok db \<Longrightarrow> meta_ok (snd (record_asset_profile env p m db))"
  unfolding record_asset_profile_def
  by (rule keeps_guarded)
    (auto simp: table_simps new_profile_def update_profile_def same_profile_def intro!: table_ok_upsert)

lemma ml_ready_keeps: "meta_ok db \<Longrightarrow> meta_ok (snd (record_ml_ready_dataset env p m db))"
  unfolding record_ml_ready_dataset_def
  by (rule keeps_guarded)
    (auto simp: table_simps new_ml_ready_def update_ml_ready_def same_output_def intro!: table_ok_upsert)

lemma flow_keeps: "meta_ok db \<Longrightarrow> meta_ok (snd (upsert_workflow_run env p ps m doc db))"
  unfolding upsert_workflow_run_def
  by (rule keeps_guarded)
    (auto simp: table_simps new_flow_def update_flow_def same_flow_def given_opt_keep_same intro!: table_ok_upsert)

lemma flow_step_keeps: "meta_ok db \<Longrightarrow> meta_ok (snd (upsert_workflow_step env p m db))"
  unfolding upsert_workflow_step_def
  by (rule keeps_guarded)
    (auto simp: table_simps new_flow_step_def update_flow_step_def same_flow_step_def given_opt_keep_same intro!: table_ok_upsert)

lemma lineage_keeps: "meta_ok db \<Longrightarrow> meta_ok (snd (record_openlineage_event env p i out f raw db))"
  unfolding record_openlineage_event_def
  by (rule keeps_guarded) (auto simp: table_simps elim!: table_ok_unique[rotated])

lemmas write_keeps = asset_keeps job_start_keeps job_finish_keeps edge_keeps edges_keeps version_keeps snapshot_keeps
  perf_keeps shard_keeps benchmark_keeps case_keeps event_keeps argo_keeps beat_keeps partition_keeps contract_keeps
  contract_run_keeps profile_keeps ml_ready_keeps flow_keeps flow_step_keeps lineage_keeps

lemma call_keeps: "meta_ok db \<Longrightarrow> meta_ok (snd (run_call isof parse_iso env c db))"
proof (cases c)
  case (Write_edges es)
  assume "meta_ok db"
  with Write_edges show ?thesis using edges_keeps[of db env es] by (cases "record_lineage_edges env es db") simp
qed (simp_all add: write_keeps)

lemma calls_keep: "meta_ok db \<Longrightarrow> meta_ok (run_calls isof parse_iso cs db)"
  by (induction isof parse_iso cs db rule: run_calls.induct) (simp_all add: call_keeps)

lemma empty_meta_ok: "meta_ok empty_meta"
  by (simp add: meta_ok_def lake_tables_ok_def platform_tables_ok_def empty_meta_def)

section \<open>What a write answers\<close>

text \<open>The database raises database errors only; the creation of the engine may also find the lake unavailable.\<close>

definition meta_env_ok :: "meta_env \<Rightarrow> bool" where
  "meta_env_ok env = ((case mv_open env of None \<Rightarrow> True | Some err \<Rightarrow> lake_handles err) \<and>
     (case mv_tables env of Inl err \<Rightarrow> is_db_error err | Inr ts \<Rightarrow> True) \<and>
     (\<forall>op. case mv_session env op of None \<Rightarrow> True | Some err \<Rightarrow> is_db_error err))"

text \<open>A stored row, or an unchanged database with an answer that the mode allows.\<close>

definition answer_ok :: "meta_env \<Rightarrow> 'd \<Rightarrow> (meta_error + int option) \<times> 'd \<Rightarrow> bool" where
  "answer_ok env db r = (case r of (res, db') \<Rightarrow> (case res of
     Inr (Some i) \<Rightarrow> True
   | Inr None \<Rightarrow> mv_soft env \<and> db' = db
   | Inl (Raised e) \<Rightarrow> db' = db
   | Inl (Schema_missing m drift) \<Rightarrow> mv_soft env \<and> drift \<and> db' = db
   | Inl (Lake_unavailable m) \<Rightarrow> (mv_soft env \<longrightarrow> mv_open env = Some (Lake_unavailable m)) \<and> db' = db
   | Inl (Db_error m drift) \<Rightarrow> False))"

lemma lake_recover_answer: "lake_handles err \<or> (\<exists>e. err = Raised e) \<Longrightarrow> answer_ok env db (recover lake_handles env op err, db)"
  by (cases err) (auto simp: recover_def handle_write_error_def lake_handles_def answer_ok_def Let_def)

lemma table_recover_answer:
  "table_handles err \<or> (\<exists>e. err = Raised e) \<or> (\<exists>m. err = Lake_unavailable m \<and> (mv_soft env \<longrightarrow> mv_open env = Some err)) \<Longrightarrow>
    answer_ok env db (recover table_handles env op err, db)"
  by (cases err) (auto simp: recover_def handle_write_error_def table_handles_def answer_ok_def Let_def)

lemma is_db_errorD: "is_db_error err \<Longrightarrow> lake_handles err \<and> table_handles err"
  by (cases err) (simp_all add: is_db_error_def lake_handles_def table_handles_def)

lemma meta_env_okD:
  assumes "meta_env_ok env"
  shows "mv_open env = Some err \<Longrightarrow> lake_handles err"
    and "mv_tables env = Inl err \<Longrightarrow> is_db_error err"
    and "mv_session env op = Some err \<Longrightarrow> is_db_error err"
  using assms by (auto simp: meta_env_ok_def dest!: spec[of _ op] split: option.splits sum.splits)

text \<open>The bodies of the sessions raise database errors, or errors of their own.\<close>

definition body_ok :: "'d meta_write \<Rightarrow> bool" where
  "body_ok body = (\<forall>db err. body db = Inl err \<longrightarrow> is_db_error err \<or> (\<exists>e. err = Raised e))"

lemma body_ok_on_table [simp]: "body_ok (on_table rd pt f)"
  by (auto simp: body_ok_def on_table_def split: prod.splits)

lemma body_ok_unique [simp]: "body_ok (on_table_unique rd pt (insert_unique same mk))"
  by (auto simp: body_ok_def on_table_unique_def insert_unique_def is_db_error_def split: prod.splits sum.splits if_splits)

lemma lake_answer: "meta_env_ok env \<Longrightarrow> body_ok body \<Longrightarrow> answer_ok env db (lake_write env op body db)"
proof -
  assume a: "meta_env_ok env" "body_ok body"
  obtain res db' where r: "lake_write env op body db = (res, db')" by (cases "lake_write env op body db")
  have "answer_ok env db (recover lake_handles env op err, db)"
    if "mv_open env = Some err \<or> mv_open env = None \<and> mv_session env op = Some err \<or> mv_open env = None \<and> body db = Inl err" for err
    using that a meta_env_okD(1,3)[OF a(1), where err = err] is_db_errorD[of err]
    by (intro lake_recover_answer) (auto simp: body_ok_def)
  then show ?thesis using in_session_cases[OF r] r by (auto simp: answer_ok_def)
qed

lemma table_session_answer:
  "meta_env_ok env \<Longrightarrow> body_ok body \<Longrightarrow> mv_open env = None \<Longrightarrow> answer_ok env db (in_session table_handles env op body db)"
proof -
  assume a: "meta_env_ok env" "body_ok body" "mv_open env = None"
  obtain res db' where r: "in_session table_handles env op body db = (res, db')" by (cases "in_session table_handles env op body db")
  have "answer_ok env db (recover table_handles env op err, db)"
    if "mv_session env op = Some err \<or> body db = Inl err" for err
    using that a meta_env_okD(3)[OF a(1), where op = op and err = err] is_db_errorD[of err]
    by (intro table_recover_answer) (auto simp: body_ok_def)
  then show ?thesis using in_session_cases[OF r] r a(3) by (auto simp: answer_ok_def)
qed

lemma ensure_tables_error:
  assumes "meta_env_ok env" "ensure_tables env required op = Inl err"
  shows "table_handles err \<or> (\<exists>m. err = Lake_unavailable m \<and> (mv_soft env \<longrightarrow> mv_open env = Some err))"
proof (cases "inspect_tables env")
  case (Inl e)
  show ?thesis
  proof (cases "is_db_error e")
    case True
    then show ?thesis using assms(2) Inl
      by (auto simp: ensure_tables_def handle_write_error_def table_handles_def Let_def split: if_splits)
  next
    case False
    then have "mv_open env = Some e" "err = e"
      using assms Inl meta_env_okD(2)[OF assms(1), where err = e] by (auto simp: ensure_tables_def inspect_tables_def split: option.splits)
    moreover from this(1) have "lake_handles e" by (rule meta_env_okD(1)[OF assms(1)])
    ultimately show ?thesis using False by (cases e) (simp_all add: lake_handles_def is_db_error_def)
  qed
next
  case (Inr ts)
  then show ?thesis using assms(2) by (auto simp: ensure_tables_def table_handles_def Let_def split: if_splits)
qed

lemma guarded_answer: "meta_env_ok env \<Longrightarrow> body_ok body \<Longrightarrow> answer_ok env db (guarded_write env required op body db)"
proof -
  assume a: "meta_env_ok env" "body_ok body"
  show ?thesis
  proof (cases "ensure_tables env required op")
    case (Inl err)
    then show ?thesis using ensure_tables_error[OF a(1) Inl] by (auto simp: guarded_write_def intro!: table_recover_answer)
  next
    case (Inr b)
    have "mv_soft env" if "\<not> b"
      using Inr that by (auto simp: ensure_tables_def handle_write_error_def Let_def split: sum.splits if_splits)
    moreover have "mv_open env = None" if b
      using Inr that by (auto simp: ensure_tables_def inspect_tables_def handle_write_error_def Let_def split: sum.splits if_splits option.splits)
    ultimately show ?thesis using Inr table_session_answer[OF a] by (cases b) (auto simp: guarded_write_def answer_ok_def)
  qed
qed

lemma body_ok_perf: "body_ok (\<lambda>db. case get_columns of Inl err \<Rightarrow> Inl err | Inr cols \<Rightarrow> (case row cols of
    Inl e \<Rightarrow> Inl (Raised e) | Inr mk \<Rightarrow> on_table rd pt (insert_row mk) db))"
  if "\<And>err. get_columns = Inl err \<Longrightarrow> is_db_error err" for row
  using that by (auto simp: body_ok_def on_table_def split: sum.splits prod.splits)

lemma body_ok_raising: "body_ok (\<lambda>db. case x of Inl e \<Rightarrow> Inl (Raised e) | Inr v \<Rightarrow> on_table_unique rd pt (insert_unique (same v) (mk v)) db)"
proof (cases x)
  case (Inr v)
  then show ?thesis using body_ok_unique[of rd pt "same v" "mk v"] by simp
qed (simp add: body_ok_def)

definition call_ok :: "meta_call \<Rightarrow> bool" where
  "call_ok c = (case c of Write_perf (Inl err) d \<Rightarrow> is_db_error err | _ \<Rightarrow> True)"

lemma add_edges_raises: "add_edges now es t = Inl err \<Longrightarrow> \<exists>e. err = Raised e"
  by (induction now es t rule: add_edges.induct) (auto split: sum.splits)

lemma recover_count_answer: "lake_handles err \<Longrightarrow> answer_ok env db (map_sum id Some (recover_count env op err n), db)"
  using lake_recover_answer[of err env db op] recover_not_stored[of lake_handles env op err]
  by (auto simp: recover_count_def answer_ok_def split: sum.splits meta_error.splits)

lemma edges_answer: "meta_env_ok env \<Longrightarrow> answer_ok env db (run_call isof parse_iso env (Write_edges es) db)"
proof -
  assume e: "meta_env_ok env"
  show ?thesis
  proof (cases "mv_open env")
    case (Some err)
    then show ?thesis using recover_count_answer[OF meta_env_okD(1)[OF e Some]] by (simp add: record_lineage_edges_def)
  next
    case None
    show ?thesis
    proof (cases "add_edges (mv_now env) es (mx_edges db)")
      case (Inl err)
      then show ?thesis using None add_edges_raises[OF Inl] by (auto simp: record_lineage_edges_def answer_ok_def)
    next
      case (Inr t)
      show ?thesis
      proof (cases "mv_session env ''record_lineage_edges''")
        case (Some err)
        from meta_env_okD(3)[OF e this] have "lake_handles err" using is_db_errorD by simp
        then show ?thesis using None Inr Some recover_count_answer by (simp add: record_lineage_edges_def)
      qed (use None Inr in \<open>simp add: record_lineage_edges_def answer_ok_def\<close>)
    qed
  qed
qed

lemma call_answer:
  assumes "meta_env_ok env" "call_ok c"
  shows "answer_ok env db (run_call isof parse_iso env c db)"
proof (cases c)
  case (Write_edges es)
  then show ?thesis using edges_answer[OF assms(1)] by simp
next
  case (Write_perf cols d)
  then have "is_db_error err" if "cols = Inl err" for err using that assms(2) by (simp add: call_ok_def)
  then show ?thesis using Write_perf assms(1) by (simp add: store_perf_run_def guarded_answer body_ok_perf)
next
  case (Write_event e)
  show ?thesis unfolding Write_event run_call.simps record_runtime_event_def
    by (rule guarded_answer[OF assms(1) body_ok_raising])
next
  case (Write_contract_run p m f w a)
  show ?thesis unfolding Write_contract_run run_call.simps record_qc_contract_run_def
    by (rule guarded_answer[OF assms(1) body_ok_raising])
qed (use assms(1) in \<open>simp_all add: lake_answer guarded_answer record_lake_asset_def record_etl_job_start_def
  record_etl_job_finish_def record_lineage_edge_def upsert_dataset_version_def record_quality_snapshot_def
  store_etl_shard_def record_benchmark_run_def record_benchmark_case_def record_argo_workflow_def record_task_heartbeat_def
  record_dataset_partition_def upsert_qc_contract_def record_asset_profile_def record_ml_ready_dataset_def
  upsert_workflow_run_def upsert_workflow_step_def record_openlineage_event_def\<close>)

section \<open>The newest snapshot of each version\<close>

abbreviation version_of :: "quality_snapshot_row \<Rightarrow> string \<times> string" where
  "version_of r \<equiv> (qs_dataset_id r, qs_version r)"

fun firsts :: "(string \<times> string) set \<Rightarrow> quality_snapshot_row list \<Rightarrow> quality_snapshot_row list" where
  "firsts seen [] = []"
| "firsts seen (r # rs) = (if version_of r \<in> seen then firsts seen rs else r # firsts (insert (version_of r) seen) rs)"

lemma first_of_each_take:
  "length out < n \<Longrightarrow> first_of_each n seen out rs = out @ take (n - length out) (firsts (set seen) rs)"
proof (induction n seen out rs rule: first_of_each.induct)
  case (2 n seen out r rs)
  show ?case
  proof (cases "version_of r \<in> set seen")
    case False
    show ?thesis
    proof (cases "n \<le> length (out @ [r])")
      case True
      then have "n - length out = 1" using 2(3) by simp
      then show ?thesis using False True by (simp add: Let_def)
    next
      case more: False
      have "n - length out = Suc (n - Suc (length out))" using more by simp
      then show ?thesis using False more 2(2)[OF refl False more] by (simp add: Let_def)
    qed
  qed (use 2 in \<open>simp add: Let_def\<close>)
qed simp

lemma firsts_versions: "version_of ` set (firsts seen rs) = version_of ` set rs - seen"
  by (induction seen rs rule: firsts.induct) auto

lemma firsts_set: "set (firsts seen rs) \<subseteq> set rs"
  by (induction seen rs rule: firsts.induct) auto

lemma firsts_distinct: "distinct (map version_of (firsts seen rs))"
proof (induction seen rs rule: firsts.induct)
  case (2 seen r rs)
  moreover have "version_of r \<notin> version_of ` set (firsts (insert (version_of r) seen) rs)" unfolding firsts_versions by simp
  ultimately show ?case by (auto simp del: prod.inject)
qed simp

lemma firsts_newest:
  "sorted_wrt (\<ge>) (map qs_created_at rs) \<Longrightarrow> r \<in> set (firsts seen rs) \<Longrightarrow> s \<in> set rs \<Longrightarrow> version_of s = version_of r \<Longrightarrow>
    qs_created_at s \<le> qs_created_at r"
proof (induction seen rs rule: firsts.induct)
  case (2 seen x rs)
  have not_seen: "version_of r \<notin> seen'" if "r \<in> set (firsts seen' rs)" for seen'
    using that firsts_versions[of seen' rs] by blast
  show ?case
  proof (cases "version_of x \<in> seen")
    case True
    then show ?thesis using 2 not_seen[of seen] by (auto simp del: prod.inject)
  next
    case False
    then show ?thesis using 2 not_seen[of "insert (version_of x) seen"] by (auto simp del: prod.inject)
  qed
qed simp

lemma firsts_sorted: "sorted_wrt (\<ge>) (map qs_created_at rs) \<Longrightarrow> sorted_wrt (\<ge>) (map qs_created_at (firsts seen rs))"
proof (induction seen rs rule: firsts.induct)
  case (2 seen r rs)
  then show ?case using firsts_set[of "insert (version_of r) seen" rs] by auto
qed simp

lemma latest_snapshots_eq: "latest_snapshots n rows = take n (firsts {} (newest qs_created_at (n * 4) rows))"
proof (cases "n = 0")
  case True
  then show ?thesis by (simp add: latest_snapshots_def newest_def)
qed (simp add: latest_snapshots_def first_of_each_take)

end
