(* ===== verification/Metadata_Guarantees.thy ===== *)
theory Metadata_Guarantees
  imports Metadata_Laws Warehouse_Facts Shard_Runner
begin

text \<open>
  The guarantees of the metadata layers: the form of the tables after any writes, the answers of the writes
  in soft and in strict mode, upserts that settle at once, the newest snapshot of each version, and the
  way of the rows to their readers, the warehouse builder and the shard runner.
\<close>



definition demo_meta_env :: "bool \<Rightarrow> meta_error option \<Rightarrow> meta_env" where
  "demo_meta_env soft err = \<lparr>mv_texts = platform_texts, mv_soft = soft, mv_open = None,
     mv_tables = Inr (v1_5_tables @ platform_tables), mv_session = (\<lambda>op. err), mv_now = (Date 2024 5 2, 0)\<rparr>"

definition demo_meta_contract :: qc_contract_row where
  "demo_meta_contract = \<lparr>qcr_id = 0, qcr_contract_id = ''c'', qcr_dataset_family = ''f'', qcr_version = ''1'',
     qcr_description = None, qcr_rules_json = VNone, qcr_enabled = True, qcr_created_at = (Date 2024 5 1, 0),
     qcr_updated_at = (Date 2024 5 1, 0)\<rparr>"


text \<open>
  C1. The upserts by key settle at once: writing the same asset, version, contract, profile, training set,
  workflow or workflow step again, in the same environment, gives the same answer and changes nothing.
\<close>

theorem upserts_settle:
  "record_lake_asset env asset (snd (record_lake_asset env asset db)) = record_lake_asset env asset db \<and>
   upsert_dataset_version env ver (snd (upsert_dataset_version env ver db)) = upsert_dataset_version env ver db \<and>
   upsert_qc_contract env contract rules (snd (upsert_qc_contract env contract rules db)) = upsert_qc_contract env contract rules db \<and>
   record_asset_profile env prof m (snd (record_asset_profile env prof m db)) = record_asset_profile env prof m db \<and>
   record_ml_ready_dataset env ml m (snd (record_ml_ready_dataset env ml m db)) = record_ml_ready_dataset env ml m db \<and>
   upsert_workflow_run env run ps m doc (snd (upsert_workflow_run env run ps m doc db)) = upsert_workflow_run env run ps m doc db \<and>
   upsert_workflow_step env fs m (snd (upsert_workflow_step env fs m db)) = upsert_workflow_step env fs m db"
  unfolding record_lake_asset_def upsert_dataset_version_def upsert_qc_contract_def record_asset_profile_def
    record_ml_ready_dataset_def upsert_workflow_run_def upsert_workflow_step_def
  by (intro conjI in_session_again guarded_write_again; erule on_table_again[rotated 3];
      simp add: assets.second_is_first versions.second_is_first contracts.second_is_first profiles.second_is_first
        ml_sets.second_is_first flows.second_is_first flow_steps.second_is_first)

section \<open>The newest snapshots\<close>

text \<open>
  C1. The quality summary shows each data set version at most once, newest first, with a snapshot that no
  stored snapshot of the version is newer than; it is as long as the limit allows for the versions among the
  newest 4 * limit snapshots, and complete when these are all.
\<close>

theorem latest_versions_correct:
  assumes "latest_quality_summary env isof n db = Inr ds"
  shows "\<exists>out. ds = map (quality_snapshot_to_dict isof) out \<and> distinct (map version_of out) \<and>
    sorted_wrt (\<ge>) (map qs_created_at out) \<and>
    length out = min n (card (version_of ` set (newest qs_created_at (n * 4) (mx_snapshots db)))) \<and>
    (\<forall>r\<in>set out. r \<in> set (mx_snapshots db) \<and>
       (\<forall>s\<in>set (mx_snapshots db). version_of s = version_of r \<longrightarrow> qs_created_at s \<le> qs_created_at r)) \<and>
    (length (mx_snapshots db) \<le> n * 4 \<and> card (version_of ` set (mx_snapshots db)) \<le> n \<longrightarrow>
       version_of ` set out = version_of ` set (mx_snapshots db))"
proof -
  let ?rows = "mx_snapshots db"
  let ?L = "newest qs_created_at (n * 4) ?rows"
  let ?F = "firsts {} ?L"
  let ?out = "take n ?F"
  have ds: "ds = map (quality_snapshot_to_dict isof) ?out"
    using assms by (simp add: latest_quality_summary_def guarded_read_def latest_snapshots_eq split: option.splits)
  have dist: "distinct (map version_of ?F)" by (rule firsts_distinct)
  then have len: "length ?F = card (version_of ` set ?L)"
    using distinct_card[OF dist] firsts_versions[of "{}" ?L] by simp
  have sorted: "sorted_wrt (\<ge>) (map qs_created_at ?out)"
    using firsts_sorted[OF newest_sorted] by (simp add: take_map[symmetric] sorted_wrt_take)
  have best: "r \<in> set ?rows \<and> (\<forall>s\<in>set ?rows. version_of s = version_of r \<longrightarrow> qs_created_at s \<le> qs_created_at r)"
    if "r \<in> set ?out" for r
  proof -
    have r: "r \<in> set ?F" using that by (rule in_set_takeD)
    then have rL: "r \<in> set ?L" using firsts_set by blast
    have "qs_created_at s \<le> qs_created_at r" if "s \<in> set ?rows" "version_of s = version_of r" for s
    proof (cases "s \<in> set ?L")
      case True
      then show ?thesis by (rule firsts_newest[OF newest_sorted r _ that(2)])
    next
      case False
      then show ?thesis by (rule newest_rest[OF rL that(1)])
    qed
    moreover have "r \<in> set ?rows" using rL newest_set[of qs_created_at "n * 4" ?rows] by (rule subsetD[rotated])
    ultimately show ?thesis by simp
  qed
  have "version_of ` set ?out = version_of ` set ?rows"
    if "length ?rows \<le> n * 4" "card (version_of ` set ?rows) \<le> n"
  proof -
    have "set ?L = set ?rows" using newest_all[OF that(1), of qs_created_at] by (metis set_mset_mset)
    then show ?thesis using that(2) len firsts_versions[of "{}" ?L] by simp
  qed
  moreover have "distinct (map version_of ?out)" using dist by (metis distinct_take take_map)
  moreover have "length ?out = min n (card (version_of ` set ?L))" by (simp add: len)
  ultimately show ?thesis using ds sorted best by blast
qed

definition demo_snapshot :: "int \<Rightarrow> string \<Rightarrow> int \<Rightarrow> quality_snapshot_row" where
  "demo_snapshot i ver day = \<lparr>qs_id = i, qs_dataset_id = ''d'', qs_version = ver, qs_run_id = None, qs_quality_status = Some ''PASS'',
     qs_quality_score = None, qs_metrics_json = None, qs_created_at = (Date 2024 5 day, 0)\<rparr>"

definition demo_snapshots :: meta_db where
  "demo_snapshots = empty_meta\<lparr>mx_snapshots := [demo_snapshot 1 ''a'' 1, demo_snapshot 2 ''b'' 2, demo_snapshot 3 ''a'' 3]\<rparr>"

lemma latest_versions_correct_witness:
  "\<exists>ds out. latest_quality_summary (demo_meta_env True None) (\<lambda>t. []) 5 demo_snapshots = Inr ds \<and>
     ds = map (quality_snapshot_to_dict (\<lambda>t. [])) out \<and> length out = 2 \<and> distinct (map version_of out)"
proof -
  let ?ds = "map (quality_snapshot_to_dict (\<lambda>t. [])) (latest_snapshots 5 (mx_snapshots demo_snapshots))"
  have a: "latest_quality_summary (demo_meta_env True None) (\<lambda>t. []) 5 demo_snapshots = Inr ?ds"
    by (simp add: latest_quality_summary_def guarded_read_def demo_meta_env_def)
  obtain out where out: "?ds = map (quality_snapshot_to_dict (\<lambda>t. [])) out" "distinct (map version_of out)"
    using latest_versions_correct[OF a] by (elim exE conjE) 
  have "length (latest_snapshots 5 (mx_snapshots demo_snapshots)) = 2" by code_simp
  then have "length out = 2" using arg_cong[OF out(1), of length] by simp
  then show ?thesis using a out by blast
qed

section \<open>From a contract run to the facts\<close>

lemma run_found: "on_table_unique rd pt (insert_unique P mk) db = Inr (i, db') \<Longrightarrow> (\<And>t d. rd (pt t d) = t) \<Longrightarrow> (\<And>j. P (mk j)) \<Longrightarrow>
    find P (rd db') = Some (mk i) \<and> mk i \<in> set (rd db')"
  using find_none[of P "rd db"]
  by (auto simp: on_table_unique_def insert_unique_def insert_row_def list_ex_iff find_snoc split: if_splits)

lemma rule_payload_rule:
  "py_str (py_or (get d ''rule_id'') (VStr [])) = rid \<Longrightarrow> rid \<noteq> [] \<Longrightarrow>
    \<exists>f. rule_payload md5 r (st, VDict d) = Some f \<and> frr_run_id f = Some (qr_run_id r) \<and> frr_rule_id f = Some rid \<and>
      frr_status f = Some st \<and> frr_dt f = day_of_time (qr_started_at r)"
  by (simp add: rule_payload_def Let_def)

lemma rule_payload_status: "rule_payload md5 r (st, v) = Some f \<Longrightarrow> frr_status f = Some st"
  by (auto simp: rule_payload_def Let_def split: pyval.splits if_splits)

lemma in_map_filter: "x \<in> set xs \<Longrightarrow> f x = Some y \<Longrightarrow> y \<in> set (List.map_filter f xs)"
  by (force simp: List.map_filter_def)

text \<open>
  C1. A contract run that has been recorded reaches the facts of the warehouse: it has a start, given or
  computed, and in every window that contains its day the builder derives a fact for each failed and each
  warning rule with an id, and one for the run itself, all on that day; the other recorded rules
  give no fact.
\<close>

theorem contract_run_reaches_facts:
  assumes "record_qc_contract_run env p metrics failed warning all_rules db = (Inr (Some i), db')"
    and "wb_qc_runs wdb = mx_contract_runs db'"
  shows "\<exists>r started. find (\<lambda>r. qr_run_id r = qr_run_id p) (mx_contract_runs db') = Some r \<and> qr_id r = i \<and>
    run_started (mv_now env) p = Inr started \<and> qr_started_at r = Some started \<and>
    get (json_dict (qr_metrics_json r)) ''_rule_results'' = VList (map VDict (recorded_rules all_rules failed warning)) \<and>
    (\<forall>f\<in>set (run_payloads md5 r). frr_dt f = Some (fst started) \<and>
       (frr_status f \<in> {Some ''FAIL'', Some ''WARN''} \<or> f = summary_payload md5 r)) \<and>
    (\<forall>w. in_window w (fst started) \<longrightarrow>
       (\<forall>st d rid. (st = ''FAIL'' \<and> d \<in> set (or_nil failed) \<or> st = ''WARN'' \<and> d \<in> set (or_nil warning)) \<and>
          rid = py_str (py_or (get d ''rule_id'') (VStr [])) \<and> rid \<noteq> [] \<longrightarrow>
          (\<exists>f. (frr_rule_result_key f, f) \<in> set (rule_payloads md5 w wdb) \<and> frr_run_id f = Some (qr_run_id p) \<and>
             frr_rule_id f = Some rid \<and> frr_status f = Some st)) \<and>
       (\<exists>f. (frr_rule_result_key f, f) \<in> set (rule_payloads md5 w wdb) \<and> frr_run_id f = Some (qr_run_id p) \<and>
          frr_status f = Some (qr_status p)))"
proof -
  obtain started where st: "run_started (mv_now env) p = Inr started"
    using guarded_write_some[OF assms(1)[unfolded record_qc_contract_run_def]] by (auto split: sum.splits)
  define r where "r = p\<lparr>qr_id := i, qr_started_at := Some started, qr_finished_at := Some (run_finished (mv_now env) p),
      qr_metrics_json := Some (VDict (dict_set ''_rule_results''
        (VList (map VDict (recorded_rules all_rules failed warning))) (or_nil metrics))),
      qr_failed_rules_json := Some (dict_list failed), qr_warning_rules_json := Some (dict_list warning),
      qr_created_at := mv_now env\<rparr>"
  have found: "find (\<lambda>r. qr_run_id r = qr_run_id p) (mx_contract_runs db') = Some r \<and> r \<in> set (mx_contract_runs db')"
  proof -
    note stored = run_found[OF guarded_write_some[OF assms(1)[unfolded record_qc_contract_run_def], unfolded st sum.case]]
    show ?thesis unfolding r_def by (rule stored) simp_all
  qed
  have fields: "qr_id r = i" "qr_run_id r = qr_run_id p" "qr_status r = qr_status p" "qr_started_at r = Some started"
    "json_list (qr_failed_rules_json r) = map VDict (or_nil failed)" "json_list (qr_warning_rules_json r) = map VDict (or_nil warning)"
    "get (json_dict (qr_metrics_json r)) ''_rule_results'' = VList (map VDict (recorded_rules all_rules failed warning))"
    by (simp_all add: r_def json_list_def json_dict_def dict_list_def get_set)
  have in_facts: "(frr_rule_result_key f, f) \<in> set (rule_payloads md5 w wdb)"
    if "f \<in> set (run_payloads md5 r)" "in_window w (fst started)" for f w
    using that found fields(4) assms(2) by (force simp: rule_payloads_def opt_in_window_def day_of_time_def)
  have rule: "\<exists>f. f \<in> set (run_payloads md5 r) \<and> frr_run_id f = Some (qr_run_id p) \<and> frr_rule_id f = Some rid \<and> frr_status f = Some s"
    if listed: "s = ''FAIL'' \<and> d \<in> set (or_nil failed) \<or> s = ''WARN'' \<and> d \<in> set (or_nil warning)"
      and rid: "rid = py_str (py_or (get d ''rule_id'') (VStr []))" "rid \<noteq> []" for s d rid
  proof -
    obtain f where f: "rule_payload md5 r (s, VDict d) = Some f" "frr_run_id f = Some (qr_run_id r)" "frr_rule_id f = Some rid"
      "frr_status f = Some s"
      using rule_payload_rule[OF rid(1)[symmetric] rid(2), of md5 r s] by blast
    have "(s, VDict d) \<in> set (map (\<lambda>i. (''FAIL'', i)) (map VDict (or_nil failed)) @ map (\<lambda>i. (''WARN'', i)) (map VDict (or_nil warning)))"
      using listed by auto
    from in_map_filter[where f = "rule_payload md5 r", OF this f(1)] have "f \<in> set (run_payloads md5 r)"
      unfolding run_payloads_def fields set_append[of _ "[summary_payload md5 r]"] by (rule UnI1)
    then show ?thesis using f fields(2) by auto
  qed
  have summary: "summary_payload md5 r \<in> set (run_payloads md5 r)" by (simp add: run_payloads_def)
  have shape: "frr_dt f = Some (fst started) \<and> (frr_status f \<in> {Some ''FAIL'', Some ''WARN''} \<or> f = summary_payload md5 r)"
    if "f \<in> set (run_payloads md5 r)" for f
    using that fields(4) by (auto simp: run_payloads_def List.map_filter_def rule_payload_def summary_payload_def day_of_time_def Let_def
        split: pyval.splits if_splits)
  have rules_in: "\<exists>f. (frr_rule_result_key f, f) \<in> set (rule_payloads md5 w wdb) \<and> frr_run_id f = Some (qr_run_id p) \<and>
      frr_rule_id f = Some rid \<and> frr_status f = Some s"
    if "in_window w (fst started)" "(s = ''FAIL'' \<and> d \<in> set (or_nil failed) \<or> s = ''WARN'' \<and> d \<in> set (or_nil warning)) \<and>
      rid = py_str (py_or (get d ''rule_id'') (VStr [])) \<and> rid \<noteq> []" for w s d rid
    using rule[of s d rid] in_facts[OF _ that(1)] that(2) by blast
  have summary_in: "\<exists>f. (frr_rule_result_key f, f) \<in> set (rule_payloads md5 w wdb) \<and> frr_run_id f = Some (qr_run_id p) \<and>
      frr_status f = Some (qr_status p)" if "in_window w (fst started)" for w
    using in_facts[OF summary that] fields by (intro exI[of _ "summary_payload md5 r"]) (simp add: summary_payload_def)
  show ?thesis
    by (intro exI[of _ r] exI[of _ started] conjI allI impI ballI)
      (rule found[THEN conjunct1], rule fields, rule st, rule fields, rule fields, rule shape[THEN conjunct1], assumption,
       rule shape[THEN conjunct2], assumption, rule rules_in, assumption, assumption, rule summary_in, assumption)
qed

definition demo_contract_run :: qc_contract_run_row where
  "demo_contract_run = \<lparr>qr_id = 0, qr_run_id = ''q'', qr_contract_id = ''c'', qr_dataset_id = None, qr_version = None,
     qr_dataset_family = None, qr_dataset_uri = None, qr_status = ''FAIL'', qr_started_at = None,
     qr_finished_at = None, qr_duration_sec = None, qr_metrics_json = None, qr_failed_rules_json = None,
     qr_warning_rules_json = None, qr_artifacts_uri = None, qr_error_message = None, qr_created_at = (Date 2024 5 1, 0)\<rparr>"

definition demo_recorded_run :: platform_result where
  "demo_recorded_run = record_qc_contract_run (demo_meta_env False None) demo_contract_run None
     (Some [[(''rule_id'', VStr ''r1'')]]) None None empty_meta"

lemma demo_recorded: "fst demo_recorded_run = Inr (Some 1)"
  by (simp add: demo_recorded_run_def record_qc_contract_run_def guarded_write_def ensure_tables_def inspect_tables_def missing_of_def
      demo_meta_env_def platform_tables_def v1_5_tables_def in_session_def on_table_unique_def insert_unique_def insert_row_def
      next_id_def empty_meta_def run_started_def run_finished_def demo_contract_run_def Let_def)

lemma contract_run_reaches_facts_witness:
  "\<exists>f. (frr_rule_result_key f, f) \<in> set (rule_payloads (\<lambda>s. s) \<lparr>dr_start = Date 2024 5 2, dr_end = Date 2024 5 2\<rparr>
       (empty_wh\<lparr>wb_qc_runs := mx_contract_runs (snd demo_recorded_run)\<rparr>)) \<and>
     frr_run_id f = Some ''q'' \<and> frr_rule_id f = Some ''r1'' \<and> frr_status f = Some ''FAIL''"
proof -
  let ?w = "\<lparr>dr_start = Date 2024 5 2, dr_end = Date 2024 5 2\<rparr>"
  let ?wdb = "empty_wh\<lparr>wb_qc_runs := mx_contract_runs (snd demo_recorded_run)\<rparr>"
  have rec: "record_qc_contract_run (demo_meta_env False None) demo_contract_run None (Some [[(''rule_id'', VStr ''r1'')]]) None None
      empty_meta = (Inr (Some 1), snd demo_recorded_run)"
    using demo_recorded unfolding demo_recorded_run_def by (metis prod.collapse)
  have "run_started (mv_now (demo_meta_env False None)) demo_contract_run = Inr (Date 2024 5 2, 0)"
    by (simp add: run_started_def run_finished_def demo_contract_run_def demo_meta_env_def)
  moreover have "in_window ?w (Date 2024 5 2)" by (simp add: in_window_def)
  moreover have "''r1'' = py_str (py_or (get [(''rule_id'', VStr ''r1'')] ''rule_id'') (VStr []))" by code_simp
  moreover have "[(''rule_id'', VStr ''r1'')] \<in> set (or_nil (Some [[(''rule_id'', VStr ''r1'')]]))" by (simp add: or_nil_def)
  moreover have "qr_run_id demo_contract_run = ''q''" by (simp add: demo_contract_run_def)
  moreover have "wb_qc_runs ?wdb = mx_contract_runs (snd demo_recorded_run)" by simp
  ultimately show ?thesis
    using contract_run_reaches_facts[OF rec, of ?wdb "\<lambda>s. s"] by fastforce
qed

section \<open>The start of a run\<close>

lemma prev_day_next: "date_ok d \<Longrightarrow> prev_day d = Inr e \<Longrightarrow> date_ok e \<and> next_day e = Inr d"
proof (cases d)
  case (Date y m k)
  assume a: "date_ok d" "prev_day d = Inr e"
  have december: "days_in_month x 12 = 31" for x by (simp add: days_in_month_def)
  have "1 \<le> days_in_month y (m - 1)" by (simp add: days_in_month_def)
  then show ?thesis using a Date
    by (auto simp: prev_day_def next_day_def date_ok_def december max_year_def split: if_splits)
qed

lemma days_back_ordinal: "date_ok d \<Longrightarrow> days_back k d = Inr e \<Longrightarrow> date_ok e \<and> ordinal e = ordinal d - int k"
proof (induction k arbitrary: d)
  case (Suc k)
  then obtain c where c: "prev_day d = Inr c" "days_back k c = Inr e" by (auto split: sum.splits)
  with Suc.prems(1) have "date_ok c" "ordinal d = ordinal c + 1" using prev_day_next next_day_ordinal by blast+
  then show ?case using Suc.IH[OF _ c(2)] by simp
qed simp

lemma seconds_of_day: "0 \<le> x - of_int \<lfloor>x / 86400\<rfloor> * 86400" "x - of_int \<lfloor>x / 86400\<rfloor> * 86400 < 86400" for x :: rat
proof -
  let ?f = "of_int \<lfloor>x / 86400\<rfloor> :: rat"
  have f: "?f \<le> x / 86400" by (rule of_int_floor_le)
  have g: "x / 86400 < ?f + 1" by linarith
  have "?f * 86400 \<le> x" by (rule iffD1[OF pos_le_divide_eq, OF _ f]) simp
  then show "0 \<le> x - ?f * 86400" by simp
  from g have "x < (?f + 1) * 86400" by (simp only: pos_divide_less_eq zero_less_numeral)
  then show "x - ?f * 86400 < 86400" by (simp add: algebra_simps)
qed

lemma minus_seconds_exact:
  assumes "date_ok (fst t)" "0 \<le> snd t" "snd t < 86400" "0 \<le> py_round 6 s" "minus_seconds t s = Inr u"
  shows "date_ok (fst u) \<and> 0 \<le> snd u \<and> snd u < 86400 \<and> seconds_between u t = py_round 6 s"
proof -
  let ?x = "snd t - py_round 6 s"
  let ?k = "nat (- \<lfloor>?x / 86400\<rfloor>)"
  obtain e where e: "days_back ?k (fst t) = Inr e" "u = (e, ?x + of_nat ?k * 86400)"
    using assms(5) by (auto simp: minus_seconds_def Let_def split: sum.splits)
  have "?x / 86400 < 1" using assms(3,4) by simp
  then have "\<lfloor>?x / 86400\<rfloor> \<le> 0" by (simp add: floor_le_iff)
  then have k: "of_nat ?k = - (of_int \<lfloor>?x / 86400\<rfloor> :: rat)" by simp
  have "0 \<le> ?x + of_nat ?k * 86400 \<and> ?x + of_nat ?k * 86400 < 86400"
    unfolding k using seconds_of_day[of ?x] by simp
  moreover from days_back_ordinal[OF assms(1) e(1)] have "date_ok e" "ordinal e = ordinal (fst t) - int ?k" by simp_all
  ultimately show ?thesis using k by (simp add: e(2) seconds_between_def algebra_simps del: of_nat_nat)
qed

section \<open>The table of shards that the shard runner sees\<close>

definition shard_of :: "(datetime \<Rightarrow> string) \<Rightarrow> etl_shard_row \<Rightarrow> shard_row" where
  "shard_of isof r = \<lparr>sr_index = esr_shard_index r, sr_status = esr_status r, sr_dataset_count = esr_dataset_count r,
     sr_input_bytes = esr_input_bytes r, sr_started_at = map_option isof (esr_started_at r),
     sr_finished_at = map_option isof (esr_finished_at r), sr_duration = esr_duration_sec r, sr_succeeded = esr_succeeded r,
     sr_failed = esr_failed r, sr_skipped = esr_skipped r, sr_summary_uri = esr_summary_uri r, sr_error = esr_error_message r,
     sr_metrics = (case esr_metrics_json r of Some (VDict d) \<Rightarrow> Some d | _ \<Rightarrow> None)\<rparr>"

definition shard_key :: "etl_shard_row \<Rightarrow> string \<times> string" where
  "shard_key r = (esr_plan_id r, esr_shard_id r)"

definition shard_table :: "(datetime \<Rightarrow> string) \<Rightarrow> etl_shard_row list \<Rightarrow> (string \<times> string) \<rightharpoonup> shard_row" where
  "shard_table isof t = map_of (map (\<lambda>r. (shard_key r, shard_of isof r)) t)"

lemma keep_map_option: "map_option f (keep a b) = keep (map_option f a) (map_option f b)"
  by (cases b) simp_all

lemma shard_of_new: "shard_of isof (new_shard_entry now p m i) = new_shard_row ((shard_of isof p)\<lparr>sr_metrics := m\<rparr>)"
  by (simp add: shard_of_def new_shard_entry_def new_shard_row_def json_or_none_def split: option.splits list.splits)

lemma shard_of_update: "json_ok (esr_metrics_json r) \<Longrightarrow>
    shard_of isof (update_shard p m r) = update_shard_row ((shard_of isof p)\<lparr>sr_metrics := m\<rparr>) (shard_of isof r)"
  by (simp add: shard_of_def update_shard_def update_shard_row_def keep_map_option json_update_def json_dict_def json_ok_def
      split: option.splits pyval.splits)

lemma map_of_rows: "map_of (map (\<lambda>r. (key r, f r)) t) k = map_option f (find (\<lambda>r. key r = k) t)"
  by (induction t) auto

lemma map_of_update_first:
  "(\<And>r. P r \<longleftrightarrow> key r = k) \<Longrightarrow> (\<And>r. P r \<Longrightarrow> P (u r)) \<Longrightarrow> find P t = Some r \<Longrightarrow>
    map_of (map (\<lambda>r. (key r, f r)) (update_first P u t)) = (map_of (map (\<lambda>r. (key r, f r)) t))(k \<mapsto> f (u r))"
  by (induction t) (auto split: if_splits)

text \<open>
  C1. The write of a shard row by the access layer refines the one that the shard runner is verified
  with: seen as the map from plan and shard to the row, the stored table changes as the table of the
  shard runner does, for the first write of a shard and for the later ones.
\<close>

theorem shard_write_refines:
  assumes "store_etl_shard env p metrics db = (Inr (Some i), db')"
    and "list_all (\<lambda>r. json_ok (esr_metrics_json r)) (mx_shards db)"
    and "w_db w" "shard_table isof (mx_shards db) = map_of (w_shards w)"
  shows "shard_table isof (mx_shards db') =
    map_of (w_shards (record_etl_shard (esr_plan_id p) (esr_shard_id p) ((shard_of isof p)\<lparr>sr_metrics := metrics\<rparr>) w))"
proof -
  let ?k = "(esr_plan_id p, esr_shard_id p)"
  let ?mk = "new_shard_entry (mv_now env) p metrics"
  have stored: "mx_shards db' = snd (upsert_row (same_shard p) esr_id ?mk (update_shard p metrics) (mx_shards db))"
    using guarded_write_some[OF assms(1)[unfolded store_etl_shard_def]] by (auto simp: on_table_def split: prod.splits)
  have same: "same_shard p r \<longleftrightarrow> shard_key r = ?k" for r by (auto simp: same_shard_def shard_key_def)
  have lookup: "map_of (w_shards w) ?k = map_option (shard_of isof) (find (same_shard p) (mx_shards db))"
    unfolding assms(4)[symmetric] shard_table_def map_of_rows same ..
  show ?thesis
  proof (cases "find (same_shard p) (mx_shards db)")
    case None
    have "map_of (map (\<lambda>r. (shard_key r, shard_of isof r)) (mx_shards db @ [?mk j])) =
        (map_of (map (\<lambda>r. (shard_key r, shard_of isof r)) (mx_shards db)))(?k \<mapsto> shard_of isof (?mk j))" for j
    proof -
      have "map_of (map (\<lambda>r. (shard_key r, shard_of isof r)) (mx_shards db)) ?k = None"
        using None unfolding map_of_rows same by simp
      moreover have "shard_key (?mk j) = ?k" by (simp add: shard_key_def new_shard_entry_def)
      ultimately show ?thesis by (auto simp: map_add_def fun_eq_iff split: option.splits)
    qed
    then show ?thesis using None lookup assms(3,4) stored
      by (simp add: upsert_row_def insert_row_def shard_table_def record_etl_shard_def dict_upsert_def shard_of_new)
  next
    case (Some r)
    then have "r \<in> set (mx_shards db)" by (auto simp: find_Some_iff)
    then have "json_ok (esr_metrics_json r)" using assms(2) by (auto simp: list_all_iff)
    moreover have "map_of (map (\<lambda>r. (shard_key r, shard_of isof r)) (update_first (same_shard p) (update_shard p metrics) (mx_shards db))) =
        (map_of (map (\<lambda>r. (shard_key r, shard_of isof r)) (mx_shards db)))(?k \<mapsto> shard_of isof (update_shard p metrics r))"
      by (rule map_of_update_first[OF same shards.match_upd Some])
    ultimately show ?thesis using Some lookup assms(3,4) stored
      by (simp add: upsert_row_def shard_table_def record_etl_shard_def dict_upsert_def shard_of_update)
  qed
qed

definition demo_shard_entry :: etl_shard_row where
  "demo_shard_entry = \<lparr>esr_id = 0, esr_plan_id = ''p'', esr_shard_id = ''s'', esr_shard_index = 0, esr_dataset_count = Some 2,
     esr_input_bytes = None, esr_status = ''RUNNING'', esr_started_at = Some (Date 2024 5 2, 0), esr_finished_at = None,
     esr_duration_sec = None, esr_succeeded = None, esr_failed = None, esr_skipped = None, esr_summary_uri = None,
     esr_error_message = None, esr_metrics_json = None, esr_created_at = (Date 2024 5 2, 0)\<rparr>"

definition demo_shard_world :: shard_world where
  "demo_shard_world = \<lparr>w_db = True, w_events = [], w_perf = [], w_shards = [], w_docs = []\<rparr>"

lemma shard_write_refines_witness:
  "shard_table (\<lambda>t. ''now'') (mx_shards (snd (store_etl_shard (demo_meta_env True None) demo_shard_entry None empty_meta))) =
     map_of (w_shards (record_etl_shard ''p'' ''s'' (shard_of (\<lambda>t. ''now'') demo_shard_entry) demo_shard_world))"
proof -
  let ?r = "store_etl_shard (demo_meta_env True None) demo_shard_entry None empty_meta"
  have "fst ?r = Inr (Some 1)"
    by (simp add: store_etl_shard_def guarded_write_def ensure_tables_def inspect_tables_def missing_of_def
      demo_meta_env_def platform_tables_def v1_5_tables_def in_session_def on_table_def upsert_row_def insert_row_def
      next_id_def empty_meta_def)
  then have r: "?r = (Inr (Some 1), snd ?r)" by (simp add: prod_eq_iff)
  have "(shard_of (\<lambda>t. ''now'') demo_shard_entry)\<lparr>sr_metrics := None\<rparr> = shard_of (\<lambda>t. ''now'') demo_shard_entry"
    by (simp add: shard_of_def demo_shard_entry_def)
  then show ?thesis
    using shard_write_refines[OF r, of demo_shard_world "\<lambda>t. ''now''"]
    by (simp add: demo_shard_world_def empty_meta_def shard_table_def demo_shard_entry_def)
qed

section \<open>Corners\<close>

text \<open>The count of a batch of edges is returned in soft mode also when the batch has been rolled back.\<close>

lemma lineage_count_overstates:
  "mv_soft env \<Longrightarrow> mv_open env = None \<Longrightarrow> add_edges (mv_now env) edges (mx_edges db) = Inr t \<Longrightarrow>
    mv_session env ''record_lineage_edges'' = Some (Db_error m False) \<Longrightarrow>
    record_lineage_edges env edges db = (Inr (int (length edges)), db)"
  by (simp add: record_lineage_edges_def recover_count_def recover_def handle_write_error_def lake_handles_def)

text \<open>When the lake tables are missing, a soft write of the first tables returns None, and one of the later tables raises.\<close>

lemma missing_lake_tables_raise:
  "mv_soft env \<Longrightarrow> mv_open env = Some (Lake_unavailable m) \<Longrightarrow>
    fst (record_lake_asset env p db) = Inr None \<and> fst (record_argo_workflow env q k db) = Inl (Lake_unavailable m)"
  by (simp add: record_lake_asset_def record_argo_workflow_def in_session_def guarded_write_def ensure_tables_def inspect_tables_def
      is_db_error_def recover_def lake_handles_def table_handles_def handle_write_error_def)

text \<open>A workflow written without its namespace is merged into the first one of that name, whatever its namespace.\<close>

lemma flow_without_namespace:
  "find (\<lambda>r. wr_workflow_name r = wr_workflow_name p) t = Some r \<Longrightarrow> wr_workflow_namespace p = None \<Longrightarrow>
    fst (upsert_row (same_flow (wr_workflow_name p) (wr_workflow_namespace p)) wr_id mk upd t) = wr_id r"
  by (simp add: upsert_row_def same_flow_def[abs_def] given_opt_def)

end
