(* ===== verification/Etl_Runner.thy ===== *)
theory Etl_Runner
  imports Metadata_Service Json_Docs
begin

text \<open>
  \<^verbatim>\<open>src/robot_dh/etl/runner.py\<close>: one data set from raw through ods and dwd to ads, and the scan of a raw
  root. The three steps, which work on frames, are parameters: each gets its request and the world, and
  answers its result or raises. The world is the metadata database and the documents of the lake and of
  the summary directory. Clock readings and random suffixes are fields of the environment.
\<close>

section \<open>Requests and results\<close>

definition valid_phases :: "string list" where
  "valid_phases = [''normalize'', ''features'', ''ads'', ''all'']"

record etl_world =
  ew_db :: meta_db
  ew_docs :: json_docs

record normalize_request =
  nq_dataset_uri :: string
  nq_output_uri :: string
  nq_dataset_id :: string
  nq_version :: string
  nq_job_id :: string
  nq_resume :: bool
  nq_force :: bool
  nq_step_name :: string

record feature_request =
  fq_input_uri :: string
  fq_output_uri :: string
  fq_job_id :: string

record ads_request =
  aq_input_root_uri :: string
  aq_output_uri :: string
  aq_job_id :: string

text \<open>Of the results the runner reads three fields; \<open>asdict\<close> of a result is the whole.\<close>

record normalize_out =
  no_num_samples :: int
  no_fields :: pydict

record feature_out =
  fo_num_press_events :: int
  fo_job_status :: string
  fo_fields :: pydict

record etl_steps =
  es_normalize :: "normalize_request \<Rightarrow> (etl_world, normalize_out) act"
  es_features :: "feature_request \<Rightarrow> (etl_world, feature_out) act"
  es_ads :: "ads_request \<Rightarrow> (etl_world, pydict) act"

record etl_env =
  ee_lake :: lake_env
  ee_start :: meta_env
  ee_end :: meta_env
  ee_suffix :: string
  ee_elapsed :: rat

record etl_args =
  ea_dataset_uri :: string
  ea_dataset_id :: "string option"
  ea_version :: "string option"
  ea_lake_root_uri :: string
  ea_build_ads :: bool
  ea_phase :: string
  ea_job_id :: "string option"
  ea_resume :: bool
  ea_force :: bool
  ea_summary_dir :: "string option"

record etl_result =
  et_dataset_id :: string
  et_version :: string
  et_raw_uri :: string
  et_ods_uri :: string
  et_dwd_uri :: string
  et_ads_uri :: "string option"
  et_job_id :: string
  et_status :: string
  et_duration_sec :: rat
  et_normalize :: "normalize_out option"
  et_features :: "feature_out option"
  et_ads :: "pydict option"
  et_error :: "string option"
  et_summary_uri :: "string option"
  et_phase :: string

definition of_opt_dict :: "pydict option \<Rightarrow> pyval" where
  "of_opt_dict d = (case d of None \<Rightarrow> VNone | Some x \<Rightarrow> VDict x)"

definition etl_result_to_dict :: "etl_result \<Rightarrow> pydict" where
  "etl_result_to_dict r =
     [(''dataset_id'', VStr (et_dataset_id r)), (''version'', VStr (et_version r)), (''raw_uri'', VStr (et_raw_uri r)),
      (''ods_uri'', VStr (et_ods_uri r)), (''dwd_uri'', VStr (et_dwd_uri r)), (''ads_uri'', of_opt_str (et_ads_uri r)),
      (''job_id'', VStr (et_job_id r)), (''status'', VStr (et_status r)), (''duration_sec'', VFloat (et_duration_sec r)),
      (''error'', of_opt_str (et_error r)), (''normalize'', of_opt_dict (map_option no_fields (et_normalize r))),
      (''features'', of_opt_dict (map_option fo_fields (et_features r))), (''ads'', of_opt_dict (et_ads r)),
      (''summary_uri'', of_opt_str (et_summary_uri r)), (''phase'', VStr (et_phase r))]"

section \<open>Names\<close>

definition resolve_lake_layout :: "string \<Rightarrow> string \<Rightarrow> string \<Rightarrow> (string \<times> string \<times> string) result" where
  "resolve_lake_layout lake_root dataset_id version =
     rbind (join_uri lake_root [Some ''ods'', Some dataset_id, Some version]) (\<lambda>ods.
     rbind (join_uri lake_root [Some ''dwd'', Some dataset_id, Some version]) (\<lambda>dwd.
     rbind (join_uri lake_root [Some ''ads'', Some ''quality'']) (\<lambda>ads. Inr (ods, dwd, ads))))"

text \<open>The two parts after the first \<open>raw\<close>, or else the last two parts.\<close>

definition identity_of_parts :: "string list \<Rightarrow> string option \<times> string option" where
  "identity_of_parts parts = (case dropWhile (\<lambda>p. p \<noteq> ''raw'') parts of
     _ # rest \<Rightarrow> (case rest of [] \<Rightarrow> (None, None) | [d] \<Rightarrow> (Some d, None) | d # v # _ \<Rightarrow> (Some d, Some v))
   | [] \<Rightarrow> (case rev parts of v # d # _ \<Rightarrow> (Some d, Some v) | _ \<Rightarrow> (None, None)))"

definition infer_dataset_identity :: "string \<Rightarrow> (string option \<times> string option) result" where
  "infer_dataset_identity dataset_uri = rbind (parse_uri dataset_uri) (\<lambda>u.
     Inr (identity_of_parts (segs (if is_s3_uri dataset_uri then u_key u else u_local_path u))))"

definition runs_normalize :: "etl_args \<Rightarrow> bool" where
  "runs_normalize a = (ea_phase a \<in> {''normalize'', ''all''})"

definition runs_features :: "etl_args \<Rightarrow> bool" where
  "runs_features a = (ea_phase a \<in> {''features'', ''all''})"

definition runs_ads :: "etl_args \<Rightarrow> bool" where
  "runs_ads a = (ea_phase a = ''ads'' \<or> ea_phase a = ''all'' \<and> ea_build_ads a)"

section \<open>One data set\<close>

text \<open>A call of the warehouse: its errors are exceptions.\<close>

definition meta_exc :: "meta_error \<Rightarrow> py_error" where
  "meta_exc err = (case err of
     Db_error m drift \<Rightarrow> SQLAlchemyError m
   | Schema_missing m drift \<Rightarrow> RuntimeError m
   | Lake_unavailable m \<Rightarrow> RuntimeError m
   | Raised e \<Rightarrow> e)"

definition warehouse_call :: "(meta_db \<Rightarrow> (meta_error + 'a) \<times> meta_db) \<Rightarrow> (etl_world, 'a) act" where
  "warehouse_call f w = (case f (ew_db w) of (r, db) \<Rightarrow> (map_sum meta_exc id r, w\<lparr>ew_db := db\<rparr>))"

text \<open>The result is filled in while the steps run: what is there when a step raises stays.\<close>

type_synonym run_state = "etl_result \<times> etl_world"

definition in_world :: "(etl_world, 'a) act \<Rightarrow> (run_state, 'a) act" where
  "in_world f s = (case f (snd s) of (r, w) \<Rightarrow> (r, (fst s, w)))"

definition set_result :: "(etl_result \<Rightarrow> etl_result) \<Rightarrow> (run_state, unit) act" where
  "set_result f = act_modify (\<lambda>(r, w). (f r, w))"

definition version_args :: "string \<Rightarrow> string \<Rightarrow> string \<Rightarrow> string \<Rightarrow> dataset_version_row" where
  "version_args dataset_id version raw_uri status = \<lparr>dv_id = 0, dv_dataset_id = dataset_id, dv_version = version,
     dv_raw_uri = Some raw_uri, dv_ods_uri = None, dv_dwd_uri = None, dv_status = Some status,
     dv_created_at = (Date 1 1 1, 0), dv_updated_at = (Date 1 1 1, 0)\<rparr>"

definition normalize_step :: "etl_steps \<Rightarrow> etl_args \<Rightarrow> etl_result \<Rightarrow> (run_state, unit) act" where
  "normalize_step steps a r = (if runs_normalize a then
     act_bind (in_world (es_normalize steps \<lparr>nq_dataset_uri = ea_dataset_uri a, nq_output_uri = et_ods_uri r,
         nq_dataset_id = et_dataset_id r, nq_version = et_version r, nq_job_id = et_job_id r @ ''::normalize'',
         nq_resume = ea_resume a, nq_force = ea_force a,
         nq_step_name = et_dataset_id r @ ''-'' @ et_version r @ ''-normalize''\<rparr>))
       (\<lambda>n. set_result (\<lambda>r. r\<lparr>et_normalize := Some n\<rparr>)) else act_return ())"

definition features_step :: "etl_steps \<Rightarrow> etl_args \<Rightarrow> etl_result \<Rightarrow> (run_state, unit) act" where
  "features_step steps a r = (if runs_features a then
     act_bind (in_world (es_features steps \<lparr>fq_input_uri = et_ods_uri r, fq_output_uri = et_dwd_uri r,
         fq_job_id = et_job_id r @ ''::features''\<rparr>))
       (\<lambda>f. set_result (\<lambda>r. r\<lparr>et_features := Some f\<rparr>)) else act_return ())"

definition ads_step :: "etl_steps \<Rightarrow> etl_args \<Rightarrow> etl_result \<Rightarrow> string \<Rightarrow> (run_state, unit) act" where
  "ads_step steps a r ads_uri = (if runs_ads a then
     act_bind (act_lift (join_uri (ea_lake_root_uri a) [Some ''dwd''])) (\<lambda>dwd_root.
     act_bind (in_world (es_ads steps \<lparr>aq_input_root_uri = dwd_root, aq_output_uri = ads_uri, aq_job_id = et_job_id r @ ''::ads''\<rparr>))
       (\<lambda>d. set_result (\<lambda>r. r\<lparr>et_ads := Some d\<rparr>))) else act_return ())"

definition final_run_status :: "etl_result \<Rightarrow> string" where
  "final_run_status r = (case et_features r of
     Some f \<Rightarrow> if fo_job_status f = ''WARN'' then ''WARN'' else ''OK'' | None \<Rightarrow> ''OK'')"

definition finish_metrics :: "etl_env \<Rightarrow> etl_args \<Rightarrow> etl_result \<Rightarrow> pydict" where
  "finish_metrics env a r =
     [(''normalize_rows'', VInt (case et_normalize r of Some n \<Rightarrow> no_num_samples n | None \<Rightarrow> 0)),
      (''features_press_count'', VInt (case et_features r of Some f \<Rightarrow> fo_num_press_events f | None \<Rightarrow> 0)),
      (''duration_ms'', VInt (trunc_rat (ee_elapsed env * 1000))), (''phase'', VStr (ea_phase a))]"

definition finish_step :: "etl_env \<Rightarrow> etl_args \<Rightarrow> (run_state, unit) act" where
  "finish_step env a = act_bind (set_result (\<lambda>r. r\<lparr>et_status := final_run_status r, et_duration_sec := ee_elapsed env\<rparr>)) (\<lambda>_.
     act_bind (act_read (\<lambda>(r, w). Inr r)) (\<lambda>r.
     act_bind (in_world (warehouse_call (record_etl_job_finish (ee_end env) (et_job_id r) (et_status r) (Some (finish_metrics env a r)) None))) (\<lambda>_.
     if runs_features a then
       act_bind (in_world (warehouse_call (record_lineage_edge (ee_end env) (ea_dataset_uri a) (et_dwd_uri r) (et_job_id r)
         (if ea_phase a = ''all'' then ''etl_run'' else ''etl_run.'' @ ea_phase a) None))) (\<lambda>_. act_return ())
     else act_return ())))"

definition run_body :: "etl_env \<Rightarrow> etl_steps \<Rightarrow> etl_args \<Rightarrow> etl_result \<Rightarrow> string \<Rightarrow> (run_state, unit) act" where
  "run_body env steps a r ads_uri =
     act_bind (in_world (warehouse_call (upsert_dataset_version (ee_start env)
         (version_args (et_dataset_id r) (et_version r) (ea_dataset_uri a) ''discovered'')))) (\<lambda>_.
     act_bind (normalize_step steps a r) (\<lambda>_.
     act_bind (features_step steps a r) (\<lambda>_.
     act_bind (ads_step steps a r ads_uri) (\<lambda>_. finish_step env a))))"

text \<open>The \<open>except\<close> clause, and the summary document.\<close>

definition fail_run :: "etl_env \<Rightarrow> py_error \<Rightarrow> (run_state, unit) act" where
  "fail_run env err = act_bind (set_result (\<lambda>r. r\<lparr>et_status := ''FAIL'', et_duration_sec := ee_elapsed env, et_error := Some (err_text err)\<rparr>)) (\<lambda>_.
     act_bind (act_read (\<lambda>(r, w). Inr (et_job_id r))) (\<lambda>job_id.
     act_bind (in_world (warehouse_call (record_etl_job_finish (ee_end env) job_id ''FAIL'' None (Some (err_text err))))) (\<lambda>_. act_return ())))"

definition try_run :: "etl_env \<Rightarrow> (run_state, unit) act \<Rightarrow> (run_state, unit) act" where
  "try_run env body s = (case body s of (Inl err, s') \<Rightarrow> fail_run env err s' | (Inr u, s') \<Rightarrow> (Inr u, s'))"

definition save_summary :: "etl_args \<Rightarrow> (run_state, unit) act" where
  "save_summary a = (case ea_summary_dir a of
     None \<Rightarrow> act_return ()
   | Some d \<Rightarrow> act_modify (\<lambda>(r, w).
       (r\<lparr>et_summary_uri := Some (posix d [''etl_summary.json''])\<rparr>,
        w\<lparr>ew_docs := dict_set (posix d [''etl_summary.json'']) (etl_result_to_dict r) (ew_docs w)\<rparr>)))"

definition first_result :: "etl_args \<Rightarrow> string \<Rightarrow> string \<Rightarrow> string \<Rightarrow> string \<times> string \<times> string \<Rightarrow> etl_result" where
  "first_result a ds ver job_id layout = (case layout of (ods, dwd, ads) \<Rightarrow>
     \<lparr>et_dataset_id = ds, et_version = ver, et_raw_uri = ea_dataset_uri a, et_ods_uri = ods, et_dwd_uri = dwd,
      et_ads_uri = (if ea_build_ads a \<or> ea_phase a = ''ads'' then Some ads else None), et_job_id = job_id, et_status = ''RUNNING'',
      et_duration_sec = 0, et_normalize = None, et_features = None, et_ads = None, et_error = None, et_summary_uri = None,
      et_phase = ea_phase a\<rparr>)"

text \<open>The identity of the run: \<open>dataset_id or inferred\<close>, \<open>version or inferred or "v1"\<close>.\<close>

definition run_identity :: "etl_args \<Rightarrow> (string \<times> string) result" where
  "run_identity a = rbind (infer_dataset_identity (ea_dataset_uri a)) (\<lambda>(ids, iver).
     let ds = opt_or (ea_dataset_id a) (opt_or ids []); ver = opt_or (ea_version a) (opt_or iver ''v1'')
     in if ds = [] then Inl (ValueError (''etl_run: cannot infer dataset_id from '' @ ea_dataset_uri a @ ''; please pass --dataset-id''))
        else Inr (ds, ver))"

definition run_job_id :: "etl_env \<Rightarrow> etl_args \<Rightarrow> string \<Rightarrow> string \<Rightarrow> string" where
  "run_job_id env a ds ver = opt_or (ea_job_id a) (''etl-run-'' @ ds @ ''-'' @ ver @ ''-'' @ ee_suffix env)"

text \<open>\<open>repr\<close> of a string: in double quotes when it has single quotes only, with escapes.\<close>

definition repr_char :: "char \<Rightarrow> char \<Rightarrow> string" where
  "repr_char q c = (let n = of_char c :: nat in
     if c = q \<or> n = 92 then [CHR 0x5C, c]
     else if n = 10 then CHR 0x5C # ''n'' else if n = 13 then CHR 0x5C # ''r'' else if n = 9 then CHR 0x5C # ''t''
     else if n < 32 \<or> n = 127 then CHR 0x5C # ''x'' @ [''0123456789abcdef'' ! (n div 16), ''0123456789abcdef'' ! (n mod 16)]
     else [c])"

definition py_repr_str :: "string \<Rightarrow> string" where
  "py_repr_str s = (let q = (if CHR 0x27 \<in> set s \<and> CHR 0x22 \<notin> set s then CHR 0x22 else CHR 0x27)
     in q # concat (map (repr_char q) s) @ [q])"

definition phase_message :: "string \<Rightarrow> string" where
  "phase_message phase = ''etl_run: unsupported phase='' @ py_repr_str phase @ ''; expected one of ('' @
     join '', '' (map py_repr_str valid_phases) @ '')''"

definition etl_run :: "etl_env \<Rightarrow> etl_steps \<Rightarrow> etl_args \<Rightarrow> (etl_world, etl_result) act" where
  "etl_run env steps a =
     (if ea_phase a \<notin> set valid_phases then act_lift (Inl (ValueError (phase_message (ea_phase a))))
      else act_bind (act_lift (run_identity a)) (\<lambda>(ds, ver).
        let job_id = run_job_id env a ds ver
        in act_bind (warehouse_call (record_etl_job_start (ee_start env) job_id (''etl_run.'' @ ea_phase a)
             (Some (ea_dataset_uri a)) (Some (ea_lake_root_uri a)) None)) (\<lambda>_.
           act_bind (act_lift (resolve_lake_layout (ea_lake_root_uri a) ds ver)) (\<lambda>layout.
             (\<lambda>w. let r = first_result a ds ver job_id layout
                  in case act_bind (try_run env (run_body env steps a r (snd (snd layout)))) (\<lambda>_. save_summary a) (r, w) of
                       (Inl err, (r', w')) \<Rightarrow> (Inl err, w')
                     | (Inr _, (r', w')) \<Rightarrow> (Inr r', w'))))))"

section \<open>The scan\<close>

record scan_result =
  sx_root_uri :: string
  sx_lake_root_uri :: string
  sx_scan_id :: string
  sx_total :: int
  sx_succeeded :: int
  sx_failed :: int
  sx_skipped :: int
  sx_duration_sec :: rat
  sx_runs :: "pydict list"

definition scan_result_to_dict :: "scan_result \<Rightarrow> pydict" where
  "scan_result_to_dict r =
     [(''root_uri'', VStr (sx_root_uri r)), (''lake_root_uri'', VStr (sx_lake_root_uri r)), (''scan_id'', VStr (sx_scan_id r)),
      (''total'', VInt (sx_total r)), (''succeeded'', VInt (sx_succeeded r)), (''failed'', VInt (sx_failed r)),
      (''skipped'', VInt (sx_skipped r)), (''duration_sec'', VFloat (sx_duration_sec r)),
      (''runs'', VList (map VDict (sx_runs r)))]"

text \<open>What the discovery reads: the listing of a prefix on S3; below a local root the directories with an
  \<open>endpose.pt\<close> and the version directories of Hugging Face data sets under \<open>raw\<close>; and the mapping in the
  \<open>meta.yaml\<close> of a directory, if it can be read.\<close>

record scan_fs =
  sf_list :: "string \<Rightarrow> string list result"
  sf_exists :: "string \<Rightarrow> bool"
  sf_endpose_dirs :: "string \<Rightarrow> string list"
  sf_hf_dirs :: "string \<Rightarrow> string list"
  sf_meta :: "string \<Rightarrow> pydict option"

type_synonym found_dataset = "string \<times> string \<times> string"

definition raw_object :: "string \<Rightarrow> (string \<times> string) option result" where
  "raw_object obj_uri = rbind (parse_uri obj_uri) (\<lambda>u. Inr (case split_on (CHR ''/'') (u_key u) of
     r # ds # ver # _ # _ \<Rightarrow> if r = ''raw'' then Some (ds, ver) else None
   | _ \<Rightarrow> None))"

definition discover_s3 :: "scan_fs \<Rightarrow> string \<Rightarrow> found_dataset list result" where
  "discover_s3 fs root_uri = rbind (join_uri root_uri [Some ''raw'']) (\<lambda>raw_uri. rbind (sf_list fs raw_uri) (\<lambda>objs.
     rbind (rmap raw_object objs) (\<lambda>found.
       rmap (\<lambda>(ds, ver). rbind (join_uri root_uri [Some ''raw'', Some ds, Some ver]) (\<lambda>u. Inr (ds, ver, u)))
         (sort (remdups (List.map_filter id found))))))"

text \<open>The parts of a directory below its nearest ancestor \<open>raw\<close>.\<close>

fun after_raw :: "string list \<Rightarrow> string list option" where
  "after_raw [] = None"
| "after_raw (p # ps) = (case after_raw ps of
     Some rest \<Rightarrow> Some rest
   | None \<Rightarrow> if p = ''raw'' \<and> ps \<noteq> [] then Some ps else None)"

text \<open>The id and the version of a directory, from its path, its meta data or its name.\<close>

definition path_identity :: "string \<Rightarrow> string option \<times> string option" where
  "path_identity dir = (case after_raw (path_parts dir) of
     Some (d # v # vs) \<Rightarrow> (Some d, Some (join ''/'' (v # vs)))
   | Some [d] \<Rightarrow> (Some d, None)
   | _ \<Rightarrow> (None, None))"

definition dir_name :: "string \<Rightarrow> string" where
  "dir_name dir = (case rev (path_parts dir) of n # _ \<Rightarrow> n | [] \<Rightarrow> [])"

definition local_dataset :: "scan_fs \<Rightarrow> string \<Rightarrow> found_dataset" where
  "local_dataset fs dir = (case path_identity dir of (pds, pver) \<Rightarrow>
     (let ds = opt_or pds (dir_name dir); ver = opt_or pver ''v1''
      in case (if pds = None \<or> pver = None then sf_meta fs dir else None) of
           None \<Rightarrow> (ds, ver, dir)
         | Some meta \<Rightarrow>
             (let mds = get meta ''dataset_id''; mver = py_or (get meta ''version'') (get meta ''dataset_version'')
              in (if truthy mds \<and> pds = None then py_str mds else ds,
                  if truthy mver \<and> pver = None then py_str mver else ver, dir))))"

definition discover_local :: "scan_fs \<Rightarrow> string \<Rightarrow> found_dataset list result" where
  "discover_local fs root_uri = rbind (parse_uri root_uri) (\<lambda>u.
     if \<not> sf_exists fs (u_local_path u) then Inr []
     else Inr (map (local_dataset fs) (sort_key path_parts
       (remdups (sf_endpose_dirs fs (u_local_path u) @ sf_hf_dirs fs (u_local_path u))))))"

definition discover_raw_datasets :: "lake_env \<Rightarrow> scan_fs \<Rightarrow> string \<Rightarrow> found_dataset list result" where
  "discover_raw_datasets lake fs root_uri = rbind (create_lake_store lake root_uri) (\<lambda>_.
     if is_s3_uri root_uri then discover_s3 fs root_uri else discover_local fs root_uri)"

definition wanted :: "string list \<Rightarrow> found_dataset \<Rightarrow> bool" where
  "wanted patterns d = (matches_any (fst d) patterns \<or> matches_any (snd (snd d)) patterns)"

definition filter_discovered :: "string list option \<Rightarrow> string list option \<Rightarrow> found_dataset list \<Rightarrow> found_dataset list" where
  "filter_discovered inc exc found =
     (let kept = (case inc of Some (p # ps) \<Rightarrow> filter (wanted (p # ps)) found | _ \<Rightarrow> found)
      in case exc of Some (p # ps) \<Rightarrow> filter (\<lambda>d. \<not> wanted (p # ps) d) kept | _ \<Rightarrow> kept)"

definition doc_exists :: "lake_env \<Rightarrow> string \<Rightarrow> (etl_world, bool) act" where
  "doc_exists lake uri = act_read (\<lambda>w. rbind (doc_key lake uri) (\<lambda>k. Inr (k \<in> set (dict_keys (ew_docs w)))))"

definition manifest_filename :: string where
  "manifest_filename = ''_manifest.json''"

definition existing_layers :: "lake_env \<Rightarrow> string \<Rightarrow> string \<Rightarrow> string \<Rightarrow> (etl_world, bool \<times> bool) act" where
  "existing_layers lake lake_root ds ver =
     act_bind (act_lift (create_lake_store lake lake_root)) (\<lambda>_.
     act_bind (act_lift (join_uri lake_root [Some ''ods'', Some ds, Some ver, Some manifest_filename])) (\<lambda>u.
     act_bind (doc_exists lake u) (\<lambda>ods.
     act_bind (act_lift (join_uri lake_root [Some ''dwd'', Some ds, Some ver, Some manifest_filename])) (\<lambda>v.
     act_bind (doc_exists lake v) (\<lambda>dwd. act_return (ods, dwd))))))"

record scan_args =
  sa_root_uri :: string
  sa_lake_root_uri :: string
  sa_limit :: "int option"
  sa_build_ads :: bool
  sa_force :: bool
  sa_summary_dir :: "string option"
  sa_include :: "string list option"
  sa_exclude :: "string list option"

record scan_env =
  sv_lake :: lake_env
  sv_fs :: scan_fs
  sv_run :: "nat \<Rightarrow> etl_env"
  sv_start :: meta_env
  sv_end :: meta_env
  sv_scan_id :: string
  sv_elapsed :: rat

record scan_count =
  sk_succeeded :: int
  sk_failed :: int
  sk_skipped :: int
  sk_runs :: "pydict list"

definition no_scan :: scan_count where
  "no_scan = \<lparr>sk_succeeded = 0, sk_failed = 0, sk_skipped = 0, sk_runs = []\<rparr>"

definition skip_entry :: "found_dataset \<Rightarrow> pydict" where
  "skip_entry d = (case d of (ds, ver, uri) \<Rightarrow>
     [(''dataset_id'', VStr ds), (''version'', VStr ver), (''raw_uri'', VStr uri), (''status'', VStr ''SKIPPED''),
      (''reason'', VStr ''ods+dwd manifests exist; pass --force to rebuild'')])"

definition fail_entry :: "found_dataset \<Rightarrow> py_error \<Rightarrow> pydict" where
  "fail_entry d err = (case d of (ds, ver, uri) \<Rightarrow>
     [(''dataset_id'', VStr ds), (''version'', VStr ver), (''raw_uri'', VStr uri), (''status'', VStr ''FAIL''),
      (''error'', VStr (err_text err))])"

definition scan_run_args :: "scan_args \<Rightarrow> string \<Rightarrow> found_dataset \<Rightarrow> etl_args" where
  "scan_run_args a scan_id d = (case d of (ds, ver, uri) \<Rightarrow>
     \<lparr>ea_dataset_uri = uri, ea_dataset_id = Some ds, ea_version = Some ver, ea_lake_root_uri = sa_lake_root_uri a,
      ea_build_ads = False, ea_phase = ''all'', ea_job_id = Some (scan_id @ ''-'' @ ds @ ''-'' @ ver), ea_resume = True,
      ea_force = sa_force a, ea_summary_dir = None\<rparr>)"

definition count_run :: "found_dataset \<Rightarrow> py_error + etl_result \<Rightarrow> scan_count \<Rightarrow> scan_count" where
  "count_run d res c = (case res of
     Inr r \<Rightarrow> (if et_status r \<in> {''OK'', ''WARN''} then c\<lparr>sk_succeeded := sk_succeeded c + 1\<rparr> else c\<lparr>sk_failed := sk_failed c + 1\<rparr>)
         \<lparr>sk_runs := sk_runs c @ [etl_result_to_dict r]\<rparr>
   | Inl err \<Rightarrow> c\<lparr>sk_failed := sk_failed c + 1, sk_runs := sk_runs c @ [fail_entry d err]\<rparr>)"

definition count_skip :: "found_dataset \<Rightarrow> scan_count \<Rightarrow> scan_count" where
  "count_skip d c = c\<lparr>sk_skipped := sk_skipped c + 1, sk_runs := sk_runs c @ [skip_entry d]\<rparr>"

definition scan_one :: "scan_env \<Rightarrow> etl_steps \<Rightarrow> scan_args \<Rightarrow> nat \<Rightarrow> found_dataset \<Rightarrow> scan_count \<Rightarrow> (etl_world, scan_count) act" where
  "scan_one env steps a i d c =
     act_bind (if sa_force a then act_return (False, False)
               else existing_layers (sv_lake env) (sa_lake_root_uri a) (fst d) (fst (snd d))) (\<lambda>(ods, dwd).
     if ods \<and> dwd then act_return (count_skip d c)
     else (\<lambda>w. case etl_run (sv_run env i) steps (scan_run_args a (sv_scan_id env) d) w of
             (res, w') \<Rightarrow> (Inr (count_run d res c), w')))"

fun scan_loop ::
  "scan_env \<Rightarrow> etl_steps \<Rightarrow> scan_args \<Rightarrow> nat \<Rightarrow> found_dataset list \<Rightarrow> scan_count \<Rightarrow> (etl_world, scan_count) act" where
  "scan_loop env steps a i [] c = act_return c"
| "scan_loop env steps a i (d # ds) c = act_bind (scan_one env steps a i d c) (scan_loop env steps a (Suc i) ds)"

definition scan_ads :: "scan_env \<Rightarrow> etl_steps \<Rightarrow> scan_args \<Rightarrow> scan_count \<Rightarrow> (etl_world, scan_count) act" where
  "scan_ads env steps a c = (if \<not> sa_build_ads a then act_return c
     else (\<lambda>w. case act_bind (act_lift (join_uri (sa_lake_root_uri a) [Some ''ads'', Some ''quality''])) (\<lambda>ads_uri.
               act_bind (act_lift (join_uri (sa_lake_root_uri a) [Some ''dwd''])) (\<lambda>dwd_root.
                 es_ads steps \<lparr>aq_input_root_uri = dwd_root, aq_output_uri = ads_uri, aq_job_id = sv_scan_id env @ ''::ads''\<rparr>)) w of
             (Inr d, w') \<Rightarrow> (Inr (c\<lparr>sk_runs := sk_runs c @ [[(''ads'', VDict d)]]\<rparr>), w')
           | (Inl err, w') \<Rightarrow> (Inr (c\<lparr>sk_failed := sk_failed c + 1,
               sk_runs := sk_runs c @ [[(''ads'', VDict [(''status'', VStr ''FAIL''), (''error'', VStr (err_text err))])]]\<rparr>), w')))"

definition scan_status :: "scan_count \<Rightarrow> string" where
  "scan_status c = (if sk_failed c = 0 then ''OK'' else if sk_succeeded c = 0 then ''FAIL'' else ''WARN'')"

definition select_found :: "scan_args \<Rightarrow> found_dataset list \<Rightarrow> found_dataset list" where
  "select_found a found = (let kept = filter_discovered (sa_include a) (sa_exclude a) found
     in case sa_limit a of Some n \<Rightarrow> if 0 < n then take (nat n) kept else kept | None \<Rightarrow> kept)"

definition scan_result_of :: "scan_env \<Rightarrow> scan_args \<Rightarrow> found_dataset list \<Rightarrow> scan_count \<Rightarrow> scan_result" where
  "scan_result_of env a found c = \<lparr>sx_root_uri = sa_root_uri a, sx_lake_root_uri = sa_lake_root_uri a, sx_scan_id = sv_scan_id env,
     sx_total = int (length found), sx_succeeded = sk_succeeded c, sx_failed = sk_failed c, sx_skipped = sk_skipped c,
     sx_duration_sec = sv_elapsed env, sx_runs = sk_runs c\<rparr>"

definition scan_metrics :: "scan_env \<Rightarrow> found_dataset list \<Rightarrow> scan_count \<Rightarrow> pydict" where
  "scan_metrics env found c =
     [(''total'', VInt (int (length found))), (''succeeded'', VInt (sk_succeeded c)), (''failed'', VInt (sk_failed c)),
      (''skipped'', VInt (sk_skipped c)), (''duration_ms'', VInt (trunc_rat (sv_elapsed env * 1000)))]"

definition etl_scan :: "scan_env \<Rightarrow> etl_steps \<Rightarrow> scan_args \<Rightarrow> (etl_world, scan_result) act" where
  "etl_scan env steps a =
     act_bind (act_lift (discover_raw_datasets (sv_lake env) (sv_fs env) (sa_root_uri a))) (\<lambda>all_found.
     let found = select_found a all_found
     in act_bind (warehouse_call (record_etl_job_start (sv_start env) (sv_scan_id env) ''etl_scan'' (Some (sa_root_uri a))
          (Some (sa_lake_root_uri a)) None)) (\<lambda>_.
        act_bind (scan_loop env steps a 0 found no_scan) (\<lambda>c0.
        act_bind (scan_ads env steps a c0) (\<lambda>c.
        act_bind (warehouse_call (record_etl_job_finish (sv_end env) (sv_scan_id env) (scan_status c) (Some (scan_metrics env found c)) None)) (\<lambda>_.
        act_bind (case sa_summary_dir a of None \<Rightarrow> act_return () | Some d \<Rightarrow> act_modify (\<lambda>w. w\<lparr>ew_docs := dict_set
            (posix d [''etl_scan_summary.json'']) (scan_result_to_dict (scan_result_of env a found c)) (ew_docs w)\<rparr>)) (\<lambda>_.
        act_return (scan_result_of env a found c)))))))"

end
