(* ===== verification/Registry.thy ===== *)
theory Registry
  imports Metadata_Store Lake_Env
begin

text \<open>
  The registry of validation runs, \<^verbatim>\<open>src/robot_dh/registry/service.py\<close> over \<^verbatim>\<open>schema.py\<close>, with the
  records of \<^verbatim>\<open>models.py\<close> that its readers answer as dictionaries. A table is the list of its rows in
  the order of their insertion. A JSON column holds the value itself: reading after writing is taken to be
  the identity on JSON values. Ids are given by the database: \<open>ge_fresh\<close> answers the next id for the ids that
  are there, and \<open>fresh_ids\<close> states that it is greater than all of them, which is true of SQLite (one more
  than the greatest) and of a sequence of PostgreSQL. An operation that raises, or whose commit fails, is
  rolled back.
\<close>

section \<open>Tables\<close>

record reg_dataset_row =
  gd_id :: int
  gd_dataset_id :: string
  gd_version :: string
  gd_task_type :: "string option"
  gd_robot_type :: "string option"
  gd_pose_format :: "string option"
  gd_storage_uri :: "string option"
  gd_local_path :: "string option"
  gd_num_samples :: "int option"
  gd_duration_sec :: "rat option"
  gd_fps :: "rat option"
  gd_created_at :: datetime
  gd_updated_at :: datetime
  gd_last_status :: "string option"
  gd_last_run_id :: "string option"

definition dataset_record :: "(datetime \<Rightarrow> string) \<Rightarrow> reg_dataset_row \<Rightarrow> pydict" where
  "dataset_record isof row =
     [(''id'', VInt (gd_id row)), (''dataset_id'', VStr (gd_dataset_id row)), (''version'', VStr (gd_version row)),
      (''task_type'', of_opt_str (gd_task_type row)), (''robot_type'', of_opt_str (gd_robot_type row)),
      (''pose_format'', of_opt_str (gd_pose_format row)), (''storage_uri'', of_opt_str (gd_storage_uri row)),
      (''local_path'', of_opt_str (gd_local_path row)), (''num_samples'', of_opt_int (gd_num_samples row)),
      (''duration_sec'', of_opt_float (gd_duration_sec row)), (''fps'', of_opt_float (gd_fps row)),
      (''created_at'', VStr (isof (gd_created_at row))), (''updated_at'', VStr (isof (gd_updated_at row))),
      (''last_status'', of_opt_str (gd_last_status row)), (''last_run_id'', of_opt_str (gd_last_run_id row))]"

record reg_run_row =
  gn_id :: int
  gn_run_id :: string
  gn_dataset_id :: string
  gn_dataset_version :: string
  gn_status :: string
  gn_started_at :: datetime
  gn_finished_at :: datetime
  gn_duration_sec :: rat
  gn_config_path :: "string option"
  gn_output_dir :: string
  gn_report_json_path :: "string option"
  gn_report_html_path :: "string option"
  gn_metrics_json :: pyval
  gn_errors_json :: pyval
  gn_warnings_json :: pyval

definition run_record :: "(datetime \<Rightarrow> string) \<Rightarrow> reg_run_row \<Rightarrow> pydict" where
  "run_record isof row =
     [(''id'', VInt (gn_id row)), (''run_id'', VStr (gn_run_id row)), (''dataset_id'', VStr (gn_dataset_id row)),
      (''dataset_version'', VStr (gn_dataset_version row)), (''status'', VStr (gn_status row)),
      (''started_at'', VStr (isof (gn_started_at row))), (''finished_at'', VStr (isof (gn_finished_at row))),
      (''duration_sec'', VFloat (gn_duration_sec row)), (''config_path'', of_opt_str (gn_config_path row)),
      (''output_dir'', VStr (gn_output_dir row)), (''report_json_path'', of_opt_str (gn_report_json_path row)),
      (''report_html_path'', of_opt_str (gn_report_html_path row)), (''metrics_json'', gn_metrics_json row),
      (''errors_json'', gn_errors_json row), (''warnings_json'', gn_warnings_json row)]"

record validator_row =
  gv_id :: int
  gv_run_id :: string
  gv_validator_name :: string
  gv_status :: string
  gv_duration_ms :: pyval
  gv_metrics_json :: pyval
  gv_messages_json :: pyval
  gv_created_at :: datetime

definition validator_record :: "(datetime \<Rightarrow> string) \<Rightarrow> validator_row \<Rightarrow> pydict" where
  "validator_record isof row =
     [(''id'', VInt (gv_id row)), (''run_id'', VStr (gv_run_id row)),
      (''validator_name'', VStr (gv_validator_name row)), (''status'', VStr (gv_status row)),
      (''duration_ms'', gv_duration_ms row), (''metrics_json'', gv_metrics_json row),
      (''messages_json'', gv_messages_json row), (''created_at'', VStr (isof (gv_created_at row)))]"

record gate_row =
  gg_id :: int
  gg_run_id :: string
  gg_gate_status :: string
  gg_failed_rules_json :: pyval
  gg_warning_rules_json :: pyval
  gg_policy_path :: "string option"
  gg_created_at :: datetime

definition gate_record :: "(datetime \<Rightarrow> string) \<Rightarrow> gate_row \<Rightarrow> pydict" where
  "gate_record isof row =
     [(''id'', VInt (gg_id row)), (''run_id'', VStr (gg_run_id row)), (''gate_status'', VStr (gg_gate_status row)),
      (''failed_rules_json'', gg_failed_rules_json row), (''warning_rules_json'', gg_warning_rules_json row),
      (''policy_path'', of_opt_str (gg_policy_path row)), (''created_at'', VStr (isof (gg_created_at row)))]"

record artifact_row =
  ga_id :: int
  ga_run_id :: string
  ga_artifact_type :: string
  ga_artifact_uri :: string
  ga_local_path :: "string option"
  ga_size_bytes :: "int option"
  ga_created_at :: datetime

definition artifact_record :: "(datetime \<Rightarrow> string) \<Rightarrow> artifact_row \<Rightarrow> pydict" where
  "artifact_record isof row =
     [(''id'', VInt (ga_id row)), (''run_id'', VStr (ga_run_id row)),
      (''artifact_type'', VStr (ga_artifact_type row)), (''artifact_uri'', VStr (ga_artifact_uri row)),
      (''local_path'', of_opt_str (ga_local_path row)), (''size_bytes'', of_opt_int (ga_size_bytes row)),
      (''created_at'', VStr (isof (ga_created_at row)))]"

record scan_job_row =
  gs_id :: int
  gs_scan_id :: string
  gs_root_uri :: string
  gs_output_root :: string
  gs_status :: string
  gs_total :: int
  gs_succeeded :: int
  gs_failed :: int
  gs_skipped :: int
  gs_started_at :: datetime
  gs_finished_at :: datetime
  gs_summary_json :: pyval

definition scan_job_record :: "(datetime \<Rightarrow> string) \<Rightarrow> scan_job_row \<Rightarrow> pydict" where
  "scan_job_record isof row =
     [(''id'', VInt (gs_id row)), (''scan_id'', VStr (gs_scan_id row)), (''root_uri'', VStr (gs_root_uri row)),
      (''output_root'', VStr (gs_output_root row)), (''status'', VStr (gs_status row)),
      (''total'', VInt (gs_total row)), (''succeeded'', VInt (gs_succeeded row)), (''failed'', VInt (gs_failed row)),
      (''skipped'', VInt (gs_skipped row)), (''started_at'', VStr (isof (gs_started_at row))),
      (''finished_at'', VStr (isof (gs_finished_at row))), (''summary_json'', gs_summary_json row)]"

record registry_db =
  rt_datasets :: "reg_dataset_row list"
  rt_runs :: "reg_run_row list"
  rt_validators :: "validator_row list"
  rt_gates :: "gate_row list"
  rt_artifacts :: "artifact_row list"
  rt_scans :: "scan_job_row list"

definition no_registry_rows :: registry_db where
  "no_registry_rows = \<lparr>rt_datasets = [], rt_runs = [], rt_validators = [], rt_gates = [], rt_artifacts = [], rt_scans = []\<rparr>"

text \<open>The clock, the ids, \<open>fromisoformat\<close>, \<open>isoformat\<close>, the size of a file if there is one, \<open>resolve\<close> of a
  path, and the error of the commit, if any.\<close>

record runs_env =
  ge_now :: datetime
  ge_fresh :: "int list \<Rightarrow> int"
  ge_parse :: "string \<Rightarrow> datetime result"
  ge_isof :: "datetime \<Rightarrow> string"
  ge_size :: "string \<Rightarrow> int option"
  ge_resolve :: "string \<Rightarrow> string"
  ge_commit :: "py_error option"

definition fresh_ids :: "runs_env \<Rightarrow> bool" where
  "fresh_ids env = (\<forall>ids. \<forall>i\<in>set ids. i < ge_fresh env ids)"

definition in_tx :: "runs_env \<Rightarrow> (registry_db \<Rightarrow> ('a \<times> registry_db) result) \<Rightarrow> (registry_db, 'a) act" where
  "in_tx env body db = (case body db of
     Inl err \<Rightarrow> (Inl err, db)
   | Inr (x, db') \<Rightarrow> (case ge_commit env of Some err \<Rightarrow> (Inl err, db) | None \<Rightarrow> (Inr x, db')))"

definition add_row :: "runs_env \<Rightarrow> ('r \<Rightarrow> int) \<Rightarrow> (int \<Rightarrow> 'r) \<Rightarrow> 'r list \<Rightarrow> 'r list" where
  "add_row env rid mk t = t @ [mk (ge_fresh env (map rid t))]"

definition add_rows :: "runs_env \<Rightarrow> ('r \<Rightarrow> int) \<Rightarrow> (int \<Rightarrow> 'r) list \<Rightarrow> 'r list \<Rightarrow> 'r list" where
  "add_rows env rid mks t = fold (add_row env rid) mks t"

text \<open>A value for a text column: text or null. What is neither is refused by the database.\<close>

definition text_column :: "pyval \<Rightarrow> string option result" where
  "text_column v = (case v of VNone \<Rightarrow> Inr None | VStr s \<Rightarrow> Inr (Some s) | _ \<Rightarrow> Inl (SQLAlchemyError ''no text''))"

section \<open>Data sets\<close>

definition dataset_key :: "string \<Rightarrow> string \<Rightarrow> reg_dataset_row \<Rightarrow> bool" where
  "dataset_key dataset_id version r = (gd_dataset_id r = dataset_id \<and> gd_version r = version)"

text \<open>The arguments of \<open>upsert_dataset\<close> are those of a row, without its id and its times.\<close>

definition set_dataset :: "datetime \<Rightarrow> reg_dataset_row \<Rightarrow> reg_dataset_row \<Rightarrow> reg_dataset_row" where
  "set_dataset now p r = r\<lparr>gd_task_type := gd_task_type p, gd_robot_type := gd_robot_type p, gd_pose_format := gd_pose_format p,
     gd_storage_uri := gd_storage_uri p, gd_local_path := gd_local_path p, gd_num_samples := gd_num_samples p,
     gd_duration_sec := gd_duration_sec p, gd_fps := gd_fps p, gd_updated_at := now,
     gd_last_status := keep (gd_last_status r) (gd_last_status p), gd_last_run_id := keep (gd_last_run_id r) (gd_last_run_id p)\<rparr>"

definition new_dataset :: "datetime \<Rightarrow> reg_dataset_row \<Rightarrow> int \<Rightarrow> reg_dataset_row" where
  "new_dataset now p i = set_dataset now p \<lparr>gd_id = i, gd_dataset_id = gd_dataset_id p, gd_version = gd_version p,
     gd_task_type = None, gd_robot_type = None, gd_pose_format = None, gd_storage_uri = None, gd_local_path = None,
     gd_num_samples = None, gd_duration_sec = None, gd_fps = None, gd_created_at = now, gd_updated_at = now,
     gd_last_status = None, gd_last_run_id = None\<rparr>"

definition upsert_dataset_rows :: "runs_env \<Rightarrow> reg_dataset_row \<Rightarrow> reg_dataset_row list \<Rightarrow> reg_dataset_row \<times> reg_dataset_row list" where
  "upsert_dataset_rows env p t = (let key = dataset_key (gd_dataset_id p) (gd_version p) in case find key t of
     None \<Rightarrow> (let r = new_dataset (ge_now env) p (ge_fresh env (map gd_id t)) in (r, t @ [r]))
   | Some r \<Rightarrow> (set_dataset (ge_now env) p r, update_first key (set_dataset (ge_now env) p) t))"

definition upsert_dataset :: "runs_env \<Rightarrow> reg_dataset_row \<Rightarrow> (registry_db, pydict) act" where
  "upsert_dataset env p = in_tx env (\<lambda>db. case upsert_dataset_rows env p (rt_datasets db) of
     (r, t) \<Rightarrow> Inr (dataset_record (ge_isof env) r, db\<lparr>rt_datasets := t\<rparr>))"

definition touch_dataset :: "runs_env \<Rightarrow> string \<Rightarrow> string \<Rightarrow> string \<Rightarrow> string \<Rightarrow> reg_dataset_row list \<Rightarrow> reg_dataset_row list" where
  "touch_dataset env dataset_id version status run_id t = update_first (dataset_key dataset_id version)
     (\<lambda>r. r\<lparr>gd_last_status := Some status, gd_last_run_id := Some run_id, gd_updated_at := ge_now env\<rparr>) t"

text \<open>Without a row the method returns before any commit.\<close>

definition update_dataset_last_run :: "runs_env \<Rightarrow> string \<Rightarrow> string \<Rightarrow> string \<Rightarrow> string \<Rightarrow> (registry_db, unit) act" where
  "update_dataset_last_run env dataset_id version status run_id db = (case find (dataset_key dataset_id version) (rt_datasets db) of
     None \<Rightarrow> (Inr (), db)
   | Some r \<Rightarrow> in_tx env (\<lambda>db. Inr ((), db\<lparr>rt_datasets := touch_dataset env dataset_id version status run_id (rt_datasets db)\<rparr>)) db)"

definition newest_first :: "('r \<Rightarrow> datetime) \<Rightarrow> 'r list \<Rightarrow> 'r list" where
  "newest_first col rows = rev (sort_key col (rev rows))"

definition list_datasets :: "runs_env \<Rightarrow> registry_db \<Rightarrow> pydict list" where
  "list_datasets env db = map (dataset_record (ge_isof env)) (newest_first gd_updated_at
     (sort_key gd_dataset_id (sort_key gd_version (rt_datasets db))))"

definition get_dataset :: "runs_env \<Rightarrow> string \<Rightarrow> string option \<Rightarrow> registry_db \<Rightarrow> pydict option" where
  "get_dataset env dataset_id version db = map_option (dataset_record (ge_isof env)) (case version of
     None \<Rightarrow> first_row (newest_first gd_updated_at (filter (\<lambda>r. gd_dataset_id r = dataset_id) (rt_datasets db)))
   | Some v \<Rightarrow> find (dataset_key dataset_id v) (rt_datasets db))"

text \<open>\<open>register_dataset_path\<close>: the bundle that the loader reads is a parameter.\<close>

record dataset_bundle =
  bu_meta :: pydict
  bu_path :: string
  bu_samples :: int
  bu_duration :: rat
  bu_fps :: rat

definition register_dataset_path ::
  "runs_env \<Rightarrow> dataset_bundle result \<Rightarrow> string \<Rightarrow> string \<Rightarrow> string \<Rightarrow> string option \<Rightarrow> string option \<Rightarrow> string option \<Rightarrow> (registry_db, pydict) act" where
  "register_dataset_path env loaded dataset_id version storage_uri task_type robot_type pose_format =
     act_bind (act_lift loaded) (\<lambda>b.
     act_bind (act_lift (text_column (py_or (of_opt_str task_type) (get (bu_meta b) ''task_type'')))) (\<lambda>task.
     act_bind (act_lift (text_column (py_or (of_opt_str robot_type) (get (bu_meta b) ''robot_type'')))) (\<lambda>robot.
     act_bind (act_lift (text_column (py_or (of_opt_str pose_format) (get_or (bu_meta b) ''pose_format'' (VStr ''eexyzxyzw''))))) (\<lambda>pose.
     upsert_dataset env \<lparr>gd_id = 0, gd_dataset_id = dataset_id, gd_version = version, gd_task_type = task, gd_robot_type = robot,
       gd_pose_format = pose, gd_storage_uri = Some storage_uri, gd_local_path = Some (bu_path b),
       gd_num_samples = Some (bu_samples b), gd_duration_sec = Some (bu_duration b), gd_fps = Some (bu_fps b),
       gd_created_at = ge_now env, gd_updated_at = ge_now env, gd_last_status = None, gd_last_run_id = None\<rparr>))))"

section \<open>Runs\<close>

definition delete_run_related :: "string \<Rightarrow> registry_db \<Rightarrow> registry_db" where
  "delete_run_related run_id db = db\<lparr>rt_validators := filter (\<lambda>r. gv_run_id r \<noteq> run_id) (rt_validators db),
     rt_gates := filter (\<lambda>r. gg_run_id r \<noteq> run_id) (rt_gates db), rt_artifacts := filter (\<lambda>r. ga_run_id r \<noteq> run_id) (rt_artifacts db),
     rt_runs := filter (\<lambda>r. gn_run_id r \<noteq> run_id) (rt_runs db)\<rparr>"

text \<open>The arguments of a run, its times as texts.\<close>

record run_args =
  nr_run_id :: string
  nr_dataset_id :: string
  nr_dataset_version :: string
  nr_status :: string
  nr_started_at :: string
  nr_finished_at :: string
  nr_duration_sec :: rat
  nr_config_path :: "string option"
  nr_output_dir :: string
  nr_report_json_path :: "string option"
  nr_report_html_path :: "string option"
  nr_metrics :: pydict
  nr_errors :: "string list"
  nr_warnings :: "string list"

definition new_run :: "run_args \<Rightarrow> datetime \<Rightarrow> datetime \<Rightarrow> int \<Rightarrow> reg_run_row" where
  "new_run a started finished i = \<lparr>gn_id = i, gn_run_id = nr_run_id a, gn_dataset_id = nr_dataset_id a,
     gn_dataset_version = nr_dataset_version a, gn_status = nr_status a, gn_started_at = started, gn_finished_at = finished,
     gn_duration_sec = nr_duration_sec a, gn_config_path = nr_config_path a, gn_output_dir = nr_output_dir a,
     gn_report_json_path = nr_report_json_path a, gn_report_html_path = nr_report_html_path a, gn_metrics_json = VDict (nr_metrics a),
     gn_errors_json = VList (map VStr (nr_errors a)), gn_warnings_json = VList (map VStr (nr_warnings a))\<rparr>"

definition create_run_row :: "runs_env \<Rightarrow> run_args \<Rightarrow> registry_db \<Rightarrow> (int \<times> registry_db) result" where
  "create_run_row env a db = (let db1 = delete_run_related (nr_run_id a) db in
     rbind (ge_parse env (nr_started_at a)) (\<lambda>started. rbind (ge_parse env (nr_finished_at a)) (\<lambda>finished.
       Inr (ge_fresh env (map gn_id (rt_runs db1)), db1\<lparr>rt_runs := add_row env gn_id (new_run a started finished) (rt_runs db1)\<rparr>))))"

definition create_run :: "runs_env \<Rightarrow> run_args \<Rightarrow> (registry_db, int) act" where
  "create_run env a = in_tx env (create_run_row env a)"

text \<open>\<open>urlparse\<close>, as far as the scheme and the path: leading blanks and control characters go, tabs and line
  ends go, the scheme ends at the first colon, the host at the next slash, the path before a query or a
  fragment. A single bracket in the host is an error; what stands between two brackets is not checked.\<close>

definition scheme_char :: "char \<Rightarrow> bool" where
  "scheme_char c = (is_alnum c \<or> c \<in> set ''+-.'')"

definition url_clean :: "string \<Rightarrow> string" where
  "url_clean s = filter (\<lambda>c. (of_char c :: nat) \<notin> {9, 10, 13}) (dropWhile (\<lambda>c. (of_char c :: nat) \<le> 32) s)"

definition url_scheme :: "string \<Rightarrow> string \<times> string" where
  "url_scheme s = (case split_first (CHR '':'') s of
     Some (a, b) \<Rightarrow> if a \<noteq> [] \<and> is_alnum (hd a) \<and> \<not> is_digit (hd a) \<and> list_all scheme_char a then (lower a, b) else ([], s)
   | None \<Rightarrow> ([], s))"

definition url_path :: "string \<Rightarrow> string result" where
  "url_path s = (let host = (if starts_with s ''//'' then takeWhile (\<lambda>c. c \<notin> set ''/?#'') (drop 2 s) else []);
       rest = (if starts_with s ''//'' then dropWhile (\<lambda>c. c \<notin> set ''/?#'') (drop 2 s) else s)
     in if (CHR ''['' \<in> set host) \<noteq> (CHR '']'' \<in> set host) then Inl (ValueError ''Invalid IPv6 URL'')
        else Inr (takeWhile (\<lambda>c. c \<notin> set ''?#'') rest))"

definition uri_to_local_path :: "string \<Rightarrow> string option result" where
  "uri_to_local_path uri = (case url_scheme (url_clean uri) of (scheme, rest) \<Rightarrow>
     rbind (url_path rest) (\<lambda>p. Inr (if scheme = ''file'' then Some (path_str p) else None)))"

section \<open>Validation runs\<close>

record validator_result =
  vl_name :: string
  vl_status :: string
  vl_metrics :: pydict
  vl_messages :: "string list"
  vl_artifacts :: pydict
  vl_details :: pyval

record quality_report =
  qy_run_id :: string
  qy_dataset_id :: string
  qy_status :: string
  qy_started_at :: string
  qy_finished_at :: string
  qy_duration_sec :: rat
  qy_config :: pydict
  qy_dataset_meta :: pydict
  qy_metrics :: pydict
  qy_validators :: "validator_result list"
  qy_artifacts :: pydict
  qy_warnings :: "string list"
  qy_errors :: "string list"
  qy_registry :: pydict
  qy_gate :: pydict

type_synonym artifact_item = "string \<times> string \<times> string option \<times> int option"

definition artifact_item :: "runs_env \<Rightarrow> string \<Rightarrow> string \<Rightarrow> string option \<Rightarrow> artifact_item" where
  "artifact_item env ty uri local = (ty, uri, local, case local of None \<Rightarrow> None | Some p \<Rightarrow> ge_size env p)"

definition named_artifact :: "runs_env \<Rightarrow> pydict \<Rightarrow> string \<Rightarrow> artifact_item list result" where
  "named_artifact env artifacts ty = (let uri = get artifacts (ty @ ''_uri''); local = get artifacts ty in
     if \<not> truthy uri then Inr []
     else (case uri of
       VStr u \<Rightarrow> rbind (if truthy local then text_column local else uri_to_local_path u) (\<lambda>l. Inr [artifact_item env ty u l])
     | _ \<Rightarrow> Inl (SQLAlchemyError ''no text'')))"

definition plot_artifact :: "runs_env \<Rightarrow> string \<times> pyval \<Rightarrow> artifact_item list result" where
  "plot_artifact env p = (case p of (name, uri) \<Rightarrow>
     if \<not> truthy uri then Inr []
     else rbind (uri_to_local_path (py_str uri)) (\<lambda>l. Inr [artifact_item env (''plot:'' @ name) (py_str uri) l]))"

definition iter_artifacts :: "runs_env \<Rightarrow> pydict \<Rightarrow> artifact_item list result" where
  "iter_artifacts env artifacts =
     rbind (rmap (named_artifact env artifacts) [''report_json'', ''report_html'', ''gate_report'']) (\<lambda>named.
     rbind (case get_or artifacts ''plots'' (VDict []) of VDict d \<Rightarrow> rmap (plot_artifact env) (sort_key fst d) | _ \<Rightarrow> Inr []) (\<lambda>plots.
       Inr (concat (named @ plots))))"

definition merged_status :: "string \<Rightarrow> pyval \<Rightarrow> string" where
  "merged_status status gate_status = (if gate_status = VStr ''FAIL'' then ''FAIL''
     else if gate_status = VStr ''WARN'' \<and> status \<noteq> ''FAIL'' then ''WARN'' else status)"

definition report_run :: "runs_env \<Rightarrow> quality_report \<Rightarrow> string \<Rightarrow> string option \<Rightarrow> string \<Rightarrow> run_args result" where
  "report_run env report version config_path output_dir =
     rbind (text_column (get (qy_artifacts report) ''report_json'')) (\<lambda>json. rbind (text_column (get (qy_artifacts report) ''report_html'')) (\<lambda>html.
       Inr \<lparr>nr_run_id = qy_run_id report, nr_dataset_id = qy_dataset_id report, nr_dataset_version = version,
         nr_status = merged_status (qy_status report) (get (qy_gate report) ''status''), nr_started_at = qy_started_at report,
         nr_finished_at = qy_finished_at report, nr_duration_sec = qy_duration_sec report,
         nr_config_path = map_option (ge_resolve env) config_path, nr_output_dir = ge_resolve env output_dir,
         nr_report_json_path = json, nr_report_html_path = html, nr_metrics = qy_metrics report,
         nr_errors = qy_errors report, nr_warnings = qy_warnings report\<rparr>))"

definition new_validator :: "runs_env \<Rightarrow> string \<Rightarrow> validator_result \<Rightarrow> int \<Rightarrow> validator_row" where
  "new_validator env run_id v i = \<lparr>gv_id = i, gv_run_id = run_id, gv_validator_name = vl_name v, gv_status = vl_status v,
     gv_duration_ms = (case vl_details v of VDict d \<Rightarrow> get d ''duration_ms'' | _ \<Rightarrow> VNone), gv_metrics_json = VDict (vl_metrics v),
     gv_messages_json = VList (map VStr (vl_messages v)), gv_created_at = ge_now env\<rparr>"

definition new_gate :: "runs_env \<Rightarrow> string \<Rightarrow> pydict \<Rightarrow> string option \<Rightarrow> int \<Rightarrow> gate_row" where
  "new_gate env run_id gate policy i = \<lparr>gg_id = i, gg_run_id = run_id, gg_gate_status = py_str (get_or gate ''status'' (VStr ''SKIP'')),
     gg_failed_rules_json = get_or gate ''failed_rules'' (VList []), gg_warning_rules_json = get_or gate ''warning_rules'' (VList []),
     gg_policy_path = policy, gg_created_at = ge_now env\<rparr>"

definition new_artifact :: "runs_env \<Rightarrow> string \<Rightarrow> artifact_item \<Rightarrow> int \<Rightarrow> artifact_row" where
  "new_artifact env run_id a i = (case a of (ty, uri, local, bytes) \<Rightarrow> \<lparr>ga_id = i, ga_run_id = run_id, ga_artifact_type = ty,
     ga_artifact_uri = uri, ga_local_path = local, ga_size_bytes = bytes, ga_created_at = ge_now env\<rparr>)"

definition validation_run_body ::
  "runs_env \<Rightarrow> quality_report \<Rightarrow> string \<Rightarrow> string option \<Rightarrow> string \<Rightarrow> registry_db \<Rightarrow> (int \<times> registry_db) result" where
  "validation_run_body env report version config_path output_dir db =
     rbind (report_run env report version config_path output_dir) (\<lambda>a.
     rbind (create_run_row env a db) (\<lambda>(i, db1).
     rbind (text_column (get (qy_gate report) ''policy_path'')) (\<lambda>policy.
     rbind (iter_artifacts env (qy_artifacts report)) (\<lambda>items.
       Inr (i, db1\<lparr>rt_datasets := touch_dataset env (qy_dataset_id report) version (nr_status a) (qy_run_id report) (rt_datasets db1),
         rt_validators := add_rows env gv_id (map (new_validator env (qy_run_id report)) (qy_validators report)) (rt_validators db1),
         rt_gates := add_row env gg_id (new_gate env (qy_run_id report) (qy_gate report) policy) (rt_gates db1),
         rt_artifacts := add_rows env ga_id (map (new_artifact env (qy_run_id report)) items) (rt_artifacts db1)\<rparr>)))))"

definition record_validation_run ::
  "runs_env \<Rightarrow> quality_report \<Rightarrow> string \<Rightarrow> string option \<Rightarrow> string \<Rightarrow> (registry_db, int) act" where
  "record_validation_run env report version config_path output_dir =
     in_tx env (validation_run_body env report version config_path output_dir)"

section \<open>Reading\<close>

definition list_runs :: "runs_env \<Rightarrow> registry_db \<Rightarrow> pydict list" where
  "list_runs env db = map (run_record (ge_isof env)) (newest_first gn_started_at (sort_key gn_run_id (rt_runs db)))"

definition find_run :: "string \<Rightarrow> registry_db \<Rightarrow> reg_run_row option" where
  "find_run run_id db = find (\<lambda>r. gn_run_id r = run_id) (rt_runs db)"

definition get_run :: "runs_env \<Rightarrow> string \<Rightarrow> registry_db \<Rightarrow> pydict option" where
  "get_run env run_id db = map_option (run_record (ge_isof env)) (find_run run_id db)"

definition rows_by_id :: "('r \<Rightarrow> int) \<Rightarrow> ('r \<Rightarrow> string) \<Rightarrow> string \<Rightarrow> 'r list \<Rightarrow> 'r list" where
  "rows_by_id rid run_of run_id rows = sort_key rid (filter (\<lambda>r. run_of r = run_id) rows)"

definition list_run_artifacts :: "runs_env \<Rightarrow> string \<Rightarrow> registry_db \<Rightarrow> pydict list" where
  "list_run_artifacts env run_id db = map (artifact_record (ge_isof env)) (rows_by_id ga_id ga_run_id run_id (rt_artifacts db))"

record run_detail =
  nd_run :: pydict
  nd_validators :: "pydict list"
  nd_gates :: "pydict list"
  nd_artifacts :: "pydict list"

definition get_run_detail :: "runs_env \<Rightarrow> string \<Rightarrow> registry_db \<Rightarrow> run_detail option" where
  "get_run_detail env run_id db = (case find_run run_id db of
     None \<Rightarrow> None
   | Some r \<Rightarrow> Some \<lparr>nd_run = run_record (ge_isof env) r,
       nd_validators = map (validator_record (ge_isof env)) (rows_by_id gv_id gv_run_id run_id (rt_validators db)),
       nd_gates = map (gate_record (ge_isof env)) (rows_by_id gg_id gg_run_id run_id (rt_gates db)),
       nd_artifacts = map (artifact_record (ge_isof env)) (rows_by_id ga_id ga_run_id run_id (rt_artifacts db))\<rparr>)"

definition has_successful_run :: "string \<Rightarrow> string \<Rightarrow> registry_db \<Rightarrow> bool" where
  "has_successful_run dataset_id version db = list_ex (\<lambda>r. gn_dataset_id r = dataset_id \<and> gn_dataset_version r = version \<and>
     gn_status r \<in> {''PASS'', ''WARN''}) (rt_runs db)"

section \<open>Scans\<close>

record scan_job_args =
  ns_scan_id :: string
  ns_root_uri :: string
  ns_output_root :: string
  ns_status :: string
  ns_total :: int
  ns_succeeded :: int
  ns_failed :: int
  ns_skipped :: int
  ns_started_at :: string
  ns_finished_at :: string
  ns_summary :: pydict

definition new_scan_job :: "scan_job_args \<Rightarrow> datetime \<Rightarrow> datetime \<Rightarrow> int \<Rightarrow> scan_job_row" where
  "new_scan_job a started finished i = \<lparr>gs_id = i, gs_scan_id = ns_scan_id a, gs_root_uri = ns_root_uri a,
     gs_output_root = ns_output_root a, gs_status = ns_status a, gs_total = ns_total a, gs_succeeded = ns_succeeded a,
     gs_failed = ns_failed a, gs_skipped = ns_skipped a, gs_started_at = started, gs_finished_at = finished,
     gs_summary_json = VDict (ns_summary a)\<rparr>"

definition record_scan_job :: "runs_env \<Rightarrow> scan_job_args \<Rightarrow> (registry_db, int) act" where
  "record_scan_job env a = in_tx env (\<lambda>db. let kept = filter (\<lambda>r. gs_scan_id r \<noteq> ns_scan_id a) (rt_scans db) in
     rbind (ge_parse env (ns_started_at a)) (\<lambda>started. rbind (ge_parse env (ns_finished_at a)) (\<lambda>finished.
       Inr (ge_fresh env (map gs_id kept), db\<lparr>rt_scans := add_row env gs_id (new_scan_job a started finished) kept\<rparr>))))"

definition get_scan_job :: "runs_env \<Rightarrow> string \<Rightarrow> registry_db \<Rightarrow> pydict option" where
  "get_scan_job env scan_id db = map_option (scan_job_record (ge_isof env)) (find (\<lambda>r. gs_scan_id r = scan_id) (rt_scans db))"

end
