(* ===== verification/Validation_Run.thy ===== *)
theory Validation_Run
  imports Registry Gate
begin

text \<open>
  The validation of one data set, \<^verbatim>\<open>src/robot_dh/pipeline.py\<close>, with the configuration it reads
  (\<^verbatim>\<open>config.py\<close>), the choice of an artifact store (\<^verbatim>\<open>artifacts/factory.py\<close>), and the scan of a directory
  of data sets, \<^verbatim>\<open>src/robot_dh/scan.py\<close>. The loader, the seven validators with the state they share, the
  plots and the upload of a file are parameters. Of the files that are written the JSON reports are kept, as
  documents by path; the HTML report is not.
\<close>

section \<open>Configuration\<close>

definition default_config :: pydict where
  "default_config =
     [(''dataset'', VDict [(''expected_pose_dim'', VInt 7), (''default_fps'', VInt 30), (''min_samples'', VInt 10)]),
      (''quality_gate'', VDict [(''fail_on_warning'', VBool False)]),
      (''validators'', VDict
        [(''quaternion'', VDict [(''quat_norm_tol'', VFloat (1 / 100000))]),
         (''euler_stability'', VDict [(''max_roll_var'', VFloat (1 / 1000)), (''max_pitch_var'', VFloat (1 / 1000))]),
         (''velocity_jump'', VDict [(''velocity_threshold_mps'', VFloat 2)]),
         (''press_event'', VDict [(''smooth_window'', VInt 21), (''smooth_polyorder'', VInt 3), (''press_min_distance_sec'', VFloat (8 / 10)),
            (''press_prominence'', VNone), (''press_expected_min_count'', VInt 5), (''press_expected_max_count'', VInt 100)]),
         (''xy_cluster'', VDict [(''method'', VStr ''kmeans''), (''expected_num_buttons'', VInt 5), (''min_cluster_silhouette'', VFloat (7 / 10)),
            (''min_points_per_cluster'', VInt 2), (''random_state'', VInt 42)]),
         (''workspace_bbox'', VDict [(''bbox_margin_ratio'', VFloat (1 / 2)), (''max_outside_ratio'', VFloat (1 / 10)),
            (''fail_on_excessive_outside'', VBool False)])]),
      (''reports'', VDict [(''save_plots'', VBool True), (''html'', VBool True), (''json'', VBool True)])]"

fun deep_merge_dicts :: "pydict \<Rightarrow> pydict \<Rightarrow> pydict" where
  "deep_merge_dicts merged [] = merged"
| "deep_merge_dicts merged ((key, v) # rest) = deep_merge_dicts (dict_set key
     (case v of VDict d \<Rightarrow> (case get merged key of VDict b \<Rightarrow> VDict (deep_merge_dicts b d) | _ \<Rightarrow> v) | _ \<Rightarrow> v) merged) rest"

text \<open>No path, or the parsed file if there is one.\<close>

definition load_yaml :: "pyval option option \<Rightarrow> pydict result" where
  "load_yaml path = (case path of
     None \<Rightarrow> Inr []
   | Some None \<Rightarrow> Inl (FileNotFoundError ''Config file not found'')
   | Some (Some doc) \<Rightarrow> (case py_or doc (VDict []) of
       VDict d \<Rightarrow> Inr d | _ \<Rightarrow> Inl (ValueError ''Config file must contain a YAML mapping'')))"

definition load_config :: "pyval option option \<Rightarrow> pydict result" where
  "load_config path = rbind (load_yaml path) (\<lambda>d. Inr (deep_merge_dicts default_config d))"

definition validator_config :: "pydict \<Rightarrow> string \<Rightarrow> pydict" where
  "validator_config config name = (case get_or config ''validators'' (VDict []) of
     VDict vs \<Rightarrow> (case get_or vs name (VDict []) of VDict d \<Rightarrow> d | _ \<Rightarrow> []) | _ \<Rightarrow> [])"

section \<open>Status and metrics\<close>

definition compute_report_status :: "validator_result list \<Rightarrow> string" where
  "compute_report_status rs = (if list_ex (\<lambda>r. vl_status r = ''FAIL'') rs then ''FAIL''
     else if list_ex (\<lambda>r. vl_status r = ''WARN'') rs then ''WARN'' else ''PASS'')"

text \<open>\<open>by_name\<close>: the last result of a name.\<close>

definition metric_of :: "validator_result list \<Rightarrow> string \<Rightarrow> string \<Rightarrow> pyval result" where
  "metric_of rs name key = (case find (\<lambda>r. vl_name r = name) (rev rs) of
     None \<Rightarrow> Inl (KeyError name) | Some r \<Rightarrow> Inr (get (vl_metrics r) key))"

definition report_metrics :: "(string \<times> string \<times> string) list" where
  "report_metrics = [(''quat_max_norm_error'', ''quaternion'', ''quat_max_norm_error''),
     (''max_velocity_mps'', ''velocity_jump'', ''max_velocity_mps''), (''detected_press_count'', ''press_event'', ''detected_press_count''),
     (''cluster_silhouette'', ''xy_cluster'', ''silhouette_score''), (''max_cluster_radius'', ''xy_cluster'', ''max_cluster_radius''),
     (''outside_ratio'', ''workspace_bbox'', ''outside_ratio'')]"

definition aggregate_metrics :: "validator_result list \<Rightarrow> pydict result" where
  "aggregate_metrics rs = rmap (\<lambda>(key, name, metric). rbind (metric_of rs name metric) (\<lambda>v. Inr (key, v))) report_metrics"

section \<open>Artifacts\<close>

definition resolve_artifact_store_type :: "string option \<Rightarrow> string option \<Rightarrow> string result" where
  "resolve_artifact_store_type store_type environ =
     (let resolved = lower (strip_ws (opt_or store_type (opt_or environ ''local'')))
      in if resolved \<in> {''local'', ''s3''} then Inr resolved else Inl (ValueError (''Unsupported artifact store: '' @ resolved)))"

text \<open>\<open>str.format\<close> with named fields. A field with a format specification, a conversion, an attribute or an
  index is not modelled: its whole text is taken for its name.\<close>

fun py_format :: "(string \<times> string) list \<Rightarrow> string \<Rightarrow> string result"
and format_field :: "(string \<times> string) list \<Rightarrow> string \<Rightarrow> string \<Rightarrow> string result" where
  "py_format args [] = Inr []"
| "py_format args [c] = (if c = CHR ''{'' \<or> c = CHR ''}'' then Inl (ValueError ''Single brace encountered in format string'') else Inr [c])"
| "py_format args (c # d # s) =
     (if c = CHR ''{'' then (if d = CHR ''{'' then rbind (py_format args s) (\<lambda>r. Inr (c # r)) else format_field args [] (d # s))
      else if c = CHR ''}'' then (if d = CHR ''}'' then rbind (py_format args s) (\<lambda>r. Inr (c # r))
        else Inl (ValueError ''Single brace encountered in format string''))
      else rbind (py_format args (d # s)) (\<lambda>r. Inr (c # r)))"
| "format_field args name [] = Inl (ValueError ''expected a closing brace before end of string'')"
| "format_field args name (c # s) = (if c = CHR ''}'' then
       (case map_of args name of None \<Rightarrow> Inl (KeyError name) | Some v \<Rightarrow> rbind (py_format args s) (\<lambda>r. Inr (v @ r)))
     else format_field args (name @ [c]) s)"

definition resolve_artifact_prefix :: "string option \<Rightarrow> string \<Rightarrow> string \<Rightarrow> string \<Rightarrow> string result" where
  "resolve_artifact_prefix prefix_template run_id dataset_id store_type =
     (let template = (case prefix_template of Some t \<Rightarrow> t | None \<Rightarrow> if store_type = ''s3'' then ''runs/{run_id}'' else [])
      in rbind (py_format [(''run_id'', run_id), (''dataset_id'', dataset_id)] template) (\<lambda>s. Inr (strip_chars (\<lambda>c. c = CHR ''/'') s)))"

definition artifact_path :: "string \<Rightarrow> string \<Rightarrow> string" where
  "artifact_path pre relative_path = (let relative = dropWhile (\<lambda>c. c = CHR ''/'') relative_path
     in if pre \<noteq> [] then pre @ ''/'' @ relative else relative)"

section \<open>One run\<close>

record loaded_dataset = dataset_bundle +
  bu_dataset_id :: string
  bu_endpose_path :: string
  bu_video_path :: "string option"
  bu_meta_path :: "string option"
  bu_frame_count :: int
  bu_source :: string
  bu_warnings :: "string list"

record pipe_world =
  pw_registry :: registry_db
  pw_files :: "(string \<times> pydict) list"
  pw_store :: "(string \<times> pydict) list"

text \<open>The parameters: \<open>vp_validate\<close> runs the validator of a name on the data set, with the shared state;
  \<open>vp_ms\<close> is the time it took, in milliseconds; \<open>vp_put\<close> uploads a file and answers its URI.\<close>

record 'st pipe_env =
  vp_registry :: runs_env
  vp_load :: "pydict \<Rightarrow> loaded_dataset result"
  vp_validate :: "string \<Rightarrow> loaded_dataset \<Rightarrow> 'st \<Rightarrow> pydict \<Rightarrow> (validator_result \<times> 'st) result"
  vp_state :: 'st
  vp_ms :: "string \<Rightarrow> rat"
  vp_plots :: "loaded_dataset \<Rightarrow> 'st \<Rightarrow> string \<Rightarrow> (string \<times> string) list result"
  vp_put :: "string \<Rightarrow> string \<Rightarrow> string result"
  vp_open_store :: "py_error option"
  vp_store_env :: "string option"
  vp_as_uri :: "string \<Rightarrow> string"
  vp_backend :: string
  vp_started :: string
  vp_finished :: string
  vp_seconds :: rat
  vp_auto_id :: string

record run_options =
  vo_config :: "string option"
  vo_config_doc :: "pyval option"
  vo_output_dir :: string
  vo_run_id :: "string option"
  vo_record :: bool
  vo_policy :: "string option"
  vo_policy_doc :: "pyval option"
  vo_store_type :: "string option"
  vo_prefix :: "string option"

definition default_validators :: "string list" where
  "default_validators = [''schema'', ''quaternion'', ''euler_stability'', ''velocity_jump'', ''press_event'', ''xy_cluster'', ''workspace_bbox'']"

definition timed :: "rat \<Rightarrow> validator_result \<Rightarrow> validator_result result" where
  "timed ms r = rbind (as_mapping (vl_details r)) (\<lambda>d. Inr (r\<lparr>vl_details := VDict (dict_set ''duration_ms'' (VFloat (py_round 3 ms)) d)\<rparr>))"

fun run_validators :: "'st pipe_env \<Rightarrow> loaded_dataset \<Rightarrow> pydict \<Rightarrow> string list \<Rightarrow> 'st \<Rightarrow> (validator_result list \<times> 'st) result" where
  "run_validators env ds config [] st = Inr ([], st)"
| "run_validators env ds config (v # vs) st = rbind (vp_validate env v ds st config) (\<lambda>(r, st1).
     rbind (timed (vp_ms env v) r) (\<lambda>r1. rbind (run_validators env ds config vs st1) (\<lambda>(rs, st2). Inr (r1 # rs, st2))))"

definition collect_messages :: "string \<Rightarrow> validator_result list \<Rightarrow> string list" where
  "collect_messages status rs = concat (map vl_messages (filter (\<lambda>r. vl_status r = status) rs))"

definition dataset_version_of :: "pydict \<Rightarrow> string" where
  "dataset_version_of meta = py_str (get_or meta ''version'' (get_or meta ''dataset_version'' (VStr ''v1'')))"

definition dataset_meta_of :: "loaded_dataset \<Rightarrow> pydict" where
  "dataset_meta_of ds =
     [(''dataset_path'', VStr (bu_path ds)), (''endpose_path'', VStr (bu_endpose_path ds)), (''video_path'', of_opt_str (bu_video_path ds)),
      (''meta_path'', of_opt_str (bu_meta_path ds)),
      (''video_meta'', VDict [(''fps'', VFloat (bu_fps ds)), (''frame_count'', VInt (bu_frame_count ds)),
         (''duration_sec'', VFloat (bu_duration ds)), (''source'', VStr (bu_source ds))]),
      (''meta'', VDict (bu_meta ds))]"

definition gate_dict :: "gate_report \<Rightarrow> pydict" where
  "gate_dict g =
     [(''status'', VStr (case gt_status g of GPASS \<Rightarrow> ''PASS'' | GWARN \<Rightarrow> ''WARN'' | GFAIL \<Rightarrow> ''FAIL'')),
      (''results'', VList (map (\<lambda>(r, actual, passed). VDict [(''name'', VStr (gr_name r)), (''metric'', VStr (gr_metric r)),
         (''op'', VStr (gr_op r)), (''expected'', gr_value r), (''actual'', actual), (''severity'', VStr (gr_severity r)),
         (''passed'', VBool passed)]) (gt_results g))),
      (''failed_rules'', VList (map VStr (gt_failed g))), (''warning_rules'', VList (map VStr (gt_warnings g)))]"

definition no_gate :: pydict where
  "no_gate = [(''status'', VStr ''SKIP''), (''results'', VList []), (''failed_rules'', VList []), (''warning_rules'', VList [])]"

definition validator_dict :: "validator_result \<Rightarrow> pyval" where
  "validator_dict r = VDict [(''name'', VStr (vl_name r)), (''status'', VStr (vl_status r)), (''metrics'', VDict (vl_metrics r)),
     (''messages'', VList (map VStr (vl_messages r))), (''artifacts'', VDict (vl_artifacts r)), (''details'', vl_details r)]"

definition quality_report_dict :: "quality_report \<Rightarrow> pydict" where
  "quality_report_dict q =
     [(''run_id'', VStr (qy_run_id q)), (''dataset_id'', VStr (qy_dataset_id q)), (''status'', VStr (qy_status q)),
      (''started_at'', VStr (qy_started_at q)), (''finished_at'', VStr (qy_finished_at q)), (''duration_sec'', VFloat (qy_duration_sec q)),
      (''config'', VDict (qy_config q)), (''dataset_meta'', VDict (qy_dataset_meta q)), (''metrics'', VDict (qy_metrics q)),
      (''validators'', VList (map validator_dict (qy_validators q))), (''artifacts'', VDict (qy_artifacts q)),
      (''warnings'', VList (map VStr (qy_warnings q))), (''errors'', VList (map VStr (qy_errors q))),
      (''registry'', VDict (qy_registry q)), (''gate'', VDict (qy_gate q))]"

section \<open>The report before anything is written\<close>

record prepared_run =
  pq_dataset :: loaded_dataset
  pq_version :: string
  pq_report :: quality_report
  pq_plots :: "(string \<times> string) list"
  pq_prefix :: string
  pq_json :: bool
  pq_html :: bool

definition report_path :: "run_options \<Rightarrow> string \<Rightarrow> string" where
  "report_path o' file_name = posix (vo_output_dir o') [file_name]"

definition first_report :: "'st pipe_env \<Rightarrow> run_options \<Rightarrow> pydict \<Rightarrow> loaded_dataset \<Rightarrow> string \<Rightarrow> validator_result list \<Rightarrow> pydict
    \<Rightarrow> (string \<times> string) list \<Rightarrow> string \<Rightarrow> string \<Rightarrow> quality_report" where
  "first_report env o' config ds run_id rs metrics plots store_type pre =
     \<lparr>qy_run_id = run_id, qy_dataset_id = bu_dataset_id ds, qy_status = compute_report_status rs, qy_started_at = vp_started env,
      qy_finished_at = vp_finished env, qy_duration_sec = vp_seconds env, qy_config = config, qy_dataset_meta = dataset_meta_of ds,
      qy_metrics = metrics, qy_validators = rs,
      qy_artifacts = [(''plots'', VDict (map (\<lambda>(k, v). (k, VStr v)) plots)), (''artifact_store'', VStr store_type)] @
        (if pre \<noteq> [] then [(''artifact_prefix'', VStr pre)] else []),
      qy_warnings = bu_warnings ds @ collect_messages ''WARN'' rs, qy_errors = collect_messages ''FAIL'' rs,
      qy_registry = [(''dataset_id'', VStr (bu_dataset_id ds)), (''version'', VStr (dataset_version_of (bu_meta ds))),
        (''run_db_id'', VNone), (''db_backend'', VStr (vp_backend env))],
      qy_gate = no_gate\<rparr>"

definition gate_of :: "'st pipe_env \<Rightarrow> run_options \<Rightarrow> pydict \<Rightarrow> pydict result" where
  "gate_of env o' metrics = (case vo_policy o' of
     None \<Rightarrow> Inr no_gate
   | Some path \<Rightarrow> rbind (load_gate_policy (vo_policy_doc o')) (\<lambda>policy. rbind (evaluate_gate metrics policy) (\<lambda>g.
       Inr (gate_dict g @ [(''policy_path'', VStr (ge_resolve (vp_registry env) path))]))))"

definition set_artifact :: "string \<Rightarrow> string \<Rightarrow> quality_report \<Rightarrow> quality_report" where
  "set_artifact key v r = r\<lparr>qy_artifacts := dict_set key (VStr v) (qy_artifacts r)\<rparr>"

definition prepare_run :: "'st pipe_env \<Rightarrow> run_options \<Rightarrow> prepared_run result" where
  "prepare_run env o' =
     rbind (load_config (case vo_config o' of None \<Rightarrow> None | Some p \<Rightarrow> Some (vo_config_doc o'))) (\<lambda>config.
     rbind (vp_load env config) (\<lambda>ds.
     rbind (run_validators env ds config default_validators (vp_state env)) (\<lambda>(rs, st).
     rbind (as_mapping (get_or config ''reports'' (VDict []))) (\<lambda>cfg.
     rbind (if truthy (get_or cfg ''save_plots'' (VBool True)) then vp_plots env ds st (vo_output_dir o') else Inr []) (\<lambda>plots.
     rbind (resolve_artifact_store_type (vo_store_type o') (vp_store_env env)) (\<lambda>store_type.
       let run_id = opt_or (vo_run_id o') (vp_auto_id env);
           json = truthy (get_or cfg ''json'' (VBool True)); html = truthy (get_or cfg ''html'' (VBool True))
       in rbind (resolve_artifact_prefix (vo_prefix o') run_id (bu_dataset_id ds) store_type) (\<lambda>pre.
     rbind (aggregate_metrics rs) (\<lambda>metrics.
     rbind (gate_of env o' metrics) (\<lambda>gate.
     rbind (case vp_open_store env of Some err \<Rightarrow> Inl err | None \<Rightarrow> Inr ()) (\<lambda>_.
       let r0 = (first_report env o' config ds run_id rs metrics plots store_type pre)\<lparr>qy_gate := gate\<rparr>;
           r1 = (if json then set_artifact ''report_json'' (report_path o' ''report.json'') r0 else r0);
           r2 = (if html then set_artifact ''report_html'' (report_path o' ''report.html'') r1 else r1)
       in Inr \<lparr>pq_dataset = ds, pq_version = dataset_version_of (bu_meta ds), pq_report = r2, pq_plots = plots, pq_prefix = pre,
            pq_json = json, pq_html = html\<rparr>))))))))))"

section \<open>Writing, uploading, recording\<close>

definition put_file :: "'st pipe_env \<Rightarrow> string \<Rightarrow> string \<Rightarrow> (pipe_world, string) act" where
  "put_file env local_path dest w = (case vp_put env local_path dest of
     Inl err \<Rightarrow> (Inl err, w)
   | Inr uri \<Rightarrow> (Inr uri, case map_of (pw_files w) local_path of
       None \<Rightarrow> w | Some doc \<Rightarrow> w\<lparr>pw_store := dict_set dest doc (pw_store w)\<rparr>))"

definition write_doc :: "string \<Rightarrow> pydict \<Rightarrow> (pipe_world, unit) act" where
  "write_doc path doc = act_modify (\<lambda>w. w\<lparr>pw_files := dict_set path doc (pw_files w)\<rparr>)"

type_synonym report_step = "quality_report \<Rightarrow> (pipe_world, quality_report) act"

definition write_gate :: "run_options \<Rightarrow> report_step" where
  "write_gate o' r = (if vo_policy o' \<noteq> None then act_bind (write_doc (report_path o' ''gate_report.json'') (qy_gate r)) (\<lambda>_. act_return r)
     else act_return r)"

definition name_gate :: "run_options \<Rightarrow> report_step" where
  "name_gate o' r = act_return (if vo_policy o' \<noteq> None then set_artifact ''gate_report'' (report_path o' ''gate_report.json'') r else r)"

definition write_outputs :: "run_options \<Rightarrow> bool \<Rightarrow> report_step" where
  "write_outputs o' json r = (if json then act_bind (write_doc (report_path o' ''report.json'') (quality_report_dict r)) (\<lambda>_. act_return r)
     else act_return r)"

definition upload_named :: "'st pipe_env \<Rightarrow> run_options \<Rightarrow> string \<Rightarrow> bool \<Rightarrow> string \<Rightarrow> string \<Rightarrow> report_step" where
  "upload_named env o' pre wanted_file file_name key r = (if wanted_file then
     act_bind (put_file env (report_path o' file_name) (artifact_path pre file_name)) (\<lambda>uri. act_return (set_artifact key uri r))
     else act_return r)"

fun upload_plots :: "'st pipe_env \<Rightarrow> run_options \<Rightarrow> string \<Rightarrow> (string \<times> string) list \<Rightarrow> (pipe_world, pydict) act" where
  "upload_plots env o' pre [] = act_return []"
| "upload_plots env o' pre ((name, rel) # ps) = act_bind (put_file env (report_path o' rel) (artifact_path pre rel)) (\<lambda>uri.
     act_bind (upload_plots env o' pre ps) (\<lambda>d. act_return ((name, VStr uri) # d)))"

definition in_registry :: "(registry_db, 'a) act \<Rightarrow> (pipe_world, 'a) act" where
  "in_registry f w = (case f (pw_registry w) of (r, db) \<Rightarrow> (r, w\<lparr>pw_registry := db\<rparr>))"

definition record_dataset :: "'st pipe_env \<Rightarrow> prepared_run \<Rightarrow> quality_report \<Rightarrow> (pipe_world, pydict) act" where
  "record_dataset env p r = (let ds = pq_dataset p; meta = bu_meta ds in
     act_bind (act_lift (text_column (get meta ''task_type''))) (\<lambda>task.
     act_bind (act_lift (text_column (get meta ''robot_type''))) (\<lambda>robot.
     act_bind (act_lift (text_column (get_or meta ''pose_format'' (VStr ''eexyzxyzw'')))) (\<lambda>pose.
     act_bind (act_lift (text_column (get_or meta ''storage_uri'' (VStr (vp_as_uri env (bu_path ds)))))) (\<lambda>uri.
     in_registry (upsert_dataset (vp_registry env) \<lparr>gd_id = 0, gd_dataset_id = bu_dataset_id ds, gd_version = pq_version p,
       gd_task_type = task, gd_robot_type = robot, gd_pose_format = pose, gd_storage_uri = uri, gd_local_path = Some (bu_path ds),
       gd_num_samples = Some (bu_samples ds), gd_duration_sec = Some (bu_duration ds), gd_fps = Some (bu_fps ds),
       gd_created_at = ge_now (vp_registry env), gd_updated_at = ge_now (vp_registry env), gd_last_status = Some (qy_status r),
       gd_last_run_id = Some (qy_run_id r)\<rparr>))))))"

definition record_run :: "'st pipe_env \<Rightarrow> run_options \<Rightarrow> prepared_run \<Rightarrow> report_step" where
  "record_run env o' p r = (if vo_record o' then
     act_bind (record_dataset env p r) (\<lambda>_.
     act_bind (in_registry (record_validation_run (vp_registry env) r (pq_version p) (vo_config o') (vo_output_dir o'))) (\<lambda>i.
       act_return (r\<lparr>qy_registry := dict_set ''run_db_id'' (VInt i) (qy_registry r)\<rparr>)))
     else act_return r)"

definition upload_again :: "'st pipe_env \<Rightarrow> run_options \<Rightarrow> string \<Rightarrow> bool \<Rightarrow> string \<Rightarrow> string \<Rightarrow> report_step" where
  "upload_again env o' pre wanted_file file_name key r =
     upload_named env o' pre (wanted_file \<and> truthy (get (qy_artifacts r) key)) file_name key r"

text \<open>The reports are written with the plots' relative paths, uploaded, and written again with their URIs; then the
  run is recorded, and the reports are written and uploaded once more.\<close>

definition publish_report :: "'st pipe_env \<Rightarrow> run_options \<Rightarrow> prepared_run \<Rightarrow> (pipe_world, quality_report) act" where
  "publish_report env o' p =
     act_bind (write_gate o' (pq_report p)) (\<lambda>r.
     act_bind (name_gate o' r) (\<lambda>r.
     act_bind (write_outputs o' (pq_json p) r) (\<lambda>r.
     act_bind (upload_plots env o' (pq_prefix p) (pq_plots p)) (\<lambda>plots.
     let r = r\<lparr>qy_artifacts := dict_set ''plots'' (VDict plots) (qy_artifacts r)\<rparr> in
     act_bind (write_outputs o' (pq_json p) r) (\<lambda>r.
     act_bind (write_gate o' r) (\<lambda>r.
     act_bind (upload_named env o' (pq_prefix p) (pq_json p) ''report.json'' ''report_json_uri'' r) (\<lambda>r.
     act_bind (upload_named env o' (pq_prefix p) (pq_html p) ''report.html'' ''report_html_uri'' r) (\<lambda>r.
     upload_named env o' (pq_prefix p) (vo_policy o' \<noteq> None) ''gate_report.json'' ''gate_report_uri'' r))))))))"

definition finish_report :: "'st pipe_env \<Rightarrow> run_options \<Rightarrow> prepared_run \<Rightarrow> report_step" where
  "finish_report env o' p r =
     act_bind (write_outputs o' (pq_json p) r) (\<lambda>r.
     act_bind (write_gate o' r) (\<lambda>r.
     act_bind (upload_again env o' (pq_prefix p) (pq_json p) ''report.json'' ''report_json_uri'' r) (\<lambda>r.
     upload_again env o' (pq_prefix p) (pq_html p) ''report.html'' ''report_html_uri'' r)))"

definition run_validation :: "'st pipe_env \<Rightarrow> run_options \<Rightarrow> (pipe_world, quality_report) act" where
  "run_validation env o' = act_bind (act_lift (prepare_run env o')) (\<lambda>p.
     act_bind (publish_report env o' p) (\<lambda>r.
     act_bind (record_run env o' p r) (\<lambda>r. finish_report env o' p r)))"

section \<open>Comparing two reports\<close>

definition compare_rules :: "(string \<times> string \<times> rat \<times> rat) list" where
  "compare_rules = [(''cluster_silhouette'', ''higher'', 3 / 100, 1 / 10), (''max_velocity_mps'', ''lower'', 1 / 10, 1 / 4),
     (''quat_max_norm_error'', ''lower'', 1 / 10, 1 / 2), (''max_cluster_radius'', ''lower'', 1 / 10, 1 / 4), (''outside_ratio'', ''lower'', 1 / 10, 1 / 4)]"

text \<open>The relative change; \<open>None\<close> is infinity.\<close>

definition delta_ratio :: "rat \<Rightarrow> rat \<Rightarrow> rat option" where
  "delta_ratio b c = (if \<bar>b\<bar> \<le> 1 / 10 ^ 12 then (if c \<noteq> b then None else Some 0) else Some (\<bar>c - b\<bar> / \<bar>b\<bar>))"

definition at_least :: "rat option \<Rightarrow> rat \<Rightarrow> bool" where
  "at_least d q = (case d of None \<Rightarrow> True | Some x \<Rightarrow> q \<le> x)"

definition compare_metric :: "string \<Rightarrow> pyval \<Rightarrow> pyval \<Rightarrow> string result" where
  "compare_metric metric baseline candidate =
     (if baseline = VNone \<or> candidate = VNone then Inr ''WARN''
      else (case map_of compare_rules metric of
        None \<Rightarrow> Inr (if py_eq baseline candidate then ''PASS'' else ''WARN'')
      | Some (direction, warn, fail) \<Rightarrow> rbind (py_float baseline) (\<lambda>b. rbind (py_float candidate) (\<lambda>c.
          let degraded = (if direction = ''higher'' then c < b else b < c)
          in Inr (if \<not> degraded then ''PASS'' else if at_least (delta_ratio b c) fail then ''FAIL''
                  else if at_least (delta_ratio b c) warn then ''WARN'' else ''PASS'')))))"

definition compared_metrics :: "string list" where
  "compared_metrics = [''cluster_silhouette'', ''max_velocity_mps'', ''quat_max_norm_error'', ''detected_press_count'', ''max_cluster_radius'',
     ''outside_ratio'']"

definition compare_line :: "pydict \<Rightarrow> pydict \<Rightarrow> string \<Rightarrow> (string \<times> string) result" where
  "compare_line baseline candidate metric =
     rbind (as_mapping (get_or baseline ''metrics'' (VDict []))) (\<lambda>bm. rbind (as_mapping (get_or candidate ''metrics'' (VDict []))) (\<lambda>cm.
     rbind (compare_metric metric (get bm metric) (get cm metric)) (\<lambda>verdict.
       Inr (metric @ '': '' @ py_str (get bm metric) @ '' -> '' @ py_str (get cm metric) @ '' '' @ verdict, verdict))))"

definition compare_reports :: "pydict \<Rightarrow> pydict \<Rightarrow> (string list \<times> bool) result" where
  "compare_reports baseline candidate = rbind (rmap (compare_line baseline candidate) compared_metrics) (\<lambda>ls.
     Inr (map fst ls @ [''status: '' @ py_str (get baseline ''status'') @ '' -> '' @ py_str (get candidate ''status'')],
          list_ex (\<lambda>l. snd l = ''FAIL'') ls \<or> get candidate ''status'' = VStr ''FAIL''))"

section \<open>Scanning a directory\<close>

text \<open>A child of the scanned directory: its name, whether it is a directory with an \<open>endpose.pt\<close>, its parsed
  \<open>meta.yaml\<close> if there is one, and its resolved path.\<close>

record scan_child =
  sd_name :: string
  sd_is_dir :: bool
  sd_has_endpose :: bool
  sd_meta :: "pyval option"
  sd_path :: string

definition peek_dataset_identity :: "scan_child \<Rightarrow> string \<times> string" where
  "peek_dataset_identity d = (case sd_meta d of
     None \<Rightarrow> (sd_name d, ''v1'')
   | Some doc \<Rightarrow> (case py_or doc (VDict []) of
       VDict m \<Rightarrow> (py_str (get_or m ''dataset_id'' (VStr (sd_name d))), dataset_version_of m)
     | _ \<Rightarrow> (sd_name d, ''v1'')))"

definition discover_children :: "string \<Rightarrow> scan_child list option \<Rightarrow> scan_child list result" where
  "discover_children scan_root children = (case children of
     None \<Rightarrow> Inl (FileNotFoundError (''Scan root not found: '' @ scan_root))
   | Some cs \<Rightarrow> Inr (sort_key sd_name (filter (\<lambda>c. sd_is_dir c \<and> sd_has_endpose c) cs)))"

record scan_options =
  so_root :: string
  so_root_uri :: string
  so_children :: "scan_child list option"
  so_output_root :: string
  so_use_registry :: bool
  so_only_new :: bool
  so_run :: "scan_child \<Rightarrow> run_options"

text \<open>The environment of the run of the \<open>i\<close>-th data set, and the clock: the text of the second at which its run id
  is made.\<close>

record 'st scan_clock =
  sy_env :: "nat \<Rightarrow> scan_child \<Rightarrow> 'st pipe_env"
  sy_registry :: runs_env
  sy_stamp :: "nat \<Rightarrow> string"
  sy_scan_id :: string
  sy_started :: string
  sy_finished :: string

record scan_tally =
  ty_succeeded :: int
  ty_failed :: int
  ty_skipped :: int
  ty_runs :: "pydict list"

definition no_tally :: scan_tally where
  "no_tally = \<lparr>ty_succeeded = 0, ty_failed = 0, ty_skipped = 0, ty_runs = []\<rparr>"

definition tally_skip :: "scan_child \<Rightarrow> scan_tally \<Rightarrow> scan_tally" where
  "tally_skip d t = (case peek_dataset_identity d of (dataset_id, version) \<Rightarrow> t\<lparr>ty_skipped := ty_skipped t + 1, ty_runs := ty_runs t @
     [[(''dataset_id'', VStr dataset_id), (''version'', VStr version), (''status'', VStr ''SKIPPED''), (''dataset_path'', VStr (sd_path d)),
       (''reason'', VStr ''existing successful run'')]]\<rparr>)"

definition dataset_output_dir :: "scan_options \<Rightarrow> scan_child \<Rightarrow> string" where
  "dataset_output_dir o' d = posix (so_output_root o') [sd_name d]"

definition tally_run :: "scan_options \<Rightarrow> scan_child \<Rightarrow> quality_report \<Rightarrow> scan_tally \<Rightarrow> scan_tally" where
  "tally_run o' d r t = (case peek_dataset_identity d of (dataset_id, version) \<Rightarrow>
     let outcome = merged_status (qy_status r) (get (qy_gate r) ''status'');
         t1 = (if outcome = ''FAIL'' then t\<lparr>ty_failed := ty_failed t + 1\<rparr> else t\<lparr>ty_succeeded := ty_succeeded t + 1\<rparr>)
     in t1\<lparr>ty_runs := ty_runs t1 @ [[(''dataset_id'', VStr dataset_id), (''version'', VStr version), (''run_id'', VStr (qy_run_id r)),
       (''status'', VStr outcome), (''report_json'', get (qy_artifacts r) ''report_json''), (''output_dir'', VStr (dataset_output_dir o' d))]]\<rparr>)"

definition scan_run_id :: "'st scan_clock \<Rightarrow> nat \<Rightarrow> scan_child \<Rightarrow> string" where
  "scan_run_id clk i d = ''scan-'' @ fst (peek_dataset_identity d) @ ''-'' @ sy_stamp clk i"

definition child_options :: "'st scan_clock \<Rightarrow> scan_options \<Rightarrow> nat \<Rightarrow> scan_child \<Rightarrow> run_options" where
  "child_options clk o' i d = (so_run o' d)\<lparr>vo_output_dir := dataset_output_dir o' d, vo_run_id := Some (scan_run_id clk i d),
     vo_record := so_use_registry o'\<rparr>"

definition scan_dataset :: "'st scan_clock \<Rightarrow> scan_options \<Rightarrow> nat \<Rightarrow> scan_child \<Rightarrow> scan_tally \<Rightarrow> (pipe_world, scan_tally) act" where
  "scan_dataset clk o' i d t w = (case peek_dataset_identity d of (dataset_id, version) \<Rightarrow>
     if so_only_new o' \<and> has_successful_run dataset_id version (pw_registry w) then (Inr (tally_skip d t), w)
     else (case run_validation (sy_env clk i d) (child_options clk o' i d) w of
       (Inl err, w') \<Rightarrow> (Inl err, w')
     | (Inr r, w') \<Rightarrow> (Inr (tally_run o' d r t), w')))"

fun scan_children :: "'st scan_clock \<Rightarrow> scan_options \<Rightarrow> nat \<Rightarrow> scan_child list \<Rightarrow> scan_tally \<Rightarrow> (pipe_world, scan_tally) act" where
  "scan_children clk o' i [] t = act_return t"
| "scan_children clk o' i (d # ds) t = act_bind (scan_dataset clk o' i d t) (scan_children clk o' (Suc i) ds)"

definition scan_summary :: "'st scan_clock \<Rightarrow> scan_child list \<Rightarrow> scan_tally \<Rightarrow> pydict" where
  "scan_summary clk ds t =
     [(''scan_id'', VStr (sy_scan_id clk)), (''total'', VInt (int (length ds))), (''succeeded'', VInt (ty_succeeded t)),
      (''failed'', VInt (ty_failed t)), (''skipped'', VInt (ty_skipped t)), (''runs'', VList (map VDict (ty_runs t)))]"

definition scan_job_status :: "scan_tally \<Rightarrow> string" where
  "scan_job_status t = (if 0 < ty_failed t then ''FAIL'' else if 0 < ty_skipped t \<and> ty_succeeded t = 0 then ''WARN'' else ''PASS'')"

definition scan_job_of :: "'st scan_clock \<Rightarrow> scan_options \<Rightarrow> scan_child list \<Rightarrow> scan_tally \<Rightarrow> scan_job_args" where
  "scan_job_of clk o' ds t = \<lparr>ns_scan_id = sy_scan_id clk, ns_root_uri = so_root_uri o', ns_output_root = so_output_root o',
     ns_status = scan_job_status t, ns_total = int (length ds), ns_succeeded = ty_succeeded t, ns_failed = ty_failed t,
     ns_skipped = ty_skipped t, ns_started_at = sy_started clk, ns_finished_at = sy_finished clk, ns_summary = scan_summary clk ds t\<rparr>"

definition scan_datasets :: "'st scan_clock \<Rightarrow> scan_options \<Rightarrow> (pipe_world, pydict) act" where
  "scan_datasets clk o' = act_bind (act_lift (discover_children (so_root o') (so_children o'))) (\<lambda>ds.
     act_bind (scan_children clk o' 0 ds no_tally) (\<lambda>t.
     act_bind (write_doc (posix (so_output_root o') [''scan_summary.json'']) (scan_summary clk ds t)) (\<lambda>_.
     act_bind (if so_use_registry o' \<or> so_only_new o'
       then act_bind (in_registry (record_scan_job (sy_registry clk) (scan_job_of clk o' ds t))) (\<lambda>_. act_return ()) else act_return ()) (\<lambda>_.
     act_return (scan_summary clk ds t)))))"

end
