(* ===== verification/Registry_Guarantees.thy ===== *)
theory Registry_Guarantees
  imports Registry
begin

text \<open>
  What the operations of \<^verbatim>\<open>Registry\<close> guarantee: the tables stay consistent although they have no foreign
  keys, and a recorded validation run is read back as it was, without touching the others.
\<close>

section \<open>Rows with increasing ids\<close>

definition ids_increase :: "('r \<Rightarrow> int) \<Rightarrow> 'r list \<Rightarrow> bool" where
  "ids_increase rid t = sorted_wrt (\<lambda>a b. rid a < rid b) t"

lemma ids_increase_Nil [simp]: "ids_increase rid []"
  by (simp add: ids_increase_def)

lemma ids_increase_filter: "ids_increase rid t \<Longrightarrow> ids_increase rid (filter P t)"
  by (simp add: ids_increase_def sorted_wrt_filter)

lemma ids_increase_add: "fresh_ids env \<Longrightarrow> (\<And>i. rid (mk i) = i) \<Longrightarrow> ids_increase rid t \<Longrightarrow> ids_increase rid (add_row env rid mk t)"
  by (auto simp: ids_increase_def add_row_def sorted_wrt_append fresh_ids_def)

lemma add_rows_simps [simp]: "add_rows env rid [] t = t" "add_rows env rid (mk # mks) t = add_rows env rid mks (add_row env rid mk t)"
  by (simp_all add: add_rows_def)

lemma ids_increase_adds: "fresh_ids env \<Longrightarrow> (\<And>mk i. mk \<in> set mks \<Longrightarrow> rid (mk i) = i) \<Longrightarrow> ids_increase rid t \<Longrightarrow>
    ids_increase rid (add_rows env rid mks t)"
  by (induction mks arbitrary: t) (auto simp: ids_increase_add)

lemma map_rid_update: "(\<And>r. P r \<Longrightarrow> rid (f r) = rid r) \<Longrightarrow> ids_increase rid t \<Longrightarrow> ids_increase rid (update_first P f t)"
  unfolding ids_increase_def sorted_wrt_map[of "(<)" rid, symmetric] by (simp add: map_update_first)

lemma sort_increasing: "ids_increase rid t \<Longrightarrow> sort_key rid t = t"
  by (rule sort_key_id_if_sorted) (auto simp: ids_increase_def sorted_map intro: sorted_wrt_mono_rel[rotated] less_imp_le)

lemma rows_by_id_increasing: "ids_increase rid t \<Longrightarrow> rows_by_id rid run_of run_id t = filter (\<lambda>r. run_of r = run_id) t"
  by (simp add: rows_by_id_def sort_increasing ids_increase_filter)

text \<open>The rows that are added are those that were made, in their order.\<close>

lemma add_rows_append: "\<exists>ids. length ids = length mks \<and> add_rows env rid mks t = t @ map2 (\<lambda>mk i. mk i) mks ids"
proof (induction mks arbitrary: t)
  case Nil
  then show ?case by simp
next
  case (Cons mk mks)
  obtain ids where "length ids = length mks" "add_rows env rid mks (add_row env rid mk t) = add_row env rid mk t @ map2 (\<lambda>mk i. mk i) mks ids"
    using Cons by blast
  then show ?case by (intro exI[of _ "ge_fresh env (map rid t) # ids"]) (simp add: add_row_def)
qed

lemma add_rows_of_run:
  assumes "\<And>mk i. mk \<in> set mks \<Longrightarrow> run_of (mk i) = run_id" "\<forall>r\<in>set t. run_of r \<noteq> run_id"
  obtains ids where "length ids = length mks" "filter (\<lambda>r. run_of r = run_id) (add_rows env rid mks t) = map2 (\<lambda>mk i. mk i) mks ids"
    "\<And>other. other \<noteq> run_id \<Longrightarrow> filter (\<lambda>r. run_of r = other) (add_rows env rid mks t) = filter (\<lambda>r. run_of r = other) t"
proof -
  obtain ids where ids: "length ids = length mks" "add_rows env rid mks t = t @ map2 (\<lambda>mk i. mk i) mks ids"
    using add_rows_append by blast
  have run: "r \<in> set (map2 (\<lambda>mk i. mk i) mks ids) \<Longrightarrow> run_of r = run_id" for r
    using assms(1) by (auto dest: set_zip_leftD)
  have "filter (\<lambda>r. run_of r = run_id) t = []" using assms(2) by (simp add: filter_empty_conv)
  moreover have "filter (\<lambda>r. run_of r = run_id) (map2 (\<lambda>mk i. mk i) mks ids) = map2 (\<lambda>mk i. mk i) mks ids"
    using run by (simp add: filter_id_conv)
  moreover have "filter (\<lambda>r. run_of r = other) (map2 (\<lambda>mk i. mk i) mks ids) = []" if "other \<noteq> run_id" for other
    using run that by (auto simp: filter_empty_conv)
  ultimately show thesis using that ids by simp
qed

lemma map2_made: "length ids = length xs \<Longrightarrow> (\<And>x i. h (f (mk x i)) = g x) \<Longrightarrow> map h (map f (map2 (\<lambda>m i. m i) (map mk xs) ids)) = map g xs"
  by (induction ids xs rule: list_induct2) auto

lemma filter_others: "other \<noteq> run_id \<Longrightarrow> filter (\<lambda>r. run_of r \<noteq> run_id \<and> run_of r = other) t = filter (\<lambda>r. run_of r = other) t"
  by (induction t) auto

section \<open>Consistent tables\<close>

definition registry_ok :: "registry_db \<Rightarrow> bool" where
  "registry_ok db = (distinct (map gn_run_id (rt_runs db)) \<and> distinct (map (\<lambda>r. (gd_dataset_id r, gd_version r)) (rt_datasets db)) \<and>
     distinct (map gs_scan_id (rt_scans db)) \<and>
     ids_increase gd_id (rt_datasets db) \<and> ids_increase gn_id (rt_runs db) \<and> ids_increase gv_id (rt_validators db) \<and>
     ids_increase gg_id (rt_gates db) \<and> ids_increase ga_id (rt_artifacts db) \<and> ids_increase gs_id (rt_scans db) \<and>
     gv_run_id ` set (rt_validators db) \<union> gg_run_id ` set (rt_gates db) \<union> ga_run_id ` set (rt_artifacts db) \<subseteq> gn_run_id ` set (rt_runs db))"

lemma registry_ok_start: "registry_ok no_registry_rows"
  by (simp add: registry_ok_def no_registry_rows_def)

lemma in_tx_cases: "in_tx env body db = (res, db') \<Longrightarrow>
    (\<exists>x. res = Inr x \<and> body db = Inr (x, db')) \<or> (\<exists>err. res = Inl err \<and> db' = db)"
  by (auto simp: in_tx_def split: sum.splits prod.splits option.splits)

lemma in_tx_Inr: "in_tx env body db = (Inr x, db') \<Longrightarrow> body db = Inr (x, db')"
  by (auto dest: in_tx_cases)

lemma set_add_row: "set (add_row env rid mk t) = insert (mk (ge_fresh env (map rid t))) (set t)"
  by (auto simp: add_row_def)

lemma set_add_rows: "(\<And>mk i. mk \<in> set mks \<Longrightarrow> run_of (mk i) = run_id) \<Longrightarrow>
    run_of ` set (add_rows env rid mks t) \<subseteq> insert run_id (run_of ` set t)"
  by (induction mks arbitrary: t) (force simp: set_add_row)+

lemma row_ids [simp]:
  "gn_id (new_run a s f i) = i" "gv_id (new_validator env run v i) = i" "gg_id (new_gate env run g p i) = i"
  "ga_id (new_artifact env run x i) = i" "gs_id (new_scan_job b s f i) = i" "gd_id (new_dataset now d i) = i"
  by (simp_all add: new_run_def new_validator_def new_gate_def new_artifact_def new_scan_job_def new_dataset_def set_dataset_def
      split: prod.splits)

lemma row_runs [simp]:
  "gn_run_id (new_run a s f i) = nr_run_id a" "gv_run_id (new_validator env run v i) = run" "gg_run_id (new_gate env run g p i) = run"
  "ga_run_id (new_artifact env run x i) = run" "gs_scan_id (new_scan_job b s f i) = ns_scan_id b"
  by (simp_all add: new_run_def new_validator_def new_gate_def new_artifact_def new_scan_job_def split: prod.splits)

lemma update_dataset_keys: "(\<And>r. gd_id (f r) = gd_id r \<and> gd_dataset_id (f r) = gd_dataset_id r \<and> gd_version (f r) = gd_version r) \<Longrightarrow>
    ids_increase gd_id t \<Longrightarrow> distinct (map (\<lambda>r. (gd_dataset_id r, gd_version r)) t) \<Longrightarrow>
    ids_increase gd_id (update_first P f t) \<and> distinct (map (\<lambda>r. (gd_dataset_id r, gd_version r)) (update_first P f t))"
  by (simp add: map_rid_update map_update_first)

lemma touch_dataset_ok: "registry_ok db \<Longrightarrow> registry_ok (db\<lparr>rt_datasets := touch_dataset env d v s run (rt_datasets db)\<rparr>)"
  using update_dataset_keys[of "\<lambda>r :: reg_dataset_row. r\<lparr>gd_last_status := Some s, gd_last_run_id := Some run, gd_updated_at := ge_now env\<rparr>"]
  by (simp add: registry_ok_def touch_dataset_def)

lemma upsert_dataset_ok:
  assumes "fresh_ids env" "upsert_dataset_rows env p (rt_datasets db) = (r, t)" "registry_ok db"
  shows "registry_ok (db\<lparr>rt_datasets := t\<rparr>)"
proof (cases "find (dataset_key (gd_dataset_id p) (gd_version p)) (rt_datasets db)")
  case None
  then have t: "t = add_row env gd_id (new_dataset (ge_now env) p) (rt_datasets db)"
    using assms(2) by (auto simp: upsert_dataset_rows_def add_row_def Let_def)
  have "distinct (map (\<lambda>r. (gd_dataset_id r, gd_version r)) t)"
    using assms(3) None by (auto simp: t add_row_def registry_ok_def find_none dataset_key_def new_dataset_def set_dataset_def)
  moreover have "ids_increase gd_id t" using assms by (simp add: t ids_increase_add registry_ok_def)
  ultimately show ?thesis using assms(3) by (simp add: registry_ok_def)
next
  case (Some q)
  then show ?thesis using assms(2,3)
      update_dataset_keys[of "set_dataset (ge_now env) p" "rt_datasets db" "dataset_key (gd_dataset_id p) (gd_version p)"]
    by (auto simp: upsert_dataset_rows_def registry_ok_def set_dataset_def[abs_def])
qed

lemma create_run_row_shape:
  assumes "create_run_row env a db = Inr (i, db')"
  obtains started finished where "ge_parse env (nr_started_at a) = Inr started" "ge_parse env (nr_finished_at a) = Inr finished"
    "i = ge_fresh env (map gn_id (rt_runs (delete_run_related (nr_run_id a) db)))"
    "db' = (delete_run_related (nr_run_id a) db)\<lparr>rt_runs := add_row env gn_id (new_run a started finished) (rt_runs (delete_run_related (nr_run_id a) db))\<rparr>"
  using assms by (auto simp: create_run_row_def Let_def rbind_Inr_iff)

lemma delete_run_ok: "registry_ok db \<Longrightarrow> registry_ok (delete_run_related run db)"
  by (auto simp: registry_ok_def delete_run_related_def ids_increase_filter distinct_map_filter)

lemma create_run_ok:
  assumes "fresh_ids env" "create_run_row env a db = Inr (i, db')" "registry_ok db"
  shows "registry_ok db' \<and> nr_run_id a \<in> gn_run_id ` set (rt_runs db')"
proof -
  obtain started finished where db': "db' = (delete_run_related (nr_run_id a) db)\<lparr>rt_runs :=
      add_row env gn_id (new_run a started finished) (rt_runs (delete_run_related (nr_run_id a) db))\<rparr>"
    using create_run_row_shape[OF assms(2)] by metis
  have ok: "registry_ok (delete_run_related (nr_run_id a) db)" using assms(3) by (rule delete_run_ok)
  have gone: "nr_run_id a \<notin> gn_run_id ` set (rt_runs (delete_run_related (nr_run_id a) db))" by (auto simp: delete_run_related_def)
  have "distinct (map gn_run_id (rt_runs db'))" using ok gone by (simp add: db' add_row_def registry_ok_def image_iff)
  moreover have "ids_increase gn_id (rt_runs db')" using ok assms(1) by (simp add: db' ids_increase_add registry_ok_def)
  ultimately show ?thesis using ok by (auto simp: db' registry_ok_def set_add_row)
qed

lemma validation_body_shape:
  assumes "validation_run_body env report version cfg out db = Inr (i, db')"
  obtains a db1 policy items where "report_run env report version cfg out = Inr a" "create_run_row env a db = Inr (i, db1)"
    "text_column (get (qy_gate report) ''policy_path'') = Inr policy" "iter_artifacts env (qy_artifacts report) = Inr items"
    "nr_run_id a = qy_run_id report" "nr_status a = merged_status (qy_status report) (get (qy_gate report) ''status'')"
    "nr_dataset_id a = qy_dataset_id report" "nr_dataset_version a = version"
    "db' = db1\<lparr>rt_datasets := touch_dataset env (qy_dataset_id report) version (nr_status a) (qy_run_id report) (rt_datasets db1),
         rt_validators := add_rows env gv_id (map (new_validator env (qy_run_id report)) (qy_validators report)) (rt_validators db1),
         rt_gates := add_row env gg_id (new_gate env (qy_run_id report) (qy_gate report) policy) (rt_gates db1),
         rt_artifacts := add_rows env ga_id (map (new_artifact env (qy_run_id report)) items) (rt_artifacts db1)\<rparr>"
proof -
  from assms obtain a where a: "report_run env report version cfg out = Inr a"
    by (auto simp: validation_run_body_def rbind_Inr_iff)
  then have "nr_run_id a = qy_run_id report" "nr_status a = merged_status (qy_status report) (get (qy_gate report) ''status'')"
    "nr_dataset_id a = qy_dataset_id report" "nr_dataset_version a = version"
    by (auto simp: report_run_def rbind_Inr_iff)
  with a assms show thesis by (auto simp: validation_run_body_def rbind_Inr_iff intro: that split: prod.splits)
qed

lemma subset_insert_in: "X \<subseteq> insert q Y \<Longrightarrow> Y \<subseteq> Z \<Longrightarrow> q \<in> Z \<Longrightarrow> X \<subseteq> Z"
  by blast

lemma validation_body_ok:
  assumes "fresh_ids env" "validation_run_body env report version cfg out db = Inr (i, db')" "registry_ok db"
  shows "registry_ok db'"
proof -
  obtain a db1 policy items where c: "create_run_row env a db = Inr (i, db1)" and run: "nr_run_id a = qy_run_id report"
    and db': "db' = db1\<lparr>rt_datasets := touch_dataset env (qy_dataset_id report) version (nr_status a) (qy_run_id report) (rt_datasets db1),
         rt_validators := add_rows env gv_id (map (new_validator env (qy_run_id report)) (qy_validators report)) (rt_validators db1),
         rt_gates := add_row env gg_id (new_gate env (qy_run_id report) (qy_gate report) policy) (rt_gates db1),
         rt_artifacts := add_rows env ga_id (map (new_artifact env (qy_run_id report)) items) (rt_artifacts db1)\<rparr>"
    using validation_body_shape[OF assms(2)] by metis
  have 1: "registry_ok db1" "qy_run_id report \<in> gn_run_id ` set (rt_runs db1)"
    using create_run_ok[OF assms(1) c assms(3)] run by auto
  have d: "registry_ok (db1\<lparr>rt_datasets := touch_dataset env (qy_dataset_id report) version (nr_status a) (qy_run_id report) (rt_datasets db1)\<rparr>)"
    using 1(1) by (rule touch_dataset_ok)
  have inc: "ids_increase gv_id (rt_validators db')" "ids_increase gg_id (rt_gates db')" "ids_increase ga_id (rt_artifacts db')"
    using 1(1) assms(1) by (auto simp: db' registry_ok_def intro!: ids_increase_adds ids_increase_add)
  have v: "gv_run_id ` set (rt_validators db') \<subseteq> insert (qy_run_id report) (gv_run_id ` set (rt_validators db1))"
    unfolding db' by simp (rule set_add_rows, auto)
  have f: "ga_run_id ` set (rt_artifacts db') \<subseteq> insert (qy_run_id report) (ga_run_id ` set (rt_artifacts db1))"
    unfolding db' by simp (rule set_add_rows, auto)
  have g: "gg_run_id ` set (rt_gates db') \<subseteq> insert (qy_run_id report) (gg_run_id ` set (rt_gates db1))"
    by (auto simp: db' set_add_row)
  have "gv_run_id ` set (rt_validators db1) \<union> gg_run_id ` set (rt_gates db1) \<union> ga_run_id ` set (rt_artifacts db1) \<subseteq> gn_run_id ` set (rt_runs db1)"
    using 1(1) unfolding registry_ok_def by simp
  then have sub: "gv_run_id ` set (rt_validators db') \<union> gg_run_id ` set (rt_gates db') \<union> ga_run_id ` set (rt_artifacts db') \<subseteq> gn_run_id ` set (rt_runs db1)"
    using subset_insert_in[OF v _ 1(2)] subset_insert_in[OF f _ 1(2)] subset_insert_in[OF g _ 1(2)] by simp
  moreover have "rt_runs db' = rt_runs db1" by (simp add: db')
  ultimately have sub: "gv_run_id ` set (rt_validators db') \<union> gg_run_id ` set (rt_gates db') \<union> ga_run_id ` set (rt_artifacts db') \<subseteq> gn_run_id ` set (rt_runs db')"
    by simp
  have data: "distinct (map (\<lambda>r. (gd_dataset_id r, gd_version r)) (rt_datasets db'))" "ids_increase gd_id (rt_datasets db')"
    using d unfolding registry_ok_def db' by simp_all
  have kept: "distinct (map gn_run_id (rt_runs db'))" "distinct (map gs_scan_id (rt_scans db'))" "ids_increase gn_id (rt_runs db')"
    "ids_increase gs_id (rt_scans db')"
    using 1(1) unfolding registry_ok_def db' by simp_all
  show ?thesis unfolding registry_ok_def by (intro conjI data kept inc sub)
qed

text \<open>Every operation that writes, with any arguments, in any environment with fresh ids.\<close>

inductive registry_step :: "registry_db \<Rightarrow> registry_db \<Rightarrow> bool" where
  upsert: "fresh_ids env \<Longrightarrow> upsert_dataset env p db = (x, db') \<Longrightarrow> registry_step db db'"
| touch: "fresh_ids env \<Longrightarrow> update_dataset_last_run env d v s run db = (y, db') \<Longrightarrow> registry_step db db'"
| register: "fresh_ids env \<Longrightarrow> register_dataset_path env b d v s t rob po db = (z, db') \<Longrightarrow> registry_step db db'"
| create: "fresh_ids env \<Longrightarrow> create_run env a db = (i, db') \<Longrightarrow> registry_step db db'"
| validation: "fresh_ids env \<Longrightarrow> record_validation_run env report v cfg out db = (j, db') \<Longrightarrow> registry_step db db'"
| scan_job: "fresh_ids env \<Longrightarrow> record_scan_job env q db = (k, db') \<Longrightarrow> registry_step db db'"

lemma upsert_dataset_keeps: "fresh_ids env \<Longrightarrow> upsert_dataset env p db = (x, db') \<Longrightarrow> registry_ok db \<Longrightarrow> registry_ok db'"
  unfolding upsert_dataset_def by (drule in_tx_cases) (auto split: prod.splits intro: upsert_dataset_ok)

lemma registry_step_ok: "registry_step db db' \<Longrightarrow> registry_ok db \<Longrightarrow> registry_ok db'"
proof (induction rule: registry_step.induct)
  case (upsert env p db x db')
  then show ?case by (rule upsert_dataset_keeps)
next
  case (touch env d v s run db y db')
  then show ?case
    by (auto simp: update_dataset_last_run_def dest!: in_tx_cases split: option.splits intro: touch_dataset_ok)
next
  case (register env b d v s t rob po db z db')
  then show ?case
    by (auto simp: register_dataset_path_def act_simps split: sum.splits intro: upsert_dataset_keeps)
next
  case (create env a db i db')
  then show ?case unfolding create_run_def by (auto dest!: in_tx_cases dest: create_run_ok)
next
  case (validation env report v cfg out db j db')
  then show ?case unfolding record_validation_run_def by (auto dest!: in_tx_cases intro: validation_body_ok)
next
  case (scan_job env q db k db')
  let ?kept = "filter (\<lambda>r. gs_scan_id r \<noteq> ns_scan_id q) (rt_scans db)"
  have "registry_ok (db\<lparr>rt_scans := add_row env gs_id (new_scan_job q st fi) ?kept\<rparr>)" for st fi
    using scan_job(1,3) by (auto simp: registry_ok_def add_row_def distinct_map_filter
        intro!: ids_increase_add[unfolded add_row_def] ids_increase_filter)
  then show ?case using scan_job by (auto simp: record_scan_job_def Let_def rbind_Inr_iff dest!: in_tx_cases)
qed

lemma reachable_ok: "registry_step\<^sup>*\<^sup>* no_registry_rows db \<Longrightarrow> registry_ok db"
  by (induction rule: rtranclp_induct) (auto simp: registry_ok_start dest: registry_step_ok)

text \<open>
  C1. The tables of the registry stay consistent: after any operations, failed ones included, run ids,
  scan ids and data set keys are unique, ids increase, and no row of a validator, a gate or an artifact
  belongs to a run that is not there.
\<close>

theorem registry_consistent:
  assumes "registry_step\<^sup>*\<^sup>* no_registry_rows db"
  shows "distinct (map gn_run_id (rt_runs db)) \<and> distinct (map (\<lambda>r. (gd_dataset_id r, gd_version r)) (rt_datasets db)) \<and>
    distinct (map gs_scan_id (rt_scans db)) \<and> sorted_wrt (<) (map gn_id (rt_runs db)) \<and> sorted_wrt (<) (map ga_id (rt_artifacts db)) \<and>
    gv_run_id ` set (rt_validators db) \<union> gg_run_id ` set (rt_gates db) \<union> ga_run_id ` set (rt_artifacts db) \<subseteq> gn_run_id ` set (rt_runs db)"
  using reachable_ok[OF assms] by (simp add: registry_ok_def ids_increase_def sorted_wrt_map)

section \<open>Reading a run back\<close>

lemma find_filter_other: "other \<noteq> run \<Longrightarrow> find (\<lambda>r. run_of r = other) (filter (\<lambda>r. run_of r \<noteq> run) t) = find (\<lambda>r. run_of r = other) t"
  by (induction t) auto

lemma find_filtered: "find (\<lambda>r. run_of r = run) (filter (\<lambda>r. run_of r \<noteq> run) t) = None"
  by (simp add: find_none)

lemma created_run:
  assumes "create_run_row env a db = Inr (i, db1)"
  shows "(\<exists>st fi. find_run (nr_run_id a) db1 = Some (new_run a st fi i)) \<and>
    (other \<noteq> nr_run_id a \<longrightarrow> find_run other db1 = find_run other db)"
proof -
  obtain st fi where "i = ge_fresh env (map gn_id (rt_runs (delete_run_related (nr_run_id a) db)))"
    "db1 = (delete_run_related (nr_run_id a) db)\<lparr>rt_runs := add_row env gn_id (new_run a st fi) (rt_runs (delete_run_related (nr_run_id a) db))\<rparr>"
    using create_run_row_shape[OF assms] by metis
  then have runs: "rt_runs db1 = filter (\<lambda>r. gn_run_id r \<noteq> nr_run_id a) (rt_runs db) @ [new_run a st fi i]"
    by (simp add: add_row_def delete_run_related_def)
  have "find_run (nr_run_id a) db1 = Some (new_run a st fi i)" by (simp add: find_run_def runs find_snoc find_filtered)
  moreover have "find_run other db1 = find_run other db" if "other \<noteq> nr_run_id a"
    using that by (simp add: find_run_def runs find_snoc find_filter_other split: option.splits)
  ultimately show ?thesis by blast
qed

lemma created_tables:
  assumes "create_run_row env a db = Inr (i, db1)"
  shows "rt_datasets db1 = rt_datasets db \<and> rt_validators db1 = filter (\<lambda>r. gv_run_id r \<noteq> nr_run_id a) (rt_validators db) \<and>
    rt_gates db1 = filter (\<lambda>r. gg_run_id r \<noteq> nr_run_id a) (rt_gates db) \<and>
    rt_artifacts db1 = filter (\<lambda>r. ga_run_id r \<noteq> nr_run_id a) (rt_artifacts db)"
  by (rule create_run_row_shape[OF assms]) (simp add: delete_run_related_def)

text \<open>The rows of one run after the old ones were deleted and the new ones added.\<close>

lemma replaced_rows:
  assumes "\<And>mk i. mk \<in> set mks \<Longrightarrow> run_of (mk i) = run" "\<And>mk i. mk \<in> set mks \<Longrightarrow> rid (mk i) = i" "fresh_ids env" "ids_increase rid t"
  obtains ids where "length ids = length mks"
    "rows_by_id rid run_of run (add_rows env rid mks (filter (\<lambda>r. run_of r \<noteq> run) t)) = map2 (\<lambda>mk i. mk i) mks ids"
    "\<And>other. other \<noteq> run \<Longrightarrow> rows_by_id rid run_of other (add_rows env rid mks (filter (\<lambda>r. run_of r \<noteq> run) t)) = rows_by_id rid run_of other t"
proof -
  have inc: "ids_increase rid (add_rows env rid mks (filter (\<lambda>r. run_of r \<noteq> run) t))"
    using assms(2-4) by (simp add: ids_increase_adds ids_increase_filter)
  show thesis
    by (rule add_rows_of_run[of mks run_of run "filter (\<lambda>r. run_of r \<noteq> run) t" env rid])
      (use assms(1,4) inc in \<open>auto intro!: that simp: rows_by_id_increasing filter_others\<close>)
qed

lemma add_row_as_rows: "add_row env rid mk t = add_rows env rid [mk] t"
  by simp

text \<open>
  C1. A recorded validation run is read back as it was: its detail holds the merged status and the metrics,
  one row for each validator of the report, in order, one row for the gate and one for each artifact; and the
  details of all other runs are what they were.
\<close>

theorem validation_run_roundtrip:
  assumes "fresh_ids env" "registry_step\<^sup>*\<^sup>* no_registry_rows db"
    and "record_validation_run env report version cfg out db = (Inr i, db')"
  shows "\<exists>d items. get_run_detail env (qy_run_id report) db' = Some d \<and> iter_artifacts env (qy_artifacts report) = Inr items \<and>
    get (nd_run d) ''id'' = VInt i \<and> get (nd_run d) ''metrics_json'' = VDict (qy_metrics report) \<and>
    get (nd_run d) ''status'' = VStr (merged_status (qy_status report) (get (qy_gate report) ''status'')) \<and>
    map (\<lambda>v. (get v ''validator_name'', get v ''status'', get v ''metrics_json'')) (nd_validators d) =
      map (\<lambda>v. (VStr (vl_name v), VStr (vl_status v), VDict (vl_metrics v))) (qy_validators report) \<and>
    map (\<lambda>g. get g ''gate_status'') (nd_gates d) = [VStr (py_str (get_or (qy_gate report) ''status'' (VStr ''SKIP'')))] \<and>
    map (\<lambda>a. (get a ''artifact_type'', get a ''artifact_uri'', get a ''size_bytes'')) (nd_artifacts d) =
      map (\<lambda>(ty, uri, local, bytes). (VStr ty, VStr uri, of_opt_int bytes)) items \<and>
    (\<forall>other. other \<noteq> qy_run_id report \<longrightarrow> get_run_detail env other db' = get_run_detail env other db)"
proof -
  let ?run = "qy_run_id report"
  have body: "validation_run_body env report version cfg out db = Inr (i, db')"
    using assms(3) unfolding record_validation_run_def by (rule in_tx_Inr)
  obtain a db1 policy items where a: "report_run env report version cfg out = Inr a" and c: "create_run_row env a db = Inr (i, db1)"
    and items: "iter_artifacts env (qy_artifacts report) = Inr items"
    and run: "nr_run_id a = ?run" "nr_status a = merged_status (qy_status report) (get (qy_gate report) ''status'')"
    and db': "db' = db1\<lparr>rt_datasets := touch_dataset env (qy_dataset_id report) version (nr_status a) ?run (rt_datasets db1),
         rt_validators := add_rows env gv_id (map (new_validator env ?run) (qy_validators report)) (rt_validators db1),
         rt_gates := add_row env gg_id (new_gate env ?run (qy_gate report) policy) (rt_gates db1),
         rt_artifacts := add_rows env ga_id (map (new_artifact env ?run) items) (rt_artifacts db1)\<rparr>"
    using validation_body_shape[OF body] by metis
  have metrics: "nr_metrics a = qy_metrics report" using a by (auto simp: report_run_def rbind_Inr_iff)
  note ok = reachable_ok[OF assms(2), unfolded registry_ok_def] and tables = created_tables[OF c, unfolded run(1)]
  have runs: "find_run r db' = find_run r db1" for r by (simp add: db' find_run_def)
  obtain st fi where found: "find_run ?run db' = Some (new_run a st fi i)"
    using created_run[OF c] unfolding runs run(1) by blast
  have others: "find_run other db' = find_run other db" if "other \<noteq> ?run" for other
    using created_run[OF c] that unfolding runs run(1) by blast
  obtain vids where v: "length vids = length (qy_validators report)"
    "rows_by_id gv_id gv_run_id ?run (rt_validators db') = map2 (\<lambda>mk i. mk i) (map (new_validator env ?run) (qy_validators report)) vids"
    "\<And>other. other \<noteq> ?run \<Longrightarrow> rows_by_id gv_id gv_run_id other (rt_validators db') = rows_by_id gv_id gv_run_id other (rt_validators db)"
    by (rule replaced_rows[of "map (new_validator env ?run) (qy_validators report)" gv_run_id ?run gv_id env "rt_validators db"])
      (use assms(1) ok tables in \<open>auto simp: db'\<close>)
  obtain gids where g: "length gids = 1"
    "rows_by_id gg_id gg_run_id ?run (rt_gates db') = map2 (\<lambda>mk i. mk i) [new_gate env ?run (qy_gate report) policy] gids"
    "\<And>other. other \<noteq> ?run \<Longrightarrow> rows_by_id gg_id gg_run_id other (rt_gates db') = rows_by_id gg_id gg_run_id other (rt_gates db)"
    by (rule replaced_rows[of "[new_gate env ?run (qy_gate report) policy]" gg_run_id ?run gg_id env "rt_gates db"])
      (use assms(1) ok tables in \<open>auto simp: db'\<close>)
  obtain fids where f: "length fids = length items"
    "rows_by_id ga_id ga_run_id ?run (rt_artifacts db') = map2 (\<lambda>mk i. mk i) (map (new_artifact env ?run) items) fids"
    "\<And>other. other \<noteq> ?run \<Longrightarrow> rows_by_id ga_id ga_run_id other (rt_artifacts db') = rows_by_id ga_id ga_run_id other (rt_artifacts db)"
    by (rule replaced_rows[of "map (new_artifact env ?run) items" ga_run_id ?run ga_id env "rt_artifacts db"])
      (use assms(1) ok tables in \<open>auto simp: db'\<close>)
  have detail: "get_run_detail env ?run db' = Some \<lparr>nd_run = run_record (ge_isof env) (new_run a st fi i),
      nd_validators = map (validator_record (ge_isof env)) (rows_by_id gv_id gv_run_id ?run (rt_validators db')),
      nd_gates = map (gate_record (ge_isof env)) (rows_by_id gg_id gg_run_id ?run (rt_gates db')),
      nd_artifacts = map (artifact_record (ge_isof env)) (rows_by_id ga_id ga_run_id ?run (rt_artifacts db'))\<rparr>"
    using found by (simp add: get_run_detail_def)
  have 1: "map (\<lambda>v. (get v ''validator_name'', get v ''status'', get v ''metrics_json'')) (map (validator_record (ge_isof env)) (rows_by_id gv_id gv_run_id ?run (rt_validators db'))) =
      map (\<lambda>v. (VStr (vl_name v), VStr (vl_status v), VDict (vl_metrics v))) (qy_validators report)"
    unfolding v(2) using v(1) by (rule map2_made) (simp add: validator_record_def new_validator_def)
  have 2: "map (\<lambda>a. (get a ''artifact_type'', get a ''artifact_uri'', get a ''size_bytes'')) (map (artifact_record (ge_isof env)) (rows_by_id ga_id ga_run_id ?run (rt_artifacts db'))) =
      map (\<lambda>(ty, uri, local, bytes). (VStr ty, VStr uri, of_opt_int bytes)) items"
    unfolding f(2) using f(1) by (rule map2_made) (simp add: artifact_record_def new_artifact_def split: prod.splits)
  have 3: "map (\<lambda>g. get g ''gate_status'') (map (gate_record (ge_isof env)) (rows_by_id gg_id gg_run_id ?run (rt_gates db'))) =
      [VStr (py_str (get_or (qy_gate report) ''status'' (VStr ''SKIP'')))]"
    unfolding g(2) using g(1) by (cases gids) (simp_all add: gate_record_def new_gate_def)
  have 4: "get_run_detail env other db' = get_run_detail env other db" if "other \<noteq> ?run" for other
    unfolding get_run_detail_def others[OF that] v(3)[OF that] g(3)[OF that] f(3)[OF that] by (rule refl)
  have 5: "get (run_record (ge_isof env) (new_run a st fi i)) ''id'' = VInt i"
    "get (run_record (ge_isof env) (new_run a st fi i)) ''metrics_json'' = VDict (qy_metrics report)"
    "get (run_record (ge_isof env) (new_run a st fi i)) ''status'' = VStr (merged_status (qy_status report) (get (qy_gate report) ''status''))"
    by (simp_all add: run_record_def new_run_def metrics run(2))
  show ?thesis unfolding detail using items 1 2 3 4 5 by simp
qed

text \<open>The row of the recorded run, and the rows of the others.\<close>

lemma run_recorded:
  assumes "record_validation_run env report version cfg out db = (Inr i, db')"
  shows "(\<exists>row\<in>set (rt_runs db'). gn_id row = i \<and> gn_run_id row = qy_run_id report \<and> gn_dataset_id row = qy_dataset_id report \<and>
      gn_dataset_version row = version \<and> gn_status row = merged_status (qy_status report) (get (qy_gate report) ''status'')) \<and>
    (\<forall>row\<in>set (rt_runs db). gn_run_id row \<noteq> qy_run_id report \<longrightarrow> row \<in> set (rt_runs db'))"
proof -
  have body: "validation_run_body env report version cfg out db = Inr (i, db')"
    using assms unfolding record_validation_run_def by (rule in_tx_Inr)
  obtain a db1 where c: "create_run_row env a db = Inr (i, db1)" and runs: "rt_runs db' = rt_runs db1"
    and a: "nr_run_id a = qy_run_id report" "nr_status a = merged_status (qy_status report) (get (qy_gate report) ''status'')"
      "nr_dataset_id a = qy_dataset_id report" "nr_dataset_version a = version"
    by (rule validation_body_shape[OF body]) simp
  show ?thesis unfolding runs
    by (rule create_run_row_shape[OF c]) (simp add: a delete_run_related_def set_add_row new_run_def)
qed

text \<open>A second run with the id of a run replaces it, also when it is a run of another data set.\<close>

lemma same_run_id_replaces:
  assumes "record_validation_run env report version cfg out db = (Inr i, db')" "row \<in> set (rt_runs db')" "gn_run_id row = qy_run_id report"
  shows "gn_id row = i \<and> gn_dataset_version row = version"
proof -
  have body: "validation_run_body env report version cfg out db = Inr (i, db')"
    using assms(1) unfolding record_validation_run_def by (rule in_tx_Inr)
  obtain a db1 where c: "create_run_row env a db = Inr (i, db1)" and runs: "rt_runs db' = rt_runs db1"
    and a: "nr_run_id a = qy_run_id report" "nr_dataset_version a = version"
    by (rule validation_body_shape[OF body]) simp
  show ?thesis using assms(2,3) unfolding runs
    by (rule_tac create_run_row_shape[OF c]) (auto simp: a delete_run_related_def set_add_row new_run_def)
qed

lemma upsert_dataset_runs: "upsert_dataset env p db = (Inr x, db') \<Longrightarrow> rt_runs db' = rt_runs db"
  unfolding upsert_dataset_def by (drule in_tx_Inr) (auto split: prod.splits)

section \<open>An example\<close>

definition demo_registry_env :: runs_env where
  "demo_registry_env = \<lparr>ge_now = (Date 2024 5 1, 0), ge_fresh = (\<lambda>ids. fold max ids 0 + 1), ge_parse = (\<lambda>s. Inr (Date 2024 5 1, 0)),
     ge_isof = (\<lambda>t. ''2024-05-01''), ge_size = (\<lambda>p. if p = ''/out/report.json'' then Some 10 else None), ge_resolve = (\<lambda>p. p),
     ge_commit = None\<rparr>"

definition demo_report :: quality_report where
  "demo_report = \<lparr>qy_run_id = ''r'', qy_dataset_id = ''d'', qy_status = ''PASS'', qy_started_at = ''t'', qy_finished_at = ''t'',
     qy_duration_sec = 1, qy_config = [], qy_dataset_meta = [], qy_metrics = [(''outside_ratio'', VInt 0)],
     qy_validators = [\<lparr>vl_name = ''schema'', vl_status = ''PASS'', vl_metrics = [], vl_messages = [], vl_artifacts = [], vl_details = VDict []\<rparr>],
     qy_artifacts = [(''report_json'', VStr ''/out/report.json''), (''report_json_uri'', VStr ''file:///out/report.json'')],
     qy_warnings = [], qy_errors = [], qy_registry = [], qy_gate = [(''status'', VStr ''WARN'')]\<rparr>"

lemma fold_max_ge: "(i :: int) \<in> insert n (set ids) \<Longrightarrow> i \<le> fold max ids n"
proof (induction ids arbitrary: n i)
  case (Cons j ids)
  have m: "k \<in> insert (max j n) (set ids) \<Longrightarrow> k \<le> fold max ids (max j n)" for k
    by (rule Cons.IH)
  show ?case using m[of i] m[of "max j n"] Cons.prems by auto
qed simp

lemma demo_fresh: "fresh_ids demo_registry_env"
  using fold_max_ge by (auto simp: fresh_ids_def demo_registry_env_def zless_add1_eq order_le_less)

definition demo_registry :: registry_db where
  "demo_registry = snd (record_validation_run demo_registry_env demo_report ''v1'' None ''/out'' no_registry_rows)"

lemma demo_run_recorded: "record_validation_run demo_registry_env demo_report ''v1'' None ''/out'' no_registry_rows = (Inr 1, demo_registry)"
  unfolding demo_registry_def by (simp add: prod_eq_iff) code_simp

lemma demo_rows: "rt_validators demo_registry \<noteq> []"
  unfolding demo_registry_def by code_simp

lemma registry_consistent_witness:
  "rt_validators demo_registry \<noteq> [] \<and> gv_run_id ` set (rt_validators demo_registry) \<subseteq> gn_run_id ` set (rt_runs demo_registry)"
  using registry_consistent[OF r_into_rtranclp[of registry_step, OF registry_step.validation[OF demo_fresh demo_run_recorded]]] demo_rows by simp

lemma validation_run_roundtrip_witness:
  "\<exists>d. get_run_detail demo_registry_env ''r'' demo_registry = Some d \<and> get (nd_run d) ''status'' = VStr ''WARN'' \<and>
    map (\<lambda>a. get a ''size_bytes'') (nd_artifacts d) = [VInt 10]"
proof -
  have "iter_artifacts demo_registry_env (qy_artifacts demo_report) =
      Inr [(''report_json'', ''file:///out/report.json'', Some ''/out/report.json'', Some 10)]" by code_simp
  moreover have "merged_status (qy_status demo_report) (get (qy_gate demo_report) ''status'') = ''WARN''" "qy_run_id demo_report = ''r''"
    by (simp_all add: demo_report_def merged_status_def)
  ultimately show ?thesis
    using validation_run_roundtrip[OF demo_fresh rtranclp.rtrancl_refl demo_run_recorded] by (force simp: of_opt_int_def)
qed

text \<open>A path in a URI is not unquoted: a plot below a directory with a blank loses its path.\<close>

lemma quoted_path_lost: "uri_to_local_path ''file:///my%20out/plot.png'' = Inr (Some ''/my%20out/plot.png'')"
  by code_simp

end
