(* ===== verification/Validation_Guarantees.thy ===== *)
theory Validation_Guarantees
  imports Validation_Run Registry_Guarantees Lake_Store
begin

text \<open>
  What a validation and a scan of \<^verbatim>\<open>Validation_Run\<close> guarantee: the report on disk, in the store and in the
  registry is the one that is returned, and a scan accounts for every data set and leaves out those that
  were validated before.
\<close>

section \<open>The steps of a run\<close>

text \<open>What no step changes of a report; only the artifacts and the entry of the registry change.\<close>

definition same_report :: "quality_report \<Rightarrow> quality_report \<Rightarrow> bool" where
  "same_report r q = (qy_run_id q = qy_run_id r \<and> qy_dataset_id q = qy_dataset_id r \<and> qy_status q = qy_status r \<and> qy_started_at q = qy_started_at r \<and>
     qy_finished_at q = qy_finished_at r \<and> qy_duration_sec q = qy_duration_sec r \<and> qy_config q = qy_config r \<and> qy_dataset_meta q = qy_dataset_meta r \<and>
     qy_metrics q = qy_metrics r \<and> qy_validators q = qy_validators r \<and> qy_warnings q = qy_warnings r \<and> qy_errors q = qy_errors r \<and>
     qy_gate q = qy_gate r)"

lemma same_report_refl [simp]: "same_report r r"
  by (simp add: same_report_def)

lemma same_report_trans: "same_report r q \<Longrightarrow> same_report q p \<Longrightarrow> same_report r p"
  by (simp add: same_report_def)

lemma same_report_set [simp]: "same_report r (set_artifact k v r)" "same_report r (r\<lparr>qy_artifacts := a\<rparr>)" "same_report r (r\<lparr>qy_registry := g\<rparr>)"
  by (simp_all add: same_report_def set_artifact_def)

lemma put_file_spec: "put_file env l dest w = (Inr uri, v) \<Longrightarrow>
    vp_put env l dest = Inr uri \<and> pw_registry v = pw_registry w \<and> pw_files v = pw_files w \<and>
    pw_store v = (case map_of (pw_files w) l of None \<Rightarrow> pw_store w | Some d \<Rightarrow> dict_set dest d (pw_store w))"
  by (auto simp: put_file_def split: sum.splits option.splits)

text \<open>The steps that write files never raise.\<close>

definition gate_written :: "run_options \<Rightarrow> quality_report \<Rightarrow> pipe_world \<Rightarrow> pipe_world" where
  "gate_written o' r w = (if vo_policy o' \<noteq> None then w\<lparr>pw_files := dict_set (report_path o' ''gate_report.json'') (qy_gate r) (pw_files w)\<rparr> else w)"

definition report_written :: "run_options \<Rightarrow> bool \<Rightarrow> quality_report \<Rightarrow> pipe_world \<Rightarrow> pipe_world" where
  "report_written o' json r w = (if json then w\<lparr>pw_files := dict_set (report_path o' ''report.json'') (quality_report_dict r) (pw_files w)\<rparr> else w)"

definition gate_named :: "run_options \<Rightarrow> quality_report \<Rightarrow> quality_report" where
  "gate_named o' r = (if vo_policy o' \<noteq> None then set_artifact ''gate_report'' (report_path o' ''gate_report.json'') r else r)"

lemma bind_writes:
  "act_bind (write_gate o' r) f w = f r (gate_written o' r w)"
  "act_bind (write_outputs o' json r) f w = f r (report_written o' json r w)"
  "act_bind (name_gate o' r) f w = f (gate_named o' r) w"
  by (simp_all add: write_gate_def write_outputs_def name_gate_def write_doc_def gate_written_def report_written_def gate_named_def
      act_bind_def act_simps)

lemma written_simps [simp]:
  "pw_registry (gate_written o' r w) = pw_registry w" "pw_store (gate_written o' r w) = pw_store w"
  "pw_registry (report_written o' json r w) = pw_registry w" "pw_store (report_written o' json r w) = pw_store w"
  by (simp_all add: gate_written_def report_written_def)

lemma upload_named_spec: "upload_named env o' pre b f k r w = (Inr q, v) \<Longrightarrow>
    pw_registry v = pw_registry w \<and> pw_files v = pw_files w \<and>
    (if b then \<exists>uri. vp_put env (report_path o' f) (artifact_path pre f) = Inr uri \<and> q = set_artifact k uri r \<and>
       pw_store v = (case map_of (pw_files w) (report_path o' f) of None \<Rightarrow> pw_store w | Some d \<Rightarrow> dict_set (artifact_path pre f) d (pw_store w))
     else q = r \<and> v = w)"
  by (auto simp: upload_named_def act_simps elim!: act_bind_InrE dest: put_file_spec split: if_splits)

lemma upload_plots_spec: "upload_plots env o' pre ps w = (Inr d, v) \<Longrightarrow> pw_registry v = pw_registry w \<and> pw_files v = pw_files w"
  by (induction ps arbitrary: w d rule: upload_plots.induct) (auto simp: act_simps elim!: act_bind_InrE dest: put_file_spec)

lemma in_registry_spec: "in_registry f w = (res, v) \<Longrightarrow>
    f (pw_registry w) = (res, pw_registry v) \<and> pw_files v = pw_files w \<and> pw_store v = pw_store w"
  by (auto simp: in_registry_def split: prod.splits)

lemma record_run_spec:
  assumes "record_run env o' p r w = (Inr q, v)"
  shows "pw_files v = pw_files w \<and> pw_store v = pw_store w \<and> qy_artifacts q = qy_artifacts r \<and> same_report r q \<and>
    (if vo_record o' then \<exists>a x db1 i. upsert_dataset (vp_registry env) a (pw_registry w) = (Inr x, db1) \<and>
       record_validation_run (vp_registry env) r (pq_version p) (vo_config o') (vo_output_dir o') db1 = (Inr i, pw_registry v) \<and>
       gd_dataset_id a = bu_dataset_id (pq_dataset p) \<and> gd_version a = pq_version p \<and>
       q = r\<lparr>qy_registry := dict_set ''run_db_id'' (VInt i) (qy_registry r)\<rparr>
     else q = r \<and> v = w)"
proof (cases "vo_record o'")
  case True
  then obtain x w1 i w2 where 1: "record_dataset env p r w = (Inr x, w1)"
    and 2: "in_registry (record_validation_run (vp_registry env) r (pq_version p) (vo_config o') (vo_output_dir o')) w1 = (Inr i, w2)"
    and q: "q = r\<lparr>qy_registry := dict_set ''run_db_id'' (VInt i) (qy_registry r)\<rparr>" "v = w2"
    using assms by (auto simp: record_run_def act_simps elim!: act_bind_InrE)
  obtain a where "in_registry (upsert_dataset (vp_registry env) a) w = (Inr x, w1)" "gd_dataset_id a = bu_dataset_id (pq_dataset p)"
    "gd_version a = pq_version p"
    using 1 by (auto simp: record_dataset_def Let_def act_simps split: sum.splits)
  then show ?thesis using True q in_registry_spec[OF 2] by (auto dest!: in_registry_spec)
next
  case False
  then show ?thesis using assms by (simp add: record_run_def act_simps)
qed

text \<open>The URI of a file that was asked for is in the artifacts.\<close>

definition uri_known :: "'st pipe_env \<Rightarrow> run_options \<Rightarrow> string \<Rightarrow> bool \<Rightarrow> string \<Rightarrow> string \<Rightarrow> quality_report \<Rightarrow> bool" where
  "uri_known env o' pre b f k r = (b \<longrightarrow> (\<exists>uri. vp_put env (report_path o' f) (artifact_path pre f) = Inr uri \<and>
     map_of (qy_artifacts r) k = Some (VStr uri)))"

lemma uri_known_set: "k \<noteq> j \<Longrightarrow> uri_known env o' pre b f k (set_artifact j v r) = uri_known env o' pre b f k r"
  by (simp add: uri_known_def set_artifact_def)

lemma upload_named_known:
  "upload_named env o' pre b f k r w = (Inr q, v) \<Longrightarrow> uri_known env o' pre b f k q \<and> same_report r q \<and> pw_registry v = pw_registry w"
  by (auto dest!: upload_named_spec simp: uri_known_def set_artifact_def same_report_def split: if_splits)

lemma upload_named_keeps:
  "upload_named env o' pre b f k r w = (Inr q, v) \<Longrightarrow> k \<noteq> j \<Longrightarrow> uri_known env o' pre c g j r \<Longrightarrow> uri_known env o' pre c g j q"
  by (auto dest!: upload_named_spec simp: uri_known_def set_artifact_def split: if_splits)

definition with_plots :: "run_options \<Rightarrow> prepared_run \<Rightarrow> pydict \<Rightarrow> quality_report" where
  "with_plots o' p plots = (gate_named o' (pq_report p))\<lparr>qy_artifacts := dict_set ''plots'' (VDict plots) (qy_artifacts (gate_named o' (pq_report p)))\<rparr>"

lemma publish_spec:
  assumes "publish_report env o' p w = (Inr q, v)"
  shows "same_report (pq_report p) q \<and> pw_registry v = pw_registry w \<and>
    uri_known env o' (pq_prefix p) (pq_json p) ''report.json'' ''report_json_uri'' q \<and>
    uri_known env o' (pq_prefix p) (pq_html p) ''report.html'' ''report_html_uri'' q"
proof -
  let ?w2 = "report_written o' (pq_json p) (gate_named o' (pq_report p)) (gate_written o' (pq_report p) w)"
  from assms obtain plots w3 where 3: "upload_plots env o' (pq_prefix p) (pq_plots p) ?w2 = (Inr plots, w3)"
    and rest: "act_bind (upload_named env o' (pq_prefix p) (pq_json p) ''report.json'' ''report_json_uri'' (with_plots o' p plots)) (\<lambda>r.
      act_bind (upload_named env o' (pq_prefix p) (pq_html p) ''report.html'' ''report_html_uri'' r) (\<lambda>r.
      upload_named env o' (pq_prefix p) (vo_policy o' \<noteq> None) ''gate_report.json'' ''gate_report_uri'' r))
      (gate_written o' (with_plots o' p plots) (report_written o' (pq_json p) (with_plots o' p plots) w3)) = (Inr q, v)"
    unfolding publish_report_def bind_writes Let_def with_plots_def by (rule act_bind_InrE)
  obtain r2 w6 r3 w7 where
    6: "upload_named env o' (pq_prefix p) (pq_json p) ''report.json'' ''report_json_uri'' (with_plots o' p plots)
      (gate_written o' (with_plots o' p plots) (report_written o' (pq_json p) (with_plots o' p plots) w3)) = (Inr r2, w6)"
    and 7: "upload_named env o' (pq_prefix p) (pq_html p) ''report.html'' ''report_html_uri'' r2 w6 = (Inr r3, w7)"
    and 8: "upload_named env o' (pq_prefix p) (vo_policy o' \<noteq> None) ''gate_report.json'' ''gate_report_uri'' r3 w7 = (Inr q, v)"
    using rest by (elim act_bind_InrE)
  have "same_report (pq_report p) (with_plots o' p plots)" by (simp add: with_plots_def same_report_def gate_named_def set_artifact_def)
  then show ?thesis
    using upload_plots_spec[OF 3] upload_named_known[OF 6] upload_named_known[OF 7] upload_named_known[OF 8]
      upload_named_keeps[OF 7] upload_named_keeps[OF 8] by (auto intro: same_report_trans)
qed

lemma dict_set_same: "map_of d k = Some v \<Longrightarrow> dict_set k v d = d"
  by (induction d) auto

text \<open>The last uploads change neither the report nor the registry.\<close>

lemma upload_again_spec:
  assumes "upload_again env o' pre b f k r w = (Inr q, v)" "uri_known env o' pre b f k r"
  shows "q = r \<and> pw_registry v = pw_registry w \<and> pw_files v = pw_files w \<and>
    (pw_store v = (case map_of (pw_files w) (report_path o' f) of None \<Rightarrow> pw_store w | Some d \<Rightarrow> dict_set (artifact_path pre f) d (pw_store w))
     \<or> (b \<longrightarrow> vp_put env (report_path o' f) (artifact_path pre f) = Inr []) \<and> pw_store v = pw_store w)"
proof (cases "b \<and> truthy (get (qy_artifacts r) k)")
  case True
  obtain uri where uri: "vp_put env (report_path o' f) (artifact_path pre f) = Inr uri" "map_of (qy_artifacts r) k = Some (VStr uri)"
    using assms(2) True by (auto simp: uri_known_def)
  then have "set_artifact k uri r = r" by (simp add: set_artifact_def dict_set_same)
  then show ?thesis using upload_named_spec[OF assms(1)[unfolded upload_again_def]] True uri by auto
next
  case False
  have "vp_put env (report_path o' f) (artifact_path pre f) = Inr []" if b
    using assms(2) False that by (auto simp: uri_known_def get_def dict_get_def)
  then show ?thesis using upload_named_spec[OF assms(1)[unfolded upload_again_def]] False by auto
qed

lemma report_path_parts: "path_parts (report_path o' f) = path_parts (vo_output_dir o') @ path_parts f"
  by (simp add: report_path_def posix_def path_parts_path_str path_parts_append)

lemma report_paths_differ: "report_path o' ''report.json'' \<noteq> report_path o' ''gate_report.json''"
proof
  assume "report_path o' ''report.json'' = report_path o' ''gate_report.json''"
  then have "path_parts ''report.json'' = path_parts ''gate_report.json''" using report_path_parts by (metis same_append_eq)
  then show False by code_simp
qed

lemma artifact_paths_differ: "artifact_path pre ''report.json'' \<noteq> artifact_path pre ''report.html''"
  by (simp add: artifact_path_def Let_def)

lemma finish_spec:
  assumes "finish_report env o' p q w = (Inr r, v)"
    and "uri_known env o' (pq_prefix p) (pq_json p) ''report.json'' ''report_json_uri'' q"
    and "uri_known env o' (pq_prefix p) (pq_html p) ''report.html'' ''report_html_uri'' q"
  shows "r = q \<and> pw_registry v = pw_registry w \<and> pw_files v = pw_files (gate_written o' q (report_written o' (pq_json p) q w)) \<and>
    (pq_json p \<longrightarrow> vp_put env (report_path o' ''report.json'') (artifact_path (pq_prefix p) ''report.json'') \<noteq> Inr [] \<longrightarrow>
      map_of (pw_store v) (artifact_path (pq_prefix p) ''report.json'') = Some (quality_report_dict q))"
proof -
  let ?w1 = "gate_written o' q (report_written o' (pq_json p) q w)"
  obtain r1 w2 where 1: "upload_again env o' (pq_prefix p) (pq_json p) ''report.json'' ''report_json_uri'' q ?w1 = (Inr r1, w2)"
    and 2: "upload_again env o' (pq_prefix p) (pq_html p) ''report.html'' ''report_html_uri'' r1 w2 = (Inr r, v)"
    using assms(1) unfolding finish_report_def bind_writes by (elim act_bind_InrE)
  note j = upload_again_spec[OF 1 assms(2)]
  have h: "uri_known env o' (pq_prefix p) (pq_html p) ''report.html'' ''report_html_uri'' r1" using j assms(3) by simp
  note k = upload_again_spec[OF 2 h]
  have doc: "pq_json p \<Longrightarrow> map_of (pw_files ?w1) (report_path o' ''report.json'') = Some (quality_report_dict q)"
    using report_paths_differ[of o'] by (simp add: gate_written_def report_written_def)
  have "map_of (pw_store v) (artifact_path (pq_prefix p) ''report.json'') = Some (quality_report_dict q)"
    if "pq_json p" "vp_put env (report_path o' ''report.json'') (artifact_path (pq_prefix p) ''report.json'') \<noteq> Inr []"
  proof -
    have "map_of (pw_store w2) (artifact_path (pq_prefix p) ''report.json'') = Some (quality_report_dict q)"
      using j that doc by auto
    moreover have "map_of (pw_store v) (artifact_path (pq_prefix p) ''report.json'') = map_of (pw_store w2) (artifact_path (pq_prefix p) ''report.json'')"
      using k artifact_paths_differ[of "pq_prefix p"] by (auto split: option.splits)
    ultimately show ?thesis by simp
  qed
  then show ?thesis using j k by simp
qed

lemma prepared_status:
  assumes "prepare_run env o' = Inr p"
  shows "qy_status (pq_report p) = compute_report_status (qy_validators (pq_report p))"
  using assms by (auto simp: prepare_run_def rbind_Inr_iff Let_def set_artifact_def first_report_def)

lemma run_validation_steps:
  assumes "run_validation env o' w = (Inr r, v)"
  obtains p q w1 w2 where "prepare_run env o' = Inr p" "same_report (pq_report p) q" "pw_registry w1 = pw_registry w"
    "uri_known env o' (pq_prefix p) (pq_json p) ''report.json'' ''report_json_uri'' r"
    "uri_known env o' (pq_prefix p) (pq_html p) ''report.html'' ''report_html_uri'' r"
    "record_run env o' p q w1 = (Inr r, w2)" "finish_report env o' p r w2 = (Inr r, v)"
proof -
  obtain p where p: "prepare_run env o' = Inr p"
    using assms by (auto simp: run_validation_def act_simps split: sum.splits)
  obtain q w1 q1 w2 where 1: "publish_report env o' p w = (Inr q, w1)" and 2: "record_run env o' p q w1 = (Inr q1, w2)"
    and 3: "finish_report env o' p q1 w2 = (Inr r, v)"
    using assms unfolding run_validation_def act_bind_def[of "act_lift _"] by (auto simp: p act_simps elim!: act_bind_InrE)
  note pub = publish_spec[OF 1] and rec = record_run_spec[OF 2]
  have known: "uri_known env o' (pq_prefix p) (pq_json p) ''report.json'' ''report_json_uri'' q1"
    "uri_known env o' (pq_prefix p) (pq_html p) ''report.html'' ''report_html_uri'' q1"
    using pub rec by (simp_all add: uri_known_def)
  have [simp]: "r = q1" using finish_spec[OF 3 known] by simp
  show thesis by (rule that[OF p, of q w1 w2]) (use pub known 2 3 in simp_all)
qed

text \<open>
  C1. When a validation returns, the report that it returns is the one on disk, with the id of the run in the
  registry in it, and the one in the artifact store; and the gate report on disk is its gate.
\<close>

theorem validation_files_agree:
  assumes "run_validation env o' w = (Inr r, v)" "prepare_run env o' = Inr p"
  shows "(pq_json p \<longrightarrow> map_of (pw_files v) (report_path o' ''report.json'') = Some (quality_report_dict r)) \<and>
    (pq_json p \<and> vp_put env (report_path o' ''report.json'') (artifact_path (pq_prefix p) ''report.json'') \<noteq> Inr [] \<longrightarrow>
      map_of (pw_store v) (artifact_path (pq_prefix p) ''report.json'') = Some (quality_report_dict r)) \<and>
    (vo_policy o' \<noteq> None \<longrightarrow> map_of (pw_files v) (report_path o' ''gate_report.json'') = Some (qy_gate r)) \<and>
    qy_gate r = qy_gate (pq_report p) \<and> qy_status r = compute_report_status (qy_validators r) \<and>
    (vo_record o' \<longrightarrow> (\<exists>i. get (qy_registry r) ''run_db_id'' = VInt i \<and>
       (\<exists>row\<in>set (rt_runs (pw_registry v)). gn_id row = i \<and> gn_run_id row = qy_run_id r)))"
proof -
  obtain p' q w1 w2 where p': "prepare_run env o' = Inr p'" and q: "same_report (pq_report p') q"
    and known: "uri_known env o' (pq_prefix p') (pq_json p') ''report.json'' ''report_json_uri'' r"
      "uri_known env o' (pq_prefix p') (pq_html p') ''report.html'' ''report_html_uri'' r"
    and rec: "record_run env o' p' q w1 = (Inr r, w2)" and fin: "finish_report env o' p' r w2 = (Inr r, v)"
    using run_validation_steps[OF assms(1)] by metis
  have [simp]: "p' = p" using p' assms(2) by simp
  note f = finish_spec[OF fin known] and r = record_run_spec[OF rec]
  have same: "same_report (pq_report p) r" using q r by (auto intro: same_report_trans)
  have files: "pq_json p \<longrightarrow> map_of (pw_files v) (report_path o' ''report.json'') = Some (quality_report_dict r)"
    "vo_policy o' \<noteq> None \<longrightarrow> map_of (pw_files v) (report_path o' ''gate_report.json'') = Some (qy_gate r)"
    using f report_paths_differ[of o'] by (simp_all add: gate_written_def report_written_def)
  have "qy_gate r = qy_gate (pq_report p) \<and> qy_status r = compute_report_status (qy_validators r)"
    using same prepared_status[OF assms(2)] by (simp add: same_report_def)
  moreover have "\<exists>i. get (qy_registry r) ''run_db_id'' = VInt i \<and> (\<exists>row\<in>set (rt_runs (pw_registry v)). gn_id row = i \<and> gn_run_id row = qy_run_id r)"
    if recorded: "vo_record o'"
  proof -
    obtain db1 i where "record_validation_run (vp_registry env) q (pq_version p) (vo_config o') (vo_output_dir o') db1 = (Inr i, pw_registry w2)"
      "r = q\<lparr>qy_registry := dict_set ''run_db_id'' (VInt i) (qy_registry q)\<rparr>"
      using r recorded by auto
    from run_recorded[OF this(1)] this(2) f show ?thesis by (auto simp: get_set)
  qed
  ultimately show ?thesis using f files by simp
qed

section \<open>A scan\<close>

lemma run_status:
  assumes "run_validation env o' w = (Inr r, v)"
  shows "qy_status r \<in> {''PASS'', ''WARN'', ''FAIL''}"
proof -
  obtain p q w1 w2 where p: "prepare_run env o' = Inr p" "same_report (pq_report p) q" "record_run env o' p q w1 = (Inr r, w2)"
    using run_validation_steps[OF assms] by metis
  then have "same_report (pq_report p) r" using record_run_spec[OF p(3)] by (auto intro: same_report_trans)
  then show ?thesis using prepared_status[OF p(1)] by (simp add: same_report_def compute_report_status_def)
qed

lemma merged_cases: "status \<in> {''PASS'', ''WARN'', ''FAIL''} \<Longrightarrow> merged_status status g \<in> {''PASS'', ''WARN'', ''FAIL''}"
  by (auto simp: merged_status_def)

definition run_entry_of :: "scan_child \<Rightarrow> pydict \<Rightarrow> bool" where
  "run_entry_of d e = (get e ''dataset_id'' = VStr (fst (peek_dataset_identity d)) \<and> get e ''version'' = VStr (snd (peek_dataset_identity d)) \<and>
     get e ''status'' \<in> VStr ` {''PASS'', ''WARN'', ''FAIL'', ''SKIPPED''})"

definition status_count :: "string set \<Rightarrow> pydict list \<Rightarrow> int" where
  "status_count S es = int (length (filter (\<lambda>e. get e ''status'' \<in> VStr ` S) es))"

lemma status_count_snoc: "status_count S (es @ [e]) = status_count S es + (if get e ''status'' \<in> VStr ` S then 1 else 0)"
  by (simp add: status_count_def)

definition tallied :: "scan_tally \<Rightarrow> bool" where
  "tallied t = (ty_succeeded t = status_count {''PASS'', ''WARN''} (ty_runs t) \<and> ty_failed t = status_count {''FAIL''} (ty_runs t) \<and>
     ty_skipped t = status_count {''SKIPPED''} (ty_runs t))"

lemma tally_skip_entry:
  "\<exists>e. run_entry_of d e \<and> ty_runs (tally_skip d t) = ty_runs t @ [e] \<and> (tallied t \<longrightarrow> tallied (tally_skip d t))"
  by (auto simp: tally_skip_def run_entry_of_def tallied_def status_count_snoc split: prod.splits)

lemma tally_run_entry:
  assumes "qy_status r \<in> {''PASS'', ''WARN'', ''FAIL''}"
  shows "\<exists>e. run_entry_of d e \<and> ty_runs (tally_run o' d r t) = ty_runs t @ [e] \<and> (tallied t \<longrightarrow> tallied (tally_run o' d r t))"
  using merged_cases[OF assms, of "get (qy_gate r) ''status''"]
  by (auto simp: tally_run_def Let_def run_entry_of_def tallied_def status_count_snoc split: prod.splits)

lemma scan_dataset_cases:
  assumes "scan_dataset clk o' i d t w = (Inr t', v)"
  obtains (skipped) "so_only_new o'" "case peek_dataset_identity d of (dataset_id, version) \<Rightarrow> has_successful_run dataset_id version (pw_registry w)"
      "t' = tally_skip d t" "v = w"
  | (validated) r where "run_validation (sy_env clk i d) (child_options clk o' i d) w = (Inr r, v)" "t' = tally_run o' d r t"
      "\<not> (so_only_new o' \<and> (case peek_dataset_identity d of (dataset_id, version) \<Rightarrow> has_successful_run dataset_id version (pw_registry w)))"
  using assms by (auto simp: scan_dataset_def split: prod.splits if_splits sum.splits)

lemma scan_dataset_entry:
  assumes "scan_dataset clk o' i d t w = (Inr t', v)"
  shows "\<exists>e. run_entry_of d e \<and> ty_runs t' = ty_runs t @ [e] \<and> (tallied t \<longrightarrow> tallied t')"
  using assms
proof (cases rule: scan_dataset_cases)
  case skipped
  then show ?thesis using tally_skip_entry by simp
next
  case (validated r)
  then show ?thesis using tally_run_entry[OF run_status] by simp
qed

lemma scan_children_entries:
  "scan_children clk o' i ds t w = (Inr t', v) \<Longrightarrow> \<exists>es. list_all2 run_entry_of ds es \<and> ty_runs t' = ty_runs t @ es \<and> (tallied t \<longrightarrow> tallied t')"
proof (induction ds arbitrary: i t w)
  case Nil
  then show ?case by (simp add: act_simps)
next
  case (Cons d ds)
  then obtain t1 w1 where 1: "scan_dataset clk o' i d t w = (Inr t1, w1)" "scan_children clk o' (Suc i) ds t1 w1 = (Inr t', v)"
    by (auto elim: act_bind_InrE)
  obtain e where e: "run_entry_of d e" "ty_runs t1 = ty_runs t @ [e]" "tallied t \<longrightarrow> tallied t1" using scan_dataset_entry[OF 1(1)] by blast
  obtain es where es: "list_all2 run_entry_of ds es" "ty_runs t' = ty_runs t1 @ es" "tallied t1 \<longrightarrow> tallied t'" using Cons.IH[OF 1(2)] by blast
  show ?case using e es by (intro exI[of _ "e # es"]) simp
qed

lemma scan_cases:
  assumes "scan_datasets clk o' w = (Inr s, v)"
  obtains ds t w1 w2 where "discover_children (so_root o') (so_children o') = Inr ds" "scan_children clk o' 0 ds no_tally w = (Inr t, w1)"
    "s = scan_summary clk ds t" "w2 = w1\<lparr>pw_files := dict_set (posix (so_output_root o') [''scan_summary.json'']) s (pw_files w1)\<rparr>"
    "if so_use_registry o' \<or> so_only_new o' then \<exists>i. in_registry (record_scan_job (sy_registry clk) (scan_job_of clk o' ds t)) w2 = (Inr i, v)
     else v = w2"
proof -
  obtain ds where d: "discover_children (so_root o') (so_children o') = Inr ds"
    using assms by (auto simp: scan_datasets_def act_simps split: sum.splits)
  obtain t w1 where 1: "scan_children clk o' 0 ds no_tally w = (Inr t, w1)"
    and rest: "act_bind (write_doc (posix (so_output_root o') [''scan_summary.json'']) (scan_summary clk ds t)) (\<lambda>_.
     act_bind (if so_use_registry o' \<or> so_only_new o'
       then act_bind (in_registry (record_scan_job (sy_registry clk) (scan_job_of clk o' ds t))) (\<lambda>_. act_return ()) else act_return ()) (\<lambda>_.
     act_return (scan_summary clk ds t))) w1 = (Inr s, v)"
    using assms unfolding scan_datasets_def act_bind_def[of "act_lift _"] by (auto simp: d act_simps elim: act_bind_InrE)
  show thesis
    using rest by (intro that[OF d 1 _ refl]) (auto simp: write_doc_def act_simps elim!: act_bind_InrE split: if_splits)
qed

lemma scan_job_read_back:
  assumes "record_scan_job env a db = (Inr i, db')"
  shows "rt_runs db' = rt_runs db \<and> (\<exists>row. find (\<lambda>r. gs_scan_id r = ns_scan_id a) (rt_scans db') = Some row \<and> gs_summary_json row = VDict (ns_summary a) \<and>
    gs_status row = ns_status a \<and> gs_total row = ns_total a)"
  using in_tx_Inr[OF assms[unfolded record_scan_job_def]]
  by (auto simp: Let_def rbind_Inr_iff add_row_def find_snoc find_filtered new_scan_job_def)

text \<open>
  C1. A scan that returns accounts for every data set that it discovered: it has one entry for each, in their
  order, its three counts are those of the entries and add up to the total, and the summary is the document
  on disk and, with a registry, the one of the scan job.
\<close>

theorem scan_summary_correct:
  assumes "scan_datasets clk o' w = (Inr s, v)"
  shows "\<exists>ds es. discover_children (so_root o') (so_children o') = Inr ds \<and> get s ''runs'' = VList (map VDict es) \<and>
    map (\<lambda>e. (get e ''dataset_id'', get e ''version'')) es = map (\<lambda>d. case peek_dataset_identity d of (i, j) \<Rightarrow> (VStr i, VStr j)) ds \<and>
    get s ''total'' = VInt (int (length ds)) \<and>
    get s ''succeeded'' = VInt (int (length (filter (\<lambda>e. get e ''status'' \<in> {VStr ''PASS'', VStr ''WARN''}) es))) \<and>
    get s ''failed'' = VInt (int (length (filter (\<lambda>e. get e ''status'' = VStr ''FAIL'') es))) \<and>
    get s ''skipped'' = VInt (int (length (filter (\<lambda>e. get e ''status'' = VStr ''SKIPPED'') es))) \<and>
    (\<forall>e\<in>set es. get e ''status'' \<in> {VStr ''PASS'', VStr ''WARN'', VStr ''FAIL'', VStr ''SKIPPED''}) \<and>
    map_of (pw_files v) (posix (so_output_root o') [''scan_summary.json'']) = Some s \<and>
    (so_use_registry o' \<longrightarrow> (\<exists>job. get_scan_job (sy_registry clk) (sy_scan_id clk) (pw_registry v) = Some job \<and>
       get job ''summary_json'' = VDict s))"
proof -
  obtain ds t w1 w2 where d: "discover_children (so_root o') (so_children o') = Inr ds"
    and c: "scan_children clk o' 0 ds no_tally w = (Inr t, w1)" and s: "s = scan_summary clk ds t"
    and w2: "w2 = w1\<lparr>pw_files := dict_set (posix (so_output_root o') [''scan_summary.json'']) s (pw_files w1)\<rparr>"
    and job: "if so_use_registry o' \<or> so_only_new o' then \<exists>i. in_registry (record_scan_job (sy_registry clk) (scan_job_of clk o' ds t)) w2 = (Inr i, v)
     else v = w2"
    by (rule scan_cases[OF assms])
  obtain es where es: "list_all2 run_entry_of ds es" "ty_runs t = es" "tallied t"
    using scan_children_entries[OF c] by (auto simp: no_tally_def tallied_def status_count_def)
  have ids: "map (\<lambda>e. (get e ''dataset_id'', get e ''version'')) es = map (\<lambda>d. case peek_dataset_identity d of (i, j) \<Rightarrow> (VStr i, VStr j)) ds"
    using es(1) by (induction rule: list_all2_induct) (auto simp: run_entry_of_def split: prod.splits)
  have statuses: "\<forall>e\<in>set es. get e ''status'' \<in> {VStr ''PASS'', VStr ''WARN'', VStr ''FAIL'', VStr ''SKIPPED''}"
    using es(1) by (induction rule: list_all2_induct) (auto simp: run_entry_of_def)
  have files: "map_of (pw_files v) (posix (so_output_root o') [''scan_summary.json'']) = Some s"
    using job w2 by (auto dest: in_registry_spec split: if_splits)
  have reg: "\<exists>j. get_scan_job (sy_registry clk) (sy_scan_id clk) (pw_registry v) = Some j \<and> get j ''summary_json'' = VDict s"
    if use: "so_use_registry o'"
  proof -
    obtain i where "in_registry (record_scan_job (sy_registry clk) (scan_job_of clk o' ds t)) w2 = (Inr i, v)" using job use by auto
    from scan_job_read_back[OF conjunct1[OF in_registry_spec[OF this]]] show ?thesis
      by (auto simp: get_scan_job_def scan_job_of_def scan_job_record_def s)
  qed
  show ?thesis using d ids statuses files reg es(2,3)
    by (intro exI[of _ ds] exI[of _ es]) (simp add: s scan_summary_def tallied_def status_count_def image_iff)
qed

section \<open>Scanning again\<close>

definition good_run :: "registry_db \<Rightarrow> string \<Rightarrow> string \<times> string \<Rightarrow> bool" where
  "good_run db run_id key = (\<exists>row\<in>set (rt_runs db). gn_run_id row = run_id \<and> (gn_dataset_id row, gn_dataset_version row) = key \<and>
     gn_status row \<in> {''PASS'', ''WARN''})"

lemma good_run_successful: "good_run db run_id (d, v) \<Longrightarrow> has_successful_run d v db"
  by (auto simp: good_run_def has_successful_run_def list_ex_iff)

lemma prepared_ids:
  assumes "prepare_run env o' = Inr p"
  shows "qy_run_id (pq_report p) = opt_or (vo_run_id o') (vp_auto_id env) \<and> qy_dataset_id (pq_report p) = bu_dataset_id (pq_dataset p)"
  using assms by (auto simp: prepare_run_def rbind_Inr_iff Let_def set_artifact_def first_report_def)

text \<open>The registry after a run that is recorded.\<close>

lemma validated_registry:
  assumes "run_validation env o' w = (Inr r, v)" "vo_record o'" "vo_run_id o' = Some run_id" "run_id \<noteq> []"
    and "\<And>p. prepare_run env o' = Inr p \<Longrightarrow> (bu_dataset_id (pq_dataset p), pq_version p) = key"
  shows "(merged_status (qy_status r) (get (qy_gate r) ''status'') \<noteq> ''FAIL'' \<longrightarrow> good_run (pw_registry v) run_id key) \<and>
    (other \<noteq> run_id \<longrightarrow> good_run (pw_registry w) other k \<longrightarrow> good_run (pw_registry v) other k)"
proof -
  obtain p q w1 w2 where p: "prepare_run env o' = Inr p" and q: "same_report (pq_report p) q" and w1: "pw_registry w1 = pw_registry w"
    and known: "uri_known env o' (pq_prefix p) (pq_json p) ''report.json'' ''report_json_uri'' r"
      "uri_known env o' (pq_prefix p) (pq_html p) ''report.html'' ''report_html_uri'' r"
    and rec: "record_run env o' p q w1 = (Inr r, w2)" and fin: "finish_report env o' p r w2 = (Inr r, v)"
    using run_validation_steps[OF assms(1)] by metis
  obtain a x db1 i where up: "upsert_dataset (vp_registry env) a (pw_registry w1) = (Inr x, db1)"
    and run: "record_validation_run (vp_registry env) q (pq_version p) (vo_config o') (vo_output_dir o') db1 = (Inr i, pw_registry w2)"
    using record_run_spec[OF rec] assms(2) by auto
  have same: "same_report q r" using record_run_spec[OF rec] by simp
  have v: "pw_registry v = pw_registry w2" using finish_spec[OF fin known] by simp
  have ids: "qy_run_id q = run_id" "(qy_dataset_id q, pq_version p) = key"
    using prepared_ids[OF p] q assms(3,4) assms(5)[OF p] by (auto simp: same_report_def opt_or_def)
  have st: "merged_status (qy_status q) (get (qy_gate q) ''status'') = merged_status (qy_status r) (get (qy_gate r) ''status'')"
    using same by (simp add: same_report_def)
  have cases: "merged_status (qy_status r) (get (qy_gate r) ''status'') \<in> {''PASS'', ''WARN'', ''FAIL''}"
    using merged_cases[OF run_status[OF assms(1)]] .
  note rows = run_recorded[OF run] and db1 = upsert_dataset_runs[OF up]
  have "good_run (pw_registry v) run_id key" if "merged_status (qy_status r) (get (qy_gate r) ''status'') \<noteq> ''FAIL''"
  proof -
    obtain row where "row \<in> set (rt_runs (pw_registry w2))" "gn_run_id row = run_id" "(gn_dataset_id row, gn_dataset_version row) = key"
      "gn_status row = merged_status (qy_status r) (get (qy_gate r) ''status'')"
      using rows ids st by auto
    then show ?thesis using cases that unfolding good_run_def v by (intro bexI[of _ row]) auto
  qed
  moreover have "good_run (pw_registry v) other k" if "other \<noteq> run_id" "good_run (pw_registry w) other k"
    using that rows ids(1) unfolding good_run_def v w1[symmetric] db1[symmetric] by blast
  ultimately show ?thesis by blast
qed

definition all_ids :: "'st scan_clock \<Rightarrow> nat \<Rightarrow> scan_child list \<Rightarrow> string list" where
  "all_ids clk i ds = map (\<lambda>(j, d). scan_run_id clk j d) (enumerate i ds)"

lemma failed_mono: "scan_children clk o' i ds t w = (Inr t', v) \<Longrightarrow> ty_failed t \<le> ty_failed t'"
proof (induction ds arbitrary: i t w)
  case Nil
  then show ?case by (simp add: act_simps)
next
  case (Cons d ds)
  then obtain t1 w1 where 1: "scan_dataset clk o' i d t w = (Inr t1, w1)" "scan_children clk o' (Suc i) ds t1 w1 = (Inr t', v)"
    by (auto elim: act_bind_InrE)
  have "ty_failed t \<le> ty_failed t1"
    using 1(1) by (cases rule: scan_dataset_cases) (auto simp: tally_skip_def tally_run_def Let_def split: prod.splits)
  then show ?case using Cons.IH[OF 1(2)] by simp
qed

lemma scan_children_record:
  assumes "scan_children clk o' i ds t w = (Inr t', v)" "so_use_registry o'" "\<not> so_only_new o'" "ty_failed t' = ty_failed t"
    and "distinct (all_ids clk i ds)"
    and "\<And>j d p. d \<in> set ds \<Longrightarrow> prepare_run (sy_env clk j d) (child_options clk o' j d) = Inr p \<Longrightarrow>
      (bu_dataset_id (pq_dataset p), pq_version p) = peek_dataset_identity d"
  shows "(\<forall>d\<in>set ds. \<exists>run_id. good_run (pw_registry v) run_id (peek_dataset_identity d)) \<and>
    (\<forall>run_id key. run_id \<notin> set (all_ids clk i ds) \<longrightarrow> good_run (pw_registry w) run_id key \<longrightarrow> good_run (pw_registry v) run_id key)"
  using assms
proof (induction ds arbitrary: i t w)
  case Nil
  then show ?case by (simp add: act_simps)
next
  case (Cons d ds)
  obtain t1 w1 where 1: "scan_dataset clk o' i d t w = (Inr t1, w1)" and 2: "scan_children clk o' (Suc i) ds t1 w1 = (Inr t', v)"
    using Cons.prems(1) by (auto elim: act_bind_InrE)
  from 1 obtain r where r: "run_validation (sy_env clk i d) (child_options clk o' i d) w = (Inr r, w1)" "t1 = tally_run o' d r t"
    using Cons.prems(3) by (cases rule: scan_dataset_cases) auto
  have ids: "all_ids clk i (d # ds) = scan_run_id clk i d # all_ids clk (Suc i) ds" by (simp add: all_ids_def)
  have "ty_failed t \<le> ty_failed t1" by (auto simp: r(2) tally_run_def Let_def split: prod.splits)
  then have t1: "ty_failed t1 = ty_failed t" using failed_mono[OF 2] Cons.prems(4) by simp
  then have ok: "merged_status (qy_status r) (get (qy_gate r) ''status'') \<noteq> ''FAIL''"
    by (auto simp: r(2) tally_run_def Let_def split: prod.splits)
  have reg: "(merged_status (qy_status r) (get (qy_gate r) ''status'') \<noteq> ''FAIL'' \<longrightarrow> good_run (pw_registry w1) (scan_run_id clk i d) (peek_dataset_identity d)) \<and>
      (other \<noteq> scan_run_id clk i d \<longrightarrow> good_run (pw_registry w) other k \<longrightarrow> good_run (pw_registry w1) other k)" for other k
    by (rule validated_registry[OF r(1)]) (use Cons.prems(2,6) in \<open>auto simp: child_options_def scan_run_id_def\<close>)
  have IH: "(\<forall>d\<in>set ds. \<exists>run_id. good_run (pw_registry v) run_id (peek_dataset_identity d)) \<and>
    (\<forall>run_id key. run_id \<notin> set (all_ids clk (Suc i) ds) \<longrightarrow> good_run (pw_registry w1) run_id key \<longrightarrow> good_run (pw_registry v) run_id key)"
    by (rule Cons.IH[OF 2 Cons.prems(2,3)]) (use Cons.prems t1 in \<open>auto simp: ids\<close>)
  have "good_run (pw_registry v) (scan_run_id clk i d) (peek_dataset_identity d)"
  proof -
    have "scan_run_id clk i d \<notin> set (all_ids clk (Suc i) ds)" using Cons.prems(5) by (simp add: ids)
    then show ?thesis using conjunct2[OF IH] reg ok by blast
  qed
  moreover have "good_run (pw_registry v) run_id key"
    if "run_id \<notin> set (all_ids clk i (d # ds))" "good_run (pw_registry w) run_id key" for run_id key
  proof -
    have "run_id \<noteq> scan_run_id clk i d" "run_id \<notin> set (all_ids clk (Suc i) ds)" using that(1) by (simp_all add: ids)
    then show ?thesis using conjunct2[OF IH] reg that(2) by blast
  qed
  ultimately show ?case using conjunct1[OF IH] by (metis set_ConsD)
qed

lemma scan_children_skip:
  "\<forall>d\<in>set ds. case peek_dataset_identity d of (i, j) \<Rightarrow> has_successful_run i j (pw_registry w) \<Longrightarrow> so_only_new o' \<Longrightarrow>
    scan_children clk o' i ds t w = (Inr (fold tally_skip ds t), w)"
  by (induction ds arbitrary: i t) (auto simp: act_simps act_bind_def scan_dataset_def split: prod.splits)

lemma fold_tally_skip: "ty_skipped (fold tally_skip ds t) = ty_skipped t + int (length ds) \<and> ty_failed (fold tally_skip ds t) = ty_failed t \<and>
    ty_succeeded (fold tally_skip ds t) = ty_succeeded t"
  by (induction ds arbitrary: t) (auto simp: tally_skip_def split: prod.splits)

lemma first_scan_successes:
  assumes "scan_datasets clk o' w = (Inr s, v)" "so_use_registry o'" "\<not> so_only_new o'" "get s ''failed'' = VInt 0"
    and "\<forall>ds. discover_children (so_root o') (so_children o') = Inr ds \<longrightarrow> distinct (map (\<lambda>(i, d). scan_run_id clk i d) (enumerate 0 ds))"
    and "\<forall>ds i d p. discover_children (so_root o') (so_children o') = Inr ds \<and> d \<in> set ds \<and>
      prepare_run (sy_env clk i d) (child_options clk o' i d) = Inr p \<longrightarrow> (bu_dataset_id (pq_dataset p), pq_version p) = peek_dataset_identity d"
  shows "\<exists>ds. discover_children (so_root o') (so_children o') = Inr ds \<and> get s ''total'' = VInt (int (length ds)) \<and>
    (\<forall>d\<in>set ds. case peek_dataset_identity d of (i, j) \<Rightarrow> has_successful_run i j (pw_registry v))"
proof -
  obtain ds t w1 w2 where d: "discover_children (so_root o') (so_children o') = Inr ds"
    and c: "scan_children clk o' 0 ds no_tally w = (Inr t, w1)" and s: "s = scan_summary clk ds t"
    and w2: "w2 = w1\<lparr>pw_files := dict_set (posix (so_output_root o') [''scan_summary.json'']) s (pw_files w1)\<rparr>"
    and job: "if so_use_registry o' \<or> so_only_new o' then \<exists>i. in_registry (record_scan_job (sy_registry clk) (scan_job_of clk o' ds t)) w2 = (Inr i, v)
     else v = w2"
    by (rule scan_cases[OF assms(1)])
  have t: "ty_failed t = ty_failed no_tally" using assms(4) by (simp add: s scan_summary_def no_tally_def)
  have runs_v: "rt_runs (pw_registry v) = rt_runs (pw_registry w1)"
    using job assms(2) w2 by (auto dest!: in_registry_spec scan_job_read_back)
  have good: "\<forall>d\<in>set ds. \<exists>run_id. good_run (pw_registry w1) run_id (peek_dataset_identity d)"
  proof (rule conjunct1[OF scan_children_record[OF c assms(2,3) t]])
    show "distinct (all_ids clk 0 ds)" using assms(5) d by (simp add: all_ids_def)
    show "(bu_dataset_id (pq_dataset p), pq_version p) = peek_dataset_identity d'"
      if "d' \<in> set ds" "prepare_run (sy_env clk j d') (child_options clk o' j d') = Inr p" for j d' p
      using assms(6)[rule_format, OF conjI[OF d conjI[OF that]]] .
  qed
  have "case peek_dataset_identity d of (i, j) \<Rightarrow> has_successful_run i j (pw_registry v)" if mem: "d \<in> set ds" for d
  proof -
    obtain run_id where "good_run (pw_registry v) run_id (peek_dataset_identity d)"
      using good mem unfolding good_run_def runs_v by blast
    then show ?thesis using good_run_successful by (auto split: prod.splits)
  qed
  then show ?thesis using d by (simp add: s scan_summary_def)
qed

text \<open>
  C1. A scan with a registry in which nothing failed is not repeated: when every data set is loaded with the
  identity that the scan reads from its meta data, and the run ids differ, a following scan for new data sets
  skips all of them, runs no validation, and uploads nothing.
\<close>

theorem second_scan_skips:
  assumes "scan_datasets clk o' w = (Inr s, v)" "so_use_registry o'" "\<not> so_only_new o'" "get s ''failed'' = VInt 0"
    and "\<forall>ds. discover_children (so_root o') (so_children o') = Inr ds \<longrightarrow> distinct (map (\<lambda>(i, d). scan_run_id clk i d) (enumerate 0 ds))"
    and "\<forall>ds i d p. discover_children (so_root o') (so_children o') = Inr ds \<and> d \<in> set ds \<and>
      prepare_run (sy_env clk i d) (child_options clk o' i d) = Inr p \<longrightarrow> (bu_dataset_id (pq_dataset p), pq_version p) = peek_dataset_identity d"
    and "scan_datasets clk2 (o'\<lparr>so_only_new := True\<rparr>) v = (Inr s2, v2)"
  shows "get s2 ''skipped'' = get s ''total'' \<and> get s2 ''total'' = get s ''total'' \<and> get s2 ''succeeded'' = VInt 0 \<and> get s2 ''failed'' = VInt 0 \<and>
    rt_runs (pw_registry v2) = rt_runs (pw_registry v) \<and> pw_store v2 = pw_store v"
proof -
  obtain ds where d: "discover_children (so_root o') (so_children o') = Inr ds" and total: "get s ''total'' = VInt (int (length ds))"
    and succ: "\<forall>d\<in>set ds. case peek_dataset_identity d of (i, j) \<Rightarrow> has_successful_run i j (pw_registry v)"
    using first_scan_successes[OF assms(1-6)] by blast
  obtain ds2 t2 w3 w4 where d2: "discover_children (so_root o') (so_children o') = Inr ds2"
    and c2: "scan_children clk2 (o'\<lparr>so_only_new := True\<rparr>) 0 ds2 no_tally v = (Inr t2, w3)" and s2: "s2 = scan_summary clk2 ds2 t2"
    and w4: "w4 = w3\<lparr>pw_files := dict_set (posix (so_output_root o') [''scan_summary.json'']) s2 (pw_files w3)\<rparr>"
    and job2: "\<exists>i. in_registry (record_scan_job (sy_registry clk2) (scan_job_of clk2 (o'\<lparr>so_only_new := True\<rparr>) ds2 t2)) w4 = (Inr i, v2)"
    by (rule scan_cases[OF assms(7)]) simp
  have [simp]: "ds2 = ds" using d d2 by simp
  have skip: "t2 = fold tally_skip ds no_tally" "w3 = v"
    using c2 scan_children_skip[OF succ, of "o'\<lparr>so_only_new := True\<rparr>" clk2 0 no_tally] by simp_all
  have "rt_runs (pw_registry v2) = rt_runs (pw_registry v) \<and> pw_store v2 = pw_store v"
    using job2 w4 skip(2) by (auto dest!: in_registry_spec scan_job_read_back)
  then show ?thesis using fold_tally_skip[of ds no_tally] skip(1) total by (simp add: s2 scan_summary_def no_tally_def)
qed

section \<open>Comparing\<close>

lemma compare_line_verdict:
  "compare_line b c m = Inr (l, verdict) \<Longrightarrow> verdict \<in> {''PASS'', ''WARN'', ''FAIL''}"
  by (auto simp: compare_line_def compare_metric_def rbind_Inr_iff Let_def split: if_splits option.splits)

text \<open>The verdict on a metric with a rule, for numbers and a baseline that is not zero.\<close>

lemma compare_metric_fail:
  assumes "map_of compare_rules m = Some (direction, warn, fail)" "py_float b = Inr x" "py_float c = Inr y" "1 / 10 ^ 12 < \<bar>x\<bar>"
    "b \<noteq> VNone" "c \<noteq> VNone"
  shows "compare_metric m b c = Inr ''FAIL'' \<longleftrightarrow>
    (if direction = ''higher'' then y < x \<and> fail * \<bar>x\<bar> \<le> x - y else x < y \<and> fail * \<bar>x\<bar> \<le> y - x)"
proof -
  have pos: "0 < \<bar>x\<bar>" using assms(4) by (rule less_trans[rotated]) simp
  have ratio: "fail \<le> \<bar>y - x\<bar> / \<bar>x\<bar> \<longleftrightarrow> fail * \<bar>x\<bar> \<le> \<bar>y - x\<bar>" using pos by (simp add: pos_le_divide_eq)
  have no_zero: "\<not> \<bar>x\<bar> \<le> 1 / 10 ^ 12" using assms(4) by (simp only: not_le)
  show ?thesis using assms(1,2,3,5,6) no_zero ratio
    by (auto simp: compare_metric_def Let_def delta_ratio_def at_least_def abs_if)
qed

lemma map_of_rules: "map_of compare_rules m = Some (direction, warn, fail) \<Longrightarrow> 0 < warn \<and> warn < fail"
  by (auto simp: compare_rules_def split: if_splits)

lemma compare_same: "compare_metric m v v \<noteq> Inr ''FAIL''"
proof (cases "map_of compare_rules m")
  case None
  then show ?thesis by (simp add: compare_metric_def)
next
  case (Some r)
  obtain direction warn fail where "r = (direction, warn, fail)" by (rule prod_cases3)
  then show ?thesis using Some by (auto simp: compare_metric_def rbind_Inr_iff Let_def)
qed

lemma compare_lines:
  assumes "rmap (compare_line b c) ms = Inr ls"
  shows "length ls = length ms \<and> (list_ex (\<lambda>l. snd l = ''FAIL'') ls \<longleftrightarrow> (\<exists>m\<in>set ms. \<exists>l. compare_line b c m = Inr (l, ''FAIL'')))"
  using assms
proof (induction ms arbitrary: ls)
  case (Cons m ms)
  obtain l v ls' where "compare_line b c m = Inr (l, v)" "rmap (compare_line b c) ms = Inr ls'" "ls = (l, v) # ls'"
    using Cons.prems by (auto simp: rbind_Inr_iff)
  then show ?case using Cons.IH by auto
qed simp


lemma Inr_of_case: "(case x of Inl e \<Rightarrow> False | Inr y \<Rightarrow> P y) \<Longrightarrow> \<exists>y. x = Inr y \<and> P y"
  by (cases x) auto


section \<open>An example\<close>

definition demo_loaded :: loaded_dataset where
  "demo_loaded = \<lparr>bu_meta = [(''dataset_id'', VStr ''d'')], bu_path = ''/raw/d'', bu_samples = 10, bu_duration = 1, bu_fps = 10,
     bu_dataset_id = ''d'', bu_endpose_path = ''/raw/d/endpose.pt'', bu_video_path = None, bu_meta_path = None, bu_frame_count = 10,
     bu_source = ''fps'', bu_warnings = []\<rparr>"

definition demo_pipe :: "unit pipe_env" where
  "demo_pipe = \<lparr>vp_registry = demo_registry_env, vp_load = (\<lambda>c. Inr demo_loaded),
     vp_validate = (\<lambda>name ds st c. Inr (\<lparr>vl_name = name, vl_status = ''PASS'', vl_metrics = [], vl_messages = [], vl_artifacts = [],
       vl_details = VDict []\<rparr>, st)),
     vp_state = (), vp_ms = (\<lambda>name. 1), vp_plots = (\<lambda>ds st out. Inr []), vp_put = (\<lambda>l dest. Inr (''s3://b/'' @ dest)),
     vp_open_store = None, vp_store_env = None, vp_as_uri = (\<lambda>p. ''file://'' @ p), vp_backend = ''sqlite'', vp_started = ''t'',
     vp_finished = ''t'', vp_seconds = 1, vp_auto_id = ''run-1''\<rparr>"

definition demo_run_options :: run_options where
  "demo_run_options = \<lparr>vo_config = None, vo_config_doc = None, vo_output_dir = ''/out'', vo_run_id = Some ''r'', vo_record = False,
     vo_policy = None, vo_policy_doc = None, vo_store_type = Some ''s3'', vo_prefix = None\<rparr>"

definition demo_pipe_world :: pipe_world where
  "demo_pipe_world = \<lparr>pw_registry = no_registry_rows, pw_files = [], pw_store = []\<rparr>"

definition demo_child :: scan_child where
  "demo_child = \<lparr>sd_name = ''d'', sd_is_dir = True, sd_has_endpose = True, sd_meta = Some (VDict [(''dataset_id'', VStr ''d'')]), sd_path = ''/raw/d''\<rparr>"

definition demo_scan_clock :: "unit scan_clock" where
  "demo_scan_clock = \<lparr>sy_env = (\<lambda>i d. demo_pipe), sy_registry = demo_registry_env, sy_stamp = (\<lambda>i. ''20240501000000''), sy_scan_id = ''scan-1'',
     sy_started = ''t'', sy_finished = ''t''\<rparr>"

lemma demo_prepared: "\<exists>p. prepare_run demo_pipe demo_run_options = Inr p \<and> pq_json p \<and> pq_prefix p = ''runs/r''"
  by (rule Inr_of_case) code_simp

text \<open>When every upload succeeds, a run that is not recorded returns.\<close>

lemma upload_named_returns: "(\<And>l d. \<exists>u. vp_put env l d = Inr u) \<Longrightarrow> \<exists>q v. upload_named env o' pre b f k r w = (Inr q, v)"
  unfolding upload_named_def act_bind_def put_file_def act_return_def
  by (smt (verit) old.sum.simps(6) split_conv)

lemma upload_plots_returns: "(\<And>l d. \<exists>u. vp_put env l d = Inr u) \<Longrightarrow> \<exists>d v. upload_plots env o' pre ps w = (Inr d, v)"
proof (induction ps arbitrary: w)
  case (Cons p ps)
  obtain name rel where p: "p = (name, rel)" by fastforce
  obtain u w1 where 1: "put_file env (report_path o' rel) (artifact_path pre rel) w = (Inr u, w1)"
    using Cons.prems[of "report_path o' rel" "artifact_path pre rel"] by (auto simp: put_file_def)
  obtain d v where "upload_plots env o' pre ps w1 = (Inr d, v)" using Cons.IH[OF Cons.prems] by blast
  then show ?case using 1 by (simp add: p act_bind_def act_return_def)
qed (simp add: act_return_def)

lemma run_validation_returns:
  assumes "\<And>l d. \<exists>u. vp_put env l d = Inr u" "prepare_run env o' = Inr p" "\<not> vo_record o'"
  shows "\<exists>r v. run_validation env o' w = (Inr r, v)"
proof -
  note up = upload_named_returns[OF assms(1)]
  obtain plots w1 where 1: "upload_plots env o' (pq_prefix p) (pq_plots p)
      (report_written o' (pq_json p) (gate_named o' (pq_report p)) (gate_written o' (pq_report p) w)) = (Inr plots, w1)"
    using upload_plots_returns[OF assms(1)] by blast
  obtain r2 w2 where 2: "upload_named env o' (pq_prefix p) (pq_json p) ''report.json'' ''report_json_uri'' (with_plots o' p plots)
      (gate_written o' (with_plots o' p plots) (report_written o' (pq_json p) (with_plots o' p plots) w1)) = (Inr r2, w2)" using up by blast
  obtain r3 w3 where 3: "upload_named env o' (pq_prefix p) (pq_html p) ''report.html'' ''report_html_uri'' r2 w2 = (Inr r3, w3)" using up by blast
  obtain r4 w4 where 4: "upload_named env o' (pq_prefix p) (vo_policy o' \<noteq> None) ''gate_report.json'' ''gate_report_uri'' r3 w3 = (Inr r4, w4)"
    using up by blast
  have pub: "publish_report env o' p w = (Inr r4, w4)"
    unfolding publish_report_def bind_writes Let_def with_plots_def[symmetric]
      act_bind_Inr[where m = "upload_plots env o' (pq_prefix p) (pq_plots p)", OF 1]
      act_bind_Inr[where m = "upload_named env o' (pq_prefix p) (pq_json p) ''report.json'' ''report_json_uri'' (with_plots o' p plots)", OF 2]
      act_bind_Inr[where m = "upload_named env o' (pq_prefix p) (pq_html p) ''report.html'' ''report_html_uri'' r2", OF 3] by (rule 4)
  obtain r5 w5 where 5: "upload_again env o' (pq_prefix p) (pq_json p) ''report.json'' ''report_json_uri'' r4
      (gate_written o' r4 (report_written o' (pq_json p) r4 w4)) = (Inr r5, w5)" unfolding upload_again_def using up by blast
  obtain r6 w6 where 6: "upload_again env o' (pq_prefix p) (pq_html p) ''report.html'' ''report_html_uri'' r5 w5 = (Inr r6, w6)"
    unfolding upload_again_def using up by blast
  have fin: "finish_report env o' p r4 w4 = (Inr r6, w6)"
    unfolding finish_report_def bind_writes
      act_bind_Inr[where m = "upload_again env o' (pq_prefix p) (pq_json p) ''report.json'' ''report_json_uri'' r4", OF 5] by (rule 6)
  have "run_validation env o' w = (Inr r6, w6)"
    using assms(2,3) pub fin by (simp add: run_validation_def record_run_def act_simps act_bind_def)
  then show ?thesis by blast
qed

lemma validation_files_agree_witness:
  "\<exists>r v. run_validation demo_pipe demo_run_options demo_pipe_world = (Inr r, v) \<and>
    map_of (pw_files v) ''/out/report.json'' = Some (quality_report_dict r) \<and> map_of (pw_store v) ''runs/r/report.json'' = Some (quality_report_dict r)"
proof -
  obtain p where p: "prepare_run demo_pipe demo_run_options = Inr p" "pq_json p" "pq_prefix p = ''runs/r''" using demo_prepared by blast
  have put: "vp_put demo_pipe l d = Inr (''s3://b/'' @ d)" for l d by (simp add: demo_pipe_def)
  obtain r v where v: "run_validation demo_pipe demo_run_options demo_pipe_world = (Inr r, v)"
    using run_validation_returns[OF _ p(1)] put by (fastforce simp: demo_run_options_def)
  have path: "report_path demo_run_options ''report.json'' = ''/out/report.json''" "artifact_path ''runs/r'' ''report.json'' = ''runs/r/report.json''"
    by code_simp+
  show ?thesis using v p(2,3) path validation_files_agree[OF v p(1)] put by (intro exI[of _ r] exI[of _ v]) simp
qed

text \<open>A scan of one data set without reports on disk.\<close>

definition quiet_options :: run_options where
  "quiet_options = demo_run_options\<lparr>vo_config := Some ''c'', vo_config_doc := Some (VDict [(''reports'',
     VDict [(''json'', VBool False), (''html'', VBool False), (''save_plots'', VBool False)])])\<rparr>"

definition demo_scan :: scan_options where
  "demo_scan = \<lparr>so_root = ''/raw'', so_root_uri = ''file:///raw'', so_children = Some [demo_child], so_output_root = ''/out'',
     so_use_registry = True, so_only_new = False, so_run = (\<lambda>d. quiet_options)\<rparr>"

definition demo_artifacts :: pydict where
  "demo_artifacts = [(''plots'', VDict []), (''artifact_store'', VStr ''s3''), (''artifact_prefix'', VStr ''runs/scan-d-20240501000000'')]"

abbreviation child_run :: run_options where
  "child_run \<equiv> child_options demo_scan_clock demo_scan 0 demo_child"

lemma child_prepared:
  "\<exists>p. prepare_run demo_pipe child_run = Inr p \<and> \<not> pq_json p \<and> \<not> pq_html p \<and> pq_plots p = [] \<and> pq_version p = ''v1'' \<and>
    bu_dataset_id (pq_dataset p) = ''d'' \<and> bu_meta (pq_dataset p) = [(''dataset_id'', VStr ''d'')] \<and> qy_artifacts (pq_report p) = demo_artifacts \<and>
    qy_gate (pq_report p) = no_gate \<and> qy_status (pq_report p) = ''PASS''"
  by (rule Inr_of_case) code_simp

lemma publish_quiet:
  "\<not> pq_json p \<Longrightarrow> \<not> pq_html p \<Longrightarrow> pq_plots p = [] \<Longrightarrow> vo_policy o' = None \<Longrightarrow>
    publish_report env o' p w = (Inr ((pq_report p)\<lparr>qy_artifacts := dict_set ''plots'' (VDict []) (qy_artifacts (pq_report p))\<rparr>), w)"
  by (simp add: publish_report_def bind_writes upload_named_def gate_named_def report_written_def gate_written_def act_simps)

lemma finish_quiet: "\<not> pq_json p \<Longrightarrow> \<not> pq_html p \<Longrightarrow> vo_policy o' = None \<Longrightarrow> finish_report env o' p r w = (Inr r, w)"
  by (simp add: finish_report_def bind_writes upload_again_def upload_named_def report_written_def gate_written_def act_simps)

lemma demo_items: "iter_artifacts demo_registry_env demo_artifacts = Inr []"
  by code_simp

lemma child_recorded:
  assumes "pq_version p = ''v1''" "bu_meta (pq_dataset p) = [(''dataset_id'', VStr ''d'')]" "qy_artifacts r = demo_artifacts" "qy_gate r = no_gate"
  shows "\<exists>i v. record_run demo_pipe child_run p r w = (Inr (r\<lparr>qy_registry := dict_set ''run_db_id'' (VInt i) (qy_registry r)\<rparr>), v)"
proof -
  have env: "ge_commit demo_registry_env = None" "ge_parse demo_registry_env t = Inr (Date 2024 5 1, 0)" "vp_registry demo_pipe = demo_registry_env"
    for t by (simp_all add: demo_registry_env_def demo_pipe_def)
  have "\<exists>x db. upsert_dataset demo_registry_env a (pw_registry w) = (Inr x, db)" for a
    by (cases "upsert_dataset_rows demo_registry_env a (rt_datasets (pw_registry w))") (simp add: upsert_dataset_def in_tx_def env)
  then have "\<exists>x w1. in_registry (upsert_dataset demo_registry_env a) w = (Inr x, w1)" for a
    unfolding in_registry_def by (metis split_conv)
  then have "\<exists>x w1. record_dataset demo_pipe p r w = (Inr x, w1)"
    by (simp add: record_dataset_def assms(2) act_simps text_column_def env Let_def)
  then obtain x w1 where 1: "record_dataset demo_pipe p r w = (Inr x, w1)" by blast
  have rr: "\<exists>a. report_run demo_registry_env r v c out = Inr a" for v c out
    by (simp add: report_run_def assms(3) demo_artifacts_def text_column_def)
  have cr: "\<exists>i db'. create_run_row demo_registry_env a db = Inr (i, db')" for a db
    by (simp add: create_run_row_def Let_def env)
  have "\<exists>i w2. in_registry (record_validation_run demo_registry_env r v c out) w1 = (Inr i, w2)" for v c out
  proof -
    obtain a where a: "report_run demo_registry_env r v c out = Inr a" using rr by blast
    obtain i db where c: "create_run_row demo_registry_env a (pw_registry w1) = Inr (i, db)" using cr by blast
    show ?thesis using a c
      by (simp add: in_registry_def record_validation_run_def in_tx_def validation_run_body_def env assms(3,4) demo_items no_gate_def text_column_def)
  qed
  then obtain i w2 where 2: "in_registry (record_validation_run demo_registry_env r (pq_version p) (vo_config child_run) (vo_output_dir child_run)) w1 = (Inr i, w2)"
    by blast
  have rec: "vo_record child_run" by (simp add: child_options_def demo_scan_def)
  show ?thesis using 1 2 by (intro exI[of _ i] exI[of _ w2]) (simp add: record_run_def rec env(3) act_bind_def act_return_def)
qed

lemma demo_scanned: "\<exists>s v. scan_datasets demo_scan_clock demo_scan demo_pipe_world = (Inr s, v) \<and> get s ''failed'' = VInt 0 \<and> get s ''total'' = VInt 1"
proof -
  obtain p where p: "prepare_run demo_pipe child_run = Inr p" "\<not> pq_json p" "\<not> pq_html p" "pq_plots p = []" "pq_version p = ''v1''"
    "bu_meta (pq_dataset p) = [(''dataset_id'', VStr ''d'')]" "qy_artifacts (pq_report p) = demo_artifacts"
    "qy_gate (pq_report p) = no_gate" "qy_status (pq_report p) = ''PASS''" using child_prepared by blast
  have policy: "vo_policy child_run = None" by (simp add: child_options_def demo_scan_def quiet_options_def demo_run_options_def)
  let ?q = "(pq_report p)\<lparr>qy_artifacts := demo_artifacts\<rparr>"
  have arts: "dict_set ''plots'' (VDict []) demo_artifacts = demo_artifacts" by (simp add: demo_artifacts_def)
  have pub: "publish_report demo_pipe child_run p demo_pipe_world = (Inr ?q, demo_pipe_world)"
    using publish_quiet[OF p(2,3,4) policy] p(7) arts by simp
  obtain i v where rec: "record_run demo_pipe child_run p ?q demo_pipe_world =
      (Inr (?q\<lparr>qy_registry := dict_set ''run_db_id'' (VInt i) (qy_registry ?q)\<rparr>), v)"
    using child_recorded[OF p(5,6), of ?q demo_pipe_world] p(8) by auto
  let ?r = "?q\<lparr>qy_registry := dict_set ''run_db_id'' (VInt i) (qy_registry ?q)\<rparr>"
  have run: "run_validation demo_pipe child_run demo_pipe_world = (Inr ?r, v)"
    using p(1) pub rec finish_quiet[OF p(2,3) policy] by (simp add: run_validation_def act_simps act_bind_def)
  have outcome: "merged_status (qy_status ?r) (get (qy_gate ?r) ''status'') = ''PASS''"
    using p(8,9) by (simp add: merged_status_def no_gate_def)
  have found: "discover_children (so_root demo_scan) (so_children demo_scan) = Inr [demo_child]"
    by (simp add: discover_children_def demo_scan_def demo_child_def)
  have scan: "scan_children demo_scan_clock demo_scan 0 [demo_child] no_tally demo_pipe_world = (Inr (tally_run demo_scan demo_child ?r no_tally), v)"
    using run by (simp add: act_bind_def act_return_def scan_dataset_def demo_scan_def demo_scan_clock_def split: prod.splits)
  have failed: "ty_failed (tally_run demo_scan demo_child ?r no_tally) = 0"
    using outcome by (simp add: tally_run_def Let_def no_tally_def split: prod.splits)
  have job: "\<exists>i v. in_registry (record_scan_job (sy_registry demo_scan_clock) a) w = (Inr i, v)" for a w
    by (simp add: in_registry_def record_scan_job_def in_tx_def Let_def demo_scan_clock_def demo_registry_env_def)
  obtain j v' where "in_registry (record_scan_job (sy_registry demo_scan_clock) (scan_job_of demo_scan_clock demo_scan [demo_child] (tally_run demo_scan demo_child ?r no_tally)))
      (v\<lparr>pw_files := dict_set (posix (so_output_root demo_scan) [''scan_summary.json''])
        (scan_summary demo_scan_clock [demo_child] (tally_run demo_scan demo_child ?r no_tally)) (pw_files v)\<rparr>) = (Inr j, v')"
    using job by blast
  moreover have "so_use_registry demo_scan" by (simp add: demo_scan_def)
  ultimately have "scan_datasets demo_scan_clock demo_scan demo_pipe_world =
      (Inr (scan_summary demo_scan_clock [demo_child] (tally_run demo_scan demo_child ?r no_tally)), v')"
    using found scan by (simp add: scan_datasets_def act_bind_def act_lift_def act_return_def write_doc_def act_modify_def)
  then show ?thesis using failed by (simp add: scan_summary_def)
qed

lemma scan_summary_correct_witness:
  "\<exists>s v. scan_datasets demo_scan_clock demo_scan demo_pipe_world = (Inr s, v) \<and> map_of (pw_files v) ''/out/scan_summary.json'' = Some s"
proof -
  obtain s v where v: "scan_datasets demo_scan_clock demo_scan demo_pipe_world = (Inr s, v)" using demo_scanned by blast
  moreover have "posix (so_output_root demo_scan) [''scan_summary.json''] = ''/out/scan_summary.json''" by code_simp
  ultimately show ?thesis using scan_summary_correct[OF v] by auto
qed

lemma demo_found_again: "discover_children (so_root demo_scan) (so_children demo_scan) = Inr ds \<Longrightarrow> ds = [demo_child]"
  by (simp add: discover_children_def demo_scan_def demo_child_def)

text \<open>The second scan returns, since it validates nothing.\<close>

lemma only_new_returns:
  assumes "has_successful_run ''d'' ''v1'' (pw_registry v)"
  shows "\<exists>s2 v2. scan_datasets demo_scan_clock (demo_scan\<lparr>so_only_new := True\<rparr>) v = (Inr s2, v2)"
proof -
  let ?o = "demo_scan\<lparr>so_only_new := True\<rparr>"
  have found: "discover_children (so_root ?o) (so_children ?o) = Inr [demo_child]"
    by (simp add: discover_children_def demo_scan_def demo_child_def)
  have id: "peek_dataset_identity demo_child = (''d'', ''v1'')" by code_simp
  have skip: "scan_children demo_scan_clock ?o 0 [demo_child] no_tally v = (Inr (tally_skip demo_child no_tally), v)"
    using assms by (simp add: act_bind_def act_return_def scan_dataset_def id)
  have job: "\<exists>i v. in_registry (record_scan_job (sy_registry demo_scan_clock) a) w = (Inr i, v)" for a w
    by (simp add: in_registry_def record_scan_job_def in_tx_def Let_def demo_scan_clock_def demo_registry_env_def)
  obtain j v' where "in_registry (record_scan_job (sy_registry demo_scan_clock) (scan_job_of demo_scan_clock ?o [demo_child] (tally_skip demo_child no_tally)))
      (v\<lparr>pw_files := dict_set (posix (so_output_root ?o) [''scan_summary.json''])
        (scan_summary demo_scan_clock [demo_child] (tally_skip demo_child no_tally)) (pw_files v)\<rparr>) = (Inr j, v')"
    using job by blast
  then show ?thesis
    using found skip by (simp add: scan_datasets_def act_bind_def act_lift_def act_return_def write_doc_def act_modify_def)
qed

lemma demo_scan_identity:
  assumes "d \<in> set [demo_child]" "prepare_run (sy_env demo_scan_clock i d) (child_options demo_scan_clock demo_scan i d) = Inr p"
  shows "(bu_dataset_id (pq_dataset p), pq_version p) = peek_dataset_identity d"
proof -
  have "child_options demo_scan_clock demo_scan i demo_child = child_run"
    by (simp add: child_options_def scan_run_id_def demo_scan_clock_def)
  then have "prepare_run demo_pipe child_run = Inr p" using assms by (simp add: demo_scan_clock_def)
  moreover have "peek_dataset_identity demo_child = (''d'', ''v1'')" by code_simp
  ultimately show ?thesis using child_prepared assms(1) by auto
qed

lemma demo_scan_registry: "so_use_registry demo_scan" "\<not> so_only_new demo_scan"
  by (simp_all add: demo_scan_def)

lemma demo_distinct: "\<forall>ds. discover_children (so_root demo_scan) (so_children demo_scan) = Inr ds \<longrightarrow>
    distinct (map (\<lambda>(i, d). scan_run_id demo_scan_clock i d) (enumerate 0 ds))"
  using demo_found_again by fastforce

lemma demo_identities: "\<forall>ds i d p. discover_children (so_root demo_scan) (so_children demo_scan) = Inr ds \<and> d \<in> set ds \<and>
    prepare_run (sy_env demo_scan_clock i d) (child_options demo_scan_clock demo_scan i d) = Inr p \<longrightarrow>
    (bu_dataset_id (pq_dataset p), pq_version p) = peek_dataset_identity d"
  using demo_scan_identity demo_found_again by blast

lemma demo_success:
  assumes "scan_datasets demo_scan_clock demo_scan demo_pipe_world = (Inr s, v)" "get s ''failed'' = VInt 0"
  shows "has_successful_run ''d'' ''v1'' (pw_registry v)"
proof -
  have "peek_dataset_identity demo_child = (''d'', ''v1'')" by code_simp
  then show ?thesis
    using first_scan_successes[OF assms(1) demo_scan_registry assms(2) demo_distinct demo_identities] demo_found_again by fastforce
qed

lemma second_scan_skips_witness:
  "\<exists>s v s2 v2. scan_datasets demo_scan_clock demo_scan demo_pipe_world = (Inr s, v) \<and>
    scan_datasets demo_scan_clock (demo_scan\<lparr>so_only_new := True\<rparr>) v = (Inr s2, v2) \<and> get s2 ''skipped'' = VInt 1"
proof -
  obtain s v where v: "scan_datasets demo_scan_clock demo_scan demo_pipe_world = (Inr s, v)" "get s ''failed'' = VInt 0" "get s ''total'' = VInt 1"
    using demo_scanned by blast
  obtain s2 v2 where v2: "scan_datasets demo_scan_clock (demo_scan\<lparr>so_only_new := True\<rparr>) v = (Inr s2, v2)"
    using only_new_returns[OF demo_success[OF v(1,2)]] by blast
  have "get s2 ''skipped'' = get s ''total''"
    using second_scan_skips[OF v(1) demo_scan_registry v(2) demo_distinct demo_identities v2] by simp
  then show ?thesis using v v2 by auto
qed

end
