(* ===== verification/Spec2Isabelle.thy ===== *)
theory Spec2Isabelle
  imports Partition_Planner Shard_Runner Inference_Run Sql_Runner Gate Qc Sla Backfill Checkpoints Heartbeats Warehouse_Passes Distill Metadata_Guarantees Etl_Guarantees Validation_Guarantees
begin

text \<open>
  A verification library for the robot data harness (\<^verbatim>\<open>src/robot_dh\<close>): a data platform that takes raw
  robot data sets through ETL, quality control, warehouse tables, training exports and offline inference.
  The library translates the decision logic of the platform: what is planned, in which order it runs, how
  errors and retries are handled, what is counted and what is written. The numerical code, which works on
  pandas, numpy and parquet, and the calls of services are left out or are parameters.

  \<^bold>\<open>Parts and theories.\<close>
  \<^item> \<^verbatim>\<open>Prelude\<close>, \<^verbatim>\<open>Py_Values\<close>: results and errors, actions on a state, dictionaries and the locale
    \<open>keyed_table\<close>, strings; the dynamic values of JSON, YAML and rows with the operations of Python on them.
  \<^item> \<^verbatim>\<open>Lake_Uri\<close> (\<^verbatim>\<open>lake/uri.py\<close>): parsing and joining of \<open>s3://\<close> and local addresses, and the segments
    they stand for. \<^verbatim>\<open>Lake_Env\<close>: the choice of a store. \<^verbatim>\<open>Lake_Store\<close> (\<^verbatim>\<open>lake/store.py\<close>): both stores,
    with the transfer of directories. \<^verbatim>\<open>Json_Docs\<close> (\<^verbatim>\<open>sharding/io.py\<close>): JSON documents by address.
    \<^verbatim>\<open>Checkpoints\<close> (\<^verbatim>\<open>lake/manifest.py\<close>, \<^verbatim>\<open>progress/checkpoint.py\<close>): manifests and resumption.
  \<^item> \<^verbatim>\<open>Packing\<close>: bin packing as a fold and the contract of a packer (a locale), of which both planners are
    instances: \<^verbatim>\<open>Partition_Planner\<close> (\<^verbatim>\<open>partition/planner.py\<close>) and \<^verbatim>\<open>Shard_Planner\<close>
    (\<^verbatim>\<open>sharding/planner.py\<close>). \<^verbatim>\<open>Shard_Runner\<close> (\<^verbatim>\<open>sharding/shard_runner.py\<close>,
    \<^verbatim>\<open>sharding/merge.py\<close>) runs a shard, one data set at a time or as a pool, and merges the summaries.
  \<^item> \<^verbatim>\<open>Job_State\<close>, \<^verbatim>\<open>Model_Registry\<close>, \<^verbatim>\<open>Model_Backends\<close>, \<^verbatim>\<open>Inference_Data\<close>, \<^verbatim>\<open>Inference_Run\<close>
    (\<^verbatim>\<open>ai_tasks/\<close>, \<^verbatim>\<open>models/\<close>, \<^verbatim>\<open>inference/\<close>, \<^verbatim>\<open>runtime/\<close>, \<^verbatim>\<open>warehouse/service.py\<close>): the state machine of a task, the model
    registry with its file and its database, the back ends with retries, samples, metrics, and a whole
    inference run with its events and rows.
  \<^item> \<^verbatim>\<open>Dates\<close>, \<^verbatim>\<open>Sql_Runner\<close> (\<^verbatim>\<open>warehouse_metrics/dates.py\<close>, \<^verbatim>\<open>sql_runner.py\<close>): build windows and the
    rendering, splitting and execution of SQL templates.
  \<^item> \<^verbatim>\<open>Gate\<close>, \<^verbatim>\<open>Qc\<close> (\<^verbatim>\<open>gate/\<close>, \<^verbatim>\<open>qc/\<close>): the quality gate and the data contracts.
  \<^item> \<^verbatim>\<open>Warehouse_Rows\<close> (\<^verbatim>\<open>warehouse/models.py\<close>), \<^verbatim>\<open>Sla\<close>, \<^verbatim>\<open>Shell_Words\<close>, \<^verbatim>\<open>Backfill\<close>
    (\<^verbatim>\<open>quality_ops/\<close>): rows of the warehouse, SLA checks, and the planning and running of back-fills.
  \<^item> \<^verbatim>\<open>Upserts\<close>, \<^verbatim>\<open>Warehouse_Tables\<close>, \<^verbatim>\<open>Warehouse_Facts\<close>, \<^verbatim>\<open>Warehouse_Daily\<close>, \<^verbatim>\<open>Warehouse_Ops\<close>,
    \<^verbatim>\<open>Warehouse_Inference\<close>, \<^verbatim>\<open>Warehouse_Dashboards\<close>, \<^verbatim>\<open>Warehouse_Build\<close>, \<^verbatim>\<open>Warehouse_Passes\<close>
    (\<^verbatim>\<open>warehouse_metrics/builder.py\<close>): the build of the warehouse. The tables are a record \<open>wh_db\<close>; on SQLite a
    build is twelve passes over it, from the sources to the dimension and the facts, from these to the daily
    aggregates and from these to the dashboards; on PostgreSQL it runs the templates. Each aggregate has a
    reference definition that computes a row from the facts of its key. \<^verbatim>\<open>Warehouse_Passes\<close> shows that
    the build keeps the primary keys, can be repeated, and carries facts through to alerts.
  \<^item> \<^verbatim>\<open>Heartbeats\<close> (\<^verbatim>\<open>progress/\<close>): the heartbeat reporter, the progress logger and stale heartbeats.

  \<^bold>\<open>How the code is read.\<close> A class is a record, an enumeration a datatype, a method a function that takes
  the state and returns the next one; an exception is the \<open>Inl\<close> of a result, and code that changes state
  before it raises is an action \<open>'s \<Rightarrow> 'a result \<times> 's\<close>. Texts are the bytes of their UTF-8 form, dictionaries
  are association lists in insertion order, floats are rationals (rounding of float arithmetic, infinities
  and NaN are not modelled). The texts of messages are shortened. What is outside the repository is an
  argument of the definitions: clocks and fresh identifiers, digests, HTTP answers, parsers of YAML, JSON
  and ISO times, parquet metadata, processes. Writes to the database succeed unless a definition says
  otherwise. Loops are structural recursions over the list they consume; where the code loops until a
  condition, a measure is given and no fuel is used.

  \<^bold>\<open>Interfaces.\<close> \<open>keyed_table\<close> (everything read and upserted by key), the packers, \<open>lake_backend\<close> (a store
  reads what was last written at an address), \<open>rate_limited\<close> (reporter and logger), \<open>repeatable\<close> and
  \<open>overwriting\<close> (what an upsert does to a column), \<open>table_pass\<close> (a pass of the build) and the further locales
  of the component theories are interpreted on the definitions of the model, and the properties rest on
  those interpretations.

  \<^bold>\<open>Not modelled.\<close> The numerical ETL and validators, rendering of reports, argument parsing, HTTP routes,
  dataset adapters, Spark programs, and the glue around Kubernetes, Argo and Docker: they transform frames
  or call services, and hold no decision that could be stated without modelling those libraries.
\<close>

end
